(* ===== verification/MM_Prelude.thy ===== *)
theory MM_Prelude
  imports Main "HOL-Library.Monad_Syntax"
begin

text \<open>
  Shared vocabulary of the development: the exception monad that models a JavaScript
  computation which may throw, the row tables that stand for the database, and the generic
  facts on them that the component theories rest on.

  \<^item> \<open>'e + 'a\<close> is a computation: \<open>Inl e\<close> is a thrown exception, \<open>Inr a\<close> a normal return;
    \<open>throws_bind\<close> sequences two of them.
  \<^item> A table is the list of its rows in insertion order. \<open>tbl_create\<close> is an insert under a unique
    index (\<open>None\<close> is the unique-violation error, Prisma's P2002), \<open>tbl_find\<close> a lookup by that
    index, \<open>tbl_update\<close> an update of the rows a predicate selects, \<open>tbl_count\<close> the number
    of rows such an update touches.
  \<^item> The locale \<open>unique_index\<close> states what the services rely on when they claim a key
    (find, then create, then handle the unique violation), and proves the consequences once.
\<close>

named_theorems check_simps \<open>facts that read a list of validation issues\<close>
named_theorems row_simps \<open>facts that read a table of rows after an operation\<close>


section \<open>Computations that may throw\<close>

definition throws_bind :: "'e + 'a \<Rightarrow> ('a \<Rightarrow> 'e + 'b) \<Rightarrow> 'e + 'b" where
  "throws_bind m f = (case m of Inl e \<Rightarrow> Inl e | Inr a \<Rightarrow> f a)"

lemma throws_bind_simps [simp]:
  "throws_bind (Inl e) f = Inl e"
  "throws_bind (Inr a) f = f a"
  by (simp_all add: throws_bind_def)

lemma throws_bind_Inr_iff:
  "throws_bind m f = Inr b \<longleftrightarrow> (\<exists>a. m = Inr a \<and> f a = Inr b)"
  by (cases m) simp_all

lemma throws_bind_Inl_iff:
  "throws_bind m f = Inl e \<longleftrightarrow> m = Inl e \<or> (\<exists>a. m = Inr a \<and> f a = Inl e)"
  by (cases m) auto

lemma throws_bind_split:
  "P (throws_bind m f) \<longleftrightarrow> (\<forall>e. m = Inl e \<longrightarrow> P (Inl e)) \<and> (\<forall>a. m = Inr a \<longrightarrow> P (f a))"
  by (cases m) simp_all

text \<open>\<open>throws_map f xs\<close> runs \<open>f\<close> over a list from the left and stops at the first exception.\<close>

fun throws_map :: "('a \<Rightarrow> 'e + 'b) \<Rightarrow> 'a list \<Rightarrow> 'e + 'b list" where
  "throws_map f [] = Inr []"
| "throws_map f (x # xs) =
     throws_bind (f x) (\<lambda>y. throws_bind (throws_map f xs) (\<lambda>ys. Inr (y # ys)))"

lemma throws_map_cong [fundef_cong]:
  "xs = ys \<Longrightarrow> (\<And>x. x \<in> set ys \<Longrightarrow> f x = g x) \<Longrightarrow> throws_map f xs = throws_map g ys"
  by (induction xs arbitrary: ys) (auto simp: throws_bind_def split: sum.splits)

lemma throws_map_Inr_map:
  "(\<And>x. x \<in> set xs \<Longrightarrow> f x = Inr (g x)) \<Longrightarrow> throws_map f xs = Inr (map g xs)"
  by (induction xs) auto


section \<open>Tables of rows\<close>

definition tbl_find :: "('r \<Rightarrow> 'k) \<Rightarrow> 'k \<Rightarrow> 'r list \<Rightarrow> 'r option" where
  "tbl_find key k t = List.find (\<lambda>r. key r = k) t"

definition tbl_create :: "('r \<Rightarrow> 'k) \<Rightarrow> 'r \<Rightarrow> 'r list \<Rightarrow> 'r list option" where
  "tbl_create key r t = (if tbl_find key (key r) t = None then Some (t @ [r]) else None)"

definition tbl_update :: "('r \<Rightarrow> bool) \<Rightarrow> ('r \<Rightarrow> 'r) \<Rightarrow> 'r list \<Rightarrow> 'r list" where
  "tbl_update P f t = map (\<lambda>r. if P r then f r else r) t"

definition tbl_count :: "('r \<Rightarrow> bool) \<Rightarrow> 'r list \<Rightarrow> nat" where
  "tbl_count P t = length (filter P t)"

lemma tbl_find_None_iff [row_simps]: "tbl_find key k t = None \<longleftrightarrow> (\<forall>r \<in> set t. key r \<noteq> k)"
  by (auto simp: tbl_find_def find_None_iff)

lemma tbl_find_SomeD: "tbl_find key k t = Some r \<Longrightarrow> r \<in> set t \<and> key r = k"
  unfolding tbl_find_def by (metis (mono_tags, lifting) find_Some_iff nth_mem)

lemma tbl_find_Some_iff_distinct:
  "distinct (map key t) \<Longrightarrow> tbl_find key k t = Some r \<longleftrightarrow> r \<in> set t \<and> key r = k"
  by (induction t) (auto simp: tbl_find_def)

lemma tbl_find_append [row_simps]:
  "tbl_find key k (t @ u) = (case tbl_find key k t of None \<Rightarrow> tbl_find key k u | Some r \<Rightarrow> Some r)"
  by (induction t) (auto simp: tbl_find_def)

lemma tbl_find_simps [simp]:
  "tbl_find key k [] = None"
  "tbl_find key k (r # t) = (if key r = k then Some r else tbl_find key k t)"
  by (simp_all add: tbl_find_def)

lemma tbl_create_Some_iff:
  "tbl_create key r t = Some u \<longleftrightarrow> tbl_find key (key r) t = None \<and> u = t @ [r]"
  by (auto simp: tbl_create_def)

lemma tbl_create_distinct:
  "tbl_create key r t = Some u \<Longrightarrow> distinct (map key t) \<Longrightarrow> distinct (map key u)"
  by (auto simp: tbl_create_Some_iff tbl_find_None_iff)

lemma tbl_update_key [row_simps]:
  "(\<And>r. key (f r) = key r) \<Longrightarrow> map key (tbl_update P f t) = map key t"
  by (simp add: tbl_update_def)

lemma tbl_find_update:
  assumes "\<And>r. key (f r) = key r"
  shows "tbl_find key k (tbl_update P f t) =
    map_option (\<lambda>r. if P r then f r else r) (tbl_find key k t)"
  using assms by (induction t) (auto simp: tbl_update_def)

lemma set_tbl_update: "set (tbl_update P f t) = (\<lambda>r. if P r then f r else r) ` set t"
  by (simp add: tbl_update_def)

lemma tbl_update_none: "(\<And>r. r \<in> set t \<Longrightarrow> \<not> P r) \<Longrightarrow> tbl_update P f t = t"
  by (simp add: tbl_update_def map_idI)

lemma tbl_count_0_iff [row_simps]: "tbl_count P t = 0 \<longleftrightarrow> (\<forall>r \<in> set t. \<not> P r)"
  by (simp add: tbl_count_def filter_empty_conv)


section \<open>The contract of a unique index\<close>

text \<open>
  The services claim a key in one way: look the key up; if a row is there, the request is a
  replay; otherwise create the row, and treat a unique violation as a lost race. The locale
  states the laws of a table under which this is safe.
\<close>

locale unique_index =
  fixes key :: "'r \<Rightarrow> 'k"
    and find :: "'k \<Rightarrow> 't \<Rightarrow> 'r option"
    and create :: "'r \<Rightarrow> 't \<Rightarrow> 't option"
  assumes find_key: "find k t = Some r \<Longrightarrow> key r = k"
    and create_fresh: "find (key r) t = None \<Longrightarrow> \<exists>u. create r t = Some u"
    and create_taken: "find (key r) t = Some s \<Longrightarrow> create r t = None"
    and find_created: "create r t = Some u \<Longrightarrow> find (key r) u = Some r"
    and find_other: "create r t = Some u \<Longrightarrow> k \<noteq> key r \<Longrightarrow> find k u = find k t"
begin

definition claim :: "'r \<Rightarrow> 't \<Rightarrow> 'r \<times> 't" where
  "claim r t = (case find (key r) t of
      Some s \<Rightarrow> (s, t)
    | None \<Rightarrow> (case create r t of Some u \<Rightarrow> (r, u) | None \<Rightarrow> (r, t)))"

lemma create_Some_find_None: "create r t = Some u \<Longrightarrow> find (key r) t = None"
  by (cases "find (key r) t") (auto dest: create_taken)

lemma claim_holds: "find (key r) (snd (claim r t)) = Some (fst (claim r t))"
proof (cases "find (key r) t")
  case None
  then obtain u where "create r t = Some u" using create_fresh by blast
  with None show ?thesis by (simp add: claim_def find_created)
next
  case (Some s)
  then show ?thesis by (simp add: claim_def)
qed

lemma claim_again:
  assumes "key q = key r"
  shows "claim q (snd (claim r t)) = (fst (claim r t), snd (claim r t))"
  using assms claim_holds [of r t] unfolding claim_def [of q] by simp

lemma claim_frame: "k \<noteq> key r \<Longrightarrow> find k (snd (claim r t)) = find k t"
  by (auto simp: claim_def find_other split: option.splits)

lemma created_row_stays:
  assumes "find k t = Some s" and "create r t = Some u"
  shows "find k u = Some s"
proof (cases "k = key r")
  case True
  with assms show ?thesis by (auto dest: create_Some_find_None)
next
  case False
  with assms show ?thesis by (simp add: find_other)
qed

end

text \<open>Every table of the models is a list of rows; its unique index meets the contract.\<close>

lemma list_table_unique_index: "unique_index key (tbl_find key) (tbl_create key)"
  by unfold_locales
    (auto simp: tbl_create_def tbl_find_append dest: tbl_find_SomeD split: option.splits if_splits)


section \<open>Invariants of step functions\<close>

text \<open>
  A component whose operations are a function from state and event to state: an invariant kept
  by one operation holds after any sequence of them.
\<close>

locale step_invariant =
  fixes step :: "'s \<Rightarrow> 'e \<Rightarrow> 's"
    and inv :: "'s \<Rightarrow> bool"
    and ok :: "'e \<Rightarrow> bool"
  assumes step_inv: "inv s \<Longrightarrow> ok e \<Longrightarrow> inv (step s e)"
begin

lemma run_inv: "inv s \<Longrightarrow> (\<And>e. e \<in> set es \<Longrightarrow> ok e) \<Longrightarrow> inv (foldl step s es)"
  by (induction es arbitrary: s) (auto intro: step_inv)

end

text \<open>
  The second shape of a history property: a relation between the state before and after, kept
  by every operation, reflexive and transitive (a version that only grows, a row that stays).
\<close>

locale step_order = step_invariant +
  fixes le :: "'a \<Rightarrow> 'a \<Rightarrow> bool"
  assumes le_refl: "le s s"
    and le_trans: "le s t \<Longrightarrow> le t u \<Longrightarrow> le s u"
    and step_le: "inv s \<Longrightarrow> ok e \<Longrightarrow> le s (step s e)"
begin

lemma run_le: "inv s \<Longrightarrow> (\<And>e. e \<in> set es \<Longrightarrow> ok e) \<Longrightarrow> le s (foldl step s es)"
proof (induction es arbitrary: s)
  case Nil
  show ?case by (simp add: le_refl)
next
  case (Cons e es)
  then have "le s (step s e)" and "inv (step s e)" by (auto intro: step_le step_inv)
  with Cons show ?case by (auto intro: le_trans)
qed

end

end
