(* ===== verification/Json.thy ===== *)
theory Json
  imports MM_Prelude Complex_Main
begin

text \<open>
  The values that reach the validators (\<open>unknown\<close> in the TypeScript) and the JavaScript
  operations the validators use on them.

  \<^item> \<open>json\<close> is a JavaScript value as \<open>JSON.parse\<close> produces it, with \<open>JUndef\<close> for the value of a
    property that is absent. Numbers are the finite doubles, which are rationals. A string is
    the list of its code units; the model is limited to code units below 256.
  \<^item> An object is the list of its own properties in their order.
  \<^item> \<open>jget\<close> is property access on a value that was checked to be an object, \<open>js_eq\<close> is \<open>===\<close>
    (two objects read from different documents are never the same reference).
  \<^item> Issues are what a validator reports: an error code, a field path, the retryable flag.
    The human-readable message is not modelled: no code reads it.
\<close>


section \<open>Values\<close>

datatype json =
    JNull
  | JUndef
  | JBool bool
  | JNum rat
  | JStr string
  | JArr "json list"
  | JObj "(string \<times> json) list"

fun jget :: "json \<Rightarrow> string \<Rightarrow> json" where
  "jget (JObj kvs) k = (case map_of kvs k of None \<Rightarrow> JUndef | Some v \<Rightarrow> v)"
| "jget _ k = JUndef"

fun jkeys :: "json \<Rightarrow> string list" where
  "jkeys (JObj kvs) = map fst kvs"
| "jkeys _ = []"

fun isRecord :: "json \<Rightarrow> bool" where
  "isRecord (JObj _) = True"
| "isRecord _ = False"

fun isArray :: "json \<Rightarrow> bool" where
  "isArray (JArr _) = True"
| "isArray _ = False"

fun jelems :: "json \<Rightarrow> json list" where
  "jelems (JArr xs) = xs"
| "jelems _ = []"

fun jstr :: "json \<Rightarrow> string" where
  "jstr (JStr s) = s"
| "jstr _ = []"

fun js_is_string :: "json \<Rightarrow> bool" where
  "js_is_string (JStr _) = True"
| "js_is_string _ = False"

fun js_is_bool :: "json \<Rightarrow> bool" where
  "js_is_bool (JBool _) = True"
| "js_is_bool _ = False"

text \<open>Strict equality. Objects and arrays compare by reference, so two documents never agree.\<close>

fun js_eq :: "json \<Rightarrow> json \<Rightarrow> bool" where
  "js_eq (JObj _) _ = False"
| "js_eq (JArr _) _ = False"
| "js_eq v w = (v = w)"

fun js_prim :: "json \<Rightarrow> bool" where
  "js_prim (JObj _) = False"
| "js_prim (JArr _) = False"
| "js_prim _ = True"

lemma js_eq_iff: "js_eq v w \<longleftrightarrow> js_prim v \<and> v = w"
  by (cases v) auto

lemma js_eq_lit [simp]:
  "js_eq v (JStr s) \<longleftrightarrow> v = JStr s"
  "js_eq v JNull \<longleftrightarrow> v = JNull"
  "js_eq v (JBool b) \<longleftrightarrow> v = JBool b"
  "js_eq v (JNum n) \<longleftrightarrow> v = JNum n"
  by (auto simp: js_eq_iff)

lemma isRecord_iff: "isRecord v \<longleftrightarrow> (\<exists>kvs. v = JObj kvs)"
  by (cases v) auto

lemma isArray_iff: "isArray v \<longleftrightarrow> (\<exists>xs. v = JArr xs)"
  by (cases v) auto

lemma jget_isRecord: "jget v k \<noteq> JUndef \<Longrightarrow> isRecord v"
  by (cases v) auto


section \<open>Well-formed documents\<close>

text \<open>What \<open>JSON.parse\<close> guarantees: no undefined value, and distinct property names.\<close>

fun jwf :: "json \<Rightarrow> bool" where
  "jwf JUndef = False"
| "jwf (JArr xs) = list_all jwf xs"
| "jwf (JObj kvs) = (distinct (map fst kvs) \<and> list_all (\<lambda>kv. jwf (snd kv)) kvs)"
| "jwf _ = True"

lemma jwf_jget: "jwf v \<Longrightarrow> jget v k = JUndef \<or> jwf (jget v k)"
  by (cases v) (auto simp: list_all_iff split: option.splits dest: map_of_SomeD)


section \<open>Strings and numbers\<close>

text \<open>White space of \<open>String.prototype.trim\<close> below code unit 256.\<close>

definition js_space :: "char \<Rightarrow> bool" where
  "js_space c = (let n = (of_char c :: nat) in n \<in> {9, 10, 11, 12, 13, 32, 160})"

definition js_trim :: "string \<Rightarrow> string" where
  "js_trim s = rev (dropWhile js_space (rev (dropWhile js_space s)))"

fun isNonEmptyString :: "json \<Rightarrow> bool" where
  "isNonEmptyString (JStr s) = (js_trim s \<noteq> [])"
| "isNonEmptyString _ = False"

definition js_isInteger :: "rat \<Rightarrow> bool" where
  "js_isInteger r = (of_int \<lfloor>r\<rfloor> = r)"

fun isInteger :: "json \<Rightarrow> bool" where
  "isInteger (JNum r) = js_isInteger r"
| "isInteger _ = False"

fun jnum :: "json \<Rightarrow> rat" where
  "jnum (JNum r) = r"
| "jnum _ = 0"

definition isPositiveInteger :: "json \<Rightarrow> bool" where
  "isPositiveInteger v = (isInteger v \<and> jnum v > 0)"

lemma js_isInteger_numeral [simp]:
  "js_isInteger 0" "js_isInteger 1" "js_isInteger (numeral n)"
  "js_isInteger (of_int i)"
  by (simp_all add: js_isInteger_def)

lemma isNonEmptyString_D: "isNonEmptyString v \<Longrightarrow> \<exists>s. v = JStr s \<and> js_trim s \<noteq> []"
  by (cases v) auto

lemma isInteger_D: "isInteger v \<Longrightarrow> \<exists>i. v = JNum (of_int i)"
  by (cases v) (auto simp: js_isInteger_def intro: exI [where x = "\<lfloor>jnum v\<rfloor>"])

lemma isPositiveInteger_D:
  assumes "isPositiveInteger v"
  obtains i :: int where "v = JNum (of_int i)" and "0 < i"
  using assms isInteger_D [of v] by (auto simp: isPositiveInteger_def)

text \<open>Regular expressions of fixed shape: one character class per position.\<close>

definition char_between :: "nat \<Rightarrow> nat \<Rightarrow> char \<Rightarrow> bool" where
  "char_between lo hi c = (lo \<le> (of_char c :: nat) \<and> (of_char c :: nat) \<le> hi)"

definition is_digit :: "char \<Rightarrow> bool" where
  "is_digit c = char_between 48 57 c"

definition is_lower_hex :: "char \<Rightarrow> bool" where
  "is_lower_hex c = (char_between 48 57 c \<or> char_between 97 102 c)"

definition is_hex :: "char \<Rightarrow> bool" where
  "is_hex c = (char_between 48 57 c \<or> char_between 97 102 c \<or> char_between 65 70 c)"

definition shape_matches :: "(char \<Rightarrow> bool) list \<Rightarrow> string \<Rightarrow> bool" where
  "shape_matches ps s = list_all2 (\<lambda>p c. p c) ps s"

text \<open>\<open>UUID_PATTERN\<close>: groups of 8, 4, 4, 4 and 12 hex digits of either case.\<close>

definition UUID_PATTERN :: "(char \<Rightarrow> bool) list" where
  "UUID_PATTERN =
     replicate 8 is_hex @ (\<lambda>c. c = CHR ''-'') # replicate 4 is_hex @ (\<lambda>c. c = CHR ''-'') #
     replicate 4 is_hex @ (\<lambda>c. c = CHR ''-'') # replicate 4 is_hex @ (\<lambda>c. c = CHR ''-'') #
     replicate 12 is_hex"

definition SHA256_PATTERN :: "string \<Rightarrow> bool" where
  "SHA256_PATTERN s = (length s = 64 \<and> list_all is_lower_hex s)"

fun isUuid :: "json \<Rightarrow> bool" where
  "isUuid (JStr s) = shape_matches UUID_PATTERN s"
| "isUuid _ = False"

fun isSha256 :: "json \<Rightarrow> bool" where
  "isSha256 (JStr s) = SHA256_PATTERN s"
| "isSha256 _ = False"

lemma isUuid_D: "isUuid v \<Longrightarrow> \<exists>s. v = JStr s \<and> length s = 36"
  by (cases v)
    (auto simp: shape_matches_def UUID_PATTERN_def dest: list_all2_lengthD)

lemma isSha256_D: "isSha256 v \<Longrightarrow> \<exists>s. v = JStr s \<and> length s = 64"
  by (cases v) (auto simp: SHA256_PATTERN_def)

lemma string_checks_prim:
  "isUuid v \<Longrightarrow> js_prim v" "isSha256 v \<Longrightarrow> js_prim v"
  "isNonEmptyString v \<Longrightarrow> js_prim v" "isInteger v \<Longrightarrow> js_prim v"
  by (cases v; simp)+

definition js_includes :: "string list \<Rightarrow> json \<Rightarrow> bool" where
  "js_includes xs v = list_ex (\<lambda>x. v = JStr x) xs"

lemma js_includes_simps [simp]:
  "js_includes [] v \<longleftrightarrow> False"
  "js_includes (x # xs) v \<longleftrightarrow> v = JStr x \<or> js_includes xs v"
  by (auto simp: js_includes_def)


section \<open>Issues and validation results\<close>

record 'c issue =
  i_code :: 'c
  i_field :: string
  i_retryable :: bool

record 'c validation =
  valid :: bool
  issues :: "'c issue list"

definition issue_of :: "'c \<Rightarrow> string \<Rightarrow> 'c issue" where
  "issue_of c f = \<lparr>i_code = c, i_field = f, i_retryable = False\<rparr>"

text \<open>\<open>ensure ok c f\<close> is \<open>if (!ok) addIssue(issues, c, f, \<dots>)\<close>.\<close>

definition ensure :: "bool \<Rightarrow> 'c \<Rightarrow> string \<Rightarrow> 'c issue list" where
  "ensure ok c f = (if ok then [] else [issue_of c f])"

definition ensure_each :: "(json \<Rightarrow> bool) \<Rightarrow> json \<Rightarrow> string list \<Rightarrow> 'c \<Rightarrow> string \<Rightarrow> 'c issue list" where
  "ensure_each p v fs c prefix =
     concat (map (\<lambda>f. ensure (p (jget v f)) c (prefix @ f)) fs)"

definition result_of :: "'c issue list \<Rightarrow> 'c validation" where
  "result_of is = \<lparr>valid = (is = []), issues = is\<rparr>"

definition firstIssue :: "'c \<Rightarrow> string \<Rightarrow> 'c validation" where
  "firstIssue c f = \<lparr>valid = False, issues = [issue_of c f]\<rparr>"

definition valid_result :: "'c validation" where
  "valid_result = \<lparr>valid = True, issues = []\<rparr>"

text \<open>The loop that returns the first result that is not valid.\<close>

fun first_invalid :: "'c validation list \<Rightarrow> 'c validation option" where
  "first_invalid [] = None"
| "first_invalid (r # rs) = (if valid r then first_invalid rs else Some r)"

definition extra_fields :: "string list \<Rightarrow> json \<Rightarrow> string list" where
  "extra_fields allowed v = filter (\<lambda>k. k \<notin> set allowed) (jkeys v)"

lemma ensure_Nil_iff [simp, check_simps]: "ensure ok c f = [] \<longleftrightarrow> ok"
  by (simp add: ensure_def)

lemma ensure_Nil_iff' [simp]: "[] = ensure ok c f \<longleftrightarrow> ok"
  by (simp add: ensure_def)

lemma ensure_True [simp]: "ensure True c f = []"
  by (simp add: ensure_def)

lemma ensure_each_Nil_iff [simp, check_simps]:
  "ensure_each p v fs c prefix = [] \<longleftrightarrow> (\<forall>f \<in> set fs. p (jget v f))"
  by (auto simp: ensure_each_def)

lemma valid_simps [simp, check_simps]:
  "valid (result_of is) \<longleftrightarrow> is = []"
  "\<not> valid (firstIssue c f)"
  "valid valid_result"
  "issues (result_of is) = is"
  "issues (firstIssue c f) = [issue_of c f]"
  by (simp_all add: result_of_def firstIssue_def valid_result_def)

lemma issue_of_simps [simp]:
  "i_code (issue_of c f) = c" "i_field (issue_of c f) = f"
  by (simp_all add: issue_of_def)

lemma first_invalid_None_iff [simp, check_simps]:
  "first_invalid rs = None \<longleftrightarrow> (\<forall>r \<in> set rs. valid r)"
  by (induction rs) auto

lemma first_invalid_SomeD: "first_invalid rs = Some r \<Longrightarrow> r \<in> set rs \<and> \<not> valid r"
  by (induction rs) (auto split: if_splits)

lemma extra_fields_Nil_iff [check_simps]:
  "extra_fields allowed v = [] \<longleftrightarrow> set (jkeys v) \<subseteq> set allowed"
  by (auto simp: extra_fields_def filter_empty_conv)

end
