(* ===== verification/Js_Time.thy ===== *)
theory Js_Time
  imports Json
begin

text \<open>
  Instants, calendar dates and the \<open>Date\<close> operations the code uses. An instant is a number of
  milliseconds since 1970-01-01T00:00:00Z.

  \<^item> The calendar arithmetic (\<open>DayFromYear\<close>, \<open>MakeDay\<close>, \<open>YearFromDay\<close>) is that of the
    ECMAScript specification; \<open>year_of_day_bounds\<close> and \<open>civil_of_day_make_day\<close> show that it
    inverts.
  \<^item> \<open>js_date_parse\<close> is \<open>Date.parse\<close> on the ECMAScript date-time format as V8 reads it (a day of
    month up to 31 in every month, any number of fraction digits); a string outside that
    format goes to \<open>env_legacy_date\<close>, the implementation-defined fallback.
  \<^item> The environment also holds what the repository takes from outside: the UTC offset of
    Africa/Cairo (the IANA time zone data), the digests of \<open>node:crypto\<close>, the URL parser, the
    collation order and the number printer of the JavaScript runtime.
\<close>


section \<open>The environment\<close>

record js_env =
  env_legacy_date :: "string \<Rightarrow> int option"
  env_local_offset :: "int \<Rightarrow> int"
  env_cairo_offset :: "int \<Rightarrow> int"
  env_sha256 :: "string \<Rightarrow> string"
  env_hmac :: "string \<Rightarrow> string \<Rightarrow> string"
  env_url :: "string \<Rightarrow> (string \<times> string) option"
  env_collate :: "string \<Rightarrow> string \<Rightarrow> bool"
  env_num :: "rat \<Rightarrow> string"


section \<open>Calendar days\<close>

definition DayFromYear :: "int \<Rightarrow> int" where
  "DayFromYear y =
     365 * (y - 1970) + (y - 1969) div 4 - (y - 1901) div 100 + (y - 1601) div 400"

definition leap_year :: "int \<Rightarrow> bool" where
  "leap_year y = (y mod 4 = 0 \<and> (y mod 100 \<noteq> 0 \<or> y mod 400 = 0))"

definition month_start :: "bool \<Rightarrow> int \<Rightarrow> int" where
  "month_start leap m =
     (if m \<le> 1 then 0 else if m = 2 then 31 else
      (if leap then 1 else 0) +
      (if m = 3 then 59 else if m = 4 then 90 else if m = 5 then 120 else if m = 6 then 151
       else if m = 7 then 181 else if m = 8 then 212 else if m = 9 then 243
       else if m = 10 then 273 else if m = 11 then 304 else if m = 12 then 334 else 365))"

definition days_in_month :: "bool \<Rightarrow> int \<Rightarrow> int" where
  "days_in_month leap m = month_start leap (m + 1) - month_start leap m"

text \<open>\<open>MakeDay (y, m - 1, d)\<close> for a month number \<open>m\<close> from 1 to 12; \<open>d\<close> may run past the month.\<close>

definition make_day :: "int \<Rightarrow> int \<Rightarrow> int \<Rightarrow> int" where
  "make_day y m d = DayFromYear y + month_start (leap_year y) m + d - 1"

definition year_of_day :: "int \<Rightarrow> int" where
  "year_of_day z =
     (let e = 1970 + (400 * z) div 146097
      in if z < DayFromYear e then e - 1 else if DayFromYear (e + 1) \<le> z then e + 1 else e)"

definition month_of :: "bool \<Rightarrow> int \<Rightarrow> int" where
  "month_of leap n =
     (if n < month_start leap 2 then 1 else if n < month_start leap 3 then 2
      else if n < month_start leap 4 then 3 else if n < month_start leap 5 then 4
      else if n < month_start leap 6 then 5 else if n < month_start leap 7 then 6
      else if n < month_start leap 8 then 7 else if n < month_start leap 9 then 8
      else if n < month_start leap 10 then 9 else if n < month_start leap 11 then 10
      else if n < month_start leap 12 then 11 else 12)"

definition civil_of_day :: "int \<Rightarrow> int \<times> int \<times> int" where
  "civil_of_day z =
     (let y = year_of_day z; n = z - DayFromYear y; m = month_of (leap_year y) n
      in (y, m, n - month_start (leap_year y) m + 1))"

definition valid_date :: "int \<Rightarrow> int \<Rightarrow> int \<Rightarrow> bool" where
  "valid_date y m d \<longleftrightarrow> 1 \<le> m \<and> m \<le> 12 \<and> 1 \<le> d \<and> d \<le> days_in_month (leap_year y) m"

lemma div_succ:
  assumes "0 < (n::int)"
  shows "(x + 1) div n = x div n + (if (x + 1) mod n = 0 then 1 else 0)"
proof -
  have x: "x + 1 = n * (x div n) + (x mod n + 1)" by simp
  have r: "0 \<le> x mod n" "x mod n < n" using assms by simp_all
  show ?thesis
  proof (cases "x mod n + 1 = n")
    case True
    with x have e: "x + 1 = n * (x div n + 1)" by (simp only: distrib_left)
    have "(x + 1) div n = x div n + 1" "(x + 1) mod n = 0"
      using assms unfolding e by simp_all
    then show ?thesis by simp
  next
    case False
    with r have "x mod n + 1 < n" by linarith
    then have "(x + 1) div n = x div n" "(x + 1) mod n = x mod n + 1"
      using int_div_pos_eq [OF x] int_mod_pos_eq [OF x] r by linarith+
    with r show ?thesis by simp
  qed
qed

lemma div_bounds:
  assumes "0 < (n::int)"
  shows "x - n + 1 \<le> n * (x div n)" and "n * (x div n) \<le> x"
proof -
  have "n * (x div n) + x mod n = x" by simp
  moreover have "0 \<le> x mod n" "x mod n < n" using assms by simp_all
  ultimately show "x - n + 1 \<le> n * (x div n)" and "n * (x div n) \<le> x" by linarith+
qed

lemma leap_mods:
  "((y - 1968) mod 4 = 0) = (y mod 4 = (0::int))"
  "((y - 1900) mod 100 = 0) = (y mod 100 = (0::int))"
  "((y - 1600) mod 400 = 0) = (y mod 400 = (0::int))"
  by (simp_all add: dvd_eq_mod_eq_0 [symmetric] dvd_diff_left_iff)

lemma mod_chain:
  assumes "y mod 400 = (0::int)"
  shows "y mod 100 = 0" and "y mod 4 = 0"
proof -
  from assms obtain k where "y = 400 * k" by auto
  then show "y mod 100 = 0" and "y mod 4 = 0" by auto
qed

lemma mod100_4: "y mod 100 = (0::int) \<Longrightarrow> y mod 4 = 0"
  by auto

lemma DayFromYear_succ: "DayFromYear (y + 1) = DayFromYear y + 365 + (if leap_year y then 1 else 0)"
proof -
  have a: "(y + 1 - 1969) div 4 = (y - 1969) div 4 + (if y mod 4 = 0 then 1 else 0)"
    using div_succ [of 4 "y - 1969"] leap_mods(1) [of y] by (simp add: algebra_simps split: if_splits)
  have b: "(y + 1 - 1901) div 100 = (y - 1901) div 100 + (if y mod 100 = 0 then 1 else 0)"
    using div_succ [of 100 "y - 1901"] leap_mods(2) [of y]
    by (simp add: algebra_simps split: if_splits)
  have c: "(y + 1 - 1601) div 400 = (y - 1601) div 400 + (if y mod 400 = 0 then 1 else 0)"
    using div_succ [of 400 "y - 1601"] leap_mods(3) [of y]
    by (simp add: algebra_simps split: if_splits)
  show ?thesis
    using mod_chain [of y] mod100_4 [of y] unfolding DayFromYear_def leap_year_def a b c
    by (cases "y mod 4 = 0"; cases "y mod 100 = 0"; cases "y mod 400 = 0"; simp)
qed

lemma DayFromYear_mono_nat: "DayFromYear y + 365 * int k \<le> DayFromYear (y + int k)"
proof (induction k)
  case (Suc k)
  then show ?case using DayFromYear_succ [of "y + int k"] by (simp add: algebra_simps)
qed simp

lemma DayFromYear_less: "x < y \<Longrightarrow> DayFromYear (x + 1) \<le> DayFromYear y"
  using DayFromYear_mono_nat [of "x + 1" "nat (y - x - 1)"] by simp

lemma DayFromYear_linear:
  "146097 * (y - 1970) - 1000 \<le> 400 * DayFromYear y"
  "400 * DayFromYear y \<le> 146097 * (y - 1970) + 1000"
proof -
  define a b c where "a = (y - 1969) div 4" and "b = (y - 1901) div 100" and "c = (y - 1601) div 400"
  have D: "DayFromYear y = 365 * (y - 1970) + a - b + c"
    by (simp add: DayFromYear_def a_def b_def c_def)
  have q: "y - 1969 - 4 + 1 \<le> 4 * a" "4 * a \<le> y - 1969" "y - 1901 - 100 + 1 \<le> 100 * b"
    "100 * b \<le> y - 1901" "y - 1601 - 400 + 1 \<le> 400 * c" "400 * c \<le> y - 1601"
    unfolding a_def b_def c_def by (intro div_bounds; simp)+
  show "146097 * (y - 1970) - 1000 \<le> 400 * DayFromYear y"
    unfolding D using q by (simp add: algebra_simps)
  show "400 * DayFromYear y \<le> 146097 * (y - 1970) + 1000"
    unfolding D using q by (simp add: algebra_simps)
qed

lemma year_of_day_bounds: "DayFromYear (year_of_day z) \<le> z \<and> z < DayFromYear (year_of_day z + 1)"
proof -
  define e where "e = 1970 + (400 * z) div 146097"
  have r: "146097 * (e - 1970) \<le> 400 * z" "400 * z < 146097 * (e - 1970) + 146097"
    using div_bounds [of 146097 "400 * z"] by (simp_all add: e_def)
  have lo: "DayFromYear (e - 1) \<le> z"
    using DayFromYear_linear(2) [of "e - 1"] r(1) by (simp add: algebra_simps)
  have hi: "z < DayFromYear (e + 2)"
    using DayFromYear_linear(1) [of "e + 2"] r(2) by (simp add: algebra_simps)
  show ?thesis
    unfolding year_of_day_def Let_def e_def [symmetric]
    using lo hi by (auto simp: add.commute)
qed

lemma year_of_day_unique:
  assumes "DayFromYear y \<le> z" and "z < DayFromYear (y + 1)"
  shows "year_of_day z = y"
proof (rule ccontr)
  assume "year_of_day z \<noteq> y"
  then consider "year_of_day z < y" | "y < year_of_day z" by linarith
  then show False
    using year_of_day_bounds [of z] assms DayFromYear_less [of "year_of_day z" y]
      DayFromYear_less [of y "year_of_day z"]
    by cases linarith+
qed

lemma int_1_12_cases:
  assumes "1 \<le> m" and "m \<le> (12::int)"
  shows "m \<in> {1, 2, 3, 4, 5, 6, 7, 8, 9, 10, 11, 12}"
proof -
  from assms have "m = 1 \<or> m = 2 \<or> m = 3 \<or> m = 4 \<or> m = 5 \<or> m = 6 \<or> m = 7 \<or> m = 8 \<or> m = 9
    \<or> m = 10 \<or> m = 11 \<or> m = 12" by presburger
  then show ?thesis by blast
qed

lemma month_start_step:
  assumes "1 \<le> m" "m \<le> 12"
  shows "month_start l m < month_start l (m + 1)"
  using int_1_12_cases [OF assms] by (auto simp: month_start_def)

lemma month_start_upper: "m \<le> 12 \<Longrightarrow> month_start l (m + 1) \<le> 365 + (if l then 1 else 0)"
  by (auto simp: month_start_def)

lemma month_of_start:
  assumes "1 \<le> m" "m \<le> 12" "month_start l m \<le> n" "n < month_start l (m + 1)"
  shows "month_of l n = m"
  using int_1_12_cases [OF assms(1,2)] assms(3,4)
  by (auto simp: month_of_def month_start_def split: if_splits)

theorem civil_of_day_make_day:
  assumes "valid_date y m d"
  shows "civil_of_day (make_day y m d) = (y, m, d)"
proof -
  from assms have m: "1 \<le> m" "m \<le> 12" and d: "1 \<le> d" "d \<le> days_in_month (leap_year y) m"
    by (auto simp: valid_date_def)
  define n where "n = month_start (leap_year y) m + d - 1"
  have n0: "month_start (leap_year y) m \<le> n" "n < month_start (leap_year y) (m + 1)"
    using d unfolding n_def days_in_month_def by linarith+
  have n1: "0 \<le> n" using n0(1) by (auto simp: month_start_def split: if_splits)
  have n2: "n < 365 + (if leap_year y then 1 else 0)"
    using n0(2) month_start_upper [OF m(2)] by (rule less_le_trans)
  have z: "make_day y m d = DayFromYear y + n" by (simp add: make_day_def n_def)
  have y: "year_of_day (DayFromYear y + n) = y"
    using n1 n2 DayFromYear_succ [of y] by (intro year_of_day_unique) auto
  show ?thesis
    using month_of_start [OF m n0] unfolding civil_of_day_def z y Let_def
    by (simp add: n_def)
qed

lemma month_of_range: "1 \<le> month_of l n \<and> month_of l n \<le> 12"
  by (simp add: month_of_def)

lemma month_of_bounds:
  assumes "0 \<le> n" "n < 365 + (if l then 1 else 0)"
  shows "month_start l (month_of l n) \<le> n \<and> n < month_start l (month_of l n + 1)"
  using assms by (simp add: month_of_def) (auto simp: month_start_def)

lemma civil_of_day_valid:
  assumes "civil_of_day z = (y, m, d)"
  shows "valid_date y m d \<and> make_day y m d = z"
proof -
  define n where "n = z - DayFromYear (year_of_day z)"
  let ?l = "leap_year (year_of_day z)"
  have "0 \<le> n" "n < 365 + (if ?l then 1 else 0)"
    using year_of_day_bounds [of z] DayFromYear_succ [of "year_of_day z"] by (auto simp: n_def)
  then have b: "month_start ?l (month_of ?l n) \<le> n" "n < month_start ?l (month_of ?l n + 1)"
    using month_of_bounds by blast+
  have e: "y = year_of_day z" "m = month_of ?l n" "d = n - month_start ?l (month_of ?l n) + 1"
    using assms by (auto simp: civil_of_day_def Let_def n_def)
  show ?thesis
    using b month_of_range [of ?l n]
    by (auto simp: e valid_date_def days_in_month_def make_day_def n_def)
qed

end
