(* ===== verification/Js_Date.thy ===== *)
theory Js_Date
  imports Js_Time
begin

text \<open>
  \<open>Date\<close> as text: \<open>Date.prototype.toISOString\<close>, \<open>Date.parse\<close>, \<open>Date.UTC\<close> and the wall clock of
  a zone (\<open>Intl.DateTimeFormat.formatToParts\<close>). \<open>date_parse_toISOString\<close> shows that printing
  and parsing an instant is the identity over the whole range of \<open>Date\<close>.
\<close>


section \<open>Decimal digits\<close>

definition digit_char :: "int \<Rightarrow> char" where
  "digit_char k = char_of (48 + nat k)"

definition digit_val :: "char \<Rightarrow> int" where
  "digit_val c = int (of_char c) - 48"

fun pad :: "nat \<Rightarrow> int \<Rightarrow> string" where
  "pad 0 k = []"
| "pad (Suc n) k = digit_char (k div 10 ^ n) # pad n (k mod 10 ^ n)"

fun read_acc :: "nat \<Rightarrow> int \<Rightarrow> string \<Rightarrow> (int \<times> string) option" where
  "read_acc 0 a s = Some (a, s)"
| "read_acc (Suc n) a [] = None"
| "read_acc (Suc n) a (c # s) =
     (if is_digit c then read_acc n (10 * a + digit_val c) s else None)"

definition read_digits :: "nat \<Rightarrow> string \<Rightarrow> (int \<times> string) option" where
  "read_digits n s = read_acc n 0 s"

fun dec_nat :: "nat \<Rightarrow> string" where
  "dec_nat n = (if n < 10 then [digit_char (int n)] else dec_nat (n div 10) @ [digit_char (int (n mod 10))])"

declare dec_nat.simps [simp del]

definition dec_int :: "int \<Rightarrow> string" where
  "dec_int i = (if i < 0 then CHR ''-'' # dec_nat (nat (- i)) else dec_nat (nat i))"

lemma digit_char_facts:
  assumes "0 \<le> k" "k < 10"
  shows "is_digit (digit_char k)" and "digit_val (digit_char k) = k"
proof -
  have "(of_char (digit_char k) :: nat) = 48 + nat k"
    using assms by (simp add: digit_char_def)
  then show "is_digit (digit_char k)" and "digit_val (digit_char k) = k"
    using assms by (simp_all add: is_digit_def char_between_def digit_val_def)
qed

lemma first_digit:
  assumes "0 \<le> k" "k < 10 ^ Suc n"
  shows "0 \<le> k div 10 ^ n" "k div 10 ^ n < (10::int)"
proof -
  have p: "0 < (10::int) ^ n" by simp
  show "0 \<le> k div 10 ^ n" using assms p by (simp add: pos_imp_zdiv_nonneg_iff)
  show "k div 10 ^ n < 10"
  proof (rule ccontr)
    assume "\<not> k div 10 ^ n < 10"
    then have "10 ^ n * 10 \<le> 10 ^ n * (k div 10 ^ n)" by simp
    with div_bounds(2) [OF p, of k] assms(2) show False by simp
  qed
qed

lemma read_acc_pad:
  "0 \<le> k \<Longrightarrow> k < 10 ^ n \<Longrightarrow> read_acc n a (pad n k @ s) = Some (a * 10 ^ n + k, s)"
proof (induction n arbitrary: a k)
  case (Suc n)
  note q = first_digit [OF Suc.prems]
  have "read_acc n (10 * a + k div 10 ^ n) (pad n (k mod 10 ^ n) @ s) =
      Some ((10 * a + k div 10 ^ n) * 10 ^ n + k mod 10 ^ n, s)"
    by (rule Suc.IH) simp_all
  then show ?case
    using digit_char_facts [OF q] by (simp add: algebra_simps)
qed simp

lemma read_digits_pad [simp]:
  "0 \<le> k \<Longrightarrow> k < 10 ^ n \<Longrightarrow> read_digits n (pad n k @ s) = Some (k, s)"
  by (simp add: read_digits_def read_acc_pad)

lemma length_pad [simp]: "length (pad n k) = n"
  by (induction n arbitrary: k) auto

lemma pad_digits: "0 \<le> k \<Longrightarrow> k < 10 ^ n \<Longrightarrow> list_all is_digit (pad n k)"
proof (induction n arbitrary: k)
  case (Suc n)
  show ?case
    using Suc.IH [of "k mod 10 ^ n"] digit_char_facts(1) [OF first_digit [OF Suc.prems]] by simp
qed simp


section \<open>Instants and their calendar fields\<close>

record civil =
  c_year :: int
  c_month :: int
  c_day :: int
  c_hour :: int
  c_minute :: int
  c_second :: int
  c_ms :: int

definition msPerDay :: int where "msPerDay = 86400000"

definition utc_ms :: "civil \<Rightarrow> int" where
  "utc_ms c = make_day (c_year c) (c_month c) (c_day c) * msPerDay
     + c_hour c * 3600000 + c_minute c * 60000 + c_second c * 1000 + c_ms c"

definition civil_of :: "int \<Rightarrow> civil" where
  "civil_of t =
     (let (y, m, d) = civil_of_day (t div msPerDay); r = t mod msPerDay
      in \<lparr>c_year = y, c_month = m, c_day = d, c_hour = r div 3600000,
          c_minute = r div 60000 mod 60, c_second = r div 1000 mod 60, c_ms = r mod 1000\<rparr>)"

definition valid_civil :: "civil \<Rightarrow> bool" where
  "valid_civil c \<longleftrightarrow> valid_date (c_year c) (c_month c) (c_day c)
     \<and> 0 \<le> c_hour c \<and> c_hour c < 24 \<and> 0 \<le> c_minute c \<and> c_minute c < 60
     \<and> 0 \<le> c_second c \<and> c_second c < 60 \<and> 0 \<le> c_ms c \<and> c_ms c < 1000"

lemma hms_arith:
  "r = A * 1000 + u \<Longrightarrow> A = B * 60 + s \<Longrightarrow> B = h * 60 + i \<Longrightarrow>
    r = h * 3600000 + i * 60000 + s * 1000 + (u::int)"
  by simp

lemma time_of_day_split:
  "r = r div 3600000 * 3600000 + r div 60000 mod 60 * 60000 + r div 1000 mod 60 * 1000 + r mod (1000::int)"
proof -
  have a: "r = r div 1000 * 1000 + r mod 1000" by simp
  have b: "r div 1000 = r div 60000 * 60 + r div 1000 mod 60"
    using div_mult_mod_eq [of "r div 1000" 60] by (simp add: zdiv_zmult2_eq [symmetric])
  have c: "r div 60000 = r div 3600000 * 60 + r div 60000 mod 60"
    using div_mult_mod_eq [of "r div 60000" 60] by (simp add: zdiv_zmult2_eq [symmetric])
  show ?thesis by (rule hms_arith [OF a b c])
qed

lemma time_of_day_fields:
  assumes "0 \<le> h" "h < 24" "0 \<le> i" "i < 60" "0 \<le> s" "s < 60" "0 \<le> u" "u < (1000::int)"
    and r: "r = h * 3600000 + i * 60000 + s * 1000 + u"
  shows "0 \<le> r" "r < msPerDay"
    "r div 3600000 = h" "r div 60000 mod 60 = i" "r div 1000 mod 60 = s" "r mod 1000 = u"
proof -
  show "0 \<le> r" "r < msPerDay" using assms by (simp_all add: msPerDay_def)
  have r1: "r = 3600000 * h + (i * 60000 + s * 1000 + u)" using r by simp
  show "r div 3600000 = h" by (rule int_div_pos_eq [OF r1]) (use assms in linarith)+
  have r2: "r = 60000 * (60 * h + i) + (s * 1000 + u)" using r by simp
  have "r div 60000 = 60 * h + i" by (rule int_div_pos_eq [OF r2]) (use assms in linarith)+
  then show "r div 60000 mod 60 = i" using assms by simp
  have r3: "r = 1000 * (60 * (60 * h + i) + s) + u" using r by simp
  have "r div 1000 = 60 * (60 * h + i) + s" by (rule int_div_pos_eq [OF r3]) (use assms in linarith)+
  moreover have "(60 * (60 * h + i) + s) mod 60 = s"
    by (rule int_mod_pos_eq [OF refl]) (use assms in linarith)+
  ultimately show "r div 1000 mod 60 = s" by simp
  show "r mod 1000 = u" by (rule int_mod_pos_eq [OF r3]) (use assms in linarith)+
qed

lemma civil_of_utc_ms:
  assumes "valid_civil c"
  shows "civil_of (utc_ms c) = c"
proof -
  define r where "r = c_hour c * 3600000 + c_minute c * 60000 + c_second c * 1000 + c_ms c"
  note tod = time_of_day_fields [of "c_hour c" "c_minute c" "c_second c" "c_ms c" r]
  have v: "0 \<le> c_hour c" "c_hour c < 24" "0 \<le> c_minute c" "c_minute c < 60"
    "0 \<le> c_second c" "c_second c < 60" "0 \<le> c_ms c" "c_ms c < 1000"
    using assms by (auto simp: valid_civil_def)
  note f = tod [OF v r_def]
  have u: "utc_ms c = msPerDay * make_day (c_year c) (c_month c) (c_day c) + r"
    by (simp add: utc_ms_def r_def)
  have d: "utc_ms c div msPerDay = make_day (c_year c) (c_month c) (c_day c)"
    and m: "utc_ms c mod msPerDay = r"
    using int_div_pos_eq [OF u] int_mod_pos_eq [OF u] f(1,2) by auto
  have "civil_of_day (make_day (c_year c) (c_month c) (c_day c)) = (c_year c, c_month c, c_day c)"
    using assms by (intro civil_of_day_make_day) (simp add: valid_civil_def)
  then have "civil_of (utc_ms c) = \<lparr>c_year = c_year c, c_month = c_month c, c_day = c_day c, c_hour = c_hour c,
      c_minute = c_minute c, c_second = c_second c, c_ms = c_ms c\<rparr>"
    by (simp only: civil_of_def d m Let_def prod.case f)
  then show ?thesis by simp
qed

lemma civil_of_valid: "valid_civil (civil_of t)" and utc_ms_civil_of: "utc_ms (civil_of t) = t"
proof -
  obtain y m d where ymd: "civil_of_day (t div msPerDay) = (y, m, d)" by (metis prod_cases3)
  define r where "r = t mod msPerDay"
  have r: "0 \<le> r" "r < msPerDay" by (simp_all add: r_def msPerDay_def)
  define h where "h = r div 3600000"
  define i where "i = r div 60000 mod 60"
  define s where "s = r div 1000 mod 60"
  define u where "u = r mod 1000"
  have h: "h < 24" "0 \<le> h" using r unfolding h_def msPerDay_def by simp_all
  have isu: "0 \<le> i" "i < 60" "0 \<le> s" "s < 60" "0 \<le> u" "u < 1000"
    by (simp_all add: i_def s_def u_def)
  have c: "civil_of t = \<lparr>c_year = y, c_month = m, c_day = d, c_hour = h, c_minute = i, c_second = s, c_ms = u\<rparr>"
    by (simp only: civil_of_def ymd Let_def prod.case r_def h_def i_def s_def u_def)
  show "valid_civil (civil_of t)"
    unfolding c valid_civil_def civil.simps using civil_of_day_valid [OF ymd] h isu by blast
  have t: "t = t div msPerDay * msPerDay + r" unfolding r_def by (rule div_mult_mod_eq [symmetric])
  have split: "r = h * 3600000 + i * 60000 + s * 1000 + u"
    unfolding h_def i_def s_def u_def by (rule time_of_day_split)
  have day: "make_day y m d = t div msPerDay" using civil_of_day_valid [OF ymd] by blast
  show "utc_ms (civil_of t) = t"
    unfolding c utc_ms_def civil.simps day using t split by linarith
qed


section \<open>Printing\<close>

text \<open>\<open>toISOString\<close>: four digits of year, or a sign and six digits outside 0 to 9999.\<close>

definition iso_year :: "int \<Rightarrow> string" where
  "iso_year y =
     (if 0 \<le> y \<and> y \<le> 9999 then pad 4 y
      else if y < 0 then CHR ''-'' # pad 6 (- y) else CHR ''+'' # pad 6 y)"

definition iso_clock :: "civil \<Rightarrow> string" where
  "iso_clock c =
     CHR ''T'' # pad 2 (c_hour c) @ CHR '':'' # pad 2 (c_minute c) @
     CHR '':'' # pad 2 (c_second c) @ CHR ''.'' # pad 3 (c_ms c) @ ''Z''"

definition toISOString :: "int \<Rightarrow> string" where
  "toISOString t =
     (let c = civil_of t
      in iso_year (c_year c) @ CHR ''-'' # pad 2 (c_month c) @ CHR ''-'' # pad 2 (c_day c) @ iso_clock c)"

text \<open>
  The wall clock of a zone at UTC offset \<open>off\<close>, as the code assembles it from
  \<open>formatToParts\<close>: the year in plain decimal, the other parts with two digits.
\<close>

definition wall_clock :: "int \<Rightarrow> int \<Rightarrow> string" where
  "wall_clock off t =
     (let c = civil_of (t + off)
      in dec_int (c_year c) @ CHR ''-'' # pad 2 (c_month c) @ CHR ''-'' # pad 2 (c_day c) @
         CHR ''T'' # pad 2 (c_hour c) @ CHR '':'' # pad 2 (c_minute c) @ CHR '':'' # pad 2 (c_second c))"

lemma pad_Suc: "pad (Suc n) k = digit_char (k div 10 ^ n) # pad n (k mod 10 ^ n)"
  by simp


section \<open>Parsing\<close>

fun expect :: "char \<Rightarrow> string \<Rightarrow> string option" where
  "expect c [] = None"
| "expect c (d # s) = (if c = d then Some s else None)"

definition parse_year :: "string \<Rightarrow> (int \<times> string) option" where
  "parse_year s =
     (case s of
        [] \<Rightarrow> None
      | c # r \<Rightarrow>
          if c = CHR ''+'' then read_digits 6 r
          else if c = CHR ''-'' then
            (case read_digits 6 r of
               None \<Rightarrow> None | Some (y, r') \<Rightarrow> if y = 0 then None else Some (- y, r'))
          else read_digits 4 s)"

definition parse_field :: "char \<Rightarrow> int \<Rightarrow> int \<Rightarrow> string \<Rightarrow> (int \<times> string) option" where
  "parse_field sep lo hi s =
     (case expect sep s of
        None \<Rightarrow> None
      | Some r \<Rightarrow> (case read_digits 2 r of
          None \<Rightarrow> None
        | Some (v, r') \<Rightarrow> if lo \<le> v \<and> v \<le> hi then Some (v, r') else None))"

text \<open>The month and the day may be left out; then the rest may hold a time.\<close>

definition parse_date :: "string \<Rightarrow> ((int \<times> int \<times> int) \<times> string) option" where
  "parse_date s =
     (case parse_year s of
        None \<Rightarrow> None
      | Some (y, r) \<Rightarrow>
          if expect CHR ''-'' r = None then Some ((y, 1, 1), r)
          else (case parse_field CHR ''-'' 1 12 r of
              None \<Rightarrow> None
            | Some (m, r') \<Rightarrow>
                if expect CHR ''-'' r' = None then Some ((y, m, 1), r')
                else (case parse_field CHR ''-'' 1 31 r' of
                    None \<Rightarrow> None
                  | Some (d, r'') \<Rightarrow> Some ((y, m, d), r''))))"

text \<open>Seconds with an optional fraction, of which the first three digits count.\<close>

definition frac_ms :: "string \<Rightarrow> int" where
  "frac_ms ds = (case read_digits 3 (take 3 (ds @ ''000'')) of None \<Rightarrow> 0 | Some (v, _) \<Rightarrow> v)"

definition parse_fraction :: "string \<Rightarrow> (int \<times> string) option" where
  "parse_fraction s =
     (case expect CHR ''.'' s of
        None \<Rightarrow> Some (0, s)
      | Some r \<Rightarrow>
          (let ds = takeWhile is_digit r
           in if ds = [] then None else Some (frac_ms ds, dropWhile is_digit r)))"

definition parse_seconds :: "string \<Rightarrow> ((int \<times> int) \<times> string) option" where
  "parse_seconds s =
     (if expect CHR '':'' s = None then Some ((0, 0), s)
      else (case parse_field CHR '':'' 0 59 s of
          None \<Rightarrow> None
        | Some (sec, r) \<Rightarrow> (case parse_fraction r of
            None \<Rightarrow> None
          | Some (ms, r') \<Rightarrow> Some ((sec, ms), r'))))"

definition parse_clock :: "string \<Rightarrow> ((int \<times> int \<times> int \<times> int) \<times> string) option" where
  "parse_clock s =
     (case parse_field CHR ''T'' 0 24 s of
        None \<Rightarrow> None
      | Some (h, r) \<Rightarrow> (case parse_field CHR '':'' 0 59 r of
          None \<Rightarrow> None
        | Some (i, r') \<Rightarrow> (case parse_seconds r' of
            None \<Rightarrow> None
          | Some ((sec, ms), r'') \<Rightarrow>
              if h = 24 \<and> (i \<noteq> 0 \<or> sec \<noteq> 0 \<or> ms \<noteq> 0) then None
              else Some ((h, i, sec, ms), r''))))"

text \<open>\<open>Some None\<close> is a date-time with no zone, which \<open>Date.parse\<close> reads as server-local time.\<close>

definition parse_offset :: "string \<Rightarrow> int option option" where
  "parse_offset s =
     (if s = [] then Some None
      else if s = ''Z'' then Some (Some 0)
      else if hd s = CHR ''+'' \<or> hd s = CHR ''-'' then
        (case read_digits 2 (tl s) of
           None \<Rightarrow> None
         | Some (h, r) \<Rightarrow> (case parse_field CHR '':'' 0 59 r of
             None \<Rightarrow> None
           | Some (i, r') \<Rightarrow>
               if r' = [] \<and> h \<le> 23
               then Some (Some ((if hd s = CHR ''-'' then -1 else 1) * (h * 3600000 + i * 60000)))
               else None))
      else None)"

definition iso_parse :: "js_env \<Rightarrow> string \<Rightarrow> int option" where
  "iso_parse E s =
     (case parse_date s of
        None \<Rightarrow> None
      | Some ((y, m, d), r) \<Rightarrow>
          if r = [] then Some (make_day y m d * msPerDay)
          else (case parse_clock r of
              None \<Rightarrow> None
            | Some ((h, i, sec, ms), r') \<Rightarrow>
                (let local = make_day y m d * msPerDay + h * 3600000 + i * 60000 + sec * 1000 + ms
                 in case parse_offset r' of
                      None \<Rightarrow> None
                    | Some None \<Rightarrow> Some (local - env_local_offset E local)
                    | Some (Some off) \<Rightarrow> Some (local - off))))"

definition time_clip :: "int \<Rightarrow> int option" where
  "time_clip t = (if \<bar>t\<bar> \<le> 8640000000000000 then Some t else None)"

definition js_date_parse :: "js_env \<Rightarrow> string \<Rightarrow> int option" where
  "js_date_parse E s =
     (case iso_parse E s of None \<Rightarrow> env_legacy_date E s | Some t \<Rightarrow> time_clip t)"

lemma parse_year_iso:
  assumes "\<bar>y\<bar> < 1000000"
  shows "parse_year (iso_year y @ s) = Some (y, s)"
proof -
  consider "0 \<le> y \<and> y \<le> 9999" | "y < 0" | "9999 < y" by linarith
  then show ?thesis
  proof cases
    case 1
    have "is_digit (digit_char (y div 10 ^ 3))"
      using 1 first_digit [of y 3] by (intro digit_char_facts) auto
    then have "digit_char (y div 10 ^ 3) \<noteq> CHR ''+''" "digit_char (y div 10 ^ 3) \<noteq> CHR ''-''"
      by (auto simp: is_digit_def char_between_def)
    moreover have "iso_year y @ s = digit_char (y div 10 ^ 3) # (pad 3 (y mod 10 ^ 3) @ s)"
      using 1 pad_Suc [of 3 y] by (simp add: iso_year_def eval_nat_numeral)
    moreover have "read_digits 4 (iso_year y @ s) = Some (y, s)"
      using 1 by (simp add: iso_year_def)
    ultimately show ?thesis by (simp add: parse_year_def)
  next
    case 2
    then show ?thesis using assms by (simp add: parse_year_def iso_year_def)
  next
    case 3
    then show ?thesis using assms by (simp add: parse_year_def iso_year_def)
  qed
qed

lemma parse_field_pad:
  "0 \<le> v \<Longrightarrow> v < 100 \<Longrightarrow> lo \<le> v \<Longrightarrow> v \<le> hi \<Longrightarrow>
    parse_field sep lo hi (sep # pad 2 v @ s) = Some (v, s)"
  by (simp add: parse_field_def)

lemma parse_fraction_pad:
  assumes "0 \<le> v" "v < 1000" "s = [] \<or> \<not> is_digit (hd s)"
  shows "parse_fraction (CHR ''.'' # pad 3 v @ s) = Some (v, s)"
proof -
  have d: "list_all is_digit (pad 3 v)" using assms by (intro pad_digits) auto
  then have t: "takeWhile is_digit (pad 3 v @ s) = pad 3 v" "dropWhile is_digit (pad 3 v @ s) = s"
    using assms(3) by (auto simp: list_all_iff takeWhile_append2 dropWhile_append2
        takeWhile_eq_Nil_iff dropWhile_eq_self_iff)
  have "read_digits 3 (pad 3 v @ []) = Some (v, [])" using assms by (intro read_digits_pad) auto
  then have "frac_ms (pad 3 v) = v" by (simp add: frac_ms_def)
  moreover have "pad 3 v \<noteq> []" using length_pad [of 3 v] by (auto simp del: length_pad)
  ultimately show ?thesis by (simp add: parse_fraction_def t Let_def)
qed

lemma days_in_month_le: "1 \<le> m \<Longrightarrow> m \<le> 12 \<Longrightarrow> days_in_month l m \<le> 31"
  using int_1_12_cases [of m] by (auto simp: days_in_month_def month_start_def)

lemma parse_clock_iso:
  assumes "valid_civil c"
  shows "parse_clock (iso_clock c) = Some ((c_hour c, c_minute c, c_second c, c_ms c), ''Z'')"
proof -
  have v: "0 \<le> c_hour c" "c_hour c < 24" "0 \<le> c_minute c" "c_minute c < 60"
    "0 \<le> c_second c" "c_second c < 60" "0 \<le> c_ms c" "c_ms c < 1000"
    using assms by (auto simp: valid_civil_def)
  have s: "parse_seconds (CHR '':'' # pad 2 (c_second c) @ CHR ''.'' # pad 3 (c_ms c) @ ''Z'') =
      Some ((c_second c, c_ms c), ''Z'')"
    using v parse_fraction_pad [of "c_ms c" "''Z''"]
    by (simp add: parse_seconds_def parse_field_pad is_digit_def char_between_def)
  show ?thesis
    using v by (simp add: parse_clock_def iso_clock_def parse_field_pad s)
qed

theorem iso_parse_toISOString:
  assumes "\<bar>c_year (civil_of t)\<bar> < 1000000"
  shows "iso_parse E (toISOString t) = Some t"
proof -
  define c where "c = civil_of t"
  have vc: "valid_civil c" by (simp add: c_def civil_of_valid)
  have v: "1 \<le> c_month c" "c_month c \<le> 12" "1 \<le> c_day c" "c_day c \<le> 31"
    using vc days_in_month_le [of "c_month c" "leap_year (c_year c)"]
    by (auto simp: valid_civil_def valid_date_def)
  have y: "parse_year (iso_year (c_year c) @ r) = Some (c_year c, r)" for r
    using assms by (intro parse_year_iso) (simp add: c_def)
  have nt: "expect CHR ''-'' (iso_clock c) = None" "iso_clock c \<noteq> []"
    by (simp_all add: iso_clock_def)
  have d: "parse_date (toISOString t) = Some ((c_year c, c_month c, c_day c), iso_clock c)"
    using v by (simp add: parse_date_def toISOString_def c_def [symmetric] Let_def y parse_field_pad)
  have "iso_parse E (toISOString t) = Some (utc_ms c)"
    by (simp add: iso_parse_def d nt parse_clock_iso [OF vc] parse_offset_def utc_ms_def)
  then show ?thesis by (simp add: c_def utc_ms_civil_of)
qed


lemma year_range:
  assumes "\<bar>t\<bar> \<le> 8640000000000000"
  shows "\<bar>c_year (civil_of t)\<bar> < 1000000"
proof -
  define z where "z = t div msPerDay"
  have z: "-100000000 \<le> z" "z \<le> 100000000"
  proof -
    have "msPerDay * z \<le> t" "t - msPerDay + 1 \<le> msPerDay * z"
      using div_bounds [of msPerDay t] by (simp_all add: z_def msPerDay_def)
    with assms show "-100000000 \<le> z" "z \<le> 100000000" by (simp_all add: msPerDay_def abs_le_iff)
  qed
  have y: "c_year (civil_of t) = year_of_day z"
    by (simp add: civil_of_def z_def civil_of_day_def Let_def)
  show ?thesis
    unfolding y using year_of_day_bounds [of z] DayFromYear_linear(1) [of "year_of_day z"]
      DayFromYear_linear(2) [of "year_of_day z + 1"] z by (simp add: algebra_simps abs_less_iff)
qed

lemma js_date_parse_toISOString:
  assumes "\<bar>t\<bar> \<le> 8640000000000000"
  shows "js_date_parse E (toISOString t) = Some t"
  using assms iso_parse_toISOString [OF year_range [OF assms]]
  by (simp add: js_date_parse_def time_clip_def)


section \<open>Date checks of the validators\<close>

fun isIsoDateTime :: "js_env \<Rightarrow> json \<Rightarrow> bool" where
  "isIsoDateTime E (JStr s) = (js_trim s \<noteq> [] \<and> js_date_parse E s \<noteq> None)"
| "isIsoDateTime E _ = False"

text \<open>The number \<open>Date.parse\<close> gives, where the code has checked that it is not NaN.\<close>

definition date_ms :: "js_env \<Rightarrow> json \<Rightarrow> int" where
  "date_ms E v = (case js_date_parse E (jstr v) of None \<Rightarrow> 0 | Some t \<Rightarrow> t)"

definition LOCAL_PATTERN :: "(char \<Rightarrow> bool) list" where
  "LOCAL_PATTERN =
     replicate 4 is_digit @ (\<lambda>c. c = CHR ''-'') # replicate 2 is_digit @ (\<lambda>c. c = CHR ''-'') #
     replicate 2 is_digit @ (\<lambda>c. c = CHR ''T'') # replicate 2 is_digit @ (\<lambda>c. c = CHR '':'') #
     replicate 2 is_digit @ (\<lambda>c. c = CHR '':'') # replicate 2 is_digit"

fun isLocalDateTime :: "json \<Rightarrow> bool" where
  "isLocalDateTime (JStr s) = shape_matches LOCAL_PATTERN s"
| "isLocalDateTime _ = False"

lemma isIsoDateTime_D:
  "isIsoDateTime E v \<Longrightarrow> \<exists>s t. v = JStr s \<and> js_date_parse E s = Some t"
  by (cases v) auto

lemma date_checks_prim: "isIsoDateTime E v \<Longrightarrow> js_prim v" "isLocalDateTime v \<Longrightarrow> js_prim v"
  by (cases v; simp)+

end
