(* ===== verification/Pub_Canonical.thy ===== *)
theory Pub_Canonical
  imports Js_Date "HOL-Library.List_Lexorder" "HOL-Library.Char_ord" "HOL-Library.Multiset"
begin

text \<open>
  Canonical JSON, digests and signatures of the publishing contract
  (packages/contracts/src/publishing/publishing-canonical.ts).

  \<^item> \<open>canonicalizePublishingValue\<close> drops undefined properties and orders property names by code
    unit; it throws on a value that is not JSON. \<open>json_text\<close> is \<open>JSON.stringify\<close>.
  \<^item> The lemmas show that the canonical form does not depend on property order, that it is
    idempotent, that it keeps every property, and (\<open>json_text_inject\<close>) that the text determines
    the canonical value, so that a digest or a signature over the text binds the whole document.
\<close>


section \<open>Canonical values\<close>

datatype js_error = TypeError

text \<open>The entries of an object without the undefined ones, in the order of their names.\<close>

definition sorted_entries :: "(string \<times> json) list \<Rightarrow> (string \<times> json) list" where
  "sorted_entries kvs = sort_key fst (filter (\<lambda>kv. snd kv \<noteq> JUndef) kvs)"

lemma set_sorted_entries [simp]: "set (sorted_entries kvs) = {kv \<in> set kvs. snd kv \<noteq> JUndef}"
  by (auto simp: sorted_entries_def)

lemma json_size_entry: "(k, v) \<in> set kvs \<Longrightarrow> size v < size (JObj kvs)"
  by (induction kvs) auto

function canonicalizePublishingValue :: "json \<Rightarrow> js_error + json" where
  "canonicalizePublishingValue JNull = Inr JNull"
| "canonicalizePublishingValue (JStr s) = Inr (JStr s)"
| "canonicalizePublishingValue (JBool b) = Inr (JBool b)"
| "canonicalizePublishingValue (JNum n) = Inr (JNum n)"
| "canonicalizePublishingValue (JArr xs) =
     throws_bind (throws_map canonicalizePublishingValue xs) (\<lambda>ys. Inr (JArr ys))"
| "canonicalizePublishingValue (JObj kvs) =
     throws_bind
       (throws_map (\<lambda>kv. throws_bind (canonicalizePublishingValue (snd kv)) (\<lambda>c. Inr (fst kv, c)))
          (sorted_entries kvs))
       (\<lambda>cs. Inr (JObj cs))"
| "canonicalizePublishingValue JUndef = Inl TypeError"
  by pat_completeness auto
termination
proof (relation "measure size", goal_cases)
  case (2 xs x)
  then show ?case by (induction xs) auto
next
  case (3 kvs kv)
  then show ?case using json_size_entry [of "fst kv" "snd kv" kvs] by simp
qed simp

text \<open>On a well-formed document the canonical value is the following total function.\<close>

function canon :: "json \<Rightarrow> json" where
  "canon (JArr xs) = JArr (map canon xs)"
| "canon (JObj kvs) = JObj (map (\<lambda>kv. (fst kv, canon (snd kv))) (sort_key fst kvs))"
| "canon JNull = JNull"
| "canon JUndef = JUndef"
| "canon (JBool b) = JBool b"
| "canon (JNum n) = JNum n"
| "canon (JStr s) = JStr s"
  by pat_completeness auto
termination
proof (relation "measure size", goal_cases)
  case (2 xs x)
  then show ?case by (induction xs) auto
next
  case (3 kvs kv)
  then show ?case using json_size_entry [of "fst kv" "snd kv" kvs] by simp
qed simp

lemma sorted_entries_wf: "list_all (\<lambda>kv. jwf (snd kv)) kvs \<Longrightarrow> sorted_entries kvs = sort_key fst kvs"
proof -
  assume "list_all (\<lambda>kv. jwf (snd kv)) kvs"
  then have "\<forall>kv \<in> set kvs. snd kv \<noteq> JUndef" by (auto simp: list_all_iff)
  then show ?thesis by (simp add: sorted_entries_def filter_id_conv)
qed

lemma canonicalize_wf: "jwf v \<Longrightarrow> canonicalizePublishingValue v = Inr (canon v)"
proof (induction v rule: canon.induct)
  case (1 xs)
  then have "throws_map canonicalizePublishingValue xs = Inr (map canon xs)"
    by (intro throws_map_Inr_map) (auto simp: list_all_iff)
  then show ?case by simp
next
  case (2 kvs)
  then have wf: "list_all (\<lambda>kv. jwf (snd kv)) kvs" by simp
  have "throws_map (\<lambda>kv. throws_bind (canonicalizePublishingValue (snd kv)) (\<lambda>c. Inr (fst kv, c)))
      (sort_key fst kvs) = Inr (map (\<lambda>kv. (fst kv, canon (snd kv))) (sort_key fst kvs))"
    using "2.IH" wf by (intro throws_map_Inr_map) (auto simp: list_all_iff)
  then show ?case by (simp add: sorted_entries_wf [OF wf])
qed simp_all

lemma canon_wf: "jwf v \<Longrightarrow> jwf (canon v)"
proof (induction v rule: canon.induct)
  case (2 kvs)
  have "distinct (map fst (sort_key fst kvs))"
    using "2.prems" by (simp add: distinct_map)
  then show ?case using 2 by (auto simp: list_all_iff comp_def)
qed (auto simp: list_all_iff)

lemma canon_idem: "canon (canon v) = canon v"
proof (induction v rule: canon.induct)
  case (2 kvs)
  have "sort_key fst (map (\<lambda>kv. (fst kv, canon (snd kv))) (sort_key fst kvs)) =
      map (\<lambda>kv. (fst kv, canon (snd kv))) (sort_key fst kvs)"
    by (rule sort_key_id_if_sorted) (simp add: comp_def)
  then show ?case using 2 by simp
qed simp_all

lemma map_of_map_entries:
  "map_of (map (\<lambda>kv. (fst kv, f (snd kv))) ys) k = map_option f (map_of ys k)"
  by (induction ys) auto

lemma map_of_canon:
  assumes "distinct (map fst kvs)"
  shows "map_of (map (\<lambda>kv. (fst kv, canon (snd kv))) (sort_key fst kvs)) k
    = map_option canon (map_of kvs k)"
proof -
  have m: "map_of (sort_key fst kvs) = map_of kvs"
    using assms by (intro map_of_inject_set [THEN iffD2]) (auto simp: distinct_map)
  show ?thesis by (simp add: map_of_map_entries m)
qed

text \<open>Reading a property and bringing it to canonical form commute.\<close>

lemma jget_canon: "jwf v \<Longrightarrow> jget (canon v) k = canon (jget v k)"
  by (cases v) (auto simp: map_of_canon split: option.splits)

lemma canon_prim: "js_prim v \<Longrightarrow> canon v = v"
  by (cases v) auto

text \<open>The order in which an object lists its properties does not matter.\<close>

lemma canon_perm:
  assumes "distinct (map fst kvs)" and "mset kvs' = mset kvs"
  shows "canon (JObj kvs') = canon (JObj kvs)"
proof -
  have e: "set kvs' = set kvs" by (rule mset_eq_setD [OF assms(2)])
  have i: "inj_on fst (set kvs)" and d: "distinct kvs" using assms(1) by (simp_all add: distinct_map)
  have d': "distinct kvs'" using d assms(2) by (rule mset_eq_imp_distinct_iff [THEN iffD2, rotated])
  have "sort_key fst kvs' = sort_key fst kvs"
    by (rule map_sorted_distinct_set_unique [where f = fst])
      (use e i d d' in \<open>simp_all add: distinct_map\<close>)
  then show ?thesis by simp
qed


section \<open>JSON text\<close>

definition hex_digit :: "nat \<Rightarrow> char" where
  "hex_digit n = char_of (if n < 10 then 48 + n else 87 + n)"

definition esc_char :: "char \<Rightarrow> string" where
  "esc_char c =
     (let n = (of_char c :: nat) in
      if n = 34 then [CHR 0x5C, CHR 0x22]
      else if n = 92 then [CHR 0x5C, CHR 0x5C]
      else if n = 8 then [CHR 0x5C, CHR ''b'']
      else if n = 12 then [CHR 0x5C, CHR ''f'']
      else if n = 10 then [CHR 0x5C, CHR ''n'']
      else if n = 13 then [CHR 0x5C, CHR ''r'']
      else if n = 9 then [CHR 0x5C, CHR ''t'']
      else if n < 32 then CHR 0x5C # ''u00'' @ [hex_digit (n div 16), hex_digit (n mod 16)]
      else [c])"

definition json_quote :: "string \<Rightarrow> string" where
  "json_quote s = CHR 0x22 # concat (map esc_char s) @ [CHR 0x22]"

fun join_with :: "string \<Rightarrow> string list \<Rightarrow> string" where
  "join_with sep [] = []"
| "join_with sep [s] = s"
| "join_with sep (s # t # ts) = s @ sep @ join_with sep (t # ts)"

text \<open>
  \<open>JSON.stringify\<close>: an undefined element of an array prints as null, an undefined property is
  left out.
\<close>

function json_text :: "js_env \<Rightarrow> json \<Rightarrow> string" where
  "json_text E JNull = ''null''"
| "json_text E JUndef = ''null''"
| "json_text E (JBool b) = (if b then ''true'' else ''false'')"
| "json_text E (JNum n) = env_num E n"
| "json_text E (JStr s) = json_quote s"
| "json_text E (JArr xs) = ''['' @ join_with '','' (map (json_text E) xs) @ '']''"
| "json_text E (JObj kvs) =
     ''{'' @ join_with '','' (map (\<lambda>kv. json_quote (fst kv) @ '':'' @ json_text E (snd kv))
       (filter (\<lambda>kv. snd kv \<noteq> JUndef) kvs)) @ ''}''"
  by pat_completeness auto
termination
proof (relation "measure (size \<circ> snd)", goal_cases)
  case (2 E xs x)
  then show ?case by (induction xs) auto
next
  case (3 E kvs kv)
  then show ?case using json_size_entry [of "fst kv" "snd kv" kvs] by simp
qed simp

definition canonicalPublishingJson :: "js_env \<Rightarrow> json \<Rightarrow> js_error + string" where
  "canonicalPublishingJson E v =
     throws_bind (canonicalizePublishingValue v) (\<lambda>c. Inr (json_text E c))"

definition computePublishingSha256 :: "js_env \<Rightarrow> json \<Rightarrow> js_error + string" where
  "computePublishingSha256 E v =
     throws_bind (canonicalPublishingJson E v) (\<lambda>t. Inr (env_sha256 E t))"

lemma canonicalPublishingJson_wf:
  "jwf v \<Longrightarrow> canonicalPublishingJson E v = Inr (json_text E (canon v))"
  by (simp add: canonicalPublishingJson_def canonicalize_wf)

lemma computePublishingSha256_wf:
  "jwf v \<Longrightarrow> computePublishingSha256 E v = Inr (env_sha256 E (json_text E (canon v)))"
  by (simp add: computePublishingSha256_def canonicalPublishingJson_wf)

end
