(* ===== verification/Pub_Digest.thy ===== *)
theory Pub_Digest
  imports Pub_Canonical
begin

text \<open>
  What the canonical text binds, and the signature functions of publishing-canonical.ts.

  \<open>json_text_inject\<close>: two well-formed values with the same \<open>JSON.stringify\<close> text are equal,
  given what ECMAScript says of number printing (\<open>num_ok\<close>: distinct finite numbers print
  differently, with the characters of a decimal literal). Hence equal digests mean equal
  canonical documents or a collision of SHA-256 at two concrete texts (\<open>digest_binds\<close>).
\<close>


section \<open>The text determines the value\<close>

definition num_chars :: "char set" where
  "num_chars = set ''0123456789+-.e''"

definition num_ok :: "js_env \<Rightarrow> bool" where
  "num_ok E \<longleftrightarrow> (\<forall>n. env_num E n \<noteq> [] \<and> set (env_num E n) \<subseteq> num_chars)
     \<and> (\<forall>m n. env_num E m = env_num E n \<longrightarrow> m = n)"

definition stops :: "string \<Rightarrow> bool" where
  "stops r \<longleftrightarrow> r = [] \<or> hd r \<notin> num_chars"

lemma stops_simps [simp]: "stops []" "stops (c # r) \<longleftrightarrow> c \<notin> num_chars"
  by (simp_all add: stops_def)

lemma delimiters_stop [simp]:
  "CHR '','' \<notin> num_chars" "CHR '']'' \<notin> num_chars" "CHR ''}'' \<notin> num_chars"
  "CHR 0x22 \<notin> num_chars" "CHR ''['' \<notin> num_chars" "CHR ''{'' \<notin> num_chars"
  "CHR ''n'' \<notin> num_chars" "CHR ''t'' \<notin> num_chars" "CHR ''f'' \<notin> num_chars"
  by (simp_all add: num_chars_def)

lemma span_unique:
  assumes "set a \<subseteq> S" "set b \<subseteq> S" "a @ r = b @ r'"
    and "r = [] \<or> hd r \<notin> S" "r' = [] \<or> hd r' \<notin> S"
  shows "a = b \<and> r = r'"
  using assms
proof (induction a arbitrary: b)
  case Nil
  then show ?case by (cases b) auto
next
  case (Cons x a)
  show ?case
  proof (cases b)
    case Nil
    with Cons.prems show ?thesis by auto
  next
    case (Cons y b')
    with Cons.prems Cons.IH [of b'] show ?thesis by simp
  qed
qed

lemma of_char_hex_digit:
  "n < 16 \<Longrightarrow> (of_char (hex_digit n) :: nat) = (if n < 10 then 48 + n else 87 + n)"
  by (simp add: hex_digit_def)

lemma hex_digit_inj:
  assumes "a < 16" "b < 16" "hex_digit a = hex_digit b"
  shows "a = b"
proof -
  have "(if a < 10 then 48 + a else 87 + a) = (if b < 10 then 48 + b else 87 + (b::nat))"
    using assms of_char_hex_digit by metis
  then show ?thesis using assms(1,2) by (simp split: if_splits)
qed

text \<open>An escaped character is read back in one way.\<close>

lemma esc_char_cases:
  obtains (plain) "esc_char c = [c]" "c \<noteq> CHR 0x5C" "c \<noteq> CHR 0x22"
    | (short) e where "esc_char c = [CHR 0x5C, e]"
        "(of_char c :: nat, e) \<in> {(34, CHR 0x22), (92, CHR 0x5C), (8, CHR ''b''), (12, CHR ''f''),
          (10, CHR ''n''), (13, CHR ''r''), (9, CHR ''t'')}"
    | (unicode) "esc_char c =
          CHR 0x5C # ''u00'' @ [hex_digit (of_char c div 16), hex_digit (of_char c mod 16)]"
        "(of_char c :: nat) < 32"
proof -
  let ?n = "of_char c :: nat"
  have "(esc_char c = [c] \<and> ?n \<noteq> 92 \<and> ?n \<noteq> 34)
    \<or> (\<exists>e. esc_char c = [CHR 0x5C, e] \<and>
        (?n, e) \<in> {(34, CHR 0x22), (92, CHR 0x5C), (8, CHR ''b''), (12, CHR ''f''),
          (10, CHR ''n''), (13, CHR ''r''), (9, CHR ''t'')})
    \<or> (esc_char c = CHR 0x5C # ''u00'' @ [hex_digit (?n div 16), hex_digit (?n mod 16)] \<and> ?n < 32)"
    by (simp add: esc_char_def Let_def)
  moreover have "c \<noteq> CHR 0x5C" if "?n \<noteq> 92" using that by auto
  moreover have "c \<noteq> CHR 0x22" if "?n \<noteq> 34" using that by auto
  ultimately show thesis using plain short unicode by metis
qed

lemma esc_char_unique:
  assumes "esc_char c @ x = esc_char d @ y"
  shows "c = d \<and> x = y"
proof -
  have "(of_char c :: nat) = of_char d \<and> x = y"
  proof (cases c rule: esc_char_cases)
    case plain
    with assms show ?thesis by (cases d rule: esc_char_cases) auto
  next
    case (short e)
    with assms show ?thesis by (cases d rule: esc_char_cases) (auto simp del: of_char_eq_iff)
  next
    case unicode
    show ?thesis
    proof (cases d rule: esc_char_cases)
      case plain
      with unicode assms show ?thesis by auto
    next
      case (short e)
      with unicode assms show ?thesis by auto
    next
      case u: unicode
      have "hex_digit (of_char c div 16) = hex_digit (of_char d div 16)"
        "hex_digit (of_char c mod 16) = hex_digit (of_char d mod 16)" "x = y"
        using assms unfolding unicode(1) u(1) by simp_all
      then have "(of_char c :: nat) div 16 = of_char d div 16" "(of_char c :: nat) mod 16 = of_char d mod 16"
        using unicode(2) u(2) by (auto intro!: hex_digit_inj)
      then have "(of_char c :: nat) = of_char d" by (metis div_mult_mod_eq)
      then show ?thesis using \<open>x = y\<close> by simp
    qed
  qed
  then show ?thesis by simp
qed

lemma esc_char_not_quote: "esc_char c @ x \<noteq> CHR 0x22 # y"
  by (cases c rule: esc_char_cases) auto

lemma esc_chars_unique:
  "concat (map esc_char s) @ CHR 0x22 # r = concat (map esc_char t) @ CHR 0x22 # r' \<Longrightarrow> s = t \<and> r = r'"
proof (induction s arbitrary: t)
  case Nil
  show ?case
  proof (cases t)
    case (Cons d t')
    with Nil have "esc_char d @ (concat (map esc_char t') @ CHR 0x22 # r') = CHR 0x22 # r" by simp
    then show ?thesis by (simp add: esc_char_not_quote)
  qed (use Nil in simp)
next
  case (Cons c s)
  show ?case
  proof (cases t)
    case Nil
    with Cons.prems show ?thesis by (simp add: esc_char_not_quote)
  next
    case (Cons d t')
    with Cons.prems have "esc_char c @ (concat (map esc_char s) @ CHR 0x22 # r) =
        esc_char d @ (concat (map esc_char t') @ CHR 0x22 # r')" by simp
    from esc_char_unique [OF this] Cons Cons.IH [of t'] show ?thesis by simp
  qed
qed

lemma json_quote_unique: "json_quote s @ r = json_quote t @ r' \<Longrightarrow> s = t \<and> r = r'"
  using esc_chars_unique [of s r t r'] by (simp add: json_quote_def)


text \<open>Lists of printed elements, separated by commas and closed by a delimiter.\<close>

definition comma_tail :: "('a \<Rightarrow> string) \<Rightarrow> 'a list \<Rightarrow> string" where
  "comma_tail p xs = concat (map (\<lambda>x. CHR '','' # p x) xs)"

lemma join_with_Cons: "join_with '','' (map p (x # xs)) = p x @ comma_tail p xs"
  by (induction xs arbitrary: x) (simp_all add: comma_tail_def)

lemma comma_tail_simps [simp]:
  "comma_tail p [] = []" "comma_tail p (x # xs) = CHR '','' # p x @ comma_tail p xs"
  by (simp_all add: comma_tail_def)

lemma comma_tail_stops: "close \<notin> num_chars \<Longrightarrow> stops (comma_tail p xs @ close # r)"
  by (cases xs) simp_all

lemma comma_tail_unique:
  assumes uniq: "\<And>x y s t. x \<in> set xs \<Longrightarrow> y \<in> Y \<Longrightarrow> stops s \<Longrightarrow> stops t \<Longrightarrow>
      p x @ s = p y @ t \<Longrightarrow> x = y \<and> s = t"
    and close: "close \<notin> num_chars" "close \<noteq> CHR '',''"
    and eq: "comma_tail p xs @ close # r = comma_tail p ys @ close # r'" and "set ys \<subseteq> Y"
  shows "xs = ys \<and> r = r'"
  using uniq eq \<open>set ys \<subseteq> Y\<close>
proof (induction xs arbitrary: ys)
  case Nil
  then show ?case using close by (cases ys) auto
next
  case (Cons x xs)
  show ?case
  proof (cases ys)
    case Nil
    with Cons.prems close show ?thesis by auto
  next
    case (Cons y ys')
    with Cons.prems(2) have e: "p x @ (comma_tail p xs @ close # r) = p y @ (comma_tail p ys' @ close # r')"
      by simp
    have y: "y \<in> Y" "set ys' \<subseteq> Y" using Cons Cons.prems(3) by auto
    have xy: "x = y" "comma_tail p xs @ close # r = comma_tail p ys' @ close # r'"
      using Cons.prems(1) [OF _ y(1) comma_tail_stops comma_tail_stops e] close by auto
    have "xs = ys' \<and> r = r'"
      by (rule Cons.IH [OF _ xy(2) y(2)]) (use Cons.prems(1) in auto)
    with xy Cons show ?thesis by simp
  qed
qed

lemma join_unique:
  assumes uniq: "\<And>x y s t. x \<in> set xs \<Longrightarrow> y \<in> set ys \<Longrightarrow> stops s \<Longrightarrow> stops t \<Longrightarrow>
      p x @ s = p y @ t \<Longrightarrow> x = y \<and> s = t"
    and close: "close \<notin> num_chars" "close \<noteq> CHR '',''"
    and start: "\<And>x s t. x \<in> set xs \<union> set ys \<Longrightarrow> p x @ s \<noteq> close # t"
    and eq: "join_with '','' (map p xs) @ close # r = join_with '','' (map p ys) @ close # r'"
  shows "xs = ys \<and> r = r'"
proof (cases xs)
  case Nil
  show ?thesis
  proof (cases ys)
    case (Cons y ys')
    with Nil eq have "p y @ (comma_tail p ys' @ close # r') = close # r"
      by (simp only: join_with_Cons) simp
    with start [of y] Cons show ?thesis by auto
  qed (use Nil eq in simp)
next
  case (Cons x xs')
  show ?thesis
  proof (cases ys)
    case Nil
    with Cons eq have "p x @ (comma_tail p xs' @ close # r) = close # r'"
      by (simp only: join_with_Cons) simp
    with start [of x] Cons show ?thesis by auto
  next
    case y: (Cons y ys')
    have "comma_tail p xs @ close # r = comma_tail p ys @ close # r'"
      using eq unfolding Cons y join_with_Cons by simp
    then show ?thesis
      by (intro comma_tail_unique [of xs "set ys" p close]) (use uniq close in auto)
  qed
qed


text \<open>The first character of a text tells the kind of the value.\<close>

lemma env_num_head:
  assumes "num_ok E"
  obtains c s where "env_num E n = c # s" "c \<in> num_chars"
proof -
  have n: "env_num E n \<noteq> []" "set (env_num E n) \<subseteq> num_chars"
    using assms by (auto simp: num_ok_def)
  then show thesis using that by (cases "env_num E n") auto
qed

lemma json_text_head:
  assumes "num_ok E" "jwf v" "json_text E v @ s = c # t"
  shows "c \<noteq> CHR '']'' \<and> c \<noteq> CHR ''}'' \<and> c \<noteq> CHR '','' \<and>
    (c \<in> num_chars \<longleftrightarrow> (\<exists>n. v = JNum n)) \<and> (c = CHR 0x22 \<longleftrightarrow> (\<exists>x. v = JStr x)) \<and>
    (c = CHR ''['' \<longleftrightarrow> isArray v) \<and> (c = CHR ''{'' \<longleftrightarrow> isRecord v) \<and>
    (c = CHR ''n'' \<longleftrightarrow> v = JNull) \<and> (c = CHR ''t'' \<longleftrightarrow> v = JBool True) \<and>
    (c = CHR ''f'' \<longleftrightarrow> v = JBool False)"
proof (cases v)
  case (JNum n)
  obtain d u where d: "env_num E n = d # u" "d \<in> num_chars"
    using env_num_head [OF assms(1)] by blast
  then have c: "c = d" using assms(3) JNum by simp
  have "d \<noteq> x" if "x \<notin> num_chars" for x using d(2) that by blast
  then show ?thesis using JNum d(2) c by simp
next
  case (JBool b)
  then show ?thesis using assms(3) by (cases b) auto
qed (use assms in \<open>auto simp: json_quote_def\<close>)

lemma text_head_kinds:
  assumes "num_ok E" "jwf v"
  shows "json_text E v @ s = CHR 0x22 # t \<Longrightarrow> \<exists>x. v = JStr x"
    "json_text E v @ s = CHR ''['' # t \<Longrightarrow> \<exists>xs. v = JArr xs"
    "json_text E v @ s = CHR ''{'' # t \<Longrightarrow> \<exists>kvs. v = JObj kvs"
    "json_text E v @ s = CHR ''n'' # t \<Longrightarrow> v = JNull"
    "json_text E v @ s = CHR ''t'' # t \<Longrightarrow> v = JBool True"
    "json_text E v @ s = CHR ''f'' # t \<Longrightarrow> v = JBool False"
    "json_text E v @ s = c # t \<Longrightarrow> c \<in> num_chars \<Longrightarrow> \<exists>n. v = JNum n"
    "json_text E v @ s \<noteq> CHR '']'' # t"
    using json_text_head [OF assms, of s] by (simp_all add: isArray_iff isRecord_iff) blast

lemma jwf_entries: "jwf (JObj kvs) \<Longrightarrow> filter (\<lambda>kv. snd kv \<noteq> JUndef) kvs = kvs"
  by (auto simp: list_all_iff filter_id_conv)

lemma json_text_unique:
  assumes ok: "num_ok E"
  shows "jwf v \<Longrightarrow> jwf w \<Longrightarrow> stops r \<Longrightarrow> stops r' \<Longrightarrow>
    json_text E v @ r = json_text E w @ r' \<Longrightarrow> v = w \<and> r = r'"
proof (induction v arbitrary: w r r' rule: json.induct)
  case JNull
  from JNull.prems(5) have e: "json_text E w @ r' = CHR ''n'' # (''ull'' @ r)" by simp
  have "w = JNull" by (rule text_head_kinds(4) [OF ok JNull.prems(2) e])
  then show ?case using JNull.prems(5) by simp
next
  case JUndef
  then show ?case by simp
next
  case (JBool b)
  have "w = JBool b"
  proof (cases b)
    case True
    with JBool.prems(5) have e: "json_text E w @ r' = CHR ''t'' # (''rue'' @ r)" by simp
    show ?thesis using text_head_kinds(5) [OF ok JBool.prems(2) e] True by simp
  next
    case False
    with JBool.prems(5) have e: "json_text E w @ r' = CHR ''f'' # (''alse'' @ r)" by simp
    show ?thesis using text_head_kinds(6) [OF ok JBool.prems(2) e] False by simp
  qed
  then show ?case using JBool.prems(5) by simp
next
  case (JNum n)
  obtain c u where c: "env_num E n = c # u" "c \<in> num_chars" using env_num_head [OF ok] by blast
  have e: "json_text E w @ r' = c # (u @ r)" using JNum.prems(5) c by simp
  obtain m where m: "w = JNum m" using text_head_kinds(7) [OF ok JNum.prems(2) e c(2)] by blast
  have q: "env_num E n @ r = env_num E m @ r'" using JNum.prems(5) m by simp
  have k: "set (env_num E n) \<subseteq> num_chars" "set (env_num E m) \<subseteq> num_chars"
    using ok by (auto simp only: num_ok_def)
  have "env_num E n = env_num E m \<and> r = r'"
    by (rule span_unique [OF k q]) (use JNum.prems in \<open>simp_all add: stops_def\<close>)
  moreover have "env_num E n = env_num E m \<Longrightarrow> n = m" using ok by (simp only: num_ok_def)
  ultimately show ?case using m by simp
next
  case (JStr s)
  have "json_text E w @ r' = CHR 0x22 # (concat (map esc_char s) @ CHR 0x22 # r)"
    using JStr.prems(5) by (simp add: json_quote_def)
  then obtain t where t: "w = JStr t" using text_head_kinds(1) [OF ok JStr.prems(2)] by blast
  then show ?case using JStr.prems(5) json_quote_unique [of s r t r'] by simp
next
  case (JArr xs)
  have "json_text E w @ r' = CHR ''['' # (join_with '','' (map (json_text E) xs) @ CHR '']'' # r)"
    using JArr.prems(5) by simp
  then obtain ys where ys: "w = JArr ys"
    using text_head_kinds(2) [OF ok JArr.prems(2)] by blast
  have "xs = ys \<and> r = r'"
  proof (rule join_unique [of xs ys "json_text E" "CHR '']''"])
    show "json_text E x @ s \<noteq> CHR '']'' # t" if "x \<in> set xs \<union> set ys" for x s t
      using that JArr.prems(1,2) ys text_head_kinds(8) [OF ok, of x s t] by (auto simp: list_all_iff)
  next
    fix x y s t
    assume a: "x \<in> set xs" "y \<in> set ys" "stops s" "stops t" "json_text E x @ s = json_text E y @ t"
    have wf: "jwf x" "jwf y" using a JArr.prems(1,2) ys by (simp_all add: list_all_iff)
    show "x = y \<and> s = t" by (rule JArr.IH [OF a(1) wf a(3-5)])
  qed (use JArr.prems(5) ys in simp_all)
  then show ?case using ys by simp
next
  case (JObj kvs)
  let ?p = "\<lambda>kv. json_quote (fst kv) @ '':'' @ json_text E (snd kv)"
  have "json_text E w @ r' = CHR ''{'' # (join_with '','' (map ?p kvs) @ CHR ''}'' # r)"
    using JObj.prems(5) jwf_entries [OF JObj.prems(1)] by simp
  then obtain lvs where lvs: "w = JObj lvs"
    using text_head_kinds(3) [OF ok JObj.prems(2)] by blast
  have f: "filter (\<lambda>kv. snd kv \<noteq> JUndef) lvs = lvs" using JObj.prems(2) lvs jwf_entries by blast
  have "kvs = lvs \<and> r = r'"
  proof (rule join_unique [of kvs lvs ?p "CHR ''}''"])
    fix x y s t
    assume x: "x \<in> set kvs" and y: "y \<in> set lvs" and st: "stops s" "stops t" and e: "?p x @ s = ?p y @ t"
    have "json_quote (fst x) @ ('':'' @ json_text E (snd x) @ s) =
        json_quote (fst y) @ ('':'' @ json_text E (snd y) @ t)" using e by (simp only: append_assoc)
    from json_quote_unique [OF this]
    have q: "fst x = fst y" "json_text E (snd x) @ s = json_text E (snd y) @ t" by simp_all
    have wf: "jwf (snd x)" "jwf (snd y)"
      using x y JObj.prems(1,2) lvs by (auto simp: list_all_iff)
    have "snd x \<in> Basic_BNFs.snds x" by (cases x) (simp add: snds.simps)
    from JObj.IH [OF x this wf st q(2)] show "x = y \<and> s = t" using q(1) by (simp add: prod_eq_iff)
  next
    show "?p x @ s \<noteq> CHR ''}'' # t" for x s t by (simp add: json_quote_def)
    show "join_with '','' (map ?p kvs) @ CHR ''}'' # r = join_with '','' (map ?p lvs) @ CHR ''}'' # r'"
      using JObj.prems(5) lvs f jwf_entries [OF JObj.prems(1)] by simp
  qed simp_all
  then show ?case using lvs by simp
qed

theorem json_text_inject:
  assumes "num_ok E" "jwf v" "jwf w" "json_text E v = json_text E w"
  shows "v = w"
  using json_text_unique [OF assms(1-3), of "[]" "[]"] assms(4) by simp

text \<open>Two different canonical texts with the same SHA-256 digest.\<close>

definition sha_collision :: "js_env \<Rightarrow> json \<Rightarrow> json \<Rightarrow> bool" where
  "sha_collision E v w \<longleftrightarrow> json_text E (canon v) \<noteq> json_text E (canon w)
     \<and> env_sha256 E (json_text E (canon v)) = env_sha256 E (json_text E (canon w))"

lemma same_digest:
  assumes "num_ok E" "jwf v" "jwf w"
    and "computePublishingSha256 E v = computePublishingSha256 E w"
  shows "canon v = canon w \<or> sha_collision E v w"
  using assms json_text_inject [OF assms(1) canon_wf canon_wf]
  by (auto simp: computePublishingSha256_wf sha_collision_def)


section \<open>Signatures\<close>

definition PUBLISHING_SIGNATURE_ALGORITHM :: string where
  "PUBLISHING_SIGNATURE_ALGORITHM = ''hmac-sha256''"

record sig_input =
  sg_contract_version :: string
  sg_sent_at :: string
  sg_nonce :: string
  sg_body_sha256 :: string

definition canonicalPublishingSignatureInput :: "sig_input \<Rightarrow> string" where
  "canonicalPublishingSignatureInput i =
     join_with [CHR 0x0A]
       [PUBLISHING_SIGNATURE_ALGORITHM, sg_contract_version i, sg_sent_at i, sg_nonce i, sg_body_sha256 i]"

definition computePublishingSignature :: "js_env \<Rightarrow> sig_input \<Rightarrow> string \<Rightarrow> string" where
  "computePublishingSignature E i secret = env_hmac E secret (canonicalPublishingSignatureInput i)"

text \<open>\<open>Buffer.from (s, "hex")\<close>: the bytes up to the first pair that is not hexadecimal.\<close>

definition hex_val :: "char \<Rightarrow> nat" where
  "hex_val c = (let n = of_char c in if n < 58 then n - 48 else if n < 71 then n - 55 else n - 87)"

fun hex_bytes :: "string \<Rightarrow> nat list" where
  "hex_bytes (a # b # s) =
     (if is_hex a \<and> is_hex b then (16 * hex_val a + hex_val b) # hex_bytes s else [])"
| "hex_bytes _ = []"

definition isPublishingSignatureValid :: "js_env \<Rightarrow> sig_input \<Rightarrow> string \<Rightarrow> string \<Rightarrow> bool" where
  "isPublishingSignatureValid E i signature secret =
     (if \<not> SHA256_PATTERN signature then False
      else hex_bytes (computePublishingSignature E i secret) = hex_bytes signature)"

lemma hex_val_inj_nat:
  fixes m n :: nat
  assumes "48 \<le> m \<and> m \<le> 57 \<or> 97 \<le> m \<and> m \<le> 102" "48 \<le> n \<and> n \<le> 57 \<or> 97 \<le> n \<and> n \<le> 102"
    and "(if m < 58 then m - 48 else if m < 71 then m - 55 else m - 87) =
      (if n < 58 then n - 48 else if n < 71 then n - 55 else n - 87)"
  shows "m = n"
  using assms by (elim disjE conjE; simp)

lemma hex_val_inj:
  assumes "is_lower_hex a" "is_lower_hex b" "hex_val a = hex_val b"
  shows "a = b"
proof -
  have "(of_char a :: nat) = of_char b"
    using assms hex_val_inj_nat unfolding is_lower_hex_def char_between_def hex_val_def Let_def by blast
  then show ?thesis by simp
qed

lemma base16:
  assumes "16 * x + b = 16 * y + d" "b < 16" "d < 16"
  shows "x = y \<and> b = (d::nat)"
proof -
  have "(16 * x + b) div 16 = x" "(16 * y + d) div 16 = y" using assms(2,3) by simp_all
  with assms(1) show ?thesis by simp
qed

lemma hex_val_less: "is_lower_hex a \<Longrightarrow> hex_val a < 16"
  by (auto simp: is_lower_hex_def char_between_def hex_val_def Let_def)

lemma lower_hex_is_hex: "is_lower_hex c \<Longrightarrow> is_hex c"
  by (auto simp: is_lower_hex_def is_hex_def)

lemma hex_bytes_inject:
  "list_all is_lower_hex s \<Longrightarrow> list_all is_lower_hex t \<Longrightarrow> length s = length t \<Longrightarrow> even (length s) \<Longrightarrow>
    hex_bytes s = hex_bytes t \<Longrightarrow> s = t"
proof (induction s arbitrary: t rule: hex_bytes.induct)
  case (1 a b s)
  then obtain c d t' where t: "t = c # d # t'" by (cases t; cases "tl t") auto
  have h: "16 * hex_val a + hex_val b = 16 * hex_val c + hex_val d"
    using 1 t by (auto simp: lower_hex_is_hex)
  have "hex_val b < 16" "hex_val d < 16" using 1 t by (auto simp: hex_val_less)
  with h have "hex_val a = hex_val c" "hex_val b = hex_val d" using base16 by blast+
  then have "a = c" "b = d" using 1 t by (auto intro: hex_val_inj)
  then show ?case using 1 t by (auto simp: lower_hex_is_hex)
qed auto

text \<open>
  Comparing the decoded bytes is comparing the digests, since HMAC-SHA-256 prints as 64
  lower-case hexadecimal digits.
\<close>

lemma signature_valid_iff:
  assumes "SHA256_PATTERN (computePublishingSignature E i secret)"
  shows "isPublishingSignatureValid E i signature secret \<longleftrightarrow>
    signature = computePublishingSignature E i secret"
  using assms hex_bytes_inject [of "computePublishingSignature E i secret" signature]
  by (auto simp: isPublishingSignatureValid_def SHA256_PATTERN_def)

end
