(* ===== verification/Pub_Candidate.thy ===== *)
theory Pub_Candidate
  imports Pub_Digest
begin

text \<open>
  The publication candidate, the immutable document that Content hands to Publishing
  (packages/contracts/src/content/publication-candidate.ts): its checksum, the validators of the
  candidate and of its status, and the handoff check. Each validator returns its issues in the
  order the code pushes them, since callers report the first.
\<close>


section \<open>Error codes\<close>

datatype content_error_code =
    CONTENT_STRATEGY_NOT_APPROVED
  | CONTENT_PROFILE_STALE
  | CONTENT_CYCLE_PAUSED
  | CONTENT_CYCLE_COMPLETED
  | CONTENT_WEEK_OUT_OF_RANGE
  | CONTENT_WEEK_ALREADY_CLAIMED
  | CONTENT_CHANNEL_MISMATCH
  | CONTENT_UNSUPPORTED_CLAIM
  | CONTENT_OFFER_UNAPPROVED
  | CONTENT_POLICY_VIOLATION
  | CONTENT_ASSET_REQUIRED
  | CONTENT_SCHEMA_FAILURE
  | CONTENT_V2_REQUIRED
  | CONTENT_VERSION_CONFLICT
  | CONTENT_APPROVAL_BLOCKED
  | CONTENT_PROVIDER_FAILURE
  | CONTENT_CANDIDATE_TAMPERED
  | CONTENT_CANDIDATE_REVOKED
  | CONTENT_PLATFORM_CONSTRAINT

definition CONTENT_CHANNELS :: "string list" where
  "CONTENT_CHANNELS = [''facebook'', ''instagram'', ''tiktok'', ''google_business_profile'']"

definition CONTENT_FORMATS :: "string list" where
  "CONTENT_FORMATS = [''static_image_post'', ''short_video_script'', ''carousel_brief'', ''text_post'']"

definition CONTENT_ALT_TEXT_MAX_LENGTH :: nat where
  "CONTENT_ALT_TEXT_MAX_LENGTH = 100"

definition PUBLICATION_CANDIDATE_STATES :: "string list" where
  "PUBLICATION_CANDIDATE_STATES = [''active'', ''revoked'', ''replaced'']"


section \<open>Checksum\<close>

text \<open>
  The candidate checksum has a canonical form of its own: property names are ordered with
  \<open>localeCompare\<close> (\<open>env_collate a b\<close> is \<open>a.localeCompare(b) <= 0\<close>), \<open>Array.sort\<close> is stable, and a
  value that is not JSON becomes null instead of an exception.
\<close>

fun insert_by :: "('a \<Rightarrow> 'a \<Rightarrow> bool) \<Rightarrow> 'a \<Rightarrow> 'a list \<Rightarrow> 'a list" where
  "insert_by le x [] = [x]"
| "insert_by le x (y # ys) = (if le x y then x # y # ys else y # insert_by le x ys)"

definition js_sort :: "('a \<Rightarrow> 'a \<Rightarrow> bool) \<Rightarrow> 'a list \<Rightarrow> 'a list" where
  "js_sort le xs = foldr (insert_by le) xs []"

lemma set_insert_by [simp]: "set (insert_by le x xs) = insert x (set xs)"
  by (induction xs) auto

lemma set_js_sort [simp]: "set (js_sort le xs) = set xs"
  by (induction xs) (simp_all add: js_sort_def)

function canonicalize :: "js_env \<Rightarrow> json \<Rightarrow> json" where
  "canonicalize E JNull = JNull"
| "canonicalize E (JStr s) = JStr s"
| "canonicalize E (JNum n) = JNum n"
| "canonicalize E (JBool b) = JBool b"
| "canonicalize E (JArr xs) = JArr (map (canonicalize E) xs)"
| "canonicalize E (JObj kvs) =
     JObj (map (\<lambda>kv. (fst kv, canonicalize E (snd kv)))
       (js_sort (\<lambda>l r. env_collate E (fst l) (fst r)) (filter (\<lambda>kv. snd kv \<noteq> JUndef) kvs)))"
| "canonicalize E JUndef = JNull"
  by pat_completeness auto
termination
proof (relation "measure (size \<circ> snd)", goal_cases)
  case (2 E xs x)
  then show ?case by (induction xs) auto
next
  case (3 E kvs kv)
  then show ?case using json_size_entry [of "fst kv" "snd kv" kvs] by simp
qed simp

fun without_field :: "string \<Rightarrow> json \<Rightarrow> json" where
  "without_field k (JObj kvs) = JObj (filter (\<lambda>kv. fst kv \<noteq> k) kvs)"
| "without_field k v = v"

definition canonicalPublicationCandidatePayload :: "js_env \<Rightarrow> json \<Rightarrow> string" where
  "canonicalPublicationCandidatePayload E candidate =
     json_text E (canonicalize E (without_field ''candidate_checksum'' candidate))"

definition computePublicationCandidateChecksum :: "js_env \<Rightarrow> json \<Rightarrow> string" where
  "computePublicationCandidateChecksum E candidate =
     env_sha256 E (canonicalPublicationCandidatePayload E candidate)"

definition isPublicationCandidateChecksumValid :: "js_env \<Rightarrow> json \<Rightarrow> bool" where
  "isPublicationCandidateChecksumValid E candidate =
     js_eq (JStr (computePublicationCandidateChecksum E candidate)) (jget candidate ''candidate_checksum'')"


section \<open>The candidate document\<close>

definition CANDIDATE_FIELDS :: "string list" where
  "CANDIDATE_FIELDS =
     [''contract_version'', ''candidate_id'', ''business_id'', ''strategy_id'', ''strategy_version'',
      ''content_cycle_id'', ''strategy_week_number'', ''content_pack_id'', ''content_item_id'',
      ''content_item_version_id'', ''content_item_version'', ''content_item_version_checksum'',
      ''target_channel'', ''content_format'', ''selected_locale'', ''caption'', ''cta'', ''hashtags'',
      ''alt_text'', ''assets'', ''recommended_publish_window'', ''approval'', ''candidate_checksum'',
      ''created_at'']"

definition CANDIDATE_STATUS_FIELDS :: "string list" where
  "CANDIDATE_STATUS_FIELDS =
     [''contract_version'', ''candidate_id'', ''business_id'', ''candidate_checksum'', ''state_version'',
      ''candidate_state'', ''replacement_candidate_id'', ''changed_by_user_id'', ''changed_at'']"

text \<open>\<open>extraFields[0]\<close> names the issue when there is an extra field.\<close>

definition extra_field_issues :: "string list \<Rightarrow> json \<Rightarrow> content_error_code issue list" where
  "extra_field_issues allowed v =
     (case extra_fields allowed v of [] \<Rightarrow> [] | f # _ \<Rightarrow> [issue_of CONTENT_SCHEMA_FAILURE f])"

definition positive_version :: "json \<Rightarrow> bool" where
  "positive_version v \<longleftrightarrow> isInteger v \<and> \<not> jnum v < 1"

definition index_field :: "string \<Rightarrow> nat \<Rightarrow> string \<Rightarrow> string" where
  "index_field pre i suf = pre @ ''['' @ dec_nat i @ '']'' @ suf"

definition candidate_asset_issues :: "nat \<Rightarrow> json \<Rightarrow> content_error_code issue list" where
  "candidate_asset_issues index asset =
     (if \<not> isRecord asset \<or> \<not> isNonEmptyString (jget asset ''asset_id'')
         \<or> jget asset ''kind'' \<noteq> JStr ''owner_supplied'' \<and> jget asset ''kind'' \<noteq> JStr ''generated_static''
         \<or> \<not> isNonEmptyString (jget asset ''mime_type'') \<or> \<not> isNonEmptyString (jget asset ''storage_key'')
      then [issue_of CONTENT_ASSET_REQUIRED (index_field ''assets'' index '''')]
      else ensure (isSha256 (jget asset ''checksum'')) CONTENT_ASSET_REQUIRED
        (index_field ''assets'' index ''.checksum''))"

definition candidate_assets_issues :: "bool \<Rightarrow> json \<Rightarrow> content_error_code issue list" where
  "candidate_assets_issues textOnly assets =
     (if \<not> isArray assets \<or> \<not> textOnly \<and> length (jelems assets) = 0
      then [issue_of CONTENT_ASSET_REQUIRED ''assets'']
      else concat (map (\<lambda>(i, a). candidate_asset_issues i a) (enumerate 0 (jelems assets))))"

definition window_ok :: "js_env \<Rightarrow> json \<Rightarrow> bool" where
  "window_ok E window \<longleftrightarrow>
     isRecord window \<and> isIsoDateTime E (jget window ''starts_at'') \<and>
     isIsoDateTime E (jget window ''ends_at'') \<and> jget window ''timezone'' = JStr ''Africa/Cairo'' \<and>
     date_ms E (jget window ''starts_at'') < date_ms E (jget window ''ends_at'')"

definition candidate_approval_issues :: "js_env \<Rightarrow> json \<Rightarrow> content_error_code issue list" where
  "candidate_approval_issues E candidate =
     (let approval = jget candidate ''approval'' in
      if \<not> isRecord approval \<or> jget approval ''decision'' \<noteq> JStr ''approved''
         \<or> \<not> isNonEmptyString (jget approval ''decision_id'')
         \<or> \<not> isNonEmptyString (jget approval ''decided_by_user_id'')
         \<or> \<not> isIsoDateTime E (jget approval ''decided_at'')
      then [issue_of CONTENT_APPROVAL_BLOCKED ''approval'']
      else ensure
        (js_eq (jget approval ''content_item_version_id'') (jget candidate ''content_item_version_id'') \<and>
         js_eq (jget approval ''content_item_version_checksum'')
           (jget candidate ''content_item_version_checksum''))
        CONTENT_VERSION_CONFLICT ''approval.content_item_version_id'')"

definition candidate_checksum_issues :: "js_env \<Rightarrow> json \<Rightarrow> content_error_code issue list" where
  "candidate_checksum_issues E candidate =
     (if \<not> isSha256 (jget candidate ''candidate_checksum'')
      then [issue_of CONTENT_SCHEMA_FAILURE ''candidate_checksum'']
      else ensure (isPublicationCandidateChecksumValid E candidate)
        CONTENT_CANDIDATE_TAMPERED ''candidate_checksum'')"

definition candidate_identity_issues :: "json \<Rightarrow> content_error_code issue list" where
  "candidate_identity_issues candidate =
     extra_field_issues CANDIDATE_FIELDS candidate @
     ensure (jget candidate ''contract_version'' = JStr ''publication-candidate-v1'')
       CONTENT_SCHEMA_FAILURE ''contract_version'' @
     ensure_each isNonEmptyString candidate
       [''candidate_id'', ''business_id'', ''strategy_id'', ''content_cycle_id'', ''content_pack_id'',
        ''content_item_id'', ''content_item_version_id'', ''content_item_version_checksum'', ''caption'']
       CONTENT_SCHEMA_FAILURE '''' @
     ensure (positive_version (jget candidate ''strategy_version''))
       CONTENT_SCHEMA_FAILURE ''strategy_version'' @
     ensure (positive_version (jget candidate ''strategy_week_number'') \<and>
         \<not> jnum (jget candidate ''strategy_week_number'') > 12)
       CONTENT_WEEK_OUT_OF_RANGE ''strategy_week_number'' @
     ensure (positive_version (jget candidate ''content_item_version''))
       CONTENT_SCHEMA_FAILURE ''content_item_version''"

definition candidate_copy_issues :: "json \<Rightarrow> content_error_code issue list" where
  "candidate_copy_issues candidate =
     ensure (js_includes CONTENT_CHANNELS (jget candidate ''target_channel''))
       CONTENT_CHANNEL_MISMATCH ''target_channel'' @
     ensure (js_includes CONTENT_FORMATS (jget candidate ''content_format''))
       CONTENT_SCHEMA_FAILURE ''content_format'' @
     ensure (jget candidate ''selected_locale'' = JStr ''ar'' \<or> jget candidate ''selected_locale'' = JStr ''en'')
       CONTENT_SCHEMA_FAILURE ''selected_locale'' @
     ensure (jget candidate ''cta'' = JNull \<or> js_is_string (jget candidate ''cta''))
       CONTENT_SCHEMA_FAILURE ''cta'' @
     ensure (isArray (jget candidate ''hashtags'') \<and> list_all js_is_string (jelems (jget candidate ''hashtags'')))
       CONTENT_SCHEMA_FAILURE ''hashtags'' @
     (let textOnly = (jget candidate ''content_format'' = JStr ''text_post''); alt = jget candidate ''alt_text''
      in ensure (js_is_string alt \<and> \<not> length (jstr alt) > CONTENT_ALT_TEXT_MAX_LENGTH \<and>
             (textOnly \<or> length (js_trim (jstr alt)) \<noteq> 0))
           CONTENT_ASSET_REQUIRED ''alt_text'' @
         candidate_assets_issues textOnly (jget candidate ''assets''))"

definition validatePublicationCandidateV1 :: "js_env \<Rightarrow> json \<Rightarrow> content_error_code validation" where
  "validatePublicationCandidateV1 E candidate =
     (if \<not> isRecord candidate then firstIssue CONTENT_SCHEMA_FAILURE ''candidate''
      else result_of
        (candidate_identity_issues candidate @
         candidate_copy_issues candidate @
         ensure (window_ok E (jget candidate ''recommended_publish_window''))
           CONTENT_SCHEMA_FAILURE ''recommended_publish_window'' @
         candidate_approval_issues E candidate @
         ensure (isIsoDateTime E (jget candidate ''created_at'')) CONTENT_SCHEMA_FAILURE ''created_at'' @
         candidate_checksum_issues E candidate))"


section \<open>The status document and the handoff\<close>

definition candidate_status_issues :: "js_env \<Rightarrow> json \<Rightarrow> content_error_code issue list" where
  "candidate_status_issues E v =
     extra_field_issues CANDIDATE_STATUS_FIELDS v @
     ensure (jget v ''contract_version'' = JStr ''publication-candidate-status-v1'')
       CONTENT_SCHEMA_FAILURE ''candidate_status.contract_version'' @
     ensure_each isNonEmptyString v [''candidate_id'', ''business_id'']
       CONTENT_SCHEMA_FAILURE ''candidate_status.'' @
     ensure (isSha256 (jget v ''candidate_checksum''))
       CONTENT_SCHEMA_FAILURE ''candidate_status.candidate_checksum'' @
     ensure (positive_version (jget v ''state_version''))
       CONTENT_SCHEMA_FAILURE ''candidate_status.state_version'' @
     ensure (js_includes PUBLICATION_CANDIDATE_STATES (jget v ''candidate_state''))
       CONTENT_SCHEMA_FAILURE ''candidate_status.candidate_state'' @
     ensure (\<not> (jget v ''candidate_state'' = JStr ''replaced''
           \<and> \<not> isNonEmptyString (jget v ''replacement_candidate_id'')
         \<or> jget v ''candidate_state'' \<noteq> JStr ''replaced'' \<and> jget v ''replacement_candidate_id'' \<noteq> JNull))
       CONTENT_SCHEMA_FAILURE ''candidate_status.replacement_candidate_id'' @
     ensure (jget v ''changed_by_user_id'' = JNull \<or> isNonEmptyString (jget v ''changed_by_user_id''))
       CONTENT_SCHEMA_FAILURE ''candidate_status.changed_by_user_id'' @
     ensure (isIsoDateTime E (jget v ''changed_at''))
       CONTENT_SCHEMA_FAILURE ''candidate_status.changed_at''"

definition validatePublicationCandidateStatusV1 :: "js_env \<Rightarrow> json \<Rightarrow> content_error_code validation" where
  "validatePublicationCandidateStatusV1 E v =
     (if \<not> isRecord v then firstIssue CONTENT_SCHEMA_FAILURE ''candidate_status''
      else result_of (candidate_status_issues E v))"

definition validatePublicationCandidateHandoff :: "js_env \<Rightarrow> json \<Rightarrow> json \<Rightarrow> content_error_code validation" where
  "validatePublicationCandidateHandoff E candidate status =
     (let candidateResult = validatePublicationCandidateV1 E candidate;
          statusResult = validatePublicationCandidateStatusV1 E status
      in if \<not> valid candidateResult then candidateResult
         else if \<not> valid statusResult then statusResult
         else if \<not> js_eq (jget status ''candidate_id'') (jget candidate ''candidate_id'')
             \<or> \<not> js_eq (jget status ''business_id'') (jget candidate ''business_id'')
             \<or> \<not> js_eq (jget status ''candidate_checksum'') (jget candidate ''candidate_checksum'')
           then firstIssue CONTENT_CANDIDATE_TAMPERED ''candidate_status.candidate_checksum''
         else if jget status ''candidate_state'' = JStr ''revoked''
             \<or> jget status ''candidate_state'' = JStr ''replaced''
           then firstIssue CONTENT_CANDIDATE_REVOKED ''candidate_status.candidate_state''
         else valid_result)"


section \<open>What an accepted document satisfies\<close>

lemma extra_field_issues_Nil [simp]:
  "extra_field_issues allowed v = [] \<longleftrightarrow> extra_fields allowed v = []"
  by (simp add: extra_field_issues_def split: list.splits)

lemma isNonEmptyString_prim: "isNonEmptyString v \<Longrightarrow> js_prim v"
  by (rule string_checks_prim)

lemma positive_version_D:
  assumes "positive_version v"
  obtains i :: int where "v = JNum (of_int i)" and "1 \<le> i"
  using assms isInteger_D [of v] by (auto simp: positive_version_def)

lemma valid_candidate_record: "valid (validatePublicationCandidateV1 E c) \<Longrightarrow> isRecord c"
  by (simp add: validatePublicationCandidateV1_def split: if_splits)

lemmas candidate_check_defs =
  validatePublicationCandidateV1_def candidate_identity_issues_def candidate_copy_issues_def
  candidate_approval_issues_def candidate_checksum_issues_def Let_def

lemma valid_candidate_identity:
  assumes "valid (validatePublicationCandidateV1 E c)"
  shows "isNonEmptyString (jget c ''candidate_id'')" "isNonEmptyString (jget c ''business_id'')"
    "isSha256 (jget c ''candidate_checksum'')"
    "jget c ''contract_version'' = JStr ''publication-candidate-v1''"
    "set (jkeys c) \<subseteq> set CANDIDATE_FIELDS"
  using assms by (simp_all add: candidate_check_defs extra_fields_Nil_iff split: if_splits)

lemma valid_candidate_week:
  assumes "valid (validatePublicationCandidateV1 E c)"
  obtains w :: int where "jget c ''strategy_week_number'' = JNum (of_int w)" "1 \<le> w" "w \<le> 12"
proof -
  have p: "positive_version (jget c ''strategy_week_number'')"
    and le: "\<not> jnum (jget c ''strategy_week_number'') > 12"
    using assms by (simp_all add: candidate_check_defs split: if_splits)
  obtain w :: int where w: "jget c ''strategy_week_number'' = JNum (of_int w)" "1 \<le> w"
    using positive_version_D [OF p] .
  with le have "w \<le> 12" by simp
  with w show thesis by (rule that)
qed

lemma valid_candidate_checksum:
  assumes "valid (validatePublicationCandidateV1 E c)"
  shows "jget c ''candidate_checksum'' = JStr (computePublicationCandidateChecksum E c)"
  using assms
  by (auto simp: candidate_check_defs isPublicationCandidateChecksumValid_def js_eq_iff split: if_splits)

lemma valid_candidate_approval:
  assumes "valid (validatePublicationCandidateV1 E c)"
  shows "jget (jget c ''approval'') ''decision'' = JStr ''approved''"
    and "jget (jget c ''approval'') ''content_item_version_id'' = jget c ''content_item_version_id''"
    and "jget (jget c ''approval'') ''content_item_version_checksum'' = jget c ''content_item_version_checksum''"
  using assms by (simp_all add: candidate_check_defs js_eq_iff split: if_splits)

lemma concat_enumerate_Nil:
  "concat (map (\<lambda>(i, a). f i a) (enumerate n xs)) = [] \<longleftrightarrow> (\<forall>i < length xs. f (n + i) (xs ! i) = [])"
proof (induction xs arbitrary: n)
  case (Cons x xs)
  show ?case using Cons.IH [of "Suc n"] by (auto simp: less_Suc_eq_0_disj)
qed simp

lemma candidate_asset_issues_Nil:
  "candidate_asset_issues i a = [] \<Longrightarrow>
    isRecord a \<and> isNonEmptyString (jget a ''asset_id'') \<and> isSha256 (jget a ''checksum'')"
  by (simp add: candidate_asset_issues_def split: if_splits)

lemma candidate_assets_issues_Nil:
  assumes "candidate_assets_issues t v = []"
  shows "\<exists>xs. v = JArr xs \<and> (t \<or> xs \<noteq> []) \<and> (\<forall>i < length xs. candidate_asset_issues i (xs ! i) = [])"
proof -
  from assms obtain xs where "v = JArr xs" "t \<or> xs \<noteq> []"
    "concat (map (\<lambda>(i, a). candidate_asset_issues i a) (enumerate 0 xs)) = []"
    unfolding candidate_assets_issues_def by (cases v) (auto simp del: concat_eq_Nil_conv split: if_splits)
  then show ?thesis unfolding concat_enumerate_Nil by auto
qed

lemma valid_candidate_assets:
  assumes "valid (validatePublicationCandidateV1 E c)"
  shows "\<exists>xs. jget c ''assets'' = JArr xs \<and> (jget c ''content_format'' \<noteq> JStr ''text_post'' \<longrightarrow> xs \<noteq> []) \<and>
    (\<forall>a \<in> set xs. isRecord a \<and> isNonEmptyString (jget a ''asset_id'') \<and> isSha256 (jget a ''checksum''))"
proof -
  have "candidate_assets_issues (jget c ''content_format'' = JStr ''text_post'') (jget c ''assets'') = []"
    using assms by (simp add: candidate_check_defs split: if_splits)
  then obtain xs where xs: "jget c ''assets'' = JArr xs" "jget c ''content_format'' = JStr ''text_post'' \<or> xs \<noteq> []"
    "\<forall>i < length xs. candidate_asset_issues i (xs ! i) = []"
    using candidate_assets_issues_Nil by blast
  then show ?thesis by (auto simp: in_set_conv_nth dest!: candidate_asset_issues_Nil)
qed

lemma valid_status_facts:
  assumes "valid (validatePublicationCandidateStatusV1 E v)"
  shows "isRecord v" "isNonEmptyString (jget v ''candidate_id'')" "isNonEmptyString (jget v ''business_id'')"
    "isSha256 (jget v ''candidate_checksum'')" "positive_version (jget v ''state_version'')"
    "jget v ''candidate_state'' \<in> {JStr ''active'', JStr ''revoked'', JStr ''replaced''}"
    "jget v ''candidate_state'' = JStr ''replaced'' \<longleftrightarrow> jget v ''replacement_candidate_id'' \<noteq> JNull"
    "isIsoDateTime E (jget v ''changed_at'')"
  using assms
  by (auto simp: validatePublicationCandidateStatusV1_def candidate_status_issues_def
      PUBLICATION_CANDIDATE_STATES_def split: if_splits)

lemma handoff_valid_iff:
  "valid (validatePublicationCandidateHandoff E c s) \<longleftrightarrow>
     valid (validatePublicationCandidateV1 E c) \<and> valid (validatePublicationCandidateStatusV1 E s)
     \<and> js_eq (jget s ''candidate_id'') (jget c ''candidate_id'')
     \<and> js_eq (jget s ''business_id'') (jget c ''business_id'')
     \<and> js_eq (jget s ''candidate_checksum'') (jget c ''candidate_checksum'')
     \<and> jget s ''candidate_state'' = JStr ''active''"
  using valid_status_facts(6) [of E s]
  by (auto simp: validatePublicationCandidateHandoff_def Let_def)

end
