(* ===== verification/Sample_Data.thy ===== *)
theory Sample_Data
  imports Pub_Candidate
begin

text \<open>
  Concrete inputs for the witnesses: an environment (a fixed UTC offset, a digest function with
  the documented output format, a number printer that satisfies \<open>num_ok\<close>), and a candidate with
  its status, as Content publishes them.
\<close>


section \<open>A number printer\<close>

definition sample_num :: "rat \<Rightarrow> string" where
  "sample_num r = dec_int (fst (quotient_of r)) @ CHR ''e'' # dec_int (snd (quotient_of r))"

definition decimal_digits :: "char set" where
  "decimal_digits = {c. is_digit c}"

lemma digit_char_decimal: "0 \<le> k \<Longrightarrow> k < 10 \<Longrightarrow> digit_char k \<in> decimal_digits"
  by (simp add: decimal_digits_def digit_char_facts)

lemma decimal_digits_enum: "decimal_digits \<subseteq> set ''0123456789''"
proof
  fix c assume "c \<in> decimal_digits"
  then have "48 \<le> (of_char c :: nat)" "(of_char c :: nat) \<le> 57"
    by (simp_all add: decimal_digits_def is_digit_def char_between_def)
  then have "(of_char c :: nat) = 48 \<or> (of_char c :: nat) = 49 \<or> (of_char c :: nat) = 50 \<or>
      (of_char c :: nat) = 51 \<or> (of_char c :: nat) = 52 \<or> (of_char c :: nat) = 53 \<or>
      (of_char c :: nat) = 54 \<or> (of_char c :: nat) = 55 \<or> (of_char c :: nat) = 56 \<or>
      (of_char c :: nat) = 57"
    by presburger
  then show "c \<in> set ''0123456789''"
    by (simp add: of_char_eq_iff [where 'a = nat, symmetric] del: of_char_eq_iff)
qed

lemma dec_nat_small: "n < 10 \<Longrightarrow> dec_nat n = [digit_char (int n)]"
  by (subst dec_nat.simps) simp

lemma dec_nat_large: "\<not> n < 10 \<Longrightarrow> dec_nat n = dec_nat (n div 10) @ [digit_char (int (n mod 10))]"
  by (subst dec_nat.simps) simp

lemma dec_nat_decimal: "set (dec_nat n) \<subseteq> decimal_digits"
proof (induction n rule: less_induct)
  case (less n)
  show ?case
  proof (cases "n < 10")
    case True
    then show ?thesis by (simp add: dec_nat_small digit_char_decimal)
  next
    case False
    have "digit_char (int (n mod 10)) \<in> decimal_digits" by (rule digit_char_decimal) simp_all
    moreover have "set (dec_nat (n div 10)) \<subseteq> decimal_digits" by (rule less.IH) (use False in simp)
    ultimately show ?thesis unfolding dec_nat_large [OF False] by simp
  qed
qed

lemma dec_nat_not_Nil: "dec_nat n \<noteq> []"
proof (cases "n < 10")
  case False
  then show ?thesis unfolding dec_nat_large [OF False] by simp
qed (simp add: dec_nat_small)

lemma digit_char_inj: "0 \<le> a \<Longrightarrow> a < 10 \<Longrightarrow> 0 \<le> b \<Longrightarrow> b < 10 \<Longrightarrow> digit_char a = digit_char b \<Longrightarrow> a = b"
  by (drule arg_cong [where f = digit_val]) (simp only: digit_char_facts(2))

lemma dec_nat_inject: "dec_nat m = dec_nat n \<Longrightarrow> m = n"
proof (induction m arbitrary: n rule: less_induct)
  case (less m)
  consider "m < 10" "n < 10" | "m < 10" "\<not> n < 10" | "\<not> m < 10" "n < 10" | "\<not> m < 10" "\<not> n < 10"
    by blast
  then show ?case
  proof cases
    case 1
    then show ?thesis using less.prems digit_char_inj [of "int m" "int n"] by (simp add: dec_nat_small)
  next
    case 2
    then show ?thesis using less.prems dec_nat_not_Nil [of "n div 10"]
      unfolding dec_nat_small [OF 2(1)] dec_nat_large [OF 2(2)] by (simp add: Cons_eq_append_conv)
  next
    case 3
    then show ?thesis using less.prems dec_nat_not_Nil [of "m div 10"]
      unfolding dec_nat_small [OF 3(2)] dec_nat_large [OF 3(1)] by (simp add: append_eq_Cons_conv)
  next
    case 4
    have d: "dec_nat (m div 10) = dec_nat (n div 10)" "digit_char (int (m mod 10)) = digit_char (int (n mod 10))"
      using less.prems unfolding dec_nat_large [OF 4(1)] dec_nat_large [OF 4(2)] by simp_all
    have "int (m mod 10) = int (n mod 10)" by (rule digit_char_inj [OF _ _ _ _ d(2)]) simp_all
    moreover have "m div 10 = n div 10" by (rule less.IH [OF _ d(1)]) (use 4 in simp)
    ultimately show ?thesis by (metis div_mult_mod_eq of_nat_eq_iff)
  qed
qed

lemma dec_int_inject: "dec_int a = dec_int b \<Longrightarrow> a = b"
proof -
  have m: "dec_nat k \<noteq> CHR ''-'' # s" for k s
    using dec_nat_decimal [of k] by (auto simp: decimal_digits_def is_digit_def char_between_def)
  assume "dec_int a = dec_int b"
  then show ?thesis using m [of _ "dec_nat (nat (- a))"] m [of _ "dec_nat (nat (- b))"]
    by (cases "a < 0"; cases "b < 0") (auto simp: dec_int_def dest!: dec_nat_inject dest: sym)
qed

lemma dec_int_chars: "dec_int a \<noteq> [] \<and> set (dec_int a) \<subseteq> insert (CHR ''-'') decimal_digits"
  using dec_nat_decimal dec_nat_not_Nil by (auto simp: dec_int_def)

lemma sample_num_inject:
  assumes "sample_num r = sample_num s"
  shows "r = s"
proof -
  have "dec_int (fst (quotient_of r)) = dec_int (fst (quotient_of s))
      \<and> CHR ''e'' # dec_int (snd (quotient_of r)) = CHR ''e'' # dec_int (snd (quotient_of s))"
    by (rule span_unique [where S = "insert (CHR ''-'') decimal_digits"])
      (use assms dec_int_chars in \<open>auto simp: sample_num_def decimal_digits_def is_digit_def char_between_def\<close>)
  then have "quotient_of r = quotient_of s" by (auto simp: prod_eq_iff dest: dec_int_inject)
  then show ?thesis by (metis quotient_of_div surj_pair)
qed

section \<open>An environment\<close>

definition sample_sha :: string where
  "sample_sha = replicate 64 (CHR ''a'')"

definition sample_env :: js_env where
  "sample_env =
     \<lparr>env_legacy_date = \<lambda>_. None, env_local_offset = \<lambda>_. 7200000, env_cairo_offset = \<lambda>_. 7200000,
      env_sha256 = \<lambda>_. sample_sha, env_hmac = \<lambda>_ _. sample_sha,
      env_url = \<lambda>_. Some (''https:'', ''n8n.internal''), env_collate = (\<le>), env_num = sample_num\<rparr>"

lemma sample_env_simps [simp]:
  "env_sha256 sample_env s = sample_sha" "env_hmac sample_env k s = sample_sha"
  "env_cairo_offset sample_env t = 7200000" "env_local_offset sample_env t = 7200000"
  "env_url sample_env u = Some (''https:'', ''n8n.internal'')" "env_num sample_env = sample_num"
  by (simp_all add: sample_env_def)

lemma sample_sha_ok [simp]: "SHA256_PATTERN sample_sha"
  by (simp add: SHA256_PATTERN_def sample_sha_def is_lower_hex_def char_between_def list_all_iff)

lemma sample_env_num_ok: "num_ok sample_env"
proof -
  have "sample_num n \<noteq> [] \<and> set (sample_num n) \<subseteq> num_chars" for n
    using dec_int_chars decimal_digits_enum by (fastforce simp: sample_num_def num_chars_def)
  then show ?thesis using sample_num_inject by (auto simp: num_ok_def)
qed


section \<open>A candidate and its status\<close>

definition sample_uuid :: "char \<Rightarrow> string" where
  "sample_uuid c =
     replicate 8 c @ CHR ''-'' # replicate 4 c @ CHR ''-'' # replicate 4 c @ CHR ''-'' #
     replicate 4 c @ CHR ''-'' # replicate 12 c"

lemma list_all2_replicate: "P x y \<Longrightarrow> list_all2 P (replicate n x) (replicate n y)"
  by (induction n) simp_all

lemma sample_uuid_ok [simp]: "is_hex c \<Longrightarrow> shape_matches UUID_PATTERN (sample_uuid c)"
  unfolding shape_matches_def UUID_PATTERN_def sample_uuid_def
  by (intro list_all2_appendI list_all2_replicate list.rel_intros) simp_all

lemma trim_not_empty: "\<not> js_space c \<Longrightarrow> js_trim (c # s) \<noteq> []"
  by (simp add: js_trim_def dropWhile_append)

lemma hex_not_space: "is_hex c \<Longrightarrow> \<not> js_space c"
  by (auto simp: is_hex_def char_between_def js_space_def Let_def)

lemma sample_uuid_nonempty [simp]: "is_hex c \<Longrightarrow> js_trim (sample_uuid c) \<noteq> []"
  using trim_not_empty [OF hex_not_space] by (simp add: sample_uuid_def numeral_eq_Suc)

lemma sample_hex [simp]: "is_hex (CHR ''1'')" "is_hex (CHR ''2'')" "is_hex (CHR ''3'')"
    "is_hex (CHR ''4'')" "is_hex (CHR ''5'')"
  by (simp_all add: is_hex_def char_between_def)

text \<open>1785578400000 is 2026-08-01T10:00:00Z.\<close>

definition sample_at :: string where "sample_at = toISOString 1785578400000"
definition sample_later :: string where "sample_later = toISOString 1785585600000"

lemma sample_at_parse [simp]: "js_date_parse sample_env sample_at = Some 1785578400000"
  unfolding sample_at_def by (rule js_date_parse_toISOString) simp_all

lemma sample_later_parse [simp]: "js_date_parse sample_env sample_later = Some 1785585600000"
  unfolding sample_later_def by (rule js_date_parse_toISOString) simp_all

definition candidate_doc :: "string \<Rightarrow> json" where
  "candidate_doc i = JObj
     [(''contract_version'', JStr ''publication-candidate-v1''),
      (''candidate_id'', JStr i),
      (''business_id'', JStr (sample_uuid (CHR ''2''))),
      (''strategy_id'', JStr ''s1''), (''strategy_version'', JNum 1),
      (''content_cycle_id'', JStr ''c1''), (''strategy_week_number'', JNum 3),
      (''content_pack_id'', JStr ''p1''), (''content_item_id'', JStr ''i1''),
      (''content_item_version_id'', JStr (sample_uuid (CHR ''3''))), (''content_item_version'', JNum 2),
      (''content_item_version_checksum'', JStr sample_sha),
      (''target_channel'', JStr ''facebook''), (''content_format'', JStr ''static_image_post''),
      (''selected_locale'', JStr ''en''), (''caption'', JStr ''Hello''), (''cta'', JNull),
      (''hashtags'', JArr [JStr ''#cairo'']), (''alt_text'', JStr ''A loaf''),
      (''assets'', JArr [JObj [(''asset_id'', JStr ''a1''), (''kind'', JStr ''owner_supplied''),
         (''mime_type'', JStr ''image/png''), (''storage_key'', JStr ''k1''), (''checksum'', JStr sample_sha)]]),
      (''recommended_publish_window'', JObj [(''starts_at'', JStr sample_at), (''ends_at'', JStr sample_later),
         (''timezone'', JStr ''Africa/Cairo'')]),
      (''approval'', JObj [(''decision'', JStr ''approved''), (''decision_id'', JStr ''d1''),
         (''decided_by_user_id'', JStr ''u1''), (''decided_at'', JStr sample_at),
         (''content_item_version_id'', JStr (sample_uuid (CHR ''3''))),
         (''content_item_version_checksum'', JStr sample_sha)]),
      (''candidate_checksum'', JStr sample_sha), (''created_at'', JStr sample_at)]"

definition sample_candidate :: json where
  "sample_candidate = candidate_doc (sample_uuid (CHR ''1''))"

definition status_doc :: "string \<Rightarrow> string \<Rightarrow> rat \<Rightarrow> json" where
  "status_doc i st n = JObj
     [(''contract_version'', JStr ''publication-candidate-status-v1''),
      (''candidate_id'', JStr i),
      (''business_id'', JStr (sample_uuid (CHR ''2''))),
      (''candidate_checksum'', JStr sample_sha), (''state_version'', JNum n),
      (''candidate_state'', JStr st), (''replacement_candidate_id'', JNull),
      (''changed_by_user_id'', JNull), (''changed_at'', JStr sample_at)]"

definition sample_status :: json where
  "sample_status = status_doc (sample_uuid (CHR ''1'')) ''active'' 1"

lemma sample_sha_nonempty [simp]: "js_trim sample_sha \<noteq> []"
  using trim_not_empty [of "CHR ''a''"] by (simp add: sample_sha_def js_space_def numeral_eq_Suc)


lemma js_trim_Nil_iff: "js_trim s = [] \<longleftrightarrow> (\<forall>c \<in> set s. js_space c)"
proof -
  have "(\<forall>c \<in> set (dropWhile js_space s). js_space c) \<longleftrightarrow> (\<forall>c \<in> set s. js_space c)"
    by (induction s) auto
  then show ?thesis by (simp add: js_trim_def)
qed

lemma toISOString_nonempty: "js_trim (toISOString t) \<noteq> []"
proof -
  have "CHR ''Z'' \<in> set (toISOString t)" by (simp add: toISOString_def iso_clock_def Let_def)
  moreover have "\<not> js_space (CHR ''Z'')" by (simp add: js_space_def)
  ultimately show ?thesis unfolding js_trim_Nil_iff by blast
qed

lemma sample_at_nonempty [simp]: "js_trim sample_at \<noteq> []" "js_trim sample_later \<noteq> []"
  by (simp_all only: sample_at_def sample_later_def toISOString_nonempty not_False_eq_True)

lemma trim_literals [simp]: "\<not> js_space c \<Longrightarrow> js_trim (c # s) = [] \<longleftrightarrow> False"
  using trim_not_empty by blast

lemma candidate_doc_valid:
  assumes "js_trim i \<noteq> []"
  shows "valid (validatePublicationCandidateV1 sample_env (candidate_doc i))"
proof -
  let ?c = "candidate_doc i"
  have keys: "extra_fields CANDIDATE_FIELDS ?c = []"
    by (simp add: candidate_doc_def extra_fields_def CANDIDATE_FIELDS_def)
  have "candidate_identity_issues ?c = []"
    unfolding candidate_identity_issues_def using assms keys
    by (simp add: candidate_doc_def positive_version_def js_space_def)
  moreover have "candidate_copy_issues ?c = []"
    by (simp add: candidate_copy_issues_def candidate_doc_def CONTENT_CHANNELS_def CONTENT_FORMATS_def
        CONTENT_ALT_TEXT_MAX_LENGTH_def candidate_assets_issues_def candidate_asset_issues_def js_space_def Let_def)
  moreover have "window_ok sample_env (jget ?c ''recommended_publish_window'')"
    by (simp add: candidate_doc_def window_ok_def date_ms_def)
  moreover have "candidate_approval_issues sample_env ?c = []"
    by (simp add: candidate_approval_issues_def candidate_doc_def js_space_def Let_def)
  moreover have "candidate_checksum_issues sample_env ?c = []"
    by (simp add: candidate_checksum_issues_def candidate_doc_def isPublicationCandidateChecksumValid_def
        computePublicationCandidateChecksum_def)
  ultimately show ?thesis
    by (simp add: validatePublicationCandidateV1_def) (simp add: candidate_doc_def)
qed

lemma status_doc_valid:
  assumes "js_trim i \<noteq> []" "st \<in> {''active'', ''revoked''}" "n \<in> {1, 2, 3}"
  shows "valid (validatePublicationCandidateStatusV1 sample_env (status_doc i st n))"
proof -
  have keys: "extra_fields CANDIDATE_STATUS_FIELDS (status_doc i st n) = []"
    by (simp add: status_doc_def extra_fields_def CANDIDATE_STATUS_FIELDS_def)
  have "candidate_status_issues sample_env (status_doc i st n) = []"
    unfolding candidate_status_issues_def using assms keys
    by (auto simp: status_doc_def positive_version_def PUBLICATION_CANDIDATE_STATES_def)
  then show ?thesis by (simp add: validatePublicationCandidateStatusV1_def) (simp add: status_doc_def)
qed

end
