(* ===== verification/Digest_Claims.thy ===== *)
theory Digest_Claims
  imports Sample_Data
begin

text \<open>
  Properties of instants, canonical JSON, digests and signatures, the layer on which every
  fingerprint and every signed message of the publishing contract rests.
\<close>

text \<open>
  Every instant that the code prints with \<open>toISOString\<close> passes the date check of the
  validators, and \<open>Date.parse\<close> reads back the same number of milliseconds.
\<close>

theorem printed_instant_is_read_back:
  assumes "\<bar>t\<bar> \<le> 8640000000000000"
  shows "isIsoDateTime E (JStr (toISOString t)) \<and> date_ms E (JStr (toISOString t)) = t"
  using js_date_parse_toISOString [OF assms] toISOString_nonempty by (simp add: date_ms_def)

theorem printed_instant_is_read_back_witness:
  "date_ms sample_env (JStr (toISOString (-62198755200000))) = -62198755200000"
  using printed_instant_is_read_back [of "-62198755200000" sample_env] by simp

text \<open>
  The digest of a document does not depend on the order in which its properties are listed.
\<close>

theorem digest_ignores_property_order:
  assumes "jwf (JObj kvs)" "mset kvs' = mset kvs"
  shows "computePublishingSha256 E (JObj kvs') = computePublishingSha256 E (JObj kvs)"
proof -
  have d: "distinct (map fst kvs)" and w: "list_all (\<lambda>kv. jwf (snd kv)) kvs" using assms(1) by simp_all
  have "mset (map fst kvs') = mset (map fst kvs)" using assms(2) by simp
  then have "distinct (map fst kvs')" using d by (rule mset_eq_imp_distinct_iff [THEN iffD2])
  moreover have "set kvs' = set kvs" by (rule mset_eq_setD [OF assms(2)])
  ultimately have "jwf (JObj kvs')" using w by (simp add: list_all_iff)
  then show ?thesis
    using canon_perm [OF d assms(2)] by (simp only: computePublishingSha256_wf [OF assms(1)] computePublishingSha256_wf)
qed

theorem digest_ignores_property_order_witness:
  "computePublishingSha256 sample_env (JObj [(''b'', JNum 2), (''a'', JNum 1)])
    = computePublishingSha256 sample_env (JObj [(''a'', JNum 1), (''b'', JNum 2)])"
  by (rule digest_ignores_property_order) simp_all

text \<open>
  C28. The digest binds the document: two documents with the same digest have the same canonical
  form (so the same properties with the same values at every depth), or exhibit a SHA-256
  collision between two different canonical texts.
\<close>

theorem digest_binds_document:
  assumes "num_ok E" "jwf v" "jwf w"
    and "computePublishingSha256 E v = computePublishingSha256 E w"
  shows "canon v = canon w \<or> sha_collision E v w"
  by (rule same_digest [OF assms])

theorem digest_binds_document_witness:
  "canon (JObj [(''b'', JNum 2), (''a'', JNull)]) = canon (JObj [(''a'', JNull), (''b'', JNum 2)])
    \<or> sha_collision sample_env (JObj [(''b'', JNum 2), (''a'', JNull)]) (JObj [(''a'', JNull), (''b'', JNum 2)])"
  by (rule digest_binds_document [OF sample_env_num_ok]) (simp_all add: computePublishingSha256_wf)

lemma newline_split:
  assumes "CHR 0x0A \<notin> set a" "CHR 0x0A \<notin> set b" "a @ CHR 0x0A # r = b @ CHR 0x0A # r'"
  shows "a = b \<and> r = r'"
  using assms
proof (induction a arbitrary: b)
  case Nil
  then show ?case by (cases b) auto
next
  case (Cons x a)
  then show ?case by (cases b) auto
qed

text \<open>
  A signature covers the whole message: with contract version and send time free of line
  breaks, and a digest of 64 characters, the signed text determines contract version, send
  time, nonce and body digest, so a signature accepted for two messages means they are equal or
  the HMAC collides.
\<close>

theorem signature_covers_message:
  assumes "\<And>i. SHA256_PATTERN (computePublishingSignature E i k)"
    and "isPublishingSignatureValid E a s k" "isPublishingSignatureValid E b s k"
    and "CHR 0x0A \<notin> set (sg_contract_version a) \<union> set (sg_sent_at a)"
    and "CHR 0x0A \<notin> set (sg_contract_version b) \<union> set (sg_sent_at b)"
    and "length (sg_body_sha256 a) = 64" "length (sg_body_sha256 b) = 64"
  shows "a = b \<or> (canonicalPublishingSignatureInput a \<noteq> canonicalPublishingSignatureInput b
    \<and> env_hmac E k (canonicalPublishingSignatureInput a) = env_hmac E k (canonicalPublishingSignatureInput b))"
proof (cases "canonicalPublishingSignatureInput a = canonicalPublishingSignatureInput b")
  case True
  let ?n = "CHR 0x0A"
  have "sg_contract_version a @ ?n # sg_sent_at a @ ?n # sg_nonce a @ ?n # sg_body_sha256 a
      = sg_contract_version b @ ?n # sg_sent_at b @ ?n # sg_nonce b @ ?n # sg_body_sha256 b"
    using True by (simp add: canonicalPublishingSignatureInput_def)
  then have c: "sg_contract_version a = sg_contract_version b"
    and r: "sg_sent_at a @ ?n # sg_nonce a @ ?n # sg_body_sha256 a = sg_sent_at b @ ?n # sg_nonce b @ ?n # sg_body_sha256 b"
    using newline_split assms(4,5) by blast+
  from r have t: "sg_sent_at a = sg_sent_at b"
    and u: "sg_nonce a @ ?n # sg_body_sha256 a = sg_nonce b @ ?n # sg_body_sha256 b"
    using newline_split assms(4,5) by blast+
  from u have "sg_nonce a = sg_nonce b" "sg_body_sha256 a = sg_body_sha256 b"
    using assms(6,7) by (simp_all add: append_eq_append_conv)
  with c t show ?thesis by simp
next
  case False
  have "computePublishingSignature E a k = computePublishingSignature E b k"
    using assms(2,3) signature_valid_iff [OF assms(1)] by simp
  with False show ?thesis by (simp add: computePublishingSignature_def)
qed

theorem signature_covers_message_witness:
  "\<exists>a. isPublishingSignatureValid sample_env a sample_sha ''k'' \<and> length (sg_body_sha256 a) = 64"
proof -
  let ?a = "\<lparr>sg_contract_version = ''c'', sg_sent_at = ''t'', sg_nonce = ''n'', sg_body_sha256 = sample_sha\<rparr>"
  have p: "SHA256_PATTERN (computePublishingSignature sample_env i ''k'')" for i
    by (simp add: computePublishingSignature_def)
  have v: "isPublishingSignatureValid sample_env ?a sample_sha ''k''"
    by (simp add: isPublishingSignatureValid_def computePublishingSignature_def)
  have l: "length sample_sha = 64" by (simp add: sample_sha_def)
  show ?thesis
    using signature_covers_message [OF p v v] v l by auto
qed

end
