(* ===== verification/Candidate_Intake.thy ===== *)
theory Candidate_Intake
  imports Pub_Candidate
begin

text \<open>
  The intake of candidate events into the authoritative record that Publishing keeps
  (packages/contracts/src/publishing/publication-candidate-state.ts): the validator of a stored
  record, the reducer of the two event types, and the check that a dispatched candidate is the
  authoritative one. A record is a JSON document; \<open>None\<close> is the TypeScript null. The reducer may
  throw, since it digests the event.
\<close>


section \<open>Publishing error codes\<close>

datatype publishing_error_code =
    PUBLISHING_CONTRACT_UNSUPPORTED
  | PUBLISHING_CANDIDATE_INVALID
  | PUBLISHING_CANDIDATE_TAMPERED
  | PUBLISHING_CANDIDATE_REVOKED
  | PUBLISHING_TARGET_NOT_CONNECTED
  | PUBLISHING_TARGET_UNAUTHORIZED
  | PUBLISHING_FORMAT_UNSUPPORTED
  | PUBLISHING_ASSET_UNAVAILABLE
  | PUBLISHING_ASSET_TAMPERED
  | PUBLISHING_SCHEDULE_IN_PAST
  | PUBLISHING_APPROVAL_REQUIRED
  | PUBLISHING_STATE_CONFLICT
  | PUBLISHING_IDEMPOTENCY_CONFLICT
  | PUBLISHING_DUPLICATE_DISPATCH
  | PUBLISHING_WEBHOOK_UNAUTHORIZED
  | PUBLISHING_WEBHOOK_TIMESTAMP_INVALID
  | PUBLISHING_WEBHOOK_NONCE_REPLAYED
  | PUBLISHING_PROVIDER_RATE_LIMITED
  | PUBLISHING_PROVIDER_FAILURE
  | PUBLISHING_MEDIA_ORIGIN_NOT_REACHABLE
  | PUBLISHING_PROVIDER_OUTCOME_UNKNOWN
  | PUBLISHING_CALLBACK_INVALID
  | PUBLISHING_CALLBACK_CONFLICT

type_synonym publishing_result = "publishing_error_code validation"


section \<open>Intake results\<close>

datatype intake_disposition =
    applied
  | identical_replay
  | rejected_stale
  | rejected_conflict
  | rejected_invalid

record intake_result =
  accepted :: bool
  changed :: bool
  disposition :: intake_disposition
  rec_after :: "json option"
  validation_of :: publishing_result

definition failure :: "intake_disposition \<Rightarrow> json option \<Rightarrow> publishing_error_code issue \<Rightarrow> intake_result" where
  "failure d record i =
     \<lparr>accepted = False, changed = False, disposition = d, rec_after = record,
      validation_of = \<lparr>valid = False, issues = [i]\<rparr>\<rparr>"

definition success :: "intake_disposition \<Rightarrow> json \<Rightarrow> intake_result" where
  "success d record =
     \<lparr>accepted = True, changed = (d = applied), disposition = d, rec_after = Some record,
      validation_of = valid_result\<rparr>"

definition publishing_code_of :: "content_error_code \<Rightarrow> publishing_error_code" where
  "publishing_code_of c =
     (if c = CONTENT_CANDIDATE_TAMPERED then PUBLISHING_CANDIDATE_TAMPERED
      else if c = CONTENT_CANDIDATE_REVOKED then PUBLISHING_CANDIDATE_REVOKED
      else PUBLISHING_CANDIDATE_INVALID)"

definition mapContentValidation :: "content_error_code validation \<Rightarrow> publishing_result" where
  "mapContentValidation r =
     (if valid r then valid_result
      else case issues r of
        [] \<Rightarrow> firstIssue PUBLISHING_CANDIDATE_INVALID ''candidate''
      | i # _ \<Rightarrow> firstIssue (publishing_code_of (i_code i)) (i_field i))"

definition first_issue_of :: "publishing_result \<Rightarrow> publishing_error_code issue" where
  "first_issue_of r =
     (case issues r of i # _ \<Rightarrow> i | [] \<Rightarrow> issue_of PUBLISHING_CANDIDATE_INVALID ''candidate'')"

lemma valid_mapContentValidation [simp]: "valid (mapContentValidation r) \<longleftrightarrow> valid r"
  by (simp add: mapContentValidation_def split: list.splits)

lemma intake_simps [simp]:
  "accepted (success d r)" "\<not> accepted (failure d old i)"
  "rec_after (success d r) = Some r" "rec_after (failure d old i) = old"
  "disposition (success d r) = d" "disposition (failure d old i) = d"
  "changed (success d r) \<longleftrightarrow> d = applied" "\<not> changed (failure d old i)"
  "success d r = success d' r' \<longleftrightarrow> d = d' \<and> r = r'"
  "failure e old i \<noteq> success d r" "success d r \<noteq> failure e old i"
  by (auto simp: success_def failure_def)


section \<open>Envelope and record checks\<close>

definition EVENT_FIELDS :: "string list" where
  "EVENT_FIELDS = [''event_id'', ''event_type'', ''occurred_at'', ''correlation_id'', ''payload'']"

definition CANDIDATE_RECORD_FIELDS :: "string list" where
  "CANDIDATE_RECORD_FIELDS =
     [''contract_version'', ''candidate_id'', ''event_id'', ''business_id'', ''candidate_checksum'',
      ''event_fingerprint'', ''source_state'', ''source_state_version'', ''source_status'',
      ''received_at'', ''payload'']"

text \<open>
  \<open>Object.keys(value).find(\<dots>)\<close> followed by \<open>if (extraField)\<close>: the first property outside the
  set, and the empty name is falsy.
\<close>

definition extraField :: "string list \<Rightarrow> json \<Rightarrow> string option" where
  "extraField allowed v =
     (case extra_fields allowed v of [] \<Rightarrow> None | f # _ \<Rightarrow> if f = [] then None else Some f)"

definition validateEventEnvelope :: "js_env \<Rightarrow> json \<Rightarrow> string \<Rightarrow> publishing_result" where
  "validateEventEnvelope E v receivedAt =
     (case extraField EVENT_FIELDS v of
        Some f \<Rightarrow> firstIssue PUBLISHING_CONTRACT_UNSUPPORTED (''event.'' @ f)
      | None \<Rightarrow>
          if \<not> isUuid (jget v ''event_id'') \<or> \<not> isUuid (jget v ''correlation_id'')
             \<or> \<not> isIsoDateTime E (jget v ''occurred_at'') \<or> \<not> isIsoDateTime E (JStr receivedAt)
          then firstIssue PUBLISHING_CANDIDATE_INVALID ''event''
          else valid_result)"

definition activeStatusForCandidate :: "json \<Rightarrow> json" where
  "activeStatusForCandidate candidate = JObj
     [(''contract_version'', JStr ''publication-candidate-status-v1''),
      (''candidate_id'', jget candidate ''candidate_id''),
      (''business_id'', jget candidate ''business_id''),
      (''candidate_checksum'', jget candidate ''candidate_checksum''),
      (''state_version'', JNum 1),
      (''candidate_state'', JStr ''active''),
      (''replacement_candidate_id'', JNull),
      (''changed_by_user_id'', JNull),
      (''changed_at'', jget candidate ''created_at'')]"

definition record_metadata_ok :: "js_env \<Rightarrow> json \<Rightarrow> bool" where
  "record_metadata_ok E v \<longleftrightarrow>
     jget v ''contract_version'' = JStr ''publishing-candidate-record-v1'' \<and>
     isUuid (jget v ''candidate_id'') \<and> isUuid (jget v ''event_id'') \<and> isUuid (jget v ''business_id'') \<and>
     isSha256 (jget v ''candidate_checksum'') \<and> isSha256 (jget v ''event_fingerprint'') \<and>
     positive_version (jget v ''source_state_version'') \<and> isIsoDateTime E (jget v ''received_at'')"

definition record_binds :: "json \<Rightarrow> bool" where
  "record_binds v \<longleftrightarrow>
     (let candidate = jget v ''payload''; status = jget v ''source_status'' in
      js_eq (jget v ''candidate_id'') (jget candidate ''candidate_id'') \<and>
      js_eq (jget v ''business_id'') (jget candidate ''business_id'') \<and>
      js_eq (jget v ''candidate_checksum'') (jget candidate ''candidate_checksum'') \<and>
      js_eq (jget status ''candidate_id'') (jget candidate ''candidate_id'') \<and>
      js_eq (jget status ''business_id'') (jget candidate ''business_id'') \<and>
      js_eq (jget status ''candidate_checksum'') (jget candidate ''candidate_checksum''))"

definition validatePublicationCandidateRecordV1 :: "js_env \<Rightarrow> json \<Rightarrow> publishing_result" where
  "validatePublicationCandidateRecordV1 E v =
     (if \<not> isRecord v then firstIssue PUBLISHING_CANDIDATE_INVALID ''candidate_record''
      else case extraField CANDIDATE_RECORD_FIELDS v of
        Some f \<Rightarrow> firstIssue PUBLISHING_CONTRACT_UNSUPPORTED (''candidate_record.'' @ f)
      | None \<Rightarrow>
          if \<not> record_metadata_ok E v then firstIssue PUBLISHING_CANDIDATE_INVALID ''candidate_record''
          else
            let candidateResult = mapContentValidation (validatePublicationCandidateV1 E (jget v ''payload''));
                statusResult = mapContentValidation
                  (validatePublicationCandidateStatusV1 E (jget v ''source_status''))
            in if \<not> valid candidateResult then candidateResult
               else if \<not> valid statusResult then statusResult
               else if \<not> record_binds v
                 then firstIssue PUBLISHING_CANDIDATE_TAMPERED ''candidate_record.candidate_checksum''
               else if \<not> js_eq (jget v ''source_state'') (jget (jget v ''source_status'') ''candidate_state'')
                   \<or> \<not> js_eq (jget v ''source_state_version'')
                       (jget (jget v ''source_status'') ''state_version'')
                 then firstIssue PUBLISHING_STATE_CONFLICT ''candidate_record.source_state_version''
               else valid_result)"


section \<open>The reducer\<close>

text \<open>\<open>{...record, k: v}\<close> overwrites in place or appends.\<close>

fun jset :: "string \<Rightarrow> json \<Rightarrow> json \<Rightarrow> json" where
  "jset k v (JObj kvs) =
     (if k \<in> fst ` set kvs then JObj (map (\<lambda>kv. if fst kv = k then (k, v) else kv) kvs)
      else JObj (kvs @ [(k, v)]))"
| "jset k v w = w"

definition created_record :: "json \<Rightarrow> string \<Rightarrow> string \<Rightarrow> json" where
  "created_record event fingerprint receivedAt =
     (let payload = jget event ''payload'' in JObj
       [(''contract_version'', JStr ''publishing-candidate-record-v1''),
        (''candidate_id'', jget payload ''candidate_id''),
        (''event_id'', jget event ''event_id''),
        (''business_id'', jget payload ''business_id''),
        (''candidate_checksum'', jget payload ''candidate_checksum''),
        (''event_fingerprint'', JStr fingerprint),
        (''source_state'', JStr ''active''),
        (''source_state_version'', JNum 1),
        (''source_status'', activeStatusForCandidate payload),
        (''received_at'', JStr receivedAt),
        (''payload'', payload)])"

definition reduceCreatedEvent :: "js_env \<Rightarrow> json option \<Rightarrow> json \<Rightarrow> string \<Rightarrow> js_error + intake_result" where
  "reduceCreatedEvent E existing event receivedAt =
     (let payload = jget event ''payload'';
          candidateResult = mapContentValidation (validatePublicationCandidateV1 E payload)
      in if \<not> valid candidateResult
         then Inr (failure rejected_invalid existing (first_issue_of candidateResult))
         else throws_bind (computePublishingSha256 E event) (\<lambda>eventFingerprint.
           case existing of
             None \<Rightarrow> Inr (success applied (created_record event eventFingerprint receivedAt))
           | Some r \<Rightarrow>
               if \<not> js_eq (jget r ''candidate_id'') (jget payload ''candidate_id'')
                   \<or> \<not> js_eq (jget r ''business_id'') (jget payload ''business_id'')
               then Inr (failure rejected_conflict existing
                 (issue_of PUBLISHING_CANDIDATE_TAMPERED ''event.payload.candidate_id''))
               else if jnum (jget r ''source_state_version'') > 1
               then Inr (failure rejected_stale existing
                 (issue_of PUBLISHING_STATE_CONFLICT ''event.payload.state_version''))
               else if js_eq (jget r ''event_fingerprint'') (JStr eventFingerprint)
               then Inr (success identical_replay r)
               else Inr (failure rejected_conflict existing
                 (issue_of PUBLISHING_CANDIDATE_TAMPERED ''event.event_id''))))"

definition changed_record :: "json \<Rightarrow> json \<Rightarrow> string \<Rightarrow> string \<Rightarrow> json" where
  "changed_record r event fingerprint receivedAt =
     (let payload = jget event ''payload'' in
      jset ''received_at'' (JStr receivedAt)
       (jset ''source_status'' payload
         (jset ''source_state_version'' (jget payload ''state_version'')
           (jset ''source_state'' (jget payload ''candidate_state'')
             (jset ''event_fingerprint'' (JStr fingerprint)
               (jset ''event_id'' (jget event ''event_id'') r))))))"

definition reduceStateChangedEvent :: "js_env \<Rightarrow> json option \<Rightarrow> json \<Rightarrow> string \<Rightarrow> js_error + intake_result" where
  "reduceStateChangedEvent E existing event receivedAt =
     (case existing of
        None \<Rightarrow> Inr (failure rejected_conflict None
          (issue_of PUBLISHING_STATE_CONFLICT ''event.payload.candidate_id''))
      | Some r \<Rightarrow>
          let payload = jget event ''payload'';
              statusResult = mapContentValidation (validatePublicationCandidateStatusV1 E payload);
              incomingVersion = jnum (jget payload ''state_version'');
              version = jnum (jget r ''source_state_version'')
          in if \<not> valid statusResult
             then Inr (failure rejected_invalid existing (first_issue_of statusResult))
             else if jget payload ''candidate_state'' = JStr ''active''
             then Inr (failure rejected_invalid existing
               (issue_of PUBLISHING_CANDIDATE_INVALID ''event.payload.candidate_state''))
             else if \<not> js_eq (jget payload ''candidate_id'') (jget r ''candidate_id'')
                 \<or> \<not> js_eq (jget payload ''business_id'') (jget r ''business_id'')
                 \<or> \<not> js_eq (jget payload ''candidate_checksum'') (jget r ''candidate_checksum'')
             then Inr (failure rejected_conflict existing
               (issue_of PUBLISHING_CANDIDATE_TAMPERED ''event.payload.candidate_checksum''))
             else if incomingVersion < version
             then Inr (failure rejected_stale existing
               (issue_of PUBLISHING_STATE_CONFLICT ''event.payload.state_version''))
             else throws_bind (computePublishingSha256 E event) (\<lambda>eventFingerprint.
               if incomingVersion = version
               then Inr (if js_eq (jget r ''event_fingerprint'') (JStr eventFingerprint)
                 then success identical_replay r
                 else failure rejected_conflict existing
                   (issue_of PUBLISHING_STATE_CONFLICT ''event.payload.state_version''))
               else Inr (success applied (changed_record r event eventFingerprint receivedAt))))"

definition reducePublicationCandidateEventV1 ::
    "js_env \<Rightarrow> json option \<Rightarrow> json \<Rightarrow> string \<Rightarrow> js_error + intake_result" where
  "reducePublicationCandidateEventV1 E existing event receivedAt =
     (if \<not> isRecord event
      then Inr (failure rejected_invalid existing (issue_of PUBLISHING_CANDIDATE_INVALID ''event''))
      else
        let envelopeResult = validateEventEnvelope E event receivedAt;
            recordResult = (case existing of
              None \<Rightarrow> valid_result | Some r \<Rightarrow> validatePublicationCandidateRecordV1 E r)
        in if \<not> valid envelopeResult
           then Inr (failure rejected_invalid existing (first_issue_of envelopeResult))
           else if \<not> valid recordResult
           then Inr (failure rejected_invalid existing (first_issue_of recordResult))
           else if jget event ''event_type'' = JStr ''content.publication_candidate.created.v1''
           then reduceCreatedEvent E existing event receivedAt
           else if jget event ''event_type'' = JStr ''content.publication_candidate.state_changed.v1''
           then reduceStateChangedEvent E existing event receivedAt
           else Inr (failure rejected_invalid existing
             (issue_of PUBLISHING_CONTRACT_UNSUPPORTED ''event.event_type'')))"

text \<open>\<open>computePublishingSha256(a) !== computePublishingSha256(b)\<close>\<close>

definition digests_differ :: "js_env \<Rightarrow> json \<Rightarrow> json \<Rightarrow> js_error + bool" where
  "digests_differ E v w =
     throws_bind (computePublishingSha256 E v) (\<lambda>a.
       throws_bind (computePublishingSha256 E w) (\<lambda>b. Inr (a \<noteq> b)))"

lemma digests_differ_False_iff:
  "digests_differ E v w = Inr False \<longleftrightarrow>
     (\<exists>a. computePublishingSha256 E v = Inr a \<and> computePublishingSha256 E w = Inr a)"
  by (auto simp: digests_differ_def throws_bind_Inr_iff)

definition validateAuthoritativePublicationCandidateV1 ::
    "js_env \<Rightarrow> json \<Rightarrow> json \<Rightarrow> json \<Rightarrow> js_error + publishing_result" where
  "validateAuthoritativePublicationCandidateV1 E r candidate status =
     (let recordResult = validatePublicationCandidateRecordV1 E r;
          handoffResult = mapContentValidation (validatePublicationCandidateHandoff E candidate status)
      in if \<not> valid recordResult then Inr recordResult
         else if \<not> valid handoffResult then Inr handoffResult
         else throws_bind
           (if \<not> js_eq (jget r ''candidate_id'') (jget candidate ''candidate_id'')
               \<or> \<not> js_eq (jget r ''business_id'') (jget candidate ''business_id'')
               \<or> \<not> js_eq (jget r ''candidate_checksum'') (jget candidate ''candidate_checksum'')
            then Inr True
            else digests_differ E (jget r ''payload'') candidate)
           (\<lambda>tampered.
             if tampered then Inr (firstIssue PUBLISHING_CANDIDATE_TAMPERED ''candidate_record.payload'')
             else if jget r ''source_state'' \<noteq> JStr ''active''
             then Inr (firstIssue PUBLISHING_CANDIDATE_REVOKED ''candidate_record.source_state'')
             else throws_bind
               (if \<not> js_eq (jget r ''source_state_version'') (jget status ''state_version'')
                then Inr True
                else digests_differ E (jget r ''source_status'') status)
               (\<lambda>conflict.
                 if conflict
                 then Inr (firstIssue PUBLISHING_STATE_CONFLICT ''candidate_status.state_version'')
                 else Inr valid_result)))"


section \<open>What the reducer guarantees\<close>

lemma jget_present: "jget v k \<noteq> JUndef \<Longrightarrow> k \<in> set (jkeys v)"
  by (cases v) (auto split: option.splits dest!: map_of_SomeD intro: rev_image_eqI)

lemma jget_absent: "k \<notin> set (jkeys v) \<Longrightarrow> jget v k = JUndef"
  using jget_present by blast

lemma jget_jset:
  assumes "isRecord v"
  shows "jget (jset k x v) k' = (if k' = k then x else jget v k')"
proof -
  obtain kvs where v: "v = JObj kvs" using assms by (cases v) auto
  have upd: "map_of (map (\<lambda>kv. if fst kv = k then (k, x) else kv) kvs) k'
      = (if k' = k then (if k \<in> fst ` set kvs then Some x else None) else map_of kvs k')"
  proof (induction kvs)
    case (Cons kv kvs)
    then show ?case by (cases "k \<in> fst ` set kvs") (simp_all del: image_iff add: eq_commute)
  qed simp
  show ?thesis
  proof (cases "k \<in> fst ` set kvs")
    case True
    then show ?thesis by (simp add: v upd)
  next
    case False
    then have "map_of kvs k = None" by (simp add: map_of_eq_None_iff)
    with False show ?thesis by (auto simp: v map_add_def split: option.splits)
  qed
qed

lemma isRecord_jset [simp]: "isRecord (jset k x v) \<longleftrightarrow> isRecord v"
  by (cases v) auto

lemma jkeys_jset:
  "isRecord v \<Longrightarrow> jkeys (jset k x v) = (if k \<in> set (jkeys v) then jkeys v else jkeys v @ [k])"
proof (cases v)
  case (JObj kvs)
  have "map fst (map (\<lambda>kv. if fst kv = k then (k, x) else kv) kvs) = map fst kvs"
    by (induction kvs) auto
  then show ?thesis using JObj by simp
qed simp_all

text \<open>What a stored record that passed validation satisfies.\<close>

lemma record_valid_iff:
  "valid (validatePublicationCandidateRecordV1 E r) \<longleftrightarrow>
     isRecord r \<and> extraField CANDIDATE_RECORD_FIELDS r = None \<and> record_metadata_ok E r \<and>
     valid (validatePublicationCandidateV1 E (jget r ''payload'')) \<and>
     valid (validatePublicationCandidateStatusV1 E (jget r ''source_status'')) \<and> record_binds r \<and>
     js_eq (jget r ''source_state'') (jget (jget r ''source_status'') ''candidate_state'') \<and>
     js_eq (jget r ''source_state_version'') (jget (jget r ''source_status'') ''state_version'')"
  by (auto simp: validatePublicationCandidateRecordV1_def Let_def split: option.splits)

lemmas reducer_defs =
  reducePublicationCandidateEventV1_def reduceCreatedEvent_def reduceStateChangedEvent_def Let_def

text \<open>The two ways in which a reduction can change the record.\<close>

lemma reduce_applied_cases:
  assumes "reducePublicationCandidateEventV1 E existing event tm = Inr res" and "disposition res = applied"
  shows "(\<exists>fp. existing = None \<and> computePublishingSha256 E event = Inr fp \<and>
             jget event ''event_type'' = JStr ''content.publication_candidate.created.v1'' \<and>
             valid (validatePublicationCandidateV1 E (jget event ''payload'')) \<and>
             res = success applied (created_record event fp tm))
       \<or> (\<exists>r fp. existing = Some r \<and> computePublishingSha256 E event = Inr fp \<and>
             jget event ''event_type'' = JStr ''content.publication_candidate.state_changed.v1'' \<and>
             valid (validatePublicationCandidateRecordV1 E r) \<and>
             valid (validatePublicationCandidateStatusV1 E (jget event ''payload'')) \<and>
             jget (jget event ''payload'') ''candidate_state'' \<noteq> JStr ''active'' \<and>
             js_eq (jget (jget event ''payload'') ''candidate_id'') (jget r ''candidate_id'') \<and>
             js_eq (jget (jget event ''payload'') ''business_id'') (jget r ''business_id'') \<and>
             js_eq (jget (jget event ''payload'') ''candidate_checksum'') (jget r ''candidate_checksum'') \<and>
             jnum (jget r ''source_state_version'') < jnum (jget (jget event ''payload'') ''state_version'') \<and>
             res = success applied (changed_record r event fp tm))"
  using assms
  by (auto simp: reducer_defs throws_bind_Inr_iff split: if_splits option.splits)

lemma reduce_envelope:
  assumes "reducePublicationCandidateEventV1 E existing event tm = Inr res" and "accepted res"
  shows "isRecord event" "valid (validateEventEnvelope E event tm)"
  using assms by (auto simp: reducePublicationCandidateEventV1_def Let_def split: if_splits)

lemma envelope_valid_iff:
  "valid (validateEventEnvelope E v tm) \<longleftrightarrow> extraField EVENT_FIELDS v = None \<and>
     isUuid (jget v ''event_id'') \<and> isUuid (jget v ''correlation_id'') \<and>
     isIsoDateTime E (jget v ''occurred_at'') \<and> isIsoDateTime E (JStr tm)"
  by (auto simp: validateEventEnvelope_def split: option.splits)

text \<open>Unless it is applied, a reduction leaves the record as it was.\<close>

lemma reduce_unchanged:
  assumes "reducePublicationCandidateEventV1 E existing event tm = Inr res" and "disposition res \<noteq> applied"
  shows "rec_after res = existing"
  using assms
  by (auto simp: reducer_defs throws_bind_Inr_iff split: if_splits option.splits)


text \<open>A record that a state change produced, property by property.\<close>

lemma jget_changed_record:
  assumes "isRecord r"
  shows "jget (changed_record r event fp tm) k =
    (if k = ''received_at'' then JStr tm
     else if k = ''source_status'' then jget event ''payload''
     else if k = ''source_state_version'' then jget (jget event ''payload'') ''state_version''
     else if k = ''source_state'' then jget (jget event ''payload'') ''candidate_state''
     else if k = ''event_fingerprint'' then JStr fp
     else if k = ''event_id'' then jget event ''event_id''
     else jget r k)"
  using assms by (simp add: changed_record_def Let_def jget_jset)

lemma record_has_fields:
  assumes "isRecord r" "record_metadata_ok E r" "valid (validatePublicationCandidateStatusV1 E (jget r ''source_status''))"
  shows "{''event_id'', ''event_fingerprint'', ''source_state_version'', ''source_status'', ''received_at''}
    \<subseteq> set (jkeys r)"
proof -
  have "isRecord (jget r ''source_status'')" using assms(3) valid_status_facts(1) by blast
  then have "jget r ''source_status'' \<noteq> JUndef" by auto
  moreover have "jget r ''event_id'' \<noteq> JUndef" "jget r ''event_fingerprint'' \<noteq> JUndef"
    "jget r ''received_at'' \<noteq> JUndef" "jget r ''source_state_version'' \<noteq> JUndef"
    using assms(2) by (auto simp: record_metadata_ok_def positive_version_def)
  ultimately show ?thesis by (simp add: jget_present)
qed

lemma extraField_changed_record:
  assumes "valid (validatePublicationCandidateRecordV1 E r)"
  shows "extraField CANDIDATE_RECORD_FIELDS (changed_record r event fp tm) = None"
proof -
  have r: "isRecord r" "extraField CANDIDATE_RECORD_FIELDS r = None" "js_eq (jget r ''source_state'') (jget (jget r ''source_status'') ''candidate_state'')"
    using assms by (simp_all add: record_valid_iff)
  have st: "''source_state'' \<in> set (jkeys r)"
    using r(3) valid_status_facts(6) [of E "jget r ''source_status''"] assms
    by (intro jget_present) (auto simp: record_valid_iff js_eq_iff)
  have "jkeys (changed_record r event fp tm) = jkeys r"
    using record_has_fields [of r E] assms st
    by (simp add: changed_record_def Let_def jkeys_jset record_valid_iff)
  with r(2) show ?thesis by (simp add: extraField_def extra_fields_def)
qed

text \<open>\<open>sha_ok E\<close>: a digest is 64 lower-case hexadecimal digits, as \<open>digest(hex)\<close> documents.\<close>

definition sha_ok :: "js_env \<Rightarrow> bool" where
  "sha_ok E \<longleftrightarrow> (\<forall>s. SHA256_PATTERN (env_sha256 E s))"

lemma sha_ok_fingerprint: "sha_ok E \<Longrightarrow> computePublishingSha256 E v = Inr fp \<Longrightarrow> isSha256 (JStr fp)"
  by (auto simp: computePublishingSha256_def throws_bind_Inr_iff sha_ok_def)

lemma changed_record_valid:
  assumes r: "valid (validatePublicationCandidateRecordV1 E r)"
    and env: "valid (validateEventEnvelope E event tm)"
    and status: "valid (validatePublicationCandidateStatusV1 E (jget event ''payload''))"
    and binds: "js_eq (jget (jget event ''payload'') ''candidate_id'') (jget r ''candidate_id'')"
      "js_eq (jget (jget event ''payload'') ''business_id'') (jget r ''business_id'')"
      "js_eq (jget (jget event ''payload'') ''candidate_checksum'') (jget r ''candidate_checksum'')"
    and fp: "isSha256 (JStr fp)"
  shows "valid (validatePublicationCandidateRecordV1 E (changed_record r event fp tm))"
proof -
  note rv = r [unfolded record_valid_iff]
  have rec: "isRecord r" using rv by simp
  note j = jget_changed_record [OF rec]
  have prims: "js_prim (jget (jget event ''payload'') ''candidate_state'')"
    "js_prim (jget (jget event ''payload'') ''state_version'')"
    using valid_status_facts(5,6) [OF status] by (auto simp: positive_version_def string_checks_prim)
  have meta: "record_metadata_ok E (changed_record r event fp tm)"
    using rv env fp valid_status_facts(5) [OF status]
    by (simp add: record_metadata_ok_def j envelope_valid_iff)
  have bind: "record_binds (changed_record r event fp tm)"
    using rv binds by (auto simp: record_binds_def Let_def j js_eq_iff)
  have rec_changed: "isRecord (changed_record r event fp tm)"
    using rec by (simp add: changed_record_def Let_def)
  show ?thesis
    unfolding record_valid_iff
    using rv status meta bind prims extraField_changed_record [OF r] rec
    by (simp add: j js_eq_iff rec_changed)
qed

lemma created_record_valid:
  assumes cand: "valid (validatePublicationCandidateV1 E (jget event ''payload''))"
    and env: "valid (validateEventEnvelope E event tm)"
    and ids: "isUuid (jget (jget event ''payload'') ''candidate_id'')"
      "isUuid (jget (jget event ''payload'') ''business_id'')"
    and fp: "isSha256 (JStr fp)"
  shows "valid (validatePublicationCandidateRecordV1 E (created_record event fp tm))"
proof -
  let ?c = "jget event ''payload''"
  have created: "isIsoDateTime E (jget ?c ''created_at'')"
    using cand by (simp add: validatePublicationCandidateV1_def split: if_splits)
  note id = valid_candidate_identity [OF cand]
  have status: "valid (validatePublicationCandidateStatusV1 E (activeStatusForCandidate ?c))"
    using id created
    by (simp add: validatePublicationCandidateStatusV1_def candidate_status_issues_def
        activeStatusForCandidate_def extra_fields_def CANDIDATE_STATUS_FIELDS_def positive_version_def
        PUBLICATION_CANDIDATE_STATES_def)
  have extra: "extraField CANDIDATE_RECORD_FIELDS (created_record event fp tm) = None"
    by (simp add: extraField_def extra_fields_def created_record_def Let_def CANDIDATE_RECORD_FIELDS_def)
  have meta: "record_metadata_ok E (created_record event fp tm)"
    using env ids fp id(3)
    by (simp add: record_metadata_ok_def created_record_def Let_def envelope_valid_iff positive_version_def)
  have bind: "record_binds (created_record event fp tm)"
    using string_checks_prim(1) [OF ids(1)] string_checks_prim(1) [OF ids(2)] string_checks_prim(2) [OF id(3)]
    by (simp add: record_binds_def created_record_def activeStatusForCandidate_def Let_def js_eq_iff)
  show ?thesis
    unfolding record_valid_iff using cand status extra meta bind
    by (simp add: created_record_def activeStatusForCandidate_def Let_def)
qed


lemma authoritative_valid_D:
  assumes "validateAuthoritativePublicationCandidateV1 E r candidate status = Inr v" "valid v"
  shows "valid (validatePublicationCandidateRecordV1 E r)"
    "valid (validatePublicationCandidateHandoff E candidate status)"
    "js_eq (jget r ''candidate_id'') (jget candidate ''candidate_id'')"
    "jget r ''source_state'' = JStr ''active''"
    "js_eq (jget r ''source_state_version'') (jget status ''state_version'')"
    "digests_differ E (jget r ''payload'') candidate = Inr False"
    "digests_differ E (jget r ''source_status'') status = Inr False"
proof -
  let ?d1 = "digests_differ E (jget r ''payload'') candidate"
  let ?d2 = "digests_differ E (jget r ''source_status'') status"
  note raw = assms [unfolded validateAuthoritativePublicationCandidateV1_def Let_def]
  show v: "valid (validatePublicationCandidateRecordV1 E r)" "valid (validatePublicationCandidateHandoff E candidate status)"
    using raw by (auto split: if_splits)
  note raw1 = raw(1) [unfolded valid_mapContentValidation, simplified v, simplified]
  show c: "js_eq (jget r ''candidate_id'') (jget candidate ''candidate_id'')"
    using raw1 raw(2) by (auto split: if_splits)
  show d1: "?d1 = Inr False"
    using raw1 raw(2) by (cases ?d1) (auto split: if_splits)
  show a: "jget r ''source_state'' = JStr ''active''"
    using raw1 raw(2) d1 by (auto split: if_splits)
  show e: "js_eq (jget r ''source_state_version'') (jget status ''state_version'')"
    using raw1 raw(2) d1 by (auto split: if_splits)
  show "?d2 = Inr False"
    using raw1 raw(2) d1 a by (cases ?d2) (auto split: if_splits)
qed

end
