(* ===== verification/Candidate_History.thy ===== *)
theory Candidate_History
  imports Candidate_Intake Sample_Data
begin

text \<open>
  The record of a candidate over a sequence of events: the state version only grows, the
  identity and the payload never change, a withdrawn candidate never becomes active again, and
  every record the reducer accepts passes the record validator that guards the next reduction.
\<close>


section \<open>Reductions in sequence\<close>

text \<open>The stored record after an event and its time of receipt; a reduction that throws stores nothing.\<close>

definition intake_step :: "js_env \<Rightarrow> json option \<Rightarrow> json \<times> string \<Rightarrow> json option" where
  "intake_step E existing ev =
     (case reducePublicationCandidateEventV1 E existing (fst ev) (snd ev) of
        Inl _ \<Rightarrow> existing
      | Inr res \<Rightarrow> (if changed res then rec_after res else existing))"

definition immutable_fields :: "string list" where
  "immutable_fields = [''contract_version'', ''candidate_id'', ''business_id'', ''candidate_checksum'', ''payload'']"

definition record_le :: "json \<Rightarrow> json \<Rightarrow> bool" where
  "record_le r r' \<longleftrightarrow> (\<forall>k \<in> set immutable_fields. jget r' k = jget r k)
     \<and> jnum (jget r ''source_state_version'') \<le> jnum (jget r' ''source_state_version'')
     \<and> (jget r ''source_state'' \<noteq> JStr ''active'' \<longrightarrow> jget r' ''source_state'' \<noteq> JStr ''active'')"

definition history_le :: "json option \<Rightarrow> json option \<Rightarrow> bool" where
  "history_le s s' \<longleftrightarrow> (case s of None \<Rightarrow> True | Some r \<Rightarrow> (\<exists>r'. s' = Some r' \<and> record_le r r'))"

text \<open>
  The stored record is valid. It needs UUID identities in the payload of a created event, which
  the candidate validator does not ask for.
\<close>

definition stored_ok :: "js_env \<Rightarrow> json option \<Rightarrow> bool" where
  "stored_ok E s \<longleftrightarrow> sha_ok E \<and>
     (case s of None \<Rightarrow> True | Some r \<Rightarrow> valid (validatePublicationCandidateRecordV1 E r))"

definition uuid_event :: "json \<times> string \<Rightarrow> bool" where
  "uuid_event ev \<longleftrightarrow> isUuid (jget (jget (fst ev) ''payload'') ''candidate_id'')
     \<and> isUuid (jget (jget (fst ev) ''payload'') ''business_id'')"

lemma changed_iff_applied:
  assumes "reducePublicationCandidateEventV1 E existing event tm = Inr res"
  shows "changed res \<longleftrightarrow> disposition res = applied"
  using assms by (auto simp: reducer_defs throws_bind_Inr_iff split: if_splits option.splits)

lemma applied_accepted:
  assumes "reducePublicationCandidateEventV1 E existing event tm = Inr res" "disposition res = applied"
  shows "accepted res"
  using reduce_applied_cases [OF assms] by auto

lemma intake_step_cases:
  obtains "intake_step E s ev = s"
  | (applied) res where "reducePublicationCandidateEventV1 E s (fst ev) (snd ev) = Inr res"
      "disposition res = applied" "intake_step E s ev = rec_after res"
  by (cases "reducePublicationCandidateEventV1 E s (fst ev) (snd ev)")
    (auto simp: intake_step_def dest: changed_iff_applied split: if_splits)

lemma intake_step_le: "history_le s (intake_step E s ev)"
proof (cases rule: intake_step_cases [of E s ev])
  case 1
  then show ?thesis by (simp add: history_le_def record_le_def split: option.splits)
next
  case (applied res)
  show ?thesis
  proof (cases s)
    case (Some r)
    then have rv: "valid (validatePublicationCandidateRecordV1 E r)"
      and lt: "jnum (jget r ''source_state_version'') < jnum (jget (jget (fst ev) ''payload'') ''state_version'')"
      and inactive: "jget (jget (fst ev) ''payload'') ''candidate_state'' \<noteq> JStr ''active''"
      and res: "\<exists>fp. res = success applied (changed_record r (fst ev) fp (snd ev))"
      using reduce_applied_cases [OF applied(1,2)] by auto
    have "isRecord r" using rv by (simp add: record_valid_iff)
    then show ?thesis using Some res lt inactive applied(3)
      by (auto simp: history_le_def record_le_def immutable_fields_def jget_changed_record)
  qed (simp add: history_le_def)
qed

lemma intake_step_ok:
  assumes "stored_ok E s" "uuid_event ev"
  shows "stored_ok E (intake_step E s ev)"
proof (cases rule: intake_step_cases [of E s ev])
  case 1
  with assms show ?thesis by simp
next
  case (applied res)
  have env: "valid (validateEventEnvelope E (fst ev) (snd ev))"
    by (rule reduce_envelope [OF applied(1) applied_accepted [OF applied(1,2)]])
  have sha: "sha_ok E" using assms by (simp add: stored_ok_def)
  from reduce_applied_cases [OF applied(1,2)] show ?thesis
  proof (elim disjE exE conjE)
    fix fp
    assume "computePublishingSha256 E (fst ev) = Inr fp"
      "valid (validatePublicationCandidateV1 E (jget (fst ev) ''payload''))"
      and res: "res = success applied (created_record (fst ev) fp (snd ev))"
    then have "valid (validatePublicationCandidateRecordV1 E (created_record (fst ev) fp (snd ev)))"
      using created_record_valid [OF _ env] sha_ok_fingerprint [OF sha] assms(2)
      by (simp add: uuid_event_def)
    with sha res applied(3) show ?thesis by (simp add: stored_ok_def)
  next
    fix r fp
    assume a: "computePublishingSha256 E (fst ev) = Inr fp"
      "valid (validatePublicationCandidateRecordV1 E r)"
      "valid (validatePublicationCandidateStatusV1 E (jget (fst ev) ''payload''))"
      "js_eq (jget (jget (fst ev) ''payload'') ''candidate_id'') (jget r ''candidate_id'')"
      "js_eq (jget (jget (fst ev) ''payload'') ''business_id'') (jget r ''business_id'')"
      "js_eq (jget (jget (fst ev) ''payload'') ''candidate_checksum'') (jget r ''candidate_checksum'')"
      and res: "res = success applied (changed_record r (fst ev) fp (snd ev))"
    have "valid (validatePublicationCandidateRecordV1 E (changed_record r (fst ev) fp (snd ev)))"
      by (rule changed_record_valid [OF a(2) env a(3-6) sha_ok_fingerprint [OF sha a(1)]])
    with sha res applied(3) show ?thesis by (simp add: stored_ok_def)
  qed
qed

lemma history_le_refl: "history_le s s"
  by (simp add: history_le_def record_le_def split: option.splits)

lemma history_le_trans: "history_le s t \<Longrightarrow> history_le t u \<Longrightarrow> history_le s u"
  by (fastforce simp: history_le_def record_le_def split: option.splits)

interpretation intake: step_order "intake_step E" "stored_ok E" uuid_event history_le for E
  by unfold_locales
    (auto intro: intake_step_ok intake_step_le history_le_refl history_le_trans)

text \<open>The order needs no assumption on the events: a second reading of the same contract.\<close>

interpretation any_intake: step_order "intake_step E" "\<lambda>_. True" "\<lambda>_. True" history_le for E
  by unfold_locales (auto intro: intake_step_le history_le_refl history_le_trans)


section \<open>Sample events\<close>

definition event_doc :: "string \<Rightarrow> json \<Rightarrow> json" where
  "event_doc ty payload = JObj
     [(''event_id'', JStr (sample_uuid (CHR ''4''))), (''event_type'', JStr ty),
      (''occurred_at'', JStr sample_at), (''correlation_id'', JStr (sample_uuid (CHR ''5''))),
      (''payload'', payload)]"

definition created_event :: "string \<Rightarrow> json" where
  "created_event i = event_doc ''content.publication_candidate.created.v1'' (candidate_doc i)"

definition revoked_event :: "string \<Rightarrow> json" where
  "revoked_event i = event_doc ''content.publication_candidate.state_changed.v1'' (status_doc i ''revoked'' 2)"

lemma sample_sha_env: "sha_ok sample_env"
  by (simp add: sha_ok_def)

lemma event_doc_jget [simp]:
  "jget (event_doc ty p) ''event_type'' = JStr ty" "jget (event_doc ty p) ''payload'' = p"
  "isRecord (event_doc ty p)"
  by (simp_all add: event_doc_def)

lemma event_doc_envelope: "valid (validateEventEnvelope sample_env (event_doc ty p) sample_at)"
  by (simp add: envelope_valid_iff event_doc_def extraField_def extra_fields_def EVENT_FIELDS_def)

lemma candidate_doc_wf: "jwf (candidate_doc i)"
  by (simp add: candidate_doc_def)

lemma status_doc_wf: "jwf (status_doc i st n)"
  by (simp add: status_doc_def)

lemma event_doc_sha:
  "jwf p \<Longrightarrow> computePublishingSha256 sample_env (event_doc ty p) = Inr sample_sha"
  by (subst computePublishingSha256_wf) (simp_all add: event_doc_def)

lemma created_event_applied:
  assumes "js_trim i \<noteq> []"
  shows "reducePublicationCandidateEventV1 sample_env None (created_event i) sample_at
    = Inr (success applied (created_record (created_event i) sample_sha sample_at))"
  using candidate_doc_valid [OF assms] event_doc_envelope
  by (simp add: reducer_defs created_event_def event_doc_sha candidate_doc_wf)

definition sample_record :: json where
  "sample_record = created_record (created_event (sample_uuid (CHR ''1''))) sample_sha sample_at"

lemma sample_record_valid: "valid (validatePublicationCandidateRecordV1 sample_env sample_record)"
proof -
  have ids: "isUuid (jget (candidate_doc (sample_uuid (CHR ''1''))) ''candidate_id'')"
    "isUuid (jget (candidate_doc (sample_uuid (CHR ''1''))) ''business_id'')"
    by (simp_all add: candidate_doc_def)
  have "valid (validatePublicationCandidateV1 sample_env (candidate_doc (sample_uuid (CHR ''1''))))"
    by (rule candidate_doc_valid) simp
  moreover have "isSha256 (JStr sample_sha)" by simp
  ultimately show ?thesis
    unfolding sample_record_def created_event_def using ids
    by (intro created_record_valid event_doc_envelope) (simp_all only: event_doc_jget)
qed

lemma candidate_doc_ids:
  "jget (candidate_doc i) ''candidate_id'' = JStr i"
  "jget (candidate_doc i) ''business_id'' = JStr (sample_uuid (CHR ''2''))"
  "jget (candidate_doc i) ''candidate_checksum'' = JStr sample_sha"
  by (simp_all add: candidate_doc_def)

lemma sample_record_fields:
  "jget sample_record ''candidate_id'' = JStr (sample_uuid (CHR ''1''))"
  "jget sample_record ''business_id'' = JStr (sample_uuid (CHR ''2''))"
  "jget sample_record ''candidate_checksum'' = JStr sample_sha"
  "jget sample_record ''source_state_version'' = JNum 1"
  "jget sample_record ''source_state'' = JStr ''active''"
  "jget sample_record ''event_fingerprint'' = JStr sample_sha"
  by (simp_all add: sample_record_def created_record_def created_event_def candidate_doc_ids Let_def)

lemma status_doc_fields:
  "jget (status_doc i st n) ''candidate_id'' = JStr i"
  "jget (status_doc i st n) ''business_id'' = JStr (sample_uuid (CHR ''2''))"
  "jget (status_doc i st n) ''candidate_checksum'' = JStr sample_sha"
  "jget (status_doc i st n) ''state_version'' = JNum n"
  "jget (status_doc i st n) ''candidate_state'' = JStr st"
  by (simp_all add: status_doc_def)

lemma revoked_event_applied:
  "reducePublicationCandidateEventV1 sample_env (Some sample_record) (revoked_event (sample_uuid (CHR ''1''))) sample_at
    = Inr (success applied (changed_record sample_record (revoked_event (sample_uuid (CHR ''1''))) sample_sha sample_at))"
proof -
  let ?p = "status_doc (sample_uuid (CHR ''1'')) ''revoked'' 2"
  have st: "valid (validatePublicationCandidateStatusV1 sample_env ?p)"
    by (rule status_doc_valid) simp_all
  have "reduceStateChangedEvent sample_env (Some sample_record) (revoked_event (sample_uuid (CHR ''1''))) sample_at
    = Inr (success applied (changed_record sample_record (revoked_event (sample_uuid (CHR ''1''))) sample_sha sample_at))"
    by (simp add: reduceStateChangedEvent_def revoked_event_def Let_def st sample_record_fields
        status_doc_fields event_doc_sha status_doc_wf)
  then show ?thesis
    unfolding reducePublicationCandidateEventV1_def Let_def revoked_event_def
    by (simp add: event_doc_envelope sample_record_valid)
qed


section \<open>Properties of the intake\<close>

text \<open>
  C26. Whatever events arrive, in whatever order, valid or not: the contract version, identity,
  checksum and payload of a stored candidate never change, its state version never decreases,
  and once it is revoked or replaced it never becomes active again.
\<close>

theorem intake_history_monotone:
  assumes "foldl (intake_step E) (Some r) evs = s"
  shows "\<exists>r'. s = Some r' \<and> (\<forall>k \<in> set immutable_fields. jget r' k = jget r k) \<and>
    jnum (jget r ''source_state_version'') \<le> jnum (jget r' ''source_state_version'') \<and>
    (jget r ''source_state'' \<noteq> JStr ''active'' \<longrightarrow> jget r' ''source_state'' \<noteq> JStr ''active'')"
  using any_intake.run_le [where s = "Some r" and es = evs and E = E] assms
  by (auto simp: history_le_def record_le_def)

theorem intake_history_monotone_witness:
  "\<exists>r'. foldl (intake_step sample_env) (Some sample_record)
      [(revoked_event (sample_uuid (CHR ''1'')), sample_at), (JNull, sample_at)] = Some r' \<and>
    jget r' ''candidate_id'' = JStr (sample_uuid (CHR ''1''))"
  using intake_history_monotone [OF refl, of sample_env sample_record
      "[(revoked_event (sample_uuid (CHR ''1'')), sample_at), (JNull, sample_at)]"]
  by (auto simp: immutable_fields_def sample_record_fields)

text \<open>
  From an empty store, or a store that holds a valid record, every sequence of events with
  UUID identities leaves a record that passes the record validator (or no record): the reducer
  never stores what it would refuse to read back.
\<close>

theorem intake_history_valid:
  assumes "sha_ok E" and "s = None \<or> (\<exists>r. s = Some r \<and> valid (validatePublicationCandidateRecordV1 E r))"
    and "list_all uuid_event evs" and "foldl (intake_step E) s evs = Some r'"
  shows "valid (validatePublicationCandidateRecordV1 E r')"
proof -
  have "stored_ok E s" using assms(1,2) by (auto simp: stored_ok_def)
  then have "stored_ok E (foldl (intake_step E) s evs)"
    by (rule intake.run_inv) (use assms(3) in \<open>simp add: list_all_iff\<close>)
  with assms(4) show ?thesis by (simp add: stored_ok_def)
qed

theorem intake_history_valid_witness:
  "valid (validatePublicationCandidateRecordV1 sample_env sample_record)"
proof -
  have u: "list_all uuid_event [(created_event (sample_uuid (CHR ''1'')), sample_at)]"
    by (simp add: uuid_event_def created_event_def) (simp add: candidate_doc_def)
  have step: "foldl (intake_step sample_env) None [(created_event (sample_uuid (CHR ''1'')), sample_at)]
      = Some sample_record"
    by (simp add: intake_step_def created_event_applied sample_record_def)
  show ?thesis by (rule intake_history_valid [OF sample_sha_env _ u step]) simp
qed

lemma replayed_creation:
  assumes "computePublishingSha256 E event = Inr fp"
    "jget event ''event_type'' = JStr ''content.publication_candidate.created.v1''"
    "valid (validatePublicationCandidateV1 E (jget event ''payload''))" "uuid_event (event, tm)"
  shows "reduceCreatedEvent E (Some (created_record event fp tm)) event tm2
    = Inr (success identical_replay (created_record event fp tm))"
proof -
  have "js_prim (jget (jget event ''payload'') ''candidate_id'')"
    "js_prim (jget (jget event ''payload'') ''business_id'')"
    using assms(4) by (simp_all add: uuid_event_def string_checks_prim)
  then show ?thesis
    using assms(1,3) by (simp add: reduceCreatedEvent_def Let_def created_record_def js_eq_iff)
qed

text \<open>
  Redelivery: once an event has been applied, delivering it again (at any later time of
  receipt) is accepted as an identical replay and changes nothing.
\<close>

theorem intake_replay_is_identical:
  assumes "sha_ok E" "reducePublicationCandidateEventV1 E existing event tm = Inr res"
    and "disposition res = applied" "uuid_event (event, tm)" "isIsoDateTime E (JStr tm2)"
    and "rec_after res = Some r'"
  shows "reducePublicationCandidateEventV1 E (Some r') event tm2 = Inr (success identical_replay r')"
proof -
  have acc: "accepted res" by (rule applied_accepted [OF assms(2,3)])
  note env = reduce_envelope [OF assms(2) acc]
  have env2: "valid (validateEventEnvelope E event tm2)"
    using env(2) assms(5) by (simp add: envelope_valid_iff)
  from reduce_applied_cases [OF assms(2,3)] show ?thesis
  proof (elim disjE exE conjE)
    fix fp
    assume a: "existing = None" "computePublishingSha256 E event = Inr fp"
      "jget event ''event_type'' = JStr ''content.publication_candidate.created.v1''"
      "valid (validatePublicationCandidateV1 E (jget event ''payload''))"
      "res = success applied (created_record event fp tm)"
    have rv: "valid (validatePublicationCandidateRecordV1 E (created_record event fp tm))"
      using created_record_valid [OF a(4) env(2)] assms(4) sha_ok_fingerprint [OF assms(1) a(2)]
      by (simp add: uuid_event_def)
    from replayed_creation [OF a(2,3,4) assms(4)] show ?thesis
      using a env(1) env2 rv assms(6) by (simp add: reducePublicationCandidateEventV1_def)
  next
    fix r fp
    assume a: "existing = Some r" "computePublishingSha256 E event = Inr fp"
      "jget event ''event_type'' = JStr ''content.publication_candidate.state_changed.v1''"
      "valid (validatePublicationCandidateRecordV1 E r)"
      "valid (validatePublicationCandidateStatusV1 E (jget event ''payload''))"
      "jget (jget event ''payload'') ''candidate_state'' \<noteq> JStr ''active''"
      "js_eq (jget (jget event ''payload'') ''candidate_id'') (jget r ''candidate_id'')"
      "js_eq (jget (jget event ''payload'') ''business_id'') (jget r ''business_id'')"
      "js_eq (jget (jget event ''payload'') ''candidate_checksum'') (jget r ''candidate_checksum'')"
      "res = success applied (changed_record r event fp tm)"
    let ?r = "changed_record r event fp tm"
    have rv: "valid (validatePublicationCandidateRecordV1 E ?r)"
      by (rule changed_record_valid [OF a(4) env(2) a(5,7,8,9) sha_ok_fingerprint [OF assms(1) a(2)]])
    have "isRecord r" using a(4) by (simp add: record_valid_iff)
    note j = jget_changed_record [OF this]
    have "reduceStateChangedEvent E (Some ?r) event tm2 = Inr (success identical_replay ?r)"
      using a by (simp add: reduceStateChangedEvent_def Let_def j)
    then show ?thesis
      using a env(1) env2 rv assms(6) by (simp add: reducePublicationCandidateEventV1_def)
  qed
qed

theorem intake_replay_is_identical_witness:
  "reducePublicationCandidateEventV1 sample_env (Some sample_record)
     (created_event (sample_uuid (CHR ''1''))) sample_later = Inr (success identical_replay sample_record)"
proof -
  have u: "uuid_event (created_event (sample_uuid (CHR ''1'')), sample_at)"
    by (simp add: uuid_event_def created_event_def) (simp add: candidate_doc_def)
  show ?thesis
    by (rule intake_replay_is_identical [OF sample_sha_env created_event_applied _ u])
      (simp_all add: sample_record_def)
qed

text \<open>
  The candidate validator accepts any non-empty candidate identity, the record validator
  asks for a UUID: a created event with another identity is accepted and stored, and from then
  on no event can change the stored record, so the candidate can never be revoked or replaced.
\<close>

theorem created_without_uuid_is_frozen:
  assumes "reducePublicationCandidateEventV1 E None event tm = Inr res" "disposition res = applied"
    and "\<not> isUuid (jget (jget event ''payload'') ''candidate_id'')" "rec_after res = Some r"
  shows "foldl (intake_step E) (Some r) evs = Some r"
proof -
  obtain fp where r: "r = created_record event fp tm"
    using reduce_applied_cases [OF assms(1,2)] assms(4) by auto
  have "\<not> valid (validatePublicationCandidateRecordV1 E r)"
    using assms(3) by (simp add: record_valid_iff record_metadata_ok_def r created_record_def Let_def)
  then have "intake_step E (Some r) ev = Some r" for ev
    by (cases rule: intake_step_cases [of E "Some r" ev]) (auto dest: reduce_applied_cases)
  then show ?thesis by (induction evs) simp_all
qed

theorem created_without_uuid_is_frozen_witness:
  "\<exists>r. foldl (intake_step sample_env) None
      [(created_event ''candidate-1'', sample_at), (revoked_event ''candidate-1'', sample_at)] = Some r
    \<and> jget r ''source_state'' = JStr ''active''"
proof -
  let ?r = "created_record (created_event ''candidate-1'') sample_sha sample_at"
  have ne: "js_trim ''candidate-1'' \<noteq> []" by (simp add: js_space_def)
  have "\<not> isUuid (jget (jget (created_event ''candidate-1'') ''payload'') ''candidate_id'')"
    by (simp add: created_event_def candidate_doc_def shape_matches_def UUID_PATTERN_def list_all2_conv_all_nth)
  then have "foldl (intake_step sample_env) (Some ?r) [(revoked_event ''candidate-1'', sample_at)] = Some ?r"
    by (rule created_without_uuid_is_frozen [OF created_event_applied [OF ne], rotated]) simp_all
  moreover have "intake_step sample_env None (created_event ''candidate-1'', sample_at) = Some ?r"
    by (simp add: intake_step_def created_event_applied [OF ne])
  moreover have "jget ?r ''source_state'' = JStr ''active''" by (simp add: created_record_def Let_def)
  ultimately show ?thesis by simp
qed


section \<open>The authoritative check before a dispatch\<close>

lemma jwf_jget_record: "jwf v \<Longrightarrow> isRecord (jget v k) \<Longrightarrow> jwf (jget v k)"
  using jwf_jget [of v k] by auto

lemma same_sha_cases:
  assumes "num_ok E" "jwf v" "jwf w" "computePublishingSha256 E v = Inr a" "computePublishingSha256 E w = Inr a"
  shows "canon v = canon w \<or> sha_collision E v w"
  using same_digest [OF assms(1-3)] assms(4,5) by simp

text \<open>
  C27. A candidate and status that pass the authoritative check against the stored record are,
  property order aside, the stored payload and the stored status (or exhibit a SHA-256
  collision), the record is active and the presented status version is the stored one.
\<close>

theorem authoritative_candidate_sound:
  assumes "num_ok E" "jwf r" "jwf candidate" "jwf status"
    and "validateAuthoritativePublicationCandidateV1 E r candidate status = Inr v" "valid v"
  shows "jget r ''source_state'' = JStr ''active'' \<and>
    jget r ''source_state_version'' = jget status ''state_version'' \<and>
    jget candidate ''candidate_id'' = jget r ''candidate_id'' \<and>
    (canon candidate = canon (jget r ''payload'') \<or> sha_collision E (jget r ''payload'') candidate) \<and>
    (canon status = canon (jget r ''source_status'') \<or> sha_collision E (jget r ''source_status'') status)"
proof -
  let ?A = "\<lambda>a. computePublishingSha256 E (jget r ''payload'') = Inr a \<and> computePublishingSha256 E candidate = Inr a"
  let ?B = "\<lambda>b. computePublishingSha256 E (jget r ''source_status'') = Inr b \<and> computePublishingSha256 E status = Inr b"
  note D = authoritative_valid_D [OF assms(5,6)]
  have version: "jget r ''source_state_version'' = jget status ''state_version''"
    using D(5) by (simp only: js_eq_iff)
  have identity: "jget candidate ''candidate_id'' = jget r ''candidate_id''"
    using D(3) by (simp only: js_eq_iff)
  obtain a b where a: "?A a" and b: "?B b"
    using D(6,7) unfolding digests_differ_False_iff by blast
  have wf: "jwf (jget r ''payload'')" "jwf (jget r ''source_status'')"
  proof -
    have "isRecord (jget r ''payload'')" "isRecord (jget r ''source_status'')"
      using D(1) valid_candidate_record valid_status_facts(1) unfolding record_valid_iff by blast+
    then show "jwf (jget r ''payload'')" "jwf (jget r ''source_status'')"
      by (simp_all only: jwf_jget_record [OF assms(2)])
  qed
  have "canon candidate = canon (jget r ''payload'') \<or> sha_collision E (jget r ''payload'') candidate"
    using same_sha_cases [OF assms(1) wf(1) assms(3), of a] a by metis
  moreover have "canon status = canon (jget r ''source_status'') \<or> sha_collision E (jget r ''source_status'') status"
    using same_sha_cases [OF assms(1) wf(2) assms(4), of b] b by metis
  ultimately show ?thesis using D(4) version identity by blast
qed


lemma sample_digests: "jwf v \<Longrightarrow> jwf w \<Longrightarrow> digests_differ sample_env v w = Inr False"
  by (simp add: digests_differ_False_iff computePublishingSha256_wf)

lemma sample_handoff: "valid (validatePublicationCandidateHandoff sample_env sample_candidate sample_status)"
proof -
  have "valid (validatePublicationCandidateV1 sample_env sample_candidate)"
    unfolding sample_candidate_def by (rule candidate_doc_valid) simp
  moreover have "valid (validatePublicationCandidateStatusV1 sample_env sample_status)"
    unfolding sample_status_def by (rule status_doc_valid) simp_all
  ultimately show ?thesis
    unfolding handoff_valid_iff
    by (simp add: sample_status_def status_doc_fields) (simp add: sample_candidate_def candidate_doc_def)
qed

lemma sample_documents_wf: "jwf sample_record" "jwf sample_candidate" "jwf sample_status"
  by (simp_all add: sample_candidate_def sample_status_def status_doc_wf candidate_doc_wf sample_record_def
      created_record_def created_event_def event_doc_def activeStatusForCandidate_def Let_def)
    (simp_all add: candidate_doc_def)

lemma sample_authoritative:
  "validateAuthoritativePublicationCandidateV1 sample_env sample_record sample_candidate sample_status = Inr valid_result"
proof -
  have ids: "jget sample_candidate ''candidate_id'' = JStr (sample_uuid (CHR ''1''))"
    "jget sample_candidate ''business_id'' = JStr (sample_uuid (CHR ''2''))"
    "jget sample_candidate ''candidate_checksum'' = JStr sample_sha"
    by (simp_all add: sample_candidate_def candidate_doc_def)
  have version: "jget sample_status ''state_version'' = JNum 1"
    by (simp add: sample_status_def status_doc_fields)
  have payload: "jwf (jget sample_record ''payload'')" "jwf (jget sample_record ''source_status'')"
    by (simp_all add: sample_record_def created_record_def created_event_def candidate_doc_wf
        activeStatusForCandidate_def Let_def) (simp_all add: candidate_doc_def)
  show ?thesis
    by (simp add: validateAuthoritativePublicationCandidateV1_def Let_def sample_record_valid sample_handoff ids
        version sample_record_fields sample_digests payload sample_documents_wf)
qed

theorem authoritative_candidate_sound_witness:
  "jget sample_record ''source_state'' = JStr ''active'' \<and>
    (canon sample_candidate = canon (jget sample_record ''payload'')
     \<or> sha_collision sample_env (jget sample_record ''payload'') sample_candidate)"
  using authoritative_candidate_sound [OF sample_env_num_ok sample_documents_wf sample_authoritative]
  by simp

end
