(* ===== verification/Pub_Policy.thy ===== *)
theory Pub_Policy
  imports Candidate_Intake
begin

text \<open>
  The validators of the publishing contract (packages/contracts/src/publishing/publishing-policy.ts
  and publication-intent.ts): target, intent, approval snapshot, attempt, result, and the exact
  approval check that binds intent, candidate, target and approval. As in the code, a validator
  returns its issues in the order of the checks, and those that digest a document may throw.
\<close>


section \<open>Closed vocabularies\<close>

definition PUBLISHING_MODES :: "string list" where
  "PUBLISHING_MODES = [''real'', ''manual_export'', ''simulation'']"

definition PUBLICATION_INTENT_STATES :: "string list" where
  "PUBLICATION_INTENT_STATES =
     [''draft'', ''awaiting_approval'', ''scheduled'', ''dispatching'', ''succeeded'', ''failed'',
      ''action_required'', ''cancelled'']"

definition PUBLICATION_ATTEMPT_STATES :: "string list" where
  "PUBLICATION_ATTEMPT_STATES =
     [''queued'', ''running'', ''succeeded'', ''failed'', ''unknown'', ''cancelled'']"

definition PUBLISHING_TARGET_CONNECTION_STATES :: "string list" where
  "PUBLISHING_TARGET_CONNECTION_STATES = [''connected'', ''expired'', ''revoked'', ''error'']"

definition PUBLISHING_CAPABILITIES :: "string list" where
  "PUBLISHING_CAPABILITIES = [''static_image'', ''text'']"

definition PUBLISHING_SIGNATURE_TOLERANCE_SECONDS :: int where
  "PUBLISHING_SIGNATURE_TOLERANCE_SECONDS = 300"

definition PUBLISHING_ERROR_CODES :: "string list" where
  "PUBLISHING_ERROR_CODES =
     [''PUBLISHING_CONTRACT_UNSUPPORTED'', ''PUBLISHING_CANDIDATE_INVALID'',
      ''PUBLISHING_CANDIDATE_TAMPERED'', ''PUBLISHING_CANDIDATE_REVOKED'',
      ''PUBLISHING_TARGET_NOT_CONNECTED'', ''PUBLISHING_TARGET_UNAUTHORIZED'',
      ''PUBLISHING_FORMAT_UNSUPPORTED'', ''PUBLISHING_ASSET_UNAVAILABLE'',
      ''PUBLISHING_ASSET_TAMPERED'', ''PUBLISHING_SCHEDULE_IN_PAST'',
      ''PUBLISHING_APPROVAL_REQUIRED'', ''PUBLISHING_STATE_CONFLICT'',
      ''PUBLISHING_IDEMPOTENCY_CONFLICT'', ''PUBLISHING_DUPLICATE_DISPATCH'',
      ''PUBLISHING_WEBHOOK_UNAUTHORIZED'', ''PUBLISHING_WEBHOOK_TIMESTAMP_INVALID'',
      ''PUBLISHING_WEBHOOK_NONCE_REPLAYED'', ''PUBLISHING_PROVIDER_RATE_LIMITED'',
      ''PUBLISHING_PROVIDER_FAILURE'', ''PUBLISHING_MEDIA_ORIGIN_NOT_REACHABLE'',
      ''PUBLISHING_PROVIDER_OUTCOME_UNKNOWN'', ''PUBLISHING_CALLBACK_INVALID'',
      ''PUBLISHING_CALLBACK_CONFLICT'']"


section \<open>Field sets\<close>

definition TARGET_FIELDS :: "string list" where
  "TARGET_FIELDS =
     [''contract_version'', ''target_id'', ''version'', ''business_id'', ''provider'', ''channel'',
      ''external_account_id'', ''display_name'', ''connection_state'', ''credential_ref'',
      ''capabilities'', ''last_verified_at'']"

definition INTENT_FIELDS :: "string list" where
  "INTENT_FIELDS =
     [''contract_version'', ''intent_id'', ''version'', ''business_id'', ''candidate_id'',
      ''candidate_checksum'', ''mode'', ''target_id'', ''scheduled_local'', ''time_zone'',
      ''scheduled_utc'', ''state'', ''approved_decision_id'', ''created_by_user_id'', ''created_at'',
      ''updated_at'', ''published_post_url'']"

definition APPROVAL_FIELDS :: "string list" where
  "APPROVAL_FIELDS =
     [''contract_version'', ''decision_id'', ''intent_id'', ''intent_version'', ''candidate_id'',
      ''candidate_checksum'', ''mode'', ''target_id'', ''scheduled_local'', ''time_zone'',
      ''scheduled_utc'', ''decided_by_user_id'', ''decided_at'', ''approval_fingerprint'']"

definition ATTEMPT_FIELDS :: "string list" where
  "ATTEMPT_FIELDS =
     [''contract_version'', ''attempt_id'', ''intent_id'', ''intent_version'', ''attempt_number'',
      ''idempotency_key'', ''workflow_version'', ''request_fingerprint'', ''state'', ''started_at'',
      ''finished_at'', ''created_at'']"

definition RESULT_FIELDS :: "string list" where
  "RESULT_FIELDS =
     [''contract_version'', ''result_id'', ''attempt_id'', ''intent_id'', ''intent_version'', ''mode'',
      ''outcome'', ''provider'', ''remote_publication_id'', ''remote_url'', ''export_artifact_id'',
      ''simulation_reference_id'', ''simulation_label'', ''error_code'', ''retryable'',
      ''reconciliation_required'', ''occurred_at'']"

definition rejectExtraFields :: "json \<Rightarrow> string list \<Rightarrow> string \<Rightarrow> publishing_error_code issue list" where
  "rejectExtraFields v allowed prefix =
     (case extraField allowed v of
        None \<Rightarrow> [] | Some f \<Rightarrow> [issue_of PUBLISHING_CONTRACT_UNSUPPORTED (prefix @ f)])"


section \<open>Helpers\<close>

definition isSafeInternalUrl :: "js_env \<Rightarrow> json \<Rightarrow> bool" where
  "isSafeInternalUrl E v =
     (if \<not> isNonEmptyString v then False
      else case env_url E (jstr v) of
        None \<Rightarrow> False
      | Some (protocol, hostname) \<Rightarrow>
          protocol = ''https:'' \<or> protocol = ''http:'' \<and> (hostname = ''localhost'' \<or> hostname = ''127.0.0.1''))"

definition isCairoSchedulePairConsistent :: "js_env \<Rightarrow> json \<Rightarrow> json \<Rightarrow> bool" where
  "isCairoSchedulePairConsistent E scheduledLocal scheduledUtc =
     (if \<not> isLocalDateTime scheduledLocal \<or> \<not> isIsoDateTime E scheduledUtc then False
      else let t = date_ms E scheduledUtc
           in jstr scheduledLocal = wall_clock (env_cairo_offset E t) t)"

text \<open>\<open>String (v)\<close>\<close>

fun js_String :: "js_env \<Rightarrow> json \<Rightarrow> string" where
  "js_String E (JStr s) = s"
| "js_String E JNull = ''null''"
| "js_String E JUndef = ''undefined''"
| "js_String E (JBool b) = (if b then ''true'' else ''false'')"
| "js_String E (JNum n) = env_num E n"
| "js_String E (JArr xs) =
     join_with '','' (map (\<lambda>x. if x = JNull \<or> x = JUndef then [] else js_String E x) xs)"
| "js_String E (JObj _) = ''[object Object]''"

datatype replay_disposition = Replay_new | Replay_identical | Replay_conflict

definition classifyPublishingReplay :: "string option \<Rightarrow> string \<Rightarrow> replay_disposition" where
  "classifyPublishingReplay existing incoming =
     (case existing of
        None \<Rightarrow> Replay_new
      | Some fp \<Rightarrow> if fp = incoming then Replay_identical else Replay_conflict)"

definition publicationIntentJobKey :: "string \<Rightarrow> nat \<Rightarrow> string" where
  "publicationIntentJobKey intentId intentVersion =
     ''publishing:intent:'' @ intentId @ '':v'' @ dec_nat intentVersion"

definition publicationAttemptIdempotencyKey :: "string \<Rightarrow> nat \<Rightarrow> nat \<Rightarrow> string" where
  "publicationAttemptIdempotencyKey intentId intentVersion attemptNumber =
     ''publishing:'' @ intentId @ '':v'' @ dec_nat intentVersion @ '':attempt:'' @ dec_nat attemptNumber"

definition validatePublicationScheduleInstant :: "js_env \<Rightarrow> json \<Rightarrow> json \<Rightarrow> publishing_result" where
  "validatePublicationScheduleInstant E scheduledUtc now =
     (if \<not> isIsoDateTime E scheduledUtc \<or> \<not> isIsoDateTime E now
      then firstIssue PUBLISHING_STATE_CONFLICT ''scheduled_utc''
      else if date_ms E scheduledUtc \<le> date_ms E now
      then firstIssue PUBLISHING_SCHEDULE_IN_PAST ''scheduled_utc''
      else valid_result)"

definition requiresPublicationApprovalInvalidation :: "json \<Rightarrow> json \<Rightarrow> bool" where
  "requiresPublicationApprovalInvalidation cur nxt =
     (\<not> list_all (\<lambda>f. js_eq (jget cur f) (jget nxt f))
       [''candidate_id'', ''candidate_checksum'', ''mode'', ''target_id'', ''scheduled_local'',
        ''time_zone'', ''scheduled_utc''])"

definition validateCandidateForPublishing :: "js_env \<Rightarrow> json \<Rightarrow> json \<Rightarrow> publishing_result" where
  "validateCandidateForPublishing E candidate status =
     (let r = validatePublicationCandidateHandoff E candidate status in
      if valid r then valid_result
      else case issues r of
        [] \<Rightarrow> firstIssue PUBLISHING_CANDIDATE_INVALID ''candidate''
      | i # _ \<Rightarrow> firstIssue (publishing_code_of (i_code i)) (i_field i))"


section \<open>Target\<close>

definition target_capabilities_ok :: "json \<Rightarrow> bool" where
  "target_capabilities_ok v \<longleftrightarrow>
     isArray v \<and> jelems v \<noteq> [] \<and> list_all (js_includes PUBLISHING_CAPABILITIES) (jelems v) \<and> distinct (jelems v)"

definition target_issues :: "js_env \<Rightarrow> json \<Rightarrow> publishing_error_code issue list" where
  "target_issues E v =
     rejectExtraFields v TARGET_FIELDS ''target.'' @
     ensure (jget v ''contract_version'' = JStr ''publishing-target-v1'')
       PUBLISHING_CONTRACT_UNSUPPORTED ''target.contract_version'' @
     ensure_each isUuid v [''target_id'', ''business_id''] PUBLISHING_TARGET_NOT_CONNECTED ''target.'' @
     ensure (isPositiveInteger (jget v ''version'')) PUBLISHING_STATE_CONFLICT ''target.version'' @
     ensure_each isNonEmptyString v [''external_account_id'', ''display_name'', ''credential_ref'']
       PUBLISHING_TARGET_NOT_CONNECTED ''target.'' @
     ensure (jget v ''provider'' = JStr ''meta'') PUBLISHING_FORMAT_UNSUPPORTED ''target.provider'' @
     ensure (jget v ''channel'' = JStr ''facebook'' \<or> jget v ''channel'' = JStr ''instagram'')
       PUBLISHING_FORMAT_UNSUPPORTED ''target.channel'' @
     ensure (js_includes PUBLISHING_TARGET_CONNECTION_STATES (jget v ''connection_state''))
       PUBLISHING_TARGET_NOT_CONNECTED ''target.connection_state'' @
     ensure (target_capabilities_ok (jget v ''capabilities''))
       PUBLISHING_FORMAT_UNSUPPORTED ''target.capabilities'' @
     ensure (jget v ''last_verified_at'' = JNull \<or> isIsoDateTime E (jget v ''last_verified_at''))
       PUBLISHING_TARGET_NOT_CONNECTED ''target.last_verified_at''"

definition validatePublishingTargetV1 :: "js_env \<Rightarrow> json \<Rightarrow> publishing_result" where
  "validatePublishingTargetV1 E v =
     (if \<not> isRecord v then firstIssue PUBLISHING_TARGET_NOT_CONNECTED ''target''
      else result_of (target_issues E v))"


section \<open>Intent\<close>

definition completeRealSchedule :: "js_env \<Rightarrow> json \<Rightarrow> bool" where
  "completeRealSchedule E v \<longleftrightarrow>
     isUuid (jget v ''target_id'') \<and> isLocalDateTime (jget v ''scheduled_local'') \<and>
     jget v ''time_zone'' = JStr ''Africa/Cairo'' \<and> isIsoDateTime E (jget v ''scheduled_utc'')"

definition emptySchedule :: "json \<Rightarrow> bool" where
  "emptySchedule v \<longleftrightarrow>
     jget v ''target_id'' = JNull \<and> jget v ''scheduled_local'' = JNull \<and>
     jget v ''time_zone'' = JNull \<and> jget v ''scheduled_utc'' = JNull"

definition intent_schedule_issues :: "js_env \<Rightarrow> json \<Rightarrow> publishing_error_code issue list" where
  "intent_schedule_issues E v =
     (if jget v ''mode'' = JStr ''real'' then
        ensure (\<not> (\<not> completeRealSchedule E v \<and> \<not> (jget v ''state'' = JStr ''draft'' \<and> emptySchedule v)))
          PUBLISHING_STATE_CONFLICT ''intent.scheduled_utc'' @
        ensure (\<not> (completeRealSchedule E v \<and>
            \<not> isCairoSchedulePairConsistent E (jget v ''scheduled_local'') (jget v ''scheduled_utc'')))
          PUBLISHING_STATE_CONFLICT ''intent.scheduled_utc''
      else ensure (emptySchedule v) PUBLISHING_STATE_CONFLICT ''intent.target_id'')"

definition approvalRequiredStates :: "string list" where
  "approvalRequiredStates = [''scheduled'', ''dispatching'', ''succeeded'', ''failed'', ''action_required'']"

definition intent_approval_issues :: "js_env \<Rightarrow> json \<Rightarrow> publishing_error_code issue list" where
  "intent_approval_issues E v =
     ensure (\<not> (jget v ''mode'' = JStr ''real'' \<and> js_String E (jget v ''state'') \<in> set approvalRequiredStates
         \<and> \<not> isUuid (jget v ''approved_decision_id'')))
       PUBLISHING_APPROVAL_REQUIRED ''intent.approved_decision_id'' @
     ensure (\<not> (jget v ''mode'' \<noteq> JStr ''real'' \<and> jget v ''approved_decision_id'' \<noteq> JNull))
       PUBLISHING_APPROVAL_REQUIRED ''intent.approved_decision_id'' @
     ensure (\<not> (jget v ''mode'' \<noteq> JStr ''real'' \<and>
         js_includes [''awaiting_approval'', ''scheduled'', ''action_required''] (jget v ''state'')))
       PUBLISHING_STATE_CONFLICT ''intent.state''"

definition intent_times_issues :: "js_env \<Rightarrow> json \<Rightarrow> publishing_error_code issue list" where
  "intent_times_issues E v =
     (if \<not> isIsoDateTime E (jget v ''created_at'') \<or> \<not> isIsoDateTime E (jget v ''updated_at'')
      then [issue_of PUBLISHING_STATE_CONFLICT ''intent.updated_at'']
      else ensure (\<not> date_ms E (jget v ''updated_at'') < date_ms E (jget v ''created_at''))
        PUBLISHING_STATE_CONFLICT ''intent.updated_at'')"

definition validatePublicationIntentV1 :: "js_env \<Rightarrow> json \<Rightarrow> publishing_result" where
  "validatePublicationIntentV1 E v =
     (if \<not> isRecord v then firstIssue PUBLISHING_STATE_CONFLICT ''intent''
      else result_of
        (rejectExtraFields v INTENT_FIELDS ''intent.'' @
         ensure (jget v ''contract_version'' = JStr ''publication-intent-v1'')
           PUBLISHING_CONTRACT_UNSUPPORTED ''intent.contract_version'' @
         ensure_each isUuid v [''intent_id'', ''business_id'', ''candidate_id'', ''created_by_user_id'']
           PUBLISHING_STATE_CONFLICT ''intent.'' @
         ensure (isPositiveInteger (jget v ''version'')) PUBLISHING_STATE_CONFLICT ''intent.version'' @
         ensure (isSha256 (jget v ''candidate_checksum''))
           PUBLISHING_CANDIDATE_TAMPERED ''intent.candidate_checksum'' @
         ensure (js_includes PUBLISHING_MODES (jget v ''mode'')) PUBLISHING_STATE_CONFLICT ''intent.mode'' @
         ensure (js_includes PUBLICATION_INTENT_STATES (jget v ''state''))
           PUBLISHING_STATE_CONFLICT ''intent.state'' @
         intent_schedule_issues E v @
         intent_approval_issues E v @
         intent_times_issues E v))"


section \<open>Approval snapshot\<close>

definition computePublicationApprovalFingerprint :: "js_env \<Rightarrow> json \<Rightarrow> js_error + string" where
  "computePublicationApprovalFingerprint E approval = computePublishingSha256 E approval"

definition isPublicationApprovalFingerprintValid :: "js_env \<Rightarrow> json \<Rightarrow> js_error + bool" where
  "isPublicationApprovalFingerprintValid E approval =
     throws_bind (computePublicationApprovalFingerprint E (without_field ''approval_fingerprint'' approval))
       (\<lambda>fp. Inr (js_eq (JStr fp) (jget approval ''approval_fingerprint'')))"

definition approval_schedule_issues :: "js_env \<Rightarrow> json \<Rightarrow> publishing_error_code issue list" where
  "approval_schedule_issues E v =
     (if jget v ''mode'' \<noteq> JStr ''real'' \<or> \<not> isLocalDateTime (jget v ''scheduled_local'')
         \<or> jget v ''time_zone'' \<noteq> JStr ''Africa/Cairo'' \<or> \<not> isIsoDateTime E (jget v ''scheduled_utc'')
         \<or> \<not> isIsoDateTime E (jget v ''decided_at'')
      then [issue_of PUBLISHING_APPROVAL_REQUIRED ''approval.scheduled_utc'']
      else ensure (isCairoSchedulePairConsistent E (jget v ''scheduled_local'') (jget v ''scheduled_utc''))
        PUBLISHING_STATE_CONFLICT ''approval.scheduled_utc'')"

definition approval_fingerprint_issues :: "js_env \<Rightarrow> json \<Rightarrow> js_error + publishing_error_code issue list" where
  "approval_fingerprint_issues E v =
     (if \<not> isSha256 (jget v ''approval_fingerprint'')
      then Inr [issue_of PUBLISHING_APPROVAL_REQUIRED ''approval.approval_fingerprint'']
      else throws_bind (isPublicationApprovalFingerprintValid E v) (\<lambda>ok.
        Inr (ensure ok PUBLISHING_STATE_CONFLICT ''approval.approval_fingerprint'')))"

definition validatePublicationApprovalSnapshotV1 :: "js_env \<Rightarrow> json \<Rightarrow> js_error + publishing_result" where
  "validatePublicationApprovalSnapshotV1 E v =
     (if \<not> isRecord v then Inr (firstIssue PUBLISHING_APPROVAL_REQUIRED ''approval'')
      else throws_bind (approval_fingerprint_issues E v) (\<lambda>fpIssues. Inr (result_of
        (rejectExtraFields v APPROVAL_FIELDS ''approval.'' @
         ensure (jget v ''contract_version'' = JStr ''publication-approval-v1'')
           PUBLISHING_CONTRACT_UNSUPPORTED ''approval.contract_version'' @
         ensure_each isUuid v
           [''decision_id'', ''intent_id'', ''candidate_id'', ''target_id'', ''decided_by_user_id'']
           PUBLISHING_APPROVAL_REQUIRED ''approval.'' @
         ensure (isPositiveInteger (jget v ''intent_version''))
           PUBLISHING_STATE_CONFLICT ''approval.intent_version'' @
         ensure (isSha256 (jget v ''candidate_checksum''))
           PUBLISHING_CANDIDATE_TAMPERED ''approval.candidate_checksum'' @
         approval_schedule_issues E v @ fpIssues))))"


section \<open>Exact approval\<close>

text \<open>\<open>a[f] === b[g]\<close> for every listed pair.\<close>

definition agree :: "json \<Rightarrow> json \<Rightarrow> (string \<times> string) list \<Rightarrow> bool" where
  "agree a b fs \<longleftrightarrow> list_all (\<lambda>(f, g). js_eq (jget a f) (jget b g)) fs"

definition requiredCapability :: "json \<Rightarrow> string option" where
  "requiredCapability candidate =
     (if jget candidate ''content_format'' = JStr ''static_image_post'' then Some ''static_image''
      else if jget candidate ''content_format'' = JStr ''text_post'' then Some ''text'' else None)"

definition target_can_publish :: "json \<Rightarrow> json \<Rightarrow> bool" where
  "target_can_publish target candidate \<longleftrightarrow>
     (case requiredCapability candidate of
        None \<Rightarrow> False | Some c \<Rightarrow> JStr c \<in> set (jelems (jget target ''capabilities'')))"

definition approval_binds :: "json \<Rightarrow> json \<Rightarrow> json \<Rightarrow> json \<Rightarrow> bool" where
  "approval_binds intent candidate target approval \<longleftrightarrow>
     jget intent ''mode'' = JStr ''real'' \<and>
     agree approval intent
       [(''intent_id'', ''intent_id''), (''intent_version'', ''version''), (''candidate_id'', ''candidate_id''),
        (''candidate_checksum'', ''candidate_checksum''), (''target_id'', ''target_id''),
        (''scheduled_local'', ''scheduled_local''), (''time_zone'', ''time_zone''),
        (''scheduled_utc'', ''scheduled_utc''), (''decision_id'', ''approved_decision_id'')] \<and>
     agree approval candidate
       [(''candidate_id'', ''candidate_id''), (''candidate_checksum'', ''candidate_checksum'')] \<and>
     agree approval target [(''target_id'', ''target_id'')]"

definition validateExactPublicationApproval ::
    "js_env \<Rightarrow> json \<Rightarrow> json \<Rightarrow> json \<Rightarrow> json \<Rightarrow> json \<Rightarrow> js_error + publishing_result" where
  "validateExactPublicationApproval E intent candidate status target approval =
     throws_bind (validatePublicationApprovalSnapshotV1 E approval) (\<lambda>approvalResult.
       Inr (case first_invalid
             [validatePublicationIntentV1 E intent, validateCandidateForPublishing E candidate status,
              validatePublishingTargetV1 E target, approvalResult]
         of Some r \<Rightarrow> r
          | None \<Rightarrow>
              if \<not> approval_binds intent candidate target approval
              then firstIssue PUBLISHING_STATE_CONFLICT ''approval.intent_version''
              else if \<not> js_eq (jget target ''business_id'') (jget intent ''business_id'')
                  \<or> \<not> js_eq (jget candidate ''business_id'') (jget intent ''business_id'')
                  \<or> \<not> js_eq (jget target ''channel'') (jget candidate ''target_channel'')
              then firstIssue PUBLISHING_STATE_CONFLICT ''target.business_id''
              else if jget target ''connection_state'' \<noteq> JStr ''connected''
              then firstIssue PUBLISHING_TARGET_UNAUTHORIZED ''target.connection_state''
              else if \<not> target_can_publish target candidate
              then firstIssue PUBLISHING_FORMAT_UNSUPPORTED ''candidate.content_format''
              else valid_result))"


section \<open>Attempt\<close>

definition attempt_lifecycle_ok :: "js_env \<Rightarrow> json \<Rightarrow> bool" where
  "attempt_lifecycle_ok E v \<longleftrightarrow>
     \<not> (jget v ''state'' = JStr ''queued'' \<and> (jget v ''started_at'' \<noteq> JNull \<or> jget v ''finished_at'' \<noteq> JNull)
      \<or> jget v ''state'' = JStr ''running'' \<and>
          (\<not> isIsoDateTime E (jget v ''started_at'') \<or> jget v ''finished_at'' \<noteq> JNull)
      \<or> js_String E (jget v ''state'') \<in> {''succeeded'', ''failed'', ''unknown'', ''cancelled''} \<and>
          \<not> isIsoDateTime E (jget v ''finished_at''))"

definition validatePublicationAttemptV1 :: "js_env \<Rightarrow> json \<Rightarrow> publishing_result" where
  "validatePublicationAttemptV1 E v =
     (if \<not> isRecord v then firstIssue PUBLISHING_STATE_CONFLICT ''attempt''
      else result_of
        (rejectExtraFields v ATTEMPT_FIELDS ''attempt.'' @
         ensure (jget v ''contract_version'' = JStr ''publication-attempt-v1'')
           PUBLISHING_CONTRACT_UNSUPPORTED ''attempt.contract_version'' @
         ensure_each isUuid v [''attempt_id'', ''intent_id''] PUBLISHING_STATE_CONFLICT ''attempt.'' @
         ensure_each isPositiveInteger v [''intent_version'', ''attempt_number'']
           PUBLISHING_STATE_CONFLICT ''attempt.'' @
         ensure (isNonEmptyString (jget v ''idempotency_key'') \<and> isNonEmptyString (jget v ''workflow_version'')
             \<and> isSha256 (jget v ''request_fingerprint''))
           PUBLISHING_IDEMPOTENCY_CONFLICT ''attempt.request_fingerprint'' @
         ensure (js_includes PUBLICATION_ATTEMPT_STATES (jget v ''state''))
           PUBLISHING_STATE_CONFLICT ''attempt.state'' @
         ensure (isIsoDateTime E (jget v ''created_at'')
             \<and> (jget v ''started_at'' = JNull \<or> isIsoDateTime E (jget v ''started_at''))
             \<and> (jget v ''finished_at'' = JNull \<or> isIsoDateTime E (jget v ''finished_at'')))
           PUBLISHING_STATE_CONFLICT ''attempt.created_at'' @
         ensure (attempt_lifecycle_ok E v) PUBLISHING_STATE_CONFLICT ''attempt.finished_at''))"


section \<open>Result\<close>

definition emptyRemote :: "json \<Rightarrow> bool" where
  "emptyRemote v \<longleftrightarrow> jget v ''remote_publication_id'' = JNull \<and> jget v ''remote_url'' = JNull"

definition noArtifact :: "json \<Rightarrow> bool" where
  "noArtifact v \<longleftrightarrow> jget v ''export_artifact_id'' = JNull"

definition noSimulation :: "json \<Rightarrow> bool" where
  "noSimulation v \<longleftrightarrow> jget v ''simulation_reference_id'' = JNull \<and> jget v ''simulation_label'' = JNull"

definition commonSuccess :: "json \<Rightarrow> bool" where
  "commonSuccess v \<longleftrightarrow> jget v ''error_code'' = JNull \<and> jget v ''retryable'' = JBool False
     \<and> jget v ''reconciliation_required'' = JBool False"

definition published_ok :: "json \<Rightarrow> bool" where
  "published_ok v \<longleftrightarrow> jget v ''mode'' = JStr ''real'' \<and> jget v ''provider'' = JStr ''meta''
     \<and> isNonEmptyString (jget v ''remote_publication_id'')
     \<and> (jget v ''remote_url'' = JNull \<or> isNonEmptyString (jget v ''remote_url''))
     \<and> noArtifact v \<and> noSimulation v \<and> commonSuccess v"

definition exported_ok :: "json \<Rightarrow> bool" where
  "exported_ok v \<longleftrightarrow> jget v ''mode'' = JStr ''manual_export'' \<and> jget v ''provider'' = JNull
     \<and> emptyRemote v \<and> isUuid (jget v ''export_artifact_id'') \<and> noSimulation v \<and> commonSuccess v"

definition simulated_ok :: "json \<Rightarrow> bool" where
  "simulated_ok v \<longleftrightarrow> jget v ''mode'' = JStr ''simulation'' \<and> jget v ''provider'' = JNull
     \<and> emptyRemote v \<and> noArtifact v \<and> isNonEmptyString (jget v ''simulation_reference_id'')
     \<and> jget v ''simulation_label'' = JStr ''SIMULATION'' \<and> commonSuccess v"

definition unknown_ok :: "json \<Rightarrow> bool" where
  "unknown_ok v \<longleftrightarrow> jget v ''mode'' = JStr ''real'' \<and> jget v ''provider'' = JStr ''meta''
     \<and> emptyRemote v \<and> noArtifact v \<and> noSimulation v
     \<and> jget v ''error_code'' = JStr ''PUBLISHING_PROVIDER_OUTCOME_UNKNOWN''
     \<and> jget v ''retryable'' = JBool False \<and> jget v ''reconciliation_required'' = JBool True"

definition unlabelled :: "json \<Rightarrow> bool" where
  "unlabelled v \<longleftrightarrow> jget v ''simulation_reference_id'' = JNull
     \<and> jget v ''simulation_label'' = (if jget v ''mode'' = JStr ''simulation'' then JStr ''SIMULATION'' else JNull)"

definition failed_ok :: "json \<Rightarrow> bool" where
  "failed_ok v \<longleftrightarrow> js_includes PUBLISHING_MODES (jget v ''mode'') \<and> emptyRemote v \<and> noArtifact v \<and> unlabelled v
     \<and> js_includes PUBLISHING_ERROR_CODES (jget v ''error_code'')
     \<and> jget v ''error_code'' \<noteq> JStr ''PUBLISHING_PROVIDER_OUTCOME_UNKNOWN''
     \<and> js_is_bool (jget v ''retryable'') \<and> jget v ''reconciliation_required'' = JBool False
     \<and> (if jget v ''mode'' = JStr ''real''
        then jget v ''provider'' = JStr ''meta'' \<or> jget v ''provider'' = JNull
        else jget v ''provider'' = JNull)"

definition cancelled_ok :: "json \<Rightarrow> bool" where
  "cancelled_ok v \<longleftrightarrow> js_includes PUBLISHING_MODES (jget v ''mode'') \<and> jget v ''provider'' = JNull
     \<and> emptyRemote v \<and> noArtifact v \<and> unlabelled v \<and> commonSuccess v"

definition result_outcome_issues :: "json \<Rightarrow> publishing_error_code issue list" where
  "result_outcome_issues v =
     (let outcome = jget v ''outcome'' in
      if outcome = JStr ''published'' then ensure (published_ok v) PUBLISHING_CALLBACK_INVALID ''result.outcome''
      else if outcome = JStr ''exported'' then ensure (exported_ok v) PUBLISHING_CALLBACK_INVALID ''result.outcome''
      else if outcome = JStr ''simulated''
        then ensure (simulated_ok v) PUBLISHING_CALLBACK_INVALID ''result.simulation_label''
      else if outcome = JStr ''unknown''
        then ensure (unknown_ok v) PUBLISHING_PROVIDER_OUTCOME_UNKNOWN ''result.outcome''
      else if outcome = JStr ''failed'' then ensure (failed_ok v) PUBLISHING_CALLBACK_INVALID ''result.error_code''
      else if outcome = JStr ''cancelled'' then ensure (cancelled_ok v) PUBLISHING_CALLBACK_INVALID ''result.outcome''
      else [issue_of PUBLISHING_CALLBACK_INVALID ''result.outcome''])"

definition validatePublicationResultV1 :: "js_env \<Rightarrow> json \<Rightarrow> publishing_result" where
  "validatePublicationResultV1 E v =
     (if \<not> isRecord v then firstIssue PUBLISHING_CALLBACK_INVALID ''result''
      else result_of
        (rejectExtraFields v RESULT_FIELDS ''result.'' @
         ensure (jget v ''contract_version'' = JStr ''publication-result-v1'')
           PUBLISHING_CONTRACT_UNSUPPORTED ''result.contract_version'' @
         ensure_each isUuid v [''result_id'', ''attempt_id'', ''intent_id''] PUBLISHING_CALLBACK_INVALID ''result.'' @
         ensure (isPositiveInteger (jget v ''intent_version'')) PUBLISHING_STATE_CONFLICT ''result.intent_version'' @
         ensure (isIsoDateTime E (jget v ''occurred_at'')) PUBLISHING_CALLBACK_INVALID ''result.occurred_at'' @
         result_outcome_issues v))"

end
