(* ===== verification/Pub_Envelope.thy ===== *)
theory Pub_Envelope
  imports Pub_Policy
begin

text \<open>
  The signed messages between the API and the n8n workflow
  (packages/contracts/src/publishing/publishing-policy.ts): the envelope, the dispatch body, the
  callback body, and the two context checks that tie a message to the stored intent, attempt and
  candidate record. A missing body makes the digest throw, so the validators return
  \<open>js_error + publishing_result\<close>.
\<close>


section \<open>Envelope\<close>

definition ENVELOPE_FIELDS :: "string list" where
  "ENVELOPE_FIELDS =
     [''contract_version'', ''message_id'', ''sent_at'', ''nonce'', ''key_id'', ''signature_algorithm'',
      ''body_sha256'', ''signature'', ''body'']"

record envelope_context =
  secret :: string
  expected_key_id :: string
  now_iso :: string
  seen_nonces :: "string list"

definition envelope_time_ok :: "js_env \<Rightarrow> json \<Rightarrow> envelope_context \<Rightarrow> bool" where
  "envelope_time_ok E v ctx \<longleftrightarrow>
     isIsoDateTime E (jget v ''sent_at'') \<and> isIsoDateTime E (JStr (now_iso ctx)) \<and>
     \<not> \<bar>date_ms E (JStr (now_iso ctx)) - date_ms E (jget v ''sent_at'')\<bar>
        > PUBLISHING_SIGNATURE_TOLERANCE_SECONDS * 1000"

definition envelope_nonce_issues :: "json \<Rightarrow> envelope_context \<Rightarrow> publishing_error_code issue list" where
  "envelope_nonce_issues v ctx =
     (if \<not> isNonEmptyString (jget v ''nonce'') \<or> length (jstr (jget v ''nonce'')) < 16
      then [issue_of PUBLISHING_WEBHOOK_UNAUTHORIZED ''envelope.nonce'']
      else ensure (jstr (jget v ''nonce'') \<notin> set (seen_nonces ctx))
        PUBLISHING_WEBHOOK_NONCE_REPLAYED ''envelope.nonce'')"

definition envelope_sig_input :: "js_env \<Rightarrow> json \<Rightarrow> sig_input" where
  "envelope_sig_input E v =
     \<lparr>sg_contract_version = js_String E (jget v ''contract_version''),
      sg_sent_at = js_String E (jget v ''sent_at''), sg_nonce = js_String E (jget v ''nonce''),
      sg_body_sha256 = jstr (jget v ''body_sha256'')\<rparr>"

definition envelope_signature_issues ::
    "js_env \<Rightarrow> json \<Rightarrow> envelope_context \<Rightarrow> js_error + publishing_error_code issue list" where
  "envelope_signature_issues E v ctx =
     (if \<not> isNonEmptyString (jget v ''key_id'') \<or> jget v ''key_id'' \<noteq> JStr (expected_key_id ctx)
         \<or> jget v ''signature_algorithm'' \<noteq> JStr ''hmac-sha256''
         \<or> \<not> isSha256 (jget v ''body_sha256'') \<or> \<not> isSha256 (jget v ''signature'')
      then Inr [issue_of PUBLISHING_WEBHOOK_UNAUTHORIZED ''envelope.signature'']
      else throws_bind (computePublishingSha256 E (jget v ''body'')) (\<lambda>digest. Inr
        (if JStr digest \<noteq> jget v ''body_sha256''
         then [issue_of PUBLISHING_WEBHOOK_UNAUTHORIZED ''envelope.body_sha256'']
         else ensure (isPublishingSignatureValid E (envelope_sig_input E v) (jstr (jget v ''signature'')) (secret ctx))
           PUBLISHING_WEBHOOK_UNAUTHORIZED ''envelope.signature'')))"

definition validateEnvelopeCommon ::
    "js_env \<Rightarrow> json \<Rightarrow> string \<Rightarrow> envelope_context \<Rightarrow> js_error + publishing_result" where
  "validateEnvelopeCommon E v expectedContract ctx =
     (if \<not> isRecord v then Inr (firstIssue PUBLISHING_WEBHOOK_UNAUTHORIZED ''envelope'')
      else throws_bind (envelope_signature_issues E v ctx) (\<lambda>sigIssues. Inr (result_of
        (rejectExtraFields v ENVELOPE_FIELDS ''envelope.'' @
         ensure (jget v ''contract_version'' = JStr expectedContract)
           PUBLISHING_CONTRACT_UNSUPPORTED ''envelope.contract_version'' @
         ensure (isUuid (jget v ''message_id'')) PUBLISHING_WEBHOOK_UNAUTHORIZED ''envelope.message_id'' @
         ensure (envelope_time_ok E v ctx) PUBLISHING_WEBHOOK_TIMESTAMP_INVALID ''envelope.sent_at'' @
         envelope_nonce_issues v ctx @ sigIssues))))"


section \<open>Dispatch body\<close>

definition DISPATCH_BODY_FIELDS :: "string list" where
  "DISPATCH_BODY_FIELDS =
     [''contract_version'', ''attempt_id'', ''intent_id'', ''intent_version'', ''business_id'',
      ''correlation_id'', ''idempotency_key'', ''workflow_version'', ''candidate'', ''candidate_status'',
      ''assets'', ''callback_url'', ''mode'', ''operation'', ''target'', ''approval'', ''scheduled_utc'']"

text \<open>\<open>new Map (candidate.assets.map (a => [a.asset_id, a]))\<close>: a later entry replaces an earlier one.\<close>

definition candidateAssets :: "json \<Rightarrow> string \<Rightarrow> json option" where
  "candidateAssets candidate i =
     map_of (rev (map (\<lambda>a. (jget a ''asset_id'', a)) (jelems (jget candidate ''assets'')))) (JStr i)"

definition dispatch_asset_field :: "nat \<Rightarrow> string \<Rightarrow> string" where
  "dispatch_asset_field i suf = index_field ''dispatch.body.assets'' i suf"

fun dispatch_asset_issues ::
    "js_env \<Rightarrow> json \<Rightarrow> nat \<Rightarrow> string list \<Rightarrow> json list \<Rightarrow> publishing_error_code issue list" where
  "dispatch_asset_issues E candidate i seen [] = []"
| "dispatch_asset_issues E candidate i seen (rawAsset # rest) =
     (if \<not> isRecord rawAsset
      then issue_of PUBLISHING_ASSET_UNAVAILABLE (dispatch_asset_field i '''')
           # dispatch_asset_issues E candidate (Suc i) seen rest
      else
        let assetId = js_String E (jget rawAsset ''asset_id'') in
        ensure
          (case candidateAssets candidate assetId of
             None \<Rightarrow> False
           | Some a \<Rightarrow> assetId \<notin> set seen \<and> isSha256 (jget rawAsset ''checksum'') \<and>
               js_eq (jget a ''checksum'') (jget rawAsset ''checksum'') \<and>
               js_eq (jget a ''mime_type'') (jget rawAsset ''mime_type''))
          PUBLISHING_ASSET_TAMPERED (dispatch_asset_field i ''.checksum'') @
        ensure (isSafeInternalUrl E (jget rawAsset ''retrieval_url'') \<and>
            isIsoDateTime E (jget rawAsset ''retrieval_expires_at''))
          PUBLISHING_ASSET_UNAVAILABLE (dispatch_asset_field i ''.retrieval_url'') @
        dispatch_asset_issues E candidate (Suc i) (assetId # seen) rest)"

definition dispatch_assets_issues :: "js_env \<Rightarrow> json \<Rightarrow> json \<Rightarrow> publishing_error_code issue list" where
  "dispatch_assets_issues E candidate assets =
     (if \<not> isArray assets then [issue_of PUBLISHING_ASSET_UNAVAILABLE ''dispatch.body.assets'']
      else
        ensure (length (jelems assets) = length (jelems (jget candidate ''assets'')))
          PUBLISHING_ASSET_TAMPERED ''dispatch.body.assets'' @
        ensure (\<not> (jget candidate ''content_format'' \<noteq> JStr ''text_post'' \<and> length (jelems assets) = 0))
          PUBLISHING_ASSET_UNAVAILABLE ''dispatch.body.assets'' @
        dispatch_asset_issues E candidate 0 [] (jelems assets))"

definition dispatch_identity_issues :: "js_env \<Rightarrow> json \<Rightarrow> publishing_error_code issue list" where
  "dispatch_identity_issues E v =
     rejectExtraFields v DISPATCH_BODY_FIELDS ''dispatch.body.'' @
     ensure (jget v ''contract_version'' = JStr ''publication-dispatch-v1'')
       PUBLISHING_CONTRACT_UNSUPPORTED ''dispatch.body.contract_version'' @
     ensure_each isUuid v [''attempt_id'', ''intent_id'', ''business_id'', ''correlation_id'']
       PUBLISHING_STATE_CONFLICT ''dispatch.body.'' @
     ensure (isPositiveInteger (jget v ''intent_version'') \<and> isNonEmptyString (jget v ''idempotency_key'') \<and>
         isNonEmptyString (jget v ''workflow_version''))
       PUBLISHING_IDEMPOTENCY_CONFLICT ''dispatch.body.idempotency_key''"

definition dispatch_approval_issues :: "json \<Rightarrow> json \<Rightarrow> publishing_error_code issue list" where
  "dispatch_approval_issues v candidate =
     (let target = jget v ''target''; approval = jget v ''approval'' in
      ensure (agree approval v [(''intent_id'', ''intent_id''), (''intent_version'', ''intent_version'')] \<and>
          agree approval candidate
            [(''candidate_id'', ''candidate_id''), (''candidate_checksum'', ''candidate_checksum'')] \<and>
          agree approval target [(''target_id'', ''target_id'')] \<and>
          agree approval v [(''scheduled_utc'', ''scheduled_utc'')])
        PUBLISHING_STATE_CONFLICT ''dispatch.body.approval'' @
      ensure (js_eq (jget target ''business_id'') (jget v ''business_id'') \<and>
          js_eq (jget target ''channel'') (jget candidate ''target_channel''))
        PUBLISHING_STATE_CONFLICT ''dispatch.body.target'' @
      ensure (jget target ''connection_state'' = JStr ''connected'')
        PUBLISHING_TARGET_UNAUTHORIZED ''dispatch.body.target.connection_state'' @
      ensure (target_can_publish target candidate)
        PUBLISHING_FORMAT_UNSUPPORTED ''dispatch.body.candidate.content_format'')"

text \<open>
  The branch on the mode. In mode real the validators of target and approval end the function
  with their own result (\<open>Inl\<close>); otherwise the branch adds issues (\<open>Inr\<close>).
\<close>

definition dispatch_mode_issues ::
    "js_env \<Rightarrow> json \<Rightarrow> json \<Rightarrow> js_error + (publishing_result + publishing_error_code issue list)" where
  "dispatch_mode_issues E v candidate =
     (let local_ok = (jget v ''target'' = JNull \<and> jget v ''approval'' = JNull \<and> jget v ''scheduled_utc'' = JNull);
          expectedOperation = (if jget candidate ''content_format'' = JStr ''text_post''
            then ''meta.publish_text'' else ''meta.publish_static_image'')
      in if jget v ''mode'' = JStr ''real'' then
           if jget v ''operation'' \<noteq> JStr expectedOperation \<or> jget v ''scheduled_utc'' = JNull
              \<or> jget v ''target'' = JNull \<or> jget v ''approval'' = JNull
           then Inr (Inr [issue_of PUBLISHING_APPROVAL_REQUIRED ''dispatch.body.approval''])
           else
             let targetResult = validatePublishingTargetV1 E (jget v ''target'') in
             if \<not> valid targetResult then Inr (Inl targetResult)
             else throws_bind (validatePublicationApprovalSnapshotV1 E (jget v ''approval'')) (\<lambda>approvalResult.
               if \<not> valid approvalResult then Inr (Inl approvalResult)
               else Inr (Inr (dispatch_approval_issues v candidate)))
         else if jget v ''mode'' = JStr ''manual_export'' then
           Inr (Inr (ensure (jget v ''operation'' = JStr ''manual_export.build'' \<and> local_ok)
             PUBLISHING_STATE_CONFLICT ''dispatch.body.operation''))
         else if jget v ''mode'' = JStr ''simulation'' then
           Inr (Inr (ensure (jget v ''operation'' = JStr ''simulation.run'' \<and> local_ok)
             PUBLISHING_STATE_CONFLICT ''dispatch.body.operation''))
         else Inr (Inr [issue_of PUBLISHING_STATE_CONFLICT ''dispatch.body.mode'']))"

definition validateDispatchBody :: "js_env \<Rightarrow> json \<Rightarrow> js_error + publishing_result" where
  "validateDispatchBody E v =
     (if \<not> isRecord v then Inr (firstIssue PUBLISHING_STATE_CONFLICT ''dispatch.body'')
      else
        let candidate = jget v ''candidate''; status = jget v ''candidate_status'';
            candidateResult = validateCandidateForPublishing E candidate status;
            issues0 = dispatch_identity_issues E v @
              ensure (js_eq (jget candidate ''business_id'') (jget v ''business_id'') \<and>
                  \<not> jnum (jget status ''state_version'') < 1)
                PUBLISHING_CANDIDATE_TAMPERED ''dispatch.body.business_id'' @
              dispatch_assets_issues E candidate (jget v ''assets'') @
              ensure (isSafeInternalUrl E (jget v ''callback_url''))
                PUBLISHING_WEBHOOK_UNAUTHORIZED ''dispatch.body.callback_url''
        in if \<not> valid candidateResult then Inr candidateResult
           else throws_bind (dispatch_mode_issues E v candidate) (\<lambda>m.
             case m of Inl early \<Rightarrow> Inr early | Inr modeIssues \<Rightarrow> Inr (result_of (issues0 @ modeIssues))))"

definition validateSignedPublicationDispatchEnvelopeV1 ::
    "js_env \<Rightarrow> json \<Rightarrow> envelope_context \<Rightarrow> js_error + publishing_result" where
  "validateSignedPublicationDispatchEnvelopeV1 E v ctx =
     throws_bind (validateEnvelopeCommon E v ''publishing-dispatch-envelope-v1'' ctx) (\<lambda>r.
       if \<not> valid r then Inr r else validateDispatchBody E (jget v ''body''))"


section \<open>Callback body\<close>

definition CALLBACK_BODY_FIELDS :: "string list" where
  "CALLBACK_BODY_FIELDS =
     [''contract_version'', ''callback_id'', ''attempt_id'', ''intent_id'', ''intent_version'',
      ''request_fingerprint'', ''workflow_version'', ''result'']"

definition validateCallbackBody :: "js_env \<Rightarrow> json \<Rightarrow> publishing_result" where
  "validateCallbackBody E v =
     (if \<not> isRecord v then firstIssue PUBLISHING_CALLBACK_INVALID ''callback.body''
      else
        let resultValidation = validatePublicationResultV1 E (jget v ''result'') in
        if \<not> valid resultValidation then resultValidation
        else result_of
          (rejectExtraFields v CALLBACK_BODY_FIELDS ''callback.body.'' @
           ensure (jget v ''contract_version'' = JStr ''publication-callback-v1'')
             PUBLISHING_CONTRACT_UNSUPPORTED ''callback.body.contract_version'' @
           ensure_each isUuid v [''callback_id'', ''attempt_id'', ''intent_id'']
             PUBLISHING_CALLBACK_INVALID ''callback.body.'' @
           ensure (isPositiveInteger (jget v ''intent_version'') \<and> isSha256 (jget v ''request_fingerprint'')
               \<and> isNonEmptyString (jget v ''workflow_version''))
             PUBLISHING_CALLBACK_INVALID ''callback.body.request_fingerprint'' @
           ensure (agree (jget v ''result'') v
               [(''attempt_id'', ''attempt_id''), (''intent_id'', ''intent_id''), (''intent_version'', ''intent_version'')])
             PUBLISHING_CALLBACK_INVALID ''callback.body.result.attempt_id''))"

definition validateSignedPublicationCallbackEnvelopeV1 ::
    "js_env \<Rightarrow> json \<Rightarrow> envelope_context \<Rightarrow> js_error + publishing_result" where
  "validateSignedPublicationCallbackEnvelopeV1 E v ctx =
     throws_bind (validateEnvelopeCommon E v ''publishing-callback-envelope-v1'' ctx) (\<lambda>r.
       if \<not> valid r then Inr r else Inr (validateCallbackBody E (jget v ''body'')))"


section \<open>Contexts\<close>

definition dispatch_binds :: "json \<Rightarrow> json \<Rightarrow> json \<Rightarrow> bool" where
  "dispatch_binds envelope intent attempt \<longleftrightarrow>
     (let body = jget envelope ''body'' in
      agree body attempt
        [(''attempt_id'', ''attempt_id''), (''intent_id'', ''intent_id''), (''intent_version'', ''intent_version''),
         (''idempotency_key'', ''idempotency_key''), (''workflow_version'', ''workflow_version'')] \<and>
      agree body intent
        [(''intent_id'', ''intent_id''), (''intent_version'', ''version''), (''mode'', ''mode'')] \<and>
      agree (jget body ''candidate'') intent
        [(''candidate_id'', ''candidate_id''), (''candidate_checksum'', ''candidate_checksum'')] \<and>
      agree attempt envelope [(''request_fingerprint'', ''body_sha256'')])"

definition validatePublicationDispatchContext ::
    "js_env \<Rightarrow> json \<Rightarrow> json \<Rightarrow> json \<Rightarrow> json \<Rightarrow> envelope_context \<Rightarrow> js_error + publishing_result" where
  "validatePublicationDispatchContext E envelope intent attempt candidateRecord ctx =
     throws_bind (validateSignedPublicationDispatchEnvelopeV1 E envelope ctx) (\<lambda>envelopeResult.
       case first_invalid
         [envelopeResult, validatePublicationIntentV1 E intent, validatePublicationAttemptV1 E attempt]
       of Some r \<Rightarrow> Inr r
        | None \<Rightarrow>
            let body = jget envelope ''body'' in
            throws_bind
              (validateAuthoritativePublicationCandidateV1 E candidateRecord
                (jget body ''candidate'') (jget body ''candidate_status''))
              (\<lambda>candidateResult.
                if \<not> valid candidateResult then Inr candidateResult
                else if \<not> dispatch_binds envelope intent attempt
                then Inr (firstIssue PUBLISHING_IDEMPOTENCY_CONFLICT ''dispatch.body.attempt_id'')
                else if jget body ''mode'' = JStr ''real''
                then validateExactPublicationApproval E intent (jget body ''candidate'')
                  (jget body ''candidate_status'') (jget body ''target'') (jget body ''approval'')
                else Inr valid_result))"

definition callback_binds :: "json \<Rightarrow> json \<Rightarrow> bool" where
  "callback_binds body attempt \<longleftrightarrow>
     agree body attempt
       [(''attempt_id'', ''attempt_id''), (''intent_id'', ''intent_id''), (''intent_version'', ''intent_version''),
        (''request_fingerprint'', ''request_fingerprint''), (''workflow_version'', ''workflow_version'')]"

definition validatePublicationCallbackContext ::
    "js_env \<Rightarrow> json \<Rightarrow> json \<Rightarrow> envelope_context \<Rightarrow> js_error + publishing_result" where
  "validatePublicationCallbackContext E envelope attempt ctx =
     throws_bind (validateSignedPublicationCallbackEnvelopeV1 E envelope ctx) (\<lambda>envelopeResult. Inr
       (case first_invalid [envelopeResult, validatePublicationAttemptV1 E attempt] of
          Some r \<Rightarrow> r
        | None \<Rightarrow>
            if \<not> callback_binds (jget envelope ''body'') attempt
            then firstIssue PUBLISHING_CALLBACK_CONFLICT ''callback.body.request_fingerprint''
            else valid_result))"

definition computeDispatchRequestFingerprint :: "js_env \<Rightarrow> json \<Rightarrow> js_error + string" where
  "computeDispatchRequestFingerprint E body = computePublishingSha256 E body"

definition computeCallbackFingerprint :: "js_env \<Rightarrow> json \<Rightarrow> js_error + string" where
  "computeCallbackFingerprint E body = computePublishingSha256 E body"


section \<open>Reading an accepted message\<close>

lemma agree_iff: "agree a b fs \<longleftrightarrow> (\<forall>(f, g) \<in> set fs. js_prim (jget a f) \<and> jget a f = jget b g)"
  by (auto simp: agree_def list_all_iff js_eq_iff)

lemma agree_simps [simp]:
  "agree a b []"
  "agree a b ((f, g) # fs) \<longleftrightarrow> js_eq (jget a f) (jget b g) \<and> agree a b fs"
  by (simp_all add: agree_def)

lemma rejectExtraFields_Nil [simp]: "rejectExtraFields v allowed p = [] \<longleftrightarrow> extraField allowed v = None"
  by (simp add: rejectExtraFields_def split: option.splits)

lemma envelope_valid_D:
  assumes "validateEnvelopeCommon E v c ctx = Inr r" "valid r"
  shows "isRecord v" "jget v ''contract_version'' = JStr c" "envelope_time_ok E v ctx"
    "jstr (jget v ''nonce'') \<notin> set (seen_nonces ctx)" "16 \<le> length (jstr (jget v ''nonce''))"
    "envelope_signature_issues E v ctx = Inr []"
  using assms
  by (auto simp: validateEnvelopeCommon_def throws_bind_Inr_iff envelope_nonce_issues_def split: if_splits)

lemma jstr_sym: "JStr a = jget v k \<longleftrightarrow> jget v k = JStr a"
  by auto

lemma envelope_signature_D:
  assumes "envelope_signature_issues E v ctx = Inr []"
  shows "computePublishingSha256 E (jget v ''body'') = Inr (jstr (jget v ''body_sha256''))"
    "jget v ''key_id'' = JStr (expected_key_id ctx)" "isSha256 (jget v ''body_sha256'')"
    "isPublishingSignatureValid E (envelope_sig_input E v) (jstr (jget v ''signature'')) (secret ctx)"
  using assms
  by (auto simp: envelope_signature_issues_def throws_bind_Inr_iff jstr_sym split: if_splits)

lemma first_invalid_case:
  "valid (case first_invalid rs of Some r \<Rightarrow> r | None \<Rightarrow> v) \<longleftrightarrow> first_invalid rs = None \<and> valid v"
  by (auto split: option.splits dest: first_invalid_SomeD)

lemma valid_if: "valid (if b then x else y) \<longleftrightarrow> (if b then valid x else valid y)"
  by simp

lemma exact_approval_valid_iff:
  "(\<exists>r. validateExactPublicationApproval E intent candidate status target approval = Inr r \<and> valid r) \<longleftrightarrow>
     (\<exists>a. validatePublicationApprovalSnapshotV1 E approval = Inr a \<and> valid a) \<and>
     valid (validatePublicationIntentV1 E intent) \<and> valid (validateCandidateForPublishing E candidate status) \<and>
     valid (validatePublishingTargetV1 E target) \<and> approval_binds intent candidate target approval \<and>
     js_eq (jget target ''business_id'') (jget intent ''business_id'') \<and>
     js_eq (jget candidate ''business_id'') (jget intent ''business_id'') \<and>
     js_eq (jget target ''channel'') (jget candidate ''target_channel'') \<and>
     jget target ''connection_state'' = JStr ''connected'' \<and> target_can_publish target candidate"
proof (cases "validatePublicationApprovalSnapshotV1 E approval")
  case (Inl e)
  then show ?thesis by (simp add: validateExactPublicationApproval_def)
next
  case (Inr a)
  show ?thesis
    unfolding validateExactPublicationApproval_def Inr throws_bind_simps sum.inject
    by (simp only: simp_thms ex_simps first_invalid_case valid_if first_invalid_None_iff valid_simps,
        simp only: set_simps ball_simps bex_simps simp_thms if_bool_eq_conj de_Morgan_disj not_not, blast)
qed

lemma candidate_for_publishing_valid:
  "valid (validateCandidateForPublishing E c s) \<longleftrightarrow> valid (validatePublicationCandidateHandoff E c s)"
  by (simp add: validateCandidateForPublishing_def Let_def split: list.splits)

lemma approval_snapshot_D:
  assumes "validatePublicationApprovalSnapshotV1 E v = Inr a" "valid a"
  shows "isRecord v" "jget v ''mode'' = JStr ''real''" "isPositiveInteger (jget v ''intent_version'')"
    "isCairoSchedulePairConsistent E (jget v ''scheduled_local'') (jget v ''scheduled_utc'')"
    "computePublishingSha256 E (without_field ''approval_fingerprint'' v)
      = Inr (jstr (jget v ''approval_fingerprint''))"
proof -
  show r: "isRecord v"
    using assms by (cases "isRecord v") (auto simp: validatePublicationApprovalSnapshotV1_def)
  have sched: "approval_schedule_issues E v = []" and fp: "approval_fingerprint_issues E v = Inr []"
    and n: "isPositiveInteger (jget v ''intent_version'')"
    using assms r by (auto simp: validatePublicationApprovalSnapshotV1_def throws_bind_Inr_iff)
  show "isPositiveInteger (jget v ''intent_version'')" by (rule n)
  show "jget v ''mode'' = JStr ''real''"
    "isCairoSchedulePairConsistent E (jget v ''scheduled_local'') (jget v ''scheduled_utc'')"
    using sched by (simp_all add: approval_schedule_issues_def split: if_splits)
  show "computePublishingSha256 E (without_field ''approval_fingerprint'' v)
      = Inr (jstr (jget v ''approval_fingerprint''))"
    using fp
    by (auto simp: approval_fingerprint_issues_def isPublicationApprovalFingerprintValid_def
        computePublicationApprovalFingerprint_def throws_bind_Inr_iff jstr_sym split: if_splits)
qed

end
