(* ===== verification/Pub_Binding.thy ===== *)
theory Pub_Binding
  imports Pub_Envelope Candidate_History
begin

text \<open>
  What an accepted publishing message binds: the properties of the validators of Pub_Policy and
  Pub_Envelope, with sample documents for the witnesses.
\<close>


section \<open>Sample documents\<close>

definition sample_local :: string where "sample_local = ''2026-08-01T12:00:00''"

lemma sample_civil: "civil_of 1785585600000
    = \<lparr>c_year = 2026, c_month = 8, c_day = 1, c_hour = 12, c_minute = 0, c_second = 0, c_ms = 0\<rparr>"
  by code_simp

lemma sample_wall_clock: "wall_clock 7200000 1785578400000 = sample_local"
  unfolding wall_clock_def sample_local_def by (simp add: sample_civil) code_simp

lemma sample_local_ok: "isLocalDateTime (JStr sample_local)"
  unfolding sample_local_def by code_simp

lemma sample_iso: "isIsoDateTime sample_env (JStr sample_at)" "isIsoDateTime sample_env (JStr sample_later)"
  by simp_all

lemma sample_schedule: "isCairoSchedulePairConsistent sample_env (JStr sample_local) (JStr sample_at)"
  by (simp add: isCairoSchedulePairConsistent_def sample_local_ok [simplified] sample_iso [simplified]
      date_ms_def sample_wall_clock)

definition u1 :: json where "u1 = JStr (sample_uuid (CHR ''1''))"
definition u2 :: json where "u2 = JStr (sample_uuid (CHR ''2''))"
definition u3 :: json where "u3 = JStr (sample_uuid (CHR ''3''))"
definition u4 :: json where "u4 = JStr (sample_uuid (CHR ''4''))"
definition u5 :: json where "u5 = JStr (sample_uuid (CHR ''5''))"

lemma sample_ids [simp]: "isUuid u1" "isUuid u2" "isUuid u3" "isUuid u4" "isUuid u5"
  by (simp_all add: u1_def u2_def u3_def u4_def u5_def)

lemma sample_ids_prim [simp]: "js_prim u1" "js_prim u2" "js_prim u3" "js_prim u4" "js_prim u5"
  by (simp_all add: u1_def u2_def u3_def u4_def u5_def)

definition sample_target :: json where
  "sample_target = JObj
     [(''contract_version'', JStr ''publishing-target-v1''), (''target_id'', u4), (''version'', JNum 1),
      (''business_id'', u2), (''provider'', JStr ''meta''), (''channel'', JStr ''facebook''),
      (''external_account_id'', JStr ''page''), (''display_name'', JStr ''Bakery''),
      (''connection_state'', JStr ''connected''), (''credential_ref'', JStr ''ref''),
      (''capabilities'', JArr [JStr ''static_image'']), (''last_verified_at'', JNull)]"

definition sample_intent :: json where
  "sample_intent = JObj
     [(''contract_version'', JStr ''publication-intent-v1''), (''intent_id'', u3), (''version'', JNum 2),
      (''business_id'', u2), (''candidate_id'', u1), (''candidate_checksum'', JStr sample_sha),
      (''mode'', JStr ''real''), (''target_id'', u4), (''scheduled_local'', JStr sample_local),
      (''time_zone'', JStr ''Africa/Cairo''), (''scheduled_utc'', JStr sample_at),
      (''state'', JStr ''scheduled''), (''approved_decision_id'', u5), (''created_by_user_id'', u5),
      (''created_at'', JStr sample_at), (''updated_at'', JStr sample_at)]"

definition sample_approval :: json where
  "sample_approval = JObj
     [(''contract_version'', JStr ''publication-approval-v1''), (''decision_id'', u5), (''intent_id'', u3),
      (''intent_version'', JNum 2), (''candidate_id'', u1), (''candidate_checksum'', JStr sample_sha),
      (''mode'', JStr ''real''), (''target_id'', u4), (''scheduled_local'', JStr sample_local),
      (''time_zone'', JStr ''Africa/Cairo''), (''scheduled_utc'', JStr sample_at),
      (''decided_by_user_id'', u5), (''decided_at'', JStr sample_at), (''approval_fingerprint'', JStr sample_sha)]"

lemmas publishing_vocabulary =
  PUBLISHING_MODES_def PUBLICATION_INTENT_STATES_def PUBLICATION_ATTEMPT_STATES_def
  PUBLISHING_TARGET_CONNECTION_STATES_def PUBLISHING_CAPABILITIES_def PUBLISHING_ERROR_CODES_def

lemma sample_target_valid: "valid (validatePublishingTargetV1 sample_env sample_target)"
proof -
  have "extraField TARGET_FIELDS sample_target = None"
    by (simp add: sample_target_def extraField_def extra_fields_def TARGET_FIELDS_def)
  then show ?thesis
    by (simp add: validatePublishingTargetV1_def target_issues_def)
      (simp add: sample_target_def publishing_vocabulary isPositiveInteger_def target_capabilities_ok_def js_space_def)
qed

lemma sample_intent_valid: "valid (validatePublicationIntentV1 sample_env sample_intent)"
proof -
  have x: "extraField INTENT_FIELDS sample_intent = None"
    by (simp add: sample_intent_def extraField_def extra_fields_def INTENT_FIELDS_def)
  have s: "intent_schedule_issues sample_env sample_intent = []"
    by (simp add: intent_schedule_issues_def completeRealSchedule_def)
      (simp add: sample_intent_def sample_schedule sample_iso [simplified] sample_local_ok [simplified])
  have a: "intent_approval_issues sample_env sample_intent = []"
    by (simp add: intent_approval_issues_def) (simp add: sample_intent_def)
  have t: "intent_times_issues sample_env sample_intent = []"
    by (simp add: intent_times_issues_def) (simp add: sample_intent_def)
  show ?thesis
    by (simp add: validatePublicationIntentV1_def x s a t)
      (simp add: sample_intent_def publishing_vocabulary isPositiveInteger_def)
qed

lemma sample_approval_wf: "jwf (without_field ''approval_fingerprint'' sample_approval)"
  by (simp add: sample_approval_def u1_def u2_def u3_def u4_def u5_def)

lemma sample_approval_valid:
  "\<exists>a. validatePublicationApprovalSnapshotV1 sample_env sample_approval = Inr a \<and> valid a"
proof -
  have x: "extraField APPROVAL_FIELDS sample_approval = None"
    by (simp add: sample_approval_def extraField_def extra_fields_def APPROVAL_FIELDS_def)
  have fp: "approval_fingerprint_issues sample_env sample_approval = Inr []"
    by (simp add: approval_fingerprint_issues_def isPublicationApprovalFingerprintValid_def
        computePublicationApprovalFingerprint_def computePublishingSha256_wf [OF sample_approval_wf])
      (simp add: sample_approval_def)
  have s: "approval_schedule_issues sample_env sample_approval = []"
    by (simp add: approval_schedule_issues_def)
      (simp add: sample_approval_def sample_schedule sample_iso [simplified] sample_local_ok [simplified])
  show ?thesis
    by (simp add: validatePublicationApprovalSnapshotV1_def x fp s)
      (simp add: sample_approval_def isPositiveInteger_def)
qed

lemma sample_candidate_fields:
  "jget sample_candidate ''candidate_id'' = u1" "jget sample_candidate ''business_id'' = u2"
  "jget sample_candidate ''candidate_checksum'' = JStr sample_sha"
  "jget sample_candidate ''target_channel'' = JStr ''facebook''"
  "jget sample_candidate ''content_format'' = JStr ''static_image_post''"
  by (simp_all add: sample_candidate_def candidate_doc_def u1_def u2_def)

lemma sample_exact_approval:
  "validateExactPublicationApproval sample_env sample_intent sample_candidate sample_status sample_target sample_approval
    = Inr valid_result"
proof -
  have b: "approval_binds sample_intent sample_candidate sample_target sample_approval"
    by (simp add: approval_binds_def sample_candidate_fields js_eq_iff)
      (simp add: sample_intent_def sample_target_def sample_approval_def)
  have c: "target_can_publish sample_target sample_candidate"
    by (simp add: target_can_publish_def requiredCapability_def sample_candidate_fields) (simp add: sample_target_def)
  have f: "first_invalid [validatePublicationIntentV1 sample_env sample_intent,
      validateCandidateForPublishing sample_env sample_candidate sample_status,
      validatePublishingTargetV1 sample_env sample_target, a] = None" if "valid a" for a
    using that sample_target_valid sample_intent_valid sample_handoff
    by (simp add: candidate_for_publishing_valid)
  show ?thesis
    using sample_approval_valid b c f
    by (auto simp: validateExactPublicationApproval_def sample_candidate_fields js_eq_iff
        sample_target_def sample_intent_def)
qed

definition sample_result :: json where
  "sample_result = JObj
     [(''contract_version'', JStr ''publication-result-v1''), (''result_id'', u5), (''attempt_id'', u4),
      (''intent_id'', u3), (''intent_version'', JNum 2), (''mode'', JStr ''real''),
      (''outcome'', JStr ''published''), (''provider'', JStr ''meta''), (''remote_publication_id'', JStr ''p1''),
      (''remote_url'', JNull), (''export_artifact_id'', JNull), (''simulation_reference_id'', JNull),
      (''simulation_label'', JNull), (''error_code'', JNull), (''retryable'', JBool False),
      (''reconciliation_required'', JBool False), (''occurred_at'', JStr sample_at)]"

lemma sample_result_valid: "valid (validatePublicationResultV1 sample_env sample_result)"
proof -
  have x: "extraField RESULT_FIELDS sample_result = None"
    by (simp add: sample_result_def extraField_def extra_fields_def RESULT_FIELDS_def)
  have o: "result_outcome_issues sample_result = []"
    by (simp add: result_outcome_issues_def Let_def published_ok_def noArtifact_def noSimulation_def
        commonSuccess_def) (simp add: sample_result_def js_space_def)
  show ?thesis
    by (simp add: validatePublicationResultV1_def x o) (simp add: sample_result_def isPositiveInteger_def)
qed

end
