(* ===== verification/Pub_Claims.thy ===== *)
theory Pub_Claims
  imports Pub_Binding
begin

text \<open>
  Properties of the publishing contract: what an accepted approval, dispatch message, callback
  and result imply, each with its witness.
\<close>


section \<open>Approvals\<close>



lemma approval_binds_fields:
  assumes "approval_binds intent c t a" "approval_binds intent' c t a"
  shows "js_eq (jget intent ''candidate_id'') (jget intent' ''candidate_id'')"
    "js_eq (jget intent ''candidate_checksum'') (jget intent' ''candidate_checksum'')"
    "js_eq (jget intent ''mode'') (jget intent' ''mode'')"
    "js_eq (jget intent ''target_id'') (jget intent' ''target_id'')"
    "js_eq (jget intent ''scheduled_local'') (jget intent' ''scheduled_local'')"
    "js_eq (jget intent ''time_zone'') (jget intent' ''time_zone'')"
    "js_eq (jget intent ''scheduled_utc'') (jget intent' ''scheduled_utc'')"
  using assms unfolding approval_binds_def agree_simps js_eq_iff by (elim conjE; simp)+

text \<open>
  An approval does not survive an edit: if the intent is changed in any of the seven fields
  that require a new approval, the approval that was exact for the old intent is not exact for
  the new one, whatever its version.
\<close>

theorem edit_invalidates_approval:
  assumes "validateExactPublicationApproval E intent candidate status target approval = Inr r" "valid r"
    and "requiresPublicationApprovalInvalidation intent intent'"
    and "validateExactPublicationApproval E intent' candidate status target approval = Inr r'"
  shows "\<not> valid r'"
proof
  assume "valid r'"
  have b: "approval_binds intent candidate target approval" "approval_binds intent' candidate target approval"
    using exact_approval_valid_iff [THEN iffD1, OF exI, OF conjI [OF assms(1,2)]]
      exact_approval_valid_iff [THEN iffD1, OF exI, OF conjI [OF assms(4) \<open>valid r'\<close>]] by blast+
  have "list_all (\<lambda>f. js_eq (jget intent f) (jget intent' f))
      [''candidate_id'', ''candidate_checksum'', ''mode'', ''target_id'', ''scheduled_local'',
       ''time_zone'', ''scheduled_utc'']"
    by (simp add: approval_binds_fields [OF b])
  then show False using assms(3) by (simp only: requiresPublicationApprovalInvalidation_def not_True_eq_False)
qed

definition rescheduled_intent :: json where
  "rescheduled_intent = jset ''scheduled_utc'' (JStr sample_later) sample_intent"

lemma sample_dates_differ: "sample_at \<noteq> sample_later"
proof
  assume "sample_at = sample_later"
  then have "Some (1785578400000 :: int) = Some 1785585600000"
    using sample_at_parse sample_later_parse by (simp only:)
  then show False by simp
qed

theorem edit_invalidates_approval_witness:
  "\<not> (\<exists>r'. validateExactPublicationApproval sample_env rescheduled_intent sample_candidate sample_status
      sample_target sample_approval = Inr r' \<and> valid r')"
proof -
  have "requiresPublicationApprovalInvalidation sample_intent rescheduled_intent"
    using sample_dates_differ
    by (simp add: requiresPublicationApprovalInvalidation_def rescheduled_intent_def) (simp add: sample_intent_def)
  then show ?thesis using edit_invalidates_approval [OF sample_exact_approval valid_simps(3)] by blast
qed

text \<open>
  The approval fingerprint binds the approved action: two accepted approvals with the same
  fingerprint are the same document, property order aside, or exhibit a SHA-256 collision.
\<close>

theorem approval_fingerprint_binds:
  assumes "num_ok E" "jwf a" "jwf b"
    and "validatePublicationApprovalSnapshotV1 E a = Inr ra" "valid ra"
    and "validatePublicationApprovalSnapshotV1 E b = Inr rb" "valid rb"
    and "jget a ''approval_fingerprint'' = jget b ''approval_fingerprint''"
  shows "canon (without_field ''approval_fingerprint'' a) = canon (without_field ''approval_fingerprint'' b)
    \<or> sha_collision E (without_field ''approval_fingerprint'' a) (without_field ''approval_fingerprint'' b)"
proof -
  have wf: "jwf v \<Longrightarrow> jwf (without_field k v)" for v k
    by (cases v) (auto simp: list_all_iff intro: distinct_map_filter)
  show ?thesis
    by (rule same_digest [OF assms(1) wf [OF assms(2)] wf [OF assms(3)]])
      (simp only: approval_snapshot_D(5) [OF assms(4,5)] approval_snapshot_D(5) [OF assms(6,7)] assms(8))
qed

theorem approval_fingerprint_binds_witness:
  "canon (without_field ''approval_fingerprint'' sample_approval) = canon (without_field ''approval_fingerprint'' sample_approval)
   \<or> sha_collision sample_env (without_field ''approval_fingerprint'' sample_approval) (without_field ''approval_fingerprint'' sample_approval)"
proof -
  have "jwf sample_approval" by (simp add: sample_approval_def u1_def u2_def u3_def u4_def u5_def)
  then show ?thesis
    using sample_approval_valid approval_fingerprint_binds [OF sample_env_num_ok] by blast
qed


section \<open>Results\<close>

text \<open>
  The claims of an accepted result: a remote publication is claimed exactly by the outcome
  published, an export artifact exactly by exported, a simulation reference exactly by
  simulated, and reconciliation exactly by unknown; published is a real Meta publication.
\<close>

theorem result_claims_exclusive:
  assumes "valid (validatePublicationResultV1 E v)"
  shows "(jget v ''remote_publication_id'' \<noteq> JNull \<longleftrightarrow> jget v ''outcome'' = JStr ''published'')
    \<and> (jget v ''export_artifact_id'' \<noteq> JNull \<longleftrightarrow> jget v ''outcome'' = JStr ''exported'')
    \<and> (jget v ''simulation_reference_id'' \<noteq> JNull \<longleftrightarrow> jget v ''outcome'' = JStr ''simulated'')
    \<and> (jget v ''reconciliation_required'' = JBool True \<longleftrightarrow> jget v ''outcome'' = JStr ''unknown'')
    \<and> (jget v ''outcome'' = JStr ''published'' \<longrightarrow> jget v ''mode'' = JStr ''real'' \<and> jget v ''provider'' = JStr ''meta'')"
proof -
  have r: "result_outcome_issues v = []"
    using assms by (simp add: validatePublicationResultV1_def split: if_splits)
  consider (published) "jget v ''outcome'' = JStr ''published''" "published_ok v"
    | (exported) "jget v ''outcome'' = JStr ''exported''" "exported_ok v"
    | (simulated) "jget v ''outcome'' = JStr ''simulated''" "simulated_ok v"
    | (unknown) "jget v ''outcome'' = JStr ''unknown''" "unknown_ok v"
    | (failed) "jget v ''outcome'' = JStr ''failed''" "failed_ok v"
    | (cancelled) "jget v ''outcome'' = JStr ''cancelled''" "cancelled_ok v"
    using r by (auto simp: result_outcome_issues_def Let_def split: if_splits)
  then show ?thesis
    by cases (auto simp: published_ok_def exported_ok_def simulated_ok_def unknown_ok_def failed_ok_def
        cancelled_ok_def emptyRemote_def noArtifact_def noSimulation_def commonSuccess_def unlabelled_def)
qed

theorem result_claims_exclusive_witness:
  "jget sample_result ''remote_publication_id'' \<noteq> JNull \<and> jget sample_result ''export_artifact_id'' = JNull"
  using result_claims_exclusive [OF sample_result_valid] by (simp add: sample_result_def)

end
