(* ===== verification/Pub_Messages.thy ===== *)
theory Pub_Messages
  imports Pub_Binding
begin

text \<open>
  Properties of the signed messages: what an accepted dispatch or callback binds, and the one
  shape of input on which the envelope validator throws instead of returning an issue.
\<close>


section \<open>Reading the contexts\<close>

lemma signed_dispatch_D:
  assumes "validateSignedPublicationDispatchEnvelopeV1 E v ctx = Inr r" "valid r"
  shows "\<exists>e. validateEnvelopeCommon E v ''publishing-dispatch-envelope-v1'' ctx = Inr e \<and> valid e"
    "validateDispatchBody E (jget v ''body'') = Inr r"
  using assms by (auto simp: validateSignedPublicationDispatchEnvelopeV1_def throws_bind_Inr_iff split: if_splits)

lemma signed_callback_D:
  assumes "validateSignedPublicationCallbackEnvelopeV1 E v ctx = Inr r" "valid r"
  shows "\<exists>e. validateEnvelopeCommon E v ''publishing-callback-envelope-v1'' ctx = Inr e \<and> valid e"
    "validateCallbackBody E (jget v ''body'') = r"
  using assms by (auto simp: validateSignedPublicationCallbackEnvelopeV1_def throws_bind_Inr_iff split: if_splits)

lemma first_invalid_done:
  "(case first_invalid rs of Some r \<Rightarrow> f r | None \<Rightarrow> w) = f r \<Longrightarrow> valid r \<Longrightarrow> inj f \<Longrightarrow> first_invalid rs = None"
  by (cases "first_invalid rs") (auto dest: first_invalid_SomeD injD simp del: first_invalid_None_iff)

lemma dispatch_context_D:
  assumes "validatePublicationDispatchContext E envelope intent attempt rec ctx = Inr r" "valid r"
  shows "\<exists>e. validateSignedPublicationDispatchEnvelopeV1 E envelope ctx = Inr e \<and> valid e"
    "valid (validatePublicationAttemptV1 E attempt)"
    "\<exists>c. validateAuthoritativePublicationCandidateV1 E rec (jget (jget envelope ''body'') ''candidate'')
        (jget (jget envelope ''body'') ''candidate_status'') = Inr c \<and> valid c"
    "dispatch_binds envelope intent attempt"
    "jget (jget envelope ''body'') ''mode'' = JStr ''real'' \<Longrightarrow>
      validateExactPublicationApproval E intent (jget (jget envelope ''body'') ''candidate'')
        (jget (jget envelope ''body'') ''candidate_status'') (jget (jget envelope ''body'') ''target'')
        (jget (jget envelope ''body'') ''approval'') = Inr r"
proof -
  let ?body = "jget envelope ''body''"
  obtain e where e: "validateSignedPublicationDispatchEnvelopeV1 E envelope ctx = Inr e"
    using assms(1) by (auto simp: validatePublicationDispatchContext_def throws_bind_Inr_iff)
  have n: "first_invalid [e, validatePublicationIntentV1 E intent, validatePublicationAttemptV1 E attempt] = None"
    by (rule first_invalid_done [OF _ assms(2)])
      (use assms(1) in \<open>auto simp: validatePublicationDispatchContext_def e simp del: first_invalid.simps\<close>)
  note raw = assms(1) [unfolded validatePublicationDispatchContext_def e throws_bind_simps n option.case Let_def]
  show "\<exists>e. validateSignedPublicationDispatchEnvelopeV1 E envelope ctx = Inr e \<and> valid e"
    "valid (validatePublicationAttemptV1 E attempt)"
    using e n unfolding first_invalid_None_iff by simp_all
  obtain c where c: "validateAuthoritativePublicationCandidateV1 E rec (jget ?body ''candidate'') (jget ?body ''candidate_status'') = Inr c"
    using raw unfolding throws_bind_Inr_iff by blast
  note raw1 = raw [unfolded c throws_bind_simps]
  have vc: "valid c" using raw1 assms(2) by (cases "valid c") simp_all
  then show "\<exists>c. validateAuthoritativePublicationCandidateV1 E rec (jget ?body ''candidate'')
      (jget ?body ''candidate_status'') = Inr c \<and> valid c" using c by blast
  show b: "dispatch_binds envelope intent attempt"
    using raw1 assms(2) vc by (cases "dispatch_binds envelope intent attempt") auto
  show "jget ?body ''mode'' = JStr ''real'' \<Longrightarrow> validateExactPublicationApproval E intent (jget ?body ''candidate'')
      (jget ?body ''candidate_status'') (jget ?body ''target'') (jget ?body ''approval'') = Inr r"
    using raw1 vc b by simp
qed

lemma callback_context_D:
  assumes "validatePublicationCallbackContext E envelope attempt ctx = Inr r" "valid r"
  shows "\<exists>e. validateSignedPublicationCallbackEnvelopeV1 E envelope ctx = Inr e \<and> valid e"
    "valid (validatePublicationAttemptV1 E attempt)" "callback_binds (jget envelope ''body'') attempt"
proof -
  obtain e where e: "validateSignedPublicationCallbackEnvelopeV1 E envelope ctx = Inr e"
    using assms(1) by (auto simp: validatePublicationCallbackContext_def throws_bind_Inr_iff)
  have n: "first_invalid [e, validatePublicationAttemptV1 E attempt] = None"
    by (rule first_invalid_done [where f = "\<lambda>x. x", OF _ assms(2)])
      (use assms(1) in \<open>auto simp: validatePublicationCallbackContext_def e simp del: first_invalid.simps\<close>)
  then show "\<exists>e. validateSignedPublicationCallbackEnvelopeV1 E envelope ctx = Inr e \<and> valid e"
    "valid (validatePublicationAttemptV1 E attempt)"
    using e unfolding first_invalid_None_iff by simp_all
  show "callback_binds (jget envelope ''body'') attempt"
    using assms unfolding validatePublicationCallbackContext_def e throws_bind_simps n option.case
    by (cases "callback_binds (jget envelope ''body'') attempt") auto
qed

lemma callback_body_D:
  assumes "valid (validateCallbackBody E v)"
  shows "isRecord v" "valid (validatePublicationResultV1 E (jget v ''result''))" "isUuid (jget v ''callback_id'')"
    "isUuid (jget v ''attempt_id'')"
    "jget (jget v ''result'') ''attempt_id'' = jget v ''attempt_id''"
    "jget (jget v ''result'') ''intent_id'' = jget v ''intent_id''"
    "jget (jget v ''result'') ''intent_version'' = jget v ''intent_version''"
  using assms by (auto simp: validateCallbackBody_def Let_def js_eq_iff split: if_splits)


section \<open>Sample messages\<close>

definition sample_attempt :: json where
  "sample_attempt = JObj
     [(''contract_version'', JStr ''publication-attempt-v1''), (''attempt_id'', u4), (''intent_id'', u3),
      (''intent_version'', JNum 2), (''attempt_number'', JNum 1), (''idempotency_key'', JStr ''k''),
      (''workflow_version'', JStr ''w1''), (''request_fingerprint'', JStr sample_sha),
      (''state'', JStr ''queued''), (''started_at'', JNull), (''finished_at'', JNull),
      (''created_at'', JStr sample_at)]"

definition sample_dispatch_body :: json where
  "sample_dispatch_body = JObj
     [(''contract_version'', JStr ''publication-dispatch-v1''), (''attempt_id'', u4), (''intent_id'', u3),
      (''intent_version'', JNum 2), (''business_id'', u2), (''correlation_id'', u5),
      (''idempotency_key'', JStr ''k''), (''workflow_version'', JStr ''w1''),
      (''candidate'', sample_candidate), (''candidate_status'', sample_status),
      (''assets'', JArr [JObj [(''asset_id'', JStr ''a1''), (''mime_type'', JStr ''image/png''),
         (''checksum'', JStr sample_sha), (''retrieval_url'', JStr ''u''), (''retrieval_expires_at'', JStr sample_at)]]),
      (''callback_url'', JStr ''c''), (''mode'', JStr ''real''), (''operation'', JStr ''meta.publish_static_image''),
      (''target'', sample_target), (''approval'', sample_approval), (''scheduled_utc'', JStr sample_at)]"

definition sample_envelope :: "string \<Rightarrow> json \<Rightarrow> json" where
  "sample_envelope c body = JObj
     [(''contract_version'', JStr c), (''message_id'', u5), (''sent_at'', JStr sample_at),
      (''nonce'', JStr ''nonce-0123456789''), (''key_id'', JStr ''key''),
      (''signature_algorithm'', JStr ''hmac-sha256''), (''body_sha256'', JStr sample_sha),
      (''signature'', JStr sample_sha), (''body'', body)]"

definition sample_context :: envelope_context where
  "sample_context = \<lparr>secret = ''s'', expected_key_id = ''key'', now_iso = sample_at, seen_nonces = []\<rparr>"

lemma sample_envelope_signed:
  assumes "jwf body"
  shows "envelope_signature_issues sample_env (sample_envelope c body) sample_context = Inr []"
proof -
  have "computePublishingSha256 sample_env body = Inr sample_sha"
    using assms by (simp add: computePublishingSha256_wf)
  then show ?thesis
    by (simp add: envelope_signature_issues_def)
      (simp add: sample_envelope_def sample_context_def isPublishingSignatureValid_def
        computePublishingSignature_def js_space_def)
qed

lemma sample_envelope_valid:
  assumes "jwf body"
  shows "\<exists>e. validateEnvelopeCommon sample_env (sample_envelope c body) c sample_context = Inr e \<and> valid e"
proof -
  have x: "extraField ENVELOPE_FIELDS (sample_envelope c body) = None"
    by (simp add: sample_envelope_def extraField_def extra_fields_def ENVELOPE_FIELDS_def)
  have t: "envelope_time_ok sample_env (sample_envelope c body) sample_context"
    by (simp add: envelope_time_ok_def sample_envelope_def sample_context_def PUBLISHING_SIGNATURE_TOLERANCE_SECONDS_def)
  have n: "envelope_nonce_issues (sample_envelope c body) sample_context = []"
    by (simp add: envelope_nonce_issues_def sample_envelope_def sample_context_def js_space_def)
  show ?thesis
    by (simp add: validateEnvelopeCommon_def sample_envelope_signed [OF assms] x t n)
      (simp add: sample_envelope_def)
qed

lemma sample_attempt_valid: "valid (validatePublicationAttemptV1 sample_env sample_attempt)"
proof -
  have x: "extraField ATTEMPT_FIELDS sample_attempt = None"
    by (simp add: sample_attempt_def extraField_def extra_fields_def ATTEMPT_FIELDS_def)
  have l: "attempt_lifecycle_ok sample_env sample_attempt"
    by (simp add: attempt_lifecycle_ok_def sample_attempt_def)
  show ?thesis
    by (simp add: validatePublicationAttemptV1_def x l)
      (simp add: sample_attempt_def publishing_vocabulary isPositiveInteger_def js_space_def)
qed

lemma sample_candidate_assets:
  "jget sample_candidate ''assets'' = JArr [JObj [(''asset_id'', JStr ''a1''), (''kind'', JStr ''owner_supplied''),
     (''mime_type'', JStr ''image/png''), (''storage_key'', JStr ''k1''), (''checksum'', JStr sample_sha)]]"
  by (simp add: sample_candidate_def candidate_doc_def)

lemma sample_body_fields:
  "jget sample_dispatch_body ''candidate'' = sample_candidate"
  "jget sample_dispatch_body ''candidate_status'' = sample_status"
  "jget sample_dispatch_body ''target'' = sample_target" "jget sample_dispatch_body ''approval'' = sample_approval"
  "jget sample_dispatch_body ''mode'' = JStr ''real''" "jget sample_dispatch_body ''scheduled_utc'' = JStr sample_at"
  "jget sample_dispatch_body ''operation'' = JStr ''meta.publish_static_image''"
  "jget sample_dispatch_body ''intent_id'' = u3" "jget sample_dispatch_body ''intent_version'' = JNum 2"
  "jget sample_dispatch_body ''business_id'' = u2" "jget sample_dispatch_body ''attempt_id'' = u4"
  "jget sample_dispatch_body ''idempotency_key'' = JStr ''k''"
  "jget sample_dispatch_body ''workflow_version'' = JStr ''w1''" "isRecord sample_dispatch_body"
  by (simp_all add: sample_dispatch_body_def)

lemma sample_dispatch_body_wf: "jwf sample_dispatch_body"
  using sample_documents_wf
  by (simp add: sample_dispatch_body_def u1_def u2_def u3_def u4_def u5_def sample_target_def sample_approval_def)

lemma sample_mode_issues: "dispatch_mode_issues sample_env sample_dispatch_body sample_candidate = Inr (Inr [])"
proof -
  have a: "sample_target \<noteq> JNull" "sample_approval \<noteq> JNull"
    by (simp_all add: sample_target_def sample_approval_def)
  have c: "target_can_publish sample_target sample_candidate"
    by (simp add: target_can_publish_def requiredCapability_def sample_candidate_fields) (simp add: sample_target_def)
  have d: "dispatch_approval_issues sample_dispatch_body sample_candidate = []"
    by (simp add: dispatch_approval_issues_def Let_def sample_body_fields sample_candidate_fields c js_eq_iff)
      (simp add: sample_approval_def sample_target_def)
  show ?thesis
    using sample_approval_valid a d
    by (auto simp: dispatch_mode_issues_def Let_def sample_body_fields sample_candidate_fields sample_target_valid)
qed

lemma sample_dispatch_body_valid: "validateDispatchBody sample_env sample_dispatch_body = Inr valid_result"
proof -
  have i: "dispatch_identity_issues sample_env sample_dispatch_body = []"
    by (simp add: dispatch_identity_issues_def extraField_def extra_fields_def DISPATCH_BODY_FIELDS_def)
      (simp add: sample_dispatch_body_def isPositiveInteger_def js_space_def)
  have s: "dispatch_assets_issues sample_env sample_candidate (jget sample_dispatch_body ''assets'') = []"
    by (simp add: dispatch_assets_issues_def sample_candidate_assets sample_candidate_fields sample_dispatch_body_def
        candidateAssets_def isSafeInternalUrl_def js_space_def)
  have u: "isSafeInternalUrl sample_env (jget sample_dispatch_body ''callback_url'')"
    by (simp add: isSafeInternalUrl_def sample_dispatch_body_def js_space_def)
  have v: "jnum (jget sample_status ''state_version'') = 1"
    by (simp add: sample_status_def status_doc_fields)
  have h: "valid (validateCandidateForPublishing sample_env sample_candidate sample_status)"
    by (simp add: candidate_for_publishing_valid sample_handoff)
  show ?thesis
    by (simp add: validateDispatchBody_def Let_def sample_body_fields sample_mode_issues i s u v h
        sample_candidate_fields js_eq_iff result_of_def valid_result_def)
qed

definition sample_dispatch :: json where
  "sample_dispatch = sample_envelope ''publishing-dispatch-envelope-v1'' sample_dispatch_body"

lemma sample_dispatch_accepted:
  "validatePublicationDispatchContext sample_env sample_dispatch sample_intent sample_attempt sample_record sample_context
    = Inr valid_result"
proof -
  have b: "jget sample_dispatch ''body'' = sample_dispatch_body" "jget sample_dispatch ''body_sha256'' = JStr sample_sha"
    by (simp_all add: sample_dispatch_def sample_envelope_def)
  have s: "validateSignedPublicationDispatchEnvelopeV1 sample_env sample_dispatch sample_context = Inr valid_result"
    using sample_envelope_valid [OF sample_dispatch_body_wf, of "''publishing-dispatch-envelope-v1''"]
    by (auto simp: validateSignedPublicationDispatchEnvelopeV1_def b sample_dispatch_body_valid sample_dispatch_def [symmetric])
  have d: "dispatch_binds sample_dispatch sample_intent sample_attempt"
    by (simp add: dispatch_binds_def Let_def b sample_body_fields sample_candidate_fields js_eq_iff)
      (simp add: sample_intent_def sample_attempt_def)
  show ?thesis
    by (simp add: validatePublicationDispatchContext_def s sample_intent_valid sample_attempt_valid Let_def b
        sample_body_fields sample_authoritative d sample_exact_approval)
qed


section \<open>Dispatch\<close>

text \<open>
  C10. Dispatch soundness: when the dispatch context is accepted, the body is the one the stored
  attempt was fingerprinted with, it is signed with the shared secret, was sent within five
  minutes of now with a nonce not seen before, it names the stored attempt and the current
  version of the stored intent, the stored candidate record is active, and in mode real the
  approval in the body is the decision the intent names, for a connected target.
\<close>

theorem dispatch_context_sound:
  assumes "validatePublicationDispatchContext E envelope intent attempt rec ctx = Inr r" "valid r"
  shows "(\<exists>d. computePublishingSha256 E (jget envelope ''body'') = Inr d
        \<and> jget attempt ''request_fingerprint'' = JStr d)
    \<and> isPublishingSignatureValid E (envelope_sig_input E envelope) (jstr (jget envelope ''signature'')) (secret ctx)
    \<and> \<bar>date_ms E (JStr (now_iso ctx)) - date_ms E (jget envelope ''sent_at'')\<bar> \<le> 300000
    \<and> jstr (jget envelope ''nonce'') \<notin> set (seen_nonces ctx)
    \<and> jget attempt ''attempt_id'' = jget (jget envelope ''body'') ''attempt_id''
    \<and> jget intent ''intent_id'' = jget (jget envelope ''body'') ''intent_id''
    \<and> jget intent ''version'' = jget (jget envelope ''body'') ''intent_version''
    \<and> jget rec ''source_state'' = JStr ''active''
    \<and> (jget (jget envelope ''body'') ''mode'' = JStr ''real'' \<longrightarrow>
        jget intent ''approved_decision_id'' = jget (jget (jget envelope ''body'') ''approval'') ''decision_id''
        \<and> jget (jget (jget envelope ''body'') ''target'') ''connection_state'' = JStr ''connected'')"
proof -
  note D = dispatch_context_D [OF assms]
  obtain e where "validateSignedPublicationDispatchEnvelopeV1 E envelope ctx = Inr e" "valid e"
    using D(1) by blast
  from signed_dispatch_D [OF this] obtain ec where
    ec: "validateEnvelopeCommon E envelope ''publishing-dispatch-envelope-v1'' ctx = Inr ec" "valid ec" by blast
  note env = envelope_valid_D [OF ec]
  note sig = envelope_signature_D [OF env(6)]
  obtain c where c: "validateAuthoritativePublicationCandidateV1 E rec (jget (jget envelope ''body'') ''candidate'')
      (jget (jget envelope ''body'') ''candidate_status'') = Inr c" "valid c"
    using D(3) by blast
  have binds: "jget attempt ''request_fingerprint'' = jget envelope ''body_sha256''"
    "jget attempt ''attempt_id'' = jget (jget envelope ''body'') ''attempt_id''"
    "jget intent ''intent_id'' = jget (jget envelope ''body'') ''intent_id''"
    "jget intent ''version'' = jget (jget envelope ''body'') ''intent_version''"
    using D(4) unfolding dispatch_binds_def Let_def agree_simps js_eq_iff by (elim conjE; simp)+
  have real: "jget intent ''approved_decision_id'' = jget (jget (jget envelope ''body'') ''approval'') ''decision_id''
      \<and> jget (jget (jget envelope ''body'') ''target'') ''connection_state'' = JStr ''connected''"
    if "jget (jget envelope ''body'') ''mode'' = JStr ''real''"
  proof -
    note X = exact_approval_valid_iff [THEN iffD1, OF exI, OF conjI [OF D(5) [OF that] assms(2)]]
    then have "approval_binds intent (jget (jget envelope ''body'') ''candidate'')
        (jget (jget envelope ''body'') ''target'') (jget (jget envelope ''body'') ''approval'')"
      "jget (jget (jget envelope ''body'') ''target'') ''connection_state'' = JStr ''connected''" by blast+
    then show ?thesis unfolding approval_binds_def agree_simps js_eq_iff by simp
  qed
  have time: "\<bar>date_ms E (JStr (now_iso ctx)) - date_ms E (jget envelope ''sent_at'')\<bar> \<le> 300000"
    using env(3) by (simp add: envelope_time_ok_def PUBLISHING_SIGNATURE_TOLERANCE_SECONDS_def)
  have fp: "jget attempt ''request_fingerprint'' = JStr (jstr (jget envelope ''body_sha256''))"
    using binds(1) isSha256_D [OF sig(3)] by auto
  show ?thesis
    using sig(1,4) time env(4) binds(2-4) authoritative_valid_D(4) [OF c] real fp by blast
qed

text \<open>
  One body per attempt: two dispatch messages accepted for the same stored attempt carry the
  same body, property order aside, or exhibit a SHA-256 collision.
\<close>

theorem attempt_pins_body:
  assumes "num_ok E" "jwf (jget m1 ''body'')" "jwf (jget m2 ''body'')"
    and "validatePublicationDispatchContext E m1 i1 attempt c1 ctx1 = Inr r1" "valid r1"
    and "validatePublicationDispatchContext E m2 i2 attempt c2 ctx2 = Inr r2" "valid r2"
  shows "canon (jget m1 ''body'') = canon (jget m2 ''body'') \<or> sha_collision E (jget m1 ''body'') (jget m2 ''body'')"
proof (rule same_digest [OF assms(1-3)])
  show "computePublishingSha256 E (jget m1 ''body'') = computePublishingSha256 E (jget m2 ''body'')"
    using dispatch_context_sound [OF assms(4,5)] dispatch_context_sound [OF assms(6,7)] by auto
qed


theorem dispatch_context_sound_witness:
  "jget sample_record ''source_state'' = JStr ''active''
    \<and> jget sample_intent ''version'' = jget (jget sample_dispatch ''body'') ''intent_version''"
  using dispatch_context_sound [OF sample_dispatch_accepted valid_simps(3)] by blast

theorem attempt_pins_body_witness:
  "canon (jget sample_dispatch ''body'') = canon (jget sample_dispatch ''body'')
    \<or> sha_collision sample_env (jget sample_dispatch ''body'') (jget sample_dispatch ''body'')"
proof -
  have "jwf (jget sample_dispatch ''body'')"
    using sample_dispatch_body_wf by (simp add: sample_dispatch_def sample_envelope_def)
  then show ?thesis
    using attempt_pins_body [OF sample_env_num_ok _ _ sample_dispatch_accepted valid_simps(3)
        sample_dispatch_accepted valid_simps(3)] by blast
qed


section \<open>Callbacks\<close>

definition sample_callback_body :: json where
  "sample_callback_body = JObj
     [(''contract_version'', JStr ''publication-callback-v1''), (''callback_id'', u5), (''attempt_id'', u4),
      (''intent_id'', u3), (''intent_version'', JNum 2), (''request_fingerprint'', JStr sample_sha),
      (''workflow_version'', JStr ''w1''), (''result'', sample_result)]"

lemma sample_callback_body_valid: "valid (validateCallbackBody sample_env sample_callback_body)"
proof -
  have x: "extraField CALLBACK_BODY_FIELDS sample_callback_body = None"
    by (simp add: sample_callback_body_def extraField_def extra_fields_def CALLBACK_BODY_FIELDS_def)
  have r: "jget sample_callback_body ''result'' = sample_result" by (simp add: sample_callback_body_def)
  show ?thesis
    by (simp add: validateCallbackBody_def Let_def x r sample_result_valid)
      (simp add: sample_callback_body_def sample_result_def isPositiveInteger_def js_eq_iff js_space_def)
qed

definition sample_callback :: json where
  "sample_callback = sample_envelope ''publishing-callback-envelope-v1'' sample_callback_body"

lemma sample_callback_accepted:
  "validatePublicationCallbackContext sample_env sample_callback sample_attempt sample_context = Inr valid_result"
proof -
  have w: "jwf sample_callback_body"
    by (simp add: sample_callback_body_def sample_result_def u3_def u4_def u5_def)
  have b: "jget sample_callback ''body'' = sample_callback_body"
    by (simp add: sample_callback_def sample_envelope_def)
  have "\<exists>r. validateSignedPublicationCallbackEnvelopeV1 sample_env sample_callback sample_context = Inr r \<and> valid r"
    using sample_envelope_valid [OF w, of "''publishing-callback-envelope-v1''"] sample_callback_body_valid
    by (auto simp: validateSignedPublicationCallbackEnvelopeV1_def b sample_callback_def [symmetric])
  moreover have "callback_binds sample_callback_body sample_attempt"
    by (simp add: callback_binds_def sample_callback_body_def sample_attempt_def js_eq_iff)
  ultimately show ?thesis
    by (auto simp: validatePublicationCallbackContext_def sample_attempt_valid b)
qed

text \<open>
  Callback soundness: an accepted callback is signed over its body and names the stored
  attempt with its intent, intent version, request fingerprint and workflow version; the result
  it carries is about the same attempt and is a valid result document.
\<close>

theorem callback_context_sound:
  assumes "validatePublicationCallbackContext E envelope attempt ctx = Inr r" "valid r"
  shows "isPublishingSignatureValid E (envelope_sig_input E envelope) (jstr (jget envelope ''signature'')) (secret ctx)
    \<and> computePublishingSha256 E (jget envelope ''body'') = Inr (jstr (jget envelope ''body_sha256''))
    \<and> jget (jget envelope ''body'') ''attempt_id'' = jget attempt ''attempt_id''
    \<and> jget (jget envelope ''body'') ''request_fingerprint'' = jget attempt ''request_fingerprint''
    \<and> jget (jget (jget envelope ''body'') ''result'') ''attempt_id'' = jget attempt ''attempt_id''
    \<and> jget (jget (jget envelope ''body'') ''result'') ''intent_version'' = jget attempt ''intent_version''
    \<and> valid (validatePublicationResultV1 E (jget (jget envelope ''body'') ''result''))"
proof -
  note D = callback_context_D [OF assms]
  obtain e where "validateSignedPublicationCallbackEnvelopeV1 E envelope ctx = Inr e" "valid e"
    using D(1) by blast
  note C = signed_callback_D [OF this]
  then obtain ec where ec: "validateEnvelopeCommon E envelope ''publishing-callback-envelope-v1'' ctx = Inr ec" "valid ec"
    by blast
  note sig = envelope_signature_D [OF envelope_valid_D(6) [OF ec]]
  have "valid (validateCallbackBody E (jget envelope ''body''))" using C(2) \<open>valid e\<close> by simp
  note body = callback_body_D [OF this]
  have "jget (jget envelope ''body'') ''attempt_id'' = jget attempt ''attempt_id''"
    "jget (jget envelope ''body'') ''intent_version'' = jget attempt ''intent_version''"
    "jget (jget envelope ''body'') ''request_fingerprint'' = jget attempt ''request_fingerprint''"
    using D(3) unfolding callback_binds_def agree_simps js_eq_iff by (elim conjE; simp)+
  then show ?thesis using sig(1,4) body(2,5,7) by simp
qed

theorem callback_context_sound_witness:
  "jget (jget (jget sample_callback ''body'') ''result'') ''attempt_id'' = jget sample_attempt ''attempt_id''"
  using callback_context_sound [OF sample_callback_accepted valid_simps(3)] by blast

text \<open>
  A callback settles at most one attempt: if the same message is accepted for two stored
  attempts, they have the same attempt identity, intent, intent version and request fingerprint.
\<close>

theorem callback_names_one_attempt:
  assumes "validatePublicationCallbackContext E envelope a ctx1 = Inr r1" "valid r1"
    and "validatePublicationCallbackContext E envelope b ctx2 = Inr r2" "valid r2"
  shows "\<forall>k \<in> {''attempt_id'', ''intent_id'', ''intent_version'', ''request_fingerprint'', ''workflow_version''}.
    jget a k = jget b k"
  using callback_context_D(3) [OF assms(1,2)] callback_context_D(3) [OF assms(3,4)]
  unfolding callback_binds_def agree_simps js_eq_iff by (elim conjE) simp

theorem callback_names_one_attempt_witness:
  "jget sample_attempt ''attempt_id'' = jget sample_attempt ''attempt_id''
    \<and> validatePublicationCallbackContext sample_env sample_callback sample_attempt sample_context = Inr valid_result"
  using callback_names_one_attempt [OF sample_callback_accepted valid_simps(3) sample_callback_accepted valid_simps(3)]
    sample_callback_accepted by blast

text \<open>
  A well-authenticated-looking envelope without a body is not rejected with an issue: the
  digest of the missing body throws, for dispatch and callback envelopes alike, before the
  signature is checked.
\<close>

theorem envelope_without_body_throws:
  assumes "isRecord v" "jget v ''body'' = JUndef" "jget v ''key_id'' = JStr (expected_key_id ctx)"
    and "js_trim (expected_key_id ctx) \<noteq> []" "jget v ''signature_algorithm'' = JStr ''hmac-sha256''"
    and "isSha256 (jget v ''body_sha256'')" "isSha256 (jget v ''signature'')"
  shows "validateSignedPublicationCallbackEnvelopeV1 E v ctx = Inl TypeError
    \<and> validateSignedPublicationDispatchEnvelopeV1 E v ctx = Inl TypeError"
proof -
  have "computePublishingSha256 E JUndef = Inl TypeError"
    by (simp add: computePublishingSha256_def canonicalPublishingJson_def)
  then show ?thesis
    using assms
    by (simp add: validateSignedPublicationCallbackEnvelopeV1_def validateSignedPublicationDispatchEnvelopeV1_def
        validateEnvelopeCommon_def envelope_signature_issues_def)
qed

theorem envelope_without_body_throws_witness:
  "validateSignedPublicationCallbackEnvelopeV1 sample_env
     (JObj [(''key_id'', JStr ''key''), (''signature_algorithm'', JStr ''hmac-sha256''),
        (''body_sha256'', JStr sample_sha), (''signature'', JStr sample_sha)]) sample_context = Inl TypeError"
  using envelope_without_body_throws [of "JObj [(''key_id'', JStr ''key''), (''signature_algorithm'', JStr ''hmac-sha256''),
        (''body_sha256'', JStr sample_sha), (''signature'', JStr sample_sha)]" sample_context sample_env]
  by (simp add: sample_context_def js_space_def)

end
