(* ===== verification/Cairo_Time.thy ===== *)
theory Cairo_Time
  imports Sample_Data "HOL-Library.Monad_Syntax"
begin

text \<open>
  Local schedule times (apps/api/src/modules/publishing/common/time/cairo-time.util.ts) and the
  queue priority of a schedule (publishing-priority.util.ts).

  The time zone database is a parameter: \<open>tzdb tz\<close> is \<open>None\<close> when \<open>Intl\<close> does not know the zone,
  and otherwise the offset of local time from UTC in milliseconds as a function of the instant.
  \<open>date_utc\<close> is \<open>Date.UTC\<close> with what the code relies on: fields outside their range roll over, and
  a year from 0 to 99 means 1900 to 1999.
\<close>


section \<open>Conversion\<close>

datatype time_error = PUBLISHING_INVALID_TIMEZONE | PUBLISHING_INVALID_SCHEDULE

type_synonym zone_db = "string \<Rightarrow> (int \<Rightarrow> int) option"

definition is_zone_char :: "char \<Rightarrow> bool" where
  "is_zone_char c \<longleftrightarrow> char_between 65 90 c \<or> char_between 97 122 c \<or> c = CHR ''_''"

text \<open>\<open>IANA_ZONE_PATTERN\<close>: names of letters and underscores, separated by single slashes.\<close>

fun zone_names :: "bool \<Rightarrow> string \<Rightarrow> bool" where
  "zone_names nonempty [] = nonempty"
| "zone_names nonempty (c # s) =
     (if c = CHR ''/'' then nonempty \<and> zone_names False s else is_zone_char c \<and> zone_names True s)"

definition assertValidIanaZone :: "zone_db \<Rightarrow> string \<Rightarrow> time_error + (int \<Rightarrow> int)" where
  "assertValidIanaZone tzdb tz =
     (if \<not> zone_names False tz then Inl PUBLISHING_INVALID_TIMEZONE
      else case tzdb tz of None \<Rightarrow> Inl PUBLISHING_INVALID_TIMEZONE | Some off \<Rightarrow> Inr off)"

definition date_utc :: "int \<Rightarrow> int \<Rightarrow> int \<Rightarrow> int \<Rightarrow> int \<Rightarrow> int \<Rightarrow> int" where
  "date_utc y mo d h mi s =
     (let y' = (if 0 \<le> y \<and> y \<le> 99 then 1900 + y else y)
      in (make_day (y' + (mo - 1) div 12) ((mo - 1) mod 12 + 1) d) * msPerDay
         + h * 3600000 + mi * 60000 + s * 1000)"

text \<open>The regular expression of the code: the six numbers of a local date-time.\<close>

definition local_fields :: "string \<Rightarrow> (int \<times> int \<times> int \<times> int \<times> int \<times> int) option" where
  "local_fields s =
     (if shape_matches LOCAL_PATTERN s then do {
        (y, _) \<leftarrow> read_digits 4 s;
        (mo, _) \<leftarrow> read_digits 2 (drop 5 s);
        (d, _) \<leftarrow> read_digits 2 (drop 8 s);
        (h, _) \<leftarrow> read_digits 2 (drop 11 s);
        (mi, _) \<leftarrow> read_digits 2 (drop 14 s);
        (sec, _) \<leftarrow> read_digits 2 (drop 17 s);
        Some (y, mo, d, h, mi, sec)
      } else None)"

text \<open>\<open>guessMs - localMs\<close>, where \<open>localMs\<close> reads the wall clock of the zone as if it were UTC.\<close>

definition getCandidateOffset :: "(int \<Rightarrow> int) \<Rightarrow> int \<Rightarrow> int" where
  "getCandidateOffset off guess =
     (let c = civil_of (guess + off guess)
      in guess - date_utc (c_year c) (c_month c) (c_day c) (c_hour c) (c_minute c) (c_second c))"

definition resolve_local :: "(int \<Rightarrow> int) \<Rightarrow> int \<Rightarrow> time_error + int" where
  "resolve_local off naive =
     (let offsetAt = getCandidateOffset off naive;
          offsetMinus = getCandidateOffset off (naive - 3600000);
          utcMs = naive + offsetAt
      in if getCandidateOffset off utcMs \<noteq> offsetAt then
           (let early = naive + offsetMinus
            in if getCandidateOffset off early \<noteq> offsetMinus
               then Inl PUBLISHING_INVALID_SCHEDULE else Inr early)
         else Inr utcMs)"

definition localToUtc :: "zone_db \<Rightarrow> string \<Rightarrow> string \<Rightarrow> time_error + int" where
  "localToUtc tzdb localIso tz =
     throws_bind (assertValidIanaZone tzdb tz) (\<lambda>off.
       case local_fields localIso of
         None \<Rightarrow> Inl PUBLISHING_INVALID_SCHEDULE
       | Some (y, mo, d, h, mi, s) \<Rightarrow> resolve_local off (date_utc y mo d h mi s))"

definition utcToCairoLocalIso :: "zone_db \<Rightarrow> int \<Rightarrow> string \<Rightarrow> time_error + string" where
  "utcToCairoLocalIso tzdb t tz =
     throws_bind (assertValidIanaZone tzdb tz) (\<lambda>off. Inr (wall_clock (off t) t))"

definition isInPast :: "int \<Rightarrow> int \<Rightarrow> bool" where
  "isInPast now t \<longleftrightarrow> t \<le> now"

text \<open>\<open>minutesUntilDue <= m\<close> is compared in milliseconds: the quotient is exact in the reals.\<close>

definition publishingPriorityFor :: "int option \<Rightarrow> int \<Rightarrow> nat" where
  "publishingPriorityFor scheduled now =
     (case scheduled of
        None \<Rightarrow> 4
      | Some t \<Rightarrow>
          (let msUntilDue = t - now in
           if msUntilDue \<le> 0 then 0
           else if msUntilDue \<le> 60 * 60000 then 1
           else if msUntilDue \<le> 6 * 60 * 60000 then 2
           else if msUntilDue \<le> 24 * 60 * 60000 then 3 else 4))"


section \<open>The wall clock at whole seconds\<close>

lemma date_utc_civil:
  assumes "valid_civil c" "99 < c_year c \<or> c_year c < 0"
  shows "date_utc (c_year c) (c_month c) (c_day c) (c_hour c) (c_minute c) (c_second c) = utc_ms c - c_ms c"
proof -
  have m: "1 \<le> c_month c" "c_month c \<le> 12" using assms(1) by (simp_all add: valid_civil_def valid_date_def)
  have "(c_month c - 1) div 12 = 0" "(c_month c - 1) mod 12 = c_month c - 1" using m by simp_all
  then show ?thesis using assms(2) by (auto simp: date_utc_def utc_ms_def Let_def)
qed

text \<open>Instants from the year 100 on, where the two-digit years of \<open>Date.UTC\<close> play no part.\<close>

definition modern :: "int \<Rightarrow> bool" where
  "modern t \<longleftrightarrow> DayFromYear 100 * msPerDay \<le> t"

lemma modern_year: "modern t \<Longrightarrow> 99 < c_year (civil_of t)"
proof (rule ccontr)
  assume m: "modern t" and "\<not> 99 < c_year (civil_of t)"
  moreover have y: "c_year (civil_of t) = year_of_day (t div msPerDay)"
    by (simp add: civil_of_def civil_of_day_def Let_def)
  ultimately have "DayFromYear (year_of_day (t div msPerDay) + 1) \<le> DayFromYear 100"
    by (intro DayFromYear_less) simp
  then have "t div msPerDay < DayFromYear 100"
    using year_of_day_bounds [of "t div msPerDay"] by linarith
  moreover have "DayFromYear 100 \<le> t div msPerDay"
    using m zdiv_mono1 [of "DayFromYear 100 * msPerDay" t msPerDay] by (simp add: modern_def msPerDay_def)
  ultimately show False by simp
qed

lemma getCandidateOffset_whole:
  assumes "modern (g + off g)" "1000 dvd g + off g"
  shows "getCandidateOffset off g = - off g"
proof -
  let ?c = "civil_of (g + off g)"
  have "(1000 :: int) dvd msPerDay" by (simp add: msPerDay_def)
  then have "(g + off g) mod msPerDay mod 1000 = (g + off g) mod 1000" by (rule mod_mod_cancel)
  then have ms: "c_ms ?c = 0" using assms(2) by (simp add: civil_of_def Let_def case_prod_beta)
  have "date_utc (c_year ?c) (c_month ?c) (c_day ?c) (c_hour ?c) (c_minute ?c) (c_second ?c) = utc_ms ?c - c_ms ?c"
    by (rule date_utc_civil [OF civil_of_valid]) (use modern_year [OF assms(1)] in simp)
  then show ?thesis by (simp add: getCandidateOffset_def Let_def ms utc_ms_civil_of)
qed

text \<open>A zone whose offsets are whole seconds and less than a day.\<close>

definition whole_zone :: "(int \<Rightarrow> int) \<Rightarrow> bool" where
  "whole_zone off \<longleftrightarrow> (\<forall>t. 1000 dvd off t \<and> \<bar>off t\<bar> \<le> msPerDay)"

lemma whole_zoneD: "whole_zone off \<Longrightarrow> 1000 dvd off t" "whole_zone off \<Longrightarrow> - msPerDay \<le> off t"
    "whole_zone off \<Longrightarrow> off t \<le> msPerDay"
  unfolding whole_zone_def abs_le_iff by (blast | smt (verit))+

lemma offset_at:
  assumes "whole_zone off" "1000 dvd g" "modern (g - msPerDay)"
  shows "getCandidateOffset off g = - off g"
proof (rule getCandidateOffset_whole)
  show "modern (g + off g)"
    using assms(3) whole_zoneD(2) [OF assms(1), of g] unfolding modern_def by linarith
  show "1000 dvd g + off g" using assms(2) whole_zoneD(1) [OF assms(1)] by (rule dvd_add)
qed

text \<open>What \<open>resolve_local\<close> computes in such a zone, in terms of the offset itself.\<close>

lemma resolve_local_eq:
  assumes z: "whole_zone off" and d: "1000 dvd n" and m: "modern (n - 3 * msPerDay)"
  shows "resolve_local off n =
    (if off (n - off n) = off n then Inr (n - off n)
     else if off (n - off (n - 3600000)) = off (n - 3600000) then Inr (n - off (n - 3600000))
     else Inl PUBLISHING_INVALID_SCHEDULE)"
proof -
  have near: "modern (k - msPerDay)" if "n - 2 * msPerDay \<le> k" for k
    using m that unfolding modern_def by linarith
  have p: "3600000 \<le> msPerDay" "0 \<le> msPerDay" by (simp_all add: msPerDay_def)
  have d1: "1000 dvd n - 3600000" using d by (rule dvd_diff) simp
  have d2: "1000 dvd n - off k" for k using d whole_zoneD(1) [OF z] by (rule dvd_diff)
  have a: "getCandidateOffset off n = - off n"
    by (rule offset_at [OF z d near]) (use p in linarith)
  have b: "getCandidateOffset off (n - 3600000) = - off (n - 3600000)"
    by (rule offset_at [OF z d1 near]) (use p in linarith)
  have c: "getCandidateOffset off (n - off k) = - off (n - off k)" for k
    by (rule offset_at [OF z d2 near]) (use p whole_zoneD(3) [OF z, of k] in linarith)
  show ?thesis
    by (simp only: resolve_local_def Let_def a b add_uminus_conv_diff c neg_equal_iff_equal if_not_P not_not simp_thms
        split: if_splits)
      simp
qed

lemma resolve_local_sound:
  assumes "whole_zone off" "1000 dvd n" "modern (n - 3 * msPerDay)" "resolve_local off n = Inr t"
  shows "t + off t = n"
  using assms(4) unfolding resolve_local_eq [OF assms(1-3)] by (auto split: if_splits)


section \<open>The text of a local time\<close>

lemma nat_from_48: "48 \<le> n \<Longrightarrow> 48 + nat (int n - 48) = n"
  by simp

lemma digit_char_val: "is_digit c \<Longrightarrow> digit_char (digit_val c) = c"
proof -
  assume "is_digit c"
  then have "48 \<le> (of_char c :: nat)" by (simp add: is_digit_def char_between_def)
  then have "48 + nat (int (of_char c) - 48) = (of_char c :: nat)" by (rule nat_from_48)
  then show ?thesis by (simp add: digit_char_def digit_val_def)
qed

lemma digit_val_range: "is_digit c \<Longrightarrow> 0 \<le> digit_val c \<and> digit_val c < 10"
  by (auto simp: digit_val_def is_digit_def char_between_def)

lemma read_acc_inv:
  "read_acc n a s = Some (v, r) \<Longrightarrow> \<exists>k. 0 \<le> k \<and> k < 10 ^ n \<and> v = a * 10 ^ n + k \<and> s = pad n k @ r"
proof (induction n arbitrary: a s)
  case (Suc n)
  then obtain c s' where s: "s = c # s'" "is_digit c" "read_acc n (10 * a + digit_val c) s' = Some (v, r)"
    by (cases s) (auto split: if_splits)
  obtain k where k: "0 \<le> k" "k < 10 ^ n" "v = (10 * a + digit_val c) * 10 ^ n + k" "s' = pad n k @ r"
    using Suc.IH [OF s(3)] by blast
  let ?k = "digit_val c * 10 ^ n + k"
  have q: "?k div 10 ^ n = digit_val c" "?k mod 10 ^ n = k" using k(1,2) by simp_all
  have "?k < 10 ^ Suc n"
  proof -
    have "digit_val c + 1 \<le> 10" using digit_val_range [OF s(2)] by simp
    then have "(digit_val c + 1) * 10 ^ n \<le> 10 * 10 ^ n" by (rule mult_right_mono) simp
    with k(2) show ?thesis unfolding power_Suc distrib_right by linarith
  qed
  moreover have "0 \<le> ?k" using digit_val_range [OF s(2)] k(1) by simp
  moreover have "v = a * 10 ^ Suc n + ?k" using k(3) by (simp add: algebra_simps)
  moreover have "s = pad (Suc n) ?k @ r"
    by (simp only: s(1) k(4) pad.simps q digit_char_val [OF s(2)] append_Cons)
  ultimately show ?case by blast
qed simp

lemma read_digits_at:
  assumes "read_digits n t = Some (k, r')" "t = u @ r" "length u = n"
  shows "u = pad n k \<and> 0 \<le> k \<and> k < 10 ^ n"
  using read_acc_inv [of n 0 t k r'] assms by (auto simp: read_digits_def)

text \<open>The text is determined by its six numbers.\<close>

lemma local_fields_text:
  assumes "local_fields s = Some (y, mo, d, h, mi, sec)"
  shows "s = pad 4 y @ CHR ''-'' # pad 2 mo @ CHR ''-'' # pad 2 d @ CHR ''T'' # pad 2 h @
      CHR '':'' # pad 2 mi @ CHR '':'' # pad 2 sec"
    and "y < 10000" "0 \<le> mo" "0 \<le> d" "0 \<le> h" "0 \<le> mi" "0 \<le> sec"
proof -
  have "shape_matches LOCAL_PATTERN s" using assms by (simp add: local_fields_def split: if_splits)
  then obtain u1 u2 u3 u4 u5 u6 where s: "s = u1 @ CHR ''-'' # u2 @ CHR ''-'' # u3 @ CHR ''T'' # u4 @
      CHR '':'' # u5 @ CHR '':'' # u6"
    and l: "length u1 = 4" "length u2 = 2" "length u3 = 2" "length u4 = 2" "length u5 = 2" "length u6 = 2"
    unfolding shape_matches_def LOCAL_PATTERN_def
    by (auto simp: list_all2_append1 list_all2_Cons1 dest!: list_all2_lengthD)
  obtain r1 r2 r3 r4 r5 r6 where f: "read_digits 4 s = Some (y, r1)" "read_digits 2 (drop 5 s) = Some (mo, r2)"
    "read_digits 2 (drop 8 s) = Some (d, r3)" "read_digits 2 (drop 11 s) = Some (h, r4)"
    "read_digits 2 (drop 14 s) = Some (mi, r5)" "read_digits 2 (drop 17 s) = Some (sec, r6)"
    using assms by (auto simp: local_fields_def bind_eq_Some_conv split: if_splits)
  have at: "drop 5 s = u2 @ drop 7 s" "drop 8 s = u3 @ drop 10 s" "drop 11 s = u4 @ drop 13 s"
    "drop 14 s = u5 @ drop 16 s" "drop 17 s = u6 @ []"
    unfolding s by (simp_all add: l)
  note t = read_digits_at [OF f(1) s l(1)] read_digits_at [OF f(2) at(1) l(2)] read_digits_at [OF f(3) at(2) l(3)]
    read_digits_at [OF f(4) at(3) l(4)] read_digits_at [OF f(5) at(4) l(5)] read_digits_at [OF f(6) at(5) l(6)]
  show "s = pad 4 y @ CHR ''-'' # pad 2 mo @ CHR ''-'' # pad 2 d @ CHR ''T'' # pad 2 h @
      CHR '':'' # pad 2 mi @ CHR '':'' # pad 2 sec"
    using t unfolding s by simp
  show "y < 10000" "0 \<le> mo" "0 \<le> d" "0 \<le> h" "0 \<le> mi" "0 \<le> sec" using t by simp_all
qed

lemma pad_snoc:
  "0 \<le> k \<Longrightarrow> k < 10 ^ Suc n \<Longrightarrow> pad (Suc n) k = pad n (k div 10) @ [digit_char (k mod 10)]"
proof (induction n arbitrary: k)
  case (Suc n)
  let ?m = "k mod 10 ^ Suc n"
  have m: "?m = 10 * (k div 10 mod 10 ^ n) + k mod 10"
    unfolding power_Suc by (rule zmod_zmult2_eq) simp
  have d: "?m div 10 = k div 10 mod 10 ^ n" "?m mod 10 = k mod 10"
    unfolding m by simp_all
  have q: "k div 10 ^ Suc n = k div 10 div 10 ^ n" unfolding power_Suc by (rule zdiv_zmult2_eq) simp
  have e: "pad (Suc n) ?m = pad n (?m div 10) @ [digit_char (?m mod 10)]" by (rule Suc.IH) simp_all
  have "pad (Suc (Suc n)) k = digit_char (k div 10 ^ Suc n) # pad (Suc n) ?m" by (rule pad_Suc)
  also have "\<dots> = digit_char (k div 10 div 10 ^ n) # pad n (k div 10 mod 10 ^ n) @ [digit_char (k mod 10)]"
    by (simp only: e d q)
  also have "\<dots> = pad (Suc n) (k div 10) @ [digit_char (k mod 10)]" by (simp only: pad_Suc append_Cons)
  finally show ?case .
qed simp

lemma dec_int_4:
  assumes "1000 \<le> y" "y < 10000"
  shows "dec_int y = pad 4 y"
proof -
  define n where "n = nat y"
  have n: "1000 \<le> n" "n < 10000" "int n = y" using assms by (simp_all add: n_def)
  have big: "\<not> n < 10" "\<not> n div 10 < 10" "\<not> n div 10 div 10 < 10" "n div 10 div 10 div 10 < 10"
    using n by simp_all
  have step: "pad (Suc m) (int k) = pad m (int (k div 10)) @ [digit_char (int (k mod 10))]"
    if "int k < 10 ^ Suc m" for m k
    using that by (simp only: pad_snoc of_nat_0_le_iff zdiv_int zmod_int of_nat_numeral)
  have one: "pad (Suc 0) (int k) = [digit_char (int k)]" for k
    by (simp add: pad_Suc)
  have lt: "int n < 10 ^ Suc (Suc (Suc (Suc 0)))" "int (n div 10) < 10 ^ Suc (Suc (Suc 0))"
    "int (n div 10 div 10) < 10 ^ Suc (Suc 0)"
    using n by simp_all
  have four: "4 = Suc (Suc (Suc (Suc 0)))" by simp
  have "pad 4 (int n) = dec_nat n"
    unfolding four step [OF lt(1)] step [OF lt(2)] step [OF lt(3)] one dec_nat_large [OF big(1)] dec_nat_large [OF big(2)]
      dec_nat_large [OF big(3)] dec_nat_small [OF big(4)]
    by simp
  then show ?thesis using assms by (simp add: dec_int_def n_def)
qed

section \<open>Properties of schedule times\<close>

definition cairo_db :: "(int \<Rightarrow> int) \<Rightarrow> zone_db" where
  "cairo_db off tz = (if tz = ''Africa/Cairo'' then Some off else None)"

lemma date_utc_whole: "1000 dvd date_utc y mo d h mi s"
proof -
  have "date_utc y mo d h mi s = 1000 * ((make_day ((if 0 \<le> y \<and> y \<le> 99 then 1900 + y else y) + (mo - 1) div 12)
      ((mo - 1) mod 12 + 1) d) * 86400 + h * 3600 + mi * 60 + s)"
    by (simp add: date_utc_def msPerDay_def Let_def)
  then show ?thesis by (metis dvd_triv_left)
qed

lemma localToUtc_eq:
  assumes "assertValidIanaZone tzdb tz = Inr off" "local_fields s = Some (y, mo, d, h, mi, sec)"
  shows "localToUtc tzdb s tz = resolve_local off (date_utc y mo d h mi sec)"
  using assms by (simp add: localToUtc_def)

lemma recent_date:
  assumes "1900 \<le> y" "1 \<le> mo" "mo \<le> 12" "0 \<le> d" "0 \<le> h" "0 \<le> mi" "0 \<le> sec"
  shows "modern (date_utc y mo d h mi sec - 3 * msPerDay)"
proof -
  have m: "(mo - 1) div 12 = 0" using assms(2,3) by simp
  have "DayFromYear 1900 \<le> DayFromYear y" using DayFromYear_mono_nat [of 1900 "nat (y - 1900)"] assms(1) by simp
  moreover have "DayFromYear 100 + 4 \<le> DayFromYear 1900" by (simp add: DayFromYear_def)
  moreover have "0 \<le> month_start (leap_year y) ((mo - 1) mod 12 + 1)" by (simp add: month_start_def)
  ultimately have "DayFromYear 100 + 3 \<le> make_day y ((mo - 1) mod 12 + 1) d"
    using assms(4) unfolding make_day_def by linarith
  then have "(DayFromYear 100 + 3) * msPerDay \<le> make_day y ((mo - 1) mod 12 + 1) d * msPerDay"
    by (rule mult_right_mono) (simp add: msPerDay_def)
  then show ?thesis
    using assms(1,5-7) unfolding modern_def date_utc_def Let_def m distrib_right by simp
qed


text \<open>
  A local time that does not exist in the zone (the gap of a spring-forward transition) is
  never scheduled: if no instant shows that wall clock, the schedule is rejected.
\<close>

theorem nonexistent_local_time_rejected:
  assumes "assertValidIanaZone tzdb tz = Inr off" "whole_zone off"
    and "local_fields s = Some (y, mo, d, h, mi, sec)" "1900 \<le> y" "1 \<le> mo" "mo \<le> 12"
    and "\<And>t. t + off t \<noteq> date_utc y mo d h mi sec"
  shows "localToUtc tzdb s tz = Inl PUBLISHING_INVALID_SCHEDULE"
proof -
  note f = local_fields_text [OF assms(3)]
  note r = resolve_local_eq [OF assms(2) date_utc_whole recent_date [OF assms(4-6) f(4,5,6,7)]]
  have "off (date_utc y mo d h mi sec - off k) \<noteq> off k" for k
    using assms(7) [of "date_utc y mo d h mi sec - off k"] by auto
  then show ?thesis unfolding localToUtc_eq [OF assms(1,3)] r by simp
qed

text \<open>Transitions of one hour at an instant: spring forward and fall back.\<close>

definition spring_forward :: "int \<Rightarrow> int \<Rightarrow> int" where
  "spring_forward T t = (if t < T then 7200000 else 10800000)"

definition fall_back :: "int \<Rightarrow> int \<Rightarrow> int" where
  "fall_back T t = (if t < T then 10800000 else 7200000)"

lemma transitions_whole: "whole_zone (spring_forward T)" "whole_zone (fall_back T)"
  by (auto simp: whole_zone_def spring_forward_def fall_back_def msPerDay_def)

text \<open>
  On the eve of a spring-forward transition from UTC+2 to UTC+3 at local midnight, every
  local time of the last hour before it (23:00:00 to 23:59:59) is rejected as lying in the gap,
  although an instant with that wall clock exists.
\<close>

theorem eve_of_dst_rejected:
  assumes "assertValidIanaZone tzdb tz = Inr (spring_forward T)"
    and "local_fields s = Some (y, mo, d, h, mi, sec)" "1900 \<le> y" "1 \<le> mo" "mo \<le> 12"
    and "T + 3600000 \<le> date_utc y mo d h mi sec" "date_utc y mo d h mi sec < T + 7200000"
  shows "localToUtc tzdb s tz = Inl PUBLISHING_INVALID_SCHEDULE
    \<and> (\<exists>t. t + spring_forward T t = date_utc y mo d h mi sec)"
proof -
  let ?n = "date_utc y mo d h mi sec"
  note f = local_fields_text [OF assms(2)]
  have "resolve_local (spring_forward T) ?n = Inl PUBLISHING_INVALID_SCHEDULE"
    using assms(6,7)
    unfolding resolve_local_eq [OF transitions_whole(1) date_utc_whole recent_date [OF assms(3-5) f(4,5,6,7)]]
    by (simp add: spring_forward_def)
  moreover have "(?n - 7200000) + spring_forward T (?n - 7200000) = ?n"
    using assms(7) by (simp add: spring_forward_def)
  ultimately show ?thesis unfolding localToUtc_eq [OF assms(1,2)] by blast
qed

text \<open>
  A local time that occurs twice (the overlap of a fall-back transition) is resolved to the
  later of its two instants, the one after the clocks went back.
\<close>

theorem ambiguous_local_time_is_later:
  assumes "assertValidIanaZone tzdb tz = Inr (fall_back T)"
    and "local_fields s = Some (y, mo, d, h, mi, sec)" "1900 \<le> y" "1 \<le> mo" "mo \<le> 12"
    and "t1 + fall_back T t1 = date_utc y mo d h mi sec" "t2 + fall_back T t2 = date_utc y mo d h mi sec" "t1 < t2"
  shows "localToUtc tzdb s tz = Inr t2"
proof -
  note f = local_fields_text [OF assms(2)]
  have "t2 = date_utc y mo d h mi sec - 7200000" "T \<le> t2"
    using assms(6-8) by (auto simp: fall_back_def split: if_splits)
  then have "resolve_local (fall_back T) (date_utc y mo d h mi sec) = Inr t2"
    unfolding resolve_local_eq [OF transitions_whole(2) date_utc_whole recent_date [OF assms(3-5) f(4,5,6,7)]]
    by (simp add: fall_back_def)
  then show ?thesis unfolding localToUtc_eq [OF assms(1,2)] .
qed

text \<open>
  The nearer a schedule is, the more urgent its job: the queue priority grows with the
  scheduled instant and stays within 0 to 4.
\<close>

theorem priority_monotone:
  assumes "s \<le> t"
  shows "publishingPriorityFor (Some s) now \<le> publishingPriorityFor (Some t) now
    \<and> publishingPriorityFor (Some t) now \<le> publishingPriorityFor None now"
  using assms by (simp add: publishingPriorityFor_def Let_def)

theorem priority_monotone_witness:
  "publishingPriorityFor (Some 3000000) 0 \<le> publishingPriorityFor (Some 90000000) 0
    \<and> publishingPriorityFor (Some 90000000) 0 \<le> publishingPriorityFor None 0"
  by (rule priority_monotone) simp

definition eve_text :: string where "eve_text = ''2026-04-23T23:30:00''"
definition overlap_text :: string where "overlap_text = ''2026-10-29T23:30:00''"
definition gap_text :: string where "gap_text = ''2026-04-24T00:30:00''"

lemma sample_texts:
  "local_fields eve_text = Some (2026, 4, 23, 23, 30, 0)"
  "local_fields overlap_text = Some (2026, 10, 29, 23, 30, 0)"
  "local_fields gap_text = Some (2026, 4, 24, 0, 30, 0)"
  unfolding eve_text_def overlap_text_def gap_text_def by code_simp+

lemma sample_instants:
  "date_utc 2026 4 23 23 30 0 = 1776987000000" "date_utc 2026 10 29 23 30 0 = 1793316600000"
  "date_utc 2026 4 24 0 30 0 = 1776990600000"
  by (simp_all add: date_utc_def make_day_def DayFromYear_def leap_year_def month_start_def msPerDay_def)

lemma sample_zone: "assertValidIanaZone (cairo_db off) ''Africa/Cairo'' = Inr off"
  by (simp add: assertValidIanaZone_def cairo_db_def is_zone_char_def char_between_def)


theorem nonexistent_local_time_rejected_witness:
  "localToUtc (cairo_db (spring_forward 1776981600000)) gap_text ''Africa/Cairo'' = Inl PUBLISHING_INVALID_SCHEDULE"
proof (rule nonexistent_local_time_rejected [OF sample_zone transitions_whole(1) sample_texts(3)])
  show "t + spring_forward 1776981600000 t \<noteq> date_utc 2026 4 24 0 30 0" for t
    by (simp add: sample_instants spring_forward_def)
qed simp_all

theorem eve_of_dst_rejected_witness:
  "localToUtc (cairo_db (spring_forward 1776981600000)) eve_text ''Africa/Cairo'' = Inl PUBLISHING_INVALID_SCHEDULE"
  using eve_of_dst_rejected [OF sample_zone sample_texts(1), of 1776981600000] by (simp add: sample_instants)

theorem ambiguous_local_time_is_later_witness:
  "localToUtc (cairo_db (fall_back 1793307600000)) overlap_text ''Africa/Cairo'' = Inr 1793309400000"
  by (rule ambiguous_local_time_is_later [OF sample_zone sample_texts(2), where ?t1.0 = 1793305800000])
    (simp_all add: sample_instants fall_back_def)

end
