(* ===== verification/Db_Action.thy ===== *)
theory Db_Action
  imports MM_Prelude
begin

text \<open>
  Service methods as actions on the database. An action takes the state of the database and
  either returns a value or throws, in both cases leaving a new state: what was written before
  an exception stays written. \<open>transaction\<close> (Prisma's \<open>$transaction\<close>) is the exception to that:
  when its body throws, the state is the one before the transaction. Writes inside a service
  method that lie outside a transaction are separate steps of the database; the methods of one
  process are sequential, and \<open>transaction\<close> is the unit of interleaving between processes.

  \<open>keeps I m\<close> says that \<open>m\<close> keeps the invariant \<open>I\<close>, whatever it returns or throws; the rules for
  it, in the collection \<open>keeps_intros\<close>, follow the syntax of the actions.
\<close>

text \<open>What one request takes from its surroundings: the time and the UUIDs it draws.\<close>

record call =
  call_now :: int
  call_id :: "nat \<Rightarrow> string"

named_theorems keeps_intros \<open>rules for invariants of actions\<close>

type_synonym ('s, 'e, 'a) action = "'s \<Rightarrow> ('e + 'a) \<times> 's"

definition act_return :: "'a \<Rightarrow> ('s, 'e, 'a) action" where
  "act_return a s = (Inr a, s)"

definition act_throw :: "'e \<Rightarrow> ('s, 'e, 'a) action" where
  "act_throw e s = (Inl e, s)"

definition act_read :: "('s \<Rightarrow> 'a) \<Rightarrow> ('s, 'e, 'a) action" where
  "act_read f s = (Inr (f s), s)"

definition act_modify :: "('s \<Rightarrow> 's) \<Rightarrow> ('s, 'e, unit) action" where
  "act_modify f s = (Inr (), f s)"

definition act_bind :: "('s, 'e, 'a) action \<Rightarrow> ('a \<Rightarrow> ('s, 'e, 'b) action) \<Rightarrow> ('s, 'e, 'b) action" where
  "act_bind m f s = (case m s of (Inl e, t) \<Rightarrow> (Inl e, t) | (Inr a, t) \<Rightarrow> f a t)"

definition act_seq :: "('s, 'e, 'a) action \<Rightarrow> ('s, 'e, 'b) action \<Rightarrow> ('s, 'e, 'b) action" where
  "act_seq m n = act_bind m (\<lambda>_. n)"

definition act_catch :: "('s, 'e, 'a) action \<Rightarrow> ('e \<Rightarrow> ('s, 'e, 'a) action) \<Rightarrow> ('s, 'e, 'a) action" where
  "act_catch m h s = (case m s of (Inl e, t) \<Rightarrow> h e t | (Inr a, t) \<Rightarrow> (Inr a, t))"

definition transaction :: "('s, 'e, 'a) action \<Rightarrow> ('s, 'e, 'a) action" where
  "transaction m s = (case m s of (Inl e, t) \<Rightarrow> (Inl e, s) | (Inr a, t) \<Rightarrow> (Inr a, t))"

definition act_lift :: "'e + 'a \<Rightarrow> ('s, 'e, 'a) action" where
  "act_lift r s = (r, s)"

text \<open>An insert under a unique index: \<open>on_clash\<close> is what the caller does on a unique violation.\<close>

definition act_create ::
  "('r \<Rightarrow> 'k) \<Rightarrow> ('s \<Rightarrow> 'r list) \<Rightarrow> ('r list \<Rightarrow> 's \<Rightarrow> 's) \<Rightarrow> 'r \<Rightarrow> 'e \<Rightarrow> ('s, 'e, unit) action" where
  "act_create key get put r clash s =
     (case tbl_create key r (get s) of None \<Rightarrow> (Inl clash, s) | Some t \<Rightarrow> (Inr (), put t s))"

text \<open>The same under several unique indexes: \<open>clash r x\<close> says that two rows agree on one of them.\<close>

definition act_insert ::
  "('r \<Rightarrow> 'r \<Rightarrow> bool) \<Rightarrow> ('s \<Rightarrow> 'r list) \<Rightarrow> ('r list \<Rightarrow> 's \<Rightarrow> 's) \<Rightarrow> 'r \<Rightarrow> 'e \<Rightarrow> ('s, 'e, unit) action" where
  "act_insert clash get put r e s = (if \<exists>x \<in> set (get s). clash r x then (Inl e, s) else (Inr (), put (get s @ [r]) s))"

lemmas action_defs = act_return_def act_throw_def act_read_def act_modify_def act_bind_def act_seq_def
  act_catch_def transaction_def act_lift_def act_create_def act_insert_def

lemma act_bind_cases:
  assumes "act_bind m f s = (r, u)"
  obtains (throws) e where "m s = (Inl e, u)" "r = Inl e"
  | (goes_on) a t where "m s = (Inr a, t)" "f a t = (r, u)"
  using assms by (auto simp: act_bind_def split: prod.splits sum.splits)

lemma transaction_cases:
  assumes "transaction m s = (r, u)"
  obtains (rolled_back) e where "r = Inl e" "u = s"
  | (committed) a where "m s = (Inr a, u)" "r = Inr a"
  using assms by (auto simp: transaction_def split: prod.splits sum.splits)

lemma act_lift_simps [simp]: "act_lift (Inr a) s = (Inr a, s)" "act_lift (Inl e) s = (Inl e, s)"
  by (simp_all add: act_lift_def)


section \<open>Invariants of actions\<close>

definition keeps :: "('s \<Rightarrow> bool) \<Rightarrow> ('s, 'e, 'a) action \<Rightarrow> bool" where
  "keeps I m \<longleftrightarrow> (\<forall>s. I s \<longrightarrow> I (snd (m s)))"

lemma keepsI: "(\<And>s. I s \<Longrightarrow> I (snd (m s))) \<Longrightarrow> keeps I m"
  by (simp add: keeps_def)

lemma keepsD: "keeps I m \<Longrightarrow> I s \<Longrightarrow> I (snd (m s))"
  by (simp add: keeps_def)

lemma keeps_steps [keeps_intros]:
  "keeps I (act_return a)" "keeps I (act_throw e)" "keeps I (act_read f)" "keeps I (act_lift r)"
  by (simp_all add: keeps_def action_defs)

lemma keeps_bind [keeps_intros]: "keeps I m \<Longrightarrow> (\<And>a. keeps I (f a)) \<Longrightarrow> keeps I (act_bind m f)"
  by (fastforce simp: keeps_def act_bind_def split: sum.splits prod.splits)

lemma keeps_seq [keeps_intros]: "keeps I m \<Longrightarrow> keeps I n \<Longrightarrow> keeps I (act_seq m n)"
  unfolding act_seq_def by (rule keeps_bind)

lemma keeps_catch [keeps_intros]: "keeps I m \<Longrightarrow> (\<And>e. keeps I (h e)) \<Longrightarrow> keeps I (act_catch m h)"
  by (fastforce simp: keeps_def act_catch_def split: sum.splits prod.splits)

lemma keeps_transaction:
  "(\<And>s a t. I s \<Longrightarrow> m s = (Inr a, t) \<Longrightarrow> I t) \<Longrightarrow> keeps I (transaction m)"
  by (auto simp: keeps_def transaction_def split: sum.splits prod.splits)

lemma keeps_transaction_body [keeps_intros]: "keeps I m \<Longrightarrow> keeps I (transaction m)"
  by (rule keeps_transaction) (metis keepsD snd_conv)

lemma keeps_modify [keeps_intros]: "(\<And>s. I s \<Longrightarrow> I (f s)) \<Longrightarrow> keeps I (act_modify f)"
  by (simp add: keeps_def act_modify_def)

lemma keeps_if [keeps_intros]: "(b \<Longrightarrow> keeps I m) \<Longrightarrow> (\<not> b \<Longrightarrow> keeps I n) \<Longrightarrow> keeps I (if b then m else n)"
  by simp

lemma keeps_option [keeps_intros]:
  "(x = None \<Longrightarrow> keeps I m) \<Longrightarrow> (\<And>a. x = Some a \<Longrightarrow> keeps I (f a)) \<Longrightarrow> keeps I (case x of None \<Rightarrow> m | Some a \<Rightarrow> f a)"
  by (cases x) simp_all

lemma keeps_sum [keeps_intros]:
  "(\<And>e. x = Inl e \<Longrightarrow> keeps I (m e)) \<Longrightarrow> (\<And>a. x = Inr a \<Longrightarrow> keeps I (f a)) \<Longrightarrow>
   keeps I (case x of Inl e \<Rightarrow> m e | Inr a \<Rightarrow> f a)"
  by (cases x) simp_all

text \<open>A frame: an action that does not touch what \<open>f\<close> reads.\<close>

definition leaves :: "('s \<Rightarrow> 'v) \<Rightarrow> ('s, 'e, 'a) action \<Rightarrow> bool" where
  "leaves f m \<longleftrightarrow> (\<forall>s. f (snd (m s)) = f s)"

lemma leaves_iff_keeps: "leaves f m \<longleftrightarrow> (\<forall>v. keeps (\<lambda>s. f s = v) m)"
  by (auto simp: leaves_def keeps_def)

lemma leaves_keeps: "leaves f m \<Longrightarrow> keeps (\<lambda>s. P (f s)) m"
  by (simp add: leaves_def keeps_def)

end
