(* ===== verification/Billing_Catalog.thy ===== *)
theory Billing_Catalog
  imports Json
begin

text \<open>
  The billing catalogue (packages/contracts/src/billing/billing-types.ts): the metrics that cost
  points, the prepaid bundles, the plan prices with their entitlements, and the functions that
  look them up. Amounts are whole numbers of EGP and of points; the number of units of a request
  is a JavaScript number. A text in Arabic is the list of its code points.
\<close>


section \<open>Vocabularies\<close>

datatype billing_metric =
  discovery | strategy_cycle | strategy_revision | content_item | content_revision | static_image
  | publication_target

datatype payment_mode = recurring_card | one_time_card | wallet_mode | reference_mode

datatype price_code = trial_14d_v1 | growth_monthly_v1 | growth_yearly_v1 | growth_founding_monthly_v1

datatype plan_code = trial_plan | growth_plan

datatype price_interval = trial_interval | monthly | yearly | founding_pilot

text \<open>The codes as the requests and the tables spell them.\<close>

primrec price_code_name :: "price_code \<Rightarrow> string" where
  "price_code_name trial_14d_v1 = ''trial_14d_v1''"
| "price_code_name growth_monthly_v1 = ''growth_monthly_v1''"
| "price_code_name growth_yearly_v1 = ''growth_yearly_v1''"
| "price_code_name growth_founding_monthly_v1 = ''growth_founding_monthly_v1''"

primrec payment_mode_name :: "payment_mode \<Rightarrow> string" where
  "payment_mode_name recurring_card = ''recurring_card''"
| "payment_mode_name one_time_card = ''one_time_card''"
| "payment_mode_name wallet_mode = ''wallet''"
| "payment_mode_name reference_mode = ''reference''"

lemma price_code_name_inject [simp]: "price_code_name c = price_code_name d \<longleftrightarrow> c = d"
  by (cases c; cases d) simp_all

lemma payment_mode_name_inject [simp]: "payment_mode_name m = payment_mode_name n \<longleftrightarrow> m = n"
  by (cases m; cases n) simp_all


section \<open>Plans\<close>

record entitlements =
  business_count :: nat
  strategy_cycles :: nat
  strategy_revisions_per_cycle :: nat
  content_items_rolling_30d :: nat
  static_images_per_period :: nat
  content_revisions_per_item :: nat
  connected_targets :: nat

definition TRIAL_ENTITLEMENTS :: entitlements where
  "TRIAL_ENTITLEMENTS =
     \<lparr>business_count = 1, strategy_cycles = 1, strategy_revisions_per_cycle = 0, content_items_rolling_30d = 3,
      static_images_per_period = 1, content_revisions_per_item = 1, connected_targets = 0\<rparr>"

definition GROWTH_ENTITLEMENTS :: entitlements where
  "GROWTH_ENTITLEMENTS =
     \<lparr>business_count = 1, strategy_cycles = 1, strategy_revisions_per_cycle = 1, content_items_rolling_30d = 20,
      static_images_per_period = 12, content_revisions_per_item = 2, connected_targets = 2\<rparr>"

record catalog_price =
  cp_code :: price_code
  cp_plan :: plan_code
  cp_interval :: price_interval
  cp_amount_egp :: int
  cp_currency :: string
  cp_period_days :: nat
  cp_public :: bool
  cp_name_en :: string
  cp_name_ar :: "nat list"
  cp_entitlements :: entitlements

definition name_ar_growth :: "nat list" where
  "name_ar_growth = [0x646, 0x645, 0x648]"

definition BILLING_CATALOG :: "catalog_price list" where
  "BILLING_CATALOG =
     [\<lparr>cp_code = trial_14d_v1, cp_plan = trial_plan, cp_interval = trial_interval, cp_amount_egp = 0,
       cp_currency = ''EGP'', cp_period_days = 14, cp_public = True, cp_name_en = ''Trial'',
       cp_name_ar = [0x62A, 0x62C, 0x631, 0x628, 0x629], cp_entitlements = TRIAL_ENTITLEMENTS\<rparr>,
      \<lparr>cp_code = growth_monthly_v1, cp_plan = growth_plan, cp_interval = monthly, cp_amount_egp = 299,
       cp_currency = ''EGP'', cp_period_days = 30, cp_public = True, cp_name_en = ''Growth'',
       cp_name_ar = name_ar_growth, cp_entitlements = GROWTH_ENTITLEMENTS\<rparr>,
      \<lparr>cp_code = growth_yearly_v1, cp_plan = growth_plan, cp_interval = yearly, cp_amount_egp = 2990,
       cp_currency = ''EGP'', cp_period_days = 365, cp_public = True, cp_name_en = ''Growth yearly'',
       cp_name_ar = name_ar_growth @ [0x20, 0x633, 0x646, 0x648, 0x64A], cp_entitlements = GROWTH_ENTITLEMENTS\<rparr>,
      \<lparr>cp_code = growth_founding_monthly_v1, cp_plan = growth_plan, cp_interval = founding_pilot, cp_amount_egp = 249,
       cp_currency = ''EGP'', cp_period_days = 30, cp_public = False, cp_name_en = ''Growth founding pilot'',
       cp_name_ar = name_ar_growth @ [0x20, 0x2014, 0x20, 0x628, 0x631, 0x646, 0x627, 0x645, 0x62C, 0x20,
         0x627, 0x644, 0x62A, 0x623, 0x633, 0x64A, 0x633], cp_entitlements = GROWTH_ENTITLEMENTS\<rparr>]"

definition getPublicBillingCatalog :: "catalog_price list" where
  "getPublicBillingCatalog = filter cp_public BILLING_CATALOG"

definition getBillingPrice :: "string \<Rightarrow> catalog_price option" where
  "getBillingPrice code = List.find (\<lambda>p. price_code_name (cp_code p) = code) BILLING_CATALOG"

fun billingLimitForMetric :: "entitlements \<Rightarrow> billing_metric \<Rightarrow> nat" where
  "billingLimitForMetric e discovery = (if strategy_cycles e > 0 then 1 else 0)"
| "billingLimitForMetric e strategy_revision = strategy_revisions_per_cycle e"
| "billingLimitForMetric e strategy_cycle = strategy_cycles e"
| "billingLimitForMetric e content_item = content_items_rolling_30d e"
| "billingLimitForMetric e content_revision = content_revisions_per_item e"
| "billingLimitForMetric e static_image = static_images_per_period e"
| "billingLimitForMetric e publication_target = connected_targets e"


section \<open>Points\<close>

record point_bundle =
  bundle_code :: string
  bundle_points :: int
  bundle_amount_egp :: int
  bundle_currency :: string
  bundle_name_en :: string
  bundle_name_ar :: "nat list"

definition BILLING_BUNDLES :: "point_bundle list" where
  "BILLING_BUNDLES =
     [\<lparr>bundle_code = ''starter_150'', bundle_points = 150, bundle_amount_egp = 100, bundle_currency = ''EGP'',
       bundle_name_en = ''Starter'', bundle_name_ar = [0x645, 0x628, 0x62A, 0x62F, 0x626]\<rparr>,
      \<lparr>bundle_code = ''growth_300'', bundle_points = 300, bundle_amount_egp = 200, bundle_currency = ''EGP'',
       bundle_name_en = ''Growth'', bundle_name_ar = name_ar_growth\<rparr>,
      \<lparr>bundle_code = ''pro_500'', bundle_points = 500, bundle_amount_egp = 300, bundle_currency = ''EGP'',
       bundle_name_en = ''Pro'', bundle_name_ar = [0x627, 0x62D, 0x62A, 0x631, 0x627, 0x641, 0x64A]\<rparr>]"

primrec POINT_PRICES :: "billing_metric \<Rightarrow> nat" where
  "POINT_PRICES content_item = 2"
| "POINT_PRICES content_revision = 1"
| "POINT_PRICES static_image = 8"
| "POINT_PRICES strategy_cycle = 50"
| "POINT_PRICES strategy_revision = 10"
| "POINT_PRICES discovery = 0"
| "POINT_PRICES publication_target = 0"

definition TRIAL_GRANT_POINTS :: int where
  "TRIAL_GRANT_POINTS = 65"

definition LOW_BALANCE_THRESHOLD_POINTS :: int where
  "LOW_BALANCE_THRESHOLD_POINTS = 20"

definition pointsForMetric :: "billing_metric \<Rightarrow> rat \<Rightarrow> rat" where
  "pointsForMetric metric units = of_nat (POINT_PRICES metric) * max 0 units"

definition getBillingBundle :: "string \<Rightarrow> point_bundle option" where
  "getBillingBundle code = List.find (\<lambda>b. bundle_code b = code) BILLING_BUNDLES"

text \<open>\<open>Number.isSafeInteger\<close>.\<close>

definition is_safe_integer :: "rat \<Rightarrow> bool" where
  "is_safe_integer r \<longleftrightarrow> js_isInteger r \<and> \<bar>r\<bar> \<le> 9007199254740991"

lemma find_SomeD: "List.find P xs = Some x \<Longrightarrow> x \<in> set xs \<and> P x"
  by (induction xs) (auto split: if_splits)

lemma getBillingBundle_cases:
  assumes "getBillingBundle code = Some b"
  shows "b \<in> set BILLING_BUNDLES \<and> bundle_code b = code \<and> 0 < bundle_points b \<and> bundle_points b \<le> 500
    \<and> 0 < bundle_amount_egp b \<and> bundle_currency b = ''EGP''"
proof -
  have "b \<in> set BILLING_BUNDLES" "bundle_code b = code"
    using assms unfolding getBillingBundle_def by (auto dest: find_SomeD)
  moreover have "list_all (\<lambda>b. 0 < bundle_points b \<and> bundle_points b \<le> 500
    \<and> 0 < bundle_amount_egp b \<and> bundle_currency b = ''EGP'') BILLING_BUNDLES"
    by (simp add: BILLING_BUNDLES_def)
  ultimately show ?thesis by (simp add: list_all_iff)
qed

lemma safe_units:
  assumes "is_safe_integer u" "0 < u"
  obtains n :: int where "u = of_int n" "0 < n" "pointsForMetric m u = of_int (int (POINT_PRICES m) * n)"
proof -
  define n where "n = \<lfloor>u\<rfloor>"
  have "js_isInteger u" using assms(1) unfolding is_safe_integer_def by (rule conjunct1)
  then have u: "u = of_int n" unfolding js_isInteger_def n_def by (rule sym)
  then have n: "0 < n" using assms(2) by simp
  have "max 0 (of_int n :: rat) = of_int n" using n by simp
  then have "pointsForMetric m u = of_int (int (POINT_PRICES m) * n)"
    unfolding pointsForMetric_def u by (simp only: of_int_mult of_int_of_nat_eq)
  then show thesis using that u n by blast
qed

end
