(* ===== verification/Billing_Store.thy ===== *)
theory Billing_Store
  imports Db_Action Billing_Catalog
begin

text \<open>
  The prepaid points wallet (apps/api/src/modules/billing/billing.service.ts): the tables of the
  billing schema, opening an account with its trial grant, spending and refunding points.

  A row carries the columns the code reads or writes. Integer columns are 32 bits wide; a write
  outside that range is refused by the database (\<open>DB_OUT_OF_RANGE\<close>). A row lock
  (\<open>SELECT ... FOR UPDATE\<close>) makes the transactions of one account run one after the other, which
  is what an action of the model does.
\<close>


section \<open>Tables\<close>

datatype billing_error =
  BILLING_PRICE_NOT_FOUND | BILLING_PRICE_NOT_PUBLIC | BILLING_IDEMPOTENCY_CONFLICT
  | BILLING_CHECKOUT_NOT_FOUND | BILLING_CHECKOUT_EXPIRED | BILLING_PROVIDER_UNAVAILABLE
  | BILLING_PROVIDER_SIGNATURE_INVALID | BILLING_PROVIDER_EVENT_DUPLICATE | BILLING_AMOUNT_MISMATCH
  | BILLING_SUBSCRIPTION_NOT_ACTIVE | BILLING_ENTITLEMENT_EXHAUSTED | BILLING_TRIAL_EXPIRED
  | BILLING_BUNDLE_NOT_FOUND | BILLING_INSUFFICIENT_POINTS | BILLING_ACCOUNT_PAUSED
  | BILLING_COST_CIRCUIT_OPEN
  | InternalServerError | NotFound | ServiceUnavailable
  | UNIQUE_VIOLATION | DB_OUT_OF_RANGE

record user_row =
  u_id :: string
  u_email :: string
  u_full_name :: "string option"

record account =
  a_id :: string
  a_owner :: string
  a_business :: "string option"
  a_status :: string

record balance =
  b_account :: string
  b_balance :: int
  b_granted :: int
  b_spent :: int

datatype direction = credit | debit
datatype ledger_reason = topup | trial_grant | spend | refund

record ledger_entry =
  l_id :: string
  l_account :: string
  l_direction :: direction
  l_reason :: ledger_reason
  l_metric :: "billing_metric option"
  l_points :: int
  l_balance_after :: int
  l_claim :: string
  l_transaction :: "string option"
  l_expires :: "int option"
  l_created :: int

record price =
  p_id :: string
  p_code :: string
  p_plan :: string
  p_interval :: string
  p_amount :: int
  p_currency :: string
  p_period_days :: int
  p_points :: "int option"
  p_public :: bool
  p_name_en :: string
  p_name_ar :: "nat list"

datatype checkout_status = checkout_pending | checkout_succeeded | checkout_failed

record checkout =
  ch_id :: string
  ch_account :: string
  ch_price :: string
  ch_idempotency :: string
  ch_fingerprint :: string
  ch_provider :: string
  ch_ref :: "string option"
  ch_url :: "string option"
  ch_amount :: int
  ch_currency :: string
  ch_mode :: payment_mode
  ch_sandbox :: bool
  ch_status :: checkout_status
  ch_expires :: int
  ch_confirmed :: "int option"

record payment_transaction =
  t_id :: string
  t_account :: string
  t_checkout :: "string option"
  t_provider :: string
  t_provider_id :: string
  t_kind :: string
  t_status :: string
  t_amount :: int
  t_currency :: string
  t_mode :: "payment_mode option"
  t_occurred :: int

datatype event_type = event_paid | event_failed | event_pending
datatype event_status = received | processed | event_row_failed

record provider_event =
  e_account :: "string option"
  e_provider :: string
  e_external :: string
  e_fingerprint :: string
  e_type :: event_type
  e_signature_valid :: bool
  e_status :: event_status
  e_payload :: json
  e_received :: int
  e_processed :: "int option"

datatype outbox_state = outbox_pending | outbox_processing | outbox_sent | outbox_failed

record outbox_row =
  o_id :: string
  o_account :: string
  o_event_type :: string
  o_dedupe :: string
  o_payload :: json
  o_state :: outbox_state
  o_attempts :: nat
  o_lease_owner :: "string option"
  o_lease_expires :: "int option"
  o_next_attempt :: "int option"
  o_last_error :: "string option"
  o_dispatched :: "int option"
  o_created :: int

record cost_row =
  c_account :: string
  c_business :: "string option"
  c_period :: int
  c_provider :: string
  c_model :: "string option"
  c_artifact :: string
  c_input_units :: "int option"
  c_output_units :: "int option"
  c_native_cost :: "rat option"
  c_native_currency :: "string option"
  c_egp_rate :: "rat option"
  c_egp_cost :: "rat option"
  c_successful :: bool
  c_quota_effect :: int
  c_retry_count :: int
  c_snapshot_version :: string

record billing =
  users :: "user_row list"
  businesses :: "(string \<times> string) list"
  accounts :: "account list"
  balances :: "balance list"
  ledger :: "ledger_entry list"
  prices :: "price list"
  checkouts :: "checkout list"
  transactions :: "payment_transaction list"
  provider_events :: "provider_event list"
  outbox :: "outbox_row list"
  costs :: "cost_row list"

type_synonym 'a billing_action = "(billing, billing_error, 'a) action"

text \<open>The keys of the unique indexes.\<close>

definition ledger_key :: "ledger_entry \<Rightarrow> string \<times> string" where
  "ledger_key r = (l_account r, l_claim r)"

interpretation ledger_index: unique_index ledger_key "tbl_find ledger_key" "tbl_create ledger_key"
  by (rule list_table_unique_index)

interpretation balance_index: unique_index b_account "tbl_find b_account" "tbl_create b_account"
  by (rule list_table_unique_index)

interpretation account_index: unique_index a_owner "tbl_find a_owner" "tbl_create a_owner"
  by (rule list_table_unique_index)

definition int4 :: "int \<Rightarrow> bool" where
  "int4 v \<longleftrightarrow> - 2147483648 \<le> v \<and> v \<le> 2147483647"

definition find_account :: "string \<Rightarrow> billing \<Rightarrow> account option" where
  "find_account owner s = tbl_find a_owner owner (accounts s)"

definition find_balance :: "string \<Rightarrow> billing \<Rightarrow> balance option" where
  "find_balance acc s = tbl_find b_account acc (balances s)"

definition find_entry :: "string \<Rightarrow> string \<Rightarrow> billing \<Rightarrow> ledger_entry option" where
  "find_entry acc key s = tbl_find ledger_key (acc, key) (ledger s)"

definition create_entry :: "ledger_entry \<Rightarrow> unit billing_action" where
  "create_entry r = act_create ledger_key ledger (\<lambda>t. ledger_update (\<lambda>_. t)) r UNIQUE_VIOLATION"

definition create_balance :: "balance \<Rightarrow> unit billing_action" where
  "create_balance r = act_create b_account balances (\<lambda>t. balances_update (\<lambda>_. t)) r UNIQUE_VIOLATION"

definition create_account :: "account \<Rightarrow> unit billing_action" where
  "create_account r = act_create a_owner accounts (\<lambda>t. accounts_update (\<lambda>_. t)) r UNIQUE_VIOLATION"

text \<open>The update of one balance row; the three counters are 32-bit columns.\<close>

definition update_balance :: "balance \<Rightarrow> unit billing_action" where
  "update_balance b s =
     (if int4 (b_balance b) \<and> int4 (b_granted b) \<and> int4 (b_spent b)
      then (Inr (), s\<lparr>balances := tbl_update (\<lambda>r. b_account r = b_account b) (\<lambda>_. b) (balances s)\<rparr>)
      else (Inl DB_OUT_OF_RANGE, s))"


section \<open>Accounts\<close>

definition addDays :: "int \<Rightarrow> int \<Rightarrow> int" where
  "addDays t days = t + days * 24 * 60 * 60 * 1000"

definition isPrismaUniqueError :: "billing_error \<Rightarrow> bool" where
  "isPrismaUniqueError e \<longleftrightarrow> e = UNIQUE_VIOLATION"

definition trial_entry :: "call \<Rightarrow> account \<Rightarrow> ledger_entry" where
  "trial_entry c a =
     \<lparr>l_id = call_id c 2, l_account = a_id a, l_direction = credit, l_reason = trial_grant, l_metric = None,
      l_points = TRIAL_GRANT_POINTS, l_balance_after = TRIAL_GRANT_POINTS, l_claim = ''trial-grant:'' @ a_id a,
      l_transaction = None, l_expires = Some (addDays (call_now c) 365), l_created = call_now c\<rparr>"

definition trial_balance :: "account \<Rightarrow> balance" where
  "trial_balance a =
     \<lparr>b_account = a_id a, b_balance = TRIAL_GRANT_POINTS, b_granted = TRIAL_GRANT_POINTS, b_spent = 0\<rparr>"

definition open_account :: "call \<Rightarrow> string \<Rightarrow> string option \<Rightarrow> account billing_action" where
  "open_account c userId business =
     (let account = \<lparr>a_id = call_id c 0, a_owner = userId, a_business = business, a_status = ''active''\<rparr>
      in act_seq (create_account account)
           (act_seq (create_balance (trial_balance account))
             (act_seq (create_entry (trial_entry c account)) (act_return account))))"

definition ensureBillingAccount :: "call \<Rightarrow> string \<Rightarrow> account billing_action" where
  "ensureBillingAccount c userId s =
     (case find_account userId s of
        Some existing \<Rightarrow> (Inr existing, s)
      | None \<Rightarrow>
          (let business = map_of (businesses s) userId
           in act_catch (transaction (open_account c userId business))
                (\<lambda>e. if isPrismaUniqueError e
                     then act_bind (act_read (find_account userId))
                            (\<lambda>replay. case replay of Some a \<Rightarrow> act_return a | None \<Rightarrow> act_throw e)
                     else act_throw e) s))"

definition assertAccountActive :: "account \<Rightarrow> unit billing_action" where
  "assertAccountActive a =
     (if a_status a = ''paused'' then act_throw BILLING_ACCOUNT_PAUSED else act_return ())"

record wallet_response =
  w_account :: string
  w_balance :: int
  w_granted :: int
  w_spent :: int
  w_low :: bool

definition getWallet :: "call \<Rightarrow> string \<Rightarrow> wallet_response billing_action" where
  "getWallet c userId =
     act_bind (ensureBillingAccount c userId) (\<lambda>account.
     act_bind (act_read (find_balance (a_id account))) (\<lambda>balance.
       case balance of
         None \<Rightarrow> act_throw InternalServerError
       | Some b \<Rightarrow> act_return
           \<lparr>w_account = a_id account, w_balance = b_balance b, w_granted = b_granted b, w_spent = b_spent b,
            w_low = b_balance b < LOW_BALANCE_THRESHOLD_POINTS\<rparr>))"

text \<open>The newest 100 entries; rows are appended in the order of their creation.\<close>

definition getLedger :: "call \<Rightarrow> string \<Rightarrow> ledger_entry list billing_action" where
  "getLedger c userId =
     act_bind (ensureBillingAccount c userId) (\<lambda>account.
       act_read (\<lambda>s. take 100 (rev (filter (\<lambda>r. l_account r = a_id account) (ledger s)))))"


section \<open>Spending and refunding\<close>

text \<open>The \<open>catch\<close> around the ledger insert: a unique violation is a replay, anything else is thrown.\<close>

definition claim_entry :: "ledger_entry \<Rightarrow> unit billing_action" where
  "claim_entry r = act_catch (create_entry r) (\<lambda>e. if isPrismaUniqueError e then act_return () else act_throw e)"

definition spend_tx :: "call \<Rightarrow> string \<Rightarrow> billing_metric \<Rightarrow> int \<Rightarrow> string \<Rightarrow> unit billing_action" where
  "spend_tx c acc metric points claimKey s =
     (case find_entry acc claimKey s of
        Some existing \<Rightarrow> (Inr (), s)
      | None \<Rightarrow>
          (case find_balance acc s of
             None \<Rightarrow> (Inl InternalServerError, s)
           | Some b \<Rightarrow>
               if b_balance b < points then (Inl BILLING_INSUFFICIENT_POINTS, s)
               else (let balanceAfter = b_balance b - points in
                 act_seq (update_balance (b\<lparr>b_balance := balanceAfter, b_spent := b_spent b + points\<rparr>))
                   (claim_entry
                     \<lparr>l_id = call_id c 0, l_account = acc, l_direction = debit, l_reason = spend,
                      l_metric = Some metric, l_points = points, l_balance_after = balanceAfter, l_claim = claimKey,
                      l_transaction = None, l_expires = None, l_created = call_now c\<rparr>) s)))"

text \<open>
  \<open>points\<close> is exact: \<open>units\<close> is a safe integer, and a product beyond the safe integers exceeds
  every balance whether or not the double is rounded.
\<close>

definition spendPoints :: "call \<Rightarrow> string \<Rightarrow> billing_metric \<Rightarrow> rat \<Rightarrow> string \<Rightarrow> unit billing_action" where
  "spendPoints c userId metric units claimKey =
     (if \<not> is_safe_integer units \<or> units \<le> 0 then act_throw BILLING_INSUFFICIENT_POINTS
      else let points = \<lfloor>pointsForMetric metric units\<rfloor> in
        if points \<le> 0 then act_return ()
        else act_bind (ensureBillingAccount c userId) (\<lambda>account.
               act_seq (assertAccountActive account)
                 (transaction (spend_tx c (a_id account) metric points claimKey))))"

definition refund_key :: "string \<Rightarrow> string" where
  "refund_key claimKey = ''refund:'' @ claimKey"

definition refund_tx :: "call \<Rightarrow> string \<Rightarrow> string \<Rightarrow> unit billing_action" where
  "refund_tx c acc claimKey s =
     (case find_entry acc (refund_key claimKey) s of
        Some existing \<Rightarrow> (Inr (), s)
      | None \<Rightarrow>
          (case find_entry acc claimKey s of
             None \<Rightarrow> (Inr (), s)
           | Some d \<Rightarrow>
               if l_direction d \<noteq> debit then (Inr (), s)
               else (case find_balance acc s of
                 None \<Rightarrow> (Inl InternalServerError, s)
               | Some b \<Rightarrow>
                   (let balanceAfter = b_balance b + l_points d in
                     act_seq (update_balance (b\<lparr>b_balance := balanceAfter\<rparr>))
                       (claim_entry
                         \<lparr>l_id = call_id c 0, l_account = acc, l_direction = credit, l_reason = refund,
                          l_metric = l_metric d, l_points = l_points d, l_balance_after = balanceAfter,
                          l_claim = refund_key claimKey, l_transaction = None, l_expires = None,
                          l_created = call_now c\<rparr>) s))))"

definition refundPoints :: "call \<Rightarrow> string \<Rightarrow> string \<Rightarrow> unit billing_action" where
  "refundPoints c userId claimKey =
     act_bind (ensureBillingAccount c userId) (\<lambda>account.
       transaction (refund_tx c (a_id account) claimKey))"

definition starts_with :: "string \<Rightarrow> string \<Rightarrow> bool" where
  "starts_with p s \<longleftrightarrow> take (length p) s = p"

definition releaseStrategyCycle :: "call \<Rightarrow> string \<Rightarrow> string \<Rightarrow> unit billing_action" where
  "releaseStrategyCycle c userId strategyId =
     act_bind (ensureBillingAccount c userId) (\<lambda>account.
     act_bind (act_read (\<lambda>s. List.find (\<lambda>r. l_account r = a_id account \<and> l_direction r = debit
         \<and> l_reason r = spend \<and> l_metric r = Some strategy_cycle
         \<and> starts_with (''strategy-cycle:'' @ strategyId @ '':'') (l_claim r)) (rev (ledger s)))) (\<lambda>latest.
       case latest of None \<Rightarrow> act_return () | Some d \<Rightarrow> refundPoints c userId (l_claim d)))"

end
