(* ===== verification/Billing_Wallet.thy ===== *)
theory Billing_Wallet
  imports Billing_Store
begin

text \<open>
  What keeps a wallet correct. \<open>wallet_ok\<close> relates the three counters of a balance row to the
  append-only ledger; \<open>post\<close> is the one way the service moves points (a balance row and a ledger
  row in one transaction), and \<open>post_keeps_wallet\<close> shows once that it keeps the invariant. The
  lemmas \<open>spend_tx_cases\<close> and \<open>refund_tx_cases\<close> say what a transaction does on every branch.
\<close>


section \<open>The invariant\<close>

definition ledger_sum :: "(ledger_entry \<Rightarrow> bool) \<Rightarrow> string \<Rightarrow> ledger_entry list \<Rightarrow> int" where
  "ledger_sum P acc L = sum_list (map (\<lambda>r. if l_account r = acc \<and> P r then l_points r else 0) L)"

definition is_credit :: "ledger_entry \<Rightarrow> bool" where "is_credit r \<longleftrightarrow> l_direction r = credit"
definition is_debit :: "ledger_entry \<Rightarrow> bool" where "is_debit r \<longleftrightarrow> l_direction r = debit"
definition is_grant :: "ledger_entry \<Rightarrow> bool" where "is_grant r \<longleftrightarrow> is_credit r \<and> l_reason r \<noteq> refund"
definition is_refund :: "ledger_entry \<Rightarrow> bool" where "is_refund r \<longleftrightarrow> is_credit r \<and> l_reason r = refund"

lemmas entry_kinds = is_credit_def is_debit_def is_grant_def is_refund_def

lemma ledger_sum_append [simp]:
  "ledger_sum P acc [] = 0"
  "ledger_sum P acc (L @ M) = ledger_sum P acc L + ledger_sum P acc M"
  "ledger_sum P acc (r # L) = (if l_account r = acc \<and> P r then l_points r else 0) + ledger_sum P acc L"
  by (simp_all add: ledger_sum_def)

lemma ledger_sum_foreign: "acc \<notin> l_account ` set L \<Longrightarrow> ledger_sum P acc L = 0"
  by (induction L) auto

lemma ledger_sum_nonneg: "(\<And>r. r \<in> set L \<Longrightarrow> 0 < l_points r) \<Longrightarrow> 0 \<le> ledger_sum P acc L"
  by (induction L) force+

definition counters_ok :: "ledger_entry list \<Rightarrow> balance \<Rightarrow> bool" where
  "counters_ok L b \<longleftrightarrow> 0 \<le> b_balance b
     \<and> b_balance b = ledger_sum is_credit (b_account b) L - ledger_sum is_debit (b_account b) L
     \<and> b_granted b = ledger_sum is_grant (b_account b) L
     \<and> b_spent b = ledger_sum is_debit (b_account b) L"

definition refund_has_debit :: "ledger_entry list \<Rightarrow> ledger_entry \<Rightarrow> bool" where
  "refund_has_debit L r \<longleftrightarrow> (\<exists>d \<in> set L. is_debit d \<and> l_account d = l_account r \<and> l_points d = l_points r
     \<and> l_claim r = refund_key (l_claim d))"

definition wallet_ok :: "billing \<Rightarrow> bool" where
  "wallet_ok s \<longleftrightarrow>
     distinct (map a_owner (accounts s)) \<and> distinct (map b_account (balances s))
     \<and> distinct (map ledger_key (ledger s))
     \<and> (\<forall>a \<in> set (accounts s). a_id a \<in> b_account ` set (balances s))
     \<and> (\<forall>r \<in> set (ledger s). 0 < l_points r \<and> l_account r \<in> b_account ` set (balances s)
          \<and> (is_refund r \<longrightarrow> refund_has_debit (ledger s) r))
     \<and> (\<forall>b \<in> set (balances s). counters_ok (ledger s) b)"

lemma find_balance_SomeD:
  "find_balance acc s = Some b \<Longrightarrow> b \<in> set (balances s) \<and> b_account b = acc"
  unfolding find_balance_def by (rule tbl_find_SomeD)

lemma find_entry_SomeD:
  "find_entry acc key s = Some r \<Longrightarrow> r \<in> set (ledger s) \<and> l_account r = acc \<and> l_claim r = key"
  unfolding find_entry_def by (drule tbl_find_SomeD) (simp add: ledger_key_def)

lemma find_entry_None_iff:
  "find_entry acc key s = None \<longleftrightarrow> (\<forall>r \<in> set (ledger s). \<not> (l_account r = acc \<and> l_claim r = key))"
  by (auto simp: find_entry_def tbl_find_None_iff ledger_key_def)

lemma wallet_balance:
  "wallet_ok s \<Longrightarrow> find_balance acc s = Some b \<Longrightarrow> counters_ok (ledger s) b"
  by (auto simp: wallet_ok_def dest: find_balance_SomeD)

lemma wallet_has_balance:
  "wallet_ok s \<Longrightarrow> a \<in> set (accounts s) \<Longrightarrow> \<exists>b. find_balance (a_id a) s = Some b"
  unfolding wallet_ok_def find_balance_def by (metis imageE not_None_eq tbl_find_None_iff)


section \<open>Moving points\<close>

definition post :: "billing \<Rightarrow> balance \<Rightarrow> ledger_entry \<Rightarrow> billing" where
  "post s b r = s\<lparr>balances := tbl_update (\<lambda>x. b_account x = b_account b) (\<lambda>_. b) (balances s), ledger := ledger s @ [r]\<rparr>"

lemma post_simps [simp]:
  "ledger (post s b r) = ledger s @ [r]" "accounts (post s b r) = accounts s"
  "checkouts (post s b r) = checkouts s" "transactions (post s b r) = transactions s"
  "prices (post s b r) = prices s" "provider_events (post s b r) = provider_events s"
  "outbox (post s b r) = outbox s" "costs (post s b r) = costs s"
  by (simp_all add: post_def)

lemma tbl_update_same_key: "map key (tbl_update (\<lambda>x. key x = key b) (\<lambda>_. b) t) = map key t"
  by (auto simp: tbl_update_def)

lemma find_balance_post:
  "find_balance acc (post s b r) =
     (if acc = b_account b then map_option (\<lambda>_. b) (find_balance acc s) else find_balance acc s)"
proof -
  have "tbl_find b_account acc (tbl_update (\<lambda>x. b_account x = b_account b) (\<lambda>_. b) t) =
      (if acc = b_account b then map_option (\<lambda>_. b) (tbl_find b_account acc t) else tbl_find b_account acc t)" for t
    by (induction t) (auto simp: tbl_update_def)
  then show ?thesis by (simp add: find_balance_def post_def)
qed

lemma find_entry_post:
  "find_entry acc key (post s b r) =
     (case find_entry acc key s of None \<Rightarrow> (if ledger_key r = (acc, key) then Some r else None) | Some e \<Rightarrow> Some e)"
  by (auto simp: find_entry_def tbl_find_append split: option.splits)

lemma post_keeps_wallet:
  assumes "wallet_ok s" "find_balance (l_account r) s = Some b0" "b_account b = l_account r"
    and "find_entry (l_account r) (l_claim r) s = None" "0 < l_points r"
    and "is_refund r \<Longrightarrow> refund_has_debit (ledger s) r"
    and "counters_ok (ledger s @ [r]) b"
  shows "wallet_ok (post s b r)"
proof -
  have keys: "b_account ` set (balances (post s b r)) = b_account ` set (balances s)"
    unfolding post_def by simp (metis list.set_map tbl_update_same_key)
  have "l_account r \<in> b_account ` set (balances s)" using find_balance_SomeD [OF assms(2)] by (metis image_eqI)
  moreover have "ledger_key r \<notin> ledger_key ` set (ledger s)"
    using assms(4) by (auto simp: find_entry_None_iff ledger_key_def)
  moreover have "counters_ok (ledger s @ [r]) x" if "x \<in> set (balances (post s b r))" for x
  proof (cases "x = b")
    case False
    then have "x \<in> set (balances s)" "b_account x \<noteq> b_account b"
      using that by (auto simp: post_def set_tbl_update split: if_splits)
    then show ?thesis using assms(1,3) by (auto simp: wallet_ok_def counters_ok_def)
  qed (simp add: assms(7))
  moreover have "refund_has_debit (ledger s) q \<Longrightarrow> refund_has_debit (ledger s @ [r]) q" for q
    unfolding refund_has_debit_def by auto
  moreover have "distinct (map b_account (balances (post s b r)))"
    using assms(1) by (simp add: wallet_ok_def post_def tbl_update_same_key)
  ultimately show ?thesis using assms(1,5,6) unfolding wallet_ok_def keys by auto
qed


section \<open>The transactions\<close>

lemma claim_entry_fresh:
  "find_entry (l_account r) (l_claim r) s = None \<Longrightarrow> claim_entry r s = (Inr (), s\<lparr>ledger := ledger s @ [r]\<rparr>)"
  by (simp add: claim_entry_def create_entry_def action_defs tbl_create_def find_entry_def ledger_key_def)

lemma update_then_claim:
  assumes "find_entry (l_account r) (l_claim r) s = None"
  shows "act_seq (update_balance b) (claim_entry r) s =
    (if int4 (b_balance b) \<and> int4 (b_granted b) \<and> int4 (b_spent b) then (Inr (), post s b r) else (Inl DB_OUT_OF_RANGE, s))"
proof -
  have "find_entry (l_account r) (l_claim r) (s\<lparr>balances := x\<rparr>) = None" for x
    using assms by (simp add: find_entry_def)
  from claim_entry_fresh [OF this] show ?thesis
    by (simp add: act_seq_def act_bind_def update_balance_def post_def)
qed

definition debit_entry :: "call \<Rightarrow> string \<Rightarrow> billing_metric \<Rightarrow> int \<Rightarrow> int \<Rightarrow> string \<Rightarrow> ledger_entry" where
  "debit_entry c acc metric points after claimKey =
     \<lparr>l_id = call_id c 0, l_account = acc, l_direction = debit, l_reason = spend, l_metric = Some metric,
      l_points = points, l_balance_after = after, l_claim = claimKey, l_transaction = None, l_expires = None,
      l_created = call_now c\<rparr>"

definition refund_entry :: "call \<Rightarrow> ledger_entry \<Rightarrow> int \<Rightarrow> ledger_entry" where
  "refund_entry c d after =
     \<lparr>l_id = call_id c 0, l_account = l_account d, l_direction = credit, l_reason = refund, l_metric = l_metric d,
      l_points = l_points d, l_balance_after = after, l_claim = refund_key (l_claim d), l_transaction = None,
      l_expires = None, l_created = call_now c\<rparr>"

lemma entry_simps [simp]:
  "l_account (debit_entry c acc m p after key) = acc" "l_claim (debit_entry c acc m p after key) = key"
  "l_points (debit_entry c acc m p after key) = p" "l_direction (debit_entry c acc m p after key) = debit"
  "l_reason (debit_entry c acc m p after key) = spend" "l_balance_after (debit_entry c acc m p after key) = after"
  "l_account (refund_entry c d after) = l_account d" "l_claim (refund_entry c d after) = refund_key (l_claim d)"
  "l_points (refund_entry c d after) = l_points d" "l_direction (refund_entry c d after) = credit"
  "l_reason (refund_entry c d after) = refund" "l_balance_after (refund_entry c d after) = after"
  by (simp_all add: debit_entry_def refund_entry_def)

definition spent_state :: "call \<Rightarrow> string \<Rightarrow> billing_metric \<Rightarrow> int \<Rightarrow> string \<Rightarrow> balance \<Rightarrow> billing \<Rightarrow> billing" where
  "spent_state c acc metric points claimKey b s =
     post s (b\<lparr>b_balance := b_balance b - points, b_spent := b_spent b + points\<rparr>)
       (debit_entry c acc metric points (b_balance b - points) claimKey)"

definition refunded_state :: "call \<Rightarrow> ledger_entry \<Rightarrow> balance \<Rightarrow> billing \<Rightarrow> billing" where
  "refunded_state c d b s = post s (b\<lparr>b_balance := b_balance b + l_points d\<rparr>) (refund_entry c d (b_balance b + l_points d))"

lemma spend_tx_fresh:
  assumes "find_entry acc key s = None" "find_balance acc s = Some b"
  shows "spend_tx c acc m p key s =
    (if b_balance b < p then (Inl BILLING_INSUFFICIENT_POINTS, s)
     else if int4 (b_balance b - p) \<and> int4 (b_granted b) \<and> int4 (b_spent b + p)
       then (Inr (), spent_state c acc m p key b s) else (Inl DB_OUT_OF_RANGE, s))"
  using assms update_then_claim [of "debit_entry c acc m p (b_balance b - p) key" s]
  by (simp add: spend_tx_def spent_state_def debit_entry_def [symmetric] Let_def)

lemma refund_tx_fresh:
  assumes "find_entry acc (refund_key key) s = None" "find_entry acc key s = Some d" "l_direction d = debit"
    and "find_balance acc s = Some b"
  shows "refund_tx c acc key s =
    (if int4 (b_balance b + l_points d) \<and> int4 (b_granted b) \<and> int4 (b_spent b)
     then (Inr (), refunded_state c d b s) else (Inl DB_OUT_OF_RANGE, s))"
proof -
  have d: "l_account d = acc" "l_claim d = key" using find_entry_SomeD [OF assms(2)] by simp_all
  have "refund_tx c acc key s =
      act_seq (update_balance (b\<lparr>b_balance := b_balance b + l_points d\<rparr>)) (claim_entry (refund_entry c d (b_balance b + l_points d))) s"
    using assms unfolding refund_tx_def refund_entry_def d by (simp add: Let_def)
  then show ?thesis using update_then_claim [of "refund_entry c d (b_balance b + l_points d)" s] assms(1)
    by (simp add: d refunded_state_def)
qed

lemma spend_tx_cases:
  assumes "spend_tx c acc m p key s = (Inr u, t)"
  obtains (replay) e where "find_entry acc key s = Some e" "t = s"
  | (posted) b where "find_entry acc key s = None" "find_balance acc s = Some b" "p \<le> b_balance b"
      "t = spent_state c acc m p key b s"
proof (cases "find_entry acc key s")
  case None
  show thesis
  proof (cases "find_balance acc s")
    case (Some b)
    then show thesis using assms spend_tx_fresh [OF None Some, of c m p] posted [OF None Some]
      by (auto split: if_splits)
  next
    case no_balance: None
    show thesis using assms by (simp add: spend_tx_def None no_balance)
  qed
next
  case (Some e)
  then have "t = s" using assms by (simp add: spend_tx_def)
  with Some show thesis by (rule replay)
qed

lemma refund_tx_cases:
  assumes "refund_tx c acc key s = (Inr u, t)"
  obtains (noop) "t = s"
  | (posted) d b where "find_entry acc (refund_key key) s = None" "find_entry acc key s = Some d"
      "l_direction d = debit" "find_balance acc s = Some b" "t = refunded_state c d b s"
proof (cases "find_entry acc (refund_key key) s")
  case None
  show thesis
  proof (cases "find_entry acc key s")
    case (Some d)
    show thesis
    proof (cases "l_direction d = debit \<and> (\<exists>b. find_balance acc s = Some b)")
      case True
      then obtain b where b: "find_balance acc s = Some b" and d: "l_direction d = debit" by blast
      then show thesis using assms refund_tx_fresh [OF None Some d b, of c] posted [OF None Some d b]
        by (auto split: if_splits)
    next
      case False
      then have "t = s" using assms by (cases "find_balance acc s") (auto simp: refund_tx_def None Some split: if_splits)
      then show thesis by (rule noop)
    qed
  next
    case no_debit: None
    have "t = s" using assms by (simp add: refund_tx_def None no_debit)
    then show thesis by (rule noop)
  qed
next
  case (Some e)
  then have "t = s" using assms by (simp add: refund_tx_def)
  then show thesis by (rule noop)
qed

lemma spent_state_keeps_wallet:
  assumes "wallet_ok s" "0 < p" "find_entry acc key s = None" "find_balance acc s = Some b" "p \<le> b_balance b"
  shows "wallet_ok (spent_state c acc m p key b s)"
proof -
  have b: "b_account b = acc" "counters_ok (ledger s) b"
    using assms(1,4) by (auto dest: find_balance_SomeD wallet_balance)
  then show ?thesis unfolding spent_state_def
    using assms by (intro post_keeps_wallet) (auto simp: counters_ok_def entry_kinds)
qed

lemma refunded_state_keeps_wallet:
  assumes "wallet_ok s" "find_entry acc (refund_key key) s = None" "find_entry acc key s = Some d" "l_direction d = debit"
    and "find_balance acc s = Some b"
  shows "wallet_ok (refunded_state c d b s)"
proof -
  have b: "b_account b = acc" "counters_ok (ledger s) b"
    using assms(1,5) by (auto dest: find_balance_SomeD wallet_balance)
  have d: "d \<in> set (ledger s)" "l_account d = acc" "l_claim d = key" using find_entry_SomeD [OF assms(3)] by simp_all
  have "0 < l_points d" using assms(1) d(1) by (simp add: wallet_ok_def)
  moreover have "refund_has_debit (ledger s) (refund_entry c d (b_balance b + l_points d))"
    using d(1) assms(4) unfolding refund_has_debit_def by (intro bexI [of _ d]) (simp_all add: is_debit_def)
  ultimately show ?thesis unfolding refunded_state_def
    using assms b d by (intro post_keeps_wallet) (auto simp: counters_ok_def entry_kinds)
qed

end
