(* ===== verification/Billing_Checkout.thy ===== *)
theory Billing_Checkout
  imports Billing_Wallet Pub_Canonical
begin

text \<open>
  Buying points (billing.service.ts): creating a hosted checkout, and the webhook by which the
  payment provider confirms it. \<open>payment_provider\<close> is the interface of payment-provider.port.ts;
  the two adapters of the repository are in Payment_Providers. The environment \<open>E\<close> supplies
  SHA-256 and the number printer of the runtime, as for the publishing digests.
\<close>


section \<open>The provider port\<close>

record billing_data =
  bd_first_name :: string
  bd_last_name :: string
  bd_email :: string
  bd_phone :: string
  bd_apartment :: string
  bd_building :: string
  bd_floor :: string
  bd_street :: string
  bd_city :: string
  bd_country :: string
  bd_state :: string
  bd_postal_code :: string

record provider_checkout_input =
  pi_amount :: int
  pi_currency :: string
  pi_mode :: payment_mode
  pi_merchant_reference :: string
  pi_idempotency :: string
  pi_billing_data :: billing_data
  pi_metadata :: "(string \<times> string) list"

record provider_checkout_result =
  pr_provider :: string
  pr_ref :: string
  pr_url :: string
  pr_status :: checkout_status
  pr_expires :: int
  pr_sandbox :: bool

record payment_event =
  ev_provider :: string
  ev_external :: string
  ev_fingerprint :: string
  ev_type :: event_type
  ev_ref :: string
  ev_transaction :: string
  ev_amount :: int
  ev_currency :: string
  ev_mode :: payment_mode
  ev_signature_valid :: bool
  ev_payload :: json
  ev_occurred :: int

record webhook_input =
  wh_body :: json
  wh_raw :: "string option"
  wh_signature :: "string option"

datatype provider_error = ProviderSignatureError | ProviderPayloadError | ProviderOtherError

record payment_provider =
  pp_name :: string
  pp_create :: "call \<Rightarrow> provider_checkout_input \<Rightarrow> provider_error + provider_checkout_result"
  pp_verify :: "webhook_input \<Rightarrow> provider_error + payment_event"


section \<open>Checkout\<close>

definition checkout_key :: "checkout \<Rightarrow> string \<times> string" where
  "checkout_key r = (ch_account r, ch_idempotency r)"

definition event_key :: "provider_event \<Rightarrow> string \<times> string" where
  "event_key r = (e_provider r, e_external r)"

definition transaction_key :: "payment_transaction \<Rightarrow> string \<times> string" where
  "transaction_key r = (t_provider r, t_provider_id r)"

text \<open>
  Prices and checkouts are referred to by their identity, so their primary keys are modelled
  next to the unique index.
\<close>

definition price_clash :: "price \<Rightarrow> price \<Rightarrow> bool" where
  "price_clash p q \<longleftrightarrow> p_id p = p_id q \<or> p_code p = p_code q"

definition checkout_clash :: "checkout \<Rightarrow> checkout \<Rightarrow> bool" where
  "checkout_clash a x \<longleftrightarrow> ch_id a = ch_id x \<or> checkout_key a = checkout_key x"

interpretation event_index: unique_index event_key "tbl_find event_key" "tbl_create event_key"
  by (rule list_table_unique_index)

interpretation transaction_index: unique_index transaction_key "tbl_find transaction_key" "tbl_create transaction_key"
  by (rule list_table_unique_index)

definition bundle_price :: "call \<Rightarrow> point_bundle \<Rightarrow> price" where
  "bundle_price c b =
     \<lparr>p_id = call_id c 3, p_code = bundle_code b, p_plan = ''points'', p_interval = ''one_time'',
      p_amount = bundle_amount_egp b, p_currency = bundle_currency b, p_period_days = 0,
      p_points = Some (bundle_points b), p_public = True, p_name_en = bundle_name_en b, p_name_ar = bundle_name_ar b\<rparr>"

definition ensureBundlePrice :: "call \<Rightarrow> point_bundle \<Rightarrow> price billing_action" where
  "ensureBundlePrice c b s =
     (case tbl_find p_code (bundle_code b) (prices s) of
        Some existing \<Rightarrow>
          if p_amount existing \<noteq> bundle_amount_egp b \<or> p_currency existing \<noteq> bundle_currency b
            \<or> p_period_days existing \<noteq> 0 \<or> p_points existing \<noteq> Some (bundle_points b)
          then (Inl InternalServerError, s) else (Inr existing, s)
      | None \<Rightarrow>
          act_catch
            (act_seq (act_insert price_clash prices (\<lambda>t. prices_update (\<lambda>_. t)) (bundle_price c b) UNIQUE_VIOLATION)
              (act_return (bundle_price c b)))
            (\<lambda>e. if isPrismaUniqueError e
                 then act_bind (act_read (\<lambda>s. tbl_find p_code (bundle_code b) (prices s)))
                        (\<lambda>replay. case replay of Some p \<Rightarrow> act_return p | None \<Rightarrow> act_throw e)
                 else act_throw e) s)"

definition fingerprintCheckout :: "js_env \<Rightarrow> payment_mode \<Rightarrow> point_bundle \<Rightarrow> string" where
  "fingerprintCheckout E mode b = env_sha256 E (json_text E (JObj
     [(''bundle_code'', JStr (bundle_code b)), (''payment_mode'', JStr (payment_mode_name mode)),
      (''amount_egp'', JNum (of_int (bundle_amount_egp b))), (''currency'', JStr (bundle_currency b))]))"

definition resolveBillingData :: "string \<Rightarrow> billing \<Rightarrow> billing_data" where
  "resolveBillingData userId s =
     (let user = tbl_find u_id userId (users s);
          fullName = (case user of None \<Rightarrow> [] | Some u \<Rightarrow> (case u_full_name u of None \<Rightarrow> [] | Some n \<Rightarrow> js_trim n));
          first = takeWhile (\<lambda>c. c \<noteq> CHR '' '') fullName;
          spaced = first \<noteq> [] \<and> length first < length fullName;
          firstName = (if spaced then first else if fullName = [] then ''MarketMind'' else fullName);
          lastName = (if spaced then js_trim (drop (length first + 1) fullName) else ''Customer'')
      in \<lparr>bd_first_name = firstName, bd_last_name = lastName,
          bd_email = (case user of None \<Rightarrow> ''billing@marketmind.example'' | Some u \<Rightarrow> u_email u),
          bd_phone = ''01000000000'', bd_apartment = ''1'', bd_building = ''1'', bd_floor = ''1'',
          bd_street = ''N/A'', bd_city = ''Cairo'', bd_country = ''EG'', bd_state = ''Cairo'', bd_postal_code = ''11511''\<rparr>)"

record checkout_request =
  rq_bundle :: string
  rq_mode :: payment_mode
  rq_idempotency :: string

record checkout_response =
  cr_id :: string
  cr_status :: checkout_status
  cr_url :: string
  cr_provider :: string
  cr_ref :: string
  cr_amount :: int
  cr_currency :: string
  cr_expires :: string
  cr_sandbox :: bool

definition toCheckoutResponse :: "checkout \<Rightarrow> checkout_response" where
  "toCheckoutResponse a =
     \<lparr>cr_id = ch_id a, cr_status = ch_status a, cr_url = (case ch_url a of None \<Rightarrow> [] | Some u \<Rightarrow> u),
      cr_provider = ch_provider a, cr_ref = (case ch_ref a of None \<Rightarrow> [] | Some r \<Rightarrow> r), cr_amount = ch_amount a,
      cr_currency = ''EGP'', cr_expires = toISOString (ch_expires a), cr_sandbox = ch_sandbox a\<rparr>"

definition findCheckoutByIdempotency :: "string \<Rightarrow> string \<Rightarrow> billing \<Rightarrow> checkout option" where
  "findCheckoutByIdempotency acc key s = tbl_find checkout_key (acc, key) (checkouts s)"

definition update_checkouts :: "(checkout \<Rightarrow> bool) \<Rightarrow> (checkout \<Rightarrow> checkout) \<Rightarrow> billing \<Rightarrow> billing" where
  "update_checkouts P f s = s\<lparr>checkouts := tbl_update P f (checkouts s)\<rparr>"

text \<open>
  The update of one checkout by its identity with what the provider answered; the provider's
  reference is under a unique index of its own.
\<close>

definition set_provider_checkout :: "checkout \<Rightarrow> provider_checkout_result \<Rightarrow> checkout billing_action" where
  "set_provider_checkout a r s =
     (let a' = a\<lparr>ch_ref := Some (pr_ref r), ch_url := Some (pr_url r), ch_expires := pr_expires r,
               ch_sandbox := pr_sandbox r, ch_status := pr_status r\<rparr>
      in if \<exists>x \<in> set (checkouts s). ch_id x \<noteq> ch_id a \<and> ch_ref x = Some (pr_ref r) then (Inl UNIQUE_VIOLATION, s)
         else (Inr a', update_checkouts (\<lambda>x. ch_id x = ch_id a) (\<lambda>_. a') s))"

definition new_checkout ::
  "call \<Rightarrow> string \<Rightarrow> account \<Rightarrow> price \<Rightarrow> checkout_request \<Rightarrow> string \<Rightarrow> point_bundle \<Rightarrow> checkout" where
  "new_checkout c provider account p rq fingerprint b =
     \<lparr>ch_id = call_id c 4, ch_account = a_id account, ch_price = p_id p, ch_idempotency = rq_idempotency rq,
      ch_fingerprint = fingerprint, ch_provider = provider, ch_ref = None, ch_url = None,
      ch_amount = bundle_amount_egp b, ch_currency = bundle_currency b, ch_mode = rq_mode rq, ch_sandbox = False,
      ch_status = checkout_pending, ch_expires = call_now c + 30 * 60 * 1000, ch_confirmed = None\<rparr>"

text \<open>After the row is created: ask the provider, and record its answer or the failure.\<close>

definition request_checkout ::
  "payment_provider \<Rightarrow> call \<Rightarrow> checkout \<Rightarrow> point_bundle \<Rightarrow> billing_data \<Rightarrow> checkout_response billing_action" where
  "request_checkout P c a b bd =
     act_catch
       (act_bind (act_lift (case pp_create P c
           \<lparr>pi_amount = bundle_amount_egp b, pi_currency = bundle_currency b, pi_mode = ch_mode a,
            pi_merchant_reference = ch_id a, pi_idempotency = ch_idempotency a, pi_billing_data = bd,
            pi_metadata = [(''billing_account_id'', ch_account a), (''bundle_code'', bundle_code b)]\<rparr>
          of Inl e \<Rightarrow> Inl ServiceUnavailable | Inr r \<Rightarrow> Inr r)) (\<lambda>r.
        act_bind (set_provider_checkout a r) (\<lambda>updated. act_return (toCheckoutResponse updated))))
       (\<lambda>e. act_seq (act_modify (update_checkouts (\<lambda>x. ch_id x = ch_id a) (\<lambda>x. x\<lparr>ch_status := checkout_failed\<rparr>)))
              (act_throw ServiceUnavailable))"

definition createCheckout ::
  "js_env \<Rightarrow> payment_provider \<Rightarrow> call \<Rightarrow> string \<Rightarrow> checkout_request \<Rightarrow> checkout_response billing_action" where
  "createCheckout E P c userId rq =
     (case getBillingBundle (rq_bundle rq) of
        None \<Rightarrow> act_throw BILLING_BUNDLE_NOT_FOUND
      | Some b \<Rightarrow>
          if rq_mode rq = recurring_card then act_throw BILLING_PROVIDER_UNAVAILABLE
          else act_bind (ensureBillingAccount c userId) (\<lambda>account.
            act_seq (assertAccountActive account)
            (act_bind (ensureBundlePrice c b) (\<lambda>storedPrice.
             let requestFingerprint = fingerprintCheckout E (rq_mode rq) b in
             act_bind (act_read (resolveBillingData userId)) (\<lambda>billingData.
             act_bind (act_read (findCheckoutByIdempotency (a_id account) (rq_idempotency rq))) (\<lambda>existing.
             case existing of
               Some x \<Rightarrow> if ch_fingerprint x \<noteq> requestFingerprint then act_throw BILLING_IDEMPOTENCY_CONFLICT
                         else act_return (toCheckoutResponse x)
             | None \<Rightarrow>
                 let attempt = new_checkout c (pp_name P) account storedPrice rq requestFingerprint b in
                 act_bind
                   (act_catch
                     (act_seq (act_insert checkout_clash checkouts (\<lambda>t. checkouts_update (\<lambda>_. t)) attempt UNIQUE_VIOLATION)
                       (act_return None))
                     (\<lambda>e. if isPrismaUniqueError e
                          then act_bind (act_read (findCheckoutByIdempotency (a_id account) (rq_idempotency rq))) (\<lambda>replay.
                            case replay of
                              Some x \<Rightarrow> if ch_fingerprint x = requestFingerprint then act_return (Some x)
                                        else act_throw BILLING_IDEMPOTENCY_CONFLICT
                            | None \<Rightarrow> act_throw BILLING_IDEMPOTENCY_CONFLICT)
                          else act_throw e))
                   (\<lambda>raced. case raced of
                      Some x \<Rightarrow> act_return (toCheckoutResponse x)
                    | None \<Rightarrow> request_checkout P c attempt b billingData)))))))"


section \<open>Webhook\<close>

text \<open>The checkout with its price, as \<open>include: { price: true }\<close> joins them.\<close>

definition with_price :: "billing \<Rightarrow> checkout \<Rightarrow> (checkout \<times> price) option" where
  "with_price s a = map_option (\<lambda>p. (a, p)) (tbl_find p_id (ch_price a) (prices s))"

definition find_checkout_by_ref :: "string \<Rightarrow> billing \<Rightarrow> (checkout \<times> price) option" where
  "find_checkout_by_ref r s =
     (case List.find (\<lambda>a. ch_ref a = Some r) (checkouts s) of None \<Rightarrow> None | Some a \<Rightarrow> with_price s a)"

definition topup_entry :: "call \<Rightarrow> string \<Rightarrow> int \<Rightarrow> int \<Rightarrow> string \<Rightarrow> string \<Rightarrow> ledger_entry" where
  "topup_entry c acc points after txn_ref txn_id =
     \<lparr>l_id = call_id c 1, l_account = acc, l_direction = credit, l_reason = topup, l_metric = None,
      l_points = points, l_balance_after = after, l_claim = ''topup:'' @ txn_ref, l_transaction = Some txn_id,
      l_expires = Some (addDays (call_now c) 365), l_created = call_now c\<rparr>"

text \<open>The Arabic name of the bundle (\<open>bundle_name_ar\<close>) is left out: it lies outside the code units of the model.\<close>

definition confirmation_payload :: "payment_event \<Rightarrow> point_bundle \<Rightarrow> json" where
  "confirmation_payload ev b = JObj
     [(''transaction_ref'', JStr (ev_transaction ev)), (''bundle_code'', JStr (bundle_code b)),
      (''bundle_name_en'', JStr (bundle_name_en b)), (''points_granted'', JNum (of_int (bundle_points b))),
      (''amount_egp'', JNum (of_int (ev_amount ev))), (''currency'', JStr (ev_currency ev)),
      (''confirmed_at'', JStr (toISOString (ev_occurred ev)))]"

definition confirmation_row :: "call \<Rightarrow> string \<Rightarrow> payment_event \<Rightarrow> point_bundle \<Rightarrow> outbox_row" where
  "confirmation_row c acc ev b =
     \<lparr>o_id = call_id c 2, o_account = acc, o_event_type = ''billing.payment_confirmed'',
      o_dedupe = ev_provider ev @ '':'' @ ev_external ev, o_payload = confirmation_payload ev b,
      o_state = outbox_pending, o_attempts = 0, o_lease_owner = None, o_lease_expires = None,
      o_next_attempt = None, o_last_error = None, o_dispatched = None, o_created = call_now c\<rparr>"

definition charge_row :: "call \<Rightarrow> checkout \<Rightarrow> payment_event \<Rightarrow> payment_transaction" where
  "charge_row c a ev =
     \<lparr>t_id = call_id c 0, t_account = ch_account a, t_checkout = Some (ch_id a), t_provider = ev_provider ev,
      t_provider_id = ev_transaction ev, t_kind = ''charge'', t_status = ''succeeded'', t_amount = ev_amount ev,
      t_currency = ev_currency ev, t_mode = Some (ev_mode ev), t_occurred = ev_occurred ev\<rparr>"

definition applyPaidEvent :: "call \<Rightarrow> checkout \<times> price \<Rightarrow> payment_event \<Rightarrow> unit billing_action" where
  "applyPaidEvent c ap ev s =
     (case tbl_find transaction_key (ev_provider ev, ev_transaction ev) (transactions s) of
        Some existingTransaction \<Rightarrow> (Inr (), s)
      | None \<Rightarrow>
          (case getBillingBundle (p_code (snd ap)) of
             None \<Rightarrow> (Inl BILLING_BUNDLE_NOT_FOUND, s)
           | Some b \<Rightarrow>
               (let attempt = fst ap; acc = ch_account attempt in
                act_seq (act_create transaction_key transactions (\<lambda>t. transactions_update (\<lambda>_. t)) (charge_row c attempt ev) UNIQUE_VIOLATION)
                (act_seq (act_modify (update_checkouts (\<lambda>x. ch_id x = ch_id attempt)
                    (\<lambda>x. x\<lparr>ch_status := checkout_succeeded, ch_confirmed := Some (ev_occurred ev)\<rparr>)))
                (act_bind (act_read (find_balance acc)) (\<lambda>balance.
                 case balance of
                   None \<Rightarrow> act_throw InternalServerError
                 | Some w \<Rightarrow>
                     let balanceAfter = b_balance w + bundle_points b in
                     act_seq (update_balance (w\<lparr>b_balance := balanceAfter, b_granted := b_granted w + bundle_points b\<rparr>))
                     (act_seq (create_entry (topup_entry c acc (bundle_points b) balanceAfter (ev_transaction ev) (call_id c 0)))
                       (act_create o_dedupe outbox (\<lambda>t. outbox_update (\<lambda>_. t)) (confirmation_row c acc ev b) UNIQUE_VIOLATION))))) s)))"

definition set_event_status :: "string \<times> string \<Rightarrow> (provider_event \<Rightarrow> provider_event) \<Rightarrow> unit billing_action" where
  "set_event_status key f = act_modify (\<lambda>s. s\<lparr>provider_events := tbl_update (\<lambda>r. event_key r = key) f (provider_events s)\<rparr>)"

definition received_event :: "checkout \<Rightarrow> payment_event \<Rightarrow> provider_event" where
  "received_event a ev =
     \<lparr>e_account = Some (ch_account a), e_provider = ev_provider ev, e_external = ev_external ev,
      e_fingerprint = ev_fingerprint ev, e_type = ev_type ev, e_signature_valid = ev_signature_valid ev,
      e_status = received, e_payload = ev_payload ev, e_received = ev_occurred ev, e_processed = None\<rparr>"

datatype webhook_progress = already_processed | carry_on bool

text \<open>
  Recording the event. \<open>existing\<close> was read before: another request may have inserted the same
  event since, which shows as a unique violation.
\<close>

definition record_event :: "provider_event option \<Rightarrow> checkout \<Rightarrow> payment_event \<Rightarrow> webhook_progress billing_action" where
  "record_event existing a ev =
     (let key = (ev_provider ev, ev_external ev) in
      case existing of
        Some x \<Rightarrow>
          if e_fingerprint x \<noteq> ev_fingerprint ev then act_throw BILLING_PROVIDER_EVENT_DUPLICATE
          else act_seq (set_event_status key (\<lambda>r. r\<lparr>e_status := received, e_processed := None\<rparr>))
                 (act_return (carry_on True))
      | None \<Rightarrow>
          act_catch
            (act_seq (act_create event_key provider_events (\<lambda>t. provider_events_update (\<lambda>_. t)) (received_event a ev) UNIQUE_VIOLATION)
              (act_return (carry_on False)))
            (\<lambda>e. if \<not> isPrismaUniqueError e then act_throw e
                 else act_bind (act_read (\<lambda>s. tbl_find event_key key (provider_events s))) (\<lambda>raced.
                   case raced of
                     None \<Rightarrow> act_throw BILLING_PROVIDER_EVENT_DUPLICATE
                   | Some x \<Rightarrow>
                       if e_fingerprint x \<noteq> ev_fingerprint ev then act_throw BILLING_PROVIDER_EVENT_DUPLICATE
                       else act_return (if e_status x = processed then already_processed else carry_on True))))"

definition apply_event :: "call \<Rightarrow> checkout \<times> price \<Rightarrow> payment_event \<Rightarrow> unit billing_action" where
  "apply_event c ap ev =
     (if ev_type ev = event_paid then applyPaidEvent c ap ev
      else act_modify (update_checkouts (\<lambda>x. ch_id x = ch_id (fst ap))
             (\<lambda>x. x\<lparr>ch_status := (if ev_type ev = event_pending then checkout_pending else checkout_failed)\<rparr>)))"

definition process_event :: "call \<Rightarrow> checkout \<times> price \<Rightarrow> payment_event \<Rightarrow> unit billing_action" where
  "process_event c ap ev =
     (let key = (ev_provider ev, ev_external ev) in
      act_catch
        (act_seq (transaction (apply_event c ap ev))
          (set_event_status key (\<lambda>r. r\<lparr>e_status := processed, e_processed := Some (call_now c)\<rparr>)))
        (\<lambda>e. act_seq (set_event_status key (\<lambda>r. r\<lparr>e_status := event_row_failed\<rparr>)) (act_throw e)))"

text \<open>What follows the two reads; \<open>Inr d\<close> is \<open>{ accepted: true, duplicate: d }\<close>.\<close>

definition webhook_write ::
  "call \<Rightarrow> provider_event option \<Rightarrow> checkout \<times> price \<Rightarrow> payment_event \<Rightarrow> bool billing_action" where
  "webhook_write c existing ap ev =
     act_bind (record_event existing (fst ap) ev) (\<lambda>p.
       case p of already_processed \<Rightarrow> act_return True
       | carry_on dup \<Rightarrow> act_seq (process_event c ap ev) (act_return dup))"

definition webhook_event :: "call \<Rightarrow> payment_event \<Rightarrow> bool billing_action" where
  "webhook_event c ev s =
     (let existing = tbl_find event_key (ev_provider ev, ev_external ev) (provider_events s) in
      if map_option e_status existing = Some processed then (Inr True, s)
      else (case find_checkout_by_ref (ev_ref ev) s of
          None \<Rightarrow> (Inl BILLING_CHECKOUT_NOT_FOUND, s)
        | Some ap \<Rightarrow>
            if ch_amount (fst ap) \<noteq> ev_amount ev \<or> ch_currency (fst ap) \<noteq> ev_currency ev
            then (Inl BILLING_AMOUNT_MISMATCH, s)
            else webhook_write c existing ap ev s))"

definition handleWebhook ::
  "payment_provider \<Rightarrow> call \<Rightarrow> string \<Rightarrow> webhook_input \<Rightarrow> bool billing_action" where
  "handleWebhook P c providerName input =
     (if providerName \<noteq> pp_name P then act_throw BILLING_PROVIDER_UNAVAILABLE
      else case pp_verify P input of
        Inl ProviderSignatureError \<Rightarrow> act_throw BILLING_PROVIDER_SIGNATURE_INVALID
      | Inl ProviderPayloadError \<Rightarrow> act_throw BILLING_PROVIDER_UNAVAILABLE
      | Inl ProviderOtherError \<Rightarrow> act_throw InternalServerError
      | Inr ev \<Rightarrow> webhook_event c ev)"

end
