(* ===== verification/Billing_Samples.thy ===== *)
theory Billing_Samples
  imports Billing_Claims
begin

text \<open>
  Concrete requests for the properties of the wallet: one account with its trial grant, one
  pending checkout for the smallest bundle, and the webhooks that concern it.
\<close>

definition sample_call :: call where
  "sample_call = \<lparr>call_now = 1000, call_id = \<lambda>i. ''id'' @ replicate i (CHR ''x'')\<rparr>"

definition sample_account :: account where
  "sample_account = \<lparr>a_id = ''acc'', a_owner = ''owner'', a_business = None, a_status = ''active''\<rparr>"

definition sample_bundle :: point_bundle where
  "sample_bundle = the (getBillingBundle ''starter_150'')"

definition sample_price :: price where
  "sample_price = \<lparr>p_id = ''price'', p_code = ''starter_150'', p_plan = ''points'', p_interval = ''one_time'',
     p_amount = 100, p_currency = ''EGP'', p_period_days = 0, p_points = Some 150, p_public = True,
     p_name_en = ''Starter'', p_name_ar = []\<rparr>"

definition sample_checkout :: checkout where
  "sample_checkout = \<lparr>ch_id = ''co'', ch_account = ''acc'', ch_price = ''price'', ch_idempotency = ''key'',
     ch_fingerprint = ''fp'', ch_provider = ''fake'', ch_ref = Some ''ref'', ch_url = None, ch_amount = 100,
     ch_currency = ''EGP'', ch_mode = one_time_card, ch_sandbox = True, ch_status = checkout_pending,
     ch_expires = 5000, ch_confirmed = None\<rparr>"

definition sample_balance :: balance where
  "sample_balance = \<lparr>b_account = ''acc'', b_balance = 65, b_granted = 65, b_spent = 0\<rparr>"

definition sample_store :: billing where
  "sample_store = \<lparr>users = [], businesses = [], accounts = [sample_account], balances = [sample_balance],
     ledger = [trial_entry sample_call sample_account], prices = [sample_price], checkouts = [sample_checkout],
     transactions = [], provider_events = [], outbox = [], costs = []\<rparr>"

definition sample_event :: "string \<Rightarrow> event_type \<Rightarrow> payment_event" where
  "sample_event x ty = \<lparr>ev_provider = ''fake'', ev_external = x, ev_fingerprint = x, ev_type = ty, ev_ref = ''ref'',
     ev_transaction = ''txn'', ev_amount = 100, ev_currency = ''EGP'', ev_mode = one_time_card,
     ev_signature_valid = True, ev_payload = JNull, ev_occurred = 2000\<rparr>"

definition sample_provider :: payment_provider where
  "sample_provider = \<lparr>pp_name = ''fake'', pp_create = \<lambda>c i. Inl ProviderOtherError,
     pp_verify = \<lambda>i. case wh_signature i of None \<Rightarrow> Inl ProviderSignatureError | Some x \<Rightarrow> Inr (sample_event x event_paid)\<rparr>"

lemma sample_bundle_eq: "getBillingBundle ''starter_150'' = Some sample_bundle" "bundle_points sample_bundle = 150"
  "bundle_amount_egp sample_bundle = 100" "bundle_currency sample_bundle = ''EGP''"
  by (simp_all add: sample_bundle_def getBillingBundle_def BILLING_BUNDLES_def)

lemma sample_entry_simps [simp]:
  "l_account (trial_entry c a) = a_id a" "l_points (trial_entry c a) = 65" "l_direction (trial_entry c a) = credit"
  "l_reason (trial_entry c a) = trial_grant" "l_claim (trial_entry c a) = ''trial-grant:'' @ a_id a"
  by (simp_all add: trial_entry_def TRIAL_GRANT_POINTS_def)

lemma sample_finds:
  "find_account ''owner'' sample_store = Some sample_account" "find_balance ''acc'' sample_store = Some sample_balance"
  "find_entry ''acc'' ''job'' sample_store = None" "find_entry ''acc'' (refund_key ''job'') sample_store = None"
  "find_checkout_by_ref ''ref'' sample_store = Some (sample_checkout, sample_price)"
  by (simp_all add: find_account_def find_balance_def find_entry_def sample_store_def sample_account_def sample_balance_def
      sample_checkout_def sample_price_def find_checkout_by_ref_def with_price_def ledger_key_def refund_key_def)

lemma sample_ok: "billing_ok sample_store"
proof -
  have w: "wallet_ok sample_store"
    by (simp add: wallet_ok_def sample_store_def sample_account_def sample_balance_def counters_ok_def entry_kinds)
  have "catalogue_price sample_price" "priced_checkout sample_store sample_checkout"
    using sample_bundle_eq
    by (simp_all add: catalogue_price_def sample_price_def priced_checkout_def sample_store_def sample_checkout_def)
  then have "payments_ok sample_store" by (simp add: payments_ok_def sample_store_def is_topup_def)
  with w show ?thesis by (simp add: billing_ok_def)
qed

lemma sample_points: "is_safe_integer 2" "\<lfloor>pointsForMetric static_image 2\<rfloor> = 16"
  by (simp_all add: is_safe_integer_def pointsForMetric_def)

definition spent_store :: billing where
  "spent_store = spent_state sample_call ''acc'' static_image 16 ''job'' sample_balance sample_store"

lemma sample_spend: "spendPoints sample_call ''owner'' static_image 2 ''job'' sample_store = (Inr (), spent_store)"
proof -
  have "spend_tx sample_call ''acc'' static_image 16 ''job'' sample_store = (Inr (), spent_store)"
    unfolding spend_tx_fresh [OF sample_finds(3,2)] by (simp add: sample_balance_def int4_def spent_store_def)
  moreover have "a_id sample_account = ''acc''" "a_status sample_account = ''active''" by (simp_all add: sample_account_def)
  ultimately show ?thesis
    by (simp add: spendPoints_def sample_points act_bind_def act_seq_def ensureBillingAccount_found [OF sample_finds(1)]
        assertAccountActive_eq transaction_def)
qed

definition refunded_store :: billing where
  "refunded_store = snd (refundPoints sample_call ''owner'' ''job'' spent_store)"

lemma sample_refund: "refundPoints sample_call ''owner'' ''job'' spent_store = (Inr (), refunded_store)"
proof -
  let ?d = "debit_entry sample_call ''acc'' static_image 16 49 ''job''"
  let ?b = "sample_balance\<lparr>b_balance := 49, b_spent := 16\<rparr>"
  have acc: "a_id sample_account = ''acc''" by (simp add: sample_account_def)
  have b: "b_account sample_balance = ''acc''" "b_balance sample_balance = 65" "b_spent sample_balance = 0" "b_granted sample_balance = 65"
    by (simp_all add: sample_balance_def)
  have "find_account ''owner'' spent_store = Some sample_account" "find_entry ''acc'' (refund_key ''job'') spent_store = None"
    "find_entry ''acc'' ''job'' spent_store = Some ?d" "find_balance ''acc'' spent_store = Some ?b"
    using sample_finds b by (simp_all add: spent_store_def spent_state_def find_entry_post find_balance_post ledger_key_def refund_key_def)
  note f = this
  have "refund_tx sample_call ''acc'' ''job'' spent_store = (Inr (), refunded_state sample_call ?d ?b spent_store)"
    unfolding refund_tx_fresh [OF f(2,3) _ f(4), simplified] using b by (simp add: int4_def)
  then have "fst (refundPoints sample_call ''owner'' ''job'' spent_store) = Inr ()"
    by (simp add: refundPoints_def act_bind_def ensureBillingAccount_found [OF f(1)] acc transaction_def)
  then show ?thesis unfolding refunded_store_def by (metis prod.collapse)
qed

end
