(* ===== verification/Billing_Theorems.thy ===== *)
theory Billing_Theorems
  imports Billing_Samples Sample_Data
begin

text \<open>
  The properties of the wallet: solvency over any history of requests, the correspondence of
  payments and credited points, idempotence of spends, refunds and webhooks, and the refinement
  of an abstract wallet that knows only which claims were made.
\<close>


section \<open>Solvency\<close>

lemma refund_sum_bound:
  assumes "wallet_ok s"
  shows "ledger_sum is_refund acc (ledger s) \<le> ledger_sum is_debit acc (ledger s)"
proof -
  let ?L = "ledger s"
  let ?R = "{r \<in> set ?L. l_account r = acc \<and> is_refund r}"
  let ?D = "{r \<in> set ?L. l_account r = acc \<and> is_debit r}"
  have dk: "distinct (map ledger_key ?L)" using assms by (simp add: wallet_ok_def)
  then have d: "distinct ?L" by (metis distinct_map)
  have sums: "ledger_sum P acc ?L = (\<Sum>r \<in> {r \<in> set ?L. l_account r = acc \<and> P r}. l_points r)" for P
  proof -
    have "ledger_sum P acc ?L = (\<Sum>r \<in> set ?L. if l_account r = acc \<and> P r then l_points r else 0)"
      unfolding ledger_sum_def by (simp add: sum_list_distinct_conv_sum_set [OF d])
    also have "\<dots> = (\<Sum>r \<in> {r \<in> set ?L. l_account r = acc \<and> P r}. l_points r)"
      by (simp add: sum.inter_filter)
    finally show ?thesis .
  qed
  define pair where "pair d = the (tbl_find ledger_key (acc, refund_key (l_claim d)) ?L)" for d :: ledger_entry
  have "(\<Sum>r \<in> ?R. l_points r) \<le> (\<Sum>r \<in> ?D. l_points r)"
  proof (rule sum_le_included [where i = pair])
    show "\<forall>y \<in> ?D. 0 \<le> l_points y" using assms by (auto simp: wallet_ok_def)
    show "\<forall>x \<in> ?R. \<exists>y \<in> ?D. pair y = x \<and> l_points x \<le> l_points y"
    proof
      fix r assume r: "r \<in> ?R"
      then have "refund_has_debit ?L r" using assms by (auto simp: wallet_ok_def)
      then obtain x where x: "x \<in> set ?L" "is_debit x" "l_account x = acc" "l_points x = l_points r"
        "l_claim r = refund_key (l_claim x)" using r unfolding refund_has_debit_def by auto
      have "tbl_find ledger_key (acc, refund_key (l_claim x)) ?L = Some r"
        using r x(5) tbl_find_Some_iff_distinct [OF dk] by (simp add: ledger_key_def)
      then have "pair x = r" by (simp add: pair_def)
      with x show "\<exists>y \<in> ?D. pair y = r \<and> l_points r \<le> l_points y" by auto
    qed
  qed simp_all
  then show ?thesis by (simp only: sums)
qed

lemma credit_split: "ledger_sum is_credit acc L = ledger_sum is_grant acc L + ledger_sum is_refund acc L"
  by (induction L) (auto simp: entry_kinds)

lemma history_ok: "billing_ok s \<Longrightarrow> billing_ok (foldl (billing_step E P) s reqs)"
  by (rule billing_life.run_inv) simp_all

text \<open>
  C29. A wallet stays solvent and consistent with its ledger: after any sequence of requests to the
  billing service (wallet reads, spends, refunds, strategy releases, checkouts, webhooks, with
  any arguments), every balance is what was granted less what was spent plus what was refunded,
  it is never negative, and never exceeds what was granted.
\<close>

theorem wallet_stays_solvent:
  assumes "billing_ok s" "b \<in> set (balances (foldl (billing_step E P) s reqs))"
  shows "0 \<le> b_balance b \<and> b_balance b \<le> b_granted b
    \<and> b_balance b = b_granted b - b_spent b
        + ledger_sum is_refund (b_account b) (ledger (foldl (billing_step E P) s reqs))"
proof -
  let ?t = "foldl (billing_step E P) s reqs"
  have w: "wallet_ok ?t" using history_ok [OF assms(1)] by (simp add: billing_ok_def)
  then have "counters_ok (ledger ?t) b" using assms(2) by (simp add: wallet_ok_def)
  with refund_sum_bound [OF w, of "b_account b"] show ?thesis
    by (simp add: counters_ok_def credit_split)
qed

text \<open>
  C30. Points are credited exactly once for each payment, for the price of the bundle: after any
  sequence of requests, the recorded payment transactions and the top-up entries of the ledger
  correspond one to one, in order, with the same account, transaction reference and row, and the
  points credited are those of the bundle whose price is the amount paid.
\<close>

theorem payments_match_points:
  assumes "billing_ok s"
  shows "map paid_view (transactions (foldl (billing_step E P) s reqs))
    = map topup_view (filter is_topup (ledger (foldl (billing_step E P) s reqs)))"
  using history_ok [OF assms] by (simp add: billing_ok_def payments_ok_def)


section \<open>Idempotence\<close>

lemma find_account_opened: "find_account u s = None \<Longrightarrow> a_owner a = u \<Longrightarrow> find_account u (opened_state c a s) = Some a"
  by (simp add: find_account_def opened_state_def tbl_find_append)

lemma ensure_then_found:
  assumes "ensureBillingAccount c u s = (Inr a, t)"
  shows "find_account u t = Some a"
  using assms by (cases rule: ensureBillingAccount_cases) (simp_all add: find_account_opened)

text \<open>A successful spend of a priced metric: where it leaves the database.\<close>

lemma spendPoints_cases:
  assumes "spendPoints c u m n key s = (Inr x, t)" "POINT_PRICES m \<noteq> 0"
  obtains a s1 where "is_safe_integer n" "0 < n" "0 < \<lfloor>pointsForMetric m n\<rfloor>"
    "ensureBillingAccount c u s = (Inr a, s1)" "a_status a \<noteq> ''paused''"
    "spend_tx c (a_id a) m \<lfloor>pointsForMetric m n\<rfloor> key s1 = (Inr x, t)"
proof -
  have n: "is_safe_integer n" "0 < n" using assms(1) by (auto simp: spendPoints_def act_throw_def split: if_splits)
  obtain k where k: "0 < k" "pointsForMetric m n = of_int (int (POINT_PRICES m) * k)"
    using safe_units [OF n] by metis
  have pos: "0 < \<lfloor>pointsForMetric m n\<rfloor>" unfolding k(2) floor_of_int using k(1) assms(2) by simp
  obtain a s1 where e: "ensureBillingAccount c u s = (Inr a, s1)"
    and r: "act_seq (assertAccountActive a) (transaction (spend_tx c (a_id a) m \<lfloor>pointsForMetric m n\<rfloor> key)) s1 = (Inr x, t)"
    using assms(1) n pos by (auto simp: spendPoints_def Let_def act_bind_Inr split: if_splits)
  then have "a_status a \<noteq> ''paused''" "transaction (spend_tx c (a_id a) m \<lfloor>pointsForMetric m n\<rfloor> key) s1 = (Inr x, t)"
    by (auto simp: act_seq_Inr assertAccountActive_eq split: if_splits)
  then show thesis using that [OF n pos e] by (auto elim: transaction_cases)
qed

lemma spendPoints_again:
  assumes "is_safe_integer n" "0 < n" "0 < \<lfloor>pointsForMetric m n\<rfloor>" "find_account u t = Some a"
    "a_status a \<noteq> ''paused''" "find_entry (a_id a) key t = Some e"
  shows "spendPoints c u m n key t = (Inr (), t)"
  using assms
  by (simp add: spendPoints_def Let_def act_bind_def act_seq_def ensureBillingAccount_found assertAccountActive_eq
      transaction_def spend_tx_def)

lemma spend_tx_entry:
  assumes "spend_tx c acc m p key s = (Inr x, t)"
  shows "(\<exists>e. find_entry acc key t = Some e) \<and> (\<forall>u. find_account u t = find_account u s)"
  using assms by (cases rule: spend_tx_cases) (auto simp: spent_state_def find_entry_post ledger_key_def)

text \<open>
  A spend is charged once: when a spend under a claim key succeeded, repeating it (a queue
  replay, with any time and identifiers) succeeds and changes nothing.
\<close>

theorem spend_is_idempotent:
  assumes "spendPoints c u m n key s = (Inr x, t)"
  shows "spendPoints c' u m n key t = (Inr (), t)"
proof (cases "POINT_PRICES m = 0")
  case True
  then have "pointsForMetric m n = 0" by (simp add: pointsForMetric_def)
  with assms show ?thesis by (auto simp: spendPoints_def act_return_def act_throw_def split: if_splits)
next
  case False
  obtain a s1 where r: "is_safe_integer n" "0 < n" "0 < \<lfloor>pointsForMetric m n\<rfloor>"
    "ensureBillingAccount c u s = (Inr a, s1)" "a_status a \<noteq> ''paused''"
    "spend_tx c (a_id a) m \<lfloor>pointsForMetric m n\<rfloor> key s1 = (Inr x, t)"
    using spendPoints_cases [OF assms False] by metis
  obtain e where "find_entry (a_id a) key t = Some e" "find_account u t = Some a"
    using spend_tx_entry [OF r(6)] ensure_then_found [OF r(4)] by auto
  then show ?thesis by (intro spendPoints_again [OF r(1-3) _ r(5)])
qed

text \<open>What a refund does after the spend it reverses.\<close>

lemma refundPoints_posted:
  assumes "find_account u t = Some a" "find_entry (a_id a) (refund_key key) t = None"
    "find_entry (a_id a) key t = Some d" "l_direction d = debit" "find_balance (a_id a) t = Some b"
    "refundPoints c u key t = (Inr x, v)"
  shows "v = refunded_state c d b t"
proof -
  have "transaction (refund_tx c (a_id a) key) t = (Inr x, v)"
    using assms(1,6) by (simp add: refundPoints_def act_bind_def ensureBillingAccount_found)
  then have "refund_tx c (a_id a) key t = (Inr x, v)" by (auto elim: transaction_cases)
  then show ?thesis unfolding refund_tx_fresh [OF assms(2-5)] by (auto split: if_splits)
qed

lemma refund_key_neq: "refund_key key \<noteq> key"
proof
  assume "refund_key key = key"
  then have "length (refund_key key) = length key" by simp
  then show False by (simp add: refund_key_def)
qed

lemma refunded_after_spent:
  assumes "find_account u s1 = Some a" "find_entry (a_id a) key s1 = None"
    "find_entry (a_id a) (refund_key key) s1 = None" "find_balance (a_id a) s1 = Some b"
    "spend_tx c (a_id a) m p key s1 = (Inr x, t)" "refundPoints c' u key t = (Inr y, v)"
  shows "\<exists>b2. find_balance (a_id a) v = Some b2 \<and> b_balance b2 = b_balance b
    \<and> (\<exists>e. find_entry (a_id a) key v = Some e) \<and> find_account u v = Some a"
proof -
  have t: "t = spent_state c (a_id a) m p key b s1"
    using assms(5) by (cases rule: spend_tx_cases) (use assms(2,4) in auto)
  have acc: "b_account b = a_id a" using find_balance_SomeD [OF assms(4)] by blast
  let ?b = "b\<lparr>b_balance := b_balance b - p, b_spent := b_spent b + p\<rparr>"
  let ?d = "debit_entry c (a_id a) m p (b_balance b - p) key"
  have "find_account u t = Some a" "find_entry (a_id a) (refund_key key) t = None" "find_entry (a_id a) key t = Some ?d"
    "find_balance (a_id a) t = Some ?b"
    using assms(1-4) acc refund_key_neq [of key]
    by (auto simp: t spent_state_def find_entry_post find_balance_post ledger_key_def)
  note f = this
  have "v = refunded_state c' ?d ?b t" by (rule refundPoints_posted [OF f(1-3) _ f(4) assms(6)]) simp
  then show ?thesis using f acc by (simp add: refunded_state_def find_entry_post find_balance_post)
qed

text \<open>
  C32. A refund gives back exactly what its spend took: when a fresh claim was spent and then
  refunded, the balance is what it was before the spend.
\<close>

theorem refund_restores_balance:
  assumes "find_account u s = Some a" "find_balance (a_id a) s = Some b"
    and "find_entry (a_id a) key s = None" "find_entry (a_id a) (refund_key key) s = None"
    and "POINT_PRICES m \<noteq> 0" "spendPoints c u m n key s = (Inr x, t)" "refundPoints c' u key t = (Inr y, v)"
  shows "map_option b_balance (find_balance (a_id a) v) = Some (b_balance b)"
proof -
  obtain s1 where r: "spend_tx c (a_id a) m \<lfloor>pointsForMetric m n\<rfloor> key s1 = (Inr x, t)" "s1 = s"
    using spendPoints_cases [OF assms(6,5)] assms(1) by (metis ensureBillingAccount_found prod.inject sum.inject(2))
  then show ?thesis using refunded_after_spent [OF assms(1,3,4,2)] assms(7) by fastforce
qed

text \<open>
  After a refund the claim key stays used up: a further spend under it succeeds without taking
  a point, so an artefact produced again under a refunded key is free.
\<close>

theorem respend_after_refund_is_free:
  assumes "find_account u s = Some a" "find_balance (a_id a) s = Some b"
    and "find_entry (a_id a) key s = None" "find_entry (a_id a) (refund_key key) s = None"
    and "POINT_PRICES m \<noteq> 0" "spendPoints c u m n key s = (Inr x, t)" "refundPoints c' u key t = (Inr y, v)"
  shows "spendPoints c'' u m n key v = (Inr (), v)
    \<and> map_option b_balance (find_balance (a_id a) v) = Some (b_balance b)"
proof -
  obtain a' s1 where r: "is_safe_integer n" "0 < n" "0 < \<lfloor>pointsForMetric m n\<rfloor>"
    "ensureBillingAccount c u s = (Inr a', s1)" "a_status a' \<noteq> ''paused''"
    "spend_tx c (a_id a') m \<lfloor>pointsForMetric m n\<rfloor> key s1 = (Inr x, t)"
    using spendPoints_cases [OF assms(6,5)] by metis
  have eq: "a' = a" "s1 = s" using r(4) assms(1) by (simp_all add: ensureBillingAccount_found)
  obtain e b2 where "find_entry (a_id a) key v = Some e" "find_account u v = Some a"
    "find_balance (a_id a) v = Some b2" "b_balance b2 = b_balance b"
    using refunded_after_spent [OF assms(1,3,4,2) r(6) [unfolded eq] assms(7)] by auto
  then show ?thesis using spendPoints_again [OF r(1-3) _ r(5) [unfolded eq]] by simp
qed

section \<open>Webhooks\<close>

definition stored_status :: "string \<times> string \<Rightarrow> billing \<Rightarrow> event_status option" where
  "stored_status key s = map_option e_status (tbl_find event_key key (provider_events s))"

definition credited :: "string \<times> string \<Rightarrow> billing \<Rightarrow> bool" where
  "credited key s \<longleftrightarrow> (\<exists>x. tbl_find transaction_key key (transactions s) = Some x)"

lemma set_event_status_stored:
  assumes "\<And>r. event_key (f r) = event_key r"
  shows "stored_status key (snd (set_event_status key f s))
    = map_option (e_status \<circ> f) (tbl_find event_key key (provider_events s))"
proof -
  have "tbl_find event_key key (tbl_update (\<lambda>r. event_key r = key) f t) = map_option f (tbl_find event_key key t)" for t
    unfolding tbl_find_update [of event_key f, OF assms]
    by (cases "tbl_find event_key key t") (auto dest: tbl_find_SomeD)
  then show ?thesis
    by (simp add: stored_status_def set_event_status_def act_modify_def option.map_comp)
qed

lemma post_provider_events: "provider_events (paid_state c a b w ev s) = provider_events s"
  by (simp add: paid_state_def Let_def)

lemma apply_event_frame:
  assumes "transaction (apply_event c ap ev) s = (r, t)"
  shows "provider_events t = provider_events s"
  using assms
proof (cases rule: transaction_cases)
  case (committed u)
  obtain a p where ap: "ap = (a, p)" by fastforce
  show ?thesis
  proof (cases "ev_type ev = event_paid")
    case True
    then have "applyPaidEvent c (a, p) ev s = (Inr u, t)" using committed(1) by (simp add: apply_event_def ap)
    then show ?thesis by (cases rule: applyPaidEvent_cases) (simp_all add: post_provider_events)
  next
    case False
    then show ?thesis using committed(1) by (auto simp: apply_event_def act_modify_def)
  qed
qed simp

lemma record_event_stored:
  assumes "record_event existing a ev s = (Inr p, t)" "existing = None \<or> stored_status (ev_provider ev, ev_external ev) s \<noteq> None"
  shows "p = already_processed \<and> stored_status (ev_provider ev, ev_external ev) t = Some processed \<and> t = s
    \<or> p \<noteq> already_processed \<and> stored_status (ev_provider ev, ev_external ev) t \<noteq> None"
proof (cases existing)
  case None
  show ?thesis
  proof (cases "tbl_find event_key (event_key (received_event a ev)) (provider_events s)")
    case (Some x)
    then show ?thesis using assms(1) None
      by (auto simp: record_event_def Let_def action_defs tbl_create_def isPrismaUniqueError_def stored_status_def
          event_key_def received_event_def split: if_splits option.splits)
  next
    case fresh: None
    then have "p = carry_on False" "t = s\<lparr>provider_events := provider_events s @ [received_event a ev]\<rparr>"
      using assms(1) None by (auto simp: record_event_def Let_def action_defs tbl_create_def)
    then show ?thesis using fresh
      by (simp add: stored_status_def tbl_find_append event_key_def received_event_def)
  qed
next
  case (Some x)
  then have "p = carry_on True" "t = snd (set_event_status (ev_provider ev, ev_external ev) (\<lambda>r. r\<lparr>e_status := received, e_processed := None\<rparr>) s)"
    using assms(1)
    by (auto simp: record_event_def Let_def act_throw_def act_seq_Inr act_return_def split: if_splits)
  then show ?thesis using Some assms(2) set_event_status_stored [of "\<lambda>r. r\<lparr>e_status := received, e_processed := None\<rparr>"]
    by (auto simp: event_key_def stored_status_def)
qed

lemma process_event_stored:
  assumes "process_event c ap ev s = (Inr u, t)" "stored_status (ev_provider ev, ev_external ev) s \<noteq> None"
  shows "stored_status (ev_provider ev, ev_external ev) t = Some processed"
proof -
  let ?key = "(ev_provider ev, ev_external ev)"
  let ?f = "\<lambda>r. r\<lparr>e_status := processed, e_processed := Some (call_now c)\<rparr>"
  obtain x v where v: "transaction (apply_event c ap ev) s = (Inr x, v)" "t = snd (set_event_status ?key ?f v)"
  proof (cases "transaction (apply_event c ap ev) s")
    case (Pair r v)
    then show thesis
      using assms(1) that
      by (cases r) (auto simp: process_event_def Let_def act_catch_def act_seq_def act_bind_def set_event_status_def act_modify_def act_throw_def)
  qed
  have "stored_status ?key v \<noteq> None" using apply_event_frame [OF v(1)] assms(2) by (simp add: stored_status_def)
  then show ?thesis unfolding v(2)
    by (subst set_event_status_stored) (auto simp: event_key_def stored_status_def)
qed

lemma webhook_write_stored:
  assumes "webhook_write c existing ap ev s = (Inr d, t)" "existing = None \<or> stored_status (ev_provider ev, ev_external ev) s \<noteq> None"
  shows "stored_status (ev_provider ev, ev_external ev) t = Some processed"
proof -
  obtain p v where r: "record_event existing (fst ap) ev s = (Inr p, v)"
    "(case p of already_processed \<Rightarrow> act_return True | carry_on dup \<Rightarrow> act_seq (process_event c ap ev) (act_return dup)) v = (Inr d, t)"
    using assms(1) unfolding webhook_write_def act_bind_Inr by blast
  show ?thesis
  proof (cases p)
    case already_processed
    then show ?thesis using r(2) record_event_stored [OF r(1) assms(2)] by (auto simp: act_return_def)
  next
    case (carry_on dup)
    then obtain u where "process_event c ap ev v = (Inr u, t)" using r(2) by (auto simp: act_seq_Inr act_return_def)
    moreover have "stored_status (ev_provider ev, ev_external ev) v \<noteq> None"
      using record_event_stored [OF r(1) assms(2)] carry_on by auto
    ultimately show ?thesis by (rule process_event_stored)
  qed
qed

lemma webhook_event_processed:
  assumes "stored_status (ev_provider ev, ev_external ev) s = Some processed"
  shows "webhook_event c ev s = (Inr True, s)"
  using assms by (simp add: webhook_event_def stored_status_def)

lemma webhook_event_stored:
  assumes "webhook_event c ev s = (Inr d, t)"
  shows "stored_status (ev_provider ev, ev_external ev) t = Some processed"
proof (cases "stored_status (ev_provider ev, ev_external ev) s = Some processed")
  case True
  then show ?thesis using assms webhook_event_processed [OF True, of c] by simp
next
  case False
  let ?existing = "tbl_find event_key (ev_provider ev, ev_external ev) (provider_events s)"
  obtain ap where "webhook_write c ?existing ap ev s = (Inr d, t)"
    using assms False by (auto simp: webhook_event_def Let_def stored_status_def split: option.splits if_splits)
  then show ?thesis by (rule webhook_write_stored) (auto simp: stored_status_def)
qed


lemma process_event_credits:
  assumes "process_event c ap ev s = (Inr u, t)" "ev_type ev = event_paid"
  shows "credited (ev_provider ev, ev_transaction ev) t"
proof -
  obtain a p where ap: "ap = (a, p)" by fastforce
  obtain x v where v: "transaction (apply_event c ap ev) s = (Inr x, v)" "transactions t = transactions v"
  proof (cases "transaction (apply_event c ap ev) s")
    case (Pair r v)
    then show thesis
      using assms(1) that
      by (cases r) (auto simp: process_event_def Let_def act_catch_def act_seq_def act_bind_def set_event_status_def act_modify_def act_throw_def)
  qed
  have "applyPaidEvent c (a, p) ev s = (Inr x, v)"
    using v(1) assms(2) by (auto simp: apply_event_def ap elim: transaction_cases)
  then have "credited (ev_provider ev, ev_transaction ev) v"
  proof (cases rule: applyPaidEvent_cases)
    case (paid b w)
    then show ?thesis
      by (simp add: credited_def paid_state_def Let_def tbl_find_append transaction_key_def charge_row_def)
  qed (simp add: credited_def)
  then show ?thesis using v(2) by (simp add: credited_def)
qed

text \<open>
  Two deliveries of one payment that both got past the check for a known event (they raced)
  credit it once: the second one to apply its payment event changes neither balances nor ledger.
\<close>

theorem racing_deliveries_credit_once:
  assumes "process_event c ap ev s = (Inr u, t)" "ev_type ev = event_paid" "ev_type ev' = event_paid"
    and "ev_provider ev' = ev_provider ev" "ev_transaction ev' = ev_transaction ev"
  shows "wallet_view (snd (process_event c' ap' ev' t)) = wallet_view t
    \<and> transactions (snd (process_event c' ap' ev' t)) = transactions t"
proof -
  obtain x where "tbl_find transaction_key (ev_provider ev', ev_transaction ev') (transactions t) = Some x"
    using process_event_credits [OF assms(1,2)] assms(4,5) by (auto simp: credited_def)
  then have "transaction (apply_event c' ap' ev') t = (Inr (), t)"
    using assms(3) by (simp add: apply_event_def applyPaidEvent_def transaction_def)
  then show ?thesis
    by (simp add: process_event_def Let_def act_catch_def act_seq_def act_bind_def set_event_status_def act_modify_def wallet_view_def)
qed

text \<open>
  A late failure notice undoes the status of a paid checkout: a webhook of another event that
  reports the checkout failed turns a succeeded checkout into a failed one, while the points it
  bought stay credited.
\<close>

theorem late_failure_overwrites_success:
  assumes "webhook_event c ev s = (Inr d, t)" "ev_type ev = event_failed"
    and "stored_status (ev_provider ev, ev_external ev) s \<noteq> Some processed"
    and "find_checkout_by_ref (ev_ref ev) s = Some (a, p)" "ch_status a = checkout_succeeded"
  shows "(\<forall>x \<in> set (checkouts t). ch_id x = ch_id a \<longrightarrow> ch_status x = checkout_failed) \<and> wallet_view t = wallet_view s"
proof -
  obtain v q where r: "record_event (tbl_find event_key (ev_provider ev, ev_external ev) (provider_events s)) a ev s = (Inr q, v)"
    "(case q of already_processed \<Rightarrow> act_return True
       | carry_on dup \<Rightarrow> act_seq (process_event c (a, p) ev) (act_return dup)) v = (Inr d, t)"
    using assms(1,3,4)
    by (auto simp: webhook_event_def webhook_write_def Let_def stored_status_def act_bind_Inr split: if_splits)
  have "q = already_processed \<and> stored_status (ev_provider ev, ev_external ev) v = Some processed \<and> v = s
    \<or> q \<noteq> already_processed \<and> stored_status (ev_provider ev, ev_external ev) v \<noteq> None"
    by (rule record_event_stored [OF r(1)]) (auto simp: stored_status_def)
  then have "q \<noteq> already_processed" using assms(3) by auto
  then obtain dup u where "process_event c (a, p) ev v = (Inr u, t)"
    using r(2) by (cases q) (auto simp: act_seq_Inr act_return_def)
  then have t: "t = snd (set_event_status (ev_provider ev, ev_external ev) (\<lambda>r. r\<lparr>e_status := processed, e_processed := Some (call_now c)\<rparr>)
      (update_checkouts (\<lambda>x. ch_id x = ch_id a) (\<lambda>x. x\<lparr>ch_status := checkout_failed\<rparr>) v))"
    using assms(2)
    by (simp add: process_event_def apply_event_def Let_def act_catch_def act_seq_def act_bind_def transaction_def
        act_modify_def set_event_status_def)
  have w: "wallet_view v = wallet_view s"
  proof -
    have "keeps (\<lambda>x. wallet_view x = wallet_view s) (record_event e a ev)" for e
      unfolding record_event_def Let_def set_event_status_def
      by (intro keeps_intros billing_create_keeps) (simp_all add: wallet_view_def)
    from keepsD [OF this refl] r(1) show ?thesis by (metis snd_conv)
  qed
  have "checkouts t = tbl_update (\<lambda>x. ch_id x = ch_id a) (\<lambda>x. x\<lparr>ch_status := checkout_failed\<rparr>) (checkouts v)"
    unfolding t by (simp add: set_event_status_frames)
  moreover have "wallet_view t = wallet_view s" unfolding t set_event_status_frames using w by simp
  ultimately show ?thesis by (auto simp: tbl_update_def)
qed


section \<open>Refinement of an abstract wallet\<close>

text \<open>
  The abstract wallet of an account is the map from claim keys to what was claimed under them;
  its value is the sum of its claims. Spending and refunding claim a key once.
\<close>

type_synonym claims = "string \<rightharpoonup> direction \<times> int"

fun signed :: "direction \<times> int \<Rightarrow> int" where
  "signed (credit, p) = p"
| "signed (debit, p) = - p"

definition claims_value :: "claims \<Rightarrow> int" where
  "claims_value M = (\<Sum>k \<in> dom M. signed (the (M k)))"

definition abs_spend :: "int \<Rightarrow> string \<Rightarrow> claims \<Rightarrow> claims option" where
  "abs_spend p key M =
     (if M key \<noteq> None then Some M else if claims_value M < p then None else Some (M(key \<mapsto> (debit, p))))"

definition abs_refund :: "string \<Rightarrow> claims \<Rightarrow> claims" where
  "abs_refund key M =
     (case (M (refund_key key), M key) of (None, Some (debit, p)) \<Rightarrow> M(refund_key key \<mapsto> (credit, p)) | _ \<Rightarrow> M)"

definition account_claims :: "string \<Rightarrow> ledger_entry list \<Rightarrow> claims" where
  "account_claims acc L key = map_option (\<lambda>r. (l_direction r, l_points r)) (tbl_find ledger_key (acc, key) L)"

lemma tbl_find_None_key: "tbl_find key k t = None \<longleftrightarrow> k \<notin> key ` set t"
  by (auto simp: tbl_find_None_iff)

lemma account_claims_append:
  assumes "ledger_key r \<notin> ledger_key ` set L"
  shows "account_claims acc (L @ [r])
    = (if l_account r = acc then (account_claims acc L)(l_claim r \<mapsto> (l_direction r, l_points r)) else account_claims acc L)"
proof -
  have "tbl_find ledger_key (ledger_key r) L = None" using assms by (simp add: tbl_find_None_key)
  then show ?thesis
    by (auto simp: account_claims_def tbl_find_append ledger_key_def fun_eq_iff split: option.splits)
qed

lemma account_claims_finite: "finite (dom (account_claims acc L))"
proof -
  have "dom (account_claims acc L) \<subseteq> l_claim ` set L"
  proof
    fix k assume "k \<in> dom (account_claims acc L)"
    then obtain r where "tbl_find ledger_key (acc, k) L = Some r" by (auto simp: account_claims_def)
    then show "k \<in> l_claim ` set L" using tbl_find_SomeD by (force simp: ledger_key_def)
  qed
  then show ?thesis by (rule finite_subset) simp
qed

lemma claims_value_fresh:
  "finite (dom M) \<Longrightarrow> M k = None \<Longrightarrow> claims_value (M(k \<mapsto> v)) = claims_value M + signed v"
  unfolding claims_value_def
  by (subst dom_fun_upd) (auto simp: domIff intro!: sum.cong)

lemma claims_value_ledger:
  "distinct (map ledger_key L) \<Longrightarrow>
   claims_value (account_claims acc L) = ledger_sum is_credit acc L - ledger_sum is_debit acc L"
proof (induction L rule: rev_induct)
  case Nil
  have "account_claims acc [] = Map.empty" by (simp add: account_claims_def fun_eq_iff)
  then show ?case by (simp add: claims_value_def)
next
  case (snoc r L)
  then have new: "ledger_key r \<notin> ledger_key ` set L" by simp
  then have "account_claims acc L (l_claim r) = None" if "l_account r = acc"
    using that by (simp add: account_claims_def tbl_find_None_key ledger_key_def)
  then have here: "claims_value (account_claims acc (L @ [r])) =
      claims_value (account_claims acc L) + (if l_account r = acc then signed (l_direction r, l_points r) else 0)"
    unfolding account_claims_append [OF new] using claims_value_fresh [OF account_claims_finite, of acc L "l_claim r"]
    by (auto simp del: fun_upd_apply)
  show ?case unfolding here using snoc.IH snoc.prems
    by (cases "l_direction r") (simp_all add: entry_kinds)
qed

definition in_range :: "balance \<Rightarrow> int \<Rightarrow> bool" where
  "in_range b p \<longleftrightarrow> int4 (b_balance b) \<and> int4 (b_balance b + p) \<and> int4 (b_granted b) \<and> int4 (b_spent b) \<and> int4 (b_spent b + p)"


lemma credit_entry_distinct: "direction.credit \<noteq> debit" by simp

text \<open>
  The refund transaction implements the abstract refund: on a valid store it always succeeds
  (a refunded balance never exceeds what was granted, so it fits its column) and the new claims of
  the account are those of the abstract refund.
\<close>

theorem refund_refines_claims:
  assumes "wallet_ok s" "find_balance acc s = Some b" "int4 (b_granted b)" "int4 (b_spent b)"
  shows "\<exists>t. transaction (refund_tx c acc key) s = (Inr (), t)
    \<and> account_claims acc (ledger t) = abs_refund key (account_claims acc (ledger s))"
proof (cases "find_entry acc (refund_key key) s")
  case (Some e)
  then show ?thesis
    by (simp add: refund_tx_def transaction_def abs_refund_def account_claims_def find_entry_def split: option.splits)
next
  case none: None
  show ?thesis
  proof (cases "\<exists>d. find_entry acc key s = Some d \<and> l_direction d = debit")
    case False
    then have "refund_tx c acc key s = (Inr (), s)" using none by (auto simp: refund_tx_def split: option.splits)
    moreover have "abs_refund key (account_claims acc (ledger s)) = account_claims acc (ledger s)"
      using False none
      by (cases "find_entry acc key s"; cases "l_direction (the (find_entry acc key s))")
        (simp_all add: abs_refund_def account_claims_def find_entry_def)
    ultimately show ?thesis by (simp add: transaction_def)
  next
    case True
    then obtain d where d: "find_entry acc key s = Some d" "l_direction d = debit" by blast
    have acc: "l_account d = acc" "l_claim d = key" "b_account b = acc"
      using find_entry_SomeD [OF d(1)] find_balance_SomeD [OF assms(2)] by simp_all
    have w: "wallet_ok (refunded_state c d b s)" by (rule refunded_state_keeps_wallet [OF assms(1) none d assms(2)])
    have "find_balance acc (refunded_state c d b s) = Some (b\<lparr>b_balance := b_balance b + l_points d\<rparr>)"
      using assms(2) acc by (simp add: refunded_state_def find_balance_post)
    from wallet_balance [OF w this] refund_sum_bound [OF w, of acc]
    have "0 \<le> b_balance b + l_points d" "b_balance b + l_points d \<le> b_granted b"
      using acc by (simp_all add: counters_ok_def credit_split)
    then have "int4 (b_balance b + l_points d)" using assms(3) by (simp add: int4_def)
    then have t: "refund_tx c acc key s = (Inr (), refunded_state c d b s)"
      using refund_tx_fresh [OF none d assms(2)] assms(3,4) by simp
    have new: "ledger_key (refund_entry c d x) \<notin> ledger_key ` set (ledger s)" for x
      using none acc by (auto simp: find_entry_None_iff ledger_key_def)
    show ?thesis using none d acc
      by (simp add: t transaction_def refunded_state_def account_claims_append [OF new] abs_refund_def
          account_claims_def [of acc "ledger s"] find_entry_def fun_eq_iff)
  qed
qed

section \<open>The properties on concrete requests\<close>

theorem spend_is_idempotent_witness:
  "spendPoints \<lparr>call_now = 7, call_id = \<lambda>_. []\<rparr> ''owner'' static_image 2 ''job'' spent_store = (Inr (), spent_store)"
  by (rule spend_is_idempotent [OF sample_spend])

lemma sample_history:
  "foldl (billing_step sample_env sample_provider) sample_store
     [(sample_call, SpendPoints ''owner'' static_image 2 ''job''), (sample_call, RefundPoints ''owner'' ''job'')] = refunded_store"
  by (simp add: billing_step_def sample_spend sample_refund)

theorem wallet_stays_solvent_witness:
  "list_all (\<lambda>b. 0 \<le> b_balance b \<and> b_balance b \<le> b_granted b
    \<and> b_balance b = b_granted b - b_spent b + ledger_sum is_refund (b_account b) (ledger refunded_store)) (balances refunded_store)"
  unfolding list_all_iff
  using wallet_stays_solvent [OF sample_ok, where E = sample_env and P = sample_provider
      and reqs = "[(sample_call, SpendPoints ''owner'' static_image 2 ''job''), (sample_call, RefundPoints ''owner'' ''job'')]"]
  unfolding sample_history by blast

theorem refund_restores_balance_witness:
  "map_option b_balance (find_balance ''acc'' refunded_store) = Some 65"
  using refund_restores_balance [OF sample_finds(1) _ _ _ _ sample_spend sample_refund, of sample_balance]
    sample_finds by (simp add: sample_account_def sample_balance_def)

theorem respend_after_refund_is_free_witness:
  "spendPoints sample_call ''owner'' static_image 2 ''job'' refunded_store = (Inr (), refunded_store)"
  using respend_after_refund_is_free [OF sample_finds(1) _ _ _ _ sample_spend sample_refund, of sample_balance sample_call]
    sample_finds by (simp add: sample_account_def sample_balance_def)


theorem refund_refines_claims_witness:
  "\<exists>t. transaction (refund_tx sample_call ''acc'' ''job'') sample_store = (Inr (), t)
    \<and> account_claims ''acc'' (ledger t) = abs_refund ''job'' (account_claims ''acc'' (ledger sample_store))"
  using sample_ok by (intro refund_refines_claims [OF _ sample_finds(2)])
    (simp_all add: billing_ok_def sample_balance_def int4_def)


text \<open>A payment, its replay under another event, and a failure notice that arrives late.\<close>

definition recorded_store :: billing where
  "recorded_store = sample_store\<lparr>provider_events := [received_event sample_checkout (sample_event ''evt'' event_paid)]\<rparr>"

definition paid_store :: billing where
  "paid_store = snd (set_event_status (''fake'', ''evt'') (\<lambda>r. r\<lparr>e_status := processed, e_processed := Some (call_now sample_call)\<rparr>)
     (paid_state sample_call sample_checkout sample_bundle sample_balance (sample_event ''evt'' event_paid) recorded_store))"

lemma sample_paid_process:
  "process_event sample_call (sample_checkout, sample_price) (sample_event ''evt'' event_paid) recorded_store = (Inr (), paid_store)"
proof -
  have "getBillingBundle (p_code sample_price) = Some sample_bundle" by (simp add: sample_bundle_eq sample_price_def)
  then have "applyPaidEvent sample_call (sample_checkout, sample_price) (sample_event ''evt'' event_paid) recorded_store = (Inr (),
      paid_state sample_call sample_checkout sample_bundle sample_balance (sample_event ''evt'' event_paid) recorded_store)"
    using sample_bundle_eq
    by (simp add: applyPaidEvent_def sample_event_def recorded_store_def sample_store_def sample_checkout_def
        sample_balance_def find_balance_def ledger_key_def action_defs create_entry_def update_balance_def
        paid_state_def post_def update_checkouts_def tbl_create_def int4_def Let_def sample_account_def)
  then show ?thesis
    by (simp add: process_event_def apply_event_def Let_def act_catch_def act_seq_def act_bind_def transaction_def
        set_event_status_def act_modify_def paid_store_def sample_event_def)
qed

lemma sample_paid: "webhook_event sample_call (sample_event ''evt'' event_paid) sample_store = (Inr False, paid_store)"
proof -
  have "record_event None sample_checkout (sample_event ''evt'' event_paid) sample_store = (Inr (carry_on False), recorded_store)"
    by (simp add: record_event_def Let_def action_defs tbl_create_def recorded_store_def sample_store_def)
  moreover have "tbl_find event_key k (provider_events sample_store) = None" for k by (simp add: sample_store_def)
  moreover have "ev_ref (sample_event ''evt'' event_paid) = ''ref''" "ch_amount sample_checkout = ev_amount (sample_event ''evt'' event_paid)"
    "ch_currency sample_checkout = ev_currency (sample_event ''evt'' event_paid)" by (simp_all add: sample_event_def sample_checkout_def)
  ultimately show ?thesis using sample_finds(5) sample_paid_process
    by (simp add: webhook_event_def webhook_write_def act_bind_def act_seq_def act_return_def)
qed

theorem payments_match_points_witness:
  "map topup_view (filter is_topup (ledger (billing_step sample_env sample_provider sample_store
     (sample_call, Webhook ''fake'' \<lparr>wh_body = JNull, wh_raw = None, wh_signature = Some ''evt''\<rparr>))))
   = [(''acc'', ''topup:txn'', Some ''id'', 100)]"
proof -
  have s: "billing_step sample_env sample_provider sample_store
     (sample_call, Webhook ''fake'' \<lparr>wh_body = JNull, wh_raw = None, wh_signature = Some ''evt''\<rparr>) = paid_store"
    by (simp add: billing_step_def handleWebhook_def sample_provider_def sample_paid)
  have "map paid_view (transactions paid_store) = [(''acc'', ''topup:txn'', Some ''id'', 100)]"
    by (simp add: paid_store_def set_event_status_frames paid_state_def Let_def recorded_store_def sample_store_def
        paid_view_def charge_row_def sample_checkout_def sample_event_def sample_call_def)
  then show ?thesis
    using payments_match_points [OF sample_ok, of sample_env sample_provider
      "[(sample_call, Webhook ''fake'' \<lparr>wh_body = JNull, wh_raw = None, wh_signature = Some ''evt''\<rparr>)]"] s
    by simp
qed


theorem racing_deliveries_credit_once_witness:
  "wallet_view (snd (process_event sample_call (sample_checkout, sample_price) (sample_event ''evt2'' event_paid) paid_store))
    = wallet_view paid_store"
  using racing_deliveries_credit_once [OF sample_paid_process, of "sample_event ''evt2'' event_paid" sample_call "(sample_checkout, sample_price)"]
  by (simp add: sample_event_def)

definition succeeded_checkout :: checkout where
  "succeeded_checkout = sample_checkout\<lparr>ch_status := checkout_succeeded, ch_confirmed := Some 2000\<rparr>"

definition succeeded_store :: billing where
  "succeeded_store = sample_store\<lparr>checkouts := [succeeded_checkout]\<rparr>"

theorem late_failure_overwrites_success_witness:
  "\<exists>t. webhook_event sample_call (sample_event ''late'' event_failed) succeeded_store = (Inr False, t)
    \<and> (\<forall>x \<in> set (checkouts t). ch_id x = ''co'' \<longrightarrow> ch_status x = checkout_failed)"
proof -
  let ?ev = "sample_event ''late'' event_failed"
  have f: "find_checkout_by_ref (ev_ref ?ev) succeeded_store = Some (succeeded_checkout, sample_price)"
    by (simp add: find_checkout_by_ref_def with_price_def succeeded_store_def sample_store_def succeeded_checkout_def
        sample_checkout_def sample_price_def sample_event_def)
  define t where "t = snd (webhook_event sample_call ?ev succeeded_store)"
  have "fst (webhook_event sample_call ?ev succeeded_store) = Inr False"
    using f by (simp add: webhook_event_def webhook_write_def record_event_def process_event_def apply_event_def Let_def action_defs
        set_event_status_def tbl_create_def succeeded_store_def sample_store_def succeeded_checkout_def sample_checkout_def sample_event_def)
  then have w: "webhook_event sample_call ?ev succeeded_store = (Inr False, t)" unfolding t_def by (metis prod.collapse)
  have "(\<forall>x \<in> set (checkouts t). ch_id x = ch_id succeeded_checkout \<longrightarrow> ch_status x = checkout_failed) \<and> wallet_view t = wallet_view succeeded_store"
    by (rule late_failure_overwrites_success [OF w _ _ f])
      (simp_all add: sample_event_def stored_status_def succeeded_store_def sample_store_def succeeded_checkout_def)
  then show ?thesis using w by (auto simp: succeeded_checkout_def sample_checkout_def)
qed

end
