(* ===== verification/Billing_Entitlements.thy ===== *)
theory Billing_Entitlements
  imports Billing_Samples Js_Date
begin

text \<open>
  Provider-cost telemetry with its circuit breaker (billing.service.ts) and the entitlement gate
  that every expensive operation passes (billing-entitlements.service.ts). Costs are decimals,
  hence rationals; a missing value is \<open>None\<close>.
\<close>


section \<open>Provider costs\<close>

record cost_input =
  k_artifact :: string
  k_business :: "string option"
  k_provider :: string
  k_model :: "string option"
  k_input_units :: "int option"
  k_output_units :: "int option"
  k_native_cost :: "rat option"
  k_native_currency :: "string option"
  k_egp_rate :: "rat option"
  k_egp_cost :: "rat option"
  k_successful :: bool
  k_retry_count :: int

definition PROVIDER_COST_CIRCUIT_BREAKER_EGP :: rat where
  "PROVIDER_COST_CIRCUIT_BREAKER_EGP = 70"

definition periodStartForCostLedger :: "int \<Rightarrow> int" where
  "periodStartForCostLedger now =
     (let c = civil_of now in
      utc_ms \<lparr>c_year = c_year c, c_month = c_month c, c_day = 1, c_hour = 0, c_minute = 0, c_second = 0, c_ms = 0\<rparr>)"

definition cost_key :: "cost_row \<Rightarrow> string \<times> string" where
  "cost_key r = (c_account r, c_artifact r)"

interpretation cost_index: unique_index cost_key "tbl_find cost_key" "tbl_create cost_key"
  by (rule list_table_unique_index)

definition cost_update :: "cost_input \<Rightarrow> cost_row \<Rightarrow> cost_row" where
  "cost_update k r = r\<lparr>c_provider := k_provider k, c_model := k_model k, c_input_units := k_input_units k,
     c_output_units := k_output_units k, c_native_cost := k_native_cost k, c_native_currency := k_native_currency k,
     c_egp_rate := k_egp_rate k, c_egp_cost := k_egp_cost k, c_successful := k_successful k, c_retry_count := k_retry_count k\<rparr>"

definition cost_create :: "int \<Rightarrow> string \<Rightarrow> cost_input \<Rightarrow> cost_row" where
  "cost_create now acc k =
     \<lparr>c_account = acc, c_business = k_business k, c_period = periodStartForCostLedger now, c_provider = k_provider k,
      c_model = k_model k, c_artifact = k_artifact k, c_input_units = k_input_units k, c_output_units = k_output_units k,
      c_native_cost = k_native_cost k, c_native_currency = k_native_currency k, c_egp_rate = k_egp_rate k,
      c_egp_cost = k_egp_cost k, c_successful = k_successful k, c_quota_effect = 0, c_retry_count = k_retry_count k,
      c_snapshot_version = ''points-wallet-v1''\<rparr>"

definition recordProviderCost :: "int \<Rightarrow> string \<Rightarrow> cost_input \<Rightarrow> billing \<Rightarrow> billing" where
  "recordProviderCost now ownerUserId k s =
     (case find_account ownerUserId s of
        None \<Rightarrow> s
      | Some account \<Rightarrow>
          (let key = (a_id account, k_artifact k) in
           case tbl_find cost_key key (costs s) of
             Some _ \<Rightarrow> s\<lparr>costs := tbl_update (\<lambda>r. cost_key r = key) (cost_update k) (costs s)\<rparr>
           | None \<Rightarrow> s\<lparr>costs := costs s @ [cost_create now (a_id account) k]\<rparr>))"

definition period_cost :: "string \<Rightarrow> int \<Rightarrow> cost_row list \<Rightarrow> rat" where
  "period_cost acc period t =
     sum_list (map (\<lambda>r. if c_account r = acc \<and> c_period r = period
       then (case c_egp_cost r of None \<Rightarrow> 0 | Some x \<Rightarrow> x) else 0) t)"

definition isProviderCostCircuitBreakerOpen :: "int \<Rightarrow> string \<Rightarrow> billing \<Rightarrow> bool" where
  "isProviderCostCircuitBreakerOpen now ownerUserId s =
     (case find_account ownerUserId s of
        None \<Rightarrow> False
      | Some account \<Rightarrow>
          period_cost (a_id account) (periodStartForCostLedger now) (costs s) > PROVIDER_COST_CIRCUIT_BREAKER_EGP)"


section \<open>The entitlement gate\<close>

datatype decision_reason = reason_active | reason_limit | reason_cost_circuit

record decision =
  d_allowed :: bool
  d_state :: string
  d_metric :: billing_metric
  d_requested :: rat
  d_used :: int
  d_limit :: int
  d_remaining :: rat
  d_reason :: decision_reason

definition check_entitlement :: "call \<Rightarrow> string \<Rightarrow> billing_metric \<Rightarrow> rat \<Rightarrow> decision billing_action" where
  "check_entitlement c userId metric requested =
     act_bind (getWallet c userId) (\<lambda>wallet.
       let cost = pointsForMetric metric requested;
           remaining = max 0 (of_int (w_balance wallet) - cost);
           base = \<lparr>d_allowed = False, d_state = ''cost_circuit'', d_metric = metric, d_requested = requested, d_used = 0,
             d_limit = w_balance wallet, d_remaining = remaining, d_reason = reason_cost_circuit\<rparr>
       in act_bind (act_read (isProviderCostCircuitBreakerOpen (call_now c) userId)) (\<lambda>circuitOpen.
         if circuitOpen then act_return base
         else let allowed = cost \<le> of_int (w_balance wallet) in
           act_return (base\<lparr>d_allowed := allowed, d_state := (if allowed then ''active'' else ''expired''),
             d_reason := (if allowed then reason_active else reason_limit)\<rparr>)))"

definition assertAllowed :: "call \<Rightarrow> string \<Rightarrow> billing_metric \<Rightarrow> rat \<Rightarrow> decision billing_action" where
  "assertAllowed c userId metric requested =
     act_bind (check_entitlement c userId metric requested) (\<lambda>d.
       if \<not> d_allowed d then
         act_throw (if d_reason d = reason_cost_circuit then BILLING_COST_CIRCUIT_OPEN else BILLING_INSUFFICIENT_POINTS)
       else act_return d)"


section \<open>Properties\<close>

lemma getWallet_Inr:
  assumes "getWallet c u s = (Inr w, t)"
  obtains a b where "ensureBillingAccount c u s = (Inr a, t)" "find_balance (a_id a) t = Some b" "w_balance w = b_balance b"
  using assms
  by (auto simp: getWallet_def act_bind_Inr act_read_def act_throw_def act_return_def split: option.splits)

lemma assertAllowed_Inr:
  assumes "assertAllowed c u m n s = (Inr d, t)"
  obtains a b where "ensureBillingAccount c u s = (Inr a, t)" "find_balance (a_id a) t = Some b"
    "pointsForMetric m n \<le> of_int (b_balance b)" "\<not> isProviderCostCircuitBreakerOpen (call_now c) u t"
proof -
  obtain w where w: "getWallet c u s = (Inr w, t)" "pointsForMetric m n \<le> of_int (w_balance w)"
    "\<not> isProviderCostCircuitBreakerOpen (call_now c) u t"
    using assms
    by (auto simp: assertAllowed_def check_entitlement_def act_bind_Inr act_read_def act_throw_def act_return_def Let_def
        split: if_splits)
  from w(1) show thesis by (rule getWallet_Inr) (use that w in auto)
qed


text \<open>
  The gate lets a paused account through: on an account an operator paused, \<open>assertAllowed\<close>
  passes like on any other, and the charge that follows the work is refused.
\<close>

theorem paused_account_passes_the_gate:
  assumes "find_account u s = Some a" "a_status a = ''paused''" "find_balance (a_id a) s = Some b"
    and "is_safe_integer n" "0 < n" "POINT_PRICES m \<noteq> 0" "pointsForMetric m n \<le> of_int (b_balance b)"
    and "\<not> isProviderCostCircuitBreakerOpen (call_now c) u s"
  shows "(\<exists>d. assertAllowed c u m n s = (Inr d, s)) \<and> spendPoints c' u m n key s = (Inl BILLING_ACCOUNT_PAUSED, s)"
proof -
  have "getWallet c u s = (Inr \<lparr>w_account = a_id a, w_balance = b_balance b, w_granted = b_granted b, w_spent = b_spent b,
      w_low = b_balance b < LOW_BALANCE_THRESHOLD_POINTS\<rparr>, s)"
    using assms(3) by (simp add: getWallet_def act_bind_def ensureBillingAccount_found [OF assms(1)] act_read_def act_return_def)
  then have "\<exists>d. assertAllowed c u m n s = (Inr d, s)"
    using assms(7,8) by (simp add: assertAllowed_def check_entitlement_def act_bind_def act_read_def act_return_def Let_def)
  moreover obtain k where k: "0 < k" "pointsForMetric m n = of_int (int (POINT_PRICES m) * k)"
    using safe_units [OF assms(4,5)] by metis
  have "0 < int (POINT_PRICES m) * k" using k(1) assms(6) by simp
  then have "0 < \<lfloor>pointsForMetric m n\<rfloor>" unfolding k(2) floor_of_int .
  then have "spendPoints c' u m n key s = (Inl BILLING_ACCOUNT_PAUSED, s)"
    using assms(2,4,5)
    by (simp add: spendPoints_def act_bind_def act_seq_def ensureBillingAccount_found [OF assms(1)] assertAccountActive_eq)
  ultimately show ?thesis by blast
qed

lemma period_cost_append: "period_cost acc p (t @ u) = period_cost acc p t + period_cost acc p u"
  by (simp add: period_cost_def)

text \<open>
  Recording the cost of an artefact again replaces what was recorded: after a second record the
  artefact counts once, in the period of its first record, with the values of the second; in
  particular a record without a cost erases an earlier one.
\<close>

theorem cost_is_replaced:
  assumes "find_account u s = Some a" "tbl_find cost_key (a_id a, k_artifact k) (costs s) = None" "k_artifact k' = k_artifact k"
  shows "period_cost (a_id a) p (costs (recordProviderCost now' u k' (recordProviderCost now u k s)))
    = period_cost (a_id a) p (costs s)
      + (if p = periodStartForCostLedger now then (case k_egp_cost k' of None \<Rightarrow> 0 | Some x \<Rightarrow> x) else 0)"
proof -
  let ?r = "cost_create now (a_id a) k"
  have one: "recordProviderCost now u k s = s\<lparr>costs := costs s @ [?r]\<rparr>"
    using assms(1,2) by (simp add: recordProviderCost_def)
  have key: "cost_key ?r = (a_id a, k_artifact k)" by (simp add: cost_key_def cost_create_def)
  have acc: "find_account u (s\<lparr>costs := x\<rparr>) = Some a" for x using assms(1) by (simp add: find_account_def)
  have "tbl_find cost_key (a_id a, k_artifact k) (costs s @ [?r]) = Some ?r"
    using assms(2) key by (simp add: tbl_find_append)
  then have two: "recordProviderCost now' u k' (recordProviderCost now u k s)
      = s\<lparr>costs := tbl_update (\<lambda>r. cost_key r = (a_id a, k_artifact k)) (cost_update k') (costs s @ [?r])\<rparr>"
    unfolding one using assms(3) acc by (simp add: recordProviderCost_def)
  have "tbl_update (\<lambda>r. cost_key r = (a_id a, k_artifact k)) (cost_update k') (costs s) = costs s"
    using assms(2) by (intro tbl_update_none) (auto simp: tbl_find_None_iff)
  then have "tbl_update (\<lambda>r. cost_key r = (a_id a, k_artifact k)) (cost_update k') (costs s @ [?r]) = costs s @ [cost_update k' ?r]"
    using key by (simp add: tbl_update_def)
  then show ?thesis unfolding two
    by (simp add: period_cost_append) (simp add: period_cost_def cost_update_def cost_create_def)
qed


section \<open>The properties on concrete requests\<close>

definition sample_cost :: "rat option \<Rightarrow> cost_input" where
  "sample_cost x = \<lparr>k_artifact = ''pack'', k_business = None, k_provider = ''p'', k_model = None, k_input_units = None,
     k_output_units = None, k_native_cost = None, k_native_currency = None, k_egp_rate = None, k_egp_cost = x,
     k_successful = True, k_retry_count = 0\<rparr>"

lemma sample_circuit: "\<not> isProviderCostCircuitBreakerOpen t ''owner'' sample_store"
proof -
  have "costs sample_store = []" by (simp add: sample_store_def)
  then show ?thesis
    by (simp add: isProviderCostCircuitBreakerOpen_def sample_finds(1) period_cost_def PROVIDER_COST_CIRCUIT_BREAKER_EGP_def)
qed


definition paused_store :: billing where
  "paused_store = sample_store\<lparr>accounts := [sample_account\<lparr>a_status := ''paused''\<rparr>]\<rparr>"

theorem paused_account_passes_the_gate_witness:
  "spendPoints sample_call ''owner'' static_image 2 ''job'' paused_store = (Inl BILLING_ACCOUNT_PAUSED, paused_store)"
proof -
  have f: "find_account ''owner'' paused_store = Some (sample_account\<lparr>a_status := ''paused''\<rparr>)"
    "find_balance (a_id (sample_account\<lparr>a_status := ''paused''\<rparr>)) paused_store = Some sample_balance"
    by (simp_all add: find_account_def find_balance_def paused_store_def sample_account_def sample_store_def sample_balance_def)
  have "\<not> isProviderCostCircuitBreakerOpen (call_now sample_call) ''owner'' paused_store"
  proof -
    have "costs paused_store = []" by (simp add: paused_store_def sample_store_def)
    then show ?thesis
      by (simp add: isProviderCostCircuitBreakerOpen_def f(1) period_cost_def PROVIDER_COST_CIRCUIT_BREAKER_EGP_def)
  qed
  from paused_account_passes_the_gate [OF f(1) _ f(2) sample_points(1) _ _ _ this, of static_image]
  show ?thesis by (simp add: pointsForMetric_def sample_balance_def)
qed

theorem cost_is_replaced_witness:
  "period_cost ''acc'' (periodStartForCostLedger 0)
     (costs (recordProviderCost 5 ''owner'' (sample_cost None) (recordProviderCost 0 ''owner'' (sample_cost (Some 80)) sample_store))) = 0"
  using cost_is_replaced [OF sample_finds(1), of "sample_cost (Some 80)" "sample_cost None" "periodStartForCostLedger 0" 5 0]
  by (simp add: sample_cost_def sample_store_def sample_account_def period_cost_def)

end
