(* ===== verification/Payment_Providers.thy ===== *)
theory Payment_Providers
  imports Billing_Theorems Digest_Claims
begin

text \<open>
  The two adapters of the payment port (paymob-payment.provider.ts, fake-payment.provider.ts), the
  sandbox confirmation of billing.service.ts built on them, and what their webhooks guarantee.

  \<open>hmac512 secret text\<close> is HMAC-SHA512 in hexadecimal, \<open>request\<close> the HTTP exchange with Paymob: it
  takes the JSON body of the intention and returns the parsed answer or fails. Upper and lower
  case are those of code units below 256.
\<close>


section \<open>Strings\<close>

text \<open>\<open>String (v)\<close>; the elements of an array are joined with commas, null and undefined as nothing.\<close>

fun js_String :: "js_env \<Rightarrow> json \<Rightarrow> string" where
  "js_String E JNull = ''null''"
| "js_String E JUndef = ''undefined''"
| "js_String E (JBool b) = (if b then ''true'' else ''false'')"
| "js_String E (JNum n) = env_num E n"
| "js_String E (JStr s) = s"
| "js_String E (JArr xs) = join_with '','' (map (\<lambda>v. if v = JNull \<or> v = JUndef then [] else js_String E v) xs)"
| "js_String E (JObj _) = ''[object Object]''"

definition upper_char :: "char \<Rightarrow> string" where
  "upper_char c =
     (let n = (of_char c :: nat) in
      if n = 223 then ''SS''
      else if (97 \<le> n \<and> n \<le> 122) \<or> (224 \<le> n \<and> n \<le> 254 \<and> n \<noteq> 247) then [char_of (n - 32)] else [c])"

definition js_toUpperCase :: "string \<Rightarrow> string" where
  "js_toUpperCase s = concat (map upper_char s)"

definition lower_char :: "char \<Rightarrow> char" where
  "lower_char c =
     (let n = (of_char c :: nat) in
      if (65 \<le> n \<and> n \<le> 90) \<or> (192 \<le> n \<and> n \<le> 222 \<and> n \<noteq> 215) then char_of (n + 32) else c)"

definition js_toLowerCase :: "string \<Rightarrow> string" where
  "js_toLowerCase s = map lower_char s"

fun js_contains :: "string \<Rightarrow> string \<Rightarrow> bool" where
  "js_contains p [] = (p = [])"
| "js_contains p (c # s) = (starts_with p (c # s) \<or> js_contains p s)"

text \<open>\<open>encodeURIComponent\<close>: the bytes of UTF-8, escaped unless unreserved.\<close>

definition unreserved :: "char \<Rightarrow> bool" where
  "unreserved c \<longleftrightarrow> char_between 48 57 c \<or> char_between 65 90 c \<or> char_between 97 122 c \<or> c \<in> set ''-_.!~*()'' \<or> c = CHR 0x27"

definition percent :: "nat \<Rightarrow> string" where
  "percent n = CHR ''%'' # concat (map upper_char [hex_digit (n div 16), hex_digit (n mod 16)])"

definition encodeURIComponent :: "string \<Rightarrow> string" where
  "encodeURIComponent s =
     concat (map (\<lambda>c. if unreserved c then [c]
       else let n = (of_char c :: nat) in if n < 128 then percent n else percent (192 + n div 64) @ percent (128 + n mod 64)) s)"

definition trimTrailingSlash :: "string \<Rightarrow> string" where
  "trimTrailingSlash s = rev (dropWhile (\<lambda>c. c = CHR ''/'') (rev s))"

definition nullish :: "json \<Rightarrow> bool" where
  "nullish v \<longleftrightarrow> v = JNull \<or> v = JUndef"


section \<open>Paymob\<close>

record paymob_config =
  pc_base_url :: string
  pc_secret_key :: string
  pc_public_key :: string
  pc_integration_ids :: "rat list"
  pc_hmac_secret :: string
  pc_sandbox :: bool
  pc_web_origin :: string

text \<open>The constructor: defaults of the configuration, and the integration ids that are positive integers.\<close>

definition paymob_configure ::
  "string option \<Rightarrow> string option \<Rightarrow> string option \<Rightarrow> rat list option \<Rightarrow> string option \<Rightarrow> bool option \<Rightarrow> string option \<Rightarrow> paymob_config" where
  "paymob_configure baseUrl secretKey publicKey ids hmacSecret sandbox origin =
     (let def = (\<lambda>d x. case x of None \<Rightarrow> d | Some v \<Rightarrow> v) in
      \<lparr>pc_base_url = trimTrailingSlash (def ''https://accept.paymob.com'' baseUrl), pc_secret_key = def [] secretKey,
       pc_public_key = def [] publicKey,
       pc_integration_ids = filter (\<lambda>n. is_safe_integer n \<and> 0 < n) (case ids of None \<Rightarrow> [] | Some ns \<Rightarrow> ns),
       pc_hmac_secret = def [] hmacSecret, pc_sandbox = (case sandbox of None \<Rightarrow> False | Some b \<Rightarrow> b),
       pc_web_origin = def ''http://localhost:3000'' origin\<rparr>)"

definition assertConfigured :: "paymob_config \<Rightarrow> bool" where
  "assertConfigured K \<longleftrightarrow> pc_secret_key K \<noteq> [] \<and> pc_public_key K \<noteq> [] \<and> pc_hmac_secret K \<noteq> [] \<and> pc_integration_ids K \<noteq> []"

definition paymob_intention :: "paymob_config \<Rightarrow> provider_checkout_input \<Rightarrow> json" where
  "paymob_intention K i =
     (let amountMinor = JNum (of_int (pi_amount i * 100)); bd = pi_billing_data i;
          meta = (\<lambda>k. case map_of (pi_metadata i) k of None \<Rightarrow> JUndef | Some v \<Rightarrow> JStr v)
      in JObj
        [(''amount'', amountMinor), (''currency'', JStr (pi_currency i)),
         (''payment_methods'', JArr (map JNum (pc_integration_ids K))),
         (''special_reference'', JStr (pi_merchant_reference i)),
         (''redirect_url'', JStr (pc_web_origin K @ ''/billing'')),
         (''billing_data'', JObj
           [(''first_name'', JStr (bd_first_name bd)), (''last_name'', JStr (bd_last_name bd)), (''email'', JStr (bd_email bd)),
            (''phone_number'', JStr (bd_phone bd)), (''apartment'', JStr (bd_apartment bd)), (''building'', JStr (bd_building bd)),
            (''floor'', JStr (bd_floor bd)), (''street'', JStr (bd_street bd)), (''city'', JStr (bd_city bd)),
            (''country'', JStr (bd_country bd)), (''state'', JStr (bd_state bd)), (''postal_code'', JStr (bd_postal_code bd))]),
         (''items'', JArr [JObj
           [(''name'', JStr ''MarketMind Growth''), (''amount'', amountMinor),
            (''description'', JStr ''MarketMind AI subscription''), (''quantity'', JNum 1)]]),
         (''extras'', JObj
           [(''marketmind_billing_account_id'', meta ''billing_account_id''), (''marketmind_bundle_code'', meta ''bundle_code''),
            (''marketmind_idempotency_key'', JStr (pi_idempotency i))])])"

definition paymob_createCheckout ::
  "(json \<Rightarrow> provider_error + json) \<Rightarrow> paymob_config \<Rightarrow> call \<Rightarrow> provider_checkout_input \<Rightarrow> provider_error + provider_checkout_result" where
  "paymob_createCheckout request K c i =
     (if \<not> assertConfigured K then Inl ProviderOtherError
      else if pi_mode i = recurring_card then Inl ProviderOtherError
      else if \<not> is_safe_integer (of_int (pi_amount i)) \<or> pi_amount i \<le> 0 then Inl ProviderOtherError
      else throws_bind (request (paymob_intention K i)) (\<lambda>response.
        let secret = jget response ''client_secret'' in
        if \<not> isRecord response \<or> \<not> js_is_string secret \<or> secret = JStr [] then Inl ProviderOtherError
        else Inr
          \<lparr>pr_provider = ''paymob'', pr_ref = pi_merchant_reference i,
           pr_url = pc_base_url K @ ''/unifiedcheckout/?publicKey='' @ encodeURIComponent (pc_public_key K)
             @ ''&clientSecret='' @ encodeURIComponent (jstr secret),
           pr_status = checkout_pending, pr_expires = call_now c + 30 * 60 * 1000, pr_sandbox = pc_sandbox K\<rparr>))"

definition PAYMOB_HMAC_FIELDS :: "(json \<Rightarrow> json) list" where
  "PAYMOB_HMAC_FIELDS =
     map (\<lambda>k t. jget t k)
       [''amount_cents'', ''created_at'', ''currency'', ''error_occured'', ''has_parent_transaction'', ''id'',
        ''integration_id'', ''is_3d_secure'', ''is_auth'', ''is_capture'', ''is_refunded'', ''is_standalone_payment'', ''is_voided'']
     @ [\<lambda>t. jget (jget t ''order'') ''id'', \<lambda>t. jget t ''owner'', \<lambda>t. jget t ''pending'',
        \<lambda>t. jget (jget t ''source_data'') ''pan'', \<lambda>t. jget (jget t ''source_data'') ''sub_type'',
        \<lambda>t. jget (jget t ''source_data'') ''type'', \<lambda>t. jget t ''success'']"

definition hmacValue :: "js_env \<Rightarrow> json \<Rightarrow> string" where
  "hmacValue E v =
     (if nullish v then []
      else case v of
        JBool b \<Rightarrow> (if b then ''true'' else ''false'')
      | JObj _ \<Rightarrow> if jget v ''id'' \<noteq> JUndef then js_String E (jget v ''id'') else json_text E v
      | JArr _ \<Rightarrow> json_text E v
      | _ \<Rightarrow> js_String E v)"

definition paymob_canonical :: "js_env \<Rightarrow> json \<Rightarrow> string" where
  "paymob_canonical E t = concat (map (\<lambda>field. hmacValue E (field t)) PAYMOB_HMAC_FIELDS)"

definition createPaymobTestHmac :: "js_env \<Rightarrow> (string \<Rightarrow> string \<Rightarrow> string) \<Rightarrow> json \<Rightarrow> string \<Rightarrow> string" where
  "createPaymobTestHmac E hmac512 t secret = hmac512 secret (paymob_canonical E t)"

definition verifyPaymobHmac :: "js_env \<Rightarrow> (string \<Rightarrow> string \<Rightarrow> string) \<Rightarrow> json \<Rightarrow> string \<Rightarrow> string \<Rightarrow> bool" where
  "verifyPaymobHmac E hmac512 t receivedHmac secret =
     (if receivedHmac = [] \<or> secret = [] then False
      else hex_bytes receivedHmac = hex_bytes (hmac512 secret (paymob_canonical E t)))"

definition parsePaymobPayload :: "json \<Rightarrow> provider_error + json" where
  "parsePaymobPayload v =
     (if \<not> isRecord v \<or> \<not> isRecord (jget v ''obj'') then Inl ProviderPayloadError
      else if jget v ''type'' \<noteq> JUndef \<and> \<not> js_is_string (jget v ''type'') then Inl ProviderPayloadError
      else Inr (jget v ''obj''))"

definition readMerchantReference :: "js_env \<Rightarrow> json \<Rightarrow> provider_error + string" where
  "readMerchantReference E v =
     (if \<not> isRecord v then Inl ProviderPayloadError
      else let reference = (if nullish (jget v ''merchant_order_id'') then jget v ''id'' else jget v ''merchant_order_id'') in
        case reference of JStr s \<Rightarrow> Inr s | JNum n \<Rightarrow> Inr (env_num E n) | _ \<Rightarrow> Inl ProviderPayloadError)"

definition readInteger :: "json \<Rightarrow> provider_error + int" where
  "readInteger v = (case v of JNum r \<Rightarrow> if is_safe_integer r \<and> 0 \<le> r then Inr \<lfloor>r\<rfloor> else Inl ProviderPayloadError
     | _ \<Rightarrow> Inl ProviderPayloadError)"

definition readString :: "json \<Rightarrow> provider_error + string" where
  "readString v = (case v of JStr s \<Rightarrow> if s = [] then Inl ProviderPayloadError else Inr s | _ \<Rightarrow> Inl ProviderPayloadError)"

definition paymentModeFromSource :: "js_env \<Rightarrow> json \<Rightarrow> payment_mode" where
  "paymentModeFromSource E v =
     (if \<not> isRecord v then one_time_card
      else let sourceType = js_toLowerCase (if nullish (jget v ''type'') then [] else js_String E (jget v ''type'')) in
        if js_contains ''wallet'' sourceType then wallet_mode
        else if js_contains ''cash'' sourceType \<or> js_contains ''kiosk'' sourceType then reference_mode
        else one_time_card)"

definition paymob_event_type :: "json \<Rightarrow> event_type" where
  "paymob_event_type t =
     (if jget t ''pending'' = JBool True then event_pending
      else if jget t ''success'' = JBool True then event_paid else event_failed)"

definition paymob_external :: "js_env \<Rightarrow> json \<Rightarrow> json \<Rightarrow> string" where
  "paymob_external E ty t =
     js_toUpperCase (if nullish ty then ''TRANSACTION'' else js_String E ty) @ '':'' @ js_String E (jget t ''id'')"

definition paymob_verify ::
  "js_env \<Rightarrow> (string \<Rightarrow> string \<Rightarrow> string) \<Rightarrow> paymob_config \<Rightarrow> webhook_input \<Rightarrow> provider_error + payment_event" where
  "paymob_verify E hmac512 K i =
     throws_bind (parsePaymobPayload (wh_body i)) (\<lambda>t.
       let receivedHmac = (case wh_signature i of Some x \<Rightarrow> x
             | None \<Rightarrow> if js_is_string (jget (wh_body i) ''hmac'') then jstr (jget (wh_body i) ''hmac'') else [])
       in if pc_hmac_secret K = [] \<or> \<not> verifyPaymobHmac E hmac512 t receivedHmac (pc_hmac_secret K)
          then Inl ProviderSignatureError
          else throws_bind (readInteger (jget t ''amount_cents'')) (\<lambda>amountMinor.
            throws_bind (readString (jget t ''currency'')) (\<lambda>currency.
              if js_toUpperCase currency \<noteq> ''EGP'' \<or> amountMinor mod 100 \<noteq> 0 then Inl ProviderPayloadError
              else throws_bind (readMerchantReference E (jget t ''order'')) (\<lambda>checkoutRef.
                throws_bind (readString (jget t ''created_at'')) (\<lambda>created.
                  case js_date_parse E created of
                    None \<Rightarrow> Inl ProviderPayloadError
                  | Some occurredAt \<Rightarrow> Inr
                      \<lparr>ev_provider = ''paymob'', ev_external = paymob_external E (jget (wh_body i) ''type'') t,
                       ev_fingerprint = env_sha256 E (case wh_raw i of Some raw \<Rightarrow> raw | None \<Rightarrow> json_text E (wh_body i)),
                       ev_type = paymob_event_type t, ev_ref = checkoutRef, ev_transaction = js_String E (jget t ''id''),
                       ev_amount = amountMinor div 100, ev_currency = ''EGP'',
                       ev_mode = paymentModeFromSource E (jget t ''source_data''), ev_signature_valid = True,
                       ev_payload = wh_body i, ev_occurred = occurredAt\<rparr>)))))"

definition paymob_provider ::
  "js_env \<Rightarrow> (string \<Rightarrow> string \<Rightarrow> string) \<Rightarrow> (json \<Rightarrow> provider_error + json) \<Rightarrow> paymob_config \<Rightarrow> payment_provider" where
  "paymob_provider E hmac512 request K =
     \<lparr>pp_name = ''paymob'', pp_create = paymob_createCheckout request K, pp_verify = paymob_verify E hmac512 K\<rparr>"


section \<open>The sandbox adapter\<close>

record fake_payload =
  fp_event_id :: string
  fp_event_type :: json
  fp_checkout_ref :: string
  fp_transaction_ref :: string
  fp_amount :: int
  fp_mode :: json
  fp_occurred_at :: string

text \<open>
  The payload is read field by field; \<open>event_type\<close> and \<open>payment_mode\<close> keep the value they had, which
  the check only compares as strings.
\<close>

definition parsePayload :: "js_env \<Rightarrow> json \<Rightarrow> provider_error + fake_payload" where
  "parsePayload E v =
     (if \<not> isRecord v then Inl ProviderPayloadError
      else if \<not> js_is_string (jget v ''event_id'')
        \<or> js_String E (jget v ''event_type'') \<notin> set [''checkout.paid'', ''checkout.failed'', ''checkout.pending'']
        \<or> \<not> js_is_string (jget v ''checkout_ref'') \<or> \<not> js_is_string (jget v ''transaction_ref'')
        \<or> \<not> (case jget v ''amount_egp'' of JNum r \<Rightarrow> is_safe_integer r \<and> 0 \<le> r | _ \<Rightarrow> False)
        \<or> jget v ''currency'' \<noteq> JStr ''EGP''
        \<or> js_String E (jget v ''payment_mode'') \<notin> set [''recurring_card'', ''one_time_card'', ''wallet'', ''reference'']
        \<or> \<not> js_is_string (jget v ''occurred_at'') \<or> js_date_parse E (jstr (jget v ''occurred_at'')) = None
      then Inl ProviderPayloadError
      else Inr \<lparr>fp_event_id = jstr (jget v ''event_id''), fp_event_type = jget v ''event_type'',
        fp_checkout_ref = jstr (jget v ''checkout_ref''), fp_transaction_ref = jstr (jget v ''transaction_ref''),
        fp_amount = \<lfloor>jnum (jget v ''amount_egp'')\<rfloor>, fp_mode = jget v ''payment_mode'',
        fp_occurred_at = jstr (jget v ''occurred_at'')\<rparr>)"

definition payload_json :: "fake_payload \<Rightarrow> json" where
  "payload_json p = JObj
     [(''event_id'', JStr (fp_event_id p)), (''event_type'', fp_event_type p), (''checkout_ref'', JStr (fp_checkout_ref p)),
      (''transaction_ref'', JStr (fp_transaction_ref p)), (''amount_egp'', JNum (of_int (fp_amount p))),
      (''currency'', JStr ''EGP''), (''payment_mode'', fp_mode p), (''occurred_at'', JStr (fp_occurred_at p))]"

definition fake_event_type :: "json \<Rightarrow> event_type" where
  "fake_event_type v =
     (if v = JStr ''checkout.paid'' then event_paid else if v = JStr ''checkout.pending'' then event_pending else event_failed)"

definition fake_mode :: "js_env \<Rightarrow> json \<Rightarrow> payment_mode" where
  "fake_mode E v =
     (let m = js_String E v in
      if m = ''recurring_card'' then recurring_card else if m = ''one_time_card'' then one_time_card
      else if m = ''wallet'' then wallet_mode else reference_mode)"

definition fake_verify :: "js_env \<Rightarrow> string \<Rightarrow> webhook_input \<Rightarrow> provider_error + payment_event" where
  "fake_verify E secret i =
     throws_bind (parsePayload E (wh_body i)) (\<lambda>p.
       let canonicalBody = (case wh_raw i of Some raw \<Rightarrow> raw | None \<Rightarrow> json_text E (payload_json p));
           expected = env_hmac E secret canonicalBody
       in if (case wh_signature i of None \<Rightarrow> True | Some x \<Rightarrow> x = [] \<or> x \<noteq> expected) then Inl ProviderSignatureError
          else case js_date_parse E (fp_occurred_at p) of
            None \<Rightarrow> Inl ProviderPayloadError
          | Some occurredAt \<Rightarrow> Inr
              \<lparr>ev_provider = ''fake'', ev_external = fp_event_id p, ev_fingerprint = env_sha256 E canonicalBody,
               ev_type = fake_event_type (fp_event_type p), ev_ref = fp_checkout_ref p, ev_transaction = fp_transaction_ref p,
               ev_amount = fp_amount p, ev_currency = ''EGP'', ev_mode = fake_mode E (fp_mode p), ev_signature_valid = True,
               ev_payload = payload_json p, ev_occurred = occurredAt\<rparr>)"

definition fake_createCheckout :: "string \<Rightarrow> call \<Rightarrow> provider_checkout_input \<Rightarrow> provider_error + provider_checkout_result" where
  "fake_createCheckout webOrigin c i =
     (let checkoutRef = ''fake_checkout_'' @ call_id c 5 in
      Inr \<lparr>pr_provider = ''fake'', pr_ref = checkoutRef, pr_url = webOrigin @ ''/billing/sandbox/'' @ checkoutRef,
           pr_status = checkout_pending, pr_expires = call_now c + 30 * 60 * 1000, pr_sandbox = True\<rparr>)"

definition fake_provider :: "js_env \<Rightarrow> string \<Rightarrow> string \<Rightarrow> payment_provider" where
  "fake_provider E secret webOrigin =
     \<lparr>pp_name = ''fake'', pp_create = fake_createCheckout webOrigin, pp_verify = fake_verify E secret\<rparr>"

definition signWebhook :: "js_env \<Rightarrow> string \<Rightarrow> json \<Rightarrow> string" where
  "signWebhook E secret payload = env_hmac E secret (json_text E payload)"

text \<open>\<open>createWebhookPayload\<close> with neither identity nor time given: the spread input comes first.\<close>

definition createWebhookPayload :: "call \<Rightarrow> string \<Rightarrow> string \<Rightarrow> string \<Rightarrow> int \<Rightarrow> payment_mode \<Rightarrow> json" where
  "createWebhookPayload c eventType checkoutRef transactionRef amount mode = JObj
     [(''event_type'', JStr eventType), (''checkout_ref'', JStr checkoutRef), (''transaction_ref'', JStr transactionRef),
      (''amount_egp'', JNum (of_int amount)), (''currency'', JStr ''EGP''), (''payment_mode'', JStr (payment_mode_name mode)),
      (''event_id'', JStr (call_id c 6)), (''occurred_at'', JStr (toISOString (call_now c)))]"


section \<open>Sandbox confirmation\<close>

datatype sandbox_outcome = outcome_paid | outcome_failed | outcome_pending

definition fake_type_of :: "sandbox_outcome \<Rightarrow> string" where
  "fake_type_of o' = (case o' of outcome_paid \<Rightarrow> ''checkout.paid'' | outcome_pending \<Rightarrow> ''checkout.pending''
     | outcome_failed \<Rightarrow> ''checkout.failed'')"

definition sandbox_transaction :: "call \<Rightarrow> checkout \<Rightarrow> rat \<Rightarrow> rat \<Rightarrow> sandbox_outcome \<Rightarrow> json" where
  "sandbox_transaction c a integrationId transactionId o' = JObj
     [(''amount_cents'', JNum (of_int (ch_amount a * 100))), (''created_at'', JStr (toISOString (call_now c))),
      (''currency'', JStr ''EGP''), (''error_occured'', JBool False), (''has_parent_transaction'', JBool False),
      (''id'', JNum transactionId), (''integration_id'', JNum integrationId), (''is_3d_secure'', JBool False),
      (''is_auth'', JBool True), (''is_capture'', JBool True), (''is_refund'', JBool False), (''is_refunded'', JBool False),
      (''is_standalone_payment'', JBool True), (''is_voided'', JBool False),
      (''order'', JObj [(''id'', JNum transactionId), (''merchant_order_id'', JStr (ch_id a))]),
      (''owner'', JNum transactionId), (''pending'', JBool (o' = outcome_pending)),
      (''source_data'', JObj [(''pan'', JStr ''0000''), (''sub_type'', JStr ''Test''), (''type'', JStr ''card'')]),
      (''success'', JBool (o' = outcome_paid))]"

text \<open>\<open>transactionId\<close> is the random number the code draws.\<close>

definition confirmSandboxCheckout ::
  "js_env \<Rightarrow> (string \<Rightarrow> string \<Rightarrow> string) \<Rightarrow> payment_provider \<Rightarrow> string \<Rightarrow> paymob_config \<Rightarrow> string \<Rightarrow> call \<Rightarrow> rat \<Rightarrow>
   string \<Rightarrow> string \<Rightarrow> sandbox_outcome \<Rightarrow> bool billing_action" where
  "confirmSandboxCheckout E hmac512 P fakeSecret K nodeEnv c transactionId userId checkoutRef o' s =
     (if nodeEnv \<noteq> ''development'' \<and> nodeEnv \<noteq> ''test'' then (Inl NotFound, s)
      else case find_checkout_by_ref checkoutRef s of
        None \<Rightarrow> (Inl BILLING_CHECKOUT_NOT_FOUND, s)
      | Some (a, p) \<Rightarrow>
          if \<not> list_ex (\<lambda>x. a_id x = ch_account a \<and> a_owner x = userId) (accounts s) then (Inl NotFound, s)
          else if ch_status a = checkout_succeeded then (Inr True, s)
          else if pp_name P = ''fake'' then
            (let payload = createWebhookPayload c (fake_type_of o') checkoutRef (''fake_transaction_'' @ call_id c 7)
                   (ch_amount a) (ch_mode a)
             in handleWebhook P c (pp_name P)
                  \<lparr>wh_body = payload, wh_raw = Some (json_text E payload), wh_signature = Some (signWebhook E fakeSecret payload)\<rparr> s)
          else if pp_name P = ''paymob'' then
            (let integrationId = (case List.find (\<lambda>n. is_safe_integer n \<and> 0 < n) (pc_integration_ids K) of None \<Rightarrow> 0 | Some n \<Rightarrow> n);
                 t = sandbox_transaction c a integrationId transactionId o';
                 hmac = createPaymobTestHmac E hmac512 t (pc_hmac_secret K);
                 payload = JObj [(''type'', JStr ''TRANSACTION''), (''obj'', t), (''hmac'', JStr hmac)]
             in handleWebhook P c ''paymob'' \<lparr>wh_body = payload, wh_raw = Some (json_text E payload), wh_signature = Some hmac\<rparr> s)
          else (Inl NotFound, s))"

end
