(* ===== verification/Payment_Claims.thy ===== *)
theory Payment_Claims
  imports Payment_Providers
begin

text \<open>
  What the wallet may rely on in a payment adapter, as the locale \<open>payment_port\<close>, its
  interpretation for both adapters of the repository, and the properties of their webhooks.
\<close>


section \<open>The contract of the port\<close>

locale payment_port =
  fixes P :: payment_provider
  assumes verified_provider: "pp_verify P i = Inr ev \<Longrightarrow> ev_provider ev = pp_name P"
    and verified_amount: "pp_verify P i = Inr ev \<Longrightarrow> 0 \<le> ev_amount ev"
    and verified_currency: "pp_verify P i = Inr ev \<Longrightarrow> ev_currency ev = ''EGP''"
    and verified_signature: "pp_verify P i = Inr ev \<Longrightarrow> ev_signature_valid ev"
begin

lemma accepted_webhook:
  assumes "handleWebhook P c n i s = (Inr d, t)"
  obtains ev where "n = pp_name P" "pp_verify P i = Inr ev" "webhook_event c ev s = (Inr d, t)"
proof (cases "pp_verify P i")
  case (Inl e)
  then show thesis using assms by (cases e) (simp_all add: handleWebhook_def act_throw_def split: if_splits)
next
  case (Inr ev)
  then show thesis using assms that by (simp add: handleWebhook_def act_throw_def split: if_splits)
qed

lemma rejected_webhook:
  assumes "pp_verify P i = Inl e"
  shows "\<exists>x. handleWebhook P c n i s = (Inl x, s)"
  using assms by (cases e) (simp_all add: handleWebhook_def act_throw_def)

lemma redelivered:
  assumes "handleWebhook P c n i s = (Inr d, t)" "pp_verify P i = Inr ev" "pp_verify P i' = Inr ev'"
    and "ev_external ev' = ev_external ev"
  shows "handleWebhook P c' n i' t = (Inr True, t)"
proof -
  have w: "webhook_event c ev s = (Inr d, t)" "n = pp_name P"
    using assms(1,2) by (auto elim: accepted_webhook)
  have "ev_provider ev' = ev_provider ev" using verified_provider assms(2,3) by simp
  then have "webhook_event c' ev' t = (Inr True, t)"
    using webhook_event_stored [OF w(1)] assms(4) by (intro webhook_event_processed) simp
  then show ?thesis using w(2) assms(3) by (simp add: handleWebhook_def)
qed

end

lemma throws_bind_InrE: "throws_bind m f = Inr b \<Longrightarrow> (\<And>a. m = Inr a \<Longrightarrow> f a = Inr b \<Longrightarrow> thesis) \<Longrightarrow> thesis"
  by (cases m) simp_all

lemma readInteger_Inr: "readInteger v = Inr n \<Longrightarrow> v = JNum (of_int n) \<and> 0 \<le> n"
proof (cases v)
  case (JNum r)
  moreover assume "readInteger v = Inr n"
  ultimately have "is_safe_integer r" "0 \<le> r" "n = \<lfloor>r\<rfloor>" by (simp_all add: readInteger_def split: if_splits)
  then show ?thesis using JNum by (auto simp: is_safe_integer_def js_isInteger_def)
qed (simp_all add: readInteger_def)

text \<open>An accepted Paymob webhook, field by field.\<close>

definition received_hmac :: "webhook_input \<Rightarrow> string" where
  "received_hmac i = (case wh_signature i of Some x \<Rightarrow> x
     | None \<Rightarrow> if js_is_string (jget (wh_body i) ''hmac'') then jstr (jget (wh_body i) ''hmac'') else [])"

lemma paymob_verify_Inr:
  assumes "paymob_verify E hmac512 K i = Inr ev"
  obtains t n cur ref created occ where "parsePaymobPayload (wh_body i) = Inr t"
    "verifyPaymobHmac E hmac512 t (received_hmac i) (pc_hmac_secret K)"
    "readInteger (jget t ''amount_cents'') = Inr n" "readString (jget t ''currency'') = Inr cur"
    "js_toUpperCase cur = ''EGP''" "n mod 100 = 0" "readMerchantReference E (jget t ''order'') = Inr ref"
    "readString (jget t ''created_at'') = Inr created" "js_date_parse E created = Some occ"
    "ev = \<lparr>ev_provider = ''paymob'', ev_external = paymob_external E (jget (wh_body i) ''type'') t,
       ev_fingerprint = env_sha256 E (case wh_raw i of Some raw \<Rightarrow> raw | None \<Rightarrow> json_text E (wh_body i)),
       ev_type = paymob_event_type t, ev_ref = ref, ev_transaction = js_String E (jget t ''id''),
       ev_amount = n div 100, ev_currency = ''EGP'',
       ev_mode = paymentModeFromSource E (jget t ''source_data''), ev_signature_valid = True,
       ev_payload = wh_body i, ev_occurred = occ\<rparr>"
  using assms that unfolding paymob_verify_def received_hmac_def [symmetric] Let_def
  by (elim throws_bind_InrE) (auto split: if_splits option.splits elim!: throws_bind_InrE)

lemma paymob_verify_eq:
  assumes "parsePaymobPayload (wh_body i) = Inr t" "pc_hmac_secret K \<noteq> []"
    "verifyPaymobHmac E hmac512 t (received_hmac i) (pc_hmac_secret K)"
    "readInteger (jget t ''amount_cents'') = Inr n" "readString (jget t ''currency'') = Inr cur"
    "js_toUpperCase cur = ''EGP''" "n mod 100 = 0" "readMerchantReference E (jget t ''order'') = Inr ref"
    "readString (jget t ''created_at'') = Inr created" "js_date_parse E created = Some occ"
  shows "paymob_verify E hmac512 K i = Inr
      \<lparr>ev_provider = ''paymob'', ev_external = paymob_external E (jget (wh_body i) ''type'') t,
       ev_fingerprint = env_sha256 E (case wh_raw i of Some raw \<Rightarrow> raw | None \<Rightarrow> json_text E (wh_body i)),
       ev_type = paymob_event_type t, ev_ref = ref, ev_transaction = js_String E (jget t ''id''),
       ev_amount = n div 100, ev_currency = ''EGP'',
       ev_mode = paymentModeFromSource E (jget t ''source_data''), ev_signature_valid = True,
       ev_payload = wh_body i, ev_occurred = occ\<rparr>"
  using assms unfolding paymob_verify_def received_hmac_def [symmetric] Let_def by simp

interpretation paymob: payment_port "paymob_provider E hmac512 request K"
proof
  fix i ev assume "pp_verify (paymob_provider E hmac512 request K) i = Inr ev"
  then have v: "paymob_verify E hmac512 K i = Inr ev" by (simp add: paymob_provider_def)
  show "ev_provider ev = pp_name (paymob_provider E hmac512 request K)"
    using v by (rule paymob_verify_Inr) (simp add: paymob_provider_def)
  show "0 \<le> ev_amount ev" using v by (rule paymob_verify_Inr) (auto dest: readInteger_Inr)
  show "ev_currency ev = ''EGP''" using v by (rule paymob_verify_Inr) simp
  show "ev_signature_valid ev" using v by (rule paymob_verify_Inr) simp
qed

lemma fake_verify_Inr:
  assumes "fake_verify E secret i = Inr ev"
  obtains p where "parsePayload E (wh_body i) = Inr p" "ev_provider ev = ''fake''" "ev_amount ev = fp_amount p"
    "ev_currency ev = ''EGP''" "ev_signature_valid ev" "ev_external ev = fp_event_id p" "ev_transaction ev = fp_transaction_ref p"
  using assms that unfolding fake_verify_def Let_def
  by (elim throws_bind_InrE) (auto split: if_splits option.splits)

lemma parsePayload_amount: "parsePayload E v = Inr p \<Longrightarrow> 0 \<le> fp_amount p"
  by (cases "jget v ''amount_egp''") (auto simp: parsePayload_def split: if_splits)

interpretation fake: payment_port "fake_provider E secret origin"
proof
  fix i ev assume "pp_verify (fake_provider E secret origin) i = Inr ev"
  then have v: "fake_verify E secret i = Inr ev" by (simp add: fake_provider_def)
  show "ev_provider ev = pp_name (fake_provider E secret origin)"
    using v by (rule fake_verify_Inr) (simp add: fake_provider_def)
  show "0 \<le> ev_amount ev" using v by (rule fake_verify_Inr) (simp add: parsePayload_amount)
  show "ev_currency ev = ''EGP''" using v by (rule fake_verify_Inr)
  show "ev_signature_valid ev" using v by (rule fake_verify_Inr)
qed


section \<open>What the Paymob signature covers\<close>

text \<open>The same transaction under another merchant order: every property but the order is kept.\<close>

definition same_but_order :: "json \<Rightarrow> json \<Rightarrow> bool" where
  "same_but_order t t' \<longleftrightarrow> (\<forall>k. k \<noteq> ''order'' \<longrightarrow> jget t' k = jget t k)
     \<and> jget (jget t' ''order'') ''id'' = jget (jget t ''order'') ''id''"

lemma same_but_order_canonical: "same_but_order t t' \<Longrightarrow> paymob_canonical E t' = paymob_canonical E t"
  by (simp add: paymob_canonical_def PAYMOB_HMAC_FIELDS_def same_but_order_def)

text \<open>
  The Paymob signature does not cover the checkout a payment is credited to: from an accepted
  webhook, replacing the merchant order of the transaction by any other, with the signature kept,
  gives a webhook that is accepted too and names the other checkout as paid.
\<close>

theorem paymob_signature_ignores_checkout:
  assumes "paymob_verify E hmac512 K i = Inr ev" "wh_body i = JObj body" "wh_signature i = Some sig"
    and "map_of body ''obj'' = Some t" "isRecord t'" "same_but_order t t'"
    and "isRecord (jget t' ''order'')" "jget (jget t' ''order'') ''merchant_order_id'' = JStr other"
  shows "\<exists>ev'. paymob_verify E hmac512 K
      \<lparr>wh_body = JObj (map (\<lambda>kv. if fst kv = ''obj'' then (''obj'', t') else kv) body), wh_raw = raw, wh_signature = Some sig\<rparr> = Inr ev'
    \<and> ev_ref ev' = other \<and> ev_type ev' = ev_type ev \<and> ev_transaction ev' = ev_transaction ev \<and> ev_amount ev' = ev_amount ev"
proof -
  let ?body = "map (\<lambda>kv. if fst kv = ''obj'' then (''obj'', t') else kv) body"
  let ?i = "\<lparr>wh_body = JObj ?body, wh_raw = raw, wh_signature = Some sig\<rparr>"
  have m: "k \<noteq> ''obj'' \<Longrightarrow> map_of ?body k = map_of body k" "map_of body ''obj'' \<noteq> None \<Longrightarrow> map_of ?body ''obj'' = Some t'" for k
    by (induction body) auto
  then have g: "jget (JObj ?body) k = (if k = ''obj'' then t' else jget (JObj body) k)" for k
    using assms(4) by simp
  note keep = assms(6) [unfolded same_but_order_def, THEN conjunct1, rule_format]
  from assms(1) show ?thesis
  proof (rule paymob_verify_Inr)
    fix u n cur ref created occ
    assume a: "parsePaymobPayload (wh_body i) = Inr u" "verifyPaymobHmac E hmac512 u (received_hmac i) (pc_hmac_secret K)"
      "readInteger (jget u ''amount_cents'') = Inr n" "readString (jget u ''currency'') = Inr cur"
      "js_toUpperCase cur = ''EGP''" "n mod 100 = 0" "readString (jget u ''created_at'') = Inr created"
      "js_date_parse E created = Some occ"
      and ev: "ev = \<lparr>ev_provider = ''paymob'', ev_external = paymob_external E (jget (wh_body i) ''type'') u,
       ev_fingerprint = env_sha256 E (case wh_raw i of Some raw \<Rightarrow> raw | None \<Rightarrow> json_text E (wh_body i)),
       ev_type = paymob_event_type u, ev_ref = ref, ev_transaction = js_String E (jget u ''id''),
       ev_amount = n div 100, ev_currency = ''EGP'',
       ev_mode = paymentModeFromSource E (jget u ''source_data''), ev_signature_valid = True,
       ev_payload = wh_body i, ev_occurred = occ\<rparr>"
    have u: "u = t" using a(1) assms(2,4) by (auto simp: parsePaymobPayload_def split: if_splits)
    have p: "parsePaymobPayload (wh_body ?i) = Inr t'"
      using a(1) assms(2,5) g by (auto simp: parsePaymobPayload_def split: if_splits)
    have s: "verifyPaymobHmac E hmac512 t' (received_hmac ?i) (pc_hmac_secret K)"
      using a(2) assms(3) same_but_order_canonical [OF assms(6)] by (auto simp: verifyPaymobHmac_def received_hmac_def u split: if_splits)
    have k: "pc_hmac_secret K \<noteq> []" using a(2) by (auto simp: verifyPaymobHmac_def split: if_splits)
    have r: "readMerchantReference E (jget t' ''order'') = Inr other"
      using assms(7,8) by (simp add: readMerchantReference_def nullish_def)
    have f: "jget t' ''amount_cents'' = jget u ''amount_cents''" "jget t' ''currency'' = jget u ''currency''"
      "jget t' ''created_at'' = jget u ''created_at''" "jget t' ''pending'' = jget u ''pending''"
      "jget t' ''success'' = jget u ''success''" "jget t' ''id'' = jget u ''id''"
      unfolding u by (rule keep; simp)+
    show ?thesis
      by (rule exI, rule conjI [OF paymob_verify_eq [OF p k s a(3,4) [folded f(1,2)] a(5,6) r a(7) [folded f(3)] a(8)]])
        (simp add: ev paymob_event_type_def f)
  qed
qed



section \<open>The properties on concrete webhooks\<close>

definition paymob_txn :: "string \<Rightarrow> bool \<Rightarrow> bool \<Rightarrow> json" where
  "paymob_txn merchant pend succ = JObj
     [(''amount_cents'', JNum 10000), (''created_at'', JStr sample_at), (''currency'', JStr ''EGP''), (''id'', JNum 7),
      (''order'', JObj [(''id'', JNum 8), (''merchant_order_id'', JStr merchant)]),
      (''pending'', JBool pend), (''success'', JBool succ)]"

definition paymob_message :: "json \<Rightarrow> webhook_input" where
  "paymob_message t = \<lparr>wh_body = JObj [(''type'', JStr ''TRANSACTION''), (''obj'', t)], wh_raw = None, wh_signature = Some sample_sha\<rparr>"

definition sample_paymob :: paymob_config where
  "sample_paymob = \<lparr>pc_base_url = ''https://accept.paymob.com'', pc_secret_key = ''sk'', pc_public_key = ''pk'',
     pc_integration_ids = [1], pc_hmac_secret = ''secret'', pc_sandbox = True, pc_web_origin = ''http://localhost:3000''\<rparr>"

definition sample_hmac512 :: "string \<Rightarrow> string \<Rightarrow> string" where
  "sample_hmac512 secret text = sample_sha"

definition paymob_event :: "string \<Rightarrow> event_type \<Rightarrow> json \<Rightarrow> payment_event" where
  "paymob_event merchant ty t =
      \<lparr>ev_provider = ''paymob'', ev_external = paymob_external sample_env (JStr ''TRANSACTION'') t,
       ev_fingerprint = sample_sha, ev_type = ty, ev_ref = merchant, ev_transaction = js_String sample_env (JNum 7),
       ev_amount = 100, ev_currency = ''EGP'', ev_mode = one_time_card, ev_signature_valid = True,
       ev_payload = wh_body (paymob_message t), ev_occurred = 1785578400000\<rparr>"

lemma upper_EGP: "js_toUpperCase ''EGP'' = ''EGP''"
  by (simp add: js_toUpperCase_def upper_char_def)

lemma sample_paymob_verify:
  "paymob_verify sample_env sample_hmac512 sample_paymob (paymob_message (paymob_txn merchant pend succ))
    = Inr (paymob_event merchant (if pend then event_pending else if succ then event_paid else event_failed) (paymob_txn merchant pend succ))"
proof -
  let ?t = "paymob_txn merchant pend succ"
  let ?i = "paymob_message ?t"
  have parse: "parsePaymobPayload (wh_body ?i) = Inr ?t"
    by (simp add: parsePaymobPayload_def paymob_message_def paymob_txn_def)
  have sig: "verifyPaymobHmac sample_env sample_hmac512 ?t (received_hmac ?i) (pc_hmac_secret sample_paymob)"
    by (simp add: verifyPaymobHmac_def received_hmac_def paymob_message_def sample_hmac512_def sample_paymob_def sample_sha_def)
  have amount: "readInteger (jget ?t ''amount_cents'') = Inr 10000"
    by (simp add: readInteger_def paymob_txn_def is_safe_integer_def)
  have cur: "readString (jget ?t ''currency'') = Inr ''EGP''" by (simp add: readString_def paymob_txn_def)
  have ref: "readMerchantReference sample_env (jget ?t ''order'') = Inr merchant"
    by (simp add: readMerchantReference_def paymob_txn_def nullish_def)
  have ne: "sample_at \<noteq> []" using sample_at_nonempty(1) by (auto simp: js_trim_def)
  have cr: "readString (jget ?t ''created_at'') = Inr sample_at" using ne by (simp add: readString_def paymob_txn_def)
  have secret: "pc_hmac_secret sample_paymob \<noteq> []" by (simp add: sample_paymob_def)
  have m: "(10000 :: int) mod 100 = 0" by simp
  show ?thesis
    unfolding paymob_verify_eq [OF parse secret sig amount cur upper_EGP m ref cr sample_at_parse]
    by (simp add: paymob_event_def paymob_message_def paymob_txn_def paymob_event_type_def paymentModeFromSource_def)
qed

theorem paymob_signature_ignores_checkout_witness:
  "\<exists>ev'. paymob_verify sample_env sample_hmac512 sample_paymob
      \<lparr>wh_body = JObj [(''type'', JStr ''TRANSACTION''), (''obj'', paymob_txn ''another'' False True)], wh_raw = None,
       wh_signature = Some sample_sha\<rparr> = Inr ev' \<and> ev_ref ev' = ''another'' \<and> ev_type ev' = event_paid"
proof -
  have same: "same_but_order (paymob_txn ''mine'' False True) (paymob_txn ''another'' False True)"
    by (simp add: same_but_order_def paymob_txn_def)
  have ty: "ev_type (paymob_event m event_paid t) = event_paid" for m t by (simp add: paymob_event_def)
  have v: "paymob_verify sample_env sample_hmac512 sample_paymob (paymob_message (paymob_txn ''mine'' False True))
      = Inr (paymob_event ''mine'' event_paid (paymob_txn ''mine'' False True))"
    using sample_paymob_verify [of "''mine''" False True] by simp
  have "wh_body (paymob_message (paymob_txn ''mine'' False True)) = JObj [(''type'', JStr ''TRANSACTION''), (''obj'', paymob_txn ''mine'' False True)]"
    "wh_signature (paymob_message (paymob_txn ''mine'' False True)) = Some sample_sha"
    by (simp_all add: paymob_message_def)
  from paymob_signature_ignores_checkout [OF v this _ _ same, of "''another''" None]
  show ?thesis by (auto simp: paymob_txn_def ty)
qed



end
