(* ===== verification/Billing_Outbox.thy ===== *)
theory Billing_Outbox
  imports Billing_Store
begin

text \<open>
  The billing outbox (billing-outbox.repository.ts, billing-outbox.processor.ts,
  billing-outbox.reconciler.ts): events committed with a payment, claimed under a lease, mailed by
  a worker, retried with a growing delay and given up after five attempts.

  The operations of the repository are functions on the table of events. The mail service and the
  queue are parameters: \<open>mail row\<close> is \<open>None\<close> when the provider accepted the mail and the error text
  otherwise, \<open>enqueue id\<close> likewise for the queue.
\<close>


section \<open>The repository\<close>

definition BILLING_OUTBOX_MAX_ATTEMPTS :: nat where
  "BILLING_OUTBOX_MAX_ATTEMPTS = 5"

definition expire_leases :: "int \<Rightarrow> outbox_row list \<Rightarrow> outbox_row list" where
  "expire_leases now = tbl_update
     (\<lambda>r. o_state r = outbox_processing \<and> (case o_lease_expires r of None \<Rightarrow> False | Some x \<Rightarrow> x < now))
     (\<lambda>r. r\<lparr>o_state := outbox_pending, o_lease_owner := None, o_lease_expires := None, o_next_attempt := Some now\<rparr>)"

definition due :: "int \<Rightarrow> outbox_row \<Rightarrow> bool" where
  "due now r \<longleftrightarrow> o_state r = outbox_pending \<and> (case o_next_attempt r of None \<Rightarrow> True | Some x \<Rightarrow> x \<le> now)"

definition lease :: "string \<Rightarrow> int \<Rightarrow> outbox_row \<Rightarrow> outbox_row" where
  "lease owner until r = r\<lparr>o_state := outbox_processing, o_lease_owner := Some owner, o_lease_expires := Some until\<rparr>"

text \<open>\<open>updateMany\<close> answers with the number of rows it touched.\<close>

definition update_many :: "(outbox_row \<Rightarrow> bool) \<Rightarrow> (outbox_row \<Rightarrow> outbox_row) \<Rightarrow> outbox_row list \<Rightarrow> nat \<times> outbox_row list" where
  "update_many P f t = (tbl_count P t, tbl_update P f t)"

fun claim_ids :: "string \<Rightarrow> int \<Rightarrow> string list \<Rightarrow> outbox_row list \<Rightarrow> string list \<times> outbox_row list" where
  "claim_ids owner until [] t = ([], t)"
| "claim_ids owner until (i # is) t =
     (let (n, t') = update_many (\<lambda>r. o_id r = i \<and> o_state r = outbox_pending) (lease owner until) t;
          (claimed, t'') = claim_ids owner until is t'
      in (if n = 1 then i # claimed else claimed, t''))"

definition claimDueEvents :: "int \<Rightarrow> string \<Rightarrow> nat \<Rightarrow> int \<Rightarrow> outbox_row list \<Rightarrow> outbox_row list \<times> outbox_row list" where
  "claimDueEvents now owner limit leaseMs t =
     (let t1 = expire_leases now t;
          ids = take limit (map o_id (sort_key o_created (filter (due now) t1)))
      in if ids = [] then ([], t1)
         else let (claimed, t2) = claim_ids owner (now + leaseMs) ids t1
              in (sort_key o_created (filter (\<lambda>r. o_id r \<in> set claimed) t2), t2))"

definition claimEventById :: "int \<Rightarrow> string \<Rightarrow> string \<Rightarrow> int \<Rightarrow> outbox_row list \<Rightarrow> outbox_row option \<times> outbox_row list" where
  "claimEventById now eventId owner leaseMs t =
     (let (n, t') = update_many (\<lambda>r. o_id r = eventId \<and> o_state r = outbox_pending) (lease owner (now + leaseMs)) t
      in if n \<noteq> 1 then (None, t') else (tbl_find o_id eventId t', t'))"

definition holds_lease :: "string \<Rightarrow> string \<Rightarrow> outbox_row \<Rightarrow> bool" where
  "holds_lease eventId owner r \<longleftrightarrow> o_id r = eventId \<and> o_state r = outbox_processing \<and> o_lease_owner r = Some owner"

definition releaseClaim :: "string \<Rightarrow> string \<Rightarrow> outbox_row list \<Rightarrow> bool \<times> outbox_row list" where
  "releaseClaim eventId owner t =
     (let (n, t') = update_many (holds_lease eventId owner)
        (\<lambda>r. r\<lparr>o_state := outbox_pending, o_lease_owner := None, o_lease_expires := None\<rparr>) t
      in (n = 1, t'))"

definition markDispatched :: "int \<Rightarrow> string \<Rightarrow> string \<Rightarrow> outbox_row list \<Rightarrow> bool \<times> outbox_row list" where
  "markDispatched now eventId owner t =
     (let (n, t') = update_many (holds_lease eventId owner)
        (\<lambda>r. r\<lparr>o_state := outbox_sent, o_dispatched := Some now, o_lease_owner := None, o_lease_expires := None\<rparr>) t
      in (n = 1, t'))"

definition retry_delay :: "nat \<Rightarrow> int" where
  "retry_delay attempts = min 60000 (1000 * 2 ^ (attempts - 1))"

definition releaseForRetry :: "int \<Rightarrow> string \<Rightarrow> string \<Rightarrow> string \<Rightarrow> outbox_row list \<Rightarrow> bool \<times> outbox_row list" where
  "releaseForRetry now eventId owner errorMessage t =
     (case List.find (holds_lease eventId owner) t of
        None \<Rightarrow> (False, t)
      | Some current \<Rightarrow>
          (let attempts = o_attempts current + 1;
               terminal = attempts \<ge> BILLING_OUTBOX_MAX_ATTEMPTS;
               (n, t') = update_many (holds_lease eventId owner)
                 (\<lambda>r. r\<lparr>o_state := (if terminal then outbox_failed else outbox_pending), o_attempts := attempts,
                        o_last_error := Some (take 1000 errorMessage),
                        o_next_attempt := (if terminal then None else Some (now + retry_delay attempts)),
                        o_lease_owner := None, o_lease_expires := None\<rparr>) t
           in (n = 1, t')))"


section \<open>The worker and the reconciler\<close>

datatype job_result = job_done | job_failed string

text \<open>
  The mail of an event is addressed to the owner of its account; \<open>owner_of\<close> is that lookup, and a
  missing account is an error like a refused mail.
\<close>

record mail_request =
  m_owner :: string
  m_bundle_en :: json
  m_points :: json
  m_amount :: json
  m_currency :: json
  m_transaction :: json
  m_confirmed :: json

definition or_else :: "json \<Rightarrow> json \<Rightarrow> json" where
  "or_else v d = (if v = JNull \<or> v = JUndef then d else v)"

definition confirmation_mail :: "(string \<Rightarrow> string option) \<Rightarrow> outbox_row \<Rightarrow> mail_request option" where
  "confirmation_mail owner_of row =
     (case owner_of (o_account row) of
        None \<Rightarrow> None
      | Some owner \<Rightarrow>
          (let p = or_else (o_payload row) (JObj []); fallback = or_else (jget p ''bundle_code'') (JStr [])
           in Some \<lparr>m_owner = owner, m_bundle_en = or_else (jget p ''bundle_name_en'') fallback,
                m_points = or_else (jget p ''points_granted'') (JNum 0), m_amount = or_else (jget p ''amount_egp'') (JNum 0),
                m_currency = or_else (jget p ''currency'') (JStr ''EGP''),
                m_transaction = or_else (jget p ''transaction_ref'') (JStr (o_dedupe row)),
                m_confirmed = or_else (jget p ''confirmed_at'') JNull\<rparr>))"

definition sendConfirmationEmail ::
  "(string \<Rightarrow> string option) \<Rightarrow> (mail_request \<Rightarrow> string option) \<Rightarrow> outbox_row \<Rightarrow> string option" where
  "sendConfirmationEmail owner_of mail row =
     (case confirmation_mail owner_of row of
        None \<Rightarrow> Some (''Billing account '' @ o_account row @ '' not found'')
      | Some m \<Rightarrow> mail m)"

definition worker_name :: "string \<Rightarrow> string" where
  "worker_name job = ''billing-mail-worker:'' @ job"

definition reconciler_name :: "string \<Rightarrow> string" where
  "reconciler_name run = ''billing-mail-reconciler:'' @ run"

definition process_job ::
  "(outbox_row \<Rightarrow> string option) \<Rightarrow> int \<Rightarrow> string \<Rightarrow> string \<Rightarrow> outbox_row list \<Rightarrow> job_result \<times> outbox_row list" where
  "process_job send now jobId eventId t =
     (let leaseOwner = worker_name jobId in
      case claimEventById now eventId leaseOwner 60000 t of
        (None, t1) \<Rightarrow> (job_done, t1)
      | (Some event, t1) \<Rightarrow>
          (case send event of
             None \<Rightarrow> (job_done, snd (markDispatched now eventId leaseOwner t1))
           | Some message \<Rightarrow> (job_failed message, snd (releaseForRetry now eventId leaseOwner message t1))))"

fun reconcile_events ::
  "(string \<Rightarrow> string option) \<Rightarrow> int \<Rightarrow> string \<Rightarrow> string list \<Rightarrow> outbox_row list \<Rightarrow> outbox_row list" where
  "reconcile_events enqueue now owner [] t = t"
| "reconcile_events enqueue now owner (i # is) t =
     reconcile_events enqueue now owner is
       (case enqueue i of
          None \<Rightarrow> snd (releaseClaim i owner t)
        | Some message \<Rightarrow> snd (releaseForRetry now i owner message t))"

definition reconcile :: "(string \<Rightarrow> string option) \<Rightarrow> int \<Rightarrow> string \<Rightarrow> outbox_row list \<Rightarrow> outbox_row list" where
  "reconcile enqueue now run t =
     (let leaseOwner = reconciler_name run;
          (events, t1) = claimDueEvents now leaseOwner 50 60000 t
      in reconcile_events enqueue now leaseOwner (map o_id events) t1)"


section \<open>One event\<close>

text \<open>
  Every operation acts on each row on its own: what it does to the row of one event is
  \<open>row_step\<close>, whatever the other rows are.
\<close>

definition row_le :: "outbox_row \<Rightarrow> outbox_row \<Rightarrow> bool" where
  "row_le r r' \<longleftrightarrow> o_id r' = o_id r \<and> o_created r' = o_created r \<and> o_payload r' = o_payload r \<and> o_account r' = o_account r
     \<and> o_dedupe r' = o_dedupe r \<and> o_attempts r \<le> o_attempts r'
     \<and> (o_state r = outbox_sent \<or> o_state r = outbox_failed \<longrightarrow> r' = r)"

definition row_ok :: "outbox_row \<Rightarrow> bool" where
  "row_ok r \<longleftrightarrow> (if o_state r = outbox_failed then o_attempts r = BILLING_OUTBOX_MAX_ATTEMPTS
     else o_attempts r < BILLING_OUTBOX_MAX_ATTEMPTS)
     \<and> (o_state r = outbox_processing \<longleftrightarrow> o_lease_owner r \<noteq> None)
     \<and> (o_lease_owner r = None \<longleftrightarrow> o_lease_expires r = None)
     \<and> (o_state r = outbox_sent \<longleftrightarrow> o_dispatched r \<noteq> None)"

definition table_ok :: "outbox_row list \<Rightarrow> bool" where
  "table_ok t \<longleftrightarrow> distinct (map o_id t) \<and> list_all row_ok t"

definition table_le :: "outbox_row list \<Rightarrow> outbox_row list \<Rightarrow> bool" where
  "table_le t t' \<longleftrightarrow> list_all2 row_le t t'"

lemma row_le_refl [simp]: "row_le r r" by (simp add: row_le_def)
lemma row_le_trans: "row_le r q \<Longrightarrow> row_le q p \<Longrightarrow> row_le r p" by (auto simp: row_le_def)

lemma table_le_refl [simp]: "table_le t t" by (simp add: table_le_def list_all2_refl)

lemma table_le_trans: "table_le t u \<Longrightarrow> table_le u v \<Longrightarrow> table_le t v"
  unfolding table_le_def by (rule list_all2_trans [OF row_le_trans])

text \<open>The shape of every write: an update of the rows a predicate selects.\<close>

definition good_update :: "(outbox_row \<Rightarrow> bool) \<Rightarrow> (outbox_row \<Rightarrow> outbox_row) \<Rightarrow> bool" where
  "good_update P f \<longleftrightarrow> (\<forall>r. P r \<longrightarrow> row_le r (f r) \<and> (row_ok r \<longrightarrow> row_ok (f r)))"

lemma good_update_table:
  assumes "good_update P f" "table_ok t"
  shows "table_ok (tbl_update P f t) \<and> table_le t (tbl_update P f t)"
proof -
  have "map o_id (tbl_update P f t) = map o_id t"
    using assms(1) by (auto simp: tbl_update_def good_update_def row_le_def)
  moreover have "list_all row_ok (tbl_update P f t)"
    using assms by (auto simp: table_ok_def tbl_update_def list_all_iff good_update_def)
  moreover have "list_all2 row_le t (tbl_update P f t)"
    using assms(1) by (auto simp: tbl_update_def list_all2_conv_all_nth good_update_def)
  ultimately show ?thesis using assms(2) by (simp add: table_ok_def table_le_def)
qed

definition sound_op :: "(outbox_row list \<Rightarrow> outbox_row list) \<Rightarrow> bool" where
  "sound_op m \<longleftrightarrow> (\<forall>t. table_ok t \<longrightarrow> table_ok (m t) \<and> table_le t (m t))"

lemma sound_opD: "sound_op m \<Longrightarrow> table_ok t \<Longrightarrow> table_ok (m t) \<and> table_le t (m t)"
  by (simp add: sound_op_def)

lemma sound_op_id: "sound_op (\<lambda>t. t)" by (simp add: sound_op_def)

lemma sound_op_comp: "sound_op m \<Longrightarrow> sound_op n \<Longrightarrow> sound_op (\<lambda>t. n (m t))"
  unfolding sound_op_def by (blast intro: table_le_trans)

lemma lease_good: "good_update (\<lambda>r. Q r \<and> o_state r = outbox_pending) (lease owner until)"
  by (auto simp: good_update_def row_le_def row_ok_def lease_def)

lemma expire_leases_sound: "sound_op (expire_leases now)"
  unfolding sound_op_def expire_leases_def
  by (intro allI impI good_update_table) (auto simp: good_update_def row_le_def row_ok_def)

lemma claim_ids_sound: "sound_op (\<lambda>t. snd (claim_ids owner until is t))"
proof (induction "is")
  case (Cons i "is")
  have "sound_op (tbl_update (\<lambda>r. o_id r = i \<and> o_state r = outbox_pending) (lease owner until))"
    unfolding sound_op_def by (intro allI impI good_update_table lease_good)
  from sound_op_comp [OF this Cons] show ?case
    by (simp add: update_many_def Let_def case_prod_beta)
qed (simp add: sound_op_id)

lemma claimDueEvents_sound: "sound_op (\<lambda>t. snd (claimDueEvents now owner limit leaseMs t))"
  unfolding sound_op_def
proof (intro allI impI)
  fix t assume t: "table_ok t"
  note e = sound_opD [OF expire_leases_sound t, of now]
  have "table_ok (snd (claim_ids o' u is (expire_leases now t))) \<and> table_le t (snd (claim_ids o' u is (expire_leases now t)))" for o' u "is"
    using sound_opD [OF claim_ids_sound conjunct1 [OF e]] table_le_trans [OF conjunct2 [OF e]] by blast
  then show "table_ok (snd (claimDueEvents now owner limit leaseMs t)) \<and> table_le t (snd (claimDueEvents now owner limit leaseMs t))"
    using e by (simp add: claimDueEvents_def Let_def case_prod_beta)
qed

lemma claimEventById_sound: "sound_op (\<lambda>t. snd (claimEventById now i owner leaseMs t))"
  unfolding sound_op_def claimEventById_def update_many_def Let_def
  using good_update_table [OF lease_good [of "\<lambda>r. o_id r = i" owner]] by (simp add: case_prod_beta)

lemma releaseClaim_sound: "sound_op (\<lambda>t. snd (releaseClaim i owner t))"
proof -
  have "good_update (holds_lease i owner) (\<lambda>r. r\<lparr>o_state := outbox_pending, o_lease_owner := None, o_lease_expires := None\<rparr>)"
    by (auto simp: good_update_def row_le_def row_ok_def holds_lease_def)
  from good_update_table [OF this] show ?thesis
    by (simp add: sound_op_def releaseClaim_def update_many_def Let_def)
qed

lemma markDispatched_sound: "sound_op (\<lambda>t. snd (markDispatched now i owner t))"
proof -
  have "good_update (holds_lease i owner) (\<lambda>r. r\<lparr>o_state := outbox_sent, o_dispatched := Some now, o_lease_owner := None, o_lease_expires := None\<rparr>)"
    by (auto simp: good_update_def row_le_def row_ok_def holds_lease_def)
  from good_update_table [OF this] show ?thesis
    by (simp add: sound_op_def markDispatched_def update_many_def Let_def)
qed

lemma releaseForRetry_sound: "sound_op (\<lambda>t. snd (releaseForRetry now i owner message t))"
  unfolding sound_op_def
proof (intro allI impI)
  fix t assume t: "table_ok t"
  show "table_ok (snd (releaseForRetry now i owner message t)) \<and> table_le t (snd (releaseForRetry now i owner message t))"
  proof (cases "List.find (holds_lease i owner) t")
    case None
    then show ?thesis using t by (simp add: releaseForRetry_def)
  next
    case (Some x)
    then have x: "x \<in> set t" "holds_lease i owner x" by (auto dest: find_SomeD)
    have one: "r = x" if "r \<in> set t" "holds_lease i owner r" for r
      using that x t by (auto simp: table_ok_def holds_lease_def distinct_map dest: inj_onD)
    have ok: "row_ok x" using t x(1) by (simp add: table_ok_def list_all_iff)
    let ?a = "o_attempts x + 1"
    let ?f = "\<lambda>r. r\<lparr>o_state := (if BILLING_OUTBOX_MAX_ATTEMPTS \<le> ?a then outbox_failed else outbox_pending), o_attempts := ?a,
                    o_last_error := Some (take 1000 message),
                    o_next_attempt := (if BILLING_OUTBOX_MAX_ATTEMPTS \<le> ?a then None else Some (now + retry_delay ?a)),
                    o_lease_owner := None, o_lease_expires := None\<rparr>"
    have eq: "tbl_update (holds_lease i owner) ?f t = tbl_update (\<lambda>r. holds_lease i owner r \<and> r = x) ?f t"
      unfolding tbl_update_def
    proof (rule map_cong [OF refl])
      fix r assume "r \<in> set t"
      then have "holds_lease i owner r \<longleftrightarrow> holds_lease i owner r \<and> r = x" using one by blast
      then show "(if holds_lease i owner r then ?f r else r) = (if holds_lease i owner r \<and> r = x then ?f r else r)" by simp
    qed
    have "good_update (\<lambda>r. holds_lease i owner r \<and> r = x) ?f"
      using ok x(2) by (auto simp: good_update_def row_le_def row_ok_def holds_lease_def)
    note good_update_table [OF this t, folded eq]
    moreover have "snd (releaseForRetry now i owner message t) = tbl_update (holds_lease i owner) ?f t"
      by (simp add: releaseForRetry_def update_many_def Some Let_def)
    ultimately show ?thesis by (simp only:)
  qed
qed

end
