(* ===== verification/Outbox_Claims.thy ===== *)
theory Outbox_Claims
  imports Billing_Outbox
begin

text \<open>
  Properties of the billing outbox: what every operation preserves, the exclusiveness of a lease,
  delivery at most once after success, the bound on attempts and delays, and the race between the
  reconciler and the worker.
\<close>


section \<open>One row in a table\<close>

lemma one_row:
  assumes "distinct (map o_id t)" "r \<in> set t"
  shows "q \<in> set t \<and> o_id q = o_id r \<longleftrightarrow> q = r"
  using assms by (auto simp: distinct_map dest: inj_onD)

lemma filter_one: "distinct t \<Longrightarrow> r \<in> set t \<Longrightarrow> filter (\<lambda>q. q = r) t = [r]"
  by (induction t) (auto simp: filter_empty_conv)

lemma count_row:
  assumes "distinct (map o_id t)" "r \<in> set t" "P r" "\<And>q. P q \<Longrightarrow> o_id q = o_id r"
  shows "tbl_count P t = 1"
proof -
  have eq: "P q \<longleftrightarrow> q = r" if "q \<in> set t" for q
    using one_row [OF assms(1,2), of q] that assms(3,4) by blast
  have "filter P t = filter (\<lambda>q. q = r) t"
    by (rule filter_cong) (simp_all add: eq)
  moreover have "distinct t" using assms(1) by (simp add: distinct_map)
  ultimately show ?thesis using filter_one [of t r] assms(2) by (simp add: tbl_count_def)
qed

lemma find_row: "distinct (map o_id t) \<Longrightarrow> r \<in> set t \<Longrightarrow> tbl_find o_id (o_id r) t = Some r"
  by (simp add: tbl_find_Some_iff_distinct)

lemma update_row:
  assumes "distinct (map o_id t)" "r \<in> set t" "\<And>q. o_id (f q) = o_id q"
  shows "tbl_find o_id (o_id r) (tbl_update P f t) = Some (if P r then f r else r)"
  using find_row [OF assms(1,2)] by (simp add: tbl_find_update [of o_id f, OF assms(3)])

definition event_row :: "string \<Rightarrow> outbox_row list \<Rightarrow> outbox_row option" where
  "event_row i t = tbl_find o_id i t"

lemma event_rowD: "event_row i t = Some r \<Longrightarrow> r \<in> set t \<and> o_id r = i"
  unfolding event_row_def by (rule tbl_find_SomeD)

lemma lease_id [simp]: "o_id (lease owner until r) = o_id r"
  by (simp add: lease_def)

text \<open>A claim of a pending event, and a claim of any other.\<close>

lemma claim_pending:
  assumes "table_ok t" "event_row i t = Some r" "o_state r = outbox_pending"
  shows "claimEventById now i owner ms t =
    (Some (lease owner (now + ms) r), tbl_update (\<lambda>r. o_id r = i \<and> o_state r = outbox_pending) (lease owner (now + ms)) t)"
proof -
  note r = event_rowD [OF assms(2)]
  have d: "distinct (map o_id t)" using assms(1) by (simp add: table_ok_def)
  have "tbl_count (\<lambda>r. o_id r = i \<and> o_state r = outbox_pending) t = 1"
    by (rule count_row [OF d]) (use r assms(3) in auto)
  then show ?thesis
    using update_row [OF d conjunct1 [OF r], of "lease owner (now + ms)" "\<lambda>r. o_id r = i \<and> o_state r = outbox_pending"] r assms(3)
    by (simp add: claimEventById_def update_many_def)
qed

lemma claim_refused:
  assumes "table_ok t" "event_row i t = Some r" "o_state r \<noteq> outbox_pending"
  shows "claimEventById now i owner ms t = (None, t)"
proof -
  have "\<not> (o_id q = i \<and> o_state q = outbox_pending)" if "q \<in> set t" for q
    using one_row [of t r q] that event_rowD [OF assms(2)] assms(1,3) by (auto simp: table_ok_def)
  then show ?thesis
    by (simp add: claimEventById_def update_many_def tbl_count_def tbl_update_none filter_False)
qed

lemma other_owner:
  assumes "table_ok t" "event_row i t = Some r" "o_lease_owner r \<noteq> Some owner" "q \<in> set t"
  shows "\<not> holds_lease i owner q"
  using one_row [of t r q] event_rowD [OF assms(2)] assms by (auto simp: table_ok_def holds_lease_def)

text \<open>
  C37. A lease excludes everyone else: while an event is held, nobody can claim it by its identity,
  a worker or reconciler that is not its holder can neither mark it sent nor release it nor count
  a failure on it, and until the lease runs out the reconciler does not take it over.
\<close>

theorem lease_excludes_others:
  assumes "table_ok t" "event_row i t = Some r" "holds_lease i holder r" "other \<noteq> holder"
    and "o_lease_expires r = Some until" "now \<le> until"
  shows "claimEventById now i other ms t = (None, t) \<and> markDispatched now i other t = (False, t)
    \<and> releaseClaim i other t = (False, t) \<and> releaseForRetry now i other message t = (False, t)
    \<and> event_row i (snd (claimDueEvents now other limit ms t)) = Some r"
proof -
  have st: "o_state r = outbox_processing" "o_lease_owner r = Some holder" "o_id r = i"
    using assms(3) by (simp_all add: holds_lease_def)
  have no: "\<not> holds_lease i other q" if "q \<in> set t" for q
    using other_owner [OF assms(1,2) _ that] st(2) assms(4) by simp
  have u: "update_many (holds_lease i other) f t = (0, t)" for f
    using no by (simp add: update_many_def tbl_update_none tbl_count_0_iff)
  have f: "List.find (holds_lease i other) t = None" using no by (simp add: find_None_iff)
  have keep: "event_row i (snd (claim_ids other x is u)) = Some r"
    if "event_row i u = Some r" for u "is" x
    using that
  proof (induction "is" arbitrary: u)
    case (Cons k "is")
    have "event_row i (tbl_update (\<lambda>r. o_id r = k \<and> o_state r = outbox_pending) (lease other x) u) = Some r"
      using Cons.prems st(1) unfolding event_row_def by (subst tbl_find_update) simp_all
    from Cons.IH [OF this] show ?case by (simp add: update_many_def Let_def case_prod_beta)
  qed simp
  have "event_row i (expire_leases now t) = Some r"
    using assms(2,5,6) unfolding event_row_def expire_leases_def by (subst tbl_find_update) simp_all
  then have "event_row i (snd (claimDueEvents now other limit ms t)) = Some r"
    using keep by (simp add: claimDueEvents_def Let_def case_prod_beta)
  moreover have "claimEventById now i other ms t = (None, t)"
    by (rule claim_refused [OF assms(1,2)]) (simp add: st)
  ultimately show ?thesis
    using u f by (simp add: markDispatched_def releaseClaim_def releaseForRetry_def)
qed


section \<open>Jobs\<close>

lemma process_job_row:
  assumes "table_ok t" "event_row i t = Some r" "o_state r = outbox_pending"
  shows "event_row i (snd (process_job send now job i t)) = Some
    (let q = lease (worker_name job) (now + 60000) r in
     case send q of
       None \<Rightarrow> q\<lparr>o_state := outbox_sent, o_dispatched := Some now, o_lease_owner := None, o_lease_expires := None\<rparr>
     | Some message \<Rightarrow>
         q\<lparr>o_state := (if o_attempts r + 1 \<ge> 5 then outbox_failed else outbox_pending), o_attempts := o_attempts r + 1,
           o_last_error := Some (take 1000 message),
           o_next_attempt := (if o_attempts r + 1 \<ge> 5 then None else Some (now + retry_delay (o_attempts r + 1))),
           o_lease_owner := None, o_lease_expires := None\<rparr>)"
proof -
  let ?w = "worker_name job"
  let ?q = "lease ?w (now + 60000) r"
  let ?t = "tbl_update (\<lambda>r. o_id r = i \<and> o_state r = outbox_pending) (lease ?w (now + 60000)) t"
  note c = claim_pending [OF assms, of now ?w 60000]
  have ok: "table_ok ?t" using sound_opD [OF claimEventById_sound assms(1), of now i ?w 60000] unfolding c by simp
  then have d: "distinct (map o_id ?t)" by (simp add: table_ok_def)
  have "tbl_find o_id i ?t = Some ?q"
    using assms(2,3) event_rowD [OF assms(2)] unfolding event_row_def by (subst tbl_find_update) simp_all
  then have q: "?q \<in> set ?t" "o_id ?q = i" by (auto dest: tbl_find_SomeD)
  have h: "holds_lease i ?w ?q" using q(2) by (simp add: holds_lease_def lease_def)
  have upd: "event_row i (tbl_update (holds_lease i ?w) f ?t) = Some (f ?q)" if "\<And>x. o_id (f x) = o_id x" for f
    using update_row [OF d q(1) that, of "holds_lease i ?w"] h q(2) by (simp add: event_row_def)
  have f: "List.find (holds_lease i ?w) ?t = Some ?q"
  proof -
    have "List.find (holds_lease i ?w) ?t \<noteq> None" using h q(1) by (auto simp: find_None_iff)
    then obtain x where x: "List.find (holds_lease i ?w) ?t = Some x" by blast
    then have "x \<in> set ?t" "o_id x = i" by (auto dest: find_SomeD simp: holds_lease_def)
    then show ?thesis using one_row [OF d q(1), of x] q(2) x by simp
  qed
  have a: "o_attempts ?q = o_attempts r" by (simp add: lease_def)
  show ?thesis
  proof (cases "send ?q")
    case None
    then show ?thesis by (simp add: process_job_def c Let_def markDispatched_def update_many_def upd)
  next
    case (Some message)
    then show ?thesis
      by (simp add: process_job_def c Let_def releaseForRetry_def update_many_def f upd a BILLING_OUTBOX_MAX_ATTEMPTS_def)
  qed
qed

lemma process_job_sound: "sound_op (\<lambda>t. snd (process_job send now job i t))"
  unfolding sound_op_def
proof (intro allI impI)
  fix t assume t: "table_ok t"
  obtain e t1 where c: "claimEventById now i (worker_name job) 60000 t = (e, t1)" by fastforce
  then have t1: "table_ok t1 \<and> table_le t t1" using sound_opD [OF claimEventById_sound t, of now i "worker_name job" 60000] by simp
  show "table_ok (snd (process_job send now job i t)) \<and> table_le t (snd (process_job send now job i t))"
  proof (cases e)
    case None
    then show ?thesis using c t1 by (simp add: process_job_def)
  next
    case (Some x)
    then show ?thesis
      using c t1 sound_opD [OF markDispatched_sound conjunct1 [OF t1]] sound_opD [OF releaseForRetry_sound conjunct1 [OF t1]]
      by (auto simp: process_job_def Let_def split: option.splits intro: table_le_trans)
  qed
qed

lemma reconcile_events_sound: "sound_op (reconcile_events enqueue now owner is)"
proof (induction "is")
  case (Cons i "is")
  have "sound_op (\<lambda>t. case enqueue i of None \<Rightarrow> snd (releaseClaim i owner t) | Some m \<Rightarrow> snd (releaseForRetry now i owner m t))"
    by (cases "enqueue i") (simp_all add: releaseClaim_sound releaseForRetry_sound)
  from sound_op_comp [OF this Cons] show ?case by simp
qed (simp add: sound_op_id)

lemma reconcile_sound: "sound_op (reconcile enqueue now run)"
  unfolding sound_op_def
proof (intro allI impI)
  fix t assume t: "table_ok t"
  let ?o = "reconciler_name run"
  have c: "table_ok (snd (claimDueEvents now ?o 50 60000 t)) \<and> table_le t (snd (claimDueEvents now ?o 50 60000 t))"
    by (rule sound_opD [OF claimDueEvents_sound t])
  show "table_ok (reconcile enqueue now run t) \<and> table_le t (reconcile enqueue now run t)"
    using sound_opD [OF reconcile_events_sound conjunct1 [OF c]] table_le_trans [OF conjunct2 [OF c]]
    by (simp add: reconcile_def Let_def case_prod_beta)
qed

datatype outbox_event =
  WorkerJob "outbox_row \<Rightarrow> string option" int string string
| ReconcilerRun "string \<Rightarrow> string option" int string

fun outbox_step :: "outbox_row list \<Rightarrow> outbox_event \<Rightarrow> outbox_row list" where
  "outbox_step t (WorkerJob send now job i) = snd (process_job send now job i t)"
| "outbox_step t (ReconcilerRun enqueue now run) = reconcile enqueue now run t"

lemma outbox_step_sound: "table_ok t \<Longrightarrow> table_ok (outbox_step t e) \<and> table_le t (outbox_step t e)"
  by (cases e) (simp_all add: sound_opD [OF process_job_sound] sound_opD [OF reconcile_sound])

interpretation outbox_life: step_order outbox_step table_ok "\<lambda>_. True" table_le
  by unfold_locales (auto simp: outbox_step_sound intro: table_le_trans)

lemma table_le_row:
  assumes "table_le t t'" "event_row i t = Some r"
  shows "\<exists>r'. event_row i t' = Some r' \<and> row_le r r'"
proof -
  have "list_all2 row_le t t'" using assms(1) by (simp add: table_le_def)
  then show ?thesis using assms(2) unfolding event_row_def
    by (induction t t' rule: list_all2_induct) (auto simp: row_le_def split: if_splits)
qed

text \<open>
  C36. Whatever workers and reconcilers do, in any order and with any outcome of mails and queue
  calls: an event is never lost or altered, at most five attempts are counted on it and exactly
  five when it is given up, and an event that was sent or given up stays as it is.
\<close>

theorem outbox_history_sound:
  assumes "table_ok t" "event_row i t = Some r"
  shows "\<exists>r'. event_row i (foldl outbox_step t es) = Some r' \<and> row_le r r' \<and> row_ok r'
    \<and> o_attempts r' \<le> 5 \<and> (o_state r' = outbox_failed \<longleftrightarrow> o_attempts r' = 5)"
proof -
  have t: "table_ok (foldl outbox_step t es)" and "table_le t (foldl outbox_step t es)"
    by (rule outbox_life.run_inv [OF assms(1)], simp, rule outbox_life.run_le [OF assms(1)], simp)
  then obtain r' where r: "event_row i (foldl outbox_step t es) = Some r'" "row_le r r'"
    using table_le_row assms(2) by blast
  then have "row_ok r'" using t event_rowD [OF r(1)] by (simp add: table_ok_def list_all_iff)
  then show ?thesis using r by (auto simp: row_ok_def BILLING_OUTBOX_MAX_ATTEMPTS_def split: if_splits)
qed

text \<open>
  An event is mailed successfully at most once: when a worker's job sent the mail, the event is
  marked sent, and no later job for it, after any further steps, sends anything or changes it.
\<close>

theorem sent_event_is_not_resent:
  assumes "table_ok t" "event_row i t = Some r" "o_state r = outbox_pending"
    and "send (lease (worker_name job) (now + 60000) r) = None"
  shows "process_job send' now' job' i (foldl outbox_step (snd (process_job send now job i t)) es)
    = (job_done, foldl outbox_step (snd (process_job send now job i t)) es)"
proof -
  let ?t = "snd (process_job send now job i t)"
  let ?u = "foldl outbox_step ?t es"
  have ok: "table_ok ?t" using sound_opD [OF process_job_sound assms(1)] by blast
  obtain q where q: "event_row i ?t = Some q" "o_state q = outbox_sent"
    using process_job_row [OF assms(1-3), of send now job] assms(4) by (simp add: Let_def)
  have u: "table_ok ?u" "table_le ?t ?u"
    by (rule outbox_life.run_inv [OF ok], simp, rule outbox_life.run_le [OF ok], simp)
  obtain q' where "event_row i ?u = Some q'" "row_le q q'" using table_le_row [OF u(2) q(1)] by blast
  then have "event_row i ?u = Some q" using q(2) by (simp add: row_le_def)
  then have "claimEventById now' i (worker_name job') 60000 ?u = (None, ?u)"
    by (rule claim_refused [OF u(1)]) (simp add: q(2))
  then show ?thesis by (simp add: process_job_def)
qed

text \<open>
  C38. Delivery is given up after finitely many failures: a pending event whose mail is refused on
  every job has failed for good after the jobs that remain of its five attempts.
\<close>

theorem undeliverable_event_fails:
  assumes "table_ok t" "event_row i t = Some r" "o_state r = outbox_pending" "length jobs = 5 - o_attempts r"
    and "\<And>row. send row \<noteq> None"
  shows "map_option o_state (event_row i (foldl (\<lambda>t (now, job). snd (process_job send now job i t)) t jobs)) = Some outbox_failed"
  using assms(1-4)
proof (induction jobs arbitrary: t r)
  case Nil
  then have "row_ok r" using event_rowD [OF Nil.prems(2)] by (simp add: table_ok_def list_all_iff)
  then show ?case using Nil.prems(3,4) by (simp add: row_ok_def BILLING_OUTBOX_MAX_ATTEMPTS_def)
next
  case (Cons j jobs)
  obtain now job where j: "j = (now, job)" by fastforce
  let ?t = "snd (process_job send now job i t)"
  obtain message where m: "send (lease (worker_name job) (now + 60000) r) = Some message"
    using assms(5) by blast
  obtain q where q: "event_row i ?t = Some q" "o_attempts q = o_attempts r + 1"
    "o_state q = (if o_attempts r + 1 \<ge> 5 then outbox_failed else outbox_pending)"
    using process_job_row [OF Cons.prems(1-3), of send now job] m by (simp add: Let_def)
  have t: "table_ok ?t" using sound_opD [OF process_job_sound Cons.prems(1)] by blast
  show ?case
  proof (cases "jobs = []")
    case True
    then have "o_attempts r + 1 \<ge> 5" using Cons.prems(4) by simp
    then show ?thesis using q True j by simp
  next
    case False
    then have "o_attempts r + 1 < 5" using Cons.prems(4) by (cases jobs) simp_all
    then have "o_state q = outbox_pending" "length jobs = 5 - o_attempts q" using q Cons.prems(4) by simp_all
    from Cons.IH [OF t q(1) this] show ?thesis by (simp add: j)
  qed
qed

text \<open>
  A failed delivery is retried later but not much later: after a failed job the event is due
  again between one second and one minute after the failure, the delay doubling with each attempt.
\<close>

theorem retry_is_delayed:
  assumes "table_ok t" "event_row i t = Some r" "o_state r = outbox_pending"
    and "process_job send now job i t = (job_failed message, t')" "event_row i t' = Some r'" "o_state r' = outbox_pending"
  shows "o_next_attempt r' = Some (now + 1000 * 2 ^ o_attempts r) \<and> o_attempts r < 4
    \<and> 1000 \<le> 1000 * (2 :: int) ^ o_attempts r \<and> 1000 * (2 :: int) ^ o_attempts r \<le> 60000"
proof -
  let ?q = "lease (worker_name job) (now + 60000) r"
  have "send ?q = Some message"
    using assms(4) claim_pending [OF assms(1-3), of now "worker_name job" 60000]
    by (auto simp: process_job_def Let_def split: option.splits)
  then have a: "o_attempts r + 1 < 5" "o_next_attempt r' = Some (now + retry_delay (o_attempts r + 1))"
    using process_job_row [OF assms(1-3), of send now job] assms(4,5,6) by (auto simp: Let_def split: if_splits)
  then have "o_attempts r \<in> {0, 1, 2, 3}" by auto
  then show ?thesis using a by (auto simp: retry_delay_def)
qed

text \<open>
  A job that starts before the reconciler has released the event is lost: the reconciler adds
  the job while it still holds the lease, and a worker that starts at once finds the event claimed,
  sends nothing and reports the job as done.
\<close>

theorem early_job_is_lost:
  assumes "table_ok t" "event_row i t = Some r" "holds_lease i (reconciler_name run) r"
  shows "process_job send now job i t = (job_done, t)"
proof -
  have "o_state r \<noteq> outbox_pending" using assms(3) by (simp add: holds_lease_def)
  then show ?thesis using claim_refused [OF assms(1,2)] by (simp add: process_job_def)
qed


section \<open>The properties on a concrete event\<close>

definition sample_row :: outbox_row where
  "sample_row = \<lparr>o_id = ''e'', o_account = ''acc'', o_event_type = ''billing.payment_confirmed'', o_dedupe = ''fake:evt'',
     o_payload = JNull, o_state = outbox_pending, o_attempts = 0, o_lease_owner = None, o_lease_expires = None,
     o_next_attempt = None, o_last_error = None, o_dispatched = None, o_created = 0\<rparr>"

definition held_row :: outbox_row where
  "held_row = lease (reconciler_name ''run'') 60000 sample_row"

lemma sample_tables: "table_ok [sample_row]" "table_ok [held_row]" "event_row ''e'' [sample_row] = Some sample_row"
  "event_row ''e'' [held_row] = Some held_row" "holds_lease ''e'' (reconciler_name ''run'') held_row"
  by (simp_all add: table_ok_def row_ok_def sample_row_def held_row_def lease_def event_row_def BILLING_OUTBOX_MAX_ATTEMPTS_def holds_lease_def)

theorem lease_excludes_others_witness:
  "markDispatched 10 ''e'' ''worker'' [held_row] = (False, [held_row])
    \<and> event_row ''e'' (snd (claimDueEvents 10 ''worker'' 50 60000 [held_row])) = Some held_row"
proof -
  have "''worker'' \<noteq> reconciler_name ''run''" "o_lease_expires held_row = Some 60000"
    by (simp_all add: reconciler_name_def held_row_def lease_def)
  from lease_excludes_others [OF sample_tables(2,4,5) this, of 10] show ?thesis by simp
qed

theorem outbox_history_sound_witness:
  "\<exists>r'. event_row ''e'' (foldl outbox_step [sample_row] [WorkerJob (\<lambda>_. Some ''refused'') 5 ''j'' ''e'']) = Some r' \<and> o_attempts r' \<le> 5"
  using outbox_history_sound [OF sample_tables(1,3)] by blast

theorem sent_event_is_not_resent_witness:
  "fst (process_job (\<lambda>_. Some ''refused'') 9 ''k'' ''e'' (snd (process_job (\<lambda>_. None) 5 ''j'' ''e'' [sample_row]))) = job_done"
  using sent_event_is_not_resent [OF sample_tables(1,3), of "\<lambda>_. None" "''j''" 5 "\<lambda>_. Some ''refused''" 9 "''k''" "[]"]
  by (simp add: sample_row_def)

theorem undeliverable_event_fails_witness:
  "map_option o_state (event_row ''e'' (foldl (\<lambda>t (now, job). snd (process_job (\<lambda>_. Some ''refused'') now job ''e'' t)) [sample_row]
     [(1, ''a''), (2, ''b''), (3, ''c''), (4, ''d''), (5, ''e'')])) = Some outbox_failed"
  by (rule undeliverable_event_fails [OF sample_tables(1,3)]) (simp_all add: sample_row_def)

theorem retry_is_delayed_witness:
  "\<exists>r'. event_row ''e'' (snd (process_job (\<lambda>_. Some ''refused'') 5 ''j'' ''e'' [sample_row])) = Some r' \<and> o_next_attempt r' = Some 1005"
proof -
  let ?t = "snd (process_job (\<lambda>_. Some ''refused'') 5 ''j'' ''e'' [sample_row])"
  have p: "o_state sample_row = outbox_pending" "o_attempts sample_row = 0" by (simp_all add: sample_row_def)
  obtain r' where r: "event_row ''e'' ?t = Some r'" "o_state r' = outbox_pending"
    using process_job_row [OF sample_tables(1,3) p(1), of "\<lambda>_. Some ''refused''" 5 "''j''"] p(2) by (simp add: Let_def)
  have "fst (process_job (\<lambda>_. Some ''refused'') 5 ''j'' ''e'' [sample_row]) = job_failed ''refused''"
    using claim_pending [OF sample_tables(1,3) p(1)] by (simp add: process_job_def Let_def)
  then have "process_job (\<lambda>_. Some ''refused'') 5 ''j'' ''e'' [sample_row] = (job_failed ''refused'', ?t)" by (metis prod.collapse)
  from retry_is_delayed [OF sample_tables(1,3) p(1) this r] r(1) p(2) show ?thesis by simp
qed

theorem early_job_is_lost_witness:
  "process_job (\<lambda>_. None) 5 ''j'' ''e'' [held_row] = (job_done, [held_row])"
  by (rule early_job_is_lost [OF sample_tables(2,4,5)])

end
