(* ===== verification/Publish_Store.thy ===== *)
theory Publish_Store
  imports Db_Action Pub_Envelope Cairo_Time
begin

text \<open>
  The database of the publishing service (apps/api/prisma/schema.prisma and the raw SQL indexes of
  its migrations): candidates, targets, intents, approvals, attempts, results and accepted
  callbacks, with the errors its methods throw.

  A row carries the columns the code reads or writes. The unique indexes of a table are a relation
  \<open>clash\<close> on its rows; an insert of a clashing row is refused (Prisma's P2002), and so is an update
  after which two rows clash. Rows stand in the order of their creation.
\<close>


section \<open>Errors\<close>

text \<open>
  \<open>PublishingErrorCode\<close>: the codes of the contract and those of the service itself.
\<close>

datatype api_code = Shared publishing_error_code
  | API_INVALID_TIMEZONE | API_INVALID_SCHEDULE | API_VERSION_CONFLICT | API_NOT_FOUND
  | API_FORBIDDEN | API_FORBIDDEN_NO_BUSINESS

text \<open>
  What a method throws. \<open>RecordNotFound\<close> is Prisma's P2025, \<open>UniqueViolation\<close> P2002,
  \<open>TransactionAborted\<close> Postgres' 25P02: after a statement of a transaction has failed, every later
  statement of it fails. \<open>ClaimLost\<close> is \<open>DispatchClaimLostError\<close>,
  \<open>CallbackIdentityDuplicateSignal\<close> the class of that name, \<open>BadRequestMessage\<close> a
  \<open>BadRequestException\<close> with a text instead of a code, \<open>PlainError\<close> an \<open>Error\<close> whose
  message starts with the code.
\<close>

datatype fault = BadRequestException api_code | BadRequestMessage | ConflictException api_code | NotFoundException api_code
  | UnprocessableEntityException api_code | UnauthorizedException api_code
  | PlainError api_code | ClaimLost | CallbackIdentityDuplicateSignal
  | RecordNotFound | UniqueViolation | TransactionAborted | OtherError

definition time_fault :: "time_error \<Rightarrow> fault" where
  "time_fault e = BadRequestException
     (case e of PUBLISHING_INVALID_TIMEZONE \<Rightarrow> API_INVALID_TIMEZONE | PUBLISHING_INVALID_SCHEDULE \<Rightarrow> API_INVALID_SCHEDULE)"


section \<open>States\<close>

datatype candidate_status = C_ACTIVE | C_REVOKED | C_REPLACED
datatype connection_state = T_CONNECTED | T_EXPIRED | T_REVOKED | T_ERROR
datatype publish_mode = REAL | MANUAL_EXPORT | SIMULATION
datatype intent_status = DRAFT | AWAITING_APPROVAL | SCHEDULED | DISPATCHING | SUCCEEDED | FAILED
  | ACTION_REQUIRED | CANCELLED
datatype approval_decision = APPROVED | REJECTED
datatype attempt_status = A_QUEUED | A_RUNNING | A_DISPATCHING | A_SUCCEEDED | A_FAILED | A_UNKNOWN | A_CANCELLED
datatype outcome = PUBLISHED | EXPORTED | SIMULATED | OUTCOME_FAILED | OUTCOME_CANCELLED | UNKNOWN

text \<open>\<open>PUBLICATION_INTENT_ALLOWED_TRANSITIONS\<close>: the frozen lifecycle of an intent.\<close>

fun PUBLICATION_INTENT_ALLOWED_TRANSITIONS :: "intent_status \<Rightarrow> intent_status list" where
  "PUBLICATION_INTENT_ALLOWED_TRANSITIONS DRAFT = [AWAITING_APPROVAL, DISPATCHING, CANCELLED]"
| "PUBLICATION_INTENT_ALLOWED_TRANSITIONS AWAITING_APPROVAL = [SCHEDULED, CANCELLED]"
| "PUBLICATION_INTENT_ALLOWED_TRANSITIONS SCHEDULED = [AWAITING_APPROVAL, DISPATCHING, CANCELLED]"
| "PUBLICATION_INTENT_ALLOWED_TRANSITIONS DISPATCHING = [SUCCEEDED, FAILED, ACTION_REQUIRED]"
| "PUBLICATION_INTENT_ALLOWED_TRANSITIONS SUCCEEDED = []"
| "PUBLICATION_INTENT_ALLOWED_TRANSITIONS FAILED = [DISPATCHING, CANCELLED]"
| "PUBLICATION_INTENT_ALLOWED_TRANSITIONS ACTION_REQUIRED = [DISPATCHING, CANCELLED]"
| "PUBLICATION_INTENT_ALLOWED_TRANSITIONS CANCELLED = []"

definition canTransitionPublicationIntent :: "intent_status \<Rightarrow> intent_status \<Rightarrow> bool" where
  "canTransitionPublicationIntent from to \<longleftrightarrow> to \<in> set (PUBLICATION_INTENT_ALLOWED_TRANSITIONS from)"

fun publicationAttemptStateForOutcome :: "outcome \<Rightarrow> attempt_status" where
  "publicationAttemptStateForOutcome PUBLISHED = A_SUCCEEDED"
| "publicationAttemptStateForOutcome EXPORTED = A_SUCCEEDED"
| "publicationAttemptStateForOutcome SIMULATED = A_SUCCEEDED"
| "publicationAttemptStateForOutcome OUTCOME_FAILED = A_FAILED"
| "publicationAttemptStateForOutcome OUTCOME_CANCELLED = A_CANCELLED"
| "publicationAttemptStateForOutcome UNKNOWN = A_UNKNOWN"

fun publicationIntentStateForOutcome :: "outcome \<Rightarrow> intent_status" where
  "publicationIntentStateForOutcome PUBLISHED = SUCCEEDED"
| "publicationIntentStateForOutcome EXPORTED = SUCCEEDED"
| "publicationIntentStateForOutcome SIMULATED = SUCCEEDED"
| "publicationIntentStateForOutcome OUTCOME_FAILED = FAILED"
| "publicationIntentStateForOutcome OUTCOME_CANCELLED = CANCELLED"
| "publicationIntentStateForOutcome UNKNOWN = ACTION_REQUIRED"


section \<open>Rows\<close>

record candidate_row =
  cd_id :: string
  cd_business :: string
  cd_external :: string
  cd_checksum :: string
  cd_fingerprint :: string
  cd_event :: string
  cd_status :: candidate_status
  cd_source_status :: json
  cd_payload :: json
  cd_channel :: json
  cd_format :: json
  cd_locale :: json
  cd_week :: json
  cd_source_version :: rat
  cd_received :: int
  cd_version :: int

record target_row =
  tg_id :: string
  tg_business :: string
  tg_channel :: string
  tg_external :: string
  tg_name :: string
  tg_state :: connection_state
  tg_credential :: string
  tg_capabilities :: json
  tg_verified :: "int option"
  tg_expires :: "int option"
  tg_version :: int

record intent_row =
  in_id :: string
  in_business :: string
  in_candidate :: string
  in_target :: "string option"
  in_mode :: publish_mode
  in_status :: intent_status
  in_local :: "int option"
  in_zone :: "string option"
  in_utc :: "int option"
  in_version :: int
  in_creator :: string
  in_key :: "string option"
  in_created :: int

record approval_row =
  ap_id :: string
  ap_intent :: string
  ap_version :: int
  ap_checksum :: string
  ap_decision :: approval_decision
  ap_by :: string
  ap_at :: int
  ap_notes :: "string option"
  ap_fingerprint :: string
  ap_key :: string

record attempt_row =
  at_id :: string
  at_intent :: string
  at_version :: int
  at_seq :: int
  at_status :: attempt_status
  at_workflow :: "string option"
  at_fingerprint :: "string option"
  at_key :: string
  at_execution :: "string option"
  at_error :: "string option"
  at_dispatched :: "int option"
  at_started :: "int option"
  at_finished :: "int option"
  at_created :: int

record result_row =
  re_id :: string
  re_attempt :: string
  re_intent :: string
  re_outcome :: outcome
  re_provider :: "string option"
  re_remote :: "string option"
  re_url :: "string option"
  re_export :: "string option"
  re_label :: "string option"
  re_error :: "string option"
  re_retryable :: bool
  re_hash :: "string option"
  re_sanitized :: "string option"
  re_occurred :: int

record callback_row =
  cb_id :: string
  cb_attempt :: string
  cb_external :: string
  cb_signature_valid :: bool
  cb_hash :: string
  cb_timestamp :: int
  cb_outcome :: outcome
  cb_received :: int

record export_row =
  ex_id :: string
  ex_intent :: string
  ex_type :: string
  ex_ref :: string
  ex_checksum :: string
  ex_manifest :: json
  ex_at :: int

record publishing =
  candidates :: "candidate_row list"
  targets :: "target_row list"
  intents :: "intent_row list"
  approvals :: "approval_row list"
  attempts :: "attempt_row list"
  results :: "result_row list"
  callbacks :: "callback_row list"
  exports :: "export_row list"

type_synonym 'a publish_action = "(publishing, fault, 'a) action"


section \<open>Unique indexes\<close>

definition INTENT_SLOT_STATUSES :: "intent_status list" where
  "INTENT_SLOT_STATUSES = [DRAFT, AWAITING_APPROVAL, SCHEDULED, DISPATCHING, SUCCEEDED, FAILED, ACTION_REQUIRED]"

text \<open>\<open>publishing_intents_candidate_id_active_uniq\<close> and \<open>publishing_intents_business_id_idempotency_key_uniq\<close>\<close>

definition takes_slot :: "intent_row \<Rightarrow> bool" where
  "takes_slot r \<longleftrightarrow> in_mode r = REAL \<and> in_status r \<in> set INTENT_SLOT_STATUSES"

definition intent_clash :: "intent_row \<Rightarrow> intent_row \<Rightarrow> bool" where
  "intent_clash r x \<longleftrightarrow> in_id r = in_id x
     \<or> (takes_slot r \<and> takes_slot x \<and> in_candidate r = in_candidate x)
     \<or> (in_key r \<noteq> None \<and> in_key r = in_key x \<and> in_business r = in_business x)"

definition approval_clash :: "approval_row \<Rightarrow> approval_row \<Rightarrow> bool" where
  "approval_clash r x \<longleftrightarrow> ap_id r = ap_id x \<or> ap_fingerprint r = ap_fingerprint x"

definition attempt_clash :: "attempt_row \<Rightarrow> attempt_row \<Rightarrow> bool" where
  "attempt_clash r x \<longleftrightarrow> at_id r = at_id x
     \<or> (at_intent r = at_intent x \<and> at_version r = at_version x \<and> at_seq r = at_seq x)
     \<or> (at_intent r = at_intent x \<and> at_key r = at_key x)"

text \<open>\<open>publishing_results_intent_id_published_uniq\<close> is the third alternative.\<close>

definition result_clash :: "result_row \<Rightarrow> result_row \<Rightarrow> bool" where
  "result_clash r x \<longleftrightarrow> re_id r = re_id x \<or> re_attempt r = re_attempt x
     \<or> (re_intent r = re_intent x \<and> re_outcome r = PUBLISHED \<and> re_outcome x = PUBLISHED)"

definition callback_clash :: "callback_row \<Rightarrow> callback_row \<Rightarrow> bool" where
  "callback_clash r x \<longleftrightarrow> cb_id r = cb_id x \<or> cb_external r = cb_external x"

definition candidate_clash :: "candidate_row \<Rightarrow> candidate_row \<Rightarrow> bool" where
  "candidate_clash r x \<longleftrightarrow> cd_id r = cd_id x \<or> cd_fingerprint r = cd_fingerprint x
     \<or> (cd_business r = cd_business x \<and> cd_external r = cd_external x \<and> cd_checksum r = cd_checksum x)"

text \<open>No two rows of the table clash.\<close>

definition rows_apart :: "('r \<Rightarrow> 'r \<Rightarrow> bool) \<Rightarrow> 'r list \<Rightarrow> bool" where
  "rows_apart clash t = sorted_wrt (\<lambda>r x. \<not> clash r x) t"

text \<open>An update of the rows \<open>P\<close> selects; \<open>n\<close> is how many there were.\<close>

definition act_update ::
  "('r \<Rightarrow> 'r \<Rightarrow> bool) \<Rightarrow> ('s \<Rightarrow> 'r list) \<Rightarrow> ('r list \<Rightarrow> 's \<Rightarrow> 's) \<Rightarrow> ('r \<Rightarrow> bool) \<Rightarrow> ('r \<Rightarrow> 'r) \<Rightarrow> 'e \<Rightarrow> ('s, 'e, nat) action" where
  "act_update clash get put P f e s =
     (let t = tbl_update P f (get s)
      in if rows_apart clash t then (Inr (tbl_count P (get s)), put t s) else (Inl e, s))"

definition insert_intent :: "intent_row \<Rightarrow> unit publish_action" where
  "insert_intent r = act_insert intent_clash intents (\<lambda>t. intents_update (\<lambda>_. t)) r UniqueViolation"

definition insert_approval :: "approval_row \<Rightarrow> unit publish_action" where
  "insert_approval r = act_insert approval_clash approvals (\<lambda>t. approvals_update (\<lambda>_. t)) r UniqueViolation"

definition insert_attempt :: "attempt_row \<Rightarrow> unit publish_action" where
  "insert_attempt r = act_insert attempt_clash attempts (\<lambda>t. attempts_update (\<lambda>_. t)) r UniqueViolation"

definition insert_result :: "result_row \<Rightarrow> unit publish_action" where
  "insert_result r = act_insert result_clash results (\<lambda>t. results_update (\<lambda>_. t)) r UniqueViolation"

definition insert_callback :: "callback_row \<Rightarrow> unit publish_action" where
  "insert_callback r = act_insert callback_clash callbacks (\<lambda>t. callbacks_update (\<lambda>_. t)) r UniqueViolation"

definition insert_candidate :: "candidate_row \<Rightarrow> unit publish_action" where
  "insert_candidate r = act_insert candidate_clash candidates (\<lambda>t. candidates_update (\<lambda>_. t)) r UniqueViolation"

definition insert_export :: "export_row \<Rightarrow> unit publish_action" where
  "insert_export r = act_modify (\<lambda>s. s\<lparr>exports := exports s @ [r]\<rparr>)"

definition update_intents :: "(intent_row \<Rightarrow> bool) \<Rightarrow> (intent_row \<Rightarrow> intent_row) \<Rightarrow> nat publish_action" where
  "update_intents P f = act_update intent_clash intents (\<lambda>t. intents_update (\<lambda>_. t)) P f UniqueViolation"

definition update_results :: "(result_row \<Rightarrow> bool) \<Rightarrow> (result_row \<Rightarrow> result_row) \<Rightarrow> nat publish_action" where
  "update_results P f = act_update result_clash results (\<lambda>t. results_update (\<lambda>_. t)) P f UniqueViolation"

definition update_candidates :: "(candidate_row \<Rightarrow> bool) \<Rightarrow> (candidate_row \<Rightarrow> candidate_row) \<Rightarrow> nat publish_action" where
  "update_candidates P f = act_update candidate_clash candidates (\<lambda>t. candidates_update (\<lambda>_. t)) P f UniqueViolation"

text \<open>No column of an index of the attempts is ever updated.\<close>

definition update_attempts :: "(attempt_row \<Rightarrow> bool) \<Rightarrow> (attempt_row \<Rightarrow> attempt_row) \<Rightarrow> nat publish_action" where
  "update_attempts P f s =
     (Inr (tbl_count P (attempts s)), s\<lparr>attempts := tbl_update P f (attempts s)\<rparr>)"

definition find_intent :: "string \<Rightarrow> publishing \<Rightarrow> intent_row option" where
  "find_intent i s = tbl_find in_id i (intents s)"

definition find_candidate :: "string \<Rightarrow> publishing \<Rightarrow> candidate_row option" where
  "find_candidate i s = tbl_find cd_id i (candidates s)"

definition find_target :: "string \<Rightarrow> publishing \<Rightarrow> target_row option" where
  "find_target i s = tbl_find tg_id i (targets s)"

definition find_attempt :: "string \<Rightarrow> publishing \<Rightarrow> attempt_row option" where
  "find_attempt i s = tbl_find at_id i (attempts s)"

definition attempt_by_key :: "string \<Rightarrow> string \<Rightarrow> publishing \<Rightarrow> attempt_row option" where
  "attempt_by_key i key s = tbl_find (\<lambda>r. (at_intent r, at_key r)) (i, key) (attempts s)"

definition result_of_attempt :: "string \<Rightarrow> publishing \<Rightarrow> result_row option" where
  "result_of_attempt i s = tbl_find re_attempt i (results s)"

text \<open>\<open>findUniqueOrThrow\<close>\<close>

definition or_throw :: "(publishing \<Rightarrow> 'r option) \<Rightarrow> 'r publish_action" where
  "or_throw look = act_bind (act_read look) (\<lambda>x. case x of None \<Rightarrow> act_throw RecordNotFound | Some r \<Rightarrow> act_return r)"

text \<open>
  A statement issued after a failed one of the same transaction: Postgres answers 25P02 whatever
  the statement is.
\<close>

definition in_aborted_transaction :: "'a publish_action \<Rightarrow> 'a publish_action" where
  "in_aborted_transaction m = act_throw TransactionAborted"

end
