(* ===== verification/Publish_Intents.thy ===== *)
theory Publish_Intents
  imports Publish_Store
begin

text \<open>
  The owner's actions on publication intents
  (apps/api/src/modules/publishing/intents/intents.service.ts): create, schedule, approve, cancel,
  reschedule, retry, and the local export and simulation. Every method is an action on the
  database; the dispatch job it hands to the queue after its commit is part of its result.

  \<open>findFirst ... orderBy k desc\<close> takes a row with the largest \<open>k\<close>. Among several such rows the
  database promises no order; the model takes the oldest of them.
\<close>


section \<open>Jobs\<close>

record job =
  jb_intent :: string
  jb_version :: int
  jb_key :: string
  jb_id :: string
  jb_delay :: int
  jb_priority :: nat

definition toBullMqJobId :: "string \<Rightarrow> string" where
  "toBullMqJobId jobId = map (\<lambda>c. if c = CHR '':'' then CHR ''-'' else c) jobId"

definition dispatchKeyFor :: "string \<Rightarrow> string" where
  "dispatchKeyFor actionKey = actionKey @ ''::dispatch''"

definition intent_job_key :: "string \<Rightarrow> int \<Rightarrow> string" where
  "intent_job_key i v = ''publish:'' @ i @ '':'' @ dec_int v"

definition retryJobId :: "js_env \<Rightarrow> string \<Rightarrow> int \<Rightarrow> string \<Rightarrow> string" where
  "retryJobId E intentId intentVersion actionKey =
     ''publishing-retry-'' @ intentId @ ''-v'' @ dec_int intentVersion @ ''-'' @ env_sha256 E actionKey"

definition dispatch_job :: "int \<Rightarrow> string \<Rightarrow> int \<Rightarrow> string \<Rightarrow> string \<Rightarrow> int \<Rightarrow> job" where
  "dispatch_job now intentId version key jobKey scheduledUtc =
     \<lparr>jb_intent = intentId, jb_version = version, jb_key = key, jb_id = toBullMqJobId jobKey,
      jb_delay = max 0 (scheduledUtc - now), jb_priority = publishingPriorityFor (Some scheduledUtc) now\<rparr>"


section \<open>Guards\<close>

definition CANCELLABLE_STATUSES :: "intent_status list" where
  "CANCELLABLE_STATUSES = [DRAFT, AWAITING_APPROVAL, SCHEDULED]"

definition RETRYABLE_STATUSES :: "intent_status list" where
  "RETRYABLE_STATUSES = [FAILED]"

definition EXPORT_DOWNLOAD_TTL_MS :: int where
  "EXPORT_DOWNLOAD_TTL_MS = 24 * 60 * 60 * 1000"

definition require :: "bool \<Rightarrow> fault \<Rightarrow> unit publish_action" where
  "require b e = (if b then act_return () else act_throw e)"

definition assertOwnership :: "string \<Rightarrow> string \<Rightarrow> unit publish_action" where
  "assertOwnership resource caller = require (resource = caller) (NotFoundException API_NOT_FOUND)"

definition assertVersion :: "int \<Rightarrow> int \<Rightarrow> unit publish_action" where
  "assertVersion current submitted = require (current = submitted) (ConflictException API_VERSION_CONFLICT)"

definition assertStatusIn :: "intent_status \<Rightarrow> intent_status list \<Rightarrow> unit publish_action" where
  "assertStatusIn status allowed = require (status \<in> set allowed) (BadRequestException (Shared PUBLISHING_STATE_CONFLICT))"

definition expired :: "int \<Rightarrow> target_row \<Rightarrow> bool" where
  "expired now t = (case tg_expires t of None \<Rightarrow> False | Some x \<Rightarrow> x < now)"

definition assertTargetBindable :: "int \<Rightarrow> string \<Rightarrow> string \<Rightarrow> unit publish_action" where
  "assertTargetBindable now targetId businessId =
     act_bind (act_read (find_target targetId)) (\<lambda>target.
       case target of
         None \<Rightarrow> act_throw (NotFoundException API_NOT_FOUND)
       | Some t \<Rightarrow>
           if tg_business t \<noteq> businessId then act_throw (NotFoundException API_NOT_FOUND)
           else if tg_state t \<noteq> T_CONNECTED then act_throw (BadRequestException (Shared PUBLISHING_TARGET_NOT_CONNECTED))
           else if expired now t then act_throw (BadRequestException (Shared PUBLISHING_TARGET_UNAUTHORIZED))
           else act_return ())"

text \<open>The row with the largest \<open>f\<close>.\<close>

definition newest :: "('r \<Rightarrow> int) \<Rightarrow> 'r list \<Rightarrow> 'r option" where
  "newest f t = List.find (\<lambda>r. \<forall>q \<in> set t. f q \<le> f r) t"

definition intent_attempts :: "string \<Rightarrow> publishing \<Rightarrow> attempt_row list" where
  "intent_attempts i s = filter (\<lambda>r. at_intent r = i) (attempts s)"

definition intent_approvals :: "string \<Rightarrow> publishing \<Rightarrow> approval_row list" where
  "intent_approvals i s = filter (\<lambda>r. ap_intent r = i) (approvals s)"

definition next_seq :: "attempt_row list \<Rightarrow> int" where
  "next_seq t = (case newest at_seq t of None \<Rightarrow> 1 | Some r \<Rightarrow> at_seq r + 1)"

definition set_intent :: "string \<Rightarrow> (intent_row \<Rightarrow> intent_row) \<Rightarrow> intent_row publish_action" where
  "set_intent i f = act_seq (update_intents (\<lambda>r. in_id r = i) f) (or_throw (find_intent i))"

text \<open>The checks every action on an intent starts with.\<close>

definition own_intent :: "string \<Rightarrow> string \<Rightarrow> intent_row publish_action" where
  "own_intent i b = act_bind (or_throw (find_intent i)) (\<lambda>intent.
     act_seq (assertOwnership (in_business intent) b) (act_return intent))"

definition own_version :: "string \<Rightarrow> string \<Rightarrow> int \<Rightarrow> intent_row publish_action" where
  "own_version i b v = act_bind (own_intent i b) (\<lambda>intent.
     act_seq (assertVersion (in_version intent) v) (act_return intent))"


section \<open>Create\<close>

definition intent_by_key :: "string \<Rightarrow> string \<Rightarrow> publishing \<Rightarrow> intent_row option" where
  "intent_by_key b key s = List.find (\<lambda>r. in_business r = b \<and> in_key r = Some key) (intents s)"

definition mode_or_real :: "publish_mode option \<Rightarrow> publish_mode" where
  "mode_or_real m = (case m of None \<Rightarrow> REAL | Some m \<Rightarrow> m)"

definition new_intent :: "call \<Rightarrow> string \<Rightarrow> string \<Rightarrow> string \<Rightarrow> publish_mode \<Rightarrow> string \<Rightarrow> intent_row" where
  "new_intent c b u cand mode key =
     \<lparr>in_id = call_id c 0, in_business = b, in_candidate = cand, in_target = None, in_mode = mode, in_status = DRAFT,
      in_local = None, in_zone = None, in_utc = None, in_version = 1, in_creator = u, in_key = Some key,
      in_created = call_now c\<rparr>"

definition slot_holder :: "string \<Rightarrow> string \<Rightarrow> publishing \<Rightarrow> intent_row option" where
  "slot_holder b cand s = List.find (\<lambda>r. in_business r = b \<and> in_candidate r = cand \<and> takes_slot r) (intents s)"

definition create_intent_tx :: "call \<Rightarrow> string \<Rightarrow> string \<Rightarrow> string \<Rightarrow> publish_mode \<Rightarrow> string \<Rightarrow> intent_row publish_action" where
  "create_intent_tx c b u cand mode key =
     act_bind (act_read (find_candidate cand)) (\<lambda>candidate.
       case candidate of
         None \<Rightarrow> act_throw (NotFoundException API_NOT_FOUND)
       | Some cd \<Rightarrow>
           if cd_business cd \<noteq> b then act_throw (NotFoundException API_NOT_FOUND)
           else if cd_status cd \<noteq> C_ACTIVE
           then act_throw (UnprocessableEntityException (Shared PUBLISHING_CANDIDATE_REVOKED))
           else act_bind (act_read (slot_holder b cand)) (\<lambda>existing.
             if mode = REAL \<and> existing \<noteq> None then act_throw (ConflictException (Shared PUBLISHING_STATE_CONFLICT))
             else act_catch
               (act_seq (insert_intent (new_intent c b u cand mode key)) (act_return (new_intent c b u cand mode key)))
               (\<lambda>e. if e \<noteq> UniqueViolation then act_throw e
                 else in_aborted_transaction (act_bind (act_read (intent_by_key b key)) (\<lambda>winner.
                   case winner of
                     Some w \<Rightarrow> if in_candidate w = cand \<and> in_mode w = mode then act_return w
                       else act_throw (ConflictException (Shared PUBLISHING_STATE_CONFLICT))
                   | None \<Rightarrow> act_throw (ConflictException (Shared PUBLISHING_STATE_CONFLICT)))))))"

definition createIntent :: "call \<Rightarrow> string \<Rightarrow> string \<Rightarrow> string \<Rightarrow> publish_mode option \<Rightarrow> string \<Rightarrow> intent_row publish_action" where
  "createIntent c b u cand mode key =
     act_bind (act_read (intent_by_key b key)) (\<lambda>replayed.
       case replayed of
         Some r \<Rightarrow>
           if in_candidate r \<noteq> cand \<or> in_mode r \<noteq> mode_or_real mode
           then act_throw (ConflictException (Shared PUBLISHING_IDEMPOTENCY_CONFLICT)) else act_return r
       | None \<Rightarrow> transaction (create_intent_tx c b u cand (mode_or_real mode) key))"


section \<open>Schedule\<close>

record schedule_dto =
  sd_local :: string
  sd_zone :: string
  sd_target :: string
  sd_version :: int

definition schedule_tx ::
  "js_env \<Rightarrow> call \<Rightarrow> intent_status list \<Rightarrow> string \<Rightarrow> string \<Rightarrow> schedule_dto \<Rightarrow> int \<Rightarrow> intent_row publish_action" where
  "schedule_tx E c allowed i b dto utc =
     act_bind (own_version i b (sd_version dto)) (\<lambda>intent.
       act_seq (assertStatusIn (in_status intent) allowed)
       (act_seq (assertTargetBindable (call_now c) (sd_target dto) b)
       (case js_date_parse E (sd_local dto) of
          None \<Rightarrow> act_throw OtherError
        | Some local \<Rightarrow> set_intent i (\<lambda>r. r\<lparr>in_target := Some (sd_target dto), in_local := Some local,
            in_zone := Some (sd_zone dto), in_utc := Some utc, in_status := AWAITING_APPROVAL,
            in_version := in_version r + 1\<rparr>))))"

definition at_future_instant :: "zone_db \<Rightarrow> call \<Rightarrow> schedule_dto \<Rightarrow> (int \<Rightarrow> 'a publish_action) \<Rightarrow> 'a publish_action" where
  "at_future_instant tzdb c dto f =
     (case localToUtc tzdb (sd_local dto) (sd_zone dto) of
        Inl e \<Rightarrow> act_throw (time_fault e)
      | Inr utc \<Rightarrow>
          if isInPast (call_now c) utc then act_throw (BadRequestException (Shared PUBLISHING_SCHEDULE_IN_PAST)) else f utc)"

definition scheduleIntent ::
  "js_env \<Rightarrow> zone_db \<Rightarrow> call \<Rightarrow> string \<Rightarrow> string \<Rightarrow> schedule_dto \<Rightarrow> intent_row publish_action" where
  "scheduleIntent E tzdb c i b dto = at_future_instant tzdb c dto (\<lambda>utc.
     transaction (schedule_tx E c [DRAFT, AWAITING_APPROVAL, SCHEDULED] i b dto utc))"

definition rescheduleIntent ::
  "js_env \<Rightarrow> zone_db \<Rightarrow> call \<Rightarrow> string \<Rightarrow> string \<Rightarrow> schedule_dto \<Rightarrow> intent_row publish_action" where
  "rescheduleIntent E tzdb c i b dto = at_future_instant tzdb c dto (\<lambda>utc.
     transaction (schedule_tx E c [SCHEDULED, AWAITING_APPROVAL] i b dto utc))"

text \<open>The delayed jobs that \<open>removeOldDispatchJobs\<close> removes after the commit.\<close>

definition removeOldDispatchJobs :: "string \<Rightarrow> job list \<Rightarrow> job list" where
  "removeOldDispatchJobs i delayed = filter (\<lambda>j. jb_intent j \<noteq> i) delayed"


section \<open>Approve, cancel, retry\<close>

record approve_dto =
  ad_decision :: approval_decision
  ad_version :: int
  ad_checksum :: string
  ad_notes :: "string option"
  ad_key :: string

fun mode_text :: "publish_mode \<Rightarrow> string" where
  "mode_text REAL = ''REAL''"
| "mode_text MANUAL_EXPORT = ''MANUAL_EXPORT''"
| "mode_text SIMULATION = ''SIMULATION''"

fun decision_text :: "approval_decision \<Rightarrow> string" where
  "decision_text APPROVED = ''APPROVED''"
| "decision_text REJECTED = ''REJECTED''"

definition opt_str :: "string option \<Rightarrow> json" where
  "opt_str x = (case x of None \<Rightarrow> JNull | Some s \<Rightarrow> JStr s)"

definition opt_iso :: "int option \<Rightarrow> json" where
  "opt_iso x = (case x of None \<Rightarrow> JNull | Some t \<Rightarrow> JStr (toISOString t))"

text \<open>The document that \<open>computeApprovalFingerprint\<close> digests.\<close>

definition approval_document :: "approval_decision \<Rightarrow> string \<Rightarrow> intent_row \<Rightarrow> json" where
  "approval_document decision checksum r = JObj
     [(''candidateChecksum'', JStr checksum), (''candidateId'', JStr (in_candidate r)),
      (''decision'', JStr (decision_text decision)), (''intentId'', JStr (in_id r)),
      (''intentVersion'', JNum (of_int (in_version r))), (''mode'', JStr (mode_text (in_mode r))),
      (''scheduledLocalAt'', opt_iso (in_local r)), (''scheduledUtcAt'', opt_iso (in_utc r)),
      (''targetId'', opt_str (in_target r)), (''timeZone'', opt_str (in_zone r))]"

definition computeApprovalFingerprint :: "js_env \<Rightarrow> approval_decision \<Rightarrow> string \<Rightarrow> intent_row \<Rightarrow> string" where
  "computeApprovalFingerprint E decision checksum r =
     env_sha256 E (json_text E (approval_document decision checksum r))"

definition new_approval :: "js_env \<Rightarrow> call \<Rightarrow> string \<Rightarrow> approve_dto \<Rightarrow> intent_row \<Rightarrow> approval_row" where
  "new_approval E c u dto r =
     \<lparr>ap_id = call_id c 0, ap_intent = in_id r, ap_version = in_version r, ap_checksum = ad_checksum dto,
      ap_decision = ad_decision dto, ap_by = u, ap_at = call_now c, ap_notes = ad_notes dto,
      ap_fingerprint = computeApprovalFingerprint E (ad_decision dto) (ad_checksum dto) r, ap_key = ad_key dto\<rparr>"

definition decided_status :: "approval_decision \<Rightarrow> intent_row \<Rightarrow> intent_status" where
  "decided_status decision r =
     (if decision = APPROVED \<and> in_utc r \<noteq> None then SCHEDULED
      else if decision = REJECTED then CANCELLED else in_status r)"

record approve_result =
  ar_intent :: intent_row
  ar_approval :: approval_row
  ar_raced :: bool
  ar_replayed :: bool

definition approval_by_key :: "string \<Rightarrow> string \<Rightarrow> publishing \<Rightarrow> approval_row option" where
  "approval_by_key i key s = List.find (\<lambda>r. ap_intent r = i \<and> ap_key r = key) (approvals s)"

text \<open>The approval row and the new status of the intent, once every check has passed.\<close>

definition decide_tx :: "js_env \<Rightarrow> call \<Rightarrow> string \<Rightarrow> string \<Rightarrow> approve_dto \<Rightarrow> intent_row \<Rightarrow> approve_result publish_action" where
  "decide_tx E c i u dto intent =
     act_bind (act_catch (act_seq (insert_approval (new_approval E c u dto intent)) (act_return None))
       (\<lambda>e. if e \<noteq> UniqueViolation then act_throw e
         else in_aborted_transaction (act_bind (or_throw (approval_by_key i (ad_key dto))) (\<lambda>a.
           act_return (Some \<lparr>ar_intent = intent, ar_approval = a, ar_raced = True, ar_replayed = True\<rparr>))))) (\<lambda>raced.
     case raced of
       Some x \<Rightarrow> act_return x
     | None \<Rightarrow> act_bind (set_intent i (\<lambda>r. r\<lparr>in_status := decided_status (ad_decision dto) intent\<rparr>)) (\<lambda>updated.
         act_return \<lparr>ar_intent = updated, ar_approval = new_approval E c u dto intent, ar_raced = False, ar_replayed = False\<rparr>))"

definition approve_tx :: "js_env \<Rightarrow> call \<Rightarrow> string \<Rightarrow> string \<Rightarrow> string \<Rightarrow> approve_dto \<Rightarrow> approve_result publish_action" where
  "approve_tx E c i b u dto =
     act_bind (own_version i b (ad_version dto)) (\<lambda>intent.
     act_seq (assertStatusIn (in_status intent) [AWAITING_APPROVAL])
     (act_bind (or_throw (find_candidate (in_candidate intent))) (\<lambda>candidate.
     act_seq (require (cd_checksum candidate = ad_checksum dto) (ConflictException (Shared PUBLISHING_CANDIDATE_TAMPERED)))
     (act_bind (act_read (approval_by_key i (ad_key dto))) (\<lambda>replayed.
       case replayed of
         Some a \<Rightarrow>
           if ap_fingerprint a \<noteq> computeApprovalFingerprint E (ad_decision dto) (ad_checksum dto) intent
           then act_throw (ConflictException (Shared PUBLISHING_IDEMPOTENCY_CONFLICT))
           else act_return \<lparr>ar_intent = intent, ar_approval = a, ar_raced = False, ar_replayed = True\<rparr>
       | None \<Rightarrow> decide_tx E c i u dto intent)))))"

text \<open>The job handed to the queue: only for a fresh approval that schedules the intent.\<close>

definition approval_job :: "call \<Rightarrow> string \<Rightarrow> approve_dto \<Rightarrow> approve_result \<Rightarrow> job option" where
  "approval_job c i dto a =
     (case in_utc (ar_intent a) of
        None \<Rightarrow> None
      | Some utc \<Rightarrow>
          if \<not> ar_raced a \<and> \<not> ar_replayed a \<and> in_status (ar_intent a) = SCHEDULED
          then Some (dispatch_job (call_now c) i (in_version (ar_intent a)) (dispatchKeyFor (ad_key dto))
            (intent_job_key i (in_version (ar_intent a))) utc)
          else None)"

definition approveIntent ::
  "js_env \<Rightarrow> call \<Rightarrow> string \<Rightarrow> string \<Rightarrow> string \<Rightarrow> approve_dto \<Rightarrow> (intent_row \<times> approval_row \<times> job option) publish_action" where
  "approveIntent E c i b u dto =
     act_bind (transaction (approve_tx E c i b u dto)) (\<lambda>a.
       act_return (ar_intent a, ar_approval a, approval_job c i dto a))"

definition cancelIntent :: "string \<Rightarrow> string \<Rightarrow> int \<Rightarrow> intent_row publish_action" where
  "cancelIntent i b version =
     transaction (act_bind (own_version i b version) (\<lambda>intent.
       act_seq (assertStatusIn (in_status intent) CANCELLABLE_STATUSES)
         (set_intent i (\<lambda>r. r\<lparr>in_status := CANCELLED\<rparr>))))"

record retry_dto =
  rd_version :: int
  rd_expected :: int
  rd_key :: string

definition retry_tx :: "string \<Rightarrow> string \<Rightarrow> retry_dto \<Rightarrow> intent_row publish_action" where
  "retry_tx i b dto =
     act_bind (own_version i b (rd_version dto)) (\<lambda>intent.
     act_seq (assertStatusIn (in_status intent) RETRYABLE_STATUSES)
     (act_bind (act_read (\<lambda>s. newest at_seq (intent_attempts i s))) (\<lambda>latest.
       case latest of
         None \<Rightarrow> act_throw (ConflictException (Shared PUBLISHING_IDEMPOTENCY_CONFLICT))
       | Some a \<Rightarrow>
           act_seq (require (at_status a = A_FAILED \<and> at_seq a = rd_expected dto)
             (ConflictException (Shared PUBLISHING_IDEMPOTENCY_CONFLICT)))
           (act_bind (act_read (\<lambda>s. newest ap_at (intent_approvals i s))) (\<lambda>approval.
             case approval of
               None \<Rightarrow> act_throw (BadRequestException (Shared PUBLISHING_APPROVAL_REQUIRED))
             | Some p \<Rightarrow>
                 act_seq (require (ap_version p = in_version intent) (BadRequestException (Shared PUBLISHING_APPROVAL_REQUIRED)))
                   (set_intent i (\<lambda>r. r\<lparr>in_status := SCHEDULED\<rparr>)))))))"

definition retry_job :: "js_env \<Rightarrow> call \<Rightarrow> string \<Rightarrow> retry_dto \<Rightarrow> intent_row \<Rightarrow> job option" where
  "retry_job E c i dto r =
     map_option (dispatch_job (call_now c) i (in_version r) (dispatchKeyFor (rd_key dto))
       (retryJobId E i (in_version r) (rd_key dto))) (in_utc r)"

definition retryIntent :: "js_env \<Rightarrow> call \<Rightarrow> string \<Rightarrow> string \<Rightarrow> retry_dto \<Rightarrow> (intent_row \<times> job option) publish_action" where
  "retryIntent E c i b dto =
     act_bind (transaction (retry_tx i b dto)) (\<lambda>r. act_return (r, retry_job E c i dto r))"

end
