(* ===== verification/Publish_Serializers.thy ===== *)
theory Publish_Serializers
  imports Publish_Intents
begin

text \<open>
  The frozen documents built from rows: the attempt and the result
  (apps/api/src/modules/publishing/common/serializers.ts) and the dispatch body
  (dispatch/dispatch-envelope.builder.ts).
\<close>


section \<open>Attempts\<close>

definition local_action_document :: "string \<Rightarrow> int \<Rightarrow> string \<Rightarrow> string \<Rightarrow> json" where
  "local_action_document intentId intentVersion key workflow = JObj
     [(''idempotencyKey'', JStr key), (''intentId'', JStr intentId), (''intentVersion'', JNum (of_int intentVersion)),
      (''workflowVersion'', JStr workflow)]"

definition computeLocalActionRequestFingerprint :: "js_env \<Rightarrow> string \<Rightarrow> int \<Rightarrow> string \<Rightarrow> string \<Rightarrow> string" where
  "computeLocalActionRequestFingerprint E intentId intentVersion key workflow =
     env_sha256 E (json_text E (local_action_document intentId intentVersion key workflow))"

fun toFrozenAttemptState :: "attempt_status \<Rightarrow> string" where
  "toFrozenAttemptState A_QUEUED = ''queued''"
| "toFrozenAttemptState A_RUNNING = ''running''"
| "toFrozenAttemptState A_DISPATCHING = ''running''"
| "toFrozenAttemptState A_SUCCEEDED = ''succeeded''"
| "toFrozenAttemptState A_FAILED = ''failed''"
| "toFrozenAttemptState A_UNKNOWN = ''unknown''"
| "toFrozenAttemptState A_CANCELLED = ''cancelled''"

definition attempt_fingerprint :: "js_env \<Rightarrow> attempt_row \<Rightarrow> string" where
  "attempt_fingerprint E a =
     (case at_fingerprint a of
        Some f \<Rightarrow> f
      | None \<Rightarrow>
          (case at_workflow a of
             Some w \<Rightarrow> if take 6 w = ''local-''
               then computeLocalActionRequestFingerprint E (at_intent a) (at_version a) (at_key a) w else []
           | None \<Rightarrow> []))"

definition or_empty :: "string option \<Rightarrow> string" where
  "or_empty x = (case x of None \<Rightarrow> [] | Some s \<Rightarrow> s)"

definition toPublicationAttemptV1 :: "js_env \<Rightarrow> attempt_row \<Rightarrow> json" where
  "toPublicationAttemptV1 E a = JObj
     [(''contract_version'', JStr ''publication-attempt-v1''),
      (''attempt_id'', JStr (at_id a)),
      (''intent_id'', JStr (at_intent a)),
      (''intent_version'', JNum (of_int (at_version a))),
      (''attempt_number'', JNum (of_int (at_seq a))),
      (''idempotency_key'', JStr (at_key a)),
      (''workflow_version'', JStr (or_empty (at_workflow a))),
      (''request_fingerprint'', JStr (attempt_fingerprint E a)),
      (''state'', JStr (toFrozenAttemptState (at_status a))),
      (''started_at'', opt_iso (at_started a)),
      (''finished_at'', opt_iso (at_finished a)),
      (''created_at'', JStr (toISOString (at_created a)))]"


section \<open>Results\<close>

definition result_fields ::
  "result_row \<Rightarrow> int \<Rightarrow> string \<Rightarrow> string \<Rightarrow> json \<Rightarrow> json \<Rightarrow> json \<Rightarrow> json \<Rightarrow> json \<Rightarrow> json \<Rightarrow> json \<Rightarrow> bool \<Rightarrow> bool \<Rightarrow> json" where
  "result_fields r version mode outcome provider remote url artifact simulation label error retryable reconcile = JObj
     [(''contract_version'', JStr ''publication-result-v1''),
      (''result_id'', JStr (re_id r)),
      (''attempt_id'', JStr (re_attempt r)),
      (''intent_id'', JStr (re_intent r)),
      (''intent_version'', JNum (of_int version)),
      (''occurred_at'', JStr (toISOString (re_occurred r))),
      (''mode'', JStr mode), (''outcome'', JStr outcome), (''provider'', provider),
      (''remote_publication_id'', remote), (''remote_url'', url), (''export_artifact_id'', artifact),
      (''simulation_reference_id'', simulation), (''simulation_label'', label), (''error_code'', error),
      (''retryable'', JBool retryable), (''reconciliation_required'', JBool reconcile)]"

text \<open>\<open>result.simulationLabel ? ... : ...\<close> and \<open>result.provider ? ... : ...\<close>: the empty string is falsy.\<close>

definition truthy :: "string option \<Rightarrow> bool" where
  "truthy x \<longleftrightarrow> (case x of None \<Rightarrow> False | Some s \<Rightarrow> s \<noteq> [])"

definition result_mode :: "result_row \<Rightarrow> string" where
  "result_mode r = (if truthy (re_label r) then ''simulation'' else ''real'')"

definition toPublicationResultV1 :: "result_row \<Rightarrow> int \<Rightarrow> json" where
  "toPublicationResultV1 r version =
     (case re_outcome r of
        PUBLISHED \<Rightarrow> result_fields r version ''real'' ''published'' (JStr ''meta'') (JStr (or_empty (re_remote r)))
          (opt_str (re_url r)) JNull JNull JNull JNull False False
      | EXPORTED \<Rightarrow> result_fields r version ''manual_export'' ''exported'' JNull JNull JNull
          (JStr (case re_export r of None \<Rightarrow> re_id r | Some a \<Rightarrow> a)) JNull JNull JNull False False
      | SIMULATED \<Rightarrow> result_fields r version ''simulation'' ''simulated'' JNull JNull JNull JNull
          (JStr (''simulation:'' @ re_attempt r)) (JStr ''SIMULATION'') JNull False False
      | UNKNOWN \<Rightarrow> result_fields r version ''real'' ''unknown'' (JStr ''meta'') JNull JNull JNull JNull JNull
          (JStr ''PUBLISHING_PROVIDER_OUTCOME_UNKNOWN'') False True
      | OUTCOME_CANCELLED \<Rightarrow> result_fields r version (result_mode r) ''cancelled'' JNull JNull JNull JNull JNull
          (opt_str (re_label r)) JNull False False
      | OUTCOME_FAILED \<Rightarrow> result_fields r version (result_mode r) ''failed''
          (if truthy (re_provider r) then JStr ''meta'' else JNull) JNull JNull JNull JNull (opt_str (re_label r))
          (JStr (case re_error r of None \<Rightarrow> ''PUBLISHING_DISPATCH_FAILED'' | Some e \<Rightarrow> e)) (re_retryable r) False)"


section \<open>The dispatch body\<close>

record publish_config =
  callback_base_url :: string
  workflow_version :: string
  signing_secret :: string
  signing_key_id :: string
  n8n_auth_token :: string

fun publicationOperationForMode :: "publish_mode \<Rightarrow> json \<Rightarrow> string" where
  "publicationOperationForMode REAL format =
     (if format = JStr ''text_post'' then ''meta.publish_text'' else ''meta.publish_static_image'')"
| "publicationOperationForMode MANUAL_EXPORT format = ''manual_export.build''"
| "publicationOperationForMode SIMULATION format = ''simulation.run''"

definition ASSET_RETRIEVAL_TTL_MS :: int where
  "ASSET_RETRIEVAL_TTL_MS = 60 * 60 * 1000"

text \<open>\<open>toNaiveLocal\<close> reads the wall clock of Cairo whatever the zone of the intent is.\<close>

definition naive_cairo :: "js_env \<Rightarrow> int \<Rightarrow> string" where
  "naive_cairo E t = wall_clock (env_cairo_offset E t) t"

definition approval_fields :: "js_env \<Rightarrow> attempt_row \<Rightarrow> json \<Rightarrow> target_row \<Rightarrow> approval_row \<Rightarrow> int \<Rightarrow> (string \<times> json) list" where
  "approval_fields E a candidate t p utc =
     [(''contract_version'', JStr ''publication-approval-v1''),
      (''decision_id'', JStr (ap_id p)),
      (''intent_id'', JStr (at_intent a)),
      (''intent_version'', JNum (of_int (at_version a))),
      (''candidate_id'', jget candidate ''candidate_id''),
      (''candidate_checksum'', JStr (ap_checksum p)),
      (''mode'', JStr ''real''),
      (''target_id'', JStr (tg_id t)),
      (''scheduled_local'', JStr (naive_cairo E utc)),
      (''time_zone'', JStr ''Africa/Cairo''),
      (''scheduled_utc'', JStr (toISOString utc)),
      (''decided_by_user_id'', JStr (ap_by p)),
      (''decided_at'', JStr (toISOString (ap_at p)))]"

fun frozen_connection :: "connection_state \<Rightarrow> string" where
  "frozen_connection T_CONNECTED = ''connected''"
| "frozen_connection T_EXPIRED = ''expired''"
| "frozen_connection T_REVOKED = ''revoked''"
| "frozen_connection T_ERROR = ''error''"

definition frozenChannel :: "string \<Rightarrow> string" where
  "frozenChannel c = (if c = ''instagram'' then ''instagram'' else ''facebook'')"

definition frozenCapabilities :: "json \<Rightarrow> json" where
  "frozenCapabilities raw =
     (let found = filter (\<lambda>c. JStr c \<in> set (jelems raw)) [''static_image'', ''text'']
      in JArr (map JStr (if found = [] then [''static_image''] else found)))"

definition target_document :: "target_row \<Rightarrow> json" where
  "target_document t = JObj
     [(''contract_version'', JStr ''publishing-target-v1''), (''target_id'', JStr (tg_id t)),
      (''version'', JNum (of_int (tg_version t))), (''business_id'', JStr (tg_business t)), (''provider'', JStr ''meta''),
      (''channel'', JStr (frozenChannel (tg_channel t))), (''external_account_id'', JStr (tg_external t)),
      (''display_name'', JStr (tg_name t)), (''connection_state'', JStr (frozen_connection (tg_state t))),
      (''credential_ref'', JStr (tg_credential t)), (''capabilities'', frozenCapabilities (tg_capabilities t)),
      (''last_verified_at'', opt_iso (tg_verified t))]"

definition asset_document :: "publish_config \<Rightarrow> int \<Rightarrow> json \<Rightarrow> json" where
  "asset_document C until a = JObj
     [(''asset_id'', jget a ''asset_id''), (''checksum'', jget a ''checksum''), (''mime_type'', jget a ''mime_type''),
      (''retrieval_url'', JStr (callback_base_url C @ ''/internal/v1/publishing/assets/'' @ jstr (jget a ''asset_id''))),
      (''retrieval_expires_at'', JStr (toISOString until))]"

definition dispatch_fields ::
  "js_env \<Rightarrow> publish_config \<Rightarrow> attempt_row \<Rightarrow> string \<Rightarrow> candidate_row \<Rightarrow> target_row \<Rightarrow> json \<Rightarrow> int \<Rightarrow> int \<Rightarrow> (string \<times> json) list" where
  "dispatch_fields E C a b cd t approval utc retrievalStartedAt =
     (let candidate = cd_payload cd in
      [(''contract_version'', JStr ''publication-dispatch-v1''),
       (''attempt_id'', JStr (at_id a)),
       (''intent_id'', JStr (at_intent a)),
       (''intent_version'', JNum (of_int (at_version a))),
       (''business_id'', JStr b),
       (''correlation_id'', JStr (at_intent a)),
       (''idempotency_key'', JStr (at_key a)),
       (''workflow_version'', JStr (workflow_version C)),
       (''candidate'', candidate),
       (''candidate_status'', cd_source_status cd),
       (''assets'', JArr (map (asset_document C (retrievalStartedAt + ASSET_RETRIEVAL_TTL_MS)) (jelems (jget candidate ''assets'')))),
       (''callback_url'', JStr (callback_base_url C @ ''/internal/v1/publishing/dispatch/'' @ at_id a @ ''/callback'')),
       (''mode'', JStr ''real''),
       (''operation'', JStr (publicationOperationForMode REAL (jget candidate ''content_format''))),
       (''target'', target_document t),
       (''approval'', approval),
       (''scheduled_utc'', JStr (toISOString utc))])"

definition buildDispatchBody ::
  "js_env \<Rightarrow> publish_config \<Rightarrow> attempt_row \<Rightarrow> string \<Rightarrow> candidate_row \<Rightarrow> target_row \<Rightarrow> approval_row \<Rightarrow> int \<Rightarrow> int \<Rightarrow> js_error + json \<times> string" where
  "buildDispatchBody E C a b cd t p utc retrievalStartedAt =
     (let snapshot = approval_fields E a (cd_payload cd) t p utc in
      throws_bind (computePublicationApprovalFingerprint E (JObj snapshot)) (\<lambda>f.
      let body = JObj (dispatch_fields E C a b cd t (JObj (snapshot @ [(''approval_fingerprint'', JStr f)])) utc retrievalStartedAt)
      in throws_bind (computeDispatchRequestFingerprint E body) (\<lambda>requestFingerprint. Inr (body, requestFingerprint))))"

end
