(* ===== verification/Publish_Dispatch.thy ===== *)
theory Publish_Dispatch
  imports Publish_Serializers
begin

text \<open>
  The dispatch worker (apps/api/src/modules/publishing/dispatch/dispatch.processor.ts): the
  transaction that revalidates an intent and creates its attempt, the claim of the attempt, and
  the three transactions that may follow: a failed integrity check, the acknowledgement of the
  runner, a failed delivery.

  The processor works in separate database steps, and other processes act between them; each step
  is an action here, and \<open>Publish_World\<close> interleaves them. \<open>process\<close> is their sequence without
  interference. The runner (n8n), the retrieval of the media and the Facebook bridge are
  parameters.
\<close>


section \<open>The revalidation transaction\<close>

datatype revalidation =
    Replayed string attempt_status
  | Fresh string json

definition LIVE_STATUSES :: "attempt_status list" where
  "LIVE_STATUSES = [A_QUEUED, A_RUNNING, A_DISPATCHING, A_SUCCEEDED]"

definition recovers :: "int \<Rightarrow> intent_row \<Rightarrow> attempt_row option \<Rightarrow> bool" where
  "recovers version intent existing \<longleftrightarrow>
     (case existing of
        None \<Rightarrow> False
      | Some a \<Rightarrow> at_status a = A_QUEUED \<and> at_version a = version \<and> in_version intent = version \<and> in_status intent = DISPATCHING)"

text \<open>Checks 1 and 2 and the claim of the intent, skipped when a queued attempt is recovered.\<close>

definition claim_intent :: "string \<Rightarrow> int \<Rightarrow> intent_row \<Rightarrow> unit publish_action" where
  "claim_intent i version intent =
     act_seq (require (in_version intent = version) (PlainError (Shared PUBLISHING_STATE_CONFLICT)))
     (act_seq (require (in_status intent = SCHEDULED)
       (if in_status intent = DISPATCHING then ClaimLost else PlainError (Shared PUBLISHING_STATE_CONFLICT)))
     (act_bind (update_intents (\<lambda>r. in_id r = i \<and> in_version r = version \<and> in_status r = SCHEDULED)
        (\<lambda>r. r\<lparr>in_status := DISPATCHING\<rparr>)) (\<lambda>n.
       require (n = 1) ClaimLost)))"

definition current_approval :: "string \<Rightarrow> int \<Rightarrow> publishing \<Rightarrow> approval_row option" where
  "current_approval i version s =
     List.find (\<lambda>p. ap_intent p = i \<and> ap_version p = version \<and> ap_decision p = APPROVED) (approvals s)"

definition check_target :: "int \<Rightarrow> intent_row \<Rightarrow> target_row publish_action" where
  "check_target now intent =
     act_bind (or_throw (\<lambda>s. Option.bind (in_target intent) (\<lambda>t. find_target t s))) (\<lambda>target.
     act_seq (require (tg_state target = T_CONNECTED) (PlainError (Shared PUBLISHING_TARGET_UNAUTHORIZED)))
     (act_seq (require (\<not> expired now target) (PlainError (Shared PUBLISHING_TARGET_UNAUTHORIZED)))
     (act_return target)))"

definition live_attempt :: "string \<Rightarrow> int \<Rightarrow> publishing \<Rightarrow> attempt_row option" where
  "live_attempt i version s =
     List.find (\<lambda>a. at_intent a = i \<and> at_version a = version \<and> at_status a \<in> set LIVE_STATUSES) (attempts s)"

definition new_attempt :: "call \<Rightarrow> string \<Rightarrow> int \<Rightarrow> string \<Rightarrow> int \<Rightarrow> attempt_row" where
  "new_attempt c i version key seq =
     \<lparr>at_id = call_id c 0, at_intent = i, at_version = version, at_seq = seq, at_status = A_QUEUED,
      at_workflow = None, at_fingerprint = None, at_key = key, at_execution = None, at_error = None,
      at_dispatched = None, at_started = Some (call_now c), at_finished = None, at_created = call_now c\<rparr>"

text \<open>
  The insert of the attempt. When another worker has created it first, the handler of the code
  looks the winner up within the transaction that has just failed.
\<close>

definition create_attempt :: "call \<Rightarrow> string \<Rightarrow> int \<Rightarrow> string \<Rightarrow> attempt_row publish_action" where
  "create_attempt c i version key =
     act_bind (act_read (\<lambda>s. next_seq (filter (\<lambda>a. at_version a = version) (intent_attempts i s)))) (\<lambda>seq.
       let a = new_attempt c i version key seq in
       act_catch (act_seq (insert_attempt a) (act_return a))
         (\<lambda>e. if e \<noteq> UniqueViolation then act_throw e
           else in_aborted_transaction (or_throw (attempt_by_key i key))))"

definition started_or_created :: "attempt_row \<Rightarrow> int" where
  "started_or_created a = (case at_started a of None \<Rightarrow> at_created a | Some t \<Rightarrow> t)"

definition stamp_attempt :: "publish_config \<Rightarrow> string \<Rightarrow> string \<Rightarrow> unit publish_action" where
  "stamp_attempt C attemptId fingerprint =
     act_bind (update_attempts (\<lambda>r. at_id r = attemptId)
       (\<lambda>r. r\<lparr>at_fingerprint := Some fingerprint, at_workflow := Some (workflow_version C)\<rparr>)) (\<lambda>_. act_return ())"

text \<open>
  Checks 3 to 7, the attempt and its body, once the intent is claimed. A \<open>null\<close> instant makes the
  builder throw.
\<close>

definition prepare_attempt ::
  "js_env \<Rightarrow> publish_config \<Rightarrow> call \<Rightarrow> string \<Rightarrow> int \<Rightarrow> string \<Rightarrow> intent_row \<Rightarrow> attempt_row option \<Rightarrow> revalidation publish_action" where
  "prepare_attempt E C c i version key intent recovered =
     act_bind (act_read (current_approval i version)) (\<lambda>approval.
       case approval of
         None \<Rightarrow> act_throw (PlainError (Shared PUBLISHING_APPROVAL_REQUIRED))
       | Some p \<Rightarrow>
     act_bind (or_throw (find_candidate (in_candidate intent))) (\<lambda>candidate.
     act_seq (require (cd_status candidate = C_ACTIVE) (PlainError (Shared PUBLISHING_CANDIDATE_REVOKED)))
     (act_seq (require (cd_checksum candidate = ap_checksum p) (PlainError (Shared PUBLISHING_ASSET_TAMPERED)))
     (act_bind (check_target (call_now c) intent) (\<lambda>target.
     act_bind (act_read (live_attempt i version)) (\<lambda>existing.
     act_seq (require (existing = None \<or> map_option at_id existing = map_option at_id recovered)
       (PlainError (Shared PUBLISHING_DUPLICATE_DISPATCH)))
     (act_bind (case recovered of Some a \<Rightarrow> act_return a | None \<Rightarrow> create_attempt c i version key) (\<lambda>a.
       case in_utc intent of
         None \<Rightarrow> act_throw OtherError
       | Some utc \<Rightarrow>
           (case buildDispatchBody E C a (in_business intent) candidate target p utc (started_or_created a) of
              Inl e \<Rightarrow> act_throw OtherError
            | Inr (body, fingerprint) \<Rightarrow>
                act_seq (stamp_attempt C (at_id a) fingerprint) (act_return (Fresh (at_id a) body)))))))))))"

definition revalidate_tx ::
  "js_env \<Rightarrow> publish_config \<Rightarrow> call \<Rightarrow> string \<Rightarrow> int \<Rightarrow> string \<Rightarrow> revalidation publish_action" where
  "revalidate_tx E C c i version key =
     act_bind (or_throw (find_intent i)) (\<lambda>intent.
     act_bind (act_read (attempt_by_key i key)) (\<lambda>existing.
       if recovers version intent existing then prepare_attempt E C c i version key intent existing
       else case existing of
         Some a \<Rightarrow> act_return (Replayed (at_id a) (at_status a))
       | None \<Rightarrow> act_seq (claim_intent i version intent) (prepare_attempt E C c i version key intent None)))"

definition runRevalidationAndCreateAttempt ::
  "js_env \<Rightarrow> publish_config \<Rightarrow> call \<Rightarrow> string \<Rightarrow> int \<Rightarrow> string \<Rightarrow> revalidation publish_action" where
  "runRevalidationAndCreateAttempt E C c i version key = transaction (revalidate_tx E C c i version key)"


section \<open>The other steps\<close>

definition IN_DISPATCH :: "intent_status list" where
  "IN_DISPATCH = [SCHEDULED, DISPATCHING]"

text \<open>The version-predicated update of the intent that every failure path uses.\<close>

definition move_intent :: "string \<Rightarrow> int \<Rightarrow> intent_status \<Rightarrow> unit publish_action" where
  "move_intent i version status =
     act_bind (update_intents (\<lambda>r. in_id r = i \<and> in_version r = version \<and> in_status r \<in> set IN_DISPATCH)
       (\<lambda>r. r\<lparr>in_status := status\<rparr>)) (\<lambda>_. act_return ())"

definition markIntentFailed :: "string \<Rightarrow> int \<Rightarrow> unit publish_action" where
  "markIntentFailed i version = act_catch (move_intent i version FAILED) (\<lambda>_. act_return ())"

definition end_attempt :: "string \<Rightarrow> attempt_status \<Rightarrow> string \<Rightarrow> int \<Rightarrow> unit publish_action" where
  "end_attempt attemptId status message now =
     act_bind (update_attempts (\<lambda>r. at_id r = attemptId)
       (\<lambda>r. r\<lparr>at_status := status, at_error := Some message, at_finished := Some now\<rparr>)) (\<lambda>n.
       require (n = 1) RecordNotFound)"

definition integrity_failed_tx :: "int \<Rightarrow> string \<Rightarrow> int \<Rightarrow> string \<Rightarrow> string \<Rightarrow> unit publish_action" where
  "integrity_failed_tx now i version attemptId message =
     transaction (act_seq (end_attempt attemptId A_FAILED message now) (move_intent i version FAILED))"

definition claimAttempt :: "string \<Rightarrow> bool publish_action" where
  "claimAttempt attemptId =
     act_bind (update_attempts (\<lambda>r. at_id r = attemptId \<and> at_status r = A_QUEUED)
       (\<lambda>r. r\<lparr>at_status := A_DISPATCHING\<rparr>)) (\<lambda>n. act_return (n = 1))"

definition acknowledge_tx :: "int \<Rightarrow> string \<Rightarrow> int \<Rightarrow> string \<Rightarrow> string option \<Rightarrow> unit publish_action" where
  "acknowledge_tx now i version attemptId execution =
     transaction (act_seq
       (update_attempts (\<lambda>r. at_id r = attemptId \<and> at_status r = A_DISPATCHING)
         (\<lambda>r. r\<lparr>at_status := A_DISPATCHING, at_execution := execution, at_dispatched := Some now\<rparr>))
       (move_intent i version DISPATCHING))"

definition stored_error :: "bool \<Rightarrow> string \<Rightarrow> string" where
  "stored_error ambiguous message = (if ambiguous then ''STUCK_DISPATCH_TIMEOUT: '' @ message else message)"

definition delivery_result :: "call \<Rightarrow> string \<Rightarrow> string \<Rightarrow> bool \<Rightarrow> string \<Rightarrow> result_row" where
  "delivery_result c i attemptId ambiguous message =
     \<lparr>re_id = call_id c 0, re_attempt = attemptId, re_intent = i,
      re_outcome = (if ambiguous then UNKNOWN else OUTCOME_FAILED), re_provider = Some ''meta'',
      re_remote = None, re_url = None, re_export = None, re_label = None,
      re_error = Some (if ambiguous then ''PUBLISHING_PROVIDER_OUTCOME_UNKNOWN'' else ''PUBLISHING_PROVIDER_FAILURE''),
      re_retryable = (\<not> ambiguous), re_hash = None, re_sanitized = Some message, re_occurred = call_now c\<rparr>"

definition delivery_failed_tx :: "call \<Rightarrow> string \<Rightarrow> int \<Rightarrow> string \<Rightarrow> bool \<Rightarrow> string \<Rightarrow> unit publish_action" where
  "delivery_failed_tx c i version attemptId ambiguous message =
     transaction
       (act_seq (end_attempt attemptId (if ambiguous then A_UNKNOWN else A_FAILED) message (call_now c))
       (act_bind (act_read (result_of_attempt attemptId)) (\<lambda>existing.
        act_seq (if existing = None then insert_result (delivery_result c i attemptId ambiguous message) else act_return ())
          (move_intent i version (if ambiguous then ACTION_REQUIRED else FAILED)))))"


section \<open>The failure of a call\<close>

text \<open>
  \<open>classifyAmbiguousDelivery\<close> reads an Axios error: its \<open>code\<close>, whether it is one of Axios, and the
  status of the response. \<open>safeHttp\<close> keeps only the answer.
\<close>

record http_failure =
  hf_code :: "string option"
  hf_axios :: bool
  hf_status :: "int option"

definition AMBIGUOUS_CODES :: "string list" where
  "AMBIGUOUS_CODES = [''ECONNABORTED'', ''ETIMEDOUT'', ''ECONNRESET'', ''ECONNREFUSED'', ''EPIPE'', ''EAI_AGAIN'']"

definition classifyAmbiguousDelivery :: "http_failure \<Rightarrow> bool" where
  "classifyAmbiguousDelivery e \<longleftrightarrow>
     (case hf_code e of Some code \<Rightarrow> code \<in> set AMBIGUOUS_CODES | None \<Rightarrow> False)
     \<or> (hf_axios e \<and> (case hf_status e of Some status \<Rightarrow> status \<ge> 500 | None \<Rightarrow> True))"

text \<open>
  What came of the call of \<open>N8nClientService.dispatch\<close>: the transport failed, or the runner
  answered with a status and the \<open>accepted\<close> flag of its body. An answer other than an accepted 202
  becomes a plain \<open>Error\<close>.
\<close>

datatype transport = Failed_call http_failure | Answered int bool "string option"

datatype delivery = Not_configured | Accepted "string option" | Rejected bool

definition plain_error :: http_failure where
  "plain_error = \<lparr>hf_code = None, hf_axios = False, hf_status = None\<rparr>"

definition n8n_dispatch :: "publish_config \<Rightarrow> transport \<Rightarrow> delivery" where
  "n8n_dispatch C r =
     (if n8n_auth_token C = [] \<or> signing_secret C = [] then Not_configured
      else case r of
        Failed_call e \<Rightarrow> Rejected (classifyAmbiguousDelivery e)
      | Answered status acc execution \<Rightarrow>
          if status \<noteq> 202 \<or> \<not> acc then Rejected (classifyAmbiguousDelivery plain_error) else Accepted execution)"

text \<open>\<open>BadRequestException\<close> is no Axios error: a missing configuration is not ambiguous.\<close>

definition delivery_step :: "call \<Rightarrow> string \<Rightarrow> int \<Rightarrow> string \<Rightarrow> string \<Rightarrow> delivery \<Rightarrow> unit publish_action" where
  "delivery_step c i version attemptId message d =
     (case d of
        Accepted execution \<Rightarrow> acknowledge_tx (call_now c) i version attemptId execution
      | Rejected ambiguous \<Rightarrow> delivery_failed_tx c i version attemptId ambiguous (stored_error ambiguous message)
      | Not_configured \<Rightarrow> delivery_failed_tx c i version attemptId False (stored_error False message))"

text \<open>
  One job without interference: \<open>sync\<close> is whether the Facebook target could be synchronized,
  \<open>intact body\<close> whether the media match, \<open>runner body\<close> the answer of the runner. The result is the
  list of bodies posted.
\<close>

definition process ::
  "js_env \<Rightarrow> publish_config \<Rightarrow> call \<Rightarrow> call \<Rightarrow> bool \<Rightarrow> (json \<Rightarrow> bool) \<Rightarrow> (json \<Rightarrow> transport) \<Rightarrow> string \<Rightarrow> string \<Rightarrow> int \<Rightarrow> string
    \<Rightarrow> json list publish_action" where
  "process E C c c' sync intact runner message i version key =
     (if key = [] then act_return []
      else if \<not> sync then act_seq (markIntentFailed i version) (act_return [])
      else act_bind (act_catch (act_bind (runRevalidationAndCreateAttempt E C c i version key) (\<lambda>r. act_return (Some r)))
          (\<lambda>e. if e = ClaimLost then act_return None else act_seq (markIntentFailed i version) (act_return None))) (\<lambda>r.
        case r of
          Some (Fresh attemptId body) \<Rightarrow>
            if \<not> intact (jget body ''candidate'')
            then act_seq (integrity_failed_tx (call_now c') i version attemptId message) (act_return [])
            else act_bind (claimAttempt attemptId) (\<lambda>claimed.
              if \<not> claimed then act_return []
              else act_seq (delivery_step c' i version attemptId message (n8n_dispatch C (runner body)))
                (act_return (if n8n_dispatch C (runner body) = Not_configured then [] else [body])))
        | _ \<Rightarrow> act_return []))"

end
