(* ===== verification/Publish_Callbacks.thy ===== *)
theory Publish_Callbacks
  imports Publish_Dispatch
begin

text \<open>
  What reaches the publishing tables from outside the worker: the signed callback of the runner
  (callbacks/callbacks.controller.ts), the administrator's resolution of an unknown outcome
  (admin/admin.controller.ts), the reconciliation sweeps (scheduling/reconciliation.service.ts),
  all under apps/api/src/modules/publishing.
\<close>


section \<open>The callback\<close>

fun outcome_text :: "outcome \<Rightarrow> string" where
  "outcome_text PUBLISHED = ''published''"
| "outcome_text EXPORTED = ''exported''"
| "outcome_text SIMULATED = ''simulated''"
| "outcome_text OUTCOME_FAILED = ''failed''"
| "outcome_text OUTCOME_CANCELLED = ''cancelled''"
| "outcome_text UNKNOWN = ''unknown''"

definition outcome_of :: "json \<Rightarrow> outcome option" where
  "outcome_of v = List.find (\<lambda>x. v = JStr (outcome_text x))
     [PUBLISHED, EXPORTED, SIMULATED, OUTCOME_FAILED, OUTCOME_CANCELLED, UNKNOWN]"

definition str_opt :: "json \<Rightarrow> string option" where
  "str_opt v = (case v of JStr s \<Rightarrow> Some s | _ \<Rightarrow> None)"

definition callback_result :: "call \<Rightarrow> attempt_row \<Rightarrow> json \<Rightarrow> outcome \<Rightarrow> string \<Rightarrow> int \<Rightarrow> result_row" where
  "callback_result c a result outcome fingerprint occurred =
     \<lparr>re_id = call_id c 1, re_attempt = at_id a, re_intent = at_intent a, re_outcome = outcome,
      re_provider = str_opt (jget result ''provider''), re_remote = str_opt (jget result ''remote_publication_id''),
      re_url = str_opt (jget result ''remote_url''), re_export = str_opt (jget result ''export_artifact_id''),
      re_label = str_opt (jget result ''simulation_label''), re_error = str_opt (jget result ''error_code''),
      re_retryable = (jget result ''retryable'' = JBool True), re_hash = Some fingerprint, re_sanitized = None,
      re_occurred = occurred\<rparr>"

definition callback_identity :: "call \<Rightarrow> string \<Rightarrow> string \<Rightarrow> string \<Rightarrow> int \<Rightarrow> outcome \<Rightarrow> callback_row" where
  "callback_identity c attemptId callbackId fingerprint timestamp outcome =
     \<lparr>cb_id = call_id c 0, cb_attempt = attemptId, cb_external = callbackId, cb_signature_valid = True,
      cb_hash = fingerprint, cb_timestamp = timestamp, cb_outcome = outcome, cb_received = call_now c\<rparr>"

text \<open>\<open>orderBy: [{intentVersion: desc}, {attemptSequence: desc}]\<close>\<close>

definition latest_attempt :: "string \<Rightarrow> publishing \<Rightarrow> attempt_row option" where
  "latest_attempt i s =
     (let t = intent_attempts i s in
      List.find (\<lambda>r. \<forall>q \<in> set t. at_version q < at_version r \<or> (at_version q = at_version r \<and> at_seq q \<le> at_seq r)) t)"

definition current :: "attempt_row \<Rightarrow> publishing \<Rightarrow> bool" where
  "current a s \<longleftrightarrow> map_option at_id (latest_attempt (at_intent a) s) = Some (at_id a)"

text \<open>
  Steps 4 to 6, once the message is known to be genuine: the identity of the callback, the guard
  of the immutable result, the result and the two states. \<open>True\<close> is a callback recorded,
  \<open>False\<close> a replay.
\<close>

definition record_callback ::
  "call \<Rightarrow> attempt_row \<Rightarrow> json \<Rightarrow> string \<Rightarrow> outcome \<Rightarrow> string \<Rightarrow> int \<Rightarrow> int \<Rightarrow> bool publish_action" where
  "record_callback c a result callbackId outcome fingerprint timestamp occurred =
     act_bind (act_read (current a)) (\<lambda>is_current.
     act_seq (act_catch (insert_callback (callback_identity c (at_id a) callbackId fingerprint timestamp outcome))
       (\<lambda>e. act_throw (if e = UniqueViolation then CallbackIdentityDuplicateSignal else e)))
     (act_bind (act_read (result_of_attempt (at_id a))) (\<lambda>existing.
       case existing of
         Some r \<Rightarrow>
           if re_hash r = Some fingerprint then act_return False
           else act_throw (ConflictException (Shared PUBLISHING_CALLBACK_CONFLICT))
       | None \<Rightarrow>
           act_seq (insert_result (callback_result c a result outcome fingerprint occurred))
           (act_seq (update_attempts (\<lambda>r. at_id r = at_id a)
              (\<lambda>r. r\<lparr>at_status := publicationAttemptStateForOutcome outcome, at_finished := Some (call_now c)\<rparr>))
           (if is_current
            then act_bind (update_intents (\<lambda>r. in_id r = at_intent a)
              (\<lambda>r. r\<lparr>in_status := publicationIntentStateForOutcome outcome\<rparr>)) (\<lambda>n.
              act_seq (require (n = 1) RecordNotFound) (act_return True))
            else act_return True)))))"

definition toException :: "publishing_error_code issue list \<Rightarrow> fault" where
  "toException is =
     (case is of
        [] \<Rightarrow> BadRequestException (Shared PUBLISHING_CALLBACK_INVALID)
      | i # _ \<Rightarrow>
          if i_code i \<in> {PUBLISHING_WEBHOOK_UNAUTHORIZED, PUBLISHING_WEBHOOK_TIMESTAMP_INVALID, PUBLISHING_WEBHOOK_NONCE_REPLAYED}
          then UnauthorizedException (Shared (i_code i))
          else if i_code i \<in> {PUBLISHING_CALLBACK_CONFLICT, PUBLISHING_IDEMPOTENCY_CONFLICT, PUBLISHING_STATE_CONFLICT}
          then ConflictException (Shared (i_code i))
          else BadRequestException (Shared (i_code i)))"

definition callback_context :: "publish_config \<Rightarrow> int \<Rightarrow> envelope_context" where
  "callback_context C now =
     \<lparr>secret = signing_secret C, expected_key_id = signing_key_id C, now_iso = toISOString now, seen_nonces = []\<rparr>"

definition callback_tx :: "js_env \<Rightarrow> publish_config \<Rightarrow> call \<Rightarrow> string \<Rightarrow> json \<Rightarrow> string \<Rightarrow> int \<Rightarrow> bool publish_action" where
  "callback_tx E C c attemptId envelope fingerprint timestamp =
     act_bind (act_read (find_attempt attemptId)) (\<lambda>attempt.
       case attempt of
         None \<Rightarrow> act_throw (BadRequestException (Shared PUBLISHING_CALLBACK_INVALID))
       | Some a \<Rightarrow>
           (case validatePublicationCallbackContext E envelope (toPublicationAttemptV1 E a) (callback_context C (call_now c)) of
              Inl e \<Rightarrow> act_throw OtherError
            | Inr v \<Rightarrow>
                if \<not> valid v then act_throw (toException (issues v))
                else let body = jget envelope ''body''; result = jget body ''result'' in
                  (case (outcome_of (jget result ''outcome''), js_date_parse E (jstr (jget result ''occurred_at''))) of
                     (Some outcome, Some occurred) \<Rightarrow>
                       record_callback c a result (jstr (jget body ''callback_id'')) outcome fingerprint timestamp occurred
                   | _ \<Rightarrow> act_throw OtherError)))"

definition payload_timestamp :: "js_env \<Rightarrow> int \<Rightarrow> json \<Rightarrow> int option" where
  "payload_timestamp E now v =
     (case v of
        JStr s \<Rightarrow> if s = [] then Some now else js_date_parse E s
      | _ \<Rightarrow> Some now)"

text \<open>A repeated callback is resolved by a fresh read, outside the transaction that failed.\<close>

definition resolve_duplicate :: "string \<Rightarrow> string \<Rightarrow> bool publish_action" where
  "resolve_duplicate callbackId fingerprint =
     act_bind (act_read (\<lambda>s. tbl_find cb_external callbackId (callbacks s))) (\<lambda>existing.
       act_seq (require (map_option cb_hash existing = Some fingerprint) (ConflictException (Shared PUBLISHING_CALLBACK_CONFLICT)))
         (act_return False))"

definition handleCallback :: "js_env \<Rightarrow> publish_config \<Rightarrow> call \<Rightarrow> string \<Rightarrow> json \<Rightarrow> bool publish_action" where
  "handleCallback E C c attemptId envelope =
     (let body = jget envelope ''body'' in
      if signing_secret C = [] \<or> signing_key_id C = [] then act_throw (UnauthorizedException (Shared PUBLISHING_WEBHOOK_UNAUTHORIZED))
      else if jget body ''attempt_id'' \<noteq> JStr attemptId
      then act_throw (UnauthorizedException (Shared PUBLISHING_WEBHOOK_UNAUTHORIZED))
      else case (computeCallbackFingerprint E body, payload_timestamp E (call_now c) (jget envelope ''sent_at'')) of
        (Inr fingerprint, Some timestamp) \<Rightarrow>
          act_catch (transaction (callback_tx E C c attemptId envelope fingerprint timestamp))
            (\<lambda>e. if e = CallbackIdentityDuplicateSignal
                 then resolve_duplicate (jstr (jget body ''callback_id'')) fingerprint else act_throw e)
      | _ \<Rightarrow> act_throw OtherError)"


section \<open>Resolution by an administrator\<close>

datatype resolution = Resolve_published "string option" | Resolve_failed

definition resolved_outcome :: "resolution \<Rightarrow> outcome" where
  "resolved_outcome x = (case x of Resolve_published _ \<Rightarrow> PUBLISHED | Resolve_failed \<Rightarrow> OUTCOME_FAILED)"

definition resolve_result :: "resolution \<Rightarrow> string \<Rightarrow> result_row \<Rightarrow> result_row" where
  "resolve_result x reason r =
     r\<lparr>re_outcome := resolved_outcome x,
       re_remote := (case x of Resolve_published p \<Rightarrow> p | Resolve_failed \<Rightarrow> re_remote r),
       re_sanitized := Some reason\<rparr>"

definition resolve_tx :: "string \<Rightarrow> resolution \<Rightarrow> string \<Rightarrow> unit publish_action" where
  "resolve_tx resultId x reason =
     act_bind (act_read (\<lambda>s. tbl_find re_id resultId (results s))) (\<lambda>result.
       case result of
         None \<Rightarrow> act_throw (NotFoundException API_NOT_FOUND)
       | Some r \<Rightarrow>
           if re_outcome r \<noteq> UNKNOWN then act_throw (BadRequestMessage)
           else if (case x of Resolve_published p \<Rightarrow> \<not> truthy p | Resolve_failed \<Rightarrow> False)
           then act_throw (BadRequestMessage)
           else act_seq (update_results (\<lambda>q. re_id q = resultId) (resolve_result x reason))
             (act_bind (update_intents (\<lambda>q. in_id q = re_intent r \<and> in_status q = ACTION_REQUIRED)
                (\<lambda>q. q\<lparr>in_status := (if resolved_outcome x = PUBLISHED then SUCCEEDED else FAILED)\<rparr>)) (\<lambda>_. act_return ())))"

definition resolveUnknown :: "string \<Rightarrow> resolution \<Rightarrow> string \<Rightarrow> unit publish_action" where
  "resolveUnknown resultId x reason = transaction (resolve_tx resultId x reason)"


section \<open>Reconciliation\<close>

definition STUCK_ATTEMPT_TIMEOUT_MS :: int where
  "STUCK_ATTEMPT_TIMEOUT_MS = 10 * 60 * 1000"

definition recovery_job :: "int \<Rightarrow> intent_row \<Rightarrow> int \<Rightarrow> job" where
  "recovery_job now r delay =
     \<lparr>jb_intent = in_id r, jb_version = in_version r, jb_key = ''recovery:'' @ in_id r @ '':'' @ dec_int (in_version r),
      jb_id = toBullMqJobId (intent_job_key (in_id r) (in_version r)), jb_delay = delay,
      jb_priority = publishingPriorityFor (in_utc r) now\<rparr>"

definition overdue :: "int \<Rightarrow> intent_row \<Rightarrow> bool" where
  "overdue now r \<longleftrightarrow> in_status r = SCHEDULED \<and> (case in_utc r of None \<Rightarrow> False | Some t \<Rightarrow> t < now)"

text \<open>The jobs the first sweep adds; \<open>queued id\<close> is whether the queue holds a job of that id.\<close>

definition recoverMissedJobs :: "int \<Rightarrow> (string \<Rightarrow> bool) \<Rightarrow> publishing \<Rightarrow> job list" where
  "recoverMissedJobs now queued s =
     map (\<lambda>r. recovery_job now r 0)
       (filter (\<lambda>r. filter (\<lambda>a. at_version a = in_version r) (intent_attempts (in_id r) s) = []
                  \<and> \<not> queued (toBullMqJobId (intent_job_key (in_id r) (in_version r))))
         (filter (overdue now) (intents s)))"

text \<open>The second sweep: what it reads, and the transaction it runs for each attempt it has read.\<close>

definition stuck_attempts :: "int \<Rightarrow> publishing \<Rightarrow> attempt_row list" where
  "stuck_attempts now s =
     filter (\<lambda>a. at_status a \<in> {A_QUEUED, A_DISPATCHING} \<and> at_created a < now - STUCK_ATTEMPT_TIMEOUT_MS) (attempts s)"

definition stuck_result :: "call \<Rightarrow> attempt_row \<Rightarrow> result_row" where
  "stuck_result c a =
     \<lparr>re_id = call_id c 0, re_attempt = at_id a, re_intent = at_intent a, re_outcome = UNKNOWN,
      re_provider = Some ''meta'', re_remote = None, re_url = None, re_export = None, re_label = None,
      re_error = Some ''PUBLISHING_PROVIDER_OUTCOME_UNKNOWN'', re_retryable = False, re_hash = None,
      re_sanitized = Some ''Stuck in QUEUED/DISPATCHING past timeout - delivery outcome unknown'', re_occurred = call_now c\<rparr>"

definition flag_stuck_tx :: "call \<Rightarrow> attempt_row \<Rightarrow> unit publish_action" where
  "flag_stuck_tx c a =
     transaction
       (act_bind (update_attempts (\<lambda>r. at_id r = at_id a)
          (\<lambda>r. r\<lparr>at_status := A_UNKNOWN, at_finished := Some (call_now c)\<rparr>)) (\<lambda>n.
        act_seq (require (n = 1) RecordNotFound)
        (act_bind (act_read (result_of_attempt (at_id a))) (\<lambda>existing.
         act_seq (if existing = None then insert_result (stuck_result c a) else act_return ())
         (act_bind (update_intents (\<lambda>r. in_id r = at_intent a \<and> in_status r \<in> set IN_DISPATCH)
            (\<lambda>r. r\<lparr>in_status := ACTION_REQUIRED\<rparr>)) (\<lambda>_. act_return ()))))))"

definition TERMINAL :: "intent_status list" where
  "TERMINAL = [SUCCEEDED, FAILED, CANCELLED, ACTION_REQUIRED]"

text \<open>The third sweep: the delayed jobs that stay.\<close>

definition removeOrphanJobs :: "publishing \<Rightarrow> job list \<Rightarrow> job list" where
  "removeOrphanJobs s delayed =
     filter (\<lambda>j. jb_intent j = [] \<or>
       (case find_intent (jb_intent j) s of None \<Rightarrow> True | Some r \<Rightarrow> in_status r \<notin> set TERMINAL)) delayed"

definition resyncIntent :: "int \<Rightarrow> (string \<Rightarrow> bool) \<Rightarrow> string \<Rightarrow> publishing \<Rightarrow> fault + job option" where
  "resyncIntent now queued i s =
     (case find_intent i s of
        None \<Rightarrow> Inl RecordNotFound
      | Some r \<Rightarrow> Inr
          (if in_status r \<noteq> SCHEDULED \<or> queued (toBullMqJobId (intent_job_key i (in_version r))) then None
           else Some (recovery_job now r (case in_utc r of None \<Rightarrow> 0 | Some t \<Rightarrow> max 0 (t - now)))))"

end
