(* ===== verification/Publish_Local.thy ===== *)
theory Publish_Local
  imports Publish_Callbacks
begin

text \<open>
  The local actions of an intent and the reads of the intent service (intents.service.ts,
  \<open>runLocalAction\<close> and the read methods), and the intake of candidate events into the table of
  candidates (candidates/candidates.service.ts), which runs the frozen reducer of
  \<open>Candidate_Intake\<close> on the stored record.

  \<open>archive\<close> stands for \<open>ManualExportArchiveService.createArchive\<close>, given the artifact, the intent, the
  candidate document and the time; it returns the destination, the checksum and the manifest.
\<close>


section \<open>Export and simulation\<close>

type_synonym archiver = "string \<Rightarrow> string \<Rightarrow> json \<Rightarrow> int \<Rightarrow> fault + string \<times> string \<times> json"

definition local_workflow :: "publish_mode \<Rightarrow> string" where
  "local_workflow mode = (if mode = MANUAL_EXPORT then ''local-export-v1'' else ''local-v1'')"

definition local_attempt :: "js_env \<Rightarrow> call \<Rightarrow> intent_row \<Rightarrow> publish_mode \<Rightarrow> string \<Rightarrow> int \<Rightarrow> attempt_row" where
  "local_attempt E c r mode key seq =
     \<lparr>at_id = call_id c 1, at_intent = in_id r, at_version = in_version r, at_seq = seq, at_status = A_SUCCEEDED,
      at_workflow = Some (local_workflow mode),
      at_fingerprint = Some (computeLocalActionRequestFingerprint E (in_id r) (in_version r) key (local_workflow mode)),
      at_key = key, at_execution = None, at_error = None, at_dispatched = Some (call_now c),
      at_started = Some (call_now c), at_finished = Some (call_now c), at_created = call_now c\<rparr>"

definition local_result :: "call \<Rightarrow> intent_row \<Rightarrow> publish_mode \<Rightarrow> result_row" where
  "local_result c r mode =
     \<lparr>re_id = call_id c 2, re_attempt = call_id c 1, re_intent = in_id r,
      re_outcome = (if mode = MANUAL_EXPORT then EXPORTED else SIMULATED), re_provider = None, re_remote = None,
      re_url = None, re_export = (if mode = MANUAL_EXPORT then Some (call_id c 0) else None),
      re_label = (if mode = MANUAL_EXPORT then None else Some ''SIMULATION''), re_error = None, re_retryable = False,
      re_hash = None, re_sanitized = None, re_occurred = call_now c\<rparr>"

text \<open>What the export stores besides the attempt and its result.\<close>

definition store_export :: "archiver \<Rightarrow> call \<Rightarrow> intent_row \<Rightarrow> candidate_row \<Rightarrow> publish_mode \<Rightarrow> (unit publish_action) \<Rightarrow> unit publish_action" where
  "store_export archive c r cd mode add_attempt =
     (if mode = MANUAL_EXPORT
      then (case archive (call_id c 0) (in_id r) (cd_payload cd) (call_now c) of
        Inl e \<Rightarrow> act_throw e
      | Inr (destination, checksum, manifest) \<Rightarrow>
          act_seq add_attempt (insert_export
            \<lparr>ex_id = call_id c 3, ex_intent = in_id r, ex_type = ''manual_archive_targz'', ex_ref = destination,
             ex_checksum = checksum, ex_manifest = manifest, ex_at = call_now c\<rparr>))
      else add_attempt)"

record local_outcome =
  lo_intent :: intent_row
  lo_attempt :: attempt_row
  lo_replayed :: bool

definition local_tx :: "js_env \<Rightarrow> archiver \<Rightarrow> call \<Rightarrow> publish_mode \<Rightarrow> string \<Rightarrow> string \<Rightarrow> string \<Rightarrow> local_outcome publish_action" where
  "local_tx E archive c mode i b key =
     act_bind (own_intent i b) (\<lambda>intent.
     act_seq (require (in_mode intent = mode) (BadRequestException (Shared PUBLISHING_STATE_CONFLICT)))
     (act_seq (assertStatusIn (in_status intent) [DRAFT, FAILED, ACTION_REQUIRED])
     (act_bind (act_read (attempt_by_key i key)) (\<lambda>replayed.
       case replayed of
         Some a \<Rightarrow> act_return \<lparr>lo_intent = intent, lo_attempt = a, lo_replayed = True\<rparr>
       | None \<Rightarrow>
     act_bind (or_throw (find_candidate (in_candidate intent))) (\<lambda>candidate.
     act_seq (require (cd_status candidate = C_ACTIVE) (BadRequestException (Shared PUBLISHING_CANDIDATE_REVOKED)))
     (act_bind (set_intent i (\<lambda>r. r\<lparr>in_status := DISPATCHING\<rparr>)) (\<lambda>_.
     act_bind (act_read (\<lambda>s. next_seq (intent_attempts i s))) (\<lambda>seq.
       let a = local_attempt E c intent mode key seq in
       act_seq (store_export archive c intent candidate mode (insert_attempt a))
       (act_seq (insert_result (local_result c intent mode))
       (act_bind (set_intent i (\<lambda>r. r\<lparr>in_status := SUCCEEDED\<rparr>)) (\<lambda>updated.
         act_return \<lparr>lo_intent = updated, lo_attempt = a, lo_replayed = False\<rparr>)))))))))))"

definition runLocalAction ::
  "js_env \<Rightarrow> archiver \<Rightarrow> call \<Rightarrow> publish_mode \<Rightarrow> string \<Rightarrow> string \<Rightarrow> string \<Rightarrow> local_outcome publish_action" where
  "runLocalAction E archive c mode i b key = transaction (local_tx E archive c mode i b key)"

definition dispatchExport :: "js_env \<Rightarrow> archiver \<Rightarrow> call \<Rightarrow> string \<Rightarrow> string \<Rightarrow> string \<Rightarrow> local_outcome publish_action" where
  "dispatchExport E archive c = runLocalAction E archive c MANUAL_EXPORT"

definition dispatchSimulation :: "js_env \<Rightarrow> archiver \<Rightarrow> call \<Rightarrow> string \<Rightarrow> string \<Rightarrow> string \<Rightarrow> local_outcome publish_action" where
  "dispatchSimulation E archive c = runLocalAction E archive c SIMULATION"


section \<open>Reads\<close>

text \<open>\<open>toTargetProjection\<close>: the columns of a target that leave the service.\<close>

record target_projection =
  tp_id :: string
  tp_business :: string
  tp_channel :: string
  tp_external :: string
  tp_name :: string
  tp_state :: connection_state
  tp_capabilities :: json
  tp_verified :: "int option"
  tp_expires :: "int option"
  tp_version :: int

definition toTargetProjection :: "target_row \<Rightarrow> target_projection" where
  "toTargetProjection t =
     \<lparr>tp_id = tg_id t, tp_business = tg_business t, tp_channel = tg_channel t, tp_external = tg_external t,
      tp_name = tg_name t, tp_state = tg_state t, tp_capabilities = tg_capabilities t, tp_verified = tg_verified t,
      tp_expires = tg_expires t, tp_version = tg_version t\<rparr>"

record intent_view =
  iv_intent :: intent_row
  iv_target :: "target_projection option"
  iv_checksum :: "string option"
  iv_url :: "string option"
  iv_local_display :: "string option"

definition published_url :: "result_row option \<Rightarrow> string option" where
  "published_url r =
     (case r of
        Some x \<Rightarrow> if re_outcome x = PUBLISHED \<and> truthy (re_url x) then re_url x else None
      | None \<Rightarrow> None)"

text \<open>
  \<open>projectIntent\<close> of a row with its relations; the display throws when the zone of the row is no
  IANA name.
\<close>

definition projectIntent ::
  "zone_db \<Rightarrow> intent_row \<Rightarrow> target_row option \<Rightarrow> candidate_row option \<Rightarrow> result_row option \<Rightarrow> fault + intent_view" where
  "projectIntent tzdb r target candidate result =
     (let view = (\<lambda>display. \<lparr>iv_intent = r, iv_target = map_option toTargetProjection target,
            iv_checksum = map_option cd_checksum candidate, iv_url = published_url result, iv_local_display = display\<rparr>)
      in case (in_utc r, in_zone r) of
        (Some t, Some z) \<Rightarrow>
          if z = [] then Inr (view None)
          else (case utcToCairoLocalIso tzdb t z of Inl e \<Rightarrow> Inl (time_fault e) | Inr d \<Rightarrow> Inr (view (Some d)))
      | _ \<Rightarrow> Inr (view None))"

definition visible_intent :: "string \<Rightarrow> string \<Rightarrow> publishing \<Rightarrow> fault + intent_row" where
  "visible_intent i b s =
     (case find_intent i s of
        Some r \<Rightarrow> if in_business r = b then Inr r else Inl (NotFoundException API_NOT_FOUND)
      | None \<Rightarrow> Inl (NotFoundException API_NOT_FOUND))"

definition last_result :: "string \<Rightarrow> publishing \<Rightarrow> result_row option" where
  "last_result i s = Option.bind (newest at_seq (intent_attempts i s)) (\<lambda>a. result_of_attempt (at_id a) s)"

definition getIntent :: "zone_db \<Rightarrow> string \<Rightarrow> string \<Rightarrow> publishing \<Rightarrow> fault + intent_view" where
  "getIntent tzdb i b s =
     throws_bind (visible_intent i b s) (\<lambda>r.
       projectIntent tzdb r (Option.bind (in_target r) (\<lambda>t. find_target t s)) (find_candidate (in_candidate r) s) (last_result i s))"

definition listApprovals :: "string \<Rightarrow> string \<Rightarrow> publishing \<Rightarrow> fault + approval_row list" where
  "listApprovals i b s =
     throws_bind (visible_intent i b s) (\<lambda>r. Inr (sort_key (\<lambda>p. - ap_at p) (intent_approvals i s)))"

definition listAttempts :: "js_env \<Rightarrow> string \<Rightarrow> string \<Rightarrow> publishing \<Rightarrow> fault + json list \<times> json list" where
  "listAttempts E i b s =
     throws_bind (visible_intent i b s) (\<lambda>r.
       let rows = sort_key at_seq (intent_attempts i s) in
       Inr (map (toPublicationAttemptV1 E) rows,
            concat (map (\<lambda>a. case result_of_attempt (at_id a) s of None \<Rightarrow> [] | Some x \<Rightarrow> [toPublicationResultV1 x (at_version a)]) rows)))"


section \<open>Intake of candidates\<close>

definition sourceStateToDbStatus :: "json \<Rightarrow> candidate_status" where
  "sourceStateToDbStatus v =
     (if v = JStr ''revoked'' then C_REVOKED else if v = JStr ''replaced'' then C_REPLACED else C_ACTIVE)"

fun db_status_text :: "candidate_status \<Rightarrow> string" where
  "db_status_text C_REVOKED = ''revoked''"
| "db_status_text C_REPLACED = ''replaced''"
| "db_status_text C_ACTIVE = ''active''"

definition extractCandidateId :: "json \<Rightarrow> string option" where
  "extractCandidateId event = str_opt (jget (jget event ''payload'') ''candidate_id'')"

definition rowToRecord :: "candidate_row \<Rightarrow> json" where
  "rowToRecord r = JObj
     [(''contract_version'', JStr ''publishing-candidate-record-v1''),
      (''candidate_id'', JStr (cd_id r)),
      (''event_id'', JStr (cd_event r)),
      (''business_id'', JStr (cd_business r)),
      (''candidate_checksum'', JStr (cd_checksum r)),
      (''event_fingerprint'', JStr (cd_fingerprint r)),
      (''source_state'', JStr (db_status_text (cd_status r))),
      (''source_state_version'', JNum (cd_source_version r)),
      (''source_status'', cd_source_status r),
      (''received_at'', JStr (toISOString (cd_received r))),
      (''payload'', cd_payload r)]"

definition intake_fault :: "intake_result \<Rightarrow> fault" where
  "intake_fault x =
     (let code = (case issues (validation_of x) of [] \<Rightarrow> None | i # _ \<Rightarrow> Some (i_code i)) in
      case disposition x of
        rejected_stale \<Rightarrow> ConflictException (Shared PUBLISHING_STATE_CONFLICT)
      | rejected_conflict \<Rightarrow> ConflictException (Shared
          (if code = Some PUBLISHING_CANDIDATE_TAMPERED then PUBLISHING_CANDIDATE_TAMPERED else PUBLISHING_STATE_CONFLICT))
      | _ \<Rightarrow>
          if code = Some PUBLISHING_CONTRACT_UNSUPPORTED then BadRequestException (Shared PUBLISHING_CONTRACT_UNSUPPORTED)
          else UnprocessableEntityException (Shared PUBLISHING_CANDIDATE_INVALID))"

definition candidate_of_record :: "call \<Rightarrow> json \<Rightarrow> candidate_row" where
  "candidate_of_record c r =
     (let payload = jget r ''payload'' in
      \<lparr>cd_id = jstr (jget r ''candidate_id''), cd_business = jstr (jget r ''business_id''),
       cd_external = jstr (jget payload ''content_item_version_id''), cd_checksum = jstr (jget r ''candidate_checksum''),
       cd_fingerprint = jstr (jget r ''event_fingerprint''), cd_event = jstr (jget r ''event_id''),
       cd_status = sourceStateToDbStatus (jget r ''source_state''), cd_source_status = jget r ''source_status'',
       cd_payload = payload, cd_channel = jget payload ''target_channel'', cd_format = jget payload ''content_format'',
       cd_locale = jget payload ''selected_locale'', cd_week = jget payload ''strategy_week_number'',
       cd_source_version = jnum (jget r ''source_state_version''), cd_received = call_now c, cd_version = 1\<rparr>)"

definition withdrawable :: "intent_status list" where
  "withdrawable = [DRAFT, AWAITING_APPROVAL, SCHEDULED]"

text \<open>The transaction of a changed candidate, which cancels the intents not yet dispatched.\<close>

definition apply_change_tx :: "json \<Rightarrow> candidate_row publish_action" where
  "apply_change_tx r =
     (let i = jstr (jget r ''candidate_id'') in
      act_seq (update_candidates (\<lambda>q. cd_id q = i)
        (\<lambda>q. q\<lparr>cd_status := sourceStateToDbStatus (jget r ''source_state''), cd_source_status := jget r ''source_status'',
              cd_source_version := jnum (jget r ''source_state_version''),
              cd_fingerprint := jstr (jget r ''event_fingerprint''), cd_event := jstr (jget r ''event_id''),
              cd_version := cd_version q + 1\<rparr>))
      (act_bind (or_throw (find_candidate i)) (\<lambda>row.
        if cd_status row \<noteq> C_ACTIVE
        then act_bind (update_intents (\<lambda>q. in_candidate q = cd_id row \<and> in_status q \<in> set withdrawable)
          (\<lambda>q. q\<lparr>in_status := CANCELLED\<rparr>)) (\<lambda>_. act_return row)
        else act_return row)))"

definition ingestEvent :: "js_env \<Rightarrow> call \<Rightarrow> json \<Rightarrow> (intake_disposition \<times> candidate_row option) publish_action" where
  "ingestEvent E c event =
     act_bind (act_read (\<lambda>s. Option.bind (extractCandidateId event) (\<lambda>i. find_candidate i s))) (\<lambda>existing.
       case reducePublicationCandidateEventV1 E (map_option rowToRecord existing) event (toISOString (call_now c)) of
         Inl e \<Rightarrow> act_throw OtherError
       | Inr x \<Rightarrow>
           if \<not> accepted x then act_throw (intake_fault x)
           else if \<not> changed x then act_return (disposition x, existing)
           else case rec_after x of
             None \<Rightarrow> act_throw (UnprocessableEntityException (Shared PUBLISHING_CANDIDATE_INVALID))
           | Some r \<Rightarrow>
               if existing = None
               then act_seq (insert_candidate (candidate_of_record c r)) (act_return (disposition x, Some (candidate_of_record c r)))
               else act_bind (transaction (apply_change_tx r)) (\<lambda>row. act_return (disposition x, Some row)))"

end
