(* ===== verification/Publish_World.thy ===== *)
theory Publish_World
  imports Publish_Local
begin

text \<open>
  The publishing service as a transition system. A world is the database, the workers that are in
  the middle of a job, what the stuck-attempt sweep has read but not yet written, and the bodies
  posted to the runner, each with its attempt. One step is one request of an owner or administrator,
  or one database transaction or network call of a worker, a sweep or the runner; between two
  steps of one worker any other step may happen, and a worker may crash at any point.

  A job may be delivered any number of times and with any content, and the runner answers only to
  attempts that were posted to it.
\<close>


section \<open>Requests\<close>

datatype request =
    Create string string string publish_mode string
  | Schedule string string schedule_dto
  | Reschedule string string schedule_dto
  | Approve string string string approve_dto
  | Cancel string string int
  | Retry string string retry_dto
  | Export string string string
  | Simulate string string string
  | Ingest json
  | Resolve string resolution string

record service =
  sv_env :: js_env
  sv_zones :: zone_db
  sv_config :: publish_config
  sv_archive :: archiver

definition act_void :: "'a publish_action \<Rightarrow> unit publish_action" where
  "act_void m = act_bind m (\<lambda>_. act_return ())"

text \<open>
  \<open>Create\<close> is the transaction of \<open>createIntent\<close>: the look-up before it writes nothing, and other
  steps may come between the two.
\<close>

definition serve :: "service \<Rightarrow> call \<Rightarrow> request \<Rightarrow> unit publish_action" where
  "serve V c req =
     (case req of
        Create b u cand mode key \<Rightarrow> act_void (transaction (create_intent_tx c b u cand mode key))
      | Schedule i b dto \<Rightarrow> act_void (scheduleIntent (sv_env V) (sv_zones V) c i b dto)
      | Reschedule i b dto \<Rightarrow> act_void (rescheduleIntent (sv_env V) (sv_zones V) c i b dto)
      | Approve i b u dto \<Rightarrow> act_void (approveIntent (sv_env V) c i b u dto)
      | Cancel i b version \<Rightarrow> act_void (cancelIntent i b version)
      | Retry i b dto \<Rightarrow> act_void (retryIntent (sv_env V) c i b dto)
      | Export i b key \<Rightarrow> act_void (dispatchExport (sv_env V) (sv_archive V) c i b key)
      | Simulate i b key \<Rightarrow> act_void (dispatchSimulation (sv_env V) (sv_archive V) c i b key)
      | Ingest event \<Rightarrow> act_void (ingestEvent (sv_env V) c event)
      | Resolve r x reason \<Rightarrow> resolveUnknown r x reason)"


section \<open>Steps\<close>

datatype worker =
    Refused string int
  | Checked string int string json
  | Claimed string int string json
  | Posted string int string

record world =
  db :: publishing
  workers :: "worker list"
  reading :: "attempt_row list"
  posted :: "(string \<times> json) list"

datatype label =
    L_request request
  | L_begin string int string
  | L_sync_failed string int
  | L_refuse string int
  | L_integrity string
  | L_claim string
  | L_post string
  | L_unconfigured string
  | L_answer string delivery
  | L_crash
  | L_callback string
  | L_read
  | L_flag string

definition dismiss :: "worker \<Rightarrow> world \<Rightarrow> world" where
  "dismiss k w = w\<lparr>workers := remove1 k (workers w)\<rparr>"

definition replace_worker :: "worker \<Rightarrow> worker \<Rightarrow> world \<Rightarrow> world" where
  "replace_worker k k' w = w\<lparr>workers := k' # remove1 k (workers w)\<rparr>"

inductive publish_step :: "service \<Rightarrow> world \<Rightarrow> label \<Rightarrow> world \<Rightarrow> bool" for V where
  request: "serve V c req (db w) = (r, t) \<Longrightarrow> publish_step V w (L_request req) (w\<lparr>db := t\<rparr>)"
| sync_failed: "publish_step V w (L_sync_failed i v) (w\<lparr>workers := Refused i v # workers w\<rparr>)"
| begin_fresh: "runRevalidationAndCreateAttempt (sv_env V) (sv_config V) c i v key (db w) = (Inr (Fresh a body), t) \<Longrightarrow>
    publish_step V w (L_begin i v key) (w\<lparr>db := t, workers := Checked i v a body # workers w\<rparr>)"
| begin_refused: "runRevalidationAndCreateAttempt (sv_env V) (sv_config V) c i v key (db w) = (Inl e, t) \<Longrightarrow> e \<noteq> ClaimLost \<Longrightarrow>
    publish_step V w (L_begin i v key) (w\<lparr>db := t, workers := Refused i v # workers w\<rparr>)"
| refuse: "Refused i v \<in> set (workers w) \<Longrightarrow> markIntentFailed i v (db w) = (r, t) \<Longrightarrow>
    publish_step V w (L_refuse i v) (dismiss (Refused i v) (w\<lparr>db := t\<rparr>))"
| integrity: "Checked i v a body \<in> set (workers w) \<Longrightarrow> integrity_failed_tx now i v a message (db w) = (r, t) \<Longrightarrow>
    publish_step V w (L_integrity a) (dismiss (Checked i v a body) (w\<lparr>db := t\<rparr>))"
| claim: "Checked i v a body \<in> set (workers w) \<Longrightarrow> claimAttempt a (db w) = (Inr True, t) \<Longrightarrow>
    publish_step V w (L_claim a) (replace_worker (Checked i v a body) (Claimed i v a body) (w\<lparr>db := t\<rparr>))"
| claim_lost: "Checked i v a body \<in> set (workers w) \<Longrightarrow> claimAttempt a (db w) = (Inr False, t) \<Longrightarrow>
    publish_step V w (L_claim a) (dismiss (Checked i v a body) (w\<lparr>db := t\<rparr>))"
| post: "Claimed i v a body \<in> set (workers w) \<Longrightarrow>
    publish_step V w (L_post a) (replace_worker (Claimed i v a body) (Posted i v a) (w\<lparr>posted := (a, body) # posted w\<rparr>))"
| unconfigured: "Claimed i v a body \<in> set (workers w) \<Longrightarrow>
    delivery_step c i v a message Not_configured (db w) = (r, t) \<Longrightarrow>
    publish_step V w (L_unconfigured a) (dismiss (Claimed i v a body) (w\<lparr>db := t\<rparr>))"
| answer: "Posted i v a \<in> set (workers w) \<Longrightarrow> d \<noteq> Not_configured \<Longrightarrow> delivery_step c i v a message d (db w) = (r, t) \<Longrightarrow>
    publish_step V w (L_answer a d) (dismiss (Posted i v a) (w\<lparr>db := t\<rparr>))"
| crash: "k \<in> set (workers w) \<Longrightarrow> publish_step V w L_crash (dismiss k w)"
| callback: "a \<in> fst ` set (posted w) \<Longrightarrow> handleCallback (sv_env V) (sv_config V) c a envelope (db w) = (r, t) \<Longrightarrow>
    publish_step V w (L_callback a) (w\<lparr>db := t\<rparr>)"
| sweep_reads: "publish_step V w L_read (w\<lparr>reading := stuck_attempts now (db w)\<rparr>)"
| sweep_flags: "a \<in> set (reading w) \<Longrightarrow> flag_stuck_tx c a (db w) = (r, t) \<Longrightarrow>
    publish_step V w (L_flag (at_id a)) (w\<lparr>db := t\<rparr>)"

inductive_cases publish_stepE: "publish_step V w l w'"

text \<open>Histories, with the condition \<open>good\<close> on every step taken.\<close>

inductive history :: "service \<Rightarrow> (world \<Rightarrow> label \<Rightarrow> bool) \<Rightarrow> world \<Rightarrow> label list \<Rightarrow> world \<Rightarrow> bool" for V good where
  start: "history V good w [] w"
| onward: "history V good w ls w' \<Longrightarrow> good w' l \<Longrightarrow> publish_step V w' l w'' \<Longrightarrow> history V good w (ls @ [l]) w''"

lemma history_invariant:
  assumes "history V good w ls w'" "I w"
    and "\<And>u l u'. I u \<Longrightarrow> good u l \<Longrightarrow> publish_step V u l u' \<Longrightarrow> I u'"
  shows "I w'"
  using assms(1,2) by (induction rule: history.induct) (auto intro: assms(3))

lemma history_one: "good w l \<Longrightarrow> publish_step V w l w' \<Longrightarrow> history V good w [l] w'"
  using history.onward [OF history.start] by fastforce

lemma history_trans: "history V good w' ms w'' \<Longrightarrow> history V good w ls w' \<Longrightarrow> history V good w (ls @ ms) w''"
proof (induction rule: history.induct)
  case (onward u ms u' l u'')
  then show ?case using history.onward [of V good w "ls @ ms" u' l u''] by simp
qed simp

end
