(* ===== verification/Publish_Lasting.thy ===== *)
theory Publish_Lasting
  imports Publish_World
begin

text \<open>
  What the writes of the publishing service have in common, as three locales on a property of the
  database, each of which adds kinds of write that preserve it: \<open>frame_law\<close> the writes of the
  owner's and administrator's requests other than the local actions, \<open>settling_law\<close> the writes that
  never bring an attempt back to life, \<open>lasting\<close> all of them. Inside a locale the property is carried
  through every operation with such writes; the interpretations give the facts that last: which
  attempts are taken, which rows exist, that a settled result stays as it is.
\<close>


section \<open>Running an action\<close>

text \<open>\<open>run_simps\<close> executes an action symbolically on a state, one statement at a time.\<close>

named_theorems run_simps \<open>executing an action on a state\<close>

lemma run_basic [run_simps]:
  "act_return a s = (Inr a, s)"
  "act_throw e s = (Inl e, s)"
  "act_bind (act_return a) f s = f a s"
  "act_bind (act_throw e) f s = (Inl e, s)"
  "act_bind (act_read g) f s = f (g s) s"
  "act_seq (act_return a) m s = m s"
  "act_seq (act_throw e) m s = (Inl e, s)"
  by (simp_all add: action_defs)

lemma run_require [run_simps]:
  "require b e s = (if b then Inr () else Inl e, s)"
  "act_seq (require b e) m s = (if b then m s else (Inl e, s))"
  "act_bind (require b e) f s = (if b then f () s else (Inl e, s))"
  by (simp_all add: require_def action_defs)

lemma run_or_throw [run_simps]:
  "or_throw look s = (case look s of None \<Rightarrow> (Inl RecordNotFound, s) | Some r \<Rightarrow> (Inr r, s))"
  "act_bind (or_throw look) f s = (case look s of None \<Rightarrow> (Inl RecordNotFound, s) | Some r \<Rightarrow> f r s)"
  by (simp_all add: or_throw_def action_defs split: option.splits)

lemma run_asserts [run_simps]:
  "act_seq (assertOwnership x y) m s = (if x = y then m s else (Inl (NotFoundException API_NOT_FOUND), s))"
  "act_seq (assertVersion v w) m s = (if v = w then m s else (Inl (ConflictException API_VERSION_CONFLICT), s))"
  "act_seq (assertStatusIn st allowed) m s =
     (if st \<in> set allowed then m s else (Inl (BadRequestException (Shared PUBLISHING_STATE_CONFLICT)), s))"
  by (simp_all add: assertOwnership_def assertVersion_def assertStatusIn_def run_require)

lemma run_own_intent [run_simps]:
  "own_intent i b s = (case find_intent i s of
     None \<Rightarrow> (Inl RecordNotFound, s)
   | Some n \<Rightarrow> if in_business n = b then (Inr n, s) else (Inl (NotFoundException API_NOT_FOUND), s))"
  "act_bind (own_intent i b) f s = (case find_intent i s of
     None \<Rightarrow> (Inl RecordNotFound, s)
   | Some n \<Rightarrow> if in_business n = b then f n s else (Inl (NotFoundException API_NOT_FOUND), s))"
  unfolding act_bind_def [of "own_intent i b"] by (simp_all add: own_intent_def run_simps split: option.splits)

lemma run_own_version [run_simps]:
  "act_bind (own_version i b v) f s = (case find_intent i s of
     None \<Rightarrow> (Inl RecordNotFound, s)
   | Some n \<Rightarrow> if in_business n \<noteq> b then (Inl (NotFoundException API_NOT_FOUND), s)
       else if in_version n \<noteq> v then (Inl (ConflictException API_VERSION_CONFLICT), s) else f n s)"
  unfolding act_bind_def [of "own_version i b v"] by (simp add: own_version_def run_simps split: option.splits)

lemma approve_tx_forms:
  "(\<exists>r. approve_tx E c i b u dto s = (r, s))
   \<or> (\<exists>n. find_intent i s = Some n \<and> approve_tx E c i b u dto s = decide_tx E c i u dto n s)"
  unfolding approve_tx_def by (auto simp: run_simps split: option.split if_split)

lemma approve_tx_cases:
  obtains (stops) r where "approve_tx E c i b u dto s = (r, s)"
  | (decides) n where "find_intent i s = Some n" "approve_tx E c i b u dto s = decide_tx E c i u dto n s"
  using approve_tx_forms [of E c i b u dto s] by blast


section \<open>Primitive writes\<close>

lemma keeps_insert:
  assumes "\<And>s. I s \<Longrightarrow> \<forall>x \<in> set (get s). \<not> clash r x \<Longrightarrow> I (put (get s @ [r]) s)"
  shows "keeps I (act_insert clash get put r e)"
  using assms by (auto simp: keeps_def act_insert_def)

lemma keeps_update:
  assumes "\<And>s. I s \<Longrightarrow> rows_apart clash (tbl_update P f (get s)) \<Longrightarrow> I (put (tbl_update P f (get s)) s)"
  shows "keeps I (act_update clash get put P f e)"
  using assms by (simp add: keeps_def act_update_def Let_def)

definition attempt_write :: "(attempt_row \<Rightarrow> attempt_row) \<Rightarrow> bool" where
  "attempt_write f \<longleftrightarrow> (\<forall>r. at_id (f r) = at_id r \<and> at_intent (f r) = at_intent r \<and> at_version (f r) = at_version r
     \<and> at_seq (f r) = at_seq r \<and> at_key (f r) = at_key r \<and> (at_status (f r) = A_QUEUED \<longrightarrow> at_status r = A_QUEUED))"

definition settling :: "(attempt_row \<Rightarrow> bool) \<Rightarrow> (attempt_row \<Rightarrow> attempt_row) \<Rightarrow> bool" where
  "settling P f \<longleftrightarrow> attempt_write f \<and> (\<forall>r. P r \<longrightarrow> at_status (f r) \<in> set LIVE_STATUSES \<longrightarrow> at_status r \<in> set LIVE_STATUSES)"

definition intent_write :: "(intent_row \<Rightarrow> intent_row) \<Rightarrow> bool" where
  "intent_write f \<longleftrightarrow> (\<forall>r. in_id (f r) = in_id r \<and> in_business (f r) = in_business r \<and> in_candidate (f r) = in_candidate r
     \<and> in_mode (f r) = in_mode r \<and> in_key (f r) = in_key r \<and> in_version r \<le> in_version (f r))"

definition candidate_write :: "(candidate_row \<Rightarrow> candidate_row) \<Rightarrow> bool" where
  "candidate_write f \<longleftrightarrow> (\<forall>r. cd_id (f r) = cd_id r \<and> cd_business (f r) = cd_business r \<and> cd_checksum (f r) = cd_checksum r
     \<and> cd_payload (f r) = cd_payload r)"

definition local_action :: "request \<Rightarrow> bool" where
  "local_action req \<longleftrightarrow> (case req of Export _ _ _ \<Rightarrow> True | Simulate _ _ _ \<Rightarrow> True | _ \<Rightarrow> False)"

locale frame_law =
  fixes I :: "publishing \<Rightarrow> bool"
  assumes new_approval: "I s \<Longrightarrow> find_intent (ap_intent p) s = Some n \<Longrightarrow> ap_version p = in_version n \<Longrightarrow>
      \<forall>x \<in> set (approvals s). \<not> approval_clash p x \<Longrightarrow> I (s\<lparr>approvals := approvals s @ [p]\<rparr>)"
    and new_candidate: "I s \<Longrightarrow> I (s\<lparr>candidates := candidates s @ [cd]\<rparr>)"
    and new_intent: "I s \<Longrightarrow> \<forall>x \<in> set (intents s). \<not> intent_clash n x \<Longrightarrow> I (s\<lparr>intents := intents s @ [n]\<rparr>)"
    and intents_written: "I s \<Longrightarrow> intent_write g \<Longrightarrow> rows_apart intent_clash (tbl_update Q g (intents s)) \<Longrightarrow>
      I (s\<lparr>intents := tbl_update Q g (intents s)\<rparr>)"
    and candidates_written: "I s \<Longrightarrow> candidate_write h \<Longrightarrow> I (s\<lparr>candidates := tbl_update R h (candidates s)\<rparr>)"
    and result_resolved: "I s \<Longrightarrow> tbl_find re_id i (results s) = Some r \<Longrightarrow> re_outcome r = UNKNOWN \<Longrightarrow>
      rows_apart result_clash (tbl_update (\<lambda>q. re_id q = i) (resolve_result x reason) (results s)) \<Longrightarrow>
      I (s\<lparr>results := tbl_update (\<lambda>q. re_id q = i) (resolve_result x reason) (results s)\<rparr>)"
begin

lemma keeps_writes:
  "keeps I (insert_candidate cd)"
  "keeps I (insert_intent n)"
  "intent_write g \<Longrightarrow> keeps I (update_intents Q g)"
  "candidate_write h \<Longrightarrow> keeps I (update_candidates R h)"
  by (simp_all add: keeps_def insert_candidate_def insert_intent_def update_intents_def update_candidates_def act_insert_def
      act_update_def Let_def new_candidate new_intent intents_written candidates_written)

lemmas keeps_all = keeps_writes keeps_intros

lemma keeps_helpers:
  "keeps I (or_throw look)"
  "keeps I (require b e)"
  "keeps I (assertOwnership x y)"
  "keeps I (assertVersion v v')"
  "keeps I (assertStatusIn st allowed)"
  "keeps I (assertTargetBindable now tg b')"
  "keeps I (in_aborted_transaction m)"
  "intent_write g \<Longrightarrow> keeps I (set_intent i g)"
  "keeps I (own_intent i b')"
  "keeps I (own_version i b' v)"
  by (auto simp: or_throw_def require_def assertOwnership_def assertVersion_def assertStatusIn_def
      assertTargetBindable_def in_aborted_transaction_def set_intent_def own_intent_def own_version_def
      intro!: keeps_all split: option.splits)

lemma keeps_create: "keeps I (create_intent_tx c b' u cand mode key)"
  unfolding create_intent_tx_def by (intro keeps_all keeps_helpers)

lemma keeps_schedule_tx: "keeps I (schedule_tx E c allowed i b' dto utc)"
  unfolding schedule_tx_def by (intro keeps_all keeps_helpers) (simp add: intent_write_def)

lemma keeps_schedule:
  "keeps I (scheduleIntent E tzdb c i b' dto)"
  "keeps I (rescheduleIntent E tzdb c i b' dto)"
  unfolding scheduleIntent_def rescheduleIntent_def at_future_instant_def
  by (intro keeps_all keeps_helpers keeps_schedule_tx)+

lemma keeps_cancel: "keeps I (cancelIntent i b' v)"
  unfolding cancelIntent_def by (intro keeps_all keeps_helpers) (simp add: intent_write_def)

lemma keeps_retry: "keeps I (retryIntent E c i b' dto)"
  unfolding retryIntent_def retry_tx_def by (intro keeps_all keeps_helpers) (simp add: intent_write_def)

lemma keeps_resolve: "keeps I (resolveUnknown i x reason)"
proof (unfold resolveUnknown_def, rule keeps_transaction)
  fix s a t
  assume I: "I s" and m: "resolve_tx i x reason s = (Inr a, t)"
  let ?upd = "update_results (\<lambda>q. re_id q = i) (resolve_result x reason)"
  obtain r where r: "tbl_find re_id i (results s) = Some r" "re_outcome r = UNKNOWN"
    and b: "act_seq ?upd (act_bind (update_intents (\<lambda>q. in_id q = re_intent r \<and> in_status q = ACTION_REQUIRED)
      (\<lambda>q. q\<lparr>in_status := (if resolved_outcome x = PUBLISHED then SUCCEEDED else FAILED)\<rparr>)) (\<lambda>_. act_return ())) s = (Inr a, t)"
    using m by (auto simp: resolve_tx_def act_bind_def act_read_def act_throw_def split: option.splits if_splits)
  have "I (snd (?upd s))"
    using result_resolved [OF I r] I by (simp add: update_results_def act_update_def Let_def)
  moreover have "keeps I (act_bind (update_intents (\<lambda>q. in_id q = re_intent r \<and> in_status q = ACTION_REQUIRED)
      (\<lambda>q. q\<lparr>in_status := (if resolved_outcome x = PUBLISHED then SUCCEEDED else FAILED)\<rparr>)) (\<lambda>_. act_return ()))"
    by (intro keeps_all) (simp add: intent_write_def)
  ultimately show "I t"
    using b by (auto simp: act_seq_def act_bind_def split: sum.splits prod.splits dest: keepsD)
qed

lemma decide_lasting:
  assumes "I s" "find_intent i s = Some n" "in_id n = i"
  shows "I (snd (decide_tx E c i u dto n s))"
proof -
  let ?p = "new_approval E c u dto n"
  have k: "keeps I (act_bind (set_intent i (\<lambda>r. r\<lparr>in_status := decided_status (ad_decision dto) n\<rparr>)) (\<lambda>updated.
      act_return \<lparr>ar_intent = updated, ar_approval = ?p, ar_raced = False, ar_replayed = False\<rparr>))"
    by (intro keeps_all keeps_helpers) (simp add: intent_write_def)
  have "I (snd (insert_approval ?p s))"
    using assms by (auto simp: insert_approval_def act_insert_def new_approval_def intro: new_approval)
  then show ?thesis
    using k by (auto simp: decide_tx_def act_bind_def act_seq_def act_catch_def act_return_def act_throw_def
        in_aborted_transaction_def split: sum.splits prod.splits option.splits dest: keepsD)
qed

lemma keeps_approve: "keeps I (approveIntent E c i b' u dto)"
proof -
  have "keeps I (approve_tx E c i b' u dto)"
  proof (rule keepsI)
    fix s
    assume "I s"
    then show "I (snd (approve_tx E c i b' u dto s))"
      by (cases rule: approve_tx_cases [of E c i b' u dto s])
        (auto intro: decide_lasting simp: find_intent_def dest: tbl_find_SomeD)
  qed
  then show ?thesis unfolding approveIntent_def by (intro keeps_all)
qed

lemma keeps_ingest: "keeps I (ingestEvent E c event)"
  unfolding ingestEvent_def apply_change_tx_def Let_def
  by (intro keeps_all keeps_helpers) (auto simp: candidate_write_def intent_write_def)

lemma keeps_move: "keeps I (move_intent i v st)"
  unfolding move_intent_def by (intro keeps_all) (simp add: intent_write_def)

lemma keeps_mark: "keeps I (markIntentFailed i v)"
  unfolding markIntentFailed_def by (intro keeps_all keeps_move)

lemma op_lasting: "keeps I m \<Longrightarrow> m s = (r, t) \<Longrightarrow> I s \<Longrightarrow> I t"
  by (metis keepsD snd_conv)

lemma keeps_serve_remote: "\<not> local_action req \<Longrightarrow> keeps I (serve V c req)"
  by (cases req) (auto simp: serve_def act_void_def local_action_def intro!: keeps_intros
      keeps_create keeps_schedule keeps_cancel keeps_retry keeps_approve keeps_ingest keeps_resolve)

end

locale settling_law = frame_law +
  assumes attempts_settled: "I s \<Longrightarrow> settling P f \<Longrightarrow> I (s\<lparr>attempts := tbl_update P f (attempts s)\<rparr>)"
    and result_added: "I s \<Longrightarrow> \<forall>x \<in> set (results s). \<not> result_clash r x \<Longrightarrow> I (s\<lparr>results := results s @ [r]\<rparr>)"
begin

lemma keeps_settled:
  "settling P f \<Longrightarrow> keeps I (update_attempts P f)"
  "keeps I (insert_result r)"
  by (simp_all add: keeps_def update_attempts_def attempts_settled insert_result_def act_insert_def result_added)

lemmas settling_simps = settling_def attempt_write_def LIVE_STATUSES_def

lemma keeps_end_attempt: "status \<notin> set LIVE_STATUSES \<Longrightarrow> keeps I (end_attempt a status message now)"
  unfolding end_attempt_def by (intro keeps_settled keeps_all keeps_helpers) (simp add: settling_simps)

lemma keeps_integrity: "keeps I (integrity_failed_tx now i v a message)"
  unfolding integrity_failed_tx_def by (intro keeps_all keeps_end_attempt keeps_move) (simp add: LIVE_STATUSES_def)

lemma keeps_claim: "keeps I (claimAttempt a)"
  unfolding claimAttempt_def by (intro keeps_settled keeps_all) (simp add: settling_simps)

lemma keeps_delivery: "keeps I (delivery_step c i v a message d)"
  unfolding delivery_step_def acknowledge_tx_def delivery_failed_tx_def
  by (cases d) (auto intro!: keeps_settled keeps_all keeps_end_attempt keeps_move simp: settling_simps)

lemma keeps_flag: "keeps I (flag_stuck_tx c a)"
  unfolding flag_stuck_tx_def by (intro keeps_settled keeps_all keeps_helpers) (simp_all add: settling_simps intent_write_def)

end

locale lasting = frame_law +
  assumes new_result: "I s \<Longrightarrow> \<forall>x \<in> set (results s). \<not> result_clash r x \<Longrightarrow> I (s\<lparr>results := results s @ [r]\<rparr>)"
    and new_attempt: "I s \<Longrightarrow> \<forall>x \<in> set (attempts s). \<not> attempt_clash a x \<Longrightarrow> I (s\<lparr>attempts := attempts s @ [a]\<rparr>)"
    and new_callback: "I s \<Longrightarrow> I (s\<lparr>callbacks := callbacks s @ [b]\<rparr>)"
    and new_export: "I s \<Longrightarrow> I (s\<lparr>exports := exports s @ [ex]\<rparr>)"
    and attempts_written: "I s \<Longrightarrow> attempt_write f \<Longrightarrow> I (s\<lparr>attempts := tbl_update P f (attempts s)\<rparr>)"

sublocale lasting \<subseteq> settling_law
  by unfold_locales (auto simp: settling_def intro: attempts_written new_result)

context lasting begin

lemma keeps_inserts:
  "keeps I (insert_attempt a)"
  "keeps I (insert_callback b)"
  "keeps I (insert_export ex)"
  "attempt_write f \<Longrightarrow> keeps I (update_attempts P f)"
  by (simp_all add: keeps_def insert_attempt_def insert_callback_def insert_export_def update_attempts_def act_modify_def
      act_insert_def new_attempt new_callback new_export attempts_written)

lemmas keeps_more = keeps_inserts keeps_settled(2) keeps_all

lemma keeps_local: "keeps I (runLocalAction E archive c mode i b' key)"
  unfolding runLocalAction_def local_tx_def store_export_def Let_def
  by (intro keeps_more keeps_helpers allI; (simp add: intent_write_def split: prod.splits)?) (auto intro!: keeps_more)

lemma keeps_prepare: "keeps I (prepare_attempt E C c i v key n recovered)"
  unfolding prepare_attempt_def check_target_def create_attempt_def stamp_attempt_def Let_def
  by (intro keeps_more keeps_helpers; (simp add: attempt_write_def split: prod.splits option.splits sum.splits)?)
    (auto intro!: keeps_more simp: attempt_write_def)

lemma keeps_revalidation: "keeps I (runRevalidationAndCreateAttempt E C c i v key)"
  unfolding runRevalidationAndCreateAttempt_def revalidate_tx_def claim_intent_def
  by (intro keeps_all keeps_helpers keeps_prepare) (simp add: intent_write_def)

lemma keeps_record: "keeps I (record_callback c a result k x f ts occ)"
  unfolding record_callback_def
  by (intro keeps_more keeps_helpers) (simp_all add: attempt_write_def intent_write_def, (cases x; simp)+)

lemma keeps_callback: "keeps I (handleCallback E C c a envelope)"
  unfolding handleCallback_def callback_tx_def resolve_duplicate_def Let_def
  by (auto intro!: keeps_intros keeps_helpers keeps_record split: sum.splits option.splits prod.splits)

lemma keeps_serve: "keeps I (serve V c req)"
proof (cases "local_action req")
  case True
  then show ?thesis
    by (cases req) (auto simp: serve_def act_void_def local_action_def dispatchExport_def dispatchSimulation_def
        intro!: keeps_intros keeps_local)
next
  case False
  then show ?thesis by (rule keeps_serve_remote)
qed

lemma step_lasting: "publish_step V w l w' \<Longrightarrow> I (db w) \<Longrightarrow> I (db w')"
  by (induction rule: publish_step.induct)
    (auto simp: dismiss_def replace_worker_def intro: op_lasting [OF keeps_serve] op_lasting [OF keeps_revalidation]
      op_lasting [OF keeps_mark] op_lasting [OF keeps_integrity] op_lasting [OF keeps_claim] op_lasting [OF keeps_delivery]
      op_lasting [OF keeps_callback] op_lasting [OF keeps_flag])

lemma history_lasting: "history V good w ls w' \<Longrightarrow> I (db w) \<Longrightarrow> I (db w')"
  by (erule history_invariant [where I = "\<lambda>w. I (db w)"]) (auto intro: step_lasting)

end

end
