(* ===== verification/Publish_Safety.thy ===== *)
theory Publish_Safety
  imports Publish_Lasting "HOL-Library.Multiset"
begin

text \<open>
  The safety of publishing over any history of requests, jobs, crashes, sweeps and callbacks: the
  facts that last, as interpretations of \<open>lasting\<close>, what a revalidated job has found, and the
  invariants behind the claims that an attempt is posted at most once and that what is posted is
  what was approved.
\<close>


section \<open>Facts that last\<close>

lemma apart_insert: "rows_apart clash t \<Longrightarrow> \<forall>x \<in> set t. \<not> clash x r \<Longrightarrow> rows_apart clash (t @ [r])"
  by (simp add: rows_apart_def sorted_wrt_append)

lemma tbl_updateE:
  assumes "q \<in> set (tbl_update P f t)"
  obtains r where "r \<in> set t" "q = (if P r then f r else r)"
  using assms by (auto simp: tbl_update_def)

lemma tbl_updateI: "r \<in> set t \<Longrightarrow> (if P r then f r else r) \<in> set (tbl_update P f t)"
  by (simp add: tbl_update_def)

lemma written_attempt:
  assumes "attempt_write f" "r \<in> set t"
  obtains q where "q \<in> set (tbl_update P f t)" "at_id q = at_id r" "at_intent q = at_intent r" "at_version q = at_version r"
proof -
  have "(if P r then f r else r) \<in> set (tbl_update P f t)" using assms(2) by (simp add: tbl_update_def)
  from that [OF this] show thesis using assms(1) by (simp add: attempt_write_def)
qed

lemma written_intent:
  assumes "intent_write g" "n \<in> set t"
  obtains q where "q \<in> set (tbl_update P g t)" "in_id q = in_id n" "in_candidate q = in_candidate n" "in_version n \<le> in_version q"
proof -
  have "(if P n then g n else n) \<in> set (tbl_update P g t)" using assms(2) by (simp add: tbl_update_def)
  from that [OF this] show thesis using assms(1) by (simp add: intent_write_def)
qed

lemma written_candidate:
  assumes "candidate_write h" "cd \<in> set t"
  obtains q where "q \<in> set (tbl_update P h t)" "cd_id q = cd_id cd" "cd_checksum q = cd_checksum cd" "cd_payload q = cd_payload cd"
proof -
  have "(if P cd then h cd else cd) \<in> set (tbl_update P h t)" using assms(2) by (simp add: tbl_update_def)
  from that [OF this] show thesis using assms(1) by (simp add: candidate_write_def)
qed

text \<open>An attempt is taken once it is no longer queued.\<close>

definition taken :: "string \<Rightarrow> publishing \<Rightarrow> bool" where
  "taken a s \<longleftrightarrow> a \<in> at_id ` set (attempts s) \<and> (\<forall>r \<in> set (attempts s). at_id r = a \<longrightarrow> at_status r \<noteq> A_QUEUED)"

interpretation taken: lasting "taken a" for a
proof unfold_locales
  fix s b
  assume "taken a s" "\<forall>x \<in> set (attempts s). \<not> attempt_clash b x"
  then show "taken a (s\<lparr>attempts := attempts s @ [b]\<rparr>)" by (auto simp: taken_def attempt_clash_def)
next
  fix s f P
  assume t: "taken a s" and w: "attempt_write f"
  have f: "at_id (f r) = at_id r" "at_status (f r) = A_QUEUED \<Longrightarrow> at_status r = A_QUEUED" for r
    using w by (simp_all add: attempt_write_def)
  obtain r where r: "r \<in> set (attempts s)" "at_id r = a" using t by (auto simp: taken_def)
  from w r(1) obtain q where q: "q \<in> set (tbl_update P f (attempts s))" "at_id q = at_id r" by (rule written_attempt)
  moreover have "at_status q \<noteq> A_QUEUED" if "q \<in> set (tbl_update P f (attempts s))" "at_id q = a" for q
    using that t f by (auto simp: taken_def set_tbl_update split: if_splits)
  ultimately show "taken a (s\<lparr>attempts := tbl_update P f (attempts s)\<rparr>)"
    using r(2) by (auto simp: taken_def)
qed (simp_all add: taken_def)

text \<open>An attempt of this identity, intent and version exists.\<close>

definition known_attempt :: "string \<Rightarrow> string \<Rightarrow> int \<Rightarrow> publishing \<Rightarrow> bool" where
  "known_attempt a i v s \<longleftrightarrow> (\<exists>r \<in> set (attempts s). at_id r = a \<and> at_intent r = i \<and> at_version r = v)"

interpretation known_attempt: lasting "known_attempt a i v" for a i v
proof unfold_locales
  fix s f P
  assume "known_attempt a i v s" "attempt_write f"
  then show "known_attempt a i v (s\<lparr>attempts := tbl_update P f (attempts s)\<rparr>)"
    unfolding known_attempt_def by (auto elim!: written_attempt [where P = P])
qed (auto simp: known_attempt_def)

text \<open>An approval of this version of the intent, for a candidate of this document and checksum.\<close>

definition approved_document :: "string \<Rightarrow> int \<Rightarrow> json \<Rightarrow> publishing \<Rightarrow> bool" where
  "approved_document i v doc s \<longleftrightarrow>
     (\<exists>p \<in> set (approvals s). ap_intent p = i \<and> ap_version p = v \<and> ap_decision p = APPROVED
       \<and> (\<exists>n \<in> set (intents s). in_id n = i
         \<and> (\<exists>cd \<in> set (candidates s). cd_id cd = in_candidate n \<and> cd_checksum cd = ap_checksum p \<and> cd_payload cd = doc)))"

lemma approved_documentI:
  "p \<in> set (approvals s) \<Longrightarrow> ap_intent p = i \<Longrightarrow> ap_version p = v \<Longrightarrow> ap_decision p = APPROVED \<Longrightarrow>
   n \<in> set (intents s) \<Longrightarrow> in_id n = i \<Longrightarrow> cd \<in> set (candidates s) \<Longrightarrow> cd_id cd = in_candidate n \<Longrightarrow>
   cd_checksum cd = ap_checksum p \<Longrightarrow> cd_payload cd = doc \<Longrightarrow> approved_document i v doc s"
  unfolding approved_document_def by blast

lemma approved_documentE:
  assumes "approved_document i v doc s"
  obtains p n cd where "p \<in> set (approvals s)" "ap_intent p = i" "ap_version p = v" "ap_decision p = APPROVED"
    "n \<in> set (intents s)" "in_id n = i" "cd \<in> set (candidates s)" "cd_id cd = in_candidate n"
    "cd_checksum cd = ap_checksum p" "cd_payload cd = doc"
  using assms unfolding approved_document_def by blast

interpretation approved_document: lasting "approved_document i v doc" for i v doc
proof unfold_locales
  fix s g Q
  assume a: "approved_document i v doc s" and w: "intent_write g"
  from a obtain p n cd where p: "p \<in> set (approvals s)" "ap_intent p = i" "ap_version p = v" "ap_decision p = APPROVED"
    "n \<in> set (intents s)" "in_id n = i" "cd \<in> set (candidates s)" "cd_id cd = in_candidate n"
    "cd_checksum cd = ap_checksum p" "cd_payload cd = doc" by (rule approved_documentE)
  from w p(5) obtain q where "q \<in> set (tbl_update Q g (intents s))" "in_id q = in_id n" "in_candidate q = in_candidate n"
    by (rule written_intent)
  with p show "approved_document i v doc (s\<lparr>intents := tbl_update Q g (intents s)\<rparr>)"
    by (intro approved_documentI [of p _ i v q cd]) simp_all
next
  fix s h R
  assume a: "approved_document i v doc s" and w: "candidate_write h"
  from a obtain p n cd where p: "p \<in> set (approvals s)" "ap_intent p = i" "ap_version p = v" "ap_decision p = APPROVED"
    "n \<in> set (intents s)" "in_id n = i" "cd \<in> set (candidates s)" "cd_id cd = in_candidate n"
    "cd_checksum cd = ap_checksum p" "cd_payload cd = doc" by (rule approved_documentE)
  from w p(7) obtain q where "q \<in> set (tbl_update R h (candidates s))" "cd_id q = cd_id cd" "cd_checksum q = cd_checksum cd"
    "cd_payload q = cd_payload cd" by (rule written_candidate)
  with p show "approved_document i v doc (s\<lparr>candidates := tbl_update R h (candidates s)\<rparr>)"
    by (intro approved_documentI [of p _ i v n q]) simp_all
qed (auto elim!: approved_documentE intro: approved_documentI)

text \<open>A result whose outcome is not \<open>UNKNOWN\<close>, in a table whose rows do not clash.\<close>

definition settled :: "result_row \<Rightarrow> publishing \<Rightarrow> bool" where
  "settled r s \<longleftrightarrow> r \<in> set (results s) \<and> re_outcome r \<noteq> UNKNOWN \<and> rows_apart result_clash (results s)"

lemma result_clash_sym: "result_clash r x \<longleftrightarrow> result_clash x r"
  by (auto simp: result_clash_def)

lemma apart_same:
  assumes "rows_apart clash t" "r \<in> set t" "x \<in> set t" "clash r x" "clash x r"
  shows "r = x"
  using assms by (induction t) (auto simp: rows_apart_def)

interpretation settled: lasting "settled r" for r
proof unfold_locales
  fix s x
  assume "settled r s" "\<forall>y \<in> set (results s). \<not> result_clash x y"
  then show "settled r (s\<lparr>results := results s @ [x]\<rparr>)"
    by (auto simp: settled_def result_clash_sym intro!: apart_insert)
next
  fix s i q x reason
  assume s: "settled r s" and q: "tbl_find re_id i (results s) = Some q" "re_outcome q = UNKNOWN"
    and apart: "rows_apart result_clash (tbl_update (\<lambda>q. re_id q = i) (resolve_result x reason) (results s))"
  have "re_id r \<noteq> i"
    using apart_same [of result_clash "results s" r q] s q tbl_find_SomeD [OF q(1)]
    by (auto simp: settled_def result_clash_def)
  with s apart show "settled r (s\<lparr>results := tbl_update (\<lambda>q. re_id q = i) (resolve_result x reason) (results s)\<rparr>)"
    by (force simp: settled_def set_tbl_update)
qed (auto simp: settled_def)

text \<open>No approval is ahead of its intent.\<close>

definition approvals_behind :: "publishing \<Rightarrow> bool" where
  "approvals_behind s \<longleftrightarrow> rows_apart intent_clash (intents s)
     \<and> (\<forall>p \<in> set (approvals s). \<exists>n \<in> set (intents s). in_id n = ap_intent p \<and> ap_version p \<le> in_version n)"

lemma intent_clash_sym: "intent_clash r x \<longleftrightarrow> intent_clash x r"
  by (auto simp: intent_clash_def)

interpretation approvals_behind: lasting approvals_behind
proof unfold_locales
  fix s n
  assume "approvals_behind s" "\<forall>x \<in> set (intents s). \<not> intent_clash n x"
  then show "approvals_behind (s\<lparr>intents := intents s @ [n]\<rparr>)"
    by (auto simp: approvals_behind_def intent_clash_sym intro!: apart_insert)
next
  fix s n and p :: approval_row
  assume "approvals_behind s" "find_intent (ap_intent p) s = Some n" "ap_version p = in_version n"
  then show "approvals_behind (s\<lparr>approvals := approvals s @ [p]\<rparr>)"
    by (force simp: approvals_behind_def find_intent_def dest: tbl_find_SomeD)
next
  fix s g Q
  assume a: "approvals_behind s" and w: "intent_write g" and apart: "rows_apart intent_clash (tbl_update Q g (intents s))"
  have "\<exists>n \<in> set (tbl_update Q g (intents s)). in_id n = ap_intent p \<and> ap_version p \<le> in_version n"
    if p: "p \<in> set (approvals s)" for p
  proof -
    obtain n where n: "n \<in> set (intents s)" "in_id n = ap_intent p" "ap_version p \<le> in_version n"
      using a p by (auto simp: approvals_behind_def)
    from w n(1) obtain q where "q \<in> set (tbl_update Q g (intents s))" "in_id q = in_id n" "in_version n \<le> in_version q"
      by (rule written_intent)
    with n show ?thesis by (auto intro!: bexI [of _ q])
  qed
  with apart show "approvals_behind (s\<lparr>intents := tbl_update Q g (intents s)\<rparr>)"
    by (simp add: approvals_behind_def)
qed (auto simp: approvals_behind_def)


section \<open>A revalidated job\<close>

lemma check_target_eq:
  "check_target now n s =
     (case Option.bind (in_target n) (\<lambda>t. find_target t s) of
        None \<Rightarrow> (Inl RecordNotFound, s)
      | Some t \<Rightarrow>
          if tg_state t = T_CONNECTED \<and> \<not> expired now t then (Inr t, s)
          else (Inl (PlainError (Shared PUBLISHING_TARGET_UNAUTHORIZED)), s))"
  by (simp add: check_target_def run_simps split: option.splits)

lemma run_check_target [run_simps]:
  "act_bind (check_target now n) f s =
     (case Option.bind (in_target n) (\<lambda>t. find_target t s) of
        None \<Rightarrow> (Inl RecordNotFound, s)
      | Some t \<Rightarrow>
          if tg_state t = T_CONNECTED \<and> \<not> expired now t then f t s
          else (Inl (PlainError (Shared PUBLISHING_TARGET_UNAUTHORIZED)), s))"
  by (simp add: act_bind_def [of "check_target now n"] check_target_eq split: option.splits)

definition next_attempt :: "call \<Rightarrow> string \<Rightarrow> int \<Rightarrow> string \<Rightarrow> publishing \<Rightarrow> attempt_row" where
  "next_attempt c i v key s = new_attempt c i v key (next_seq (filter (\<lambda>a. at_version a = v) (intent_attempts i s)))"

lemma create_attempt_eq:
  "create_attempt c i v key s =
     (let a = next_attempt c i v key s in
      if \<exists>x \<in> set (attempts s). attempt_clash a x then (Inl TransactionAborted, s)
      else (Inr a, s\<lparr>attempts := attempts s @ [a]\<rparr>))"
  by (simp add: create_attempt_def run_simps Let_def next_attempt_def act_catch_def insert_attempt_def act_insert_def act_seq_def
      act_bind_def [of "act_insert x y z u v" for x y z u v] in_aborted_transaction_def)

lemma run_create_attempt [run_simps]:
  "act_bind (create_attempt c i v key) f s =
     (let a = next_attempt c i v key s in
      if \<exists>x \<in> set (attempts s). attempt_clash a x then (Inl TransactionAborted, s)
      else f a (s\<lparr>attempts := attempts s @ [a]\<rparr>))"
  by (simp add: act_bind_def [of "create_attempt c i v key"] create_attempt_eq Let_def)

definition stamp :: "publish_config \<Rightarrow> string \<Rightarrow> string \<Rightarrow> publishing \<Rightarrow> publishing" where
  "stamp C a f s = s\<lparr>attempts := tbl_update (\<lambda>r. at_id r = a)
     (\<lambda>r. r\<lparr>at_fingerprint := Some f, at_workflow := Some (workflow_version C)\<rparr>) (attempts s)\<rparr>"

lemma run_stamp [run_simps]: "act_seq (stamp_attempt C a f) m s = m (stamp C a f s)"
  by (simp add: stamp_attempt_def act_seq_def act_bind_def update_attempts_def act_return_def stamp_def)

text \<open>What a job that goes on has found, when its attempt is new and when it recovers a queued one.\<close>

lemma prepare_cases:
  assumes "prepare_attempt E C c i v key n recovered s = (Inr x, t)"
  obtains p cd tg a utc body f s' where "x = Fresh (at_id a) body" "current_approval i v s = Some p"
    "find_candidate (in_candidate n) s = Some cd" "cd_status cd = C_ACTIVE" "cd_checksum cd = ap_checksum p"
    "Option.bind (in_target n) (\<lambda>t. find_target t s) = Some tg" "tg_state tg = T_CONNECTED" "\<not> expired (call_now c) tg"
    "live_attempt i v s = None \<or> map_option at_id (live_attempt i v s) = map_option at_id recovered"
    "in_utc n = Some utc" "buildDispatchBody E C a (in_business n) cd tg p utc (started_or_created a) = Inr (body, f)"
    "t = stamp C (at_id a) f s'"
    "(recovered = Some a \<and> s' = s) \<or> (recovered = None \<and> a = next_attempt c i v key s
      \<and> (\<forall>y \<in> set (attempts s). \<not> attempt_clash a y) \<and> s' = s\<lparr>attempts := attempts s @ [a]\<rparr>)"
proof (cases recovered)
  case None
  then show thesis
    using assms unfolding prepare_attempt_def
    by (auto simp: run_simps Let_def split: option.splits if_splits sum.splits intro!: that)
next
  case (Some a)
  then show thesis
    using assms unfolding prepare_attempt_def
    by (auto simp: run_simps Let_def split: option.splits if_splits sum.splits intro!: that)
qed

definition claimed_intents :: "string \<Rightarrow> int \<Rightarrow> publishing \<Rightarrow> publishing" where
  "claimed_intents i v s = s\<lparr>intents := tbl_update (\<lambda>r. in_id r = i \<and> in_version r = v \<and> in_status r = SCHEDULED)
     (\<lambda>r. r\<lparr>in_status := DISPATCHING\<rparr>) (intents s)\<rparr>"

lemma run_claim_intent:
  assumes "act_seq (claim_intent i v n) m s = (Inr x, t)"
  shows "in_version n = v \<and> in_status n = SCHEDULED \<and> m (claimed_intents i v s) = (Inr x, t)"
  using assms
  by (auto simp: claim_intent_def act_seq_def act_bind_def require_def action_defs update_intents_def act_update_def Let_def
      claimed_intents_def split: if_splits)

lemma revalidation_cases:
  assumes "runRevalidationAndCreateAttempt E C c i v key s = (Inr (Fresh a body), t)"
  obtains (recovery) n b where "find_intent i s = Some n" "attempt_by_key i key s = Some b" "recovers v n (Some b)"
      "prepare_attempt E C c i v key n (Some b) s = (Inr (Fresh a body), t)"
  | (claim) n where "find_intent i s = Some n" "attempt_by_key i key s = None" "in_version n = v" "in_status n = SCHEDULED"
      "prepare_attempt E C c i v key n None (claimed_intents i v s) = (Inr (Fresh a body), t)"
proof -
  have r: "revalidate_tx E C c i v key s = (Inr (Fresh a body), t)"
    using assms by (auto simp: runRevalidationAndCreateAttempt_def elim: transaction_cases)
  then obtain n where n: "find_intent i s = Some n"
    by (auto simp: revalidate_tx_def run_simps split: option.splits)
  show thesis
  proof (cases "attempt_by_key i key s")
    case None
    then have "act_seq (claim_intent i v n) (prepare_attempt E C c i v key n None) s = (Inr (Fresh a body), t)"
      using r n by (simp add: revalidate_tx_def run_simps recovers_def)
    from run_claim_intent [OF this] show thesis using claim n None by simp
  next
    case (Some b)
    then show thesis
      using r n recovery by (auto simp: revalidate_tx_def run_simps split: if_splits)
  qed
qed

lemma body_fields:
  assumes "buildDispatchBody E C a b cd tg p utc started = Inr (body, f)"
  shows "jget body ''candidate'' = cd_payload cd" "jget body ''mode'' = JStr ''real''" "jget body ''attempt_id'' = JStr (at_id a)"
    "jget body ''intent_id'' = JStr (at_intent a)" "jget body ''intent_version'' = JNum (of_int (at_version a))"
    "jget body ''idempotency_key'' = JStr (at_key a)" "jget body ''workflow_version'' = JStr (workflow_version C)"
    "computeDispatchRequestFingerprint E body = Inr f"
  using assms by (auto simp: buildDispatchBody_def Let_def throws_bind_Inr_iff dispatch_fields_def)

lemma stamp_known: "known_attempt a i v s \<Longrightarrow> known_attempt a i v (stamp C b f s)"
  unfolding stamp_def by (rule known_attempt.attempts_written) (simp_all add: attempt_write_def)

lemma stamp_frame: "approvals (stamp C a f s) = approvals s" "intents (stamp C a f s) = intents s"
  "candidates (stamp C a f s) = candidates s"
  by (simp_all add: stamp_def)

definition sound_body :: "string \<Rightarrow> json \<Rightarrow> publishing \<Rightarrow> bool" where
  "sound_body a body s \<longleftrightarrow> (\<exists>i v. known_attempt a i v s \<and> approved_document i v (jget body ''candidate'') s
     \<and> jget body ''attempt_id'' = JStr a \<and> jget body ''intent_id'' = JStr i \<and> jget body ''intent_version'' = JNum (of_int v))"

lemma current_approvalD:
  "current_approval i v s = Some p \<Longrightarrow> p \<in> set (approvals s) \<and> ap_intent p = i \<and> ap_version p = v \<and> ap_decision p = APPROVED"
  by (auto simp: current_approval_def find_Some_iff)

lemma prepared_sound:
  assumes "prepare_attempt E C c i v key n recovered s = (Inr (Fresh a body), t)"
    and "\<exists>q \<in> set (intents s). in_id q = i \<and> in_candidate q = in_candidate n"
    and "\<And>b. recovered = Some b \<Longrightarrow> b \<in> set (attempts s) \<and> at_intent b = i \<and> at_version b = v"
  shows "sound_body a body t"
proof -
  from assms(1) obtain p cd tg b utc body' f s' where x: "Fresh a body = Fresh (at_id b) body'" "current_approval i v s = Some p"
    "find_candidate (in_candidate n) s = Some cd" "cd_checksum cd = ap_checksum p"
    "buildDispatchBody E C b (in_business n) cd tg p utc (started_or_created b) = Inr (body', f)" "t = stamp C (at_id b) f s'"
    and d: "(recovered = Some b \<and> s' = s) \<or> (recovered = None \<and> b = next_attempt c i v key s
      \<and> (\<forall>y \<in> set (attempts s). \<not> attempt_clash b y) \<and> s' = s\<lparr>attempts := attempts s @ [b]\<rparr>)"
    by (rule prepare_cases) blast
  have k: "known_attempt (at_id b) i v s'"
    using d assms(3) by (auto simp: known_attempt_def next_attempt_def new_attempt_def)
  have id: "at_intent b = i" "at_version b = v"
    using d assms(3) by (auto simp: next_attempt_def new_attempt_def)
  have frame: "approvals s' = approvals s" "intents s' = intents s" "candidates s' = candidates s" using d by auto
  obtain q where q: "q \<in> set (intents s)" "in_id q = i" "in_candidate q = in_candidate n" using assms(2) by blast
  have cd: "cd \<in> set (candidates s)" "cd_id cd = in_candidate n"
    using x(3) by (auto simp: find_candidate_def dest: tbl_find_SomeD)
  have "approved_document i v (cd_payload cd) t"
    using current_approvalD [OF x(2)] q cd x(4) unfolding x(6)
    by (intro approved_documentI [of p _ i v q cd]) (simp_all add: stamp_frame frame)
  then show ?thesis
    using stamp_known [OF k, of C "at_id b" f] x(1,6) body_fields(1-5) [OF x(5)] id unfolding sound_body_def
    by (intro exI [of _ i] exI [of _ v]) simp
qed

lemma claimed_intents_frame:
  "attempts (claimed_intents i v s) = attempts s" "approvals (claimed_intents i v s) = approvals s"
  "candidates (claimed_intents i v s) = candidates s" "targets (claimed_intents i v s) = targets s"
  "results (claimed_intents i v s) = results s"
  by (simp_all add: claimed_intents_def)

lemma fresh_body_sound:
  assumes "runRevalidationAndCreateAttempt E C c i v key s = (Inr (Fresh a body), t)"
  shows "sound_body a body t"
  using assms
proof (cases rule: revalidation_cases)
  case (recovery n b)
  have n: "n \<in> set (intents s) \<and> in_id n = i" using recovery(1) by (auto simp: find_intent_def dest: tbl_find_SomeD)
  have b: "b \<in> set (attempts s) \<and> at_intent b = i"
    using recovery(2) by (auto simp: attempt_by_key_def dest: tbl_find_SomeD)
  show ?thesis
    by (rule prepared_sound [OF recovery(4)]) (use n b recovery(3) in \<open>auto simp: recovers_def\<close>)
next
  case (claim n)
  have n: "n \<in> set (intents s)" "in_id n = i" using claim(1) by (auto simp: find_intent_def dest: tbl_find_SomeD)
  have "intent_write (\<lambda>r. r\<lparr>in_status := DISPATCHING\<rparr>)" by (simp add: intent_write_def)
  from this n(1) obtain q where "q \<in> set (intents (claimed_intents i v s))" "in_id q = in_id n" "in_candidate q = in_candidate n"
    unfolding claimed_intents_def by (auto elim: written_intent)
  with n(2) show ?thesis by (intro prepared_sound [OF claim(5)]) auto
qed


section \<open>An attempt is posted at most once\<close>

fun claims_of :: "worker \<Rightarrow> string list" where
  "claims_of (Claimed i v a body) = [a]"
| "claims_of k = []"

definition in_flight :: "world \<Rightarrow> string list" where
  "in_flight w = concat (map claims_of (workers w)) @ map fst (posted w)"

definition posting_ok :: "world \<Rightarrow> bool" where
  "posting_ok w \<longleftrightarrow> distinct (in_flight w) \<and> (\<forall>a \<in> set (in_flight w). taken a (db w))"

lemma claims_remove1:
  "k \<in> set ks \<Longrightarrow> mset (concat (map claims_of ks)) = mset (claims_of k) + mset (concat (map claims_of (remove1 k ks)))"
  by (induction ks) auto

lemma claims_fewer: "mset (concat (map claims_of (remove1 k ks))) \<subseteq># mset (concat (map claims_of ks))"
  using claims_remove1 [of k ks] by (cases "k \<in> set ks") (simp_all add: remove1_idem)

lemma distinct_fewer:
  assumes "mset xs \<subseteq># mset ys" "distinct ys"
  shows "distinct xs"
proof -
  obtain zs where "mset ys = mset (xs @ zs)"
    using assms(1) by (metis ex_mset mset_append mset_subset_eq_exists_conv)
  from mset_eq_imp_distinct_iff [OF this] assms(2) show ?thesis by simp
qed

text \<open>A step after which no more is in flight, and whatever was taken still is.\<close>

lemma posting_fewer:
  assumes "posting_ok w" "\<And>a. taken a (db w) \<Longrightarrow> taken a (db w')" "mset (in_flight w') \<subseteq># mset (in_flight w)"
  shows "posting_ok w'"
  using assms(1,2) distinct_fewer [OF assms(3)] mset_subset_eqD [OF assms(3)] by (auto simp: posting_ok_def)

lemma claim_takes:
  assumes "claimAttempt a s = (Inr True, t)"
  shows "\<not> taken a s \<and> taken a t"
proof -
  have one: "tbl_count (\<lambda>r. at_id r = a \<and> at_status r = A_QUEUED) (attempts s) = 1"
    and t: "t = s\<lparr>attempts := tbl_update (\<lambda>r. at_id r = a \<and> at_status r = A_QUEUED) (\<lambda>r. r\<lparr>at_status := A_DISPATCHING\<rparr>) (attempts s)\<rparr>"
    using assms by (auto simp: claimAttempt_def act_bind_def update_attempts_def act_return_def)
  have "tbl_count (\<lambda>r. at_id r = a \<and> at_status r = A_QUEUED) (attempts s) \<noteq> 0" using one by simp
  then obtain r where r: "r \<in> set (attempts s)" "at_id r = a" "at_status r = A_QUEUED" unfolding tbl_count_0_iff by blast
  then have "r\<lparr>at_status := A_DISPATCHING\<rparr> \<in> set (attempts t)"
    using tbl_updateI [OF r(1), of "\<lambda>r. at_id r = a \<and> at_status r = A_QUEUED" "\<lambda>r. r\<lparr>at_status := A_DISPATCHING\<rparr>"] r
    unfolding t by simp
  then have "a \<in> at_id ` set (attempts t)" by (rule image_eqI [rotated]) (simp add: r(2))
  moreover have "at_status q \<noteq> A_QUEUED" if "q \<in> set (attempts t)" "at_id q = a" for q
  proof -
    have "q \<in> set (tbl_update (\<lambda>r. at_id r = a \<and> at_status r = A_QUEUED) (\<lambda>r. r\<lparr>at_status := A_DISPATCHING\<rparr>) (attempts s))"
      using that(1) by (simp add: t)
    then show ?thesis by (rule tbl_updateE) (use that(2) in \<open>simp split: if_splits\<close>)
  qed
  moreover have "\<not> taken a s" using r by (auto simp: taken_def)
  ultimately show ?thesis by (simp add: taken_def)
qed

lemma posting_step:
  assumes "posting_ok w" "publish_step V w l w'"
  shows "posting_ok w'"
proof -
  have keep: "taken a (db w) \<Longrightarrow> taken a (db w')" for a using taken.step_lasting [OF assms(2)] .
  note fewer = posting_fewer [OF assms(1) keep]
  from assms(2) show ?thesis
  proof (cases rule: publish_step.cases)
    case (claim i v a body t)
    have "a \<notin> set (in_flight w)" using claim_takes [OF claim(4)] assms(1) by (auto simp: posting_ok_def)
    moreover have "mset (in_flight w') = add_mset a (mset (in_flight w))"
      using claims_remove1 [OF claim(3)] claim(2) by (simp add: in_flight_def replace_worker_def)
    then have m: "mset (in_flight w') = mset (a # in_flight w)" by simp
    ultimately show ?thesis
      using assms(1) keep mset_eq_imp_distinct_iff [OF m] mset_eq_setD [OF m] claim_takes [OF claim(4)] claim(2)
      by (auto simp: posting_ok_def replace_worker_def)
  next
    case (post i v a body)
    show ?thesis
      by (rule fewer) (use claims_remove1 [OF post(3)] post(2) in \<open>simp_all add: in_flight_def replace_worker_def\<close>)
  qed (rule fewer, simp, simp add: in_flight_def dismiss_def claims_fewer)+
qed

lemma posting_start: "workers w = [] \<Longrightarrow> posted w = [] \<Longrightarrow> posting_ok w"
  by (simp add: posting_ok_def in_flight_def)

lemma posting_history: "history V good w ls w' \<Longrightarrow> posting_ok w \<Longrightarrow> posting_ok w'"
  by (erule history_invariant [where I = posting_ok]) (auto intro: posting_step)


section \<open>What is posted was approved\<close>

fun bodies_of :: "worker \<Rightarrow> (string \<times> json) list" where
  "bodies_of (Checked i v a body) = [(a, body)]"
| "bodies_of (Claimed i v a body) = [(a, body)]"
| "bodies_of k = []"

definition bodies :: "world \<Rightarrow> (string \<times> json) list" where
  "bodies w = concat (map bodies_of (workers w)) @ posted w"

definition bodies_ok :: "world \<Rightarrow> bool" where
  "bodies_ok w \<longleftrightarrow> (\<forall>(a, body) \<in> set (bodies w). sound_body a body (db w))"

lemma sound_body_step: "publish_step V w l w' \<Longrightarrow> sound_body a body (db w) \<Longrightarrow> sound_body a body (db w')"
  unfolding sound_body_def by (blast intro: known_attempt.step_lasting approved_document.step_lasting)

lemma bodies_remove: "set (concat (map bodies_of (remove1 k ks))) \<subseteq> set (concat (map bodies_of ks))"
  using set_remove1_subset [of k ks] by auto

lemma bodies_dismiss: "set (bodies (dismiss k (w\<lparr>db := s\<rparr>))) \<subseteq> set (bodies w)"
  "set (bodies (dismiss k w)) \<subseteq> set (bodies w)"
  using bodies_remove [of k "workers w"] by (auto simp: bodies_def dismiss_def)

lemma bodies_replace:
  assumes "k \<in> set (workers w)" "set (bodies_of k') \<subseteq> set (bodies_of k)"
  shows "set (bodies (replace_worker k k' (w\<lparr>db := s\<rparr>))) \<subseteq> set (bodies w)"
  using bodies_remove [of k "workers w"] assms by (auto simp: bodies_def replace_worker_def)

lemma bodies_step:
  assumes "bodies_ok w" "publish_step V w l w'"
  shows "bodies_ok w'"
proof -
  have old: "sound_body a body (db w')" if "(a, body) \<in> set (bodies w)" for a body
    using assms(1) that sound_body_step [OF assms(2)] by (auto simp: bodies_ok_def)
  have "set (bodies w') \<subseteq> set (bodies w) \<or> (\<exists>i v key c a body. set (bodies w') = insert (a, body) (set (bodies w))
    \<and> runRevalidationAndCreateAttempt (sv_env V) (sv_config V) c i v key (db w) = (Inr (Fresh a body), db w'))"
    using assms(2)
  proof (cases rule: publish_step.cases)
    case (begin_fresh c i v key a body t)
    then show ?thesis by (intro disjI2 exI conjI) (auto simp: bodies_def)
  next
    case (claim i v a body t)
    then show ?thesis using bodies_replace [OF claim(3), of "Claimed i v a body" t] by simp
  next
    case (post i v a body)
    have "(a, body) \<in> set (bodies w)" using post(3) by (force simp: bodies_def)
    then show ?thesis using post(2) bodies_remove [of "Claimed i v a body" "workers w"] by (auto simp: bodies_def replace_worker_def)
  qed (use bodies_dismiss in \<open>simp_all add: bodies_def\<close>)
  then show ?thesis
  proof (elim disjE exE conjE)
    assume "set (bodies w') \<subseteq> set (bodies w)"
    then show ?thesis using old by (auto simp: bodies_ok_def)
  next
    fix i v key c a body
    assume "set (bodies w') = insert (a, body) (set (bodies w))"
      "runRevalidationAndCreateAttempt (sv_env V) (sv_config V) c i v key (db w) = (Inr (Fresh a body), db w')"
    then show ?thesis using old fresh_body_sound by (auto simp: bodies_ok_def)
  qed
qed

lemma bodies_history: "history V good w ls w' \<Longrightarrow> bodies_ok w \<Longrightarrow> bodies_ok w'"
  by (erule history_invariant [where I = bodies_ok]) (auto intro: bodies_step)

end
