(* ===== verification/Publish_Run.thy ===== *)
theory Publish_Run
  imports Publish_Safety
begin

text \<open>
  Running the writes of the publishing service: \<open>write_simps\<close> executes an insert or an update on a
  state, as \<open>run_simps\<close> of \<open>Publish_Lasting\<close> executes reads and checks, and the elimination rules take
  an action that returned apart. Sequences of statements thus become conditions on the state at
  the start.
\<close>

named_theorems write_simps \<open>executing a write on a state\<close>

lemma act_bind_returnsE:
  assumes "act_bind m f s = (Inr x, t)"
  obtains a u where "m s = (Inr a, u)" "f a u = (Inr x, t)"
  using assms by (auto elim: act_bind_cases)

lemma act_seq_returnsE:
  assumes "act_seq m n s = (Inr x, t)"
  obtains a u where "m s = (Inr a, u)" "n u = (Inr x, t)"
  using assms unfolding act_seq_def by (rule act_bind_returnsE)

lemma run_act_insert [write_simps]:
  "act_seq (act_insert clash get put r e) m s =
     (if \<exists>x \<in> set (get s). clash r x then (Inl e, s) else m (put (get s @ [r]) s))"
  "act_bind (act_insert clash get put r e) f s =
     (if \<exists>x \<in> set (get s). clash r x then (Inl e, s) else f () (put (get s @ [r]) s))"
  by (simp_all add: act_seq_def act_bind_def act_insert_def)

lemma run_caught_insert [write_simps]:
  "act_seq (act_catch (act_insert clash get put r e) h) m s =
     (if \<exists>x \<in> set (get s). clash r x then act_seq (h e) m s else m (put (get s @ [r]) s))"
  "act_seq (act_catch (act_seq (act_insert clash get put r e) n) h) m s =
     (if \<exists>x \<in> set (get s). clash r x then act_seq (h e) m s else act_seq (act_catch n h) m (put (get s @ [r]) s))"
  "act_bind (act_catch (act_seq (act_insert clash get put r e) n) h) f s =
     (if \<exists>x \<in> set (get s). clash r x then act_bind (h e) f s else act_bind (act_catch n h) f (put (get s @ [r]) s))"
  by (simp_all add: act_seq_def act_bind_def act_catch_def act_insert_def)

lemma run_caught_return [write_simps]:
  "act_seq (act_catch (act_return x) h) m s = m s"
  "act_bind (act_catch (act_return x) h) f s = f x s"
  by (simp_all add: act_seq_def act_bind_def act_catch_def act_return_def)

lemma run_act_update [write_simps]:
  "act_bind (act_update clash get put P g e) f s =
     (if rows_apart clash (tbl_update P g (get s))
      then f (tbl_count P (get s)) (put (tbl_update P g (get s)) s) else (Inl e, s))"
  "act_seq (act_update clash get put P g e) m s =
     (if rows_apart clash (tbl_update P g (get s)) then m (put (tbl_update P g (get s)) s) else (Inl e, s))"
  by (simp_all add: act_seq_def act_bind_def act_update_def Let_def)

lemma run_update_attempts [write_simps]:
  "act_bind (update_attempts P g) f s = f (tbl_count P (attempts s)) (s\<lparr>attempts := tbl_update P g (attempts s)\<rparr>)"
  "act_seq (update_attempts P g) m s = m (s\<lparr>attempts := tbl_update P g (attempts s)\<rparr>)"
  by (simp_all add: act_seq_def act_bind_def update_attempts_def)

lemma run_set_intent [write_simps]:
  "act_bind (set_intent i g) f s =
     (if rows_apart intent_clash (tbl_update (\<lambda>r. in_id r = i) g (intents s))
      then (case tbl_find in_id i (tbl_update (\<lambda>r. in_id r = i) g (intents s)) of
          None \<Rightarrow> (Inl RecordNotFound, s\<lparr>intents := tbl_update (\<lambda>r. in_id r = i) g (intents s)\<rparr>)
        | Some n \<Rightarrow> f n (s\<lparr>intents := tbl_update (\<lambda>r. in_id r = i) g (intents s)\<rparr>))
      else (Inl UniqueViolation, s))"
  by (simp add: set_intent_def act_bind_def act_seq_def update_intents_def act_update_def Let_def or_throw_def act_read_def
      act_return_def act_throw_def find_intent_def split: option.splits)

lemma run_target [write_simps]:
  "act_seq (assertTargetBindable now tg b) m s =
     (case find_target tg s of
        None \<Rightarrow> (Inl (NotFoundException API_NOT_FOUND), s)
      | Some t \<Rightarrow>
          if tg_business t \<noteq> b then (Inl (NotFoundException API_NOT_FOUND), s)
          else if tg_state t \<noteq> T_CONNECTED then (Inl (BadRequestException (Shared PUBLISHING_TARGET_NOT_CONNECTED)), s)
          else if expired now t then (Inl (BadRequestException (Shared PUBLISHING_TARGET_UNAUTHORIZED)), s)
          else m s)"
  by (simp add: assertTargetBindable_def act_seq_def act_bind_def act_read_def act_throw_def act_return_def split: option.splits)

lemmas insert_defs = insert_intent_def insert_approval_def insert_attempt_def insert_result_def insert_callback_def
  insert_candidate_def

lemmas update_defs = update_intents_def update_results_def update_candidates_def

lemmas runs = run_simps write_simps insert_defs update_defs

text \<open>The row of an intent after an update of it.\<close>

lemma find_after_update:
  assumes "\<And>r. key (g r) = key r"
  shows "tbl_find key k (tbl_update (\<lambda>r. key r = k) g t) = map_option g (tbl_find key k t)"
  by (induction t) (auto simp: tbl_update_def assms)

lemma find_after_other_update:
  assumes "\<And>r. key (g r) = key r"
  shows "tbl_find key k (tbl_update P g t) = map_option (\<lambda>r. if P r then g r else r) (tbl_find key k t)"
  by (induction t) (auto simp: tbl_update_def assms)

end
