(* ===== verification/Publish_Flight.thy ===== *)
theory Publish_Flight
  imports Publish_Run
begin

text \<open>
  One version of an intent is never in flight twice, as long as no integrity failure is written
  over an attempt that is already claimed: then any two bodies posted for the same version of an
  intent are one after the other, the earlier closed by a recorded result.

  The proof follows an attempt through its life. It is live from its creation; no write but the
  callback's brings an attempt back to life, and the callback's only while it has no result; and
  every step that ends a claimed attempt leaves a result behind.
\<close>


section \<open>Facts that last\<close>

definition live :: "attempt_row \<Rightarrow> bool" where
  "live r \<longleftrightarrow> at_status r \<in> set LIVE_STATUSES"

definition has_result :: "string \<Rightarrow> publishing \<Rightarrow> bool" where
  "has_result a s \<longleftrightarrow> a \<in> re_attempt ` set (results s)"

interpretation has_result: lasting "has_result a" for a
proof unfold_locales
  fix s i x reason
  assume "has_result a s"
  then obtain r where r: "r \<in> set (results s)" "re_attempt r = a" by (auto simp: has_result_def)
  have "re_attempt (if re_id r = i then resolve_result x reason r else r) = a"
    using r(2) by (simp add: resolve_result_def)
  then show "has_result a (s\<lparr>results := tbl_update (\<lambda>q. re_id q = i) (resolve_result x reason) (results s)\<rparr>)"
    using tbl_updateI [OF r(1), of "\<lambda>q. re_id q = i" "resolve_result x reason"]
    unfolding has_result_def by (auto intro!: image_eqI)
qed (simp_all add: has_result_def)

text \<open>The intent is there, and its mode is not \<open>REAL\<close>.\<close>

definition local_intent :: "string \<Rightarrow> publishing \<Rightarrow> bool" where
  "local_intent i s \<longleftrightarrow> (\<exists>n \<in> set (intents s). in_id n = i \<and> in_mode n \<noteq> REAL)"

interpretation local_intent: lasting "local_intent i" for i
proof unfold_locales
  fix s g Q
  assume l: "local_intent i s" and w: "intent_write g"
  then obtain n where n: "n \<in> set (intents s)" "in_id n = i" "in_mode n \<noteq> REAL" by (auto simp: local_intent_def)
  have "in_id (if Q n then g n else n) = i" "in_mode (if Q n then g n else n) \<noteq> REAL"
    using n w by (simp_all add: intent_write_def)
  then show "local_intent i (s\<lparr>intents := tbl_update Q g (intents s)\<rparr>)"
    using tbl_updateI [OF n(1), of Q g] unfolding local_intent_def by (auto intro!: bexI)
qed (auto simp: local_intent_def)

text \<open>No two attempts share an identity.\<close>

definition attempts_apart :: "publishing \<Rightarrow> bool" where
  "attempts_apart s \<longleftrightarrow> distinct (map at_id (attempts s))"

interpretation attempts_apart: lasting attempts_apart
proof unfold_locales
  fix s a
  assume "attempts_apart s" "\<forall>x \<in> set (attempts s). \<not> attempt_clash a x"
  then show "attempts_apart (s\<lparr>attempts := attempts s @ [a]\<rparr>)" by (auto simp: attempts_apart_def attempt_clash_def)
next
  fix s f P
  assume "attempts_apart s" "attempt_write f"
  then show "attempts_apart (s\<lparr>attempts := tbl_update P f (attempts s)\<rparr>)"
    by (simp add: attempts_apart_def tbl_update_key attempt_write_def)
qed (simp_all add: attempts_apart_def)


section \<open>What a write does to the attempts\<close>

definition same_attempt :: "attempt_row \<Rightarrow> attempt_row \<Rightarrow> bool" where
  "same_attempt r q \<longleftrightarrow> at_id q = at_id r \<and> at_intent q = at_intent r \<and> at_version q = at_version r"

text \<open>Every live attempt was live before.\<close>

definition no_revival :: "publishing \<Rightarrow> publishing \<Rightarrow> bool" where
  "no_revival s t \<longleftrightarrow> (\<forall>r \<in> set (attempts t). live r \<longrightarrow> (\<exists>q \<in> set (attempts s). same_attempt r q \<and> live q))"

lemma no_revival_refl [simp]: "no_revival s s"
  by (auto simp: no_revival_def same_attempt_def)

lemma no_revival_update:
  assumes "no_revival s t" "\<And>r. same_attempt (f r) r" "\<And>r. r \<in> set (attempts t) \<Longrightarrow> P r \<Longrightarrow> live (f r) \<Longrightarrow> live r"
  shows "no_revival s (t\<lparr>attempts := tbl_update P f (attempts t)\<rparr>)"
  unfolding no_revival_def
proof (intro ballI impI)
  fix r
  assume "r \<in> set (attempts (t\<lparr>attempts := tbl_update P f (attempts t)\<rparr>))" and l: "live r"
  then obtain q where q: "q \<in> set (attempts t)" "r = (if P q then f q else q)" by (auto elim: tbl_updateE)
  then have "live q" using l assms(3) by (auto split: if_splits)
  with assms(1) q(1) obtain p where p: "p \<in> set (attempts s)" "same_attempt q p" "live p" by (auto simp: no_revival_def)
  moreover have "same_attempt r p" using p(2) q(2) assms(2) [of q] by (auto simp: same_attempt_def split: if_splits)
  ultimately show "\<exists>q \<in> set (attempts s). same_attempt r q \<and> live q" by blast
qed

interpretation no_revival: settling_law "no_revival s" for s
proof unfold_locales
  fix t P f
  assume "no_revival s t" "settling P f"
  then show "no_revival s (t\<lparr>attempts := tbl_update P f (attempts t)\<rparr>)"
    by (intro no_revival_update) (auto simp: settling_def attempt_write_def same_attempt_def live_def)
qed (simp_all add: no_revival_def)

text \<open>Every attempt that is not live was not live before, or is one of \<open>X\<close>.\<close>

definition closed_by :: "string set \<Rightarrow> publishing \<Rightarrow> publishing \<Rightarrow> bool" where
  "closed_by X s t \<longleftrightarrow> (\<forall>r \<in> set (attempts t). \<not> live r \<longrightarrow> at_id r \<in> X \<or> (\<exists>q \<in> set (attempts s). at_id q = at_id r \<and> \<not> live q))"

lemma closed_by_refl [simp]: "closed_by X s s"
  by (auto simp: closed_by_def)

lemma closed_by_mono: "closed_by X s t \<Longrightarrow> X \<subseteq> Y \<Longrightarrow> closed_by Y s t"
  by (auto simp: closed_by_def)

interpretation closed_by: frame_law "closed_by X s" for X s
  by unfold_locales (simp_all add: closed_by_def)

lemma closed_by_update:
  assumes "\<And>r. at_id (f r) = at_id r" "\<And>r. P r \<Longrightarrow> \<not> live (f r) \<Longrightarrow> at_id r \<in> X \<or> \<not> live r"
  shows "keeps (closed_by X s) (update_attempts P f)"
proof (rule keepsI)
  fix t
  assume c: "closed_by X s t"
  show "closed_by X s (snd (update_attempts P f t))"
    unfolding closed_by_def
  proof (intro ballI impI)
    fix r
    assume "r \<in> set (attempts (snd (update_attempts P f t)))" and l: "\<not> live r"
    then obtain q where q: "q \<in> set (attempts t)" "r = (if P q then f q else q)"
      by (auto simp: update_attempts_def elim: tbl_updateE)
    then have "at_id q \<in> X \<or> \<not> live q" using l assms(2) by (auto split: if_splits)
    with c q assms(1) show "at_id r \<in> X \<or> (\<exists>q \<in> set (attempts s). at_id q = at_id r \<and> \<not> live q)"
      by (auto simp: closed_by_def split: if_splits)
  qed
qed

lemma closed_by_insert: "live a \<Longrightarrow> keeps (closed_by X s) (insert_attempt a)"
  by (auto simp: keeps_def insert_attempt_def act_insert_def closed_by_def)

lemma closed_by_tables:
  "keeps (closed_by X s) (insert_result r)" "keeps (closed_by X s) (insert_callback b)" "keeps (closed_by X s) (insert_export ex)"
  by (simp_all add: keeps_def insert_result_def insert_callback_def insert_export_def act_insert_def act_modify_def closed_by_def)

lemmas closed_by_intros = closed_by_tables closed_by.keeps_all closed_by.keeps_helpers closed_by.keeps_move


section \<open>Which step ends which attempt\<close>

lemma live_simps [simp]:
  "live (r\<lparr>at_status := A_QUEUED\<rparr>)" "live (r\<lparr>at_status := A_DISPATCHING\<rparr>)"
  "live (r\<lparr>at_finished := fin\<rparr>) \<longleftrightarrow> live r" "live (r\<lparr>at_execution := ex, at_dispatched := di\<rparr>) \<longleftrightarrow> live r"
  "live (r\<lparr>at_status := A_DISPATCHING, at_execution := ex, at_dispatched := di\<rparr>)"
  "live (r\<lparr>at_fingerprint := fg, at_workflow := wv\<rparr>) \<longleftrightarrow> live r"
  by (simp_all add: live_def LIVE_STATUSES_def)

lemma closed_by_end: "keeps (closed_by {a} s) (end_attempt a st message now)"
  unfolding end_attempt_def by (intro closed_by_intros closed_by_update) simp_all

lemma closed_by_integrity: "keeps (closed_by {a} s) (integrity_failed_tx now i v a message)"
  unfolding integrity_failed_tx_def by (intro closed_by_intros closed_by_end)

lemma closed_by_claim: "keeps (closed_by {} s) (claimAttempt a)"
  unfolding claimAttempt_def by (intro closed_by_intros closed_by_update) simp_all

lemma closed_by_delivery: "keeps (closed_by {a} s) (delivery_step c i v a message d)"
  unfolding delivery_step_def acknowledge_tx_def delivery_failed_tx_def
  by (cases d) (auto intro!: closed_by_intros closed_by_end closed_by_update)

lemma closed_by_flag: "keeps (closed_by {at_id a} s) (flag_stuck_tx c a)"
  unfolding flag_stuck_tx_def by (intro closed_by_intros closed_by_update) (simp_all add: intent_write_def)

text \<open>A delivery that fails, and a stuck attempt that is flagged, leave a result.\<close>

lemma result_added_or_there:
  assumes "act_bind (act_read (result_of_attempt a)) (\<lambda>existing.
      act_seq (if existing = None then insert_result r else act_return ()) m) s = (Inr x, t)"
    and "re_attempt r = a" "keeps (has_result a) m"
  shows "has_result a t"
proof -
  have "\<exists>u. has_result a u \<and> m u = (Inr x, t)"
  proof (cases "result_of_attempt a s")
    case None
    then have "act_seq (insert_result r) m s = (Inr x, t)" using assms(1) by (simp add: run_simps)
    then obtain u where "insert_result r s = (Inr (), u)" "m u = (Inr x, t)"
      unfolding act_seq_def by (auto elim: act_bind_cases)
    then show ?thesis using assms(2) by (intro exI [of _ u]) (auto simp: insert_result_def act_insert_def has_result_def split: if_splits)
  next
    case (Some q)
    then have "has_result a s" by (auto simp: result_of_attempt_def has_result_def dest: tbl_find_SomeD)
    with Some show ?thesis using assms(1) by (auto simp: run_simps)
  qed
  with assms(3) show ?thesis by (auto dest: keepsD)
qed

lemma delivery_leaves_result:
  assumes "delivery_failed_tx c i v a ambiguous message s = (r, t)"
  shows "t = s \<or> has_result a t"
  using assms unfolding delivery_failed_tx_def
proof (cases rule: transaction_cases)
  case (committed x)
  then obtain u where "act_bind (act_read (result_of_attempt a)) (\<lambda>existing.
      act_seq (if existing = None then insert_result (delivery_result c i a ambiguous message) else act_return ())
        (move_intent i v (if ambiguous then ACTION_REQUIRED else FAILED))) u = (Inr x, t)"
    unfolding act_seq_def [of "end_attempt a st m n" for st m n] by (auto elim: act_bind_cases)
  from result_added_or_there [OF this] show ?thesis by (simp add: delivery_result_def has_result.keeps_move)
qed simp

lemma flag_leaves_result:
  assumes "flag_stuck_tx c a s = (r, t)"
  shows "t = s \<or> has_result (at_id a) t"
  using assms unfolding flag_stuck_tx_def
proof (cases rule: transaction_cases)
  case (committed x)
  let ?move = "act_bind (update_intents (\<lambda>r. in_id r = at_intent a \<and> in_status r \<in> set IN_DISPATCH)
            (\<lambda>r. r\<lparr>in_status := ACTION_REQUIRED\<rparr>)) (\<lambda>_. act_return ())"
  let ?rest = "act_bind (act_read (result_of_attempt (at_id a))) (\<lambda>existing.
      act_seq (if existing = None then insert_result (stuck_result c a) else act_return ()) ?move)"
  from committed(1) obtain n :: nat and u where "act_seq (require (n = 1) RecordNotFound) ?rest u = (Inr x, t)"
    by (rule act_bind_returnsE) (rule that)
  then obtain u where rest: "?rest u = (Inr x, t)" by (rule act_seq_returnsE) (rule that)
  have "keeps (has_result (at_id a)) ?move"
    by (intro has_result.keeps_all) (simp add: intent_write_def)
  with result_added_or_there [OF rest] show ?thesis by (simp add: stuck_result_def)
qed simp

lemma acknowledge_keeps_live:
  assumes "acknowledge_tx now i v a ex s = (r, t)"
  shows "closed_by {} s t"
proof -
  have "keeps (closed_by {} s) (acknowledge_tx now i v a ex)"
    unfolding acknowledge_tx_def by (intro closed_by_intros closed_by_update) simp_all
  from closed_by.op_lasting [OF this assms] show ?thesis by simp
qed

text \<open>
  The callback writes to its attempt only while the attempt has no result, and leaves one.
\<close>

definition called_back :: "string \<Rightarrow> publishing \<Rightarrow> publishing \<Rightarrow> bool" where
  "called_back a s t \<longleftrightarrow> \<not> has_result a s \<and> has_result a t
     \<and> (\<exists>f. (\<forall>r. same_attempt r (f r)) \<and> attempts t = tbl_update (\<lambda>r. at_id r = a) f (attempts s))"

lemma record_callback_effect:
  assumes "record_callback c a result k out f ts occ s = (Inr x, t)"
  shows "attempts t = attempts s \<or> called_back (at_id a) s t"
proof -
  let ?upd = "\<lambda>r. r\<lparr>at_status := publicationAttemptStateForOutcome out, at_finished := Some (call_now c)\<rparr>"
  have "attempts t = attempts s \<or> (\<not> has_result (at_id a) s \<and> has_result (at_id a) t
      \<and> attempts t = tbl_update (\<lambda>r. at_id r = at_id a) ?upd (attempts s))"
  proof (cases "result_of_attempt (at_id a) s")
    case None
    then have "\<not> has_result (at_id a) s"
      by (auto simp: result_of_attempt_def has_result_def tbl_find_None_iff)
    then show ?thesis
      using assms None unfolding record_callback_def
      by (auto simp: runs result_of_attempt_def has_result_def callback_result_def split: if_splits)
  next
    case (Some r)
    then show ?thesis
      using assms unfolding record_callback_def
      by (auto simp: runs result_of_attempt_def split: if_splits)
  qed
  moreover have "\<forall>r. same_attempt r (?upd r)" by (simp add: same_attempt_def)
  ultimately show ?thesis unfolding called_back_def by (elim disjE conjE) (simp, intro disjI2 conjI exI [of _ ?upd])
qed

lemma callback_effect:
  assumes "handleCallback E C c a envelope s = (r, t)"
  shows "attempts t = attempts s \<or> called_back a s t"
proof -
  have resolve: "resolve_duplicate k f u = (q, t) \<Longrightarrow> t = u" for k f u q
    by (auto simp: resolve_duplicate_def runs split: if_splits)
  consider (same) "t = s"
    | (ran) f ts x where "callback_tx E C c a envelope f ts s = (Inr x, t)"
    using assms
    by (auto simp: handleCallback_def Let_def run_simps act_catch_def transaction_def dest: resolve
        split: if_splits sum.splits option.splits prod.splits)
  then show ?thesis
  proof cases
    case ran
    then obtain n result k out occ where n: "find_attempt a s = Some n"
      and "record_callback c n result k out f ts occ s = (Inr x, t)"
      by (auto simp: callback_tx_def run_simps Let_def split: option.splits sum.splits if_splits prod.splits)
    from record_callback_effect [OF this(2)] show ?thesis
      using n by (auto simp: find_attempt_def dest: tbl_find_SomeD)
  qed simp
qed


section \<open>A new attempt\<close>

text \<open>
  Every attempt is one there was, as live as it was, or the attempt \<open>a\<close> of version \<open>v\<close> of \<open>i\<close>, which
  is live.
\<close>

definition grows :: "string \<Rightarrow> string \<Rightarrow> int \<Rightarrow> publishing \<Rightarrow> publishing \<Rightarrow> bool" where
  "grows a i v s t \<longleftrightarrow> (\<forall>q \<in> set (attempts t).
     (\<exists>p \<in> set (attempts s). same_attempt q p \<and> (live q \<longleftrightarrow> live p))
     \<or> (at_id q = a \<and> at_intent q = i \<and> at_version q = v \<and> live q))"

lemma grows_same: "attempts t = attempts s \<Longrightarrow> grows a i v s t"
  by (auto simp: grows_def same_attempt_def)

lemma grows_append:
  "attempts t = attempts s @ [r] \<Longrightarrow> live r \<Longrightarrow> at_id r = a \<Longrightarrow> at_intent r = i \<Longrightarrow> at_version r = v \<Longrightarrow> grows a i v s t"
  by (auto simp: grows_def same_attempt_def)

lemma stamp_live:
  "q \<in> set (attempts (stamp C b f s)) \<Longrightarrow> \<exists>p \<in> set (attempts s). same_attempt q p \<and> (live q \<longleftrightarrow> live p)"
  unfolding stamp_def by (auto simp: same_attempt_def elim!: tbl_updateE)

lemma grows_stamp:
  assumes "grows a i v s t"
  shows "grows a i v s (stamp C b f t)"
  unfolding grows_def
proof
  fix q
  assume "q \<in> set (attempts (stamp C b f t))"
  then obtain p where p: "p \<in> set (attempts t)" "same_attempt q p" "live q \<longleftrightarrow> live p"
    using stamp_live by blast
  from assms p(1) show "(\<exists>p \<in> set (attempts s). same_attempt q p \<and> (live q \<longleftrightarrow> live p))
     \<or> (at_id q = a \<and> at_intent q = i \<and> at_version q = v \<and> live q)"
    using p(2,3) unfolding grows_def same_attempt_def by metis
qed

text \<open>A job that goes on adds its attempt to a version that has no live one, or recovers one.\<close>

lemma live_attempt_None:
  "live_attempt i v s = None \<longleftrightarrow> (\<forall>r \<in> set (attempts s). at_intent r = i \<longrightarrow> at_version r = v \<longrightarrow> \<not> live r)"
  by (auto simp: live_attempt_def find_None_iff live_def)

lemma fresh_grows:
  assumes "runRevalidationAndCreateAttempt E C c i v key s = (Inr (Fresh a body), t)"
  shows "grows a i v s t \<and> (live_attempt i v s = None \<or> (\<forall>q \<in> set (attempts t). \<exists>p \<in> set (attempts s). same_attempt q p \<and> (live q \<longleftrightarrow> live p)))"
  using assms
proof (cases rule: revalidation_cases)
  case (recovery n b)
  from recovery(4) obtain f where "t = stamp C (at_id b) f s" "a = at_id b"
    by (elim prepare_cases) auto
  then show ?thesis using stamp_live grows_stamp [OF grows_same [of s s]] by blast
next
  case (claim n)
  let ?s = "claimed_intents i v s"
  from claim(5) obtain b f where b: "t = stamp C (at_id b) f (?s\<lparr>attempts := attempts ?s @ [b]\<rparr>)" "a = at_id b"
    "b = next_attempt c i v key ?s" "live_attempt i v ?s = None"
    by (elim prepare_cases) auto
  have "grows a i v s (?s\<lparr>attempts := attempts ?s @ [b]\<rparr>)"
    by (rule grows_append [where r = b]) (simp_all add: b(2,3) claimed_intents_frame next_attempt_def new_attempt_def live_def LIVE_STATUSES_def)
  then show ?thesis
    using b(1,4) grows_stamp by (auto simp: live_attempt_def claimed_intents_frame)
qed

text \<open>A local action adds a settled attempt to an intent whose mode is not \<open>REAL\<close>.\<close>

lemma run_store_export:
  assumes "act_seq (store_export archive c n cd mode (insert_attempt a)) m s = (Inr x, t)"
  obtains ex where "m (s\<lparr>attempts := attempts s @ [a], exports := exports s @ ex\<rparr>) = (Inr x, t)"
proof (cases "mode = MANUAL_EXPORT")
  case True
  then show thesis
    using assms by (auto simp: store_export_def runs act_seq_def [of "act_seq u v" for u v] act_bind_def insert_export_def
        act_modify_def split: sum.splits if_splits intro: that)
next
  case False
  then have "m (s\<lparr>attempts := attempts s @ [a]\<rparr>) = (Inr x, t)"
    using assms by (simp add: store_export_def runs split: if_splits)
  then show thesis using that [of "[]"] by simp
qed

lemma run_local_tail:
  "act_seq (insert_result r) (act_bind (set_intent i g) (\<lambda>n. act_return (h n))) s = (Inr x, t) \<Longrightarrow> attempts t = attempts s"
  by (auto simp: runs split: if_splits option.splits)

lemma local_effect:
  assumes "runLocalAction E archive c mode i b key s = (r, t)"
  shows "attempts t = attempts s \<or> (\<exists>n seq. find_intent i s = Some n \<and> in_mode n = mode
    \<and> attempts t = attempts s @ [local_attempt E c n mode key seq])"
  using assms(1) unfolding runLocalAction_def
proof (cases rule: transaction_cases)
  case (committed x)
  then show ?thesis
    by (auto simp: local_tx_def run_simps run_set_intent Let_def split: option.splits if_splits
        elim!: run_store_export dest!: run_local_tail)
qed simp

lemma local_grows:
  assumes "runLocalAction E archive c mode i b key s = (r, t)" "mode \<noteq> REAL"
  shows "attempts t = attempts s \<or> (\<exists>a v. grows a i v s t \<and> local_intent i s)"
  using local_effect [OF assms(1)]
proof (elim disjE exE conjE)
  fix n seq
  let ?a = "local_attempt E c n mode key seq"
  assume n: "find_intent i s = Some n" "in_mode n = mode" and t: "attempts t = attempts s @ [?a]"
  have i: "n \<in> set (intents s)" "in_id n = i" using n(1) by (auto simp: find_intent_def dest: tbl_find_SomeD)
  have "grows (at_id ?a) i (at_version ?a) s t"
    by (rule grows_append [OF t]) (simp_all add: local_attempt_def live_def LIVE_STATUSES_def i(2))
  moreover have "local_intent i s" using i n(2) assms(2) by (auto simp: local_intent_def)
  ultimately show ?thesis by blast
qed simp


section \<open>At most one attempt of a version is open\<close>

definition ended :: "string \<Rightarrow> publishing \<Rightarrow> bool" where
  "ended a s \<longleftrightarrow> (\<exists>r \<in> set (attempts s). at_id r = a \<and> \<not> live r)"

definition one_live :: "publishing \<Rightarrow> bool" where
  "one_live s \<longleftrightarrow> (\<forall>r \<in> set (attempts s). \<forall>q \<in> set (attempts s). live r \<longrightarrow> live q \<longrightarrow>
     at_intent q = at_intent r \<longrightarrow> at_version q = at_version r \<longrightarrow> at_id q = at_id r \<or> local_intent (at_intent r) s)"

definition flight_ok :: "world \<Rightarrow> bool" where
  "flight_ok w \<longleftrightarrow> attempts_apart (db w) \<and> one_live (db w)
     \<and> (\<forall>a \<in> set (in_flight w). ended a (db w) \<longrightarrow> has_result a (db w))"

text \<open>No integrity failure of an attempt that is in flight.\<close>

definition undisturbed :: "world \<Rightarrow> label \<Rightarrow> bool" where
  "undisturbed w l \<longleftrightarrow> (\<forall>a. l = L_integrity a \<longrightarrow> a \<notin> set (in_flight w))"

lemma in_flight_remove: "set (concat (map claims_of (remove1 k ks))) \<subseteq> set (concat (map claims_of ks))"
  using set_remove1_subset [of k ks] by auto

lemma in_flight_dismiss [simp]:
  "set (in_flight (dismiss k (w\<lparr>db := s\<rparr>))) \<subseteq> set (in_flight w)" "set (in_flight (dismiss k w)) \<subseteq> set (in_flight w)"
  using in_flight_remove [of k "workers w"] by (auto simp: in_flight_def dismiss_def)

lemma one_live_quiet:
  assumes "one_live s" "no_revival s t" "\<And>i. local_intent i s \<Longrightarrow> local_intent i t"
  shows "one_live t"
  unfolding one_live_def
proof (intro ballI impI)
  fix r q
  assume r: "r \<in> set (attempts t)" "live r" and q: "q \<in> set (attempts t)" "live q"
    and same: "at_intent q = at_intent r" "at_version q = at_version r"
  obtain r' where r': "r' \<in> set (attempts s)" "same_attempt r r'" "live r'" using assms(2) r by (auto simp: no_revival_def)
  obtain q' where q': "q' \<in> set (attempts s)" "same_attempt q q'" "live q'" using assms(2) q by (auto simp: no_revival_def)
  have "at_id q' = at_id r' \<or> local_intent (at_intent r') s"
    using assms(1) r' q' same by (auto simp: one_live_def same_attempt_def)
  then show "at_id q = at_id r \<or> local_intent (at_intent r) t"
    using r'(2) q'(2) assms(3) by (auto simp: same_attempt_def)
qed

text \<open>A step that revives no attempt, and leaves a result for every attempt in flight that it ends.\<close>

lemma flight_quiet:
  assumes ok: "flight_ok w" and step: "publish_step V w l w'"
    and "no_revival (db w) (db w')" "closed_by X (db w) (db w')" "set (in_flight w') \<subseteq> set (in_flight w)"
    and X: "\<And>a. a \<in> X \<Longrightarrow> a \<in> set (in_flight w) \<Longrightarrow> has_result a (db w')"
  shows "flight_ok w'"
proof -
  have "one_live (db w')"
    using ok assms(3) local_intent.step_lasting [OF step] by (auto simp: flight_ok_def intro: one_live_quiet)
  moreover have "has_result a (db w')" if "a \<in> set (in_flight w')" "ended a (db w')" for a
  proof (cases "a \<in> X")
    case True
    then show ?thesis using X that(1) assms(5) by blast
  next
    case False
    then have "ended a (db w)" using assms(4) that(2) by (auto simp: ended_def closed_by_def)
    then show ?thesis using ok that(1) assms(5) has_result.step_lasting [OF step] by (auto simp: flight_ok_def)
  qed
  ultimately show ?thesis
    using ok attempts_apart.step_lasting [OF step] by (simp add: flight_ok_def)
qed

lemma grows_ended: "grows a i v s t \<Longrightarrow> ended b t \<Longrightarrow> ended b s"
  unfolding ended_def grows_def same_attempt_def by metis

text \<open>A step that adds a live attempt to a version without one, or to a local intent.\<close>

lemma one_live_grows:
  assumes "one_live s" "grows a i v s t" "live_attempt i v s = None \<or> local_intent i t"
    "\<And>j. local_intent j s \<Longrightarrow> local_intent j t"
  shows "one_live t"
  unfolding one_live_def
proof (intro ballI impI)
  fix r q
  assume r: "r \<in> set (attempts t)" "live r" and q: "q \<in> set (attempts t)" "live q"
    and same: "at_intent q = at_intent r" "at_version q = at_version r"
  let ?old = "\<lambda>r. \<exists>p \<in> set (attempts s). same_attempt r p \<and> live p"
  let ?new = "\<lambda>r. at_id r = a \<and> at_intent r = i \<and> at_version r = v"
  have "?old r \<or> ?new r" "?old q \<or> ?new q" using assms(2) r q unfolding grows_def by metis+
  then consider (old) "?old r" "?old q" | (mixed) "?old r \<or> ?old q" "?new r \<or> ?new q" | (new) "?new r" "?new q" by blast
  then show "at_id q = at_id r \<or> local_intent (at_intent r) t"
  proof cases
    case old
    then obtain r' q' where "r' \<in> set (attempts s)" "same_attempt r r'" "live r'" "q' \<in> set (attempts s)" "same_attempt q q'" "live q'"
      by blast
    then have "at_id q = at_id r \<or> local_intent (at_intent r) s"
      using assms(1) same by (auto simp: one_live_def same_attempt_def)
    then show ?thesis using assms(4) by blast
  next
    case mixed
    then have "at_intent r = i" "at_version r = v" using same by auto
    then have "live_attempt i v s \<noteq> None"
      using mixed(1) same by (auto simp: live_attempt_None same_attempt_def)
    with assms(3) show ?thesis using \<open>at_intent r = i\<close> by simp
  qed simp
qed

lemma flight_grows:
  assumes ok: "flight_ok w" and step: "publish_step V w l w'" and g: "grows a i v (db w) (db w')"
    and "live_attempt i v (db w) = None \<or> local_intent i (db w')" "set (in_flight w') \<subseteq> set (in_flight w)"
  shows "flight_ok w'"
proof -
  have "one_live (db w')"
    using ok g assms(4) local_intent.step_lasting [OF step] by (auto simp: flight_ok_def intro: one_live_grows)
  moreover have "has_result b (db w')" if "b \<in> set (in_flight w')" "ended b (db w')" for b
    using ok that assms(5) grows_ended [OF g] has_result.step_lasting [OF step] by (auto simp: flight_ok_def)
  ultimately show ?thesis using ok attempts_apart.step_lasting [OF step] by (simp add: flight_ok_def)
qed

lemma claim_opens:
  assumes "claimAttempt a s = (Inr True, t)" "attempts_apart s"
  shows "\<not> ended a t"
proof
  let ?P = "\<lambda>r. at_id r = a \<and> at_status r = A_QUEUED"
  have one: "tbl_count ?P (attempts s) = 1"
    and t: "attempts t = tbl_update ?P (\<lambda>r. r\<lparr>at_status := A_DISPATCHING\<rparr>) (attempts s)"
    using assms(1) by (auto simp: claimAttempt_def act_bind_def update_attempts_def act_return_def)
  then have "tbl_count ?P (attempts s) \<noteq> 0" by simp
  then obtain p where p: "p \<in> set (attempts s)" "?P p" unfolding tbl_count_0_iff by blast
  assume "ended a t"
  then obtain r where r: "r \<in> set (attempts t)" "at_id r = a" "\<not> live r" by (auto simp: ended_def)
  then obtain q where q: "q \<in> set (attempts s)" "r = (if ?P q then q\<lparr>at_status := A_DISPATCHING\<rparr> else q)"
    unfolding t by (auto elim: tbl_updateE)
  then have "\<not> ?P q" "at_id q = a" using r(2,3) by (auto split: if_splits)
  moreover have "q = p"
    using assms(2) p q(1) \<open>at_id q = a\<close> by (auto simp: attempts_apart_def distinct_map dest: inj_onD)
  ultimately show False using p(2) by simp
qed

lemma callback_quiet:
  assumes "called_back a s t" "ended a s \<Longrightarrow> has_result a s"
  shows "no_revival s t" "closed_by {a} s t"
proof -
  obtain f where f: "\<And>r. same_attempt r (f r)" "attempts t = tbl_update (\<lambda>r. at_id r = a) f (attempts s)"
    and n: "\<not> has_result a s" using assms(1) by (auto simp: called_back_def)
  then have open_: "\<not> ended a s" using assms(2) by blast
  have origin: "\<exists>p \<in> set (attempts s). same_attempt q p \<and> (at_id q \<noteq> a \<longrightarrow> q = p)" if "q \<in> set (attempts t)" for q
  proof -
    from that obtain p where p: "p \<in> set (attempts s)" "q = (if at_id p = a then f p else p)"
      unfolding f(2) by (rule tbl_updateE)
    with f(1) [of p] show ?thesis by (intro bexI [of _ p]) (auto simp: same_attempt_def)
  qed
  show "no_revival s t"
    unfolding no_revival_def using origin open_ by (fastforce simp: ended_def same_attempt_def)
  show "closed_by {a} s t"
    unfolding closed_by_def using origin by (fastforce simp: same_attempt_def)
qed

text \<open>The steps that end with the dismissal of a worker.\<close>

lemma flight_dismiss:
  assumes ok: "flight_ok w" and step: "publish_step V w l w'" and w': "w' = dismiss k (w\<lparr>db := t\<rparr>)"
    and "no_revival (db w) t" "closed_by X (db w) t" "\<And>a. a \<in> X \<Longrightarrow> a \<in> set (in_flight w) \<Longrightarrow> has_result a t"
  shows "flight_ok w'"
proof -
  have "db w' = t" by (simp add: w' dismiss_def)
  then show ?thesis
    using assms(4-6) in_flight_dismiss(1) [of k t w] by (intro flight_quiet [OF ok step, of X]) (simp_all add: w' del: in_flight_dismiss)
qed

lemma delivery_effect:
  assumes "delivery_step c i v a message d s = (r, t)"
  shows "closed_by {} s t \<or> has_result a t"
  using assms by (cases d) (auto simp: delivery_step_def dest: acknowledge_keeps_live delivery_leaves_result)

lemma flight_delivery:
  assumes ok: "flight_ok w" and step: "publish_step V w l w'" and w': "w' = dismiss k (w\<lparr>db := t\<rparr>)"
    and d: "delivery_step c i v a message d (db w) = (r, t)"
  shows "flight_ok w'"
  using delivery_effect [OF d]
proof
  assume "closed_by {} (db w) t"
  then show ?thesis using no_revival.op_lasting [OF no_revival.keeps_delivery d] by (intro flight_dismiss [OF ok step w', of "{}"]) simp_all
next
  assume "has_result a t"
  then show ?thesis
    using no_revival.op_lasting [OF no_revival.keeps_delivery d] closed_by.op_lasting [OF closed_by_delivery d, of "db w"]
    by (intro flight_dismiss [OF ok step w', of "{a}"]) simp_all
qed

lemma flight_step:
  assumes ok: "flight_ok w" and good: "undisturbed w l" and step: "publish_step V w l w'"
  shows "flight_ok w'"
  using step
proof (cases rule: publish_step.cases)
  case (request c req r t)
  show ?thesis
  proof (cases "local_action req")
    case True
    then obtain i b key mode q where "runLocalAction (sv_env V) (sv_archive V) c mode i b key (db w) = (q, t)" "mode \<noteq> REAL"
      using request(3) by (auto simp: local_action_def serve_def act_void_def act_bind_def dispatchExport_def
          dispatchSimulation_def act_return_def split: request.splits prod.splits sum.splits)
    from local_grows [OF this] show ?thesis
    proof (elim disjE exE conjE)
      assume "attempts t = attempts (db w)"
      then show ?thesis
        using request(2) by (intro flight_quiet [OF ok step, of "{}"]) (auto simp: no_revival_def closed_by_def same_attempt_def in_flight_def)
    next
      fix a v
      assume "grows a i v (db w) t" "local_intent i (db w)"
      then show ?thesis
        using request(2) local_intent.step_lasting [OF step] by (intro flight_grows [OF ok step]) (auto simp: in_flight_def)
    qed
  next
    case False
    then show ?thesis
      using request no_revival.op_lasting [OF no_revival.keeps_serve_remote request(3)]
        closed_by.op_lasting [OF closed_by.keeps_serve_remote request(3)]
      by (intro flight_quiet [OF ok step, of "{}"]) (auto simp: in_flight_def)
  qed
next
  case (begin_fresh c i v key a body t)
  have sub: "set (in_flight w') \<subseteq> set (in_flight w)" using begin_fresh(2) by (auto simp: in_flight_def)
  from fresh_grows [OF begin_fresh(3)] show ?thesis
  proof (elim conjE disjE)
    assume "grows a i v (db w) t" "live_attempt i v (db w) = None"
    then show ?thesis using begin_fresh(2) sub by (intro flight_grows [OF ok step]) auto
  next
    assume old: "\<forall>q \<in> set (attempts t). \<exists>p \<in> set (attempts (db w)). same_attempt q p \<and> (live q \<longleftrightarrow> live p)"
    have "no_revival (db w) t" unfolding no_revival_def using old by blast
    moreover have "closed_by {} (db w) t" unfolding closed_by_def using old by (fastforce simp: same_attempt_def)
    ultimately show ?thesis using begin_fresh(2) sub by (intro flight_quiet [OF ok step, of "{}"]) auto
  qed
next
  case (begin_refused c i v key e t)
  then have "t = db w" by (auto simp: runRevalidationAndCreateAttempt_def elim: transaction_cases)
  then show ?thesis using begin_refused(2) by (intro flight_quiet [OF ok step, of "{}"]) (auto simp: in_flight_def)
next
  case (refuse i v r t)
  show ?thesis
    by (rule flight_dismiss [OF ok step refuse(2), of "{}"])
      (simp_all add: no_revival.op_lasting [OF no_revival.keeps_mark refuse(4)] closed_by.op_lasting [OF closed_by.keeps_mark refuse(4)])
next
  case (integrity i v a body now message r t)
  have "a \<notin> set (in_flight w)" using good integrity(1) by (simp add: undisturbed_def)
  then show ?thesis
    by (intro flight_dismiss [OF ok step integrity(2), of "{a}"])
      (auto simp: no_revival.op_lasting [OF no_revival.keeps_integrity integrity(4)]
        closed_by.op_lasting [OF closed_by_integrity integrity(4)])
next
  case (claim i v a body t)
  have t: "db w' = t" using claim(2) by (simp add: replace_worker_def)
  have one: "one_live t"
    using ok local_intent.step_lasting [OF step] no_revival.op_lasting [OF no_revival.keeps_claim claim(4)] t
    by (auto simp: flight_ok_def intro: one_live_quiet)
  have "has_result b t" if b: "b \<in> set (in_flight w')" "ended b t" for b
  proof -
    have "b \<noteq> a" using claim_opens [OF claim(4)] ok b(2) by (auto simp: flight_ok_def)
    then have "b \<in> set (in_flight w)"
      using b(1) claim(2) in_flight_remove [of "Checked i v a body" "workers w"] by (auto simp: in_flight_def replace_worker_def)
    moreover have "ended b (db w)"
      using b(2) closed_by.op_lasting [OF closed_by_claim claim(4), of "db w"] by (auto simp: ended_def closed_by_def)
    ultimately show ?thesis using ok has_result.step_lasting [OF step] t by (auto simp: flight_ok_def)
  qed
  then show ?thesis using ok one attempts_apart.step_lasting [OF step] t by (simp add: flight_ok_def)
next
  case (claim_lost i v a body t)
  show ?thesis
    by (rule flight_dismiss [OF ok step claim_lost(2), of "{}"])
      (simp_all add: no_revival.op_lasting [OF no_revival.keeps_claim claim_lost(4)] closed_by.op_lasting [OF closed_by_claim claim_lost(4)])
next
  case (post i v a body)
  have "set (in_flight w') \<subseteq> set (in_flight w)"
    using post(2,3) in_flight_remove [of "Claimed i v a body" "workers w"] by (force simp: in_flight_def replace_worker_def)
  then show ?thesis using post(2) by (intro flight_quiet [OF ok step, of "{}"]) (auto simp: replace_worker_def)
next
  case (unconfigured i v a body c message r t)
  show ?thesis by (rule flight_delivery [OF ok step unconfigured(2,4)])
next
  case (answer i v a d c message r t)
  show ?thesis by (rule flight_delivery [OF ok step answer(2,5)])
next
  case (crash k)
  show ?thesis by (rule flight_dismiss [OF ok step, of k "db w" "{}"]) (simp_all add: crash(2))
next
  case (callback a c envelope r t)
  have a: "a \<in> set (in_flight w)" using callback(3) by (auto simp: in_flight_def)
  from callback_effect [OF callback(4)] show ?thesis
  proof
    assume "attempts t = attempts (db w)"
    then show ?thesis
      using callback(2) by (intro flight_quiet [OF ok step, of "{}"]) (auto simp: no_revival_def closed_by_def same_attempt_def in_flight_def)
  next
    assume cb: "called_back a (db w) t"
    have "ended a (db w) \<Longrightarrow> has_result a (db w)" using ok a by (simp add: flight_ok_def)
    from callback_quiet [OF cb this] cb show ?thesis
      using callback(2) by (intro flight_quiet [OF ok step, of "{a}"]) (auto simp: called_back_def in_flight_def)
  qed
next
  case (sweep_flags a c r t)
  have "no_revival (db w) t" "closed_by {at_id a} (db w) t"
    using no_revival.op_lasting [OF no_revival.keeps_flag sweep_flags(4)] closed_by.op_lasting [OF closed_by_flag sweep_flags(4)]
    by simp_all
  moreover from flag_leaves_result [OF sweep_flags(4)] have "closed_by {} (db w) t \<or> has_result (at_id a) t" by auto
  ultimately show ?thesis
    using sweep_flags(2) flight_quiet [OF ok step, of "{}"] flight_quiet [OF ok step, of "{at_id a}"] by (auto simp: in_flight_def)
next
  case (sync_failed i v)
  show ?thesis by (rule flight_quiet [OF ok step, of "{}"]) (simp_all add: sync_failed(2) in_flight_def)
next
  case (sweep_reads now)
  show ?thesis by (rule flight_quiet [OF ok step, of "{}"]) (simp_all add: sweep_reads(2) in_flight_def)
qed

lemma flight_history: "history V undisturbed w ls w' \<Longrightarrow> flight_ok w \<Longrightarrow> flight_ok w'"
  by (erule history_invariant [where I = flight_ok]) (auto intro: flight_step)

end
