(* ===== verification/Publish_Samples.thy ===== *)
theory Publish_Samples
  imports Publish_Flight Sample_Data
begin

text \<open>
  Concrete rows, configurations and runs for the witnesses of the publishing service: an owner's
  intent with its candidate, target and approval, and a job that posts it.
\<close>


section \<open>Rows\<close>

definition pub_call :: "string \<Rightarrow> int \<Rightarrow> call" where
  "pub_call name now = \<lparr>call_now = now, call_id = \<lambda>n. name @ dec_nat n\<rparr>"

definition pub_config :: publish_config where
  "pub_config = \<lparr>callback_base_url = ''https://api'', workflow_version = ''w1'', signing_secret = ''s'',
     signing_key_id = ''k1'', n8n_auth_token = ''t''\<rparr>"

definition pub_payload :: json where
  "pub_payload = JObj [(''candidate_id'', JStr ''cand''), (''content_format'', JStr ''text_post''), (''assets'', JArr [])]"

definition pub_candidate :: candidate_row where
  "pub_candidate = \<lparr>cd_id = ''cand'', cd_business = ''biz'', cd_external = ''ext'', cd_checksum = ''sum'', cd_fingerprint = ''fp'',
     cd_event = ''ev'', cd_status = C_ACTIVE, cd_source_status = JNull, cd_payload = pub_payload, cd_channel = JStr ''facebook'',
     cd_format = JStr ''text_post'', cd_locale = JStr ''en'', cd_week = JNull, cd_source_version = 1, cd_received = 0,
     cd_version = 1\<rparr>"

definition pub_target :: target_row where
  "pub_target = \<lparr>tg_id = ''tgt'', tg_business = ''biz'', tg_channel = ''facebook'', tg_external = ''page'', tg_name = ''Bakery'',
     tg_state = T_CONNECTED, tg_credential = ''cred'', tg_capabilities = JArr [JStr ''text''], tg_verified = None,
     tg_expires = None, tg_version = 1\<rparr>"

definition pub_intent :: "intent_status \<Rightarrow> intent_row" where
  "pub_intent st = \<lparr>in_id = ''int'', in_business = ''biz'', in_candidate = ''cand'', in_target = Some ''tgt'', in_mode = REAL,
     in_status = st, in_local = Some 0, in_zone = Some ''Africa/Cairo'', in_utc = Some 0, in_version = 2, in_creator = ''u'',
     in_key = Some ''k'', in_created = 0\<rparr>"

definition pub_approval :: approval_row where
  "pub_approval = \<lparr>ap_id = ''apr'', ap_intent = ''int'', ap_version = 2, ap_checksum = ''sum'', ap_decision = APPROVED,
     ap_by = ''u'', ap_at = 0, ap_notes = None, ap_fingerprint = ''f'', ap_key = ''ak''\<rparr>"

text \<open>An attempt made before, which failed.\<close>

definition pub_failed :: attempt_row where
  "pub_failed = (new_attempt (pub_call ''z'' 0) ''int'' 2 ''zk'' 1)\<lparr>at_status := A_FAILED\<rparr>"

definition pub_failure :: result_row where
  "pub_failure = delivery_result (pub_call ''r'' 0) ''int'' (at_id pub_failed) False ''refused''"

definition pub_store :: "bool \<Rightarrow> intent_status \<Rightarrow> publishing" where
  "pub_store again st = \<lparr>candidates = [pub_candidate], targets = [pub_target], intents = [pub_intent st],
     approvals = [pub_approval], attempts = (if again then [pub_failed] else []),
     results = (if again then [pub_failure] else []), callbacks = [], exports = []\<rparr>"

text \<open>The world before a job: with \<open>again\<close>, a first attempt was posted and has failed.\<close>

definition pub_world :: "bool \<Rightarrow> world" where
  "pub_world again = \<lparr>db = pub_store again SCHEDULED, workers = [], reading = [],
     posted = (if again then [(at_id pub_failed, JNull)] else [])\<rparr>"

definition pub_service :: service where
  "pub_service = \<lparr>sv_env = sample_env, sv_zones = (\<lambda>_. None), sv_config = pub_config,
     sv_archive = (\<lambda>artifact intent doc now. Inr (artifact, ''sum'', JNull))\<rparr>"

definition pub_attempt :: "bool \<Rightarrow> attempt_row" where
  "pub_attempt again = new_attempt (pub_call ''a'' 0) ''int'' 2 ''dk'' (if again then 2 else 1)"

definition pub_body :: "bool \<Rightarrow> json" where
  "pub_body again =
     (case buildDispatchBody sample_env pub_config (pub_attempt again) ''biz'' pub_candidate pub_target pub_approval 0 0 of
        Inr (body, f) \<Rightarrow> body | Inl e \<Rightarrow> JNull)"

lemma sha_total [simp]: "jwf v \<Longrightarrow> computePublishingSha256 sample_env v = Inr sample_sha"
  by (simp add: computePublishingSha256_wf)

lemmas pub_row_defs = pub_attempt_def new_attempt_def pub_candidate_def pub_target_def pub_approval_def pub_payload_def
  pub_config_def pub_call_def

lemma pub_body_built:
  "buildDispatchBody sample_env pub_config (pub_attempt again) ''biz'' pub_candidate pub_target pub_approval 0 0
     = Inr (pub_body again, sample_sha)"
proof -
  let ?approval = "approval_fields sample_env (pub_attempt again) pub_payload pub_target pub_approval 0"
  have a: "jwf (JObj ?approval)" "jwf (JObj (?approval @ [(''approval_fingerprint'', JStr sample_sha)]))"
    by (simp_all add: approval_fields_def pub_row_defs)
  have "jwf (JObj (dispatch_fields sample_env pub_config (pub_attempt again) ''biz'' pub_candidate pub_target
      (JObj (?approval @ [(''approval_fingerprint'', JStr sample_sha)])) 0 0))"
    using a(2) by (simp add: dispatch_fields_def target_document_def frozenCapabilities_def pub_row_defs Let_def opt_iso_def
        del: append.simps)
  then show ?thesis
    using a unfolding pub_body_def buildDispatchBody_def
    by (simp add: computePublicationApprovalFingerprint_def computeDispatchRequestFingerprint_def Let_def pub_candidate_def)
qed


section \<open>A run\<close>

text \<open>The attempt of the run, in the states it goes through.\<close>

definition pub_attempt_id :: string where
  "pub_attempt_id = ''a'' @ dec_nat 0"

definition pub_stamped :: "bool \<Rightarrow> attempt_status \<Rightarrow> attempt_row" where
  "pub_stamped again st = (pub_attempt again)\<lparr>at_status := st, at_fingerprint := Some sample_sha, at_workflow := Some ''w1''\<rparr>"

definition pub_flying :: "bool \<Rightarrow> attempt_status \<Rightarrow> publishing" where
  "pub_flying again st = (pub_store again DISPATCHING)
     \<lparr>attempts := attempts (pub_store again DISPATCHING) @ [pub_stamped again st]\<rparr>"

lemma pub_failed_simps [simp]:
  "at_id pub_failed = ''z'' @ dec_nat 0" "at_intent pub_failed = ''int''" "at_version pub_failed = 2" "at_key pub_failed = ''zk''"
  "at_status pub_failed = A_FAILED" "at_seq pub_failed = 1" "re_attempt pub_failure = ''z'' @ dec_nat 0"
  by (simp_all add: pub_failed_def pub_failure_def delivery_result_def new_attempt_def pub_call_def)

lemma pub_attempt_simps [simp]:
  "at_id (pub_attempt again) = pub_attempt_id" "at_intent (pub_attempt again) = ''int''" "at_version (pub_attempt again) = 2"
  "at_key (pub_attempt again) = ''dk''" "at_status (pub_attempt again) = A_QUEUED"
  "at_seq (pub_attempt again) = (if again then 2 else 1)"
  by (simp_all add: pub_attempt_def new_attempt_def pub_call_def pub_attempt_id_def)

lemma pub_ids [simp]: "pub_attempt_id \<noteq> CHR ''z'' # dec_nat 0" "CHR ''z'' # dec_nat 0 \<noteq> pub_attempt_id"
  by (simp_all add: pub_attempt_id_def)

lemma pub_intent_simps [simp]:
  "in_id (pub_intent st) = ''int''" "in_version (pub_intent st) = 2" "in_status (pub_intent st) = st"
  "in_business (pub_intent st) = ''biz''" "in_candidate (pub_intent st) = ''cand''" "in_target (pub_intent st) = Some ''tgt''"
  "in_utc (pub_intent st) = Some 0" "in_mode (pub_intent st) = REAL" "(pub_intent st)\<lparr>in_status := st'\<rparr> = pub_intent st'"
  by (simp_all add: pub_intent_def)

lemma pub_store_simps [simp]:
  "attempts (pub_store again st) = (if again then [pub_failed] else [])"
  "results (pub_store again st) = (if again then [pub_failure] else [])" "intents (pub_store again st) = [pub_intent st]"
  "candidates (pub_store again st) = [pub_candidate]" "approvals (pub_store again st) = [pub_approval]"
  "callbacks (pub_store again st) = []" "(pub_store again st)\<lparr>intents := [pub_intent st']\<rparr> = pub_store again st'"
  by (simp_all add: pub_store_def)

lemma pub_next_attempt: "next_attempt (pub_call ''a'' 0) ''int'' 2 ''dk'' (pub_store again st) = pub_attempt again"
  by (simp add: next_attempt_def pub_attempt_def intent_attempts_def next_seq_def newest_def)

lemma pub_store_finds:
  "find_intent ''int'' (pub_store again st) = Some (pub_intent st)"
  "find_candidate ''cand'' (pub_store again st) = Some pub_candidate"
  "find_target ''tgt'' (pub_store again st) = Some pub_target"
  "attempt_by_key ''int'' ''dk'' (pub_store again st) = None"
  "live_attempt ''int'' 2 (pub_store again st) = None"
  "current_approval ''int'' 2 (pub_store again st) = Some pub_approval"
  by (simp_all add: find_intent_def find_candidate_def find_target_def attempt_by_key_def live_attempt_def current_approval_def
      LIVE_STATUSES_def pub_store_def pub_intent_def pub_candidate_def pub_target_def pub_approval_def)

lemma pub_claim_intent:
  "act_seq (claim_intent ''int'' 2 (pub_intent SCHEDULED)) m (pub_store again SCHEDULED) = m (pub_store again DISPATCHING)"
  by (simp add: claim_intent_def act_seq_def [of "act_seq u v" for u v] act_bind_def [of "act_seq u v" for u v] runs tbl_update_def
      tbl_count_def rows_apart_def)

lemma pub_prepare:
  "prepare_attempt sample_env pub_config (pub_call ''a'' 0) ''int'' 2 ''dk'' (pub_intent SCHEDULED) None (pub_store again DISPATCHING)
     = (Inr (Fresh pub_attempt_id (pub_body again)), pub_flying again A_QUEUED)"
proof -
  have checks: "cd_status pub_candidate = C_ACTIVE" "cd_checksum pub_candidate = ap_checksum pub_approval"
    "tg_state pub_target = T_CONNECTED" "\<not> expired (call_now (pub_call ''a'' 0)) pub_target"
    "started_or_created (pub_attempt again) = 0" "workflow_version pub_config = ''w1''"
    by (simp_all add: pub_row_defs expired_def started_or_created_def)
  have stamped: "(pub_attempt again)\<lparr>at_fingerprint := Some sample_sha, at_workflow := Some ''w1''\<rparr> = pub_stamped again A_QUEUED"
    by (simp add: pub_stamped_def pub_row_defs)
  show ?thesis
    unfolding prepare_attempt_def
    by (simp add: runs pub_store_finds checks Let_def pub_next_attempt pub_body_built stamp_def tbl_update_def pub_flying_def
        stamped attempt_clash_def)
qed

lemma pub_begin:
  "runRevalidationAndCreateAttempt sample_env pub_config (pub_call ''a'' 0) ''int'' 2 ''dk'' (pub_store again SCHEDULED)
     = (Inr (Fresh pub_attempt_id (pub_body again)), pub_flying again A_QUEUED)"
  unfolding runRevalidationAndCreateAttempt_def revalidate_tx_def transaction_def
  by (simp add: runs pub_store_finds recovers_def pub_claim_intent pub_prepare)

lemma pub_stamped_simps [simp]:
  "at_id (pub_stamped again st) = pub_attempt_id" "at_status (pub_stamped again st) = st"
  "at_intent (pub_stamped again st) = ''int''" "at_version (pub_stamped again st) = 2"
  "(pub_stamped again st)\<lparr>at_status := st'\<rparr> = pub_stamped again st'"
  by (simp_all add: pub_stamped_def)

lemma pub_flying_simps [simp]:
  "attempts (pub_flying again st) = (if again then [pub_failed, pub_stamped again st] else [pub_stamped again st])"
  "results (pub_flying again st) = (if again then [pub_failure] else [])"
  "intents (pub_flying again st) = [pub_intent DISPATCHING]" "candidates (pub_flying again st) = [pub_candidate]"
  "approvals (pub_flying again st) = [pub_approval]"
  by (simp_all add: pub_flying_def)

lemma pub_claim: "claimAttempt pub_attempt_id (pub_flying again A_QUEUED) = (Inr True, pub_flying again A_DISPATCHING)"
  by (simp add: claimAttempt_def runs tbl_count_def tbl_update_def, simp add: pub_flying_def)

definition pub_posted :: "bool \<Rightarrow> world" where
  "pub_posted again = \<lparr>db = pub_flying again A_DISPATCHING, workers = [Posted ''int'' 2 pub_attempt_id], reading = [],
     posted = (pub_attempt_id, pub_body again) # posted (pub_world again)\<rparr>"

definition pub_labels :: "label list" where
  "pub_labels = [L_begin ''int'' 2 ''dk'', L_claim pub_attempt_id, L_post pub_attempt_id]"

lemma pub_service_simps [simp]: "sv_env pub_service = sample_env" "sv_config pub_service = pub_config"
  by (simp_all add: pub_service_def)

lemma pub_run:
  assumes "\<And>w l. l \<in> set pub_labels \<Longrightarrow> good w l"
  shows "history pub_service good (pub_world again) pub_labels (pub_posted again)"
proof -
  let ?w0 = "pub_world again"
  let ?checked = "Checked ''int'' 2 pub_attempt_id (pub_body again)"
  let ?claimed = "Claimed ''int'' 2 pub_attempt_id (pub_body again)"
  let ?w1 = "?w0\<lparr>db := pub_flying again A_QUEUED, workers := ?checked # workers ?w0\<rparr>"
  let ?w2 = "replace_worker ?checked ?claimed (?w1\<lparr>db := pub_flying again A_DISPATCHING\<rparr>)"
  let ?w3 = "replace_worker ?claimed (Posted ''int'' 2 pub_attempt_id) (?w2\<lparr>posted := (pub_attempt_id, pub_body again) # posted ?w2\<rparr>)"
  have "publish_step pub_service ?w0 (L_begin ''int'' 2 ''dk'') ?w1"
    by (rule publish_step.begin_fresh [where c = "pub_call ''a'' 0"]) (simp add: pub_world_def pub_begin)
  then have "history pub_service good ?w0 [L_begin ''int'' 2 ''dk''] ?w1"
    by (intro history_one assms) (simp_all add: pub_labels_def)
  moreover have "publish_step pub_service ?w1 (L_claim pub_attempt_id) ?w2"
    by (rule publish_step.claim) (simp_all add: pub_claim)
  moreover have "publish_step pub_service ?w2 (L_post pub_attempt_id) ?w3"
    by (rule publish_step.post) (simp add: replace_worker_def)
  moreover have "?w3 = pub_posted again" by (simp add: pub_posted_def pub_world_def replace_worker_def)
  ultimately show ?thesis
    using history.onward [of pub_service good ?w0 "[L_begin ''int'' 2 ''dk'']" ?w1 "L_claim pub_attempt_id" ?w2]
      history.onward [of pub_service good ?w0 "[L_begin ''int'' 2 ''dk'', L_claim pub_attempt_id]" ?w2 "L_post pub_attempt_id" ?w3]
      assms by (simp add: pub_labels_def)
qed

lemma pub_run_free: "history pub_service (\<lambda>_ _. True) (pub_world again) pub_labels (pub_posted again)"
  by (rule pub_run) simp

end
