(* ===== verification/Publish_Approval.thy ===== *)
theory Publish_Approval
  imports Publish_Samples
begin

text \<open>
  What scheduling does to an approval: a scheduled or rescheduled intent is a new version that awaits
  approval, and no job gets past it. The mode of an intent, by contrast, plays no part in dispatch.
\<close>


section \<open>Scheduling\<close>

lemma schedule_tx_effect:
  assumes "schedule_tx E c allowed i b dto utc s = (Inr n, t)"
  obtains m local where "find_intent i s = Some m" "in_version m = sd_version dto" "in_status m \<in> set allowed" "in_business m = b"
    "js_date_parse E (sd_local dto) = Some local"
    "n = m\<lparr>in_target := Some (sd_target dto), in_local := Some local, in_zone := Some (sd_zone dto), in_utc := Some utc,
        in_status := AWAITING_APPROVAL, in_version := in_version m + 1\<rparr>"
    "find_intent i t = Some n" "approvals t = approvals s"
proof -
  let ?g = "\<lambda>local r. r\<lparr>in_target := Some (sd_target dto), in_local := Some local, in_zone := Some (sd_zone dto),
        in_utc := Some utc, in_status := AWAITING_APPROVAL, in_version := in_version r + 1\<rparr>"
  have set_eq: "set_intent i g s = (Inr x, u) \<Longrightarrow> u = s\<lparr>intents := tbl_update (\<lambda>r. in_id r = i) g (intents s)\<rparr>
      \<and> find_intent i u = Some x" for g x u
    by (auto simp: set_intent_def runs find_intent_def split: if_splits option.splits)
  obtain m local where m: "find_intent i s = Some m" "in_version m = sd_version dto" "in_status m \<in> set allowed" "in_business m = b"
    "js_date_parse E (sd_local dto) = Some local" "set_intent i (?g local) s = (Inr n, t)"
    using assms unfolding schedule_tx_def by (auto simp: run_simps run_target split: option.splits if_splits)
  from set_eq [OF m(6)] have t: "t = s\<lparr>intents := tbl_update (\<lambda>r. in_id r = i) (?g local) (intents s)\<rparr>" "find_intent i t = Some n"
    by blast+
  moreover have "n = ?g local m"
    using t m(1) by (simp add: find_intent_def find_after_update [of in_id "?g local" i])
  ultimately show thesis using m that by simp
qed

text \<open>The two ways of scheduling.\<close>

lemma scheduled_effect:
  assumes "scheduleIntent E tzdb c i b dto s = (Inr n, t) \<or> rescheduleIntent E tzdb c i b dto s = (Inr n, t)"
  obtains utc allowed where "schedule_tx E c allowed i b dto utc s = (Inr n, t)" "localToUtc tzdb (sd_local dto) (sd_zone dto) = Inr utc"
    "\<not> isInPast (call_now c) utc"
  using assms by (auto simp: scheduleIntent_def rescheduleIntent_def at_future_instant_def run_simps transaction_def
      split: sum.splits if_splits prod.splits)

lemma awaiting_is_not_dispatched:
  assumes "find_intent i s = Some n" "in_status n \<notin> {SCHEDULED, DISPATCHING}"
  shows "runRevalidationAndCreateAttempt E C c i v key s \<noteq> (Inr (Fresh a body), t)"
proof
  assume "runRevalidationAndCreateAttempt E C c i v key s = (Inr (Fresh a body), t)"
  then show False
    by (cases rule: revalidation_cases) (use assms in \<open>auto simp: recovers_def\<close>)
qed

text \<open>
  The worker never looks at the mode of the intent: an intent made for simulation or manual export
  that was scheduled and approved is dispatched like a real one, with a body of mode \<open>real\<close>.
\<close>

theorem dispatch_ignores_mode:
  "prepare_attempt E C c i v key (n\<lparr>in_mode := m\<rparr>) recovered s = prepare_attempt E C c i v key n recovered s
    \<and> (\<forall>a body t. prepare_attempt E C c i v key n recovered s = (Inr (Fresh a body), t) \<longrightarrow> jget body ''mode'' = JStr ''real'')"
proof (intro conjI allI impI)
  show "prepare_attempt E C c i v key (n\<lparr>in_mode := m\<rparr>) recovered s = prepare_attempt E C c i v key n recovered s"
  proof -
    have "in_candidate (n\<lparr>in_mode := m\<rparr>) = in_candidate n" "in_utc (n\<lparr>in_mode := m\<rparr>) = in_utc n"
      "in_business (n\<lparr>in_mode := m\<rparr>) = in_business n" "check_target now (n\<lparr>in_mode := m\<rparr>) = check_target now n" for now
      by (simp_all add: check_target_def)
    then show ?thesis unfolding prepare_attempt_def by (simp only:)
  qed
next
  fix a body t
  assume "prepare_attempt E C c i v key n recovered s = (Inr (Fresh a body), t)"
  then obtain b cd tg p utc body' f where "Fresh a body = Fresh (at_id b) body'"
    "buildDispatchBody E C b (in_business n) cd tg p utc (started_or_created b) = Inr (body', f)"
    by (rule prepare_cases) blast
  then show "jget body ''mode'' = JStr ''real''" using body_fields(2) by auto
qed

text \<open>
  C5. Rescheduling withdraws the approval: after an intent has been scheduled or rescheduled it awaits
  approval in a new version, which carries no approval yet, and no job for it, of whatever version
  or key, gets past revalidation; the instant it carries is the one its local time denotes and
  is not in the past.
\<close>

theorem reschedule_withdraws_approval:
  assumes "scheduleIntent E tzdb c i b dto s = (Inr n, t) \<or> rescheduleIntent E tzdb c i b dto s = (Inr n, t)"
    and "approvals_behind s"
  shows "find_intent i t = Some n \<and> in_status n = AWAITING_APPROVAL \<and> in_version n = sd_version dto + 1
    \<and> current_approval i (in_version n) t = None
    \<and> (\<exists>utc. in_utc n = Some utc \<and> localToUtc tzdb (sd_local dto) (sd_zone dto) = Inr utc \<and> \<not> isInPast (call_now c) utc)
    \<and> (\<forall>E' C c' v key a body u. runRevalidationAndCreateAttempt E' C c' i v key t \<noteq> (Inr (Fresh a body), u))"
proof -
  from assms(1) obtain utc allowed where tx: "schedule_tx E c allowed i b dto utc s = (Inr n, t)"
    "localToUtc tzdb (sd_local dto) (sd_zone dto) = Inr utc" "\<not> isInPast (call_now c) utc"
    by (rule scheduled_effect)
  from tx(1) obtain m local where m: "find_intent i s = Some m" "in_version m = sd_version dto"
    "n = m\<lparr>in_target := Some (sd_target dto), in_local := Some local, in_zone := Some (sd_zone dto), in_utc := Some utc,
        in_status := AWAITING_APPROVAL, in_version := in_version m + 1\<rparr>"
    "find_intent i t = Some n" "approvals t = approvals s"
    by (rule schedule_tx_effect)
  have mi: "m \<in> set (intents s)" "in_id m = i" using m(1) by (auto simp: find_intent_def dest: tbl_find_SomeD)
  have "ap_version p \<le> in_version m" if p: "p \<in> set (approvals s)" "ap_intent p = i" for p
  proof -
    obtain k where k: "k \<in> set (intents s)" "in_id k = i" "ap_version p \<le> in_version k"
      using assms(2) p(1) unfolding approvals_behind_def p(2) [symmetric] by blast
    have "k = m"
      using assms(2) k(1,2) mi by (intro apart_same [of intent_clash "intents s"]) (simp_all add: approvals_behind_def intent_clash_def)
    with k(3) show ?thesis by simp
  qed
  then have "current_approval i (in_version n) t = None"
    using m(3,5) by (fastforce simp: current_approval_def find_None_iff)
  then show ?thesis
    using m tx(2,3) awaiting_is_not_dispatched [OF m(4)] by simp
qed

section \<open>A reschedule\<close>

definition pub_dto :: schedule_dto where
  "pub_dto = \<lparr>sd_local = overlap_text, sd_zone = ''Africa/Cairo'', sd_target = ''tgt'', sd_version = 2\<rparr>"

definition pub_zones :: zone_db where
  "pub_zones = cairo_db (fall_back 1793307600000)"

lemma pub_zone_time: "localToUtc pub_zones overlap_text ''Africa/Cairo'' = Inr 1793309400000"
proof -
  have m: "modern (date_utc 2026 10 29 23 30 0 - 3 * msPerDay)" by (rule recent_date) simp_all
  show ?thesis
    unfolding pub_zones_def localToUtc_eq [OF sample_zone sample_texts(2)] resolve_local_eq [OF transitions_whole(2) date_utc_whole m]
    by (simp add: sample_instants fall_back_def)
qed

lemma pub_local_parse: "js_date_parse sample_env overlap_text \<noteq> None"
  by code_simp

lemma pub_schedule:
  obtains n t where "rescheduleIntent sample_env pub_zones (pub_call ''c'' 0) ''int'' ''biz'' pub_dto (pub_store False SCHEDULED) = (Inr n, t)"
proof -
  obtain local where "js_date_parse sample_env overlap_text = Some local" using pub_local_parse by blast
  moreover have "tg_business pub_target = ''biz''" "tg_state pub_target = T_CONNECTED" "\<not> expired 0 pub_target"
    by (simp_all add: pub_target_def expired_def)
  ultimately have "fst (rescheduleIntent sample_env pub_zones (pub_call ''c'' 0) ''int'' ''biz'' pub_dto (pub_store False SCHEDULED)) \<noteq> Inl e" for e
    by (simp add: rescheduleIntent_def at_future_instant_def pub_dto_def pub_zone_time pub_call_def isInPast_def transaction_def
        schedule_tx_def run_simps pub_store_finds run_target set_intent_def write_simps update_defs rows_apart_def tbl_update_def
        find_intent_def)
  then show thesis using that by (cases "rescheduleIntent sample_env pub_zones (pub_call ''c'' 0) ''int'' ''biz'' pub_dto (pub_store False SCHEDULED)")
      (metis fst_conv sum.exhaust)
qed

theorem reschedule_withdraws_approval_witness:
  "\<exists>n t. rescheduleIntent sample_env pub_zones (pub_call ''c'' 0) ''int'' ''biz'' pub_dto (pub_store False SCHEDULED) = (Inr n, t)
    \<and> in_version n = 3 \<and> current_approval ''int'' 3 t = None"
proof -
  obtain n t where r: "rescheduleIntent sample_env pub_zones (pub_call ''c'' 0) ''int'' ''biz'' pub_dto (pub_store False SCHEDULED) = (Inr n, t)"
    by (rule pub_schedule)
  have "approvals_behind (pub_store False SCHEDULED)"
    by (simp add: approvals_behind_def rows_apart_def pub_approval_def)
  from reschedule_withdraws_approval [OF disjI2 [OF r] this] r show ?thesis by (auto simp: pub_dto_def)
qed

end
