(* ===== verification/Publish_Replies.thy ===== *)
theory Publish_Replies
  imports Publish_Samples Pub_Messages
begin

text \<open>
  The callbacks of the runner: a callback that was accepted is accepted once, and an attempt that has
  a result cannot be changed by any callback.
\<close>


section \<open>What a callback does\<close>

lemma resolve_duplicate_reads: "resolve_duplicate k f s = (r, t) \<Longrightarrow> t = s \<and> r \<noteq> Inr True"
  by (auto simp: resolve_duplicate_def run_simps split: if_splits)

text \<open>A callback runs its transaction to the end, or changes nothing and reports no new callback.\<close>

lemma handleCallback_cases:
  assumes "handleCallback E C c a envelope s = (r, t)"
  obtains (nothing) "t = s" "r \<noteq> Inr True"
  | (ran) f ts n x out occ where "computeCallbackFingerprint E (jget envelope ''body'') = Inr f" "find_attempt a s = Some n"
      "record_callback c n (jget (jget envelope ''body'') ''result'') (jstr (jget (jget envelope ''body'') ''callback_id''))
         out f ts occ s = (Inr x, t)" "r = Inr x"
proof -
  note finish = that
  consider "t = s \<and> r \<noteq> Inr True"
    | f ts x where "computeCallbackFingerprint E (jget envelope ''body'') = Inr f"
        "callback_tx E C c a envelope f ts s = (Inr x, t)" "r = Inr x"
    using assms
    by (auto simp: handleCallback_def Let_def run_simps act_catch_def transaction_def dest: resolve_duplicate_reads
        split: if_splits sum.splits option.splits prod.splits)
  then show thesis
  proof cases
    case 1
    then show thesis by (intro finish(1)) simp_all
  next
    case (2 f ts x)
    from 2(2) obtain n out occ where "find_attempt a s = Some n"
      "record_callback c n (jget (jget envelope ''body'') ''result'') (jstr (jget (jget envelope ''body'') ''callback_id''))
         out f ts occ s = (Inr x, t)"
      by (auto simp: callback_tx_def run_simps Let_def split: option.splits sum.splits if_splits prod.splits)
    with 2 show thesis by (intro finish(2))
  qed
qed

text \<open>A recorded callback is one whose identity was new.\<close>

lemma record_callback_new:
  assumes "record_callback c n result k out f ts occ s = (Inr x, t)"
  shows "(\<forall>b \<in> set (callbacks s). cb_external b \<noteq> k) \<and> (\<exists>b. callbacks t = callbacks s @ [b] \<and> cb_external b = k)"
proof (cases "result_of_attempt (at_id n) s")
  case None
  then show ?thesis
    using assms unfolding record_callback_def
    by (auto simp: runs result_of_attempt_def callback_clash_def callback_identity_def split: if_splits)
next
  case (Some r)
  then show ?thesis
    using assms unfolding record_callback_def
    by (auto simp: runs result_of_attempt_def callback_clash_def callback_identity_def split: if_splits)
qed

lemma record_callback_frozen:
  assumes "record_callback c n result k out f ts occ s = (Inr x, t)" "has_result (at_id n) s"
  shows "results t = results s \<and> attempts t = attempts s \<and> intents t = intents s \<and> x = False"
proof -
  have "tbl_find re_attempt (at_id n) (results s) \<noteq> None"
    using assms(2) by (auto simp: has_result_def tbl_find_None_iff)
  then show ?thesis
    using assms(1) unfolding record_callback_def
    by (auto simp: runs result_of_attempt_def split: if_splits)
qed

text \<open>
  C7. Callbacks are idempotent: once a callback has been accepted, the same envelope delivered again, at
  whatever time, changes nothing and is not reported as a new callback.
\<close>

theorem callback_replay_is_noop:
  assumes "handleCallback E C c a envelope s = (Inr True, t)" "handleCallback E C c' a envelope t = (r, u)"
  shows "u = t \<and> r \<noteq> Inr True"
proof -
  from assms(1) obtain f ts n out occ where
    "record_callback c n (jget (jget envelope ''body'') ''result'') (jstr (jget (jget envelope ''body'') ''callback_id''))
       out f ts occ s = (Inr True, t)"
    by (cases rule: handleCallback_cases) auto
  from conjunct2 [OF record_callback_new [OF this]]
  obtain b where "callbacks t = callbacks s @ [b]" and ext: "cb_external b = jstr (jget (jget envelope ''body'') ''callback_id'')"
    by (elim exE conjE)
  then have b: "b \<in> set (callbacks t)" by simp
  from assms(2) show ?thesis
  proof (cases rule: handleCallback_cases)
    case (ran f' ts' n' x out' occ')
    have "cb_external b \<noteq> jstr (jget (jget envelope ''body'') ''callback_id'')"
      using conjunct1 [OF record_callback_new [OF ran(3)]] b by (rule bspec)
    with ext show ?thesis by contradiction
  qed simp
qed

text \<open>
  A result cannot be overwritten by a callback: once an attempt has a result, whether from a callback,
  a failed delivery or the sweep, no callback for it changes any result, attempt or intent.
\<close>

theorem callback_cannot_overwrite:
  assumes "handleCallback E C c a envelope s = (r, t)" "has_result a s"
  shows "results t = results s \<and> attempts t = attempts s \<and> intents t = intents s \<and> r \<noteq> Inr True"
  using assms(1)
proof (cases rule: handleCallback_cases)
  case (ran f ts n x out occ)
  then have "at_id n = a" by (auto simp: find_attempt_def dest: tbl_find_SomeD)
  with record_callback_frozen [OF ran(3)] assms(2) ran(4) show ?thesis by simp
qed simp


section \<open>A callback that is accepted\<close>

definition reply_row :: attempt_row where
  "reply_row = \<lparr>at_id = sample_uuid (CHR ''4''), at_intent = sample_uuid (CHR ''3''), at_version = 2, at_seq = 1,
     at_status = A_QUEUED, at_workflow = Some ''w1'', at_fingerprint = Some sample_sha, at_key = ''k'', at_execution = None,
     at_error = None, at_dispatched = None, at_started = None, at_finished = None, at_created = 1785578400000\<rparr>"

definition reply_store :: publishing where
  "reply_store = \<lparr>candidates = [], targets = [], intents = [(pub_intent DISPATCHING)\<lparr>in_id := sample_uuid (CHR ''3'')\<rparr>],
     approvals = [], attempts = [reply_row], results = [], callbacks = [], exports = []\<rparr>"

definition reply_config :: publish_config where
  "reply_config = pub_config\<lparr>signing_key_id := ''key''\<rparr>"

definition reply_call :: call where
  "reply_call = pub_call ''c'' 1785578400000"

lemma reply_attempt: "toPublicationAttemptV1 sample_env reply_row = sample_attempt"
  by (simp add: toPublicationAttemptV1_def reply_row_def sample_attempt_def attempt_fingerprint_def or_empty_def opt_iso_def
      u3_def u4_def sample_at_def)

lemma reply_context: "callback_context reply_config 1785578400000 = sample_context"
  by (simp add: callback_context_def reply_config_def pub_config_def sample_context_def sample_at_def)

lemma reply_accepted:
  "\<exists>t. handleCallback sample_env reply_config reply_call (sample_uuid (CHR ''4'')) sample_callback reply_store = (Inr True, t)"
proof -
  have b: "jget sample_callback ''body'' = sample_callback_body" "jget sample_callback ''sent_at'' = JStr sample_at"
    by (simp_all add: sample_callback_def sample_envelope_def)
  have n: "find_attempt (sample_uuid (CHR ''4'')) reply_store = Some reply_row"
    by (simp add: find_attempt_def reply_store_def reply_row_def)
  have r: "jget sample_callback_body ''result'' = sample_result" "jget sample_callback_body ''attempt_id'' = JStr (sample_uuid (CHR ''4''))"
    "jget sample_result ''outcome'' = JStr ''published''" "jget sample_result ''occurred_at'' = JStr sample_at"
    by (simp_all add: sample_callback_body_def sample_result_def u4_def)
  have o: "outcome_of (JStr ''published'') = Some PUBLISHED" by (simp add: outcome_of_def)
  have "jwf sample_callback_body" by (simp add: sample_callback_body_def sample_result_def u3_def u4_def u5_def)
  then have f: "computeCallbackFingerprint sample_env sample_callback_body = Inr sample_sha"
    by (simp add: computeCallbackFingerprint_def)
  have t: "payload_timestamp sample_env now (JStr sample_at) = Some 1785578400000 \<or> sample_at = []" for now
    by (simp add: payload_timestamp_def)
  have "sample_at \<noteq> []" by (simp add: sample_at_def toISOString_def Let_def)
  with t have t: "payload_timestamp sample_env now (JStr sample_at) = Some 1785578400000" for now by blast
  have k: "signing_secret reply_config \<noteq> []" "signing_key_id reply_config \<noteq> []" "call_now reply_call = 1785578400000"
    by (simp_all add: reply_config_def pub_config_def reply_call_def pub_call_def)
  have s: "results reply_store = []" "callbacks reply_store = []" "attempts reply_store = [reply_row]" "intents reply_store = [(pub_intent DISPATCHING)\<lparr>in_id := sample_uuid (CHR ''3'')\<rparr>]"
    "at_intent reply_row = sample_uuid (CHR ''3'')"
    by (simp_all add: reply_store_def reply_row_def)
  have rec: "fst (record_callback reply_call reply_row sample_result k PUBLISHED sample_sha 1785578400000 occ reply_store) = Inr True" for k occ
    unfolding record_callback_def
    by (simp add: runs result_of_attempt_def s tbl_update_def tbl_count_def rows_apart_def)
  then have "fst (callback_tx sample_env reply_config reply_call (sample_uuid (CHR ''4'')) sample_callback sample_sha 1785578400000 reply_store) = Inr True"
    unfolding callback_tx_def 
    by (simp add: runs n reply_attempt k reply_context sample_callback_accepted b r o Let_def)
  then obtain t where "callback_tx sample_env reply_config reply_call (sample_uuid (CHR ''4'')) sample_callback sample_sha 1785578400000
      reply_store = (Inr True, t)"
    by (metis prod.collapse)
  then show ?thesis
    by (simp add: handleCallback_def Let_def b r f t k act_catch_def transaction_def)
qed

theorem callback_replay_is_noop_witness:
  "\<exists>t. handleCallback sample_env reply_config reply_call (sample_uuid (CHR ''4'')) sample_callback reply_store = (Inr True, t)
    \<and> snd (handleCallback sample_env reply_config reply_call (sample_uuid (CHR ''4'')) sample_callback t) = t"
proof -
  obtain t where t: "handleCallback sample_env reply_config reply_call (sample_uuid (CHR ''4'')) sample_callback reply_store = (Inr True, t)"
    using reply_accepted by blast
  obtain r u where u: "handleCallback sample_env reply_config reply_call (sample_uuid (CHR ''4'')) sample_callback t = (r, u)"
    by (cases "handleCallback sample_env reply_config reply_call (sample_uuid (CHR ''4'')) sample_callback t")
  from callback_replay_is_noop [OF t u] t u show ?thesis by simp
qed

theorem callback_cannot_overwrite_witness:
  "results (snd (handleCallback sample_env reply_config reply_call (at_id pub_failed) sample_callback (pub_store True SCHEDULED)))
     = [pub_failure]"
proof -
  obtain r t where h: "handleCallback sample_env reply_config reply_call (at_id pub_failed) sample_callback (pub_store True SCHEDULED) = (r, t)"
    by (cases "handleCallback sample_env reply_config reply_call (at_id pub_failed) sample_callback (pub_store True SCHEDULED)")
  have "has_result (at_id pub_failed) (pub_store True SCHEDULED)" by (simp add: has_result_def)
  from callback_cannot_overwrite [OF h this] h show ?thesis by simp
qed

end
