(* ===== verification/Publish_Served.thy ===== *)
theory Publish_Served
  imports Publish_Replies
begin

text \<open>
  The documents the service hands out: a stored result is served in the frozen contract's form, for
  the results of callbacks as for those the service writes itself.
\<close>


section \<open>Served results\<close>

lemma result_fields_get:
  "jget (result_fields r v m out pr rem url art sim lab err ret rec) ''contract_version'' = JStr ''publication-result-v1''"
  "jget (result_fields r v m out pr rem url art sim lab err ret rec) ''result_id'' = JStr (re_id r)"
  "jget (result_fields r v m out pr rem url art sim lab err ret rec) ''attempt_id'' = JStr (re_attempt r)"
  "jget (result_fields r v m out pr rem url art sim lab err ret rec) ''intent_id'' = JStr (re_intent r)"
  "jget (result_fields r v m out pr rem url art sim lab err ret rec) ''intent_version'' = JNum (of_int v)"
  "jget (result_fields r v m out pr rem url art sim lab err ret rec) ''occurred_at'' = JStr (toISOString (re_occurred r))"
  "jget (result_fields r v m out pr rem url art sim lab err ret rec) ''mode'' = JStr m"
  "jget (result_fields r v m out pr rem url art sim lab err ret rec) ''outcome'' = JStr out"
  "jget (result_fields r v m out pr rem url art sim lab err ret rec) ''provider'' = pr"
  "jget (result_fields r v m out pr rem url art sim lab err ret rec) ''remote_publication_id'' = rem"
  "jget (result_fields r v m out pr rem url art sim lab err ret rec) ''remote_url'' = url"
  "jget (result_fields r v m out pr rem url art sim lab err ret rec) ''export_artifact_id'' = art"
  "jget (result_fields r v m out pr rem url art sim lab err ret rec) ''simulation_reference_id'' = sim"
  "jget (result_fields r v m out pr rem url art sim lab err ret rec) ''simulation_label'' = lab"
  "jget (result_fields r v m out pr rem url art sim lab err ret rec) ''error_code'' = err"
  "jget (result_fields r v m out pr rem url art sim lab err ret rec) ''retryable'' = JBool ret"
  "jget (result_fields r v m out pr rem url art sim lab err ret rec) ''reconciliation_required'' = JBool rec"
  by (simp_all add: result_fields_def)

lemma result_fields_record: "isRecord (result_fields r v m out pr rem url art sim lab err ret rec)"
  by (simp add: result_fields_def)

lemma result_fields_valid:
  assumes "isUuid (JStr (re_id r))" "isUuid (JStr (re_attempt r))" "isUuid (JStr (re_intent r))" "1 \<le> v"
    "\<bar>re_occurred r\<bar> \<le> 8640000000000000"
  shows "valid (validatePublicationResultV1 E (result_fields r v m out pr rem url art sim lab err ret rec))
    \<longleftrightarrow> result_outcome_issues (result_fields r v m out pr rem url art sim lab err ret rec) = []"
proof -
  have x: "rejectExtraFields (result_fields r v m out pr rem url art sim lab err ret rec) RESULT_FIELDS ''result.'' = []"
    by (simp add: result_fields_def rejectExtraFields_def extraField_def extra_fields_def RESULT_FIELDS_def)
  have d: "isIsoDateTime E (JStr (toISOString (re_occurred r)))"
    using js_date_parse_toISOString [OF assms(5)] toISOString_nonempty by simp
  have i: "isPositiveInteger (JNum (of_int v))" using assms(4) by (simp add: isPositiveInteger_def)
  show ?thesis
    using assms(1-3) d unfolding validatePublicationResultV1_def x by (simp add: result_fields_get i result_fields_record)
qed

lemma outcome_of_text: "outcome_of v = Some x \<longleftrightarrow> v = JStr (outcome_text x)"
proof
  assume "outcome_of v = Some x"
  then show "v = JStr (outcome_text x)" unfolding outcome_of_def find_Some_iff by blast
next
  assume "v = JStr (outcome_text x)"
  then show "outcome_of v = Some x" by (cases x) (simp_all add: outcome_of_def)
qed

text \<open>The members of a result that a served document repeats.\<close>

definition served_fields :: "string list" where
  "served_fields = [''outcome'', ''provider'', ''remote_publication_id'', ''remote_url'', ''export_artifact_id'',
     ''simulation_label'', ''error_code'', ''retryable'', ''reconciliation_required'']"

lemma valid_result_issues:
  "valid (validatePublicationResultV1 E v) \<Longrightarrow> result_outcome_issues v = []"
  by (auto simp: validatePublicationResultV1_def split: if_splits)

lemma nonempty_string: "isNonEmptyString v \<Longrightarrow> \<exists>s. v = JStr s \<and> s \<noteq> []"
  by (cases v) (auto simp: js_trim_def)

lemma callback_row:
  "re_id (callback_result c a result out f occ) = call_id c 1"
  "re_attempt (callback_result c a result out f occ) = at_id a"
  "re_intent (callback_result c a result out f occ) = at_intent a"
  "re_occurred (callback_result c a result out f occ) = occ"
  "re_outcome (callback_result c a result out f occ) = out"
  "re_remote (callback_result c a result out f occ) = str_opt (jget result ''remote_publication_id'')"
  "re_url (callback_result c a result out f occ) = str_opt (jget result ''remote_url'')"
  "re_export (callback_result c a result out f occ) = str_opt (jget result ''export_artifact_id'')"
  "re_label (callback_result c a result out f occ) = str_opt (jget result ''simulation_label'')"
  "re_error (callback_result c a result out f occ) = str_opt (jget result ''error_code'')"
  "re_provider (callback_result c a result out f occ) = str_opt (jget result ''provider'')"
  "re_retryable (callback_result c a result out f occ) = (jget result ''retryable'' = JBool True)"
  by (simp_all add: callback_result_def)

lemma known_modes:
  "js_includes PUBLISHING_MODES (JStr ''real'')" "js_includes PUBLISHING_MODES (JStr ''simulation'')"
  by (simp_all add: PUBLISHING_MODES_def)

lemmas serving = toPublicationResultV1_def callback_row served_fields_def result_fields_get str_opt_def opt_str_def truthy_def
  or_empty_def result_mode_def result_outcome_issues_def Let_def noArtifact_def noSimulation_def commonSuccess_def
  emptyRemote_def unlabelled_def known_modes

text \<open>A served callback repeats the members of its result and meets the rule of its outcome.\<close>

definition repeats_result :: "json \<Rightarrow> result_row \<Rightarrow> int \<Rightarrow> bool" where
  "repeats_result result row v \<longleftrightarrow> result_outcome_issues (toPublicationResultV1 row v) = []
    \<and> (\<forall>k \<in> set served_fields. jget (toPublicationResultV1 row v) k = jget result k)"

lemma repeats_success:
  assumes "jget result ''outcome'' = JStr (outcome_text out)"
  shows "out = PUBLISHED \<Longrightarrow> published_ok result \<Longrightarrow> repeats_result result (callback_result c a result out f occ) v"
    and "out = EXPORTED \<Longrightarrow> exported_ok result \<Longrightarrow> repeats_result result (callback_result c a result out f occ) v"
    and "out = SIMULATED \<Longrightarrow> simulated_ok result \<Longrightarrow> repeats_result result (callback_result c a result out f occ) v"
    and "out = UNKNOWN \<Longrightarrow> unknown_ok result \<Longrightarrow> repeats_result result (callback_result c a result out f occ) v"
proof -
  assume p: "published_ok result" "out = PUBLISHED"
  then obtain p where "jget result ''remote_publication_id'' = JStr p" "js_trim p \<noteq> []"
    by (cases "jget result ''remote_publication_id''") (auto simp: published_ok_def)
  then show "repeats_result result (callback_result c a result out f occ) v"
    using p assms by (cases "jget result ''remote_url''") (auto simp: repeats_result_def serving published_ok_def)
next
  assume "exported_ok result" "out = EXPORTED"
  then show "repeats_result result (callback_result c a result out f occ) v"
    using assms by (cases "jget result ''export_artifact_id''") (auto simp: repeats_result_def serving exported_ok_def)
next
  assume "simulated_ok result" "out = SIMULATED"
  then show "repeats_result result (callback_result c a result out f occ) v"
    using assms by (auto simp: repeats_result_def serving simulated_ok_def js_trim_def js_space_def)
next
  assume "unknown_ok result" "out = UNKNOWN"
  then show "repeats_result result (callback_result c a result out f occ) v"
    using assms by (auto simp: repeats_result_def serving unknown_ok_def)
qed

lemma repeats_failed:
  assumes "jget result ''outcome'' = JStr (outcome_text out)" "out = OUTCOME_FAILED" "failed_ok result"
  shows "repeats_result result (callback_result c a result out f occ) v"
proof -
  have code: "js_includes PUBLISHING_ERROR_CODES (jget result ''error_code'')"
    "jget result ''error_code'' \<noteq> JStr ''PUBLISHING_PROVIDER_OUTCOME_UNKNOWN''"
    using assms(3) by (simp_all add: failed_ok_def)
  then obtain e where e: "jget result ''error_code'' = JStr e" by (auto simp: js_includes_def list_ex_iff)
  obtain b where b: "jget result ''retryable'' = JBool b"
    using assms(3) by (cases "jget result ''retryable''") (auto simp: failed_ok_def)
  consider "jget result ''simulation_label'' = JStr ''SIMULATION''" "jget result ''provider'' = JNull"
    | "jget result ''simulation_label'' = JNull" "jget result ''provider'' = JNull"
    | "jget result ''simulation_label'' = JNull" "jget result ''provider'' = JStr ''meta''"
    using assms(3) by (auto simp: failed_ok_def unlabelled_def split: if_splits)
  then show ?thesis
    using code e b assms by cases (simp_all add: repeats_result_def serving failed_ok_def)
qed

lemma repeats_cancelled:
  assumes "jget result ''outcome'' = JStr (outcome_text out)" "out = OUTCOME_CANCELLED" "cancelled_ok result"
  shows "repeats_result result (callback_result c a result out f occ) v"
proof -
  consider "jget result ''simulation_label'' = JStr ''SIMULATION''" | "jget result ''simulation_label'' = JNull"
    using assms(3) by (auto simp: cancelled_ok_def unlabelled_def split: if_splits)
  then show ?thesis
    using assms by cases (simp_all add: repeats_result_def serving cancelled_ok_def)
qed

text \<open>
  C8. Served results conform: the result of an accepted callback, stored and then served, is a valid
  document of the frozen contract and repeats the outcome, provider, remote identity and address,
  artifact, label, error code, retry flag and reconciliation flag of the callback unchanged.
\<close>

theorem served_result_conforms:
  assumes "valid (validatePublicationResultV1 E result)" "outcome_of (jget result ''outcome'') = Some out"
    and "isUuid (JStr (call_id c 1))" "isUuid (JStr (at_id a))" "isUuid (JStr (at_intent a))" "1 \<le> at_version a"
    and "\<bar>occ\<bar> \<le> 8640000000000000"
  shows "valid (validatePublicationResultV1 E (toPublicationResultV1 (callback_result c a result out f occ) (at_version a)))
    \<and> (\<forall>k \<in> set served_fields. jget (toPublicationResultV1 (callback_result c a result out f occ) (at_version a)) k = jget result k)"
proof -
  define row where "row = callback_result c a result out f occ"
  have o: "jget result ''outcome'' = JStr (outcome_text out)" using assms(2) by (simp add: outcome_of_text)
  have issues: "result_outcome_issues result = []" using assms(1) by (rule valid_result_issues)
  have "repeats_result result row (at_version a)"
    using issues o repeats_success [OF o] repeats_failed [OF o] repeats_cancelled [OF o]
    unfolding row_def by (cases out) (simp_all add: result_outcome_issues_def split: if_splits)
  moreover have "valid (validatePublicationResultV1 E (toPublicationResultV1 row (at_version a)))
      \<longleftrightarrow> result_outcome_issues (toPublicationResultV1 row (at_version a)) = []"
    unfolding toPublicationResultV1_def
    by (cases out) (use assms(3-7) in \<open>simp_all add: row_def callback_row result_fields_valid\<close>)
  ultimately show ?thesis unfolding row_def repeats_result_def by blast
qed

theorem served_result_conforms_witness:
  "jget (toPublicationResultV1 (callback_result (\<lparr>call_now = 0, call_id = \<lambda>_. sample_uuid (CHR ''5'')\<rparr>) reply_row sample_result PUBLISHED
     sample_sha 0) 2) ''remote_publication_id'' = JStr ''p1''"
proof -
  have "outcome_of (jget sample_result ''outcome'') = Some PUBLISHED" by (simp add: sample_result_def outcome_of_def)
  from served_result_conforms [OF sample_result_valid this, of "\<lparr>call_now = 0, call_id = \<lambda>_. sample_uuid (CHR ''5'')\<rparr>" reply_row 0 sample_sha]
  show ?thesis by (simp add: reply_row_def served_fields_def sample_result_def)
qed

text \<open>
  The results the service writes itself conform too: those of a failed delivery, of a stuck attempt
  and of a local export or simulation are served as valid documents.
\<close>

theorem own_results_conform:
  assumes "\<And>k. isUuid (JStr (call_id c k))" "isUuid (JStr (at_id a))" "isUuid (JStr (at_intent a))" "isUuid (JStr (in_id n))"
    and "1 \<le> v" "\<bar>call_now c\<bar> \<le> 8640000000000000" "mode \<noteq> REAL"
  shows "valid (validatePublicationResultV1 E (toPublicationResultV1 (delivery_result c (at_intent a) (at_id a) ambiguous message) v))
    \<and> valid (validatePublicationResultV1 E (toPublicationResultV1 (stuck_result c a) v))
    \<and> valid (validatePublicationResultV1 E (toPublicationResultV1 (local_result c n mode) v))"
proof -
  note served = serving failed_ok_def unknown_ok_def exported_ok_def simulated_ok_def js_trim_def js_space_def
  note modes = known_modes
  have code: "js_includes PUBLISHING_ERROR_CODES (JStr ''PUBLISHING_PROVIDER_FAILURE'')" by (simp add: PUBLISHING_ERROR_CODES_def)
  have d: "valid (validatePublicationResultV1 E (toPublicationResultV1 (delivery_result c (at_intent a) (at_id a) ambiguous message) v))"
  proof -
    let ?r = "delivery_result c (at_intent a) (at_id a) ambiguous message"
    have "isUuid (JStr (re_id ?r))" "isUuid (JStr (re_attempt ?r))" "isUuid (JStr (re_intent ?r))" "\<bar>re_occurred ?r\<bar> \<le> 8640000000000000"
      using assms by (simp_all add: delivery_result_def)
    from result_fields_valid [OF this(1-3) assms(5) this(4)] modes code show ?thesis
      by (cases ambiguous) (simp_all add: served delivery_result_def [of _ _ _ True] delivery_result_def [of _ _ _ False])
  qed
  have st: "valid (validatePublicationResultV1 E (toPublicationResultV1 (stuck_result c a) v))"
  proof -
    let ?r = "stuck_result c a"
    have "isUuid (JStr (re_id ?r))" "isUuid (JStr (re_attempt ?r))" "isUuid (JStr (re_intent ?r))" "\<bar>re_occurred ?r\<bar> \<le> 8640000000000000"
      using assms by (simp_all add: stuck_result_def)
    from result_fields_valid [OF this(1-3) assms(5) this(4)] show ?thesis
      by (simp add: served stuck_result_def)
  qed
  have lo: "valid (validatePublicationResultV1 E (toPublicationResultV1 (local_result c n mode) v))"
  proof -
    let ?r = "local_result c n mode"
    have "isUuid (JStr (re_id ?r))" "isUuid (JStr (re_attempt ?r))" "isUuid (JStr (re_intent ?r))" "\<bar>re_occurred ?r\<bar> \<le> 8640000000000000"
      using assms by (simp_all add: local_result_def)
    from result_fields_valid [OF this(1-3) assms(5) this(4)] show ?thesis
      using assms(1,7) by (cases mode) (simp_all add: served local_result_def)
  qed
  from d st lo show ?thesis by blast
qed

theorem own_results_conform_witness:
  "valid (validatePublicationResultV1 sample_env (toPublicationResultV1
     (stuck_result (\<lparr>call_now = 0, call_id = \<lambda>_. sample_uuid (CHR ''5'')\<rparr>) reply_row) 2))"
  using own_results_conform [of "\<lparr>call_now = 0, call_id = \<lambda>_. sample_uuid (CHR ''5'')\<rparr>" reply_row
      "(pub_intent DRAFT)\<lparr>in_id := sample_uuid (CHR ''3'')\<rparr>" 2 SIMULATION sample_env]
  by (simp add: reply_row_def)

text \<open>
  A queued attempt is served malformed: the worker stores a new attempt with a start time, which the
  frozen contract forbids in state \<open>queued\<close>, so the listing of attempts hands out an invalid document
  until the attempt is claimed, and again every time one is left queued.
\<close>

theorem queued_attempt_is_malformed:
  "\<not> valid (validatePublicationAttemptV1 E (toPublicationAttemptV1 E (new_attempt c i v key seq)))"
proof -
  let ?a = "toPublicationAttemptV1 E (new_attempt c i v key seq)"
  have "jget ?a ''state'' = JStr ''queued''" "jget ?a ''started_at'' \<noteq> JNull"
    by (simp_all add: toPublicationAttemptV1_def new_attempt_def opt_iso_def)
  then have "\<not> attempt_lifecycle_ok E ?a" by (simp add: attempt_lifecycle_ok_def)
  then show ?thesis by (simp add: validatePublicationAttemptV1_def)
qed


section \<open>Writes without a look at the state\<close>

text \<open>
  C9. A late sweep overwrites a success: the sweep writes to every attempt it has read, whatever has become
  of it since; an attempt whose callback came in between is turned from succeeded to unknown,
  while its result stays.
\<close>

theorem late_sweep_overwrites_success:
  assumes "attempts_apart s" "r \<in> set (attempts s)" "at_id r = at_id a" "has_result (at_id a) s" "flag_stuck_tx c a s = (Inr (), t)"
  shows "r\<lparr>at_status := A_UNKNOWN, at_finished := Some (call_now c)\<rparr> \<in> set (attempts t) \<and> results t = results s"
proof -
  let ?upd = "\<lambda>r. r\<lparr>at_status := A_UNKNOWN, at_finished := Some (call_now c)\<rparr>"
  obtain q where q: "result_of_attempt (at_id a) s = Some q"
    using assms(4) by (cases "result_of_attempt (at_id a) s") (auto simp: result_of_attempt_def has_result_def tbl_find_None_iff)
  then have "attempts t = tbl_update (\<lambda>r. at_id r = at_id a) ?upd (attempts s)" "results t = results s"
    using assms(5) unfolding flag_stuck_tx_def transaction_def
    by (auto simp: runs result_of_attempt_def split: if_splits prod.splits sum.splits)
  then show ?thesis using tbl_updateI [OF assms(2), of "\<lambda>r. at_id r = at_id a" ?upd] assms(3) by simp
qed

definition late_store :: publishing where
  "late_store = (pub_flying False A_SUCCEEDED)\<lparr>results := [pub_failure\<lparr>re_attempt := pub_attempt_id, re_outcome := PUBLISHED\<rparr>]\<rparr>"

lemma late_store_simps [simp]:
  "attempts late_store = [pub_stamped False A_SUCCEEDED]" "intents late_store = [pub_intent DISPATCHING]"
  "results late_store = [pub_failure\<lparr>re_attempt := pub_attempt_id, re_outcome := PUBLISHED\<rparr>]"
  by (simp_all add: late_store_def)

lemma late_flag: "fst (flag_stuck_tx c (pub_stamped False A_DISPATCHING) late_store) = Inr ()"
  unfolding flag_stuck_tx_def transaction_def
  by (simp add: runs result_of_attempt_def tbl_count_def tbl_update_def rows_apart_def IN_DISPATCH_def split: prod.splits)

theorem late_sweep_overwrites_success_witness:
  "\<exists>t r. flag_stuck_tx reply_call (pub_stamped False A_DISPATCHING) late_store = (Inr (), t)
    \<and> r \<in> set (attempts t) \<and> at_status r = A_UNKNOWN \<and> results t = results late_store"
proof -
  obtain t where t: "flag_stuck_tx reply_call (pub_stamped False A_DISPATCHING) late_store = (Inr (), t)"
    using late_flag by (metis prod.collapse)
  have "attempts_apart late_store" "pub_stamped False A_SUCCEEDED \<in> set (attempts late_store)"
    "has_result (at_id (pub_stamped False A_DISPATCHING)) late_store"
    by (simp_all add: attempts_apart_def has_result_def)
  from late_sweep_overwrites_success [OF this(1,2) _ this(3) t] t show ?thesis by fastforce
qed

text \<open>
  An administrator's verdict that an unknown delivery failed leaves the intent failed but its attempt
  unknown, and so no retry of it is ever accepted: \<open>retryIntent\<close> demands a failed attempt.
\<close>

theorem resolved_failure_cannot_be_retried:
  assumes "resolveUnknown k Resolve_failed reason s = (Inr (), t)" "newest at_seq (intent_attempts i s) = Some a"
    and "at_status a = A_UNKNOWN"
  shows "\<not> (\<exists>x u. retryIntent E c i b dto t = (Inr x, u))"
proof -
  have "attempts t = attempts s"
    using assms(1) unfolding resolveUnknown_def transaction_def resolve_tx_def
    by (auto simp: runs split: option.splits if_splits prod.splits sum.splits)
  then have "newest at_seq (intent_attempts i t) = Some a" using assms(2) by (simp add: intent_attempts_def)
  then show ?thesis
    using assms(3) by (auto simp: retryIntent_def retry_tx_def transaction_def runs act_bind_def [of "transaction m" for m]
        split: option.splits if_splits prod.splits sum.splits)
qed

definition unknown_store :: publishing where
  "unknown_store = (pub_flying False A_UNKNOWN)\<lparr>intents := [pub_intent ACTION_REQUIRED],
     results := [stuck_result reply_call (pub_stamped False A_DISPATCHING)]\<rparr>"

lemma unknown_resolved: "fst (resolveUnknown (call_id reply_call 0) Resolve_failed reason unknown_store) = Inr ()"
  unfolding resolveUnknown_def resolve_tx_def transaction_def
  by (simp add: runs unknown_store_def stuck_result_def tbl_update_def rows_apart_def split: prod.splits)

theorem resolved_failure_cannot_be_retried_witness:
  "\<exists>t. resolveUnknown (call_id reply_call 0) Resolve_failed ''checked'' unknown_store = (Inr (), t)
    \<and> \<not> (\<exists>x u. retryIntent sample_env reply_call ''int'' ''biz'' (\<lparr>rd_version = 2, rd_expected = 1, rd_key = ''rk''\<rparr>) t = (Inr x, u))"
proof -
  obtain t where t: "resolveUnknown (call_id reply_call 0) Resolve_failed ''checked'' unknown_store = (Inr (), t)"
    using unknown_resolved by (metis prod.collapse)
  have "newest at_seq (intent_attempts ''int'' unknown_store) = Some (pub_stamped False A_UNKNOWN)"
    by (simp add: unknown_store_def intent_attempts_def newest_def)
  from resolved_failure_cannot_be_retried [OF t this] t show ?thesis by simp
qed

end
