(* ===== verification/Publish_Process.thy ===== *)
theory Publish_Process
  imports Publish_Samples
begin

text \<open>
  The worker as one sequential job: what \<open>process\<close> does without interference is a history of the
  transition system of \<open>Publish_World\<close>, so everything proved of histories holds of it.
\<close>

lemma revalidation_error_unchanged:
  "runRevalidationAndCreateAttempt E C c i v key s = (Inl e, t) \<Longrightarrow> t = s"
  by (auto simp: runRevalidationAndCreateAttempt_def elim: transaction_cases)

lemma prepare_is_fresh: "prepare_attempt E C c i v key n recovered s = (Inr x, t) \<Longrightarrow> \<exists>a body. x = Fresh a body"
  by (erule prepare_cases) blast

lemma replay_unchanged:
  assumes "runRevalidationAndCreateAttempt E C c i v key s = (Inr (Replayed a st), t)"
  shows "t = s"
proof -
  have r: "revalidate_tx E C c i v key s = (Inr (Replayed a st), t)"
    using assms by (auto simp: runRevalidationAndCreateAttempt_def elim: transaction_cases)
  then obtain n where n: "find_intent i s = Some n" by (auto simp: revalidate_tx_def run_simps split: option.splits)
  show ?thesis
  proof (cases "attempt_by_key i key s")
    case None
    then have "act_seq (claim_intent i v n) (prepare_attempt E C c i v key n None) s = (Inr (Replayed a st), t)"
      using r n by (simp add: revalidate_tx_def run_simps recovers_def)
    from run_claim_intent [OF this] show ?thesis by (auto dest: prepare_is_fresh)
  next
    case (Some b)
    then show ?thesis using r n by (auto simp: revalidate_tx_def run_simps split: if_splits dest: prepare_is_fresh)
  qed
qed

text \<open>Where a run of the worker ends: the database, the workers as before, and what was posted.\<close>

definition leads :: "service \<Rightarrow> world \<Rightarrow> world \<Rightarrow> bool" where
  "leads V w w' \<longleftrightarrow> (\<exists>ls. history V (\<lambda>_ _. True) w ls w')"

lemma leads_refl: "leads V w w"
  unfolding leads_def using history.start by blast

lemma leads_step: "leads V w w1 \<Longrightarrow> publish_step V w1 l w2 \<Longrightarrow> leads V w w2"
  unfolding leads_def using history.onward [of V "\<lambda>_ _. True"] by blast

definition runs_to :: "service \<Rightarrow> world \<Rightarrow> publishing \<Rightarrow> (string \<times> json) list \<Rightarrow> bool" where
  "runs_to V w t ps \<longleftrightarrow> (\<exists>w'. leads V w w' \<and> db w' = t \<and> workers w' = workers w \<and> posted w' = ps @ posted w)"

lemma runs_toI: "leads V w w' \<Longrightarrow> db w' = t \<Longrightarrow> workers w' = workers w \<Longrightarrow> posted w' = ps @ posted w \<Longrightarrow> runs_to V w t ps"
  unfolding runs_to_def by blast

lemma runs_to_here: "runs_to V w (db w) []"
  by (rule runs_toI [OF leads_refl]) simp_all

lemma mark_returns: "markIntentFailed i v s = (Inr (), snd (markIntentFailed i v s))"
  by (simp add: markIntentFailed_def act_catch_def act_return_def split: prod.split sum.split)

lemma runs_refused:
  assumes "publish_step V w l (w\<lparr>db := s, workers := Refused i v # workers w\<rparr>)"
  shows "runs_to V w (snd (markIntentFailed i v s)) []"
proof -
  let ?w1 = "w\<lparr>db := s, workers := Refused i v # workers w\<rparr>"
  let ?w2 = "dismiss (Refused i v) (?w1\<lparr>db := snd (markIntentFailed i v s)\<rparr>)"
  have "publish_step V ?w1 (L_refuse i v) ?w2"
    by (rule publish_step.refuse [where r = "Inr ()"]) (simp_all add: mark_returns [symmetric])
  then have "leads V w ?w2" using leads_step [OF leads_step [OF leads_refl assms]] by blast
  then show ?thesis by (rule runs_toI) (simp_all add: dismiss_def)
qed

lemma runs_checked:
  assumes b: "runRevalidationAndCreateAttempt (sv_env V) (sv_config V) c i v key (db w) = (Inr (Fresh a body), s)"
    and step: "\<And>w1. db w1 = s \<Longrightarrow> Checked i v a body \<in> set (workers w1) \<Longrightarrow>
      publish_step V w1 l (dismiss (Checked i v a body) (w1\<lparr>db := t\<rparr>))"
  shows "runs_to V w t []"
  by (rule runs_toI [OF leads_step [OF leads_step [OF leads_refl publish_step.begin_fresh [OF b]] step]]) (simp_all add: dismiss_def)

lemma runs_claimed:
  assumes b: "runRevalidationAndCreateAttempt (sv_env V) (sv_config V) c i v key (db w) = (Inr (Fresh a body), s)"
    and cl: "claimAttempt a s = (Inr True, u)" and d: "delivery_step c' i v a message d u = (r, t)"
  shows "runs_to V w t (if d = Not_configured then [] else [(a, body)])"
proof -
  let ?w1 = "w\<lparr>db := s, workers := Checked i v a body # workers w\<rparr>"
  let ?w2 = "replace_worker (Checked i v a body) (Claimed i v a body) (?w1\<lparr>db := u\<rparr>)"
  have "publish_step V ?w1 (L_claim a) ?w2" by (rule publish_step.claim) (simp_all add: cl)
  with leads_step [OF leads_refl publish_step.begin_fresh [OF b]] have w2: "leads V w ?w2" by (rule leads_step)
  show ?thesis
  proof (cases "d = Not_configured")
    case True
    have "publish_step V ?w2 (L_unconfigured a) (dismiss (Claimed i v a body) (?w2\<lparr>db := t\<rparr>))"
      by (rule publish_step.unconfigured) (use d True in \<open>simp_all add: replace_worker_def\<close>)
    with w2 have "leads V w (dismiss (Claimed i v a body) (?w2\<lparr>db := t\<rparr>))" by (rule leads_step)
    then show ?thesis by (rule runs_toI) (use True in \<open>simp_all add: dismiss_def replace_worker_def\<close>)
  next
    case False
    let ?w3 = "replace_worker (Claimed i v a body) (Posted i v a) (?w2\<lparr>posted := (a, body) # posted ?w2\<rparr>)"
    have "publish_step V ?w2 (L_post a) ?w3" by (rule publish_step.post) (simp add: replace_worker_def)
    with w2 have w3: "leads V w ?w3" by (rule leads_step)
    have "publish_step V ?w3 (L_answer a d) (dismiss (Posted i v a) (?w3\<lparr>db := t\<rparr>))"
      by (rule publish_step.answer) (use d False in \<open>simp_all add: replace_worker_def\<close>)
    with w3 have "leads V w (dismiss (Posted i v a) (?w3\<lparr>db := t\<rparr>))" by (rule leads_step)
    then show ?thesis by (rule runs_toI) (use False in \<open>simp_all add: dismiss_def replace_worker_def\<close>)
  qed
qed

text \<open>The outcome of a run fits what was posted in it.\<close>

definition fits :: "fault + json list \<Rightarrow> (string \<times> json) list \<Rightarrow> bool" where
  "fits r ps \<longleftrightarrow> (case r of Inl e \<Rightarrow> True | Inr sent \<Rightarrow> map snd ps = sent)"

lemma fits_simps [simp]: "fits (Inl e) ps" "fits (Inr sent) ps \<longleftrightarrow> map snd ps = sent"
  by (simp_all add: fits_def)

text \<open>The part of \<open>process\<close> after a fresh attempt.\<close>

definition carry_out :: "publish_config \<Rightarrow> call \<Rightarrow> (json \<Rightarrow> bool) \<Rightarrow> (json \<Rightarrow> transport) \<Rightarrow> string \<Rightarrow> string \<Rightarrow> int \<Rightarrow> string \<Rightarrow> json
    \<Rightarrow> json list publish_action" where
  "carry_out C c' intact runner message i version attemptId body =
     (if \<not> intact (jget body ''candidate'')
      then act_seq (integrity_failed_tx (call_now c') i version attemptId message) (act_return [])
      else act_bind (claimAttempt attemptId) (\<lambda>claimed.
        if \<not> claimed then act_return []
        else act_seq (delivery_step c' i version attemptId message (n8n_dispatch C (runner body)))
          (act_return (if n8n_dispatch C (runner body) = Not_configured then [] else [body]))))"

lemma carry_out_runs:
  assumes b: "runRevalidationAndCreateAttempt (sv_env V) (sv_config V) c i v key (db w) = (Inr (Fresh a body), s)"
    and run: "carry_out (sv_config V) c' intact runner message i v a body s = (r, t)"
  shows "\<exists>ps. runs_to V w t ps \<and> fits r ps"
proof (cases "intact (jget body ''candidate'')")
  case False
  then obtain z where z: "integrity_failed_tx (call_now c') i v a message s = (z, t)" "r = Inr [] \<or> (\<exists>e. r = Inl e)"
    using run by (auto simp: carry_out_def act_bind_def act_return_def act_seq_def split: prod.splits sum.splits)
  have "runs_to V w t []"
    by (rule runs_checked [OF b, where l = "L_integrity a"]) (rule publish_step.integrity, use z in simp_all)
  with z(2) show ?thesis by auto
next
  case True
  obtain won u where cl: "claimAttempt a s = (Inr won, u)"
    by (simp add: claimAttempt_def act_bind_def update_attempts_def act_return_def)
  show ?thesis
  proof (cases won)
    case False
    then have "t = u" "r = Inr []"
      using run True cl by (auto simp: carry_out_def act_bind_def act_return_def split: prod.splits sum.splits)
    moreover have "runs_to V w u []"
      by (rule runs_checked [OF b, where l = "L_claim a"]) (rule publish_step.claim_lost, use cl False in simp_all)
    ultimately show ?thesis by auto
  next
    case won: True
    let ?d = "n8n_dispatch (sv_config V) (runner body)"
    obtain z where d: "delivery_step c' i v a message ?d u = (z, t)" "r = Inr (if ?d = Not_configured then [] else [body]) \<or> (\<exists>e. r = Inl e)"
      using run True cl won by (auto simp: carry_out_def act_bind_def act_return_def act_seq_def split: prod.splits sum.splits)
    have "claimAttempt a s = (Inr True, u)" using cl won by simp
    from runs_claimed [OF b this d(1)] d(2) show ?thesis by (auto split: if_splits)
  qed
qed

lemma mark_seq: "act_seq (markIntentFailed i v) m s = m (snd (markIntentFailed i v s))"
  unfolding act_seq_def act_bind_def by (subst mark_returns) simp

lemma caught_bind:
  "act_bind (act_catch (act_bind m (\<lambda>r. act_return (Some r))) h) f s =
     (case m s of (Inl e, u) \<Rightarrow> act_bind (h e) f u | (Inr q, u) \<Rightarrow> f (Some q) u)"
  by (simp add: act_bind_def act_catch_def act_return_def split: prod.split sum.split)

lemma refused_bind:
  "act_bind (act_seq (markIntentFailed i v) (act_return x)) f s = f x (snd (markIntentFailed i v s))"
  unfolding act_seq_def act_bind_def act_return_def by (subst mark_returns) simp

lemma process_eq:
  "process E C c c' sync intact runner message i v key s =
     (if key = [] then (Inr [], s)
      else if \<not> sync then (Inr [], snd (markIntentFailed i v s))
      else case runRevalidationAndCreateAttempt E C c i v key s of
        (Inl e, u) \<Rightarrow> if e = ClaimLost then (Inr [], u) else (Inr [], snd (markIntentFailed i v u))
      | (Inr (Replayed a st), u) \<Rightarrow> (Inr [], u)
      | (Inr (Fresh a body), u) \<Rightarrow> carry_out C c' intact runner message i v a body u)"
  unfolding process_def carry_out_def
  by (simp add: mark_seq caught_bind refused_bind run_simps split: prod.split sum.split revalidation.split)

text \<open>
  C6. Refinement: a job carried out without interference is a run of the transition system. From any
  world, \<open>process\<close> leads to a database that a history of worker steps also leads to, with the same
  workers as before and with exactly the bodies it returns posted (when it throws, because the
  last transaction failed, whatever had been posted stays posted).
\<close>

theorem process_is_a_run:
  assumes "process (sv_env V) (sv_config V) c c' sync intact runner message i v key (db w) = (r, t)"
  shows "\<exists>ls w' ps. history V (\<lambda>_ _. True) w ls w' \<and> db w' = t \<and> workers w' = workers w \<and> posted w' = ps @ posted w
    \<and> (\<forall>sent. r = Inr sent \<longrightarrow> map snd ps = sent)"
proof -
  obtain x s where x: "runRevalidationAndCreateAttempt (sv_env V) (sv_config V) c i v key (db w) = (x, s)" by fastforce
  note run = assms [unfolded process_eq x, simplified]
  have db: "w\<lparr>db := db w, workers := ws\<rparr> = w\<lparr>workers := ws\<rparr>" for ws by simp
  have mark: "runs_to V w (snd (markIntentFailed i v (db w))) []" if "publish_step V w l (w\<lparr>workers := Refused i v # workers w\<rparr>)" for l
    using runs_refused [of V w l i v "db w"] that by simp
  have "\<exists>ps. runs_to V w t ps \<and> fits r ps"
  proof (cases "key = [] \<or> \<not> sync")
    case True
    then show ?thesis using run runs_to_here [of V w] mark [OF publish_step.sync_failed] by (auto split: if_splits)
  next
    case False
    show ?thesis
    proof (cases x)
      case (Inl e)
      then have "s = db w" using x by (auto dest: revalidation_error_unchanged)
      moreover have "e \<noteq> ClaimLost \<Longrightarrow> publish_step V w (L_begin i v key) (w\<lparr>workers := Refused i v # workers w\<rparr>)"
        using publish_step.begin_refused [of V c i v key w e "db w"] x Inl \<open>s = db w\<close> by simp
      ultimately show ?thesis using run False Inl runs_to_here [of V w] mark by (auto split: if_splits)
    next
      case (Inr q)
      then show ?thesis
      proof (cases q)
        case (Replayed a st)
        then have "s = db w" using x Inr by (auto dest: replay_unchanged)
        then show ?thesis using run False Inr Replayed runs_to_here [of V w] by auto
      next
        case (Fresh a body)
        have b: "runRevalidationAndCreateAttempt (sv_env V) (sv_config V) c i v key (db w) = (Inr (Fresh a body), s)"
          using x Inr Fresh by simp
        show ?thesis by (rule carry_out_runs [OF b]) (use run False Inr Fresh in simp)
      qed
    qed
  qed
  then obtain ps w' ls where "history V (\<lambda>_ _. True) w ls w'" "db w' = t" "workers w' = workers w" "posted w' = ps @ posted w"
    "fits r ps" unfolding runs_to_def leads_def by blast
  then show ?thesis by (intro exI [of _ ls] exI [of _ w'] exI [of _ ps]) auto
qed

definition pub_runner :: "json \<Rightarrow> transport" where
  "pub_runner body = Answered 202 True (Some ''run'')"

lemma pub_process:
  "fst (process sample_env pub_config (pub_call ''a'' 0) c' True (\<lambda>_. True) pub_runner ''m'' ''int'' 2 ''dk'' (pub_store False SCHEDULED))
     = Inr [pub_body False]"
proof -
  have n8n: "n8n_dispatch pub_config (pub_runner body) = Accepted (Some ''run'')" for body
    by (simp add: n8n_dispatch_def pub_runner_def pub_config_def)
  have "rows_apart intent_clash [pub_intent DISPATCHING]" by (simp add: rows_apart_def)
  then have "fst (delivery_step c' ''int'' 2 pub_attempt_id ''m'' (Accepted (Some ''run'')) (pub_flying False A_DISPATCHING)) = Inr ()"
    by (simp add: delivery_step_def acknowledge_tx_def move_intent_def transaction_def runs tbl_update_def IN_DISPATCH_def split: prod.splits)
  then obtain t where "delivery_step c' ''int'' 2 pub_attempt_id ''m'' (Accepted (Some ''run'')) (pub_flying False A_DISPATCHING) = (Inr (), t)"
    by (metis prod.collapse)
  then show ?thesis
    by (simp add: process_eq pub_begin carry_out_def act_bind_def [of "claimAttempt a" for a] pub_claim n8n act_seq_def act_bind_def
        act_return_def)
qed

theorem process_is_a_run_witness:
  "\<exists>ls w' ps. history pub_service (\<lambda>_ _. True) (pub_world False) ls w' \<and> posted w' = ps \<and> map snd ps = [pub_body False]"
proof -
  let ?c = "pub_call ''a'' 0"
  obtain t where "process sample_env pub_config ?c ?c True (\<lambda>_. True) pub_runner ''m'' ''int'' 2 ''dk'' (pub_store False SCHEDULED)
      = (Inr [pub_body False], t)"
    using pub_process by (metis prod.collapse)
  then have t: "process (sv_env pub_service) (sv_config pub_service) ?c ?c True (\<lambda>_. True) pub_runner ''m'' ''int'' 2 ''dk''
      (db (pub_world False)) = (Inr [pub_body False], t)"
    by (simp add: pub_world_def)
  from process_is_a_run [OF t] obtain ls w' ps where "history pub_service (\<lambda>_ _. True) (pub_world False) ls w'"
    "posted w' = ps @ posted (pub_world False)" "map snd ps = [pub_body False]"
    by blast
  then show ?thesis by (intro exI [of _ ls] exI [of _ w'] exI [of _ ps]) (simp add: pub_world_def)
qed

end
