(* ===== verification/Json_Checks.thy ===== *)
theory Json_Checks
  imports Json
begin

text \<open>
  Checks on JSON values that the orchestration and the optimization contracts share.
\<close>

text \<open>
  The stricter pattern of a UUID, with a version from 1 to 5 and a variant, and a digest of either
  case. A test on anything but a string fails.
\<close>

definition RFC_UUID_PATTERN :: "(char \<Rightarrow> bool) list" where
  "RFC_UUID_PATTERN =
     replicate 8 is_hex @ (\<lambda>c. c = CHR ''-'') # replicate 4 is_hex @ (\<lambda>c. c = CHR ''-'') #
     char_between 49 53 # replicate 3 is_hex @ (\<lambda>c. c = CHR ''-'') #
     (\<lambda>c. c \<in> set ''89abAB'') # replicate 3 is_hex @ (\<lambda>c. c = CHR ''-'') #
     replicate 12 is_hex"

fun isRunUuid :: "json \<Rightarrow> bool" where
  "isRunUuid (JStr s) = shape_matches RFC_UUID_PATTERN s"
| "isRunUuid _ = False"

fun isHexDigest :: "json \<Rightarrow> bool" where
  "isHexDigest (JStr s) = (length s = 64 \<and> list_all is_hex s)"
| "isHexDigest _ = False"

text \<open>\<open>Boolean(v)\<close>: what a condition makes of a value.\<close>

fun js_truthy :: "json \<Rightarrow> bool" where
  "js_truthy JNull = False"
| "js_truthy JUndef = False"
| "js_truthy (JBool b) = b"
| "js_truthy (JNum n) = (n \<noteq> 0)"
| "js_truthy (JStr s) = (s \<noteq> [])"
| "js_truthy _ = True"

fun isNumber :: "json \<Rightarrow> bool" where
  "isNumber (JNum _) = True"
| "isNumber _ = False"

lemma isRunUuid_D: "isRunUuid v \<Longrightarrow> \<exists>s. v = JStr s \<and> length s = 36"
  by (cases v) (auto simp: shape_matches_def RFC_UUID_PATTERN_def dest: list_all2_lengthD)

end
