(* ===== verification/Orch_Contract.thy ===== *)
theory Orch_Contract
  imports Pub_Digest Json_Checks
begin

text \<open>
  The contract of the campaign orchestration
  (packages/contracts/src/orchestration/orchestration-lifecycle.ts and orchestration-validation.ts):
  the lifecycle of a run with its table of transitions, and the checks on the documents that start
  and resume one.

  The documents are JSON values whose members have the types the interfaces of
  orchestration-types.ts give them.
\<close>


section \<open>Lifecycle\<close>

datatype orch_status =
  queued | running | awaiting_strategy_approval | awaiting_content_approval | completed | failed | cancelled

definition ORCHESTRATION_STATUSES :: "orch_status list" where
  "ORCHESTRATION_STATUSES =
     [queued, running, awaiting_strategy_approval, awaiting_content_approval, completed, failed, cancelled]"

text \<open>The statuses are a finite class, so that a statement over all of them is decided by computation.\<close>

instantiation orch_status :: enum
begin

definition enum_orch_status :: "orch_status list" where
  "enum_orch_status = ORCHESTRATION_STATUSES"

definition enum_all_orch_status :: "(orch_status \<Rightarrow> bool) \<Rightarrow> bool" where
  "enum_all_orch_status P \<longleftrightarrow> list_all P ORCHESTRATION_STATUSES"

definition enum_ex_orch_status :: "(orch_status \<Rightarrow> bool) \<Rightarrow> bool" where
  "enum_ex_orch_status P \<longleftrightarrow> list_ex P ORCHESTRATION_STATUSES"

instance
proof
  have all: "x \<in> set ORCHESTRATION_STATUSES" for x
    by (cases x) (simp_all add: ORCHESTRATION_STATUSES_def)
  then show "UNIV = set (enum_class.enum :: orch_status list)"
    by (auto simp: enum_orch_status_def)
  show "distinct (enum_class.enum :: orch_status list)"
    by (simp add: enum_orch_status_def ORCHESTRATION_STATUSES_def)
  show "enum_class.enum_all P \<longleftrightarrow> Ball UNIV P" for P :: "orch_status \<Rightarrow> bool"
    using all by (auto simp: enum_all_orch_status_def list_all_iff)
  show "enum_class.enum_ex P \<longleftrightarrow> Bex UNIV P" for P :: "orch_status \<Rightarrow> bool"
    using all by (auto simp: enum_ex_orch_status_def list_ex_iff)
qed

end

fun status_text :: "orch_status \<Rightarrow> string" where
  "status_text queued = ''queued''"
| "status_text running = ''running''"
| "status_text awaiting_strategy_approval = ''awaiting_strategy_approval''"
| "status_text awaiting_content_approval = ''awaiting_content_approval''"
| "status_text completed = ''completed''"
| "status_text failed = ''failed''"
| "status_text cancelled = ''cancelled''"

definition isOrchestrationStatus :: "string \<Rightarrow> orch_status option" where
  "isOrchestrationStatus v = List.find (\<lambda>s. status_text s = v) ORCHESTRATION_STATUSES"

datatype orch_role = role_research | role_strategy | role_content

datatype orch_stage =
  stage_prepare | stage_research | stage_strategy | stage_strategy_approval | stage_content
  | stage_content_approval | stage_complete | stage_failed | stage_cancelled

datatype orch_event_type =
  run_created | node_started | node_completed | tool_started | tool_completed | validation_event
  | interrupt | resume_event | terminal_event | error_event

fun ORCHESTRATION_ALLOWED_TRANSITIONS :: "orch_status \<Rightarrow> orch_status list" where
  "ORCHESTRATION_ALLOWED_TRANSITIONS queued = [running, cancelled, failed]"
| "ORCHESTRATION_ALLOWED_TRANSITIONS running =
     [awaiting_strategy_approval, awaiting_content_approval, completed, failed, cancelled]"
| "ORCHESTRATION_ALLOWED_TRANSITIONS awaiting_strategy_approval = [running, cancelled, failed]"
| "ORCHESTRATION_ALLOWED_TRANSITIONS awaiting_content_approval = [running, cancelled, failed]"
| "ORCHESTRATION_ALLOWED_TRANSITIONS completed = []"
| "ORCHESTRATION_ALLOWED_TRANSITIONS failed = []"
| "ORCHESTRATION_ALLOWED_TRANSITIONS cancelled = []"

definition canTransitionOrchestrationRun :: "orch_status \<Rightarrow> orch_status \<Rightarrow> bool" where
  "canTransitionOrchestrationRun from to = (to \<in> set (ORCHESTRATION_ALLOWED_TRANSITIONS from))"


section \<open>Errors\<close>

datatype orch_code =
  ORCHESTRATION_FEATURE_DISABLED | ORCHESTRATION_SCOPE_MISMATCH | ORCHESTRATION_DUPLICATE_START
  | ORCHESTRATION_INVALID_TRANSITION | ORCHESTRATION_STALE_RESUME | ORCHESTRATION_NOT_FOUND
  | VALIDATION_FAILED

text \<open>\<open>OrchestrationLifecycleError\<close> has one code; a move that the table does not list throws it.\<close>

definition transitionOrchestrationRun :: "orch_status \<Rightarrow> orch_status \<Rightarrow> orch_code + orch_status" where
  "transitionOrchestrationRun from to =
     (if canTransitionOrchestrationRun from to then Inr to else Inl ORCHESTRATION_INVALID_TRANSITION)"

lemma status_text_inject [simp]: "status_text s = status_text t \<longleftrightarrow> s = t"
  by (cases s; cases t; simp)

lemma isOrchestrationStatus_text [simp]: "isOrchestrationStatus (status_text s) = Some s"
  by (cases s) (simp_all add: isOrchestrationStatus_def ORCHESTRATION_STATUSES_def)

lemma isOrchestrationStatus_Some: "isOrchestrationStatus v = Some s \<longleftrightarrow> v = status_text s"
proof
  assume "isOrchestrationStatus v = Some s"
  then show "v = status_text s" by (auto simp: isOrchestrationStatus_def find_Some_iff)
qed simp

lemma no_self_transition: "\<not> canTransitionOrchestrationRun s s"
  by (cases s) (simp_all add: canTransitionOrchestrationRun_def)

definition terminal_status :: "orch_status \<Rightarrow> bool" where
  "terminal_status s \<longleftrightarrow> s \<in> {completed, failed, cancelled}"

lemma terminal_iff: "terminal_status s \<longleftrightarrow> (\<forall>t. \<not> canTransitionOrchestrationRun s t)"
  by (cases s) (auto simp: terminal_status_def canTransitionOrchestrationRun_def)


section \<open>The documents\<close>

text \<open>A list of checks in their order, each with the error its failure throws.\<close>

fun assert_all :: "(bool \<times> 'e) list \<Rightarrow> 'e + unit" where
  "assert_all [] = Inr ()"
| "assert_all ((ok, e) # cs) = (if ok then assert_all cs else Inl e)"

lemma assert_all_Inr: "assert_all cs = Inr u \<longleftrightarrow> (\<forall>(ok, e) \<in> set cs. ok)"
  by (induction cs rule: assert_all.induct) auto

lemma assert_all_append: "assert_all (cs @ ds) = throws_bind (assert_all cs) (\<lambda>_. assert_all ds)"
  by (induction cs rule: assert_all.induct) auto

definition assertUuids :: "json \<Rightarrow> string list \<Rightarrow> (bool \<times> orch_code) list" where
  "assertUuids v fs = map (\<lambda>f. (isRunUuid (jget v f), VALIDATION_FAILED)) fs"

text \<open>The bounds: whole numbers, none below zero, no use above its limit; budgets null or not below zero.\<close>

definition budget_ok :: "json \<Rightarrow> bool" where
  "budget_ok v \<longleftrightarrow> v = JNull \<or> isNumber v \<and> jnum v \<ge> 0"

definition bounds_ok :: "json \<Rightarrow> bool" where
  "bounds_ok b \<longleftrightarrow>
     (\<forall>f \<in> set [''tool_calls_used'', ''tool_calls_limit'', ''replans_used'', ''replans_limit''].
        isInteger (jget b f) \<and> jnum (jget b f) \<ge> 0)
     \<and> jnum (jget b ''tool_calls_used'') \<le> jnum (jget b ''tool_calls_limit'')
     \<and> jnum (jget b ''replans_used'') \<le> jnum (jget b ''replans_limit'')"

definition assertCampaignOrchestrationStartV1 :: "json \<Rightarrow> orch_code + unit" where
  "assertCampaignOrchestrationStartV1 v =
     (let b = jget v ''bounds''; wk = jget v ''week_context_id''; sum = jget v ''week_context_checksum'' in
      assert_all
        (assertUuids v [''run_id'', ''owner_user_id'', ''business_id'', ''confirmed_profile_version_id'',
           ''strategy_id'', ''strategy_brief_id'']
         @ (if js_truthy wk
            then [(isRunUuid wk, VALIDATION_FAILED), (js_truthy sum \<and> isHexDigest sum, VALIDATION_FAILED)]
            else [])
         @ [(isHexDigest (jget v ''confirmed_profile_checksum''), VALIDATION_FAILED),
            (js_truthy wk = js_truthy sum, VALIDATION_FAILED),
            (bounds_ok b, VALIDATION_FAILED),
            (budget_ok (jget b ''token_budget''), VALIDATION_FAILED),
            (budget_ok (jget b ''cost_budget_usd''), VALIDATION_FAILED)]))"

text \<open>The members of a decision that must be UUIDs depend on what was decided on.\<close>

definition binding_ids :: "json \<Rightarrow> string list" where
  "binding_ids b =
     (if jget b ''binding_type'' = JStr ''strategy''
      then [''strategy_id'', ''strategy_version_id'', ''decision_id'', ''decided_by_user_id'']
      else [''content_cycle_id'', ''content_pack_id'', ''content_item_id'', ''content_item_version_id'',
            ''decision_id'', ''decided_by_user_id''])"

definition binding_checksum :: "json \<Rightarrow> json" where
  "binding_checksum b =
     (if jget b ''binding_type'' = JStr ''strategy'' then jget b ''strategy_checksum''
      else jget b ''content_item_version_checksum'')"

definition assertCampaignOrchestrationResumeV1 :: "json \<Rightarrow> orch_code + unit" where
  "assertCampaignOrchestrationResumeV1 v =
     (let b = jget v ''decision_binding'' in
      assert_all
        (assertUuids v [''run_id'', ''owner_user_id'', ''business_id'']
         @ [(js_eq (jget v ''checkpoint_thread_id'') (jget v ''run_id''), ORCHESTRATION_SCOPE_MISMATCH),
            (js_eq (jget b ''run_id'') (jget v ''run_id'') \<and> js_eq (jget b ''business_id'') (jget v ''business_id''),
             ORCHESTRATION_SCOPE_MISMATCH)]
         @ assertUuids b (binding_ids b)
         @ [(isHexDigest (binding_checksum b), VALIDATION_FAILED)]))"

end
