(* ===== verification/Orch_Service.thy ===== *)
theory Orch_Service
  imports Db_Action Orch_Contract
begin

text \<open>
  Campaign runs in the database (apps/api/src/modules/orchestration/orchestration.repository.ts) and
  the service over them (orchestration.service.ts): starting a run under an idempotency key, moving
  it along the lifecycle, numbering its events, admitting a resume request.

  A method that reads in one statement and writes in another is given as its two halves, so that
  other requests can come in between; the sequential method is their composition.
\<close>


section \<open>Tables\<close>

record business_row =
  b_id :: string
  b_owner :: string

record profile_row =
  pv_id :: string
  pv_business :: string
  pv_version :: int

record strategy_row =
  st_id :: string
  st_business :: string
  st_owner :: string
  st_brief :: "string option"

record run_row =
  run_id :: string
  run_business :: string
  run_owner :: string
  run_contract :: json
  run_graph :: json
  run_graph_version :: json
  run_status :: string
  run_role :: "orch_role option"
  run_stage :: orch_stage
  run_cohort :: json
  run_thread :: string
  run_checkpoint :: "int option"
  run_input :: json
  run_output :: json
  run_bounds :: json
  run_correlation :: json
  run_key :: string
  run_fingerprint :: string
  run_error :: "json option"

record run_event =
  ev_run :: string
  ev_seq :: nat
  ev_contract :: json
  ev_type :: orch_event_type
  ev_status :: orch_status
  ev_role :: "orch_role option"
  ev_stage :: orch_stage
  ev_node :: "string option"
  ev_tool :: "string option"
  ev_summary :: string
  ev_payload :: json

record orch_db =
  businesses :: "business_row list"
  profiles :: "profile_row list"
  strategies :: "strategy_row list"
  runs :: "run_row list"
  events :: "run_event list"

text \<open>Two runs clash on the identity, the checkpoint thread, or the owner's idempotency key.\<close>

definition run_clash :: "run_row \<Rightarrow> run_row \<Rightarrow> bool" where
  "run_clash r x \<longleftrightarrow> run_id r = run_id x \<or> run_thread r = run_thread x
     \<or> run_owner r = run_owner x \<and> run_key r = run_key x"

definition event_clash :: "run_event \<Rightarrow> run_event \<Rightarrow> bool" where
  "event_clash e x \<longleftrightarrow> ev_run e = ev_run x \<and> ev_seq e = ev_seq x"

datatype db_fault = UNIQUE_VIOLATION | FOREIGN_KEY_VIOLATION | RECORD_NOT_FOUND | INVALID_ARGUMENT

datatype orch_error =
  BadRequest orch_code | Forbidden orch_code | Conflict orch_code | NotFound orch_code
  | Db db_fault | Thrown js_error

type_synonym 'a orch = "(orch_db, orch_error, 'a) action"

definition put_runs :: "run_row list \<Rightarrow> orch_db \<Rightarrow> orch_db" where
  "put_runs t s = s\<lparr>runs := t\<rparr>"

definition put_events :: "run_event list \<Rightarrow> orch_db \<Rightarrow> orch_db" where
  "put_events t s = s\<lparr>events := t\<rparr>"


section \<open>Repository\<close>

definition find_run :: "string \<Rightarrow> orch_db \<Rightarrow> run_row option" where
  "find_run i s = tbl_find run_id i (runs s)"

definition find_event :: "string \<Rightarrow> nat \<Rightarrow> orch_db \<Rightarrow> run_event option" where
  "find_event i n s = tbl_find (\<lambda>e. (ev_run e, ev_seq e)) (i, n) (events s)"

definition findByIdempotency :: "string \<Rightarrow> string \<Rightarrow> orch_db \<Rightarrow> (run_row \<times> run_event option) option" where
  "findByIdempotency owner key s =
     map_option (\<lambda>r. (r, find_event (run_id r) 1 s)) (tbl_find (\<lambda>r. (run_owner r, run_key r)) (owner, key) (runs s))"

definition findByIdAndOwner :: "string \<Rightarrow> string \<Rightarrow> orch_db \<Rightarrow> run_row option" where
  "findByIdAndOwner i owner s = List.find (\<lambda>r. run_id r = i \<and> run_owner r = owner) (runs s)"

text \<open>A version is a 32-bit column: Prisma refuses any other number in a query.\<close>

definition int_column :: "json \<Rightarrow> bool" where
  "int_column v \<longleftrightarrow> isInteger v \<and> \<bar>jnum v\<bar> \<le> 2147483647"

definition isStartScopeValid :: "json \<Rightarrow> string \<Rightarrow> bool orch" where
  "isStartScopeValid v owner s =
     (if \<not> int_column (jget v ''confirmed_profile_version'') then (Inl (Db INVALID_ARGUMENT), s)
      else
        (let owned = (\<lambda>i. \<exists>b \<in> set (businesses s). b_id b = i \<and> b_owner b = owner);
             business = (\<exists>b \<in> set (businesses s). JStr (b_id b) = jget v ''business_id'' \<and> b_owner b = owner);
             profile = (\<exists>p \<in> set (profiles s). JStr (pv_id p) = jget v ''confirmed_profile_version_id''
               \<and> JStr (pv_business p) = jget v ''business_id''
               \<and> JNum (of_int (pv_version p)) = jget v ''confirmed_profile_version'' \<and> owned (pv_business p));
             strategy = List.find (\<lambda>t. JStr (st_id t) = jget v ''strategy_id''
               \<and> JStr (st_business t) = jget v ''business_id'' \<and> st_owner t = owner) (strategies s)
         in (Inr (business \<and> profile \<and> (case strategy of None \<Rightarrow> False
               | Some t \<Rightarrow> (case st_brief t of None \<Rightarrow> False | Some b \<Rightarrow> JStr b = jget v ''strategy_brief_id''))), s)))"

definition first_event :: "run_row \<Rightarrow> orch_status \<Rightarrow> run_event" where
  "first_event r st = \<lparr>ev_run = run_id r, ev_seq = 1, ev_contract = run_contract r, ev_type = run_created,
     ev_status = st, ev_role = run_role r, ev_stage = run_stage r, ev_node = None, ev_tool = None,
     ev_summary = ''Orchestration run queued.'', ev_payload = JObj []\<rparr>"

definition create_run :: "run_row \<Rightarrow> unit orch" where
  "create_run r s =
     (if run_business r \<notin> b_id ` set (businesses s) then (Inl (Db FOREIGN_KEY_VIOLATION), s)
      else act_insert run_clash runs put_runs r (Db UNIQUE_VIOLATION) s)"

definition create_event :: "run_event \<Rightarrow> unit orch" where
  "create_event e s =
     (if ev_run e \<notin> run_id ` set (runs s) then (Inl (Db FOREIGN_KEY_VIOLATION), s)
      else act_insert event_clash events put_events e (Db UNIQUE_VIOLATION) s)"

definition createRunWithInitialEvent :: "run_row \<Rightarrow> (run_row \<times> run_event option) orch" where
  "createRunWithInitialEvent r =
     transaction
       (act_seq (create_run r)
         (act_seq (create_event (first_event r queued))
           (act_return (r, Some (first_event r queued)))))"

text \<open>The update names the status that was read, so that a stale worker changes nothing.\<close>

definition transitionStatus :: "string \<Rightarrow> string \<Rightarrow> orch_status \<Rightarrow> orch_status \<Rightarrow> bool orch" where
  "transitionStatus i owner from to s =
     (let P = (\<lambda>r. run_id r = i \<and> run_owner r = owner \<and> run_status r = status_text from) in
      (Inr (tbl_count P (runs s) = 1), put_runs (tbl_update P (\<lambda>r. r\<lparr>run_status := status_text to\<rparr>) (runs s)) s))"

definition updateCheckpoint :: "string \<Rightarrow> int \<Rightarrow> run_row orch" where
  "updateCheckpoint i n s =
     (case find_run i s of
        None \<Rightarrow> (Inl (Db RECORD_NOT_FOUND), s)
      | Some r \<Rightarrow> (Inr (r\<lparr>run_checkpoint := Some n\<rparr>),
          put_runs (tbl_update (\<lambda>x. run_id x = i) (\<lambda>x. x\<lparr>run_checkpoint := Some n\<rparr>) (runs s)) s))"

text \<open>
  An event takes the number after the latest one; the lock on the run makes the transactions that
  append to one run follow one another.
\<close>

definition latest_seq :: "string \<Rightarrow> orch_db \<Rightarrow> nat" where
  "latest_seq i s = fold max (map ev_seq (filter (\<lambda>e. ev_run e = i) (events s))) 0"

definition appendEvent :: "string \<Rightarrow> run_event \<Rightarrow> run_event orch" where
  "appendEvent i e =
     transaction
       (act_bind (act_read (latest_seq i)) (\<lambda>n.
          let e' = e\<lparr>ev_run := i, ev_seq := n + 1\<rparr> in
          act_seq (create_event e') (act_return e')))"

definition listEvents :: "string \<Rightarrow> orch_db \<Rightarrow> run_event list" where
  "listEvents i s = sort_key ev_seq (filter (\<lambda>e. ev_run e = i) (events s))"


section \<open>Starting a run\<close>

definition resolveIdempotentReplay :: "run_row \<times> run_event option \<Rightarrow> string \<Rightarrow> orch_error + run_row \<times> run_event option" where
  "resolveIdempotentReplay existing fingerprint =
     (if run_fingerprint (fst existing) \<noteq> fingerprint then Inl (Conflict ORCHESTRATION_DUPLICATE_START) else Inr existing)"

definition immutable_refs :: "json \<Rightarrow> json" where
  "immutable_refs v = JObj (map (\<lambda>f. (f, jget v f))
     [''confirmed_profile_version_id'', ''confirmed_profile_version'', ''confirmed_profile_checksum'',
      ''strategy_id'', ''strategy_brief_id'', ''requested_week_number'', ''week_context_id'', ''week_context_checksum''])"

definition new_run :: "json \<Rightarrow> string \<Rightarrow> string \<Rightarrow> run_row" where
  "new_run v owner fingerprint =
     \<lparr>run_id = jstr (jget v ''run_id''), run_business = jstr (jget v ''business_id''), run_owner = owner,
      run_contract = jget v ''contract_version'', run_graph = jget v ''graph_name'',
      run_graph_version = jget v ''graph_version'', run_status = status_text queued, run_role = None,
      run_stage = stage_prepare, run_cohort = jget v ''feature_cohort'', run_thread = jstr (jget v ''run_id''),
      run_checkpoint = None, run_input = immutable_refs v, run_output = JObj [], run_bounds = jget v ''bounds'',
      run_correlation = jget v ''correlation_id'', run_key = jstr (jget v ''idempotency_key''),
      run_fingerprint = fingerprint, run_error = None\<rparr>"

text \<open>The first half ends in an answer to the caller, or in the run that is to be created.\<close>

datatype start_step = Answered "run_row \<times> run_event option" | To_create run_row

definition start_check :: "js_env \<Rightarrow> bool \<Rightarrow> json \<Rightarrow> string \<Rightarrow> start_step orch" where
  "start_check E enabled v owner =
     (if \<not> enabled then act_throw (BadRequest ORCHESTRATION_FEATURE_DISABLED)
      else if jget v ''owner_user_id'' \<noteq> JStr owner then act_throw (Forbidden ORCHESTRATION_SCOPE_MISMATCH)
      else case assertCampaignOrchestrationStartV1 v of
        Inl c \<Rightarrow> act_throw (BadRequest c)
      | Inr _ \<Rightarrow>
          act_bind (isStartScopeValid v owner) (\<lambda>ok.
            if \<not> ok then act_throw (Forbidden ORCHESTRATION_SCOPE_MISMATCH)
            else case computePublishingSha256 E v of
              Inl e \<Rightarrow> act_throw (Thrown e)
            | Inr fp \<Rightarrow>
                act_bind (act_read (findByIdempotency owner (jstr (jget v ''idempotency_key'')))) (\<lambda>found.
                  case found of
                    Some x \<Rightarrow> act_bind (act_lift (resolveIdempotentReplay x fp)) (\<lambda>y. act_return (Answered y))
                  | None \<Rightarrow> act_return (To_create (new_run v owner fp)))))"

definition start_commit :: "run_row \<Rightarrow> (run_row \<times> run_event option) orch" where
  "start_commit r =
     act_catch (createRunWithInitialEvent r)
       (\<lambda>e. if e \<noteq> Db UNIQUE_VIOLATION then act_throw e
            else act_bind (act_read (findByIdempotency (run_owner r) (run_key r))) (\<lambda>found.
              case found of
                None \<Rightarrow> act_throw e
              | Some x \<Rightarrow> act_lift (resolveIdempotentReplay x (run_fingerprint r))))"

definition startRun :: "js_env \<Rightarrow> bool \<Rightarrow> json \<Rightarrow> string \<Rightarrow> (run_row \<times> run_event option) orch" where
  "startRun E enabled v owner =
     act_bind (start_check E enabled v owner) (\<lambda>x.
       case x of Answered y \<Rightarrow> act_return y | To_create r \<Rightarrow> start_commit r)"


section \<open>Moving and resuming a run\<close>

text \<open>The first half finds no run, or the move from the status it read.\<close>

definition transition_check :: "string \<Rightarrow> string \<Rightarrow> string \<Rightarrow> (orch_status \<times> orch_status) option orch" where
  "transition_check i owner next =
     act_bind (act_read (findByIdAndOwner i owner)) (\<lambda>current.
       case current of
         None \<Rightarrow> act_return None
       | Some r \<Rightarrow>
           (case (isOrchestrationStatus (run_status r), isOrchestrationStatus next) of
              (Some from, Some to) \<Rightarrow>
                (case transitionOrchestrationRun from to of
                   Inl c \<Rightarrow> act_throw (Conflict c)
                 | Inr _ \<Rightarrow> act_return (Some (from, to)))
            | _ \<Rightarrow> act_throw (Conflict ORCHESTRATION_INVALID_TRANSITION)))"

definition transition_commit :: "string \<Rightarrow> string \<Rightarrow> orch_status \<Rightarrow> orch_status \<Rightarrow> bool orch" where
  "transition_commit i owner from to =
     act_bind (transitionStatus i owner from to) (\<lambda>done.
       if done then act_return True else act_throw (Conflict ORCHESTRATION_STALE_RESUME))"

definition transitionRun :: "string \<Rightarrow> string \<Rightarrow> string \<Rightarrow> bool orch" where
  "transitionRun i owner next =
     act_bind (transition_check i owner next) (\<lambda>move.
       case move of None \<Rightarrow> act_return False | Some (from, to) \<Rightarrow> transition_commit i owner from to)"

definition resume_error :: "orch_code \<Rightarrow> orch_error" where
  "resume_error c = (if c = ORCHESTRATION_SCOPE_MISMATCH then Forbidden c else BadRequest c)"

definition validateResumeRequest :: "bool \<Rightarrow> json \<Rightarrow> string \<Rightarrow> run_row orch" where
  "validateResumeRequest enabled v owner =
     (if \<not> enabled then act_throw (BadRequest ORCHESTRATION_FEATURE_DISABLED)
      else if jget v ''owner_user_id'' \<noteq> JStr owner
        \<or> jget (jget v ''decision_binding'') ''decided_by_user_id'' \<noteq> JStr owner
      then act_throw (Forbidden ORCHESTRATION_SCOPE_MISMATCH)
      else case assertCampaignOrchestrationResumeV1 v of
        Inl c \<Rightarrow> act_throw (resume_error c)
      | Inr _ \<Rightarrow>
          act_bind (act_read (findByIdAndOwner (jstr (jget v ''run_id'')) owner)) (\<lambda>found.
            case found of
              None \<Rightarrow> act_throw (NotFound ORCHESTRATION_NOT_FOUND)
            | Some r \<Rightarrow>
                if JStr (run_business r) \<noteq> jget v ''business_id''
                  \<or> JStr (run_thread r) \<noteq> jget v ''checkpoint_thread_id''
                then act_throw (Forbidden ORCHESTRATION_SCOPE_MISMATCH)
                else if run_status r \<noteq> status_text awaiting_strategy_approval
                  \<and> run_status r \<noteq> status_text awaiting_content_approval
                then act_throw (Conflict ORCHESTRATION_STALE_RESUME)
                else act_return r))"

end
