(* ===== verification/Orch_World.thy ===== *)
theory Orch_World
  imports Orch_Service
begin

text \<open>
  The orchestration as a transition system: requests of several processes, each of whose methods
  may stop between its read and its write. A world is the database, the writes that are still to
  come, and the answers given to starts, each with the request it answers. The lemmas establish what every history keeps: the unique
  keys, the numbering of events, and the lifecycle.
\<close>


section \<open>Worlds and steps\<close>

datatype pending_write =
  Creating json run_row
  | Moving string string orch_status orch_status

record orch_world =
  orch_db :: orch_db
  pending_writes :: "pending_write list"
  answers :: "(json \<times> run_row) list"

datatype orch_label =
  Start json string
  | Move string string string
  | Write nat
  | Forget nat
  | Append string run_event
  | Checkpoint string int

definition drop_nth :: "nat \<Rightarrow> 'a list \<Rightarrow> 'a list" where
  "drop_nth n xs = take n xs @ drop (Suc n) xs"

definition start_world :: "js_env \<Rightarrow> bool \<Rightarrow> json \<Rightarrow> string \<Rightarrow> orch_world \<Rightarrow> orch_world" where
  "start_world E enabled v owner w =
     (case start_check E enabled v owner (orch_db w) of
        (Inl e, s) \<Rightarrow> w\<lparr>orch_db := s\<rparr>
      | (Inr (Answered x), s) \<Rightarrow> w\<lparr>orch_db := s, answers := answers w @ [(v, fst x)]\<rparr>
      | (Inr (To_create r), s) \<Rightarrow> w\<lparr>orch_db := s, pending_writes := pending_writes w @ [Creating v r]\<rparr>)"

definition move_world :: "string \<Rightarrow> string \<Rightarrow> string \<Rightarrow> orch_world \<Rightarrow> orch_world" where
  "move_world i owner next w =
     (case transition_check i owner next (orch_db w) of
        (Inr (Some (from, to)), s) \<Rightarrow> w\<lparr>orch_db := s, pending_writes := pending_writes w @ [Moving i owner from to]\<rparr>
      | (_, s) \<Rightarrow> w\<lparr>orch_db := s\<rparr>)"

definition write_world :: "nat \<Rightarrow> orch_world \<Rightarrow> orch_world" where
  "write_world n w =
     (if n \<ge> length (pending_writes w) then w
      else (let rest = drop_nth n (pending_writes w) in
        case pending_writes w ! n of
          Creating v r \<Rightarrow>
            (case start_commit r (orch_db w) of
               (Inl e, s) \<Rightarrow> w\<lparr>orch_db := s, pending_writes := rest\<rparr>
             | (Inr x, s) \<Rightarrow> w\<lparr>orch_db := s, pending_writes := rest, answers := answers w @ [(v, fst x)]\<rparr>)
        | Moving i owner from to \<Rightarrow>
            w\<lparr>orch_db := snd (transition_commit i owner from to (orch_db w)), pending_writes := rest\<rparr>))"

definition orch_step :: "js_env \<Rightarrow> bool \<Rightarrow> orch_world \<Rightarrow> orch_label \<Rightarrow> orch_world" where
  "orch_step E enabled w l =
     (case l of
        Start v owner \<Rightarrow> start_world E enabled v owner w
      | Move i owner next \<Rightarrow> move_world i owner next w
      | Write n \<Rightarrow> write_world n w
      | Forget n \<Rightarrow> w\<lparr>pending_writes := drop_nth n (pending_writes w)\<rparr>
      | Append i e \<Rightarrow> w\<lparr>orch_db := snd (appendEvent i e (orch_db w))\<rparr>
      | Checkpoint i n \<Rightarrow> w\<lparr>orch_db := snd (updateCheckpoint i n (orch_db w))\<rparr>)"

lemma set_drop_nth: "set (drop_nth n xs) \<subseteq> set xs"
  by (auto simp: drop_nth_def dest: in_set_takeD in_set_dropD)


section \<open>The kinds of write\<close>

text \<open>
  Seen from the tables there are five things a step does: nothing, a new run with its first event,
  a move of one run along the table of transitions, a checkpoint, an event with the next number.
\<close>

definition run_added :: "run_row \<Rightarrow> orch_db \<Rightarrow> orch_db \<Rightarrow> bool" where
  "run_added r s t \<longleftrightarrow> (\<forall>x \<in> set (runs s). \<not> run_clash r x)
     \<and> t = s\<lparr>runs := runs s @ [r], events := events s @ [first_event r queued]\<rparr>"

definition run_moved :: "string \<Rightarrow> string \<Rightarrow> orch_status \<Rightarrow> orch_status \<Rightarrow> orch_db \<Rightarrow> orch_db \<Rightarrow> bool" where
  "run_moved i owner from to s t \<longleftrightarrow>
     t = s\<lparr>runs := tbl_update (\<lambda>r. run_id r = i \<and> run_owner r = owner \<and> run_status r = status_text from)
                     (\<lambda>r. r\<lparr>run_status := status_text to\<rparr>) (runs s)\<rparr>"

definition run_checked :: "string \<Rightarrow> int \<Rightarrow> orch_db \<Rightarrow> orch_db \<Rightarrow> bool" where
  "run_checked i n s t \<longleftrightarrow> t = s\<lparr>runs := tbl_update (\<lambda>r. run_id r = i) (\<lambda>r. r\<lparr>run_checkpoint := Some n\<rparr>) (runs s)\<rparr>"

definition event_added :: "string \<Rightarrow> run_event \<Rightarrow> orch_db \<Rightarrow> orch_db \<Rightarrow> bool" where
  "event_added i e s t \<longleftrightarrow> i \<in> run_id ` set (runs s)
     \<and> t = s\<lparr>events := events s @ [e\<lparr>ev_run := i, ev_seq := latest_seq i s + 1\<rparr>]\<rparr>"

lemma first_event_run [simp]: "ev_run (first_event r st) = run_id r" "ev_seq (first_event r st) = 1"
  by (simp_all add: first_event_def)

lemma create_run_eq:
  "createRunWithInitialEvent r s =
     (if run_business r \<notin> b_id ` set (businesses s) then (Inl (Db FOREIGN_KEY_VIOLATION), s)
      else if (\<exists>y \<in> set (runs s). run_clash r y) \<or> (\<exists>y \<in> set (events s). event_clash (first_event r queued) y)
      then (Inl (Db UNIQUE_VIOLATION), s)
      else (Inr (r, Some (first_event r queued)),
            s\<lparr>runs := runs s @ [r], events := events s @ [first_event r queued]\<rparr>))"
  by (simp add: createRunWithInitialEvent_def create_run_def create_event_def action_defs put_runs_def put_events_def)

lemma create_run_cases:
  assumes "createRunWithInitialEvent r s = (x, t)"
  obtains (added) "run_added r s t" "x = Inr (r, Some (first_event r queued))"
  | (refused) e where "t = s" "x = Inl e"
  using assms unfolding create_run_eq run_added_def by (auto split: if_splits)

lemma start_commit_cases:
  assumes "start_commit r s = (x, t)"
  obtains (added) "run_added r s t" "x = Inr (r, Some (first_event r queued))"
  | (kept) "t = s" "\<And>y. x = Inr y \<Longrightarrow> findByIdempotency (run_owner r) (run_key r) s = Some y
      \<and> run_fingerprint (fst y) = run_fingerprint r"
proof -
  note finish = that
  obtain y u where y: "createRunWithInitialEvent r s = (y, u)" by fastforce
  from y show ?thesis
  proof (cases rule: create_run_cases)
    case added
    then show ?thesis using assms y by (intro finish(1)) (simp_all add: start_commit_def act_catch_def)
  next
    case (refused e)
    then have "t = s" "z = findByIdempotency (run_owner r) (run_key r) s \<Longrightarrow> x = Inr a \<Longrightarrow> z = Some a
      \<and> run_fingerprint (fst a) = run_fingerprint r" for z a
      using assms y
      by (auto simp: start_commit_def act_catch_def act_throw_def act_bind_def act_read_def act_lift_def
          resolveIdempotentReplay_def split: if_splits option.splits)
    then show ?thesis by (intro finish(2)) auto
  qed
qed

lemma transition_commit_moves: "run_moved i owner from to s (snd (transition_commit i owner from to s))"
  by (simp add: transition_commit_def transitionStatus_def action_defs put_runs_def run_moved_def Let_def)

lemma checkpoint_cases:
  "snd (updateCheckpoint i n s) = s \<or> run_checked i n s (snd (updateCheckpoint i n s))"
  by (auto simp: updateCheckpoint_def put_runs_def run_checked_def split: option.split)

lemma append_cases:
  "snd (appendEvent i e s) = s \<or> event_added i e s (snd (appendEvent i e s))"
  by (auto simp: appendEvent_def create_event_def action_defs put_events_def event_added_def Let_def)

lemma start_check_reads: "snd (start_check E enabled v owner s) = s"
  by (auto simp: start_check_def action_defs isStartScopeValid_def Let_def split: sum.split option.split prod.split)

lemma scope_reads: "snd (isStartScopeValid v owner s) = s"
  by (simp add: isStartScopeValid_def Let_def)

lemma start_check_Inr:
  assumes "start_check E enabled v owner s = (Inr x, t)"
  obtains fp where enabled "computePublishingSha256 E v = Inr fp" "assertCampaignOrchestrationStartV1 v = Inr ()"
    "jget v ''owner_user_id'' = JStr owner" "isStartScopeValid v owner s = (Inr True, s)"
    "(\<exists>y. findByIdempotency owner (jstr (jget v ''idempotency_key'')) s = Some y \<and> run_fingerprint (fst y) = fp
        \<and> x = Answered y)
     \<or> findByIdempotency owner (jstr (jget v ''idempotency_key'')) s = None \<and> x = To_create (new_run v owner fp)"
proof -
  obtain ok where "isStartScopeValid v owner s = (ok, s)" using scope_reads by (metis prod.collapse)
  with assms that show thesis
    by (auto simp: start_check_def action_defs resolveIdempotentReplay_def split: sum.splits option.splits if_splits)
qed

lemma transition_check_reads: "snd (transition_check i owner next s) = s"
  by (auto simp: transition_check_def action_defs split: sum.split option.split)

lemma transition_check_Some:
  assumes "transition_check i owner next s = (Inr (Some (from, to)), t)"
  shows "canTransitionOrchestrationRun from to"
    and "\<exists>r \<in> set (runs s). run_id r = i \<and> run_owner r = owner \<and> run_status r = status_text from"
proof -
  obtain r where r: "findByIdAndOwner i owner s = Some r" "isOrchestrationStatus (run_status r) = Some from"
    "transitionOrchestrationRun from to = Inr to"
    using assms
    by (auto simp: transition_check_def action_defs transitionOrchestrationRun_def split: sum.splits option.splits if_splits)
  then show "canTransitionOrchestrationRun from to"
    by (simp add: transitionOrchestrationRun_def split: if_splits)
  from r(1) have "r \<in> set (runs s) \<and> run_id r = i \<and> run_owner r = owner"
    by (auto simp: findByIdAndOwner_def find_Some_iff)
  with r(2) show "\<exists>r \<in> set (runs s). run_id r = i \<and> run_owner r = owner \<and> run_status r = status_text from"
    by (auto simp: isOrchestrationStatus_Some)
qed


section \<open>What every history keeps\<close>

text \<open>One step of a status column, and what may happen to a row: steps of its status, a checkpoint.\<close>

definition status_step :: "string \<Rightarrow> string \<Rightarrow> bool" where
  "status_step a b \<longleftrightarrow> (\<exists>f t. a = status_text f \<and> b = status_text t \<and> canTransitionOrchestrationRun f t)"

definition progress :: "run_row \<Rightarrow> run_row \<Rightarrow> bool" where
  "progress r r' \<longleftrightarrow>
     (\<exists>st n. status_step\<^sup>*\<^sup>* (run_status r) st \<and> r' = r\<lparr>run_status := st, run_checkpoint := n\<rparr>)"

definition db_progress :: "orch_db \<Rightarrow> orch_db \<Rightarrow> bool" where
  "db_progress s t \<longleftrightarrow>
     (\<exists>rs new. runs t = rs @ new \<and> list_all2 progress (runs s) rs)
     \<and> (\<exists>new. events t = events s @ new)
     \<and> businesses t = businesses s \<and> profiles t = profiles s \<and> strategies t = strategies s"

definition numbered :: "string \<Rightarrow> orch_db \<Rightarrow> bool" where
  "numbered i s \<longleftrightarrow> (\<exists>n \<ge> 1. map ev_seq (filter (\<lambda>e. ev_run e = i) (events s)) = [1..<Suc n])"

definition db_ok :: "orch_db \<Rightarrow> bool" where
  "db_ok s \<longleftrightarrow>
     distinct (map run_id (runs s)) \<and> distinct (map (\<lambda>r. (run_owner r, run_key r)) (runs s))
     \<and> (\<forall>r \<in> set (runs s). (\<exists>st. run_status r = status_text st) \<and> run_thread r = run_id r \<and> numbered (run_id r) s)
     \<and> (\<forall>e \<in> set (events s). ev_run e \<in> run_id ` set (runs s))"

fun pending_ok :: "js_env \<Rightarrow> pending_write \<Rightarrow> bool" where
  "pending_ok E (Creating v r) \<longleftrightarrow> run_status r = status_text queued \<and> run_thread r = run_id r
     \<and> computePublishingSha256 E v = Inr (run_fingerprint r) \<and> jget v ''owner_user_id'' = JStr (run_owner r)
     \<and> jstr (jget v ''idempotency_key'') = run_key r"
| "pending_ok E (Moving i owner from to) \<longleftrightarrow> canTransitionOrchestrationRun from to"

definition answer_ok :: "js_env \<Rightarrow> orch_db \<Rightarrow> json \<times> run_row \<Rightarrow> bool" where
  "answer_ok E s a \<longleftrightarrow> (\<exists>r \<in> set (runs s). progress (snd a) r)
     \<and> computePublishingSha256 E (fst a) = Inr (run_fingerprint (snd a))
     \<and> jget (fst a) ''owner_user_id'' = JStr (run_owner (snd a)) \<and> jstr (jget (fst a) ''idempotency_key'') = run_key (snd a)"

definition orch_ok :: "js_env \<Rightarrow> orch_world \<Rightarrow> bool" where
  "orch_ok E w \<longleftrightarrow> db_ok (orch_db w) \<and> list_all (pending_ok E) (pending_writes w)
     \<and> list_all (answer_ok E (orch_db w)) (answers w)"

lemma progress_refl: "progress r r"
  unfolding progress_def by (rule exI [of _ "run_status r"], rule exI [of _ "run_checkpoint r"]) simp

lemma known_status: "status_step\<^sup>*\<^sup>* a b \<Longrightarrow> \<exists>st. a = status_text st \<Longrightarrow> \<exists>st. b = status_text st"
  by (induction rule: rtranclp_induct) (auto simp: status_step_def)

lemma terminal_stays: "status_step\<^sup>*\<^sup>* (status_text a) b \<Longrightarrow> terminal_status a \<Longrightarrow> b = status_text a"
  by (induction rule: rtranclp_induct) (auto simp: status_step_def terminal_iff)

lemma progress_keeps:
  "progress r s \<Longrightarrow> run_id s = run_id r \<and> run_owner s = run_owner r \<and> run_key s = run_key r \<and> run_thread s = run_thread r
     \<and> run_fingerprint s = run_fingerprint r \<and> run_business s = run_business r \<and> status_step\<^sup>*\<^sup>* (run_status r) (run_status s)"
  by (auto simp: progress_def)

lemma progress_trans:
  assumes "progress r s" "progress s t"
  shows "progress r t"
proof -
  obtain a n where a: "status_step\<^sup>*\<^sup>* (run_status r) a" "s = r\<lparr>run_status := a, run_checkpoint := n\<rparr>"
    using assms(1) by (auto simp: progress_def)
  obtain b m where b: "status_step\<^sup>*\<^sup>* (run_status s) b" "t = s\<lparr>run_status := b, run_checkpoint := m\<rparr>"
    using assms(2) by (auto simp: progress_def)
  show ?thesis unfolding progress_def
    by (rule exI [of _ b], rule exI [of _ m]) (use a b in auto)
qed

text \<open>An update that moves a run one step, or sets its checkpoint.\<close>

lemma progress_move:
  "canTransitionOrchestrationRun f t \<Longrightarrow> run_status r = status_text f \<Longrightarrow> progress r (r\<lparr>run_status := status_text t\<rparr>)"
  unfolding progress_def
  by (rule exI [of _ "status_text t"], rule exI [of _ "run_checkpoint r"]) (auto simp: status_step_def)

lemma progress_checkpoint: "progress r (r\<lparr>run_checkpoint := n\<rparr>)"
  unfolding progress_def by (rule exI [of _ "run_status r"], rule exI [of _ n]) simp

lemma db_okD:
  assumes "db_ok s"
  shows "distinct (map run_id (runs s))" "distinct (map (\<lambda>r. (run_owner r, run_key r)) (runs s))"
    "r \<in> set (runs s) \<Longrightarrow> \<exists>st. run_status r = status_text st" "r \<in> set (runs s) \<Longrightarrow> run_thread r = run_id r"
    "r \<in> set (runs s) \<Longrightarrow> numbered (run_id r) s" "e \<in> set (events s) \<Longrightarrow> ev_run e \<in> run_id ` set (runs s)"
  using assms by (auto simp: db_ok_def)

lemma db_progress_refl: "db_progress s s"
  unfolding db_progress_def
  by (intro conjI exI [of _ "runs s"] exI [of _ "[]"] list.rel_refl) (auto intro: progress_refl)

lemma db_progress_trans:
  assumes "db_progress s t" "db_progress t u"
  shows "db_progress s u"
proof -
  obtain rs new where a: "runs t = rs @ new" "list_all2 progress (runs s) rs"
    using assms(1) by (auto simp: db_progress_def)
  obtain rs' new' where b: "runs u = rs' @ new'" "list_all2 progress (runs t) rs'"
    using assms(2) by (auto simp: db_progress_def)
  obtain us vs where c: "rs' = us @ vs" "list_all2 progress rs us"
    using b(2) a(1) by (auto simp: list_all2_append1)
  have "list_all2 progress (runs s) us"
    by (rule list_all2_trans [OF _ a(2) c(2)]) (rule progress_trans)
  moreover have "runs u = us @ (vs @ new')" using b(1) c(1) by simp
  moreover have "\<exists>new. events u = events s @ new"
    using assms by (auto simp: db_progress_def)
  ultimately show ?thesis using assms unfolding db_progress_def by metis
qed

lemma db_progress_run:
  assumes "db_progress s t" "r \<in> set (runs s)"
  obtains r' where "r' \<in> set (runs t)" "progress r r'"
proof -
  obtain rs new where "runs t = rs @ new" "list_all2 progress (runs s) rs"
    using assms(1) by (auto simp: db_progress_def)
  moreover obtain k where "k < length (runs s)" "r = runs s ! k" using assms(2) by (auto simp: in_set_conv_nth)
  ultimately have "rs ! k \<in> set (runs t)" "progress r (rs ! k)"
    by (auto simp: list_all2_conv_all_nth)
  then show thesis by (rule that)
qed

text \<open>Updates of the runs in place: what they keep.\<close>

lemma runs_updated:
  assumes "db_ok s" "\<And>r. r \<in> set (runs s) \<Longrightarrow> P r \<Longrightarrow> progress r (f r)"
  shows "db_ok (s\<lparr>runs := tbl_update P f (runs s)\<rparr>) \<and> db_progress s (s\<lparr>runs := tbl_update P f (runs s)\<rparr>)"
proof -
  define g where "g = (\<lambda>r. if P r then f r else r)"
  have g: "progress r (g r)" if "r \<in> set (runs s)" for r
    using assms that by (auto simp: g_def intro: progress_refl)
  have k: "run_id (g r) = run_id r \<and> run_owner (g r) = run_owner r \<and> run_key (g r) = run_key r \<and> run_thread (g r) = run_thread r
      \<and> (\<exists>st. run_status (g r) = status_text st)" if "r \<in> set (runs s)" for r
    using progress_keeps [OF g [OF that]] known_status db_okD(3) [OF assms(1) that] by metis
  have u: "tbl_update P f (runs s) = map g (runs s)" by (simp add: tbl_update_def g_def)
  have ids: "map run_id (map g (runs s)) = map run_id (runs s)"
    and keys: "map (\<lambda>r. (run_owner r, run_key r)) (map g (runs s)) = map (\<lambda>r. (run_owner r, run_key r)) (runs s)"
    using k by (auto intro: map_cong)
  then have img: "run_id ` set (map g (runs s)) = run_id ` set (runs s)" by (metis list.set_map)
  have "db_ok (s\<lparr>runs := map g (runs s)\<rparr>)"
    using db_okD(1,2) [OF assms(1)] db_okD(3-6) [OF assms(1)] ids keys img k
    by (simp add: db_ok_def numbered_def del: map_map)
  moreover have "db_progress s (s\<lparr>runs := map g (runs s)\<rparr>)"
    unfolding db_progress_def
    by (intro conjI exI [of _ "map g (runs s)"] exI [of _ "[]"])
      (use g in \<open>auto simp: list_all2_conv_all_nth\<close>)
  ultimately show ?thesis by (simp add: u)
qed

lemma run_moved_ok:
  "db_ok s \<Longrightarrow> canTransitionOrchestrationRun from to \<Longrightarrow> run_moved i owner from to s t \<Longrightarrow> db_ok t \<and> db_progress s t"
  unfolding run_moved_def by (hypsubst, rule runs_updated) (auto intro: progress_move)

lemma run_checked_ok: "db_ok s \<Longrightarrow> run_checked i n s t \<Longrightarrow> db_ok t \<and> db_progress s t"
  unfolding run_checked_def by (hypsubst, rule runs_updated) (auto intro: progress_checkpoint)

lemma fold_max_upt: "n \<ge> 1 \<Longrightarrow> fold max [1..<Suc n] 0 = n"
proof -
  have "fold max [1..<Suc n] 0 = n" for n by (induction n) auto
  then show ?thesis .
qed

lemma latest_seq_numbered:
  assumes "numbered i s"
  shows "map ev_seq (filter (\<lambda>e. ev_run e = i) (events s)) = [1..<Suc (latest_seq i s)]" "latest_seq i s \<ge> 1"
proof -
  obtain n where n: "n \<ge> 1" "map ev_seq (filter (\<lambda>e. ev_run e = i) (events s)) = [1..<Suc n]"
    using assms by (auto simp: numbered_def)
  then have "latest_seq i s = n" using fold_max_upt by (simp only: latest_seq_def)
  with n show "map ev_seq (filter (\<lambda>e. ev_run e = i) (events s)) = [1..<Suc (latest_seq i s)]" "latest_seq i s \<ge> 1"
    by simp_all
qed

lemma event_added_ok:
  assumes "db_ok s" "event_added i e s t"
  shows "db_ok t \<and> db_progress s t"
proof -
  have t: "t = s\<lparr>events := events s @ [e\<lparr>ev_run := i, ev_seq := latest_seq i s + 1\<rparr>]\<rparr>" and i: "i \<in> run_id ` set (runs s)"
    using assms(2) by (simp_all add: event_added_def)
  have num: "numbered j t" if "numbered j s" for j
  proof (cases "j = i")
    case True
    from latest_seq_numbered [OF that] show ?thesis
      unfolding numbered_def t True
      by (intro exI [of _ "latest_seq i s + 1"]) (simp add: True)
  next
    case False
    with that show ?thesis by (simp add: numbered_def t)
  qed
  have "db_ok t"
    unfolding db_ok_def using db_okD [OF assms(1)] num i by (auto simp: t)
  moreover have "db_progress s t"
    using db_progress_refl [of s] by (simp add: db_progress_def t)
  ultimately show ?thesis by blast
qed

lemma run_added_ok:
  assumes "db_ok s" "run_added r s t" "run_status r = status_text queued" "run_thread r = run_id r"
  shows "db_ok t \<and> db_progress s t \<and> (\<exists>x \<in> set (runs t). progress r x)"
proof -
  have t: "t = s\<lparr>runs := runs s @ [r], events := events s @ [first_event r queued]\<rparr>"
    and new: "\<And>x. x \<in> set (runs s) \<Longrightarrow> \<not> run_clash r x"
    using assms(2) by (simp_all add: run_added_def)
  have fresh: "filter (\<lambda>e. ev_run e = run_id r) (events s) = []"
    using new db_okD(6) [OF assms(1)] unfolding filter_empty_conv run_clash_def image_iff by metis
  have apart: "run_id r \<notin> run_id ` set (runs s)" "(run_owner r, run_key r) \<notin> (\<lambda>r. (run_owner r, run_key r)) ` set (runs s)"
    using new by (auto simp: run_clash_def)
  have num: "numbered (run_id r) t" by (auto simp: numbered_def t fresh intro!: exI [of _ 1])
  have old: "numbered (run_id x) t" if "x \<in> set (runs s)" for x
    using db_okD(5) [OF assms(1) that] new [OF that] by (auto simp: numbered_def t run_clash_def)
  have "db_ok t"
    using db_okD(1,2) [OF assms(1)] db_okD(3-6) [OF assms(1)] num old apart assms(3,4)
    by (simp add: db_ok_def t del: status_text.simps)
  moreover have "db_progress s t"
    using db_progress_refl [of s] unfolding db_progress_def t
    by (intro conjI exI [of _ "runs s"] exI [of _ "[r]"]) (auto intro!: list.rel_refl progress_refl)
  moreover have "\<exists>x \<in> set (runs t). progress r x"
    using progress_refl [of r] by (auto simp: t)
  ultimately show ?thesis by blast
qed


section \<open>Every history\<close>

lemma answer_progress: "db_progress s t \<Longrightarrow> answer_ok E s a \<Longrightarrow> answer_ok E t a"
  unfolding answer_ok_def by (metis db_progress_run progress_trans)

lemma found_answer:
  assumes "findByIdempotency owner key s = Some y"
  shows "fst y \<in> set (runs s)" "run_owner (fst y) = owner" "run_key (fst y) = key" "progress (fst y) (fst y)"
proof -
  from assms obtain r where r: "tbl_find (\<lambda>r. (run_owner r, run_key r)) (owner, key) (runs s) = Some r" "fst y = r"
    by (auto simp: findByIdempotency_def)
  from tbl_find_SomeD [OF r(1)] r(2)
  show "fst y \<in> set (runs s)" "run_owner (fst y) = owner" "run_key (fst y) = key" by auto
  show "progress (fst y) (fst y)" by (rule progress_refl)
qed

definition world_le :: "orch_world \<Rightarrow> orch_world \<Rightarrow> bool" where
  "world_le w w' \<longleftrightarrow> db_progress (orch_db w) (orch_db w') \<and> (\<exists>xs. answers w' = answers w @ xs)"

lemma orch_okI:
  assumes "orch_ok E w" "db_ok (orch_db w')" "db_progress (orch_db w) (orch_db w')"
    "list_all (pending_ok E) (pending_writes w')" "answers w' = answers w @ xs" "list_all (answer_ok E (orch_db w')) xs"
  shows "orch_ok E w' \<and> world_le w w'"
  using assms answer_progress [OF assms(3)] by (auto simp: orch_ok_def world_le_def list_all_iff)

lemma pending_drop: "list_all P xs \<Longrightarrow> list_all P (drop_nth n xs)"
  using set_drop_nth [of n xs] by (auto simp: list_all_iff)

lemma start_world_ok:
  assumes "orch_ok E w"
  shows "orch_ok E (start_world E enabled v owner w) \<and> world_le w (start_world E enabled v owner w)"
proof -
  have ok: "db_ok (orch_db w)" "list_all (pending_ok E) (pending_writes w)" using assms by (simp_all add: orch_ok_def)
  note here = orch_okI [OF assms]
  obtain y t where y: "start_check E enabled v owner (orch_db w) = (y, t)" by fastforce
  have t: "t = orch_db w" using start_check_reads [of E enabled v owner "orch_db w"] y by simp
  show ?thesis
  proof (cases y)
    case (Inl e)
    then show ?thesis
      using ok db_progress_refl [of "orch_db w"] y t by (intro here [of _ "[]"]) (simp_all add: start_world_def)
  next
    case (Inr x)
    with y obtain fp where fp: "computePublishingSha256 E v = Inr fp" "jget v ''owner_user_id'' = JStr owner"
      and x: "(\<exists>z. findByIdempotency owner (jstr (jget v ''idempotency_key'')) (orch_db w) = Some z \<and> run_fingerprint (fst z) = fp
          \<and> x = Answered z) \<or> x = To_create (new_run v owner fp)"
      by (auto elim: start_check_Inr)
    from x show ?thesis
    proof (elim disjE exE conjE)
      fix z assume z: "findByIdempotency owner (jstr (jget v ''idempotency_key'')) (orch_db w) = Some z"
        "run_fingerprint (fst z) = fp" "x = Answered z"
      show ?thesis
        using ok db_progress_refl [of "orch_db w"] y t Inr z fp found_answer [OF z(1)]
        by (intro here [of _ "[(v, fst z)]"]) (auto simp: start_world_def answer_ok_def)
    next
      assume "x = To_create (new_run v owner fp)"
      then show ?thesis
        using ok db_progress_refl [of "orch_db w"] y t Inr fp
        by (intro here [of _ "[]"]) (simp_all add: start_world_def new_run_def)
    qed
  qed
qed

lemma move_world_ok:
  assumes "orch_ok E w"
  shows "orch_ok E (move_world i owner next w) \<and> world_le w (move_world i owner next w)"
proof -
  have ok: "db_ok (orch_db w)" "list_all (pending_ok E) (pending_writes w)" using assms by (simp_all add: orch_ok_def)
  obtain y t where y: "transition_check i owner next (orch_db w) = (y, t)" by fastforce
  have t: "t = orch_db w" using transition_check_reads [of i owner "next" "orch_db w"] y by simp
  show ?thesis
    using ok db_progress_refl [of "orch_db w"] y t transition_check_Some(1) [of i owner "next" "orch_db w"]
    by (intro orch_okI [OF assms, of _ "[]"]) (auto simp: move_world_def split: sum.split option.split)
qed

lemma write_world_ok:
  assumes "orch_ok E w"
  shows "orch_ok E (write_world n w) \<and> world_le w (write_world n w)"
proof (cases "n < length (pending_writes w)")
  case False
  then show ?thesis
    using assms db_progress_refl by (simp add: write_world_def world_le_def orch_ok_def)
next
  case True
  have pend: "list_all (pending_ok E) (pending_writes w)" and db: "db_ok (orch_db w)" using assms by (simp_all add: orch_ok_def)
  note ok = db pending_drop [OF pend, of n] pend [unfolded list_all_length, rule_format, OF True]
  note here = orch_okI [OF assms]
  show ?thesis
  proof (cases "pending_writes w ! n")
    case (Moving i owner f to)
    then show ?thesis
      using ok True run_moved_ok [OF ok(1) _ transition_commit_moves]
      by (intro here [of _ "[]"]) (auto simp: write_world_def Let_def)
  next
    case (Creating v r)
    obtain y t where y: "start_commit r (orch_db w) = (y, t)" by fastforce
    from y show ?thesis
    proof (cases rule: start_commit_cases)
      case added
      then show ?thesis
        using ok True Creating y run_added_ok [OF ok(1) added(1)]
        by (intro here [of _ "[(v, r)]"]) (simp_all add: write_world_def Let_def answer_ok_def)
    next
      case kept
      show ?thesis
      proof (cases y)
        case (Inl e)
        then show ?thesis
          using ok True Creating y kept(1) db_progress_refl [of "orch_db w"]
          by (intro here [of _ "[]"]) (simp_all add: write_world_def Let_def)
      next
        case (Inr z)
        from kept(2) [OF this] have z: "findByIdempotency (run_owner r) (run_key r) (orch_db w) = Some z"
          "run_fingerprint (fst z) = run_fingerprint r" by simp_all
        show ?thesis
          using ok True Creating y kept(1) Inr z db_progress_refl [of "orch_db w"] found_answer [OF z(1)]
          by (intro here [of _ "[(v, fst z)]"]) (auto simp: write_world_def Let_def answer_ok_def)
      qed
    qed
  qed
qed

lemma orch_step_ok:
  assumes "orch_ok E w"
  shows "orch_ok E (orch_step E enabled w l) \<and> world_le w (orch_step E enabled w l)"
proof -
  have ok: "db_ok (orch_db w)" "list_all (pending_ok E) (pending_writes w)" using assms by (simp_all add: orch_ok_def)
  have quiet: "orch_ok E (w\<lparr>orch_db := t\<rparr>) \<and> world_le w (w\<lparr>orch_db := t\<rparr>)"
    if "db_ok t \<and> db_progress (orch_db w) t" for t
    using that ok by (intro orch_okI [OF assms, of _ "[]"]) simp_all
  show ?thesis
  proof (cases l)
    case (Append i e)
    have "db_ok (snd (appendEvent i e (orch_db w))) \<and> db_progress (orch_db w) (snd (appendEvent i e (orch_db w)))"
      using append_cases event_added_ok [OF ok(1)] ok(1) db_progress_refl by metis
    then show ?thesis by (simp add: orch_step_def Append quiet)
  next
    case (Checkpoint i n)
    have "db_ok (snd (updateCheckpoint i n (orch_db w))) \<and> db_progress (orch_db w) (snd (updateCheckpoint i n (orch_db w)))"
      using checkpoint_cases run_checked_ok [OF ok(1)] ok(1) db_progress_refl by metis
    then show ?thesis by (simp add: orch_step_def Checkpoint quiet)
  next
    case (Forget n)
    then show ?thesis
      using ok pending_drop db_progress_refl [of "orch_db w"]
      by (intro orch_okI [OF assms, of _ "[]"]) (simp_all add: orch_step_def)
  qed (simp_all add: orch_step_def start_world_ok [OF assms] move_world_ok [OF assms] write_world_ok [OF assms])
qed

lemma world_le_refl: "world_le w w"
  by (simp add: world_le_def db_progress_refl)

lemma world_le_trans: "world_le w x \<Longrightarrow> world_le x y \<Longrightarrow> world_le w y"
  unfolding world_le_def using db_progress_trans by fastforce

interpretation orch_life: step_order "orch_step E enabled" "orch_ok E" "\<lambda>_. True" world_le for E enabled
  by unfold_locales (use orch_step_ok world_le_refl world_le_trans in blast)+

end
