(* ===== verification/Sample_Ids.thy ===== *)
theory Sample_Ids
  imports Sample_Data Json_Checks
begin

text \<open>
  Identifiers of the stricter UUID pattern, for the examples of the orchestration and of the
  optimization.
\<close>

definition orch_uuid :: "char \<Rightarrow> string" where
  "orch_uuid c =
     replicate 8 c @ CHR ''-'' # replicate 4 c @ CHR ''-'' # CHR ''4'' # replicate 3 c @ CHR ''-'' #
     CHR ''8'' # replicate 3 c @ CHR ''-'' # replicate 12 c"

lemma orch_uuid_ok [simp]: "is_hex c \<Longrightarrow> shape_matches RFC_UUID_PATTERN (orch_uuid c)"
  unfolding shape_matches_def RFC_UUID_PATTERN_def orch_uuid_def
  by (intro list_all2_appendI list_all2_replicate list.rel_intros) (simp_all add: char_between_def)

end
