(* ===== verification/Orch_Claims.thy ===== *)
theory Orch_Claims
  imports Orch_World Sample_Data Sample_Ids
begin

text \<open>
  What the orchestration promises its callers: one run for one key whatever the interleaving, a
  lifecycle that only follows the table, events numbered without a gap, and who may resume.
\<close>


section \<open>Helpers\<close>

lemma distinct_keyD:
  "distinct (map f xs) \<Longrightarrow> x \<in> set xs \<Longrightarrow> y \<in> set xs \<Longrightarrow> f x = f y \<Longrightarrow> x = y"
  by (auto simp: distinct_map dest: inj_onD)

lemma none_left: "(\<And>r. \<not> P (f r)) \<Longrightarrow> r \<in> set (tbl_update P f t) \<Longrightarrow> \<not> P r"
  by (auto simp: tbl_update_def)

lemma listEvents_numbered:
  assumes "numbered i s"
  shows "map ev_seq (listEvents i s) = [1..<Suc (latest_seq i s)]"
proof -
  have "sorted (map ev_seq (filter (\<lambda>e. ev_run e = i) (events s)))"
    using latest_seq_numbered(1) [OF assms] by (simp del: upt_Suc)
  then have "listEvents i s = filter (\<lambda>e. ev_run e = i) (events s)"
    by (simp add: listEvents_def sort_key_id_if_sorted)
  with latest_seq_numbered(1) [OF assms] show ?thesis by simp
qed

text \<open>The empty database with a directory is a state every history may begin in.\<close>

lemma orch_ok_empty: "runs s = [] \<Longrightarrow> events s = [] \<Longrightarrow> orch_ok E \<lparr>orch_db = s, pending_writes = [], answers = []\<rparr>"
  by (simp add: orch_ok_def db_ok_def)


section \<open>One run for one key\<close>

text \<open>
  C12. One run per idempotency key: whatever the interleaving of reads and writes, all starts of an owner
  under one key that are answered are answered with the same run, which is in the database, and
  their requests agree as documents or are a SHA-256 collision.
\<close>

theorem one_run_per_key:
  assumes "orch_ok E w" "num_ok E" "(v, a) \<in> set (answers (foldl (orch_step E enabled) w ls))"
    and "(u, b) \<in> set (answers (foldl (orch_step E enabled) w ls))"
    and "jget v ''owner_user_id'' = jget u ''owner_user_id''" "jget v ''idempotency_key'' = jget u ''idempotency_key''"
    and "jwf v" "jwf u"
  shows "run_id a = run_id b \<and> (canon v = canon u \<or> sha_collision E v u)
    \<and> (\<exists>r \<in> set (runs (orch_db (foldl (orch_step E enabled) w ls))). progress a r \<and> progress b r)"
proof -
  let ?w = "foldl (orch_step E enabled) w ls"
  have ok: "orch_ok E ?w" using orch_life.run_inv [OF assms(1)] by blast
  then have a: "answer_ok E (orch_db ?w) (v, a)" and b: "answer_ok E (orch_db ?w) (u, b)"
    using assms(3,4) by (auto simp: orch_ok_def list_all_iff)
  from a obtain r where r: "r \<in> set (runs (orch_db ?w))" "progress a r" by (auto simp: answer_ok_def)
  from b obtain q where q: "q \<in> set (runs (orch_db ?w))" "progress b q" by (auto simp: answer_ok_def)
  have "run_owner a = run_owner b" "run_key a = run_key b" using a b assms(5,6) by (auto simp: answer_ok_def)
  then have "r = q"
    using distinct_keyD [OF db_okD(2), of "orch_db ?w" r q] ok r q progress_keeps [OF r(2)] progress_keeps [OF q(2)]
    by (simp add: orch_ok_def)
  with progress_keeps [OF r(2)] progress_keeps [OF q(2)] have "run_id a = run_id b" "run_fingerprint a = run_fingerprint b"
    by auto
  moreover have "canon v = canon u \<or> sha_collision E v u"
    using same_digest [OF assms(2,7,8)] a b calculation(2) by (simp add: answer_ok_def)
  ultimately show ?thesis using r q \<open>r = q\<close> by blast
qed


section \<open>The lifecycle\<close>

text \<open>
  C13. The lifecycle is kept: in every history a run keeps its identity, its owner, key and fingerprint,
  its status only takes steps of the table, a terminal status stays, and its events are
  numbered from one without a gap.
\<close>

theorem run_follows_lifecycle:
  assumes "orch_ok E w" "r \<in> set (runs (orch_db w))"
  shows "\<exists>r' \<in> set (runs (orch_db (foldl (orch_step E enabled) w ls))). progress r r'
    \<and> (\<forall>st. terminal_status st \<and> run_status r = status_text st \<longrightarrow> run_status r' = status_text st)
    \<and> map ev_seq (listEvents (run_id r) (orch_db (foldl (orch_step E enabled) w ls)))
        = [1..<Suc (latest_seq (run_id r) (orch_db (foldl (orch_step E enabled) w ls)))]"
proof -
  let ?s = "orch_db (foldl (orch_step E enabled) w ls)"
  have "db_progress (orch_db w) ?s"
    using orch_life.run_le [OF assms(1)] by (simp add: world_le_def)
  then obtain r' where r': "r' \<in> set (runs ?s)" "progress r r'" using assms(2) by (rule db_progress_run)
  have "db_ok ?s" using orch_life.run_inv [OF assms(1)] by (simp add: orch_ok_def)
  from listEvents_numbered [OF db_okD(5) [OF this r'(1)]]
  have "map ev_seq (listEvents (run_id r) ?s) = [1..<Suc (latest_seq (run_id r) ?s)]"
    using progress_keeps [OF r'(2)] by simp
  moreover have "run_status r' = status_text st" if "terminal_status st" "run_status r = status_text st" for st
    using progress_keeps [OF r'(2)] that terminal_stays [of st] by simp
  ultimately show ?thesis using r' by blast
qed

text \<open>
  Of the moves that were read from one status at most one is made: after a move from it has
  committed, every other is refused as stale and changes nothing.
\<close>

theorem racing_moves:
  assumes "db_ok s" "canTransitionOrchestrationRun f t" "transition_commit i owner f t s = (Inr True, s')"
  shows "transition_commit i owner f u s' = (Inl (Conflict ORCHESTRATION_STALE_RESUME), s')"
proof -
  let ?P = "\<lambda>r. run_id r = i \<and> run_owner r = owner \<and> run_status r = status_text f"
  have s': "s' = s\<lparr>runs := tbl_update ?P (\<lambda>r. r\<lparr>run_status := status_text t\<rparr>) (runs s)\<rparr>"
    using transition_commit_moves [of i owner f t s] assms(3) by (simp add: run_moved_def)
  have ft: "f \<noteq> t" using assms(2) no_self_transition by blast
  have none: "\<not> ?P r" if "r \<in> set (runs s')" for r
    by (rule none_left [where P = ?P and f = "\<lambda>r. r\<lparr>run_status := status_text t\<rparr>" and t = "runs s"])
      (use that ft in \<open>simp_all add: s'\<close>)
  then have "tbl_count ?P (runs s') = 0" by (simp add: tbl_count_0_iff)
  moreover have "tbl_update ?P g (runs s') = runs s'" for g by (rule tbl_update_none) (rule none)
  ultimately show ?thesis
    by (simp add: transition_commit_def transitionStatus_def action_defs put_runs_def Let_def)
qed


section \<open>Replays\<close>

lemma scope_frame:
  "businesses t = businesses s \<Longrightarrow> profiles t = profiles s \<Longrightarrow> strategies t = strategies s
    \<Longrightarrow> fst (isStartScopeValid v owner t) = fst (isStartScopeValid v owner s)"
  by (simp add: isStartScopeValid_def Let_def)

lemma start_check_again:
  assumes "start_check E enabled v owner s = (Inr (To_create r), s)"
    and "businesses t = businesses s" "profiles t = profiles s" "strategies t = strategies s"
    and "findByIdempotency owner (jstr (jget v ''idempotency_key'')) t = Some x" "run_fingerprint (fst x) = run_fingerprint r"
  shows "start_check E enabled v owner t = (Inr (Answered x), t)"
proof -
  obtain fp where fp: enabled "computePublishingSha256 E v = Inr fp" "assertCampaignOrchestrationStartV1 v = Inr ()"
    "jget v ''owner_user_id'' = JStr owner" "isStartScopeValid v owner s = (Inr True, s)" "run_fingerprint r = fp"
    using assms(1) by (rule start_check_Inr) (auto simp: new_run_def)
  have "isStartScopeValid v owner t = (Inr True, t)"
    using scope_frame [OF assms(2-4), of v owner] scope_reads [of v owner t] fp(5) by (metis fst_conv prod.collapse)
  with fp assms(5,6) show ?thesis
    by (simp add: start_check_def action_defs resolveIdempotentReplay_def)
qed

text \<open>
  A start is idempotent: the same request again, after it was answered, is answered with the same
  run and event and changes nothing.
\<close>

theorem start_replay:
  assumes "db_ok s" "startRun E enabled v owner s = (Inr x, t)"
  shows "startRun E enabled v owner t = (Inr x, t)"
proof -
  obtain y u where y: "start_check E enabled v owner s = (y, u)" by fastforce
  have u: "u = s" using start_check_reads [of E enabled v owner s] y by simp
  show ?thesis
  proof (cases y)
    case (Inl e)
    then show ?thesis using assms y by (simp add: startRun_def act_bind_def)
  next
    case (Inr z)
    show ?thesis
    proof (cases z)
      case (Answered a)
      then have "t = s" using assms(2) y u Inr by (simp add: startRun_def act_bind_def act_return_def)
      with assms(2) show ?thesis by simp
    next
      case (To_create r)
      then have c: "start_commit r s = (Inr x, t)" using assms(2) y u Inr by (simp add: startRun_def act_bind_def)
      then show ?thesis
      proof (cases rule: start_commit_cases)
        case kept
        then show ?thesis using assms(2) by simp
      next
        case added
        have t: "t = s\<lparr>runs := runs s @ [r], events := events s @ [first_event r queued]\<rparr>"
          and new: "\<And>q. q \<in> set (runs s) \<Longrightarrow> \<not> run_clash r q"
          using added(1) by (simp_all add: run_added_def)
        have r: "run_owner r = owner" "run_key r = jstr (jget v ''idempotency_key'')"
          using y Inr To_create by (auto elim!: start_check_Inr simp: new_run_def)
        have "ev_run e \<noteq> run_id r" if "e \<in> set (events s)" for e
          using db_okD(6) [OF assms(1) that] new by (metis imageE run_clash_def)
        then have "tbl_find (\<lambda>e. (ev_run e, ev_seq e)) (run_id r, 1) (events s) = None"
          by (simp add: tbl_find_None_iff)
        then have "find_event (run_id r) 1 t = Some (first_event r queued)"
          by (simp add: find_event_def t tbl_find_append)
        moreover have "tbl_find (\<lambda>r. (run_owner r, run_key r)) (run_owner r, run_key r) (runs s) = None"
          unfolding tbl_find_None_iff using new by (metis Pair_inject run_clash_def)
        ultimately have "findByIdempotency owner (jstr (jget v ''idempotency_key'')) t = Some (r, Some (first_event r queued))"
          using r by (simp add: findByIdempotency_def t tbl_find_append)
        from start_check_again [OF _ _ _ _ this, of E enabled s r] y u Inr To_create added(2) show ?thesis
          by (simp add: startRun_def act_bind_def act_return_def t)
      qed
    qed
  qed
qed


section \<open>Resuming\<close>

text \<open>
  Who may resume: an admitted resume request comes from the owner of a run that waits for a
  decision, names that run and its business in the request and in the decision, whose author is the
  owner too; and it changes nothing.
\<close>

theorem admitted_resume:
  assumes "validateResumeRequest enabled v owner s = (Inr r, t)"
  shows "t = s \<and> r \<in> set (runs s) \<and> run_owner r = owner
    \<and> jget v ''run_id'' = JStr (run_id r) \<and> jget v ''business_id'' = JStr (run_business r)
    \<and> jget (jget v ''decision_binding'') ''run_id'' = JStr (run_id r)
    \<and> jget (jget v ''decision_binding'') ''business_id'' = JStr (run_business r)
    \<and> jget (jget v ''decision_binding'') ''decided_by_user_id'' = JStr owner
    \<and> run_status r \<in> {status_text awaiting_strategy_approval, status_text awaiting_content_approval}"
proof -
  have c: "assertCampaignOrchestrationResumeV1 v = Inr ()" "jget (jget v ''decision_binding'') ''decided_by_user_id'' = JStr owner"
    and f: "findByIdAndOwner (jstr (jget v ''run_id'')) owner s = Some r" "t = s"
    and g: "JStr (run_business r) = jget v ''business_id''" "JStr (run_thread r) = jget v ''checkpoint_thread_id''"
      "run_status r \<in> {status_text awaiting_strategy_approval, status_text awaiting_content_approval}"
    using assms by (auto simp: validateResumeRequest_def action_defs split: sum.splits option.splits if_splits)
  from f have r: "r \<in> set (runs s)" "run_id r = jstr (jget v ''run_id'')" "run_owner r = owner"
    by (auto simp: findByIdAndOwner_def find_Some_iff)
  have b: "isRunUuid (jget v ''run_id'')" "js_eq (jget (jget v ''decision_binding'') ''run_id'') (jget v ''run_id'')"
    "js_eq (jget (jget v ''decision_binding'') ''business_id'') (jget v ''business_id'')"
    using c(1) by (auto simp: assertCampaignOrchestrationResumeV1_def Let_def assertUuids_def split: if_splits)
  then have "jget v ''run_id'' = JStr (run_id r)" using r(2) by (cases "jget v ''run_id''") auto
  with c(2) f(2) g r b show ?thesis by (auto simp: js_eq_iff)
qed

text \<open>
  The kind of decision is not compared with what the run waits for: a request that is admitted
  while the run waits for one kind of approval is admitted while it waits for the other.
\<close>

theorem resume_ignores_stage:
  assumes "validateResumeRequest enabled v owner s = (Inr r, t)"
    and "st \<in> {awaiting_strategy_approval, awaiting_content_approval}"
  shows "\<exists>r' u. validateResumeRequest enabled v owner
      (s\<lparr>runs := tbl_update (\<lambda>_. True) (\<lambda>x. x\<lparr>run_status := status_text st\<rparr>) (runs s)\<rparr>) = (Inr r', u)
    \<and> run_status r' = status_text st"
proof -
  have find: "List.find (\<lambda>r. run_id r = i \<and> run_owner r = owner) (tbl_update (\<lambda>_. True) (\<lambda>x. x\<lparr>run_status := status_text st\<rparr>) rs)
      = map_option (\<lambda>x. x\<lparr>run_status := status_text st\<rparr>) (List.find (\<lambda>r. run_id r = i \<and> run_owner r = owner) rs)" for i rs
    by (induction rs) (simp_all add: tbl_update_def)
  show ?thesis
    using assms by (auto simp: validateResumeRequest_def action_defs findByIdAndOwner_def find split: sum.splits option.splits if_splits)
qed


section \<open>A sample run\<close>

lemma sample_digest_hex [simp]: "isHexDigest (JStr sample_sha)"
  by (simp add: sample_sha_def is_hex_def char_between_def list_all_iff)

definition start_doc :: json where
  "start_doc = JObj
     [(''contract_version'', JStr ''orchestration-v1''), (''run_id'', JStr (orch_uuid (CHR ''1''))),
      (''correlation_id'', JStr ''c''), (''idempotency_key'', JStr ''k''),
      (''owner_user_id'', JStr (orch_uuid (CHR ''2''))), (''business_id'', JStr (orch_uuid (CHR ''3''))),
      (''graph_name'', JStr ''campaign''), (''graph_version'', JStr ''1''), (''feature_cohort'', JStr ''demo''),
      (''confirmed_profile_version_id'', JStr (orch_uuid (CHR ''4''))), (''confirmed_profile_version'', JNum 1),
      (''confirmed_profile_checksum'', JStr sample_sha), (''strategy_id'', JStr (orch_uuid (CHR ''5''))),
      (''strategy_brief_id'', JStr (orch_uuid (CHR ''1''))), (''requested_week_number'', JNull),
      (''week_context_id'', JNull), (''week_context_checksum'', JNull),
      (''bounds'', JObj [(''tool_calls_used'', JNum 0), (''tool_calls_limit'', JNum 8), (''replans_used'', JNum 0),
         (''replans_limit'', JNum 2), (''token_budget'', JNull), (''cost_budget_usd'', JNum (1 / 2)), (''deadline_at'', JNull)])]"

definition orch_owner :: string where "orch_owner = orch_uuid (CHR ''2'')"

definition orch_sample_db :: orch_db where
  "orch_sample_db = \<lparr>businesses = [\<lparr>b_id = orch_uuid (CHR ''3''), b_owner = orch_owner\<rparr>],
     profiles = [\<lparr>pv_id = orch_uuid (CHR ''4''), pv_business = orch_uuid (CHR ''3''), pv_version = 1\<rparr>],
     strategies = [\<lparr>st_id = orch_uuid (CHR ''5''), st_business = orch_uuid (CHR ''3''), st_owner = orch_owner,
       st_brief = Some (orch_uuid (CHR ''1''))\<rparr>],
     runs = [], events = []\<rparr>"

abbreviation orch_sample_world :: orch_world where
  "orch_sample_world \<equiv> \<lparr>orch_db = orch_sample_db, pending_writes = [], answers = []\<rparr>"

definition sample_run :: run_row where
  "sample_run = new_run start_doc orch_owner sample_sha"

definition sample_started :: orch_db where
  "sample_started = orch_sample_db\<lparr>runs := [sample_run], events := [first_event sample_run queued]\<rparr>"

lemma start_doc_wf: "jwf start_doc"
  by (simp add: start_doc_def)

lemma start_doc_sha: "computePublishingSha256 sample_env start_doc = Inr sample_sha"
  by (simp add: computePublishingSha256_wf [OF start_doc_wf])

lemma start_doc_get:
  "jget start_doc ''run_id'' = JStr (orch_uuid (CHR ''1''))" "jget start_doc ''owner_user_id'' = JStr orch_owner"
  "jget start_doc ''business_id'' = JStr (orch_uuid (CHR ''3''))" "jget start_doc ''idempotency_key'' = JStr ''k''"
  "jget start_doc ''confirmed_profile_version_id'' = JStr (orch_uuid (CHR ''4''))"
  "jget start_doc ''confirmed_profile_version'' = JNum 1" "jget start_doc ''strategy_id'' = JStr (orch_uuid (CHR ''5''))"
  "jget start_doc ''strategy_brief_id'' = JStr (orch_uuid (CHR ''1''))"
  by (simp_all add: start_doc_def orch_owner_def)

lemma start_doc_valid: "assertCampaignOrchestrationStartV1 start_doc = Inr ()"
  unfolding start_doc_def
  by (simp add: assertCampaignOrchestrationStartV1_def assertUuids_def bounds_ok_def budget_ok_def del: isHexDigest.simps)

lemma start_doc_scope:
  "businesses s = businesses orch_sample_db \<Longrightarrow> profiles s = profiles orch_sample_db \<Longrightarrow> strategies s = strategies orch_sample_db
    \<Longrightarrow> isStartScopeValid start_doc orch_owner s = (Inr True, s)"
  by (simp add: isStartScopeValid_def int_column_def isInteger.simps start_doc_get orch_sample_db_def Let_def)

lemma sample_check:
  "start_check sample_env True start_doc orch_owner orch_sample_db = (Inr (To_create sample_run), orch_sample_db)"
proof -
  have "findByIdempotency orch_owner ''k'' orch_sample_db = None"
    by (simp add: findByIdempotency_def orch_sample_db_def)
  with start_doc_scope [of orch_sample_db] show ?thesis
    by (simp add: start_check_def action_defs start_doc_valid start_doc_sha start_doc_get sample_run_def)
qed

lemma sample_run_simps [simp]:
  "run_id sample_run = orch_uuid (CHR ''1'')" "run_owner sample_run = orch_owner" "run_key sample_run = ''k''"
  "run_business sample_run = orch_uuid (CHR ''3'')" "run_fingerprint sample_run = sample_sha"
  "run_status sample_run = status_text queued"
  by (simp_all add: sample_run_def new_run_def start_doc_get)

lemma sample_commit:
  "start_commit sample_run orch_sample_db = (Inr (sample_run, Some (first_event sample_run queued)), sample_started)"
  by (simp add: start_commit_def act_catch_def create_run_eq sample_started_def) (simp add: orch_sample_db_def)

lemma sample_commit_again:
  "start_commit sample_run sample_started = (Inr (sample_run, Some (first_event sample_run queued)), sample_started)"
  by (simp add: start_commit_def action_defs create_run_eq sample_started_def resolveIdempotentReplay_def
      findByIdempotency_def find_event_def)
    (simp add: run_clash_def orch_sample_db_def)

text \<open>Two starts that both read before either writes.\<close>

definition sample_labels :: "orch_label list" where
  "sample_labels = [Start start_doc orch_owner, Start start_doc orch_owner, Write 0, Write 0]"

lemma sample_race:
  "foldl (orch_step sample_env True) orch_sample_world sample_labels
   = \<lparr>orch_db = sample_started, pending_writes = [], answers = [(start_doc, sample_run), (start_doc, sample_run)]\<rparr>"
  by (simp add: sample_labels_def orch_step_def start_world_def sample_check write_world_def drop_nth_def sample_commit sample_commit_again)

lemma sample_world_ok: "orch_ok sample_env orch_sample_world"
  by (rule orch_ok_empty) (simp_all add: orch_sample_db_def)

theorem one_run_per_key_witness:
  "\<exists>r \<in> set (runs sample_started). progress sample_run r"
  using one_run_per_key [OF sample_world_ok sample_env_num_ok, of start_doc sample_run True
      sample_labels start_doc sample_run]
  by (simp add: sample_race start_doc_wf)

theorem start_replay_witness:
  "startRun sample_env True start_doc orch_owner sample_started
     = (Inr (sample_run, Some (first_event sample_run queued)), sample_started)"
  by (rule start_replay [of orch_sample_db])
    (use sample_world_ok sample_check sample_commit in \<open>simp_all add: orch_ok_def startRun_def act_bind_def\<close>)

theorem run_follows_lifecycle_witness:
  "\<exists>r' \<in> set (runs (orch_db (foldl (orch_step sample_env True)
       \<lparr>orch_db = sample_started, pending_writes = [], answers = [(start_doc, sample_run), (start_doc, sample_run)]\<rparr>
       [Move (run_id sample_run) orch_owner ''running'', Append (run_id sample_run) (first_event sample_run queued), Write 0]))).
     progress sample_run r'"
proof -
  have "orch_ok sample_env
      \<lparr>orch_db = sample_started, pending_writes = [], answers = [(start_doc, sample_run), (start_doc, sample_run)]\<rparr>"
    using orch_life.run_inv [OF sample_world_ok, of sample_labels True]
    by (simp add: sample_race)
  moreover have "sample_run \<in> set (runs sample_started)" by (simp add: sample_started_def)
  ultimately show ?thesis
    using run_follows_lifecycle [of sample_env _ sample_run True] by (metis (no_types, lifting) orch_world.select_convs(1))
qed

text \<open>The sample run while it waits for the owner to approve content, and a decision on a strategy.\<close>

definition waiting_db :: orch_db where
  "waiting_db = sample_started\<lparr>runs := [sample_run\<lparr>run_status := status_text awaiting_content_approval\<rparr>]\<rparr>"

definition resume_doc :: json where
  "resume_doc = JObj
     [(''contract_version'', JStr ''orchestration-v1''), (''run_id'', JStr (orch_uuid (CHR ''1''))),
      (''checkpoint_thread_id'', JStr (orch_uuid (CHR ''1''))), (''correlation_id'', JStr ''c''),
      (''idempotency_key'', JStr ''r''), (''owner_user_id'', JStr orch_owner),
      (''business_id'', JStr (orch_uuid (CHR ''3''))),
      (''decision_binding'', JObj
        [(''binding_type'', JStr ''strategy''), (''run_id'', JStr (orch_uuid (CHR ''1''))),
         (''business_id'', JStr (orch_uuid (CHR ''3''))), (''strategy_id'', JStr (orch_uuid (CHR ''5''))),
         (''strategy_version_id'', JStr (orch_uuid (CHR ''4''))), (''strategy_version'', JNum 1),
         (''strategy_checksum'', JStr sample_sha), (''decision_id'', JStr (orch_uuid (CHR ''2''))),
         (''decision'', JStr ''rejected''), (''decided_by_user_id'', JStr orch_owner)])]"

lemma resume_doc_valid: "assertCampaignOrchestrationResumeV1 resume_doc = Inr ()"
  unfolding resume_doc_def
  by (simp add: assertCampaignOrchestrationResumeV1_def assertUuids_def binding_ids_def binding_checksum_def orch_owner_def
      del: isHexDigest.simps)

lemma resume_doc_get:
  "jget resume_doc ''run_id'' = JStr (orch_uuid (CHR ''1''))" "jget resume_doc ''owner_user_id'' = JStr orch_owner"
  "jget resume_doc ''business_id'' = JStr (orch_uuid (CHR ''3''))"
  "jget resume_doc ''checkpoint_thread_id'' = JStr (orch_uuid (CHR ''1''))"
  "jget (jget resume_doc ''decision_binding'') ''decided_by_user_id'' = JStr orch_owner"
  by (simp_all add: resume_doc_def)

lemma sample_resume:
  "validateResumeRequest True resume_doc orch_owner waiting_db
     = (Inr (sample_run\<lparr>run_status := status_text awaiting_content_approval\<rparr>), waiting_db)"
proof -
  have "findByIdAndOwner (orch_uuid (CHR ''1'')) orch_owner waiting_db
      = Some (sample_run\<lparr>run_status := status_text awaiting_content_approval\<rparr>)"
    by (simp add: findByIdAndOwner_def waiting_db_def)
  moreover have "run_thread sample_run = orch_uuid (CHR ''1'')" by (simp add: sample_run_def new_run_def start_doc_get)
  ultimately show ?thesis
    by (simp add: validateResumeRequest_def action_defs resume_doc_valid resume_doc_get del: status_text.simps)
qed

theorem admitted_resume_witness:
  "sample_run\<lparr>run_status := status_text awaiting_content_approval\<rparr> \<in> set (runs waiting_db)"
  using admitted_resume [OF sample_resume] by blast

theorem resume_ignores_stage_witness:
  "\<exists>r' u. validateResumeRequest True resume_doc orch_owner
      (waiting_db\<lparr>runs := tbl_update (\<lambda>_. True) (\<lambda>x. x\<lparr>run_status := status_text awaiting_strategy_approval\<rparr>) (runs waiting_db)\<rparr>)
    = (Inr r', u) \<and> run_status r' = status_text awaiting_strategy_approval"
  by (rule resume_ignores_stage [OF sample_resume]) simp

theorem racing_moves_witness:
  "\<exists>s'. transition_commit (run_id sample_run) orch_owner queued cancelled s'
      = (Inl (Conflict ORCHESTRATION_STALE_RESUME), s')"
proof -
  have ok: "db_ok sample_started"
    using orch_life.run_inv [OF sample_world_ok, of sample_labels True]
    by (simp add: sample_race orch_ok_def)
  have "transition_commit (run_id sample_run) orch_owner queued running sample_started
      = (Inr True, put_runs [sample_run\<lparr>run_status := status_text running\<rparr>] sample_started)"
    by (simp add: transition_commit_def transitionStatus_def action_defs put_runs_def sample_started_def tbl_count_def
        tbl_update_def Let_def)
  from racing_moves [OF ok _ this, of cancelled] show ?thesis
    by (auto simp: canTransitionOrchestrationRun_def)
qed

end
