(* ===== verification/Js_Number.thy ===== *)
theory Js_Number
  imports Json "HOL-Library.Log_Nat"
begin

text \<open>
  Arithmetic on JavaScript numbers. A finite number is a rational (\<open>JNum\<close>), and each arithmetic
  operation rounds its exact result to the nearest double, ties to even: \<open>double_of\<close>. The range is
  bounded below (the least positive double is \<open>2 powi -1074\<close>) and not above: the numbers the
  program computes with are counts and their ratios, which stay far from overflow.

  \<open>double_of\<close> is monotone and leaves doubles unchanged; from this follow the bounds on computed
  medians and differences.
\<close>


section \<open>Rounding to a grid\<close>

text \<open>The nearest integer, the even one of two.\<close>

definition round_even :: "rat \<Rightarrow> int" where
  "round_even y =
     (let f = \<lfloor>y\<rfloor>; d = y - of_int f in
      if d < 1 / 2 then f else if d > 1 / 2 then f + 1 else if even f then f else f + 1)"

lemma round_even_of_int [simp]: "round_even (of_int i) = i"
  by (simp add: round_even_def)

lemma round_even_near: "\<lfloor>y\<rfloor> \<le> round_even y" "round_even y \<le> \<lfloor>y\<rfloor> + 1"
  by (simp_all add: round_even_def Let_def)

lemma round_even_mono: "x \<le> y \<Longrightarrow> round_even x \<le> round_even y"
proof -
  assume xy: "x \<le> y"
  show ?thesis
  proof (cases "\<lfloor>x\<rfloor> = \<lfloor>y\<rfloor>")
    case True
    with xy show ?thesis by (auto simp: round_even_def Let_def)
  next
    case False
    with xy have "\<lfloor>x\<rfloor> + 1 \<le> \<lfloor>y\<rfloor>" using floor_mono [OF xy] by linarith
    then show ?thesis using round_even_near(2) [of x] round_even_near(1) [of y] by linarith
  qed
qed

lemma floor_minus_frac: "y \<noteq> of_int \<lfloor>y\<rfloor> \<Longrightarrow> \<lfloor>- y\<rfloor> = - \<lfloor>y\<rfloor> - 1" for y :: rat
  using floor_correct [of y] by (intro floor_unique) (simp_all, linarith+)

lemma round_even_minus: "round_even (- y) = - round_even y"
proof (cases "y = of_int \<lfloor>y\<rfloor>")
  case True
  then have "round_even y = \<lfloor>y\<rfloor>" "round_even (- y) = - \<lfloor>y\<rfloor>"
    by (metis round_even_of_int, metis of_int_minus round_even_of_int)
  then show ?thesis by simp
next
  case False
  from floor_minus_frac [OF this] show ?thesis by (auto simp: round_even_def Let_def)
qed

definition on_grid :: "rat \<Rightarrow> rat \<Rightarrow> rat" where
  "on_grid u x = of_int (round_even (x / u)) * u"

definition multiple :: "rat \<Rightarrow> rat \<Rightarrow> bool" where
  "multiple u x \<longleftrightarrow> (\<exists>k. x = of_int k * u)"

lemma on_grid_mono: "0 < u \<Longrightarrow> x \<le> y \<Longrightarrow> on_grid u x \<le> on_grid u y"
  by (simp add: on_grid_def divide_right_mono round_even_mono)

lemma on_grid_multiple: "0 < u \<Longrightarrow> multiple u x \<Longrightarrow> on_grid u x = x"
  by (auto simp: on_grid_def multiple_def)

lemma on_grid_is_multiple: "multiple u (on_grid u x)"
  by (auto simp: on_grid_def multiple_def)

lemma multiple_minus: "multiple u x \<Longrightarrow> multiple u (- x)"
  by (auto simp: multiple_def intro: exI [of _ "- k" for k])

lemma on_grid_minus: "on_grid u (- x) = - on_grid u x"
  by (simp add: on_grid_def round_even_minus)


section \<open>Doubles\<close>

text \<open>The exponent of a positive rational: the \<open>e\<close> with \<open>2 powi e \<le> x < 2 powi (e + 1)\<close>.\<close>

definition exponent :: "rat \<Rightarrow> int" where
  "exponent x =
     (let (a, b) = quotient_of x; e = bitlen a - bitlen b in if x < 2 powi e then e - 1 else e)"

definition ulp :: "rat \<Rightarrow> rat" where
  "ulp x = 2 powi (max (exponent \<bar>x\<bar> - 52) (- 1074))"

definition double_of :: "rat \<Rightarrow> rat" where
  "double_of x = (if x = 0 then 0 else on_grid (ulp x) x)"

definition is_double :: "rat \<Rightarrow> bool" where
  "is_double x \<longleftrightarrow> double_of x = x"

lemma two_powi_nat: "n \<ge> 0 \<Longrightarrow> (2 :: rat) powi n = of_int (2 ^ nat n)"
  by (simp add: power_int_def)

lemma powi_less_exp: "(2 :: rat) powi m < 2 powi n \<Longrightarrow> m < n"
  using power_int_increasing [of n m "2 :: rat"] by (force simp: not_less)

lemma exponent_bounds:
  assumes "0 < x"
  shows "2 powi (exponent x) \<le> x" "x < 2 powi (exponent x + 1)"
proof -
  obtain a b where q: "quotient_of x = (a, b)" by fastforce
  have b: "b > 0" using quotient_of_denom_pos [OF q] .
  have x: "x = of_int a / of_int b" using quotient_of_div [OF q] .
  have a: "a > 0" using assms b x by (simp add: zero_less_divide_iff)
  define p where "p = bitlen a"
  define r where "r = bitlen b"
  have pr: "p \<ge> 1" "r \<ge> 1" using a b by (simp_all add: p_def r_def bitlen_alt_def)
  have A: "2 powi (p - 1) \<le> rat_of_int a" "rat_of_int a < 2 powi p"
    using bitlen_bounds [OF a] pr by (simp_all add: two_powi_nat p_def flip: of_int_le_iff of_int_less_iff)
  have B: "2 powi (r - 1) \<le> rat_of_int b" "rat_of_int b < 2 powi r"
    using bitlen_bounds [OF b] pr by (simp_all add: two_powi_nat r_def flip: of_int_le_iff of_int_less_iff)
  have "(2 :: rat) powi (p - r - 1) = 2 powi (p - 1) / 2 powi r"
    using power_int_diff [of "2 :: rat" "p - 1" r] by (simp add: algebra_simps)
  also have "\<dots> \<le> x"
    unfolding x using A(1) B(2) a b by (intro frac_le) simp_all
  finally have lower: "2 powi (p - r - 1) \<le> x" .
  have "x < 2 powi p / 2 powi (r - 1)"
    unfolding x using A(2) B(1) a by (intro frac_less) simp_all
  also have "\<dots> = 2 powi (p - r + 1)"
    using power_int_diff [of "2 :: rat" p "r - 1"] by (simp add: algebra_simps)
  finally have upper: "x < 2 powi (p - r + 1)" .
  show "2 powi (exponent x) \<le> x" "x < 2 powi (exponent x + 1)"
    using lower upper by (auto simp: exponent_def q Let_def p_def r_def)
qed

lemma exponent_mono:
  assumes "0 < x" "x \<le> y"
  shows "exponent x \<le> exponent y"
proof -
  have "2 powi (exponent x) < (2 :: rat) powi (exponent y + 1)"
    using exponent_bounds(1) [OF assms(1)] exponent_bounds(2) [of y] assms by linarith
  then have "exponent x < exponent y + 1" by (rule powi_less_exp)
  then show ?thesis by simp
qed

lemma ulp_pos [simp]: "0 < ulp x"
  by (simp add: ulp_def)

lemma ulp_minus [simp]: "ulp (- x) = ulp x"
  by (simp add: ulp_def)

lemma double_of_minus: "double_of (- x) = - double_of x"
  by (simp add: double_of_def on_grid_minus)

lemma powi_multiple: "m \<le> n \<Longrightarrow> multiple (2 powi m) (2 powi n)"
proof -
  assume "m \<le> n"
  then have "(2 :: rat) powi n = of_int (2 ^ nat (n - m)) * 2 powi m"
    using power_int_add [of "2 :: rat" "n - m" m] by (simp add: power_int_nonneg_exp)
  then show ?thesis unfolding multiple_def by blast
qed

lemma double_of_pos_mono:
  assumes "0 < x" "x \<le> y"
  shows "double_of x \<le> double_of y"
proof (cases "ulp x = ulp y")
  case True
  then show ?thesis using assms on_grid_mono [of "ulp y" x y] by (simp add: double_of_def)
next
  case False
  have e: "exponent x \<le> exponent y" by (rule exponent_mono [OF assms])
  have lt: "exponent x < exponent y"
  proof (rule ccontr)
    assume "\<not> exponent x < exponent y"
    with e have "exponent x = exponent y" by simp
    with False assms show False by (simp add: ulp_def)
  qed
  have big: "exponent y - 52 > - 1074"
  proof (rule ccontr)
    assume "\<not> exponent y - 52 > - 1074"
    with e have "max (exponent x - 52) (- 1074) = - 1074" "max (exponent y - 52) (- 1074) = - 1074" by simp_all
    with False assms show False by (simp add: ulp_def)
  qed
  let ?m = "2 powi (exponent y) :: rat"
  have "multiple (ulp x) ?m" "multiple (ulp y) ?m"
    using assms lt big by (simp_all add: ulp_def powi_multiple)
  moreover have "x \<le> ?m"
  proof -
    have "2 powi (exponent x + 1) \<le> ?m" using lt by (intro power_int_increasing) simp_all
    with exponent_bounds(2) [OF assms(1)] show ?thesis by linarith
  qed
  moreover have "?m \<le> y" using exponent_bounds(1) [of y] assms by simp
  ultimately have "on_grid (ulp x) x \<le> ?m" "?m \<le> on_grid (ulp y) y"
    using on_grid_mono [of "ulp x" x ?m] on_grid_mono [of "ulp y" ?m y] on_grid_multiple by simp_all
  with assms show ?thesis by (simp add: double_of_def)
qed

lemma double_of_nonneg: "0 \<le> x \<Longrightarrow> 0 \<le> double_of x"
  using on_grid_mono [of "ulp x" 0 x] on_grid_multiple [of "ulp x" 0] by (simp add: double_of_def multiple_def)

theorem double_of_mono: "x \<le> y \<Longrightarrow> double_of x \<le> double_of y"
proof -
  assume xy: "x \<le> y"
  consider "0 < x" | "x \<le> 0" "0 \<le> y" | "y < 0" by linarith
  then show ?thesis
  proof cases
    case 1
    then show ?thesis using double_of_pos_mono xy by blast
  next
    case 2
    then show ?thesis using double_of_nonneg [of "- x"] double_of_nonneg [of y] by (simp add: double_of_minus)
  next
    case 3
    then show ?thesis using double_of_pos_mono [of "- y" "- x"] xy by (simp add: double_of_minus)
  qed
qed

lemma double_of_0 [simp]: "double_of 0 = 0"
  by (simp add: double_of_def)

lemma is_double_iff: "is_double x \<longleftrightarrow> x = 0 \<or> multiple (ulp x) x"
  using on_grid_is_multiple [of "ulp x" x] on_grid_multiple [of "ulp x" x]
  by (auto simp: is_double_def double_of_def)

text \<open>Twice a double is a double.\<close>

lemma exponent_unique:
  assumes "0 < x" "2 powi e \<le> x" "x < 2 powi (e + 1)"
  shows "exponent x = e"
proof -
  have "2 powi (exponent x) < (2 :: rat) powi (e + 1)" "2 powi e < (2 :: rat) powi (exponent x + 1)"
    using exponent_bounds [OF assms(1)] assms by linarith+
  then have "exponent x < e + 1" "e < exponent x + 1"
    by (auto dest: powi_less_exp)
  then show ?thesis by simp
qed

lemma double_twice:
  assumes "is_double x"
  shows "double_of (2 * x) = 2 * x"
proof (cases "x = 0")
  case False
  with assms obtain k where k: "x = of_int k * ulp x" by (auto simp: is_double_iff multiple_def)
  have "exponent (2 * \<bar>x\<bar>) = exponent \<bar>x\<bar> + 1"
    using exponent_bounds [of "\<bar>x\<bar>"] False
      power_int_add_1 [of "2 :: rat" "exponent \<bar>x\<bar>"] power_int_add_1 [of "2 :: rat" "exponent \<bar>x\<bar> + 1"]
    by (intro exponent_unique) simp_all
  then have u: "ulp (2 * x) = 2 powi (max (exponent \<bar>x\<bar> - 51) (- 1074))"
    by (simp add: ulp_def abs_mult)
  have "2 * ulp x = 2 powi (max (exponent \<bar>x\<bar> - 52) (- 1074) + 1)"
    using power_int_add_1 [of "2 :: rat" "max (exponent \<bar>x\<bar> - 52) (- 1074)"] by (simp add: ulp_def)
  moreover have "max (exponent \<bar>x\<bar> - 51) (- 1074) \<le> max (exponent \<bar>x\<bar> - 52) (- 1074) + 1" by linarith
  ultimately have "multiple (ulp (2 * x)) (2 * ulp x)" unfolding u using powi_multiple by simp
  then obtain l where "2 * ulp x = of_int l * ulp (2 * x)" by (auto simp: multiple_def)
  then have "2 * x = of_int (k * l) * ulp (2 * x)" using k by (metis mult.assoc mult.left_commute of_int_mult)
  then have "multiple (ulp (2 * x)) (2 * x)" unfolding multiple_def by blast
  then show ?thesis using False on_grid_multiple by (simp add: double_of_def)
qed simp


section \<open>Computed medians and differences\<close>

text \<open>\<open>(a + b) / 2\<close> lies between \<open>a\<close> and \<open>b\<close> in double arithmetic too.\<close>

lemma computed_mean_bounds:
  assumes "is_double a" "is_double b" "a \<le> b"
  shows "a \<le> double_of (double_of (a + b) / 2)" "double_of (double_of (a + b) / 2) \<le> b"
proof -
  have d: "double_of a = a" "double_of b = b" using assms(1,2) by (simp_all add: is_double_def)
  have "2 * a \<le> double_of (a + b)" "double_of (a + b) \<le> 2 * b"
    using double_of_mono [of "2 * a" "a + b"] double_of_mono [of "a + b" "2 * b"] assms double_twice by simp_all
  then have "double_of a \<le> double_of (double_of (a + b) / 2)" "double_of (double_of (a + b) / 2) \<le> double_of b"
    by (auto intro: double_of_mono)
  then show "a \<le> double_of (double_of (a + b) / 2)" "double_of (double_of (a + b) / 2) \<le> b" by (simp_all add: d)
qed

text \<open>Counts are doubles.\<close>

lemma int_is_double:
  assumes "\<bar>i\<bar> \<le> 2 ^ 53"
  shows "is_double (of_int i)"
proof (cases "i = 0")
  case False
  let ?x = "rat_of_int i"
  show ?thesis
  proof (cases "\<bar>i\<bar> = 2 ^ 53")
    case True
    have "exponent \<bar>?x\<bar> = 53"
      using True by (intro exponent_unique) (simp_all flip: of_int_abs)
    then have "ulp ?x = 2" by (simp add: ulp_def)
    moreover have "?x = of_int (i div 2) * 2"
    proof -
      have "2 dvd \<bar>i\<bar>" using True by simp
      then have "2 dvd i" by simp
      then show ?thesis by (metis dvd_div_mult_self of_int_mult of_int_numeral)
    qed
    ultimately show ?thesis using multiple_def [of "ulp ?x" ?x] by (auto simp: is_double_iff)
  next
    case False
    then have "\<bar>?x\<bar> < 2 powi 53" using assms by (simp flip: of_int_abs of_int_less_iff)
    then have "(2 :: rat) powi (exponent \<bar>?x\<bar>) < 2 powi 53"
      using exponent_bounds(1) [of "\<bar>?x\<bar>"] \<open>i \<noteq> 0\<close> by simp
    then have "exponent \<bar>?x\<bar> < 53" by (rule powi_less_exp)
    then have "multiple (ulp ?x) (2 powi 0)" unfolding ulp_def by (intro powi_multiple) simp
    then obtain k where "1 = of_int k * ulp ?x" by (auto simp: multiple_def)
    then have "?x = of_int (i * k) * ulp ?x" by (metis mult.assoc mult.right_neutral of_int_mult)
    then have "multiple (ulp ?x) ?x" unfolding multiple_def by blast
    then show ?thesis by (simp add: is_double_iff)
  qed
qed (simp add: is_double_iff)

end
