(* ===== verification/Js_Regex.thy ===== *)
theory Js_Regex
  imports Json
begin

text \<open>
  The regular expressions of the content rules: character classes, sequences, alternatives, greedy
  repetitions of a class and word boundaries, case-insensitive. A position in a text is the
  character before it and the text after it; \<open>ends r\<close> lists the positions where a match from a
  position can end, in the order a backtracking matcher tries them, so the first one is the match.

  Characters are code units below 256; of those only the ASCII letters have a counterpart of the
  other case under the flag \<open>i\<close>.
\<close>

datatype rx =
  Eps
  | Cls "char \<Rightarrow> bool"
  | Cat rx rx
  | Alt rx rx
  | UpTo nat "char \<Rightarrow> bool"
  | Many "char \<Rightarrow> bool"
  | WordBound

type_synonym rx_pos = "char option \<times> string"

definition ascii_lower :: "char \<Rightarrow> char" where
  "ascii_lower c = (if char_between 65 90 c then char_of ((of_char c :: nat) + 32) else c)"

definition word_char :: "char \<Rightarrow> bool" where
  "word_char c \<longleftrightarrow> char_between 48 57 c \<or> char_between 65 90 c \<or> char_between 97 122 c \<or> c = CHR ''_''"

text \<open>\<open>.\<close> is any character but a line terminator.\<close>

definition rx_dot :: "char \<Rightarrow> bool" where
  "rx_dot c \<longleftrightarrow> (of_char c :: nat) \<notin> {10, 13}"

fun up_to :: "nat \<Rightarrow> (char \<Rightarrow> bool) \<Rightarrow> rx_pos \<Rightarrow> rx_pos list" where
  "up_to 0 P st = [st]"
| "up_to (Suc n) P (p, []) = [(p, [])]"
| "up_to (Suc n) P (p, c # cs) = (if P c then up_to n P (Some c, cs) else []) @ [(p, c # cs)]"

fun ends :: "rx \<Rightarrow> rx_pos \<Rightarrow> rx_pos list" where
  "ends Eps st = [st]"
| "ends (Cls P) (p, []) = []"
| "ends (Cls P) (p, c # cs) = (if P c then [(Some c, cs)] else [])"
| "ends (Cat r q) st = concat (map (ends q) (ends r st))"
| "ends (Alt r q) st = ends r st @ ends q st"
| "ends (UpTo n P) st = up_to n P st"
| "ends (Many P) st = up_to (length (snd st)) P st"
| "ends WordBound (p, s) =
     (let wb = (case p of None \<Rightarrow> False | Some c \<Rightarrow> word_char c);
          wa = (case s of [] \<Rightarrow> False | c # _ \<Rightarrow> word_char c) in
      if wb \<noteq> wa then [(p, s)] else [])"

text \<open>\<open>RegExp.test\<close> and \<open>replace(/.../g, "")\<close>, both from the character before the text.\<close>

fun rx_test :: "rx \<Rightarrow> char option \<Rightarrow> string \<Rightarrow> bool" where
  "rx_test r p s = (ends r (p, s) \<noteq> [] \<or> (case s of [] \<Rightarrow> False | c # cs \<Rightarrow> rx_test r (Some c) cs))"

declare rx_test.simps [simp del]

function rx_remove :: "rx \<Rightarrow> char option \<Rightarrow> string \<Rightarrow> string" where
  "rx_remove r p s =
     (case s of
        [] \<Rightarrow> []
      | c # cs \<Rightarrow>
          (case ends r (p, s) of
             (q, t) # _ \<Rightarrow> if length t < length s then rx_remove r q t else c # rx_remove r (Some c) cs
           | [] \<Rightarrow> c # rx_remove r (Some c) cs))"
  by pat_completeness auto
termination
  by (relation "measure (\<lambda>(r, p, s). length s)") auto

declare rx_remove.simps [simp del]

definition rx_cats :: "rx list \<Rightarrow> rx" where
  "rx_cats rs = foldr Cat rs Eps"

definition rx_alts :: "rx list \<Rightarrow> rx" where
  "rx_alts rs = (case rev rs of [] \<Rightarrow> Cls (\<lambda>_. False) | r # qs \<Rightarrow> foldl (\<lambda>acc q. Alt q acc) r qs)"

text \<open>A literal, case-insensitive; \<open>\s+\<close>; an optional part.\<close>

definition rx_lit :: "string \<Rightarrow> rx" where
  "rx_lit s = rx_cats (map (\<lambda>c. Cls (\<lambda>d. ascii_lower d = ascii_lower c)) s)"

definition rx_spaces :: rx where
  "rx_spaces = Cat (Cls js_space) (Many js_space)"

definition rx_opt :: "rx \<Rightarrow> rx" where
  "rx_opt r = Alt r Eps"

definition rx_words :: "string list \<Rightarrow> rx" where
  "rx_words ws = rx_alts (map rx_lit ws)"

text \<open>The text of a match is a prefix of the rest: positions only move forward.\<close>

lemma up_to_shorter: "(q, t) \<in> set (up_to n P (p, s)) \<Longrightarrow> length t \<le> length s"
  by (induction n P "(p, s)" arbitrary: p s rule: up_to.induct) (auto split: if_splits)

lemma ends_shorter: "(q, t) \<in> set (ends r (p, s)) \<Longrightarrow> length t \<le> length s"
proof (induction r arbitrary: p s q t)
  case (Cls P)
  then show ?case by (cases s) (auto split: if_splits)
next
  case (Cat r1 r2)
  then show ?case by fastforce
qed (auto simp: Let_def dest: up_to_shorter split: if_splits)

lemma rx_remove_length: "length (rx_remove r p s) \<le> length s"
proof (induction r p s rule: rx_remove.induct)
  case (1 r p s)
  then show ?case
    by (subst rx_remove.simps) (auto split: list.split prod.split, fastforce)
qed

end
