(* ===== verification/Opt_Policy.thy ===== *)
theory Opt_Policy
  imports Js_Regex
begin

text \<open>
  The policy on generated text (validateGeneratedPolicy in
  packages/contracts/src/performance/optimization-validation.ts): no causal, guaranteed or
  universal claim, no directive to change anything but hook and call-to-action wording. Phrases
  that deny such a claim or directive are removed before the test.

  The Arabic patterns of the code only match characters beyond code unit 255, which the strings of
  the model do not have, so they neither match nor remove anything here.
\<close>

definition UNSUPPORTED_CLAIM_PATTERNS :: "rx list" where
  "UNSUPPORTED_CLAIM_PATTERNS =
    [rx_cats [WordBound, rx_lit ''guarantee'', rx_opt (rx_words [''s'', ''d'']), WordBound],
     rx_cats [WordBound, rx_lit ''prove'', rx_opt (rx_lit ''s''), rx_opt (Cat rx_spaces (rx_lit ''that'')), WordBound],
     rx_cats [WordBound, rx_lit ''cause'', rx_opt (rx_lit ''s''), rx_spaces,
       rx_alts [rx_lit ''higher'', rx_lit ''lower'', rx_lit ''more'', rx_lit ''fewer'',
         rx_cats [rx_lit ''a'', rx_opt (rx_lit ''n''), rx_spaces, rx_words [''increase'', ''decrease'']]]],
     rx_cats [WordBound, rx_lit ''will'', rx_spaces,
       rx_words [''increase'', ''improve'', ''boost'', ''raise'', ''double''], WordBound],
     rx_cats [WordBound, rx_lit ''statistically'', rx_spaces, rx_lit ''significant'', WordBound],
     rx_cats [WordBound, rx_lit ''always'', rx_spaces,
       rx_alts [Cat (rx_lit ''work'') (rx_opt (rx_lit ''s'')), Cat (rx_lit ''win'') (rx_opt (rx_lit ''s'')),
         Cat (rx_lit ''outperform'') (rx_opt (rx_lit ''s'')),
         rx_cats [rx_lit ''perform'', rx_opt (rx_lit ''s''), rx_spaces, rx_lit ''best'']], WordBound],
     rx_cats [WordBound, rx_lit ''is'', rx_spaces, rx_opt (Cat (rx_lit ''a'') rx_spaces), rx_lit ''universal'', rx_spaces,
       rx_words [''rule'', ''best''], WordBound]]"

definition scope_verbs :: rx where
  "scope_verbs = rx_words [''change'', ''switch'', ''replace'', ''alter'', ''reschedule'', ''move'', ''set'',
     ''increase'', ''decrease'']"

definition scope_nouns :: rx where
  "scope_nouns = rx_alts
     [rx_lit ''strategy'', rx_lit ''goal'', rx_lit ''topic'', rx_lit ''purpose'', rx_lit ''audience'', rx_lit ''channel'',
      rx_lit ''locale'', rx_lit ''format'', rx_cats [rx_lit ''post'', rx_spaces, rx_lit ''count''], rx_lit ''media'',
      rx_lit ''asset'', rx_cats [rx_lit ''publishing'', rx_spaces, rx_words [''date'', ''time'', ''window'']],
      rx_lit ''schedule'', rx_lit ''offer'',
      rx_cats [rx_lit ''business'', rx_spaces, rx_lit ''fact'', rx_opt (rx_lit ''s'')],
      rx_cats [rx_lit ''created'', rx_spaces, rx_lit ''content'']]"

definition PROHIBITED_SCOPE_DIRECTIVE :: rx where
  "PROHIBITED_SCOPE_DIRECTIVE =
     rx_cats [WordBound, scope_verbs, WordBound, UpTo 80 rx_dot, WordBound, scope_nouns, WordBound]"

definition safe_claims :: rx where
  "safe_claims = rx_cats
     [WordBound,
      rx_alts [rx_cats [rx_lit ''does'', rx_spaces, rx_lit ''not''], rx_lit ''doesn't'', rx_lit ''cannot'', rx_lit ''can't'',
        rx_cats [rx_lit ''is'', rx_spaces, rx_lit ''not''], rx_lit ''not''],
      rx_spaces, rx_words [''guarantee'', ''prove'', ''cause'', ''establish''], WordBound]"

definition safe_significance :: rx where
  "safe_significance = rx_cats
     [WordBound, rx_alts [rx_lit ''not'', rx_cats [rx_lit ''is'', rx_spaces, rx_lit ''not''], rx_lit ''isn't''],
      rx_spaces, rx_lit ''statistically'', rx_spaces, rx_lit ''significant'', WordBound]"

definition safe_scope :: rx where
  "safe_scope = rx_cats
     [WordBound, rx_alts [rx_cats [rx_lit ''do'', rx_spaces, rx_lit ''not''], rx_lit ''don't'', rx_lit ''never'', rx_lit ''without''],
      rx_spaces, scope_verbs, WordBound, UpTo 80 rx_dot, WordBound, scope_nouns, WordBound]"

definition makes_unsupported_claim :: "string \<Rightarrow> bool" where
  "makes_unsupported_claim s \<longleftrightarrow>
     list_ex (\<lambda>r. rx_test r None (rx_remove safe_significance None (rx_remove safe_claims None s))) UNSUPPORTED_CLAIM_PATTERNS"

definition directs_scope_change :: "string \<Rightarrow> bool" where
  "directs_scope_change s \<longleftrightarrow> rx_test PROHIBITED_SCOPE_DIRECTIVE None (rx_remove safe_scope None s)"

definition validateGeneratedPolicy :: "json \<Rightarrow> string \<Rightarrow> unit issue list" where
  "validateGeneratedPolicy v f =
     (case v of
        JStr s \<Rightarrow> ensure (\<not> makes_unsupported_claim s) () f @ ensure (\<not> directs_scope_change s) () f
      | _ \<Rightarrow> [])"

end
