(* ===== verification/Opt_Contract.thy ===== *)
theory Opt_Contract
  imports Js_Number Opt_Policy Pub_Candidate Json_Checks
begin

text \<open>
  The optimization contract (packages/contracts/src/performance/optimization-types.ts and
  optimization-validation.ts): the frozen vocabularies, the digests that identify evidence, a
  generation request and an owner decision, and the validators of every document that crosses the
  boundary. A validator lists its issues in the order the code pushes them; an issue carries its
  field, not the message.
\<close>


section \<open>Vocabularies\<close>

definition OPTIMIZATION_REQUIRED_SNAPSHOT_COUNT :: nat where
  "OPTIMIZATION_REQUIRED_SNAPSHOT_COUNT = 3"

definition OPTIMIZATION_MAX_UNTRUSTED_TEXT_LENGTH :: nat where
  "OPTIMIZATION_MAX_UNTRUSTED_TEXT_LENGTH = 8000"

definition OPTIMIZATION_MAX_GENERATED_TEXT_LENGTH :: nat where
  "OPTIMIZATION_MAX_GENERATED_TEXT_LENGTH = 2000"

definition OPTIMIZATION_FORMATS :: "string list" where
  "OPTIMIZATION_FORMATS = [''text_post'', ''static_image_post'']"

definition OPTIMIZATION_REQUIRED_METRICS :: "string list" where
  "OPTIMIZATION_REQUIRED_METRICS = [''post_media_view'', ''post_clicks'']"

definition OPTIMIZATION_CHANGE_KINDS :: "string list" where
  "OPTIMIZATION_CHANGE_KINDS = [''hook_style'', ''cta_wording_style'']"

definition OPTIMIZATION_DECISION_ACTIONS :: "string list" where
  "OPTIMIZATION_DECISION_ACTIONS = [''approve'', ''dismiss'']"

definition OPTIMIZATION_INSTRUCTION_STATUSES :: "string list" where
  "OPTIMIZATION_INSTRUCTION_STATUSES = [''PENDING_CONSUMPTION'', ''CONSUMED'', ''SUPERSEDED'', ''EXPIRED'']"

definition OPTIMIZATION_PROPOSAL_WORKSPACE_STATES :: "string list" where
  "OPTIMIZATION_PROPOSAL_WORKSPACE_STATES =
     [''PENDING_OWNER_DECISION'', ''APPROVED_PENDING_CONSUMPTION'', ''DISMISSED'', ''CONSUMED'', ''SUPERSEDED'', ''EXPIRED'']"

definition OPTIMIZATION_READINESS_STATUSES :: "string list" where
  "OPTIMIZATION_READINESS_STATUSES = [''ready'', ''collecting_baseline'', ''insufficient_evidence'']"

definition OPTIMIZATION_READINESS_REASONS :: "string list" where
  "OPTIMIZATION_READINESS_REASONS =
     [''no_eligible_posts'', ''fewer_than_three_comparable_7d_snapshots'', ''missing_required_metric'',
      ''weak_signal'', ''snapshot_provenance_conflict'', ''format_required'']"

definition OPTIMIZATION_NO_RECOMMENDATION_REASONS :: "string list" where
  "OPTIMIZATION_NO_RECOMMENDATION_REASONS =
     [''no_safe_change'', ''weak_signal'', ''provider_unavailable'', ''provider_invalid_output'']"

definition OPTIMIZATION_PROHIBITED_CHANGES :: "string list" where
  "OPTIMIZATION_PROHIBITED_CHANGES =
     [''strategy'', ''goal'', ''topic'', ''purpose'', ''audience'', ''channel'', ''locale'', ''format'', ''post_count'',
      ''media'', ''publishing_date'', ''publishing_time'', ''publishing_window'', ''offer'', ''business_facts'',
      ''already_created_content'']"

definition PERFORMANCE_UNAVAILABLE_REASONS :: "string list" where
  "PERFORMANCE_UNAVAILABLE_REASONS =
     [''not_returned'', ''unsupported'', ''permission_denied'', ''provider_error'', ''invalid_value'', ''not_yet_observed'']"


section \<open>Digests\<close>

text \<open>
  The canonical form is that of the publication candidate: names in the order of
  \<open>localeCompare\<close>, undefined members dropped.
\<close>

definition canonicalOptimizationEvidencePayload :: "js_env \<Rightarrow> json list \<Rightarrow> string" where
  "canonicalOptimizationEvidencePayload E evidence =
     json_text E (canonicalize E (JArr (map (\<lambda>e. without_field ''cta'' (without_field ''caption'' e)) evidence)))"

definition computeOptimizationEvidenceChecksum :: "js_env \<Rightarrow> json list \<Rightarrow> string" where
  "computeOptimizationEvidenceChecksum E evidence = env_sha256 E (canonicalOptimizationEvidencePayload E evidence)"

definition computeOptimizationGenerationFingerprint :: "js_env \<Rightarrow> json \<Rightarrow> string" where
  "computeOptimizationGenerationFingerprint E request = env_sha256 E (json_text E (canonicalize E request))"

definition computeOptimizationDecisionFingerprint :: "js_env \<Rightarrow> string \<Rightarrow> string \<Rightarrow> string \<Rightarrow> string option \<Rightarrow> string" where
  "computeOptimizationDecisionFingerprint E proposal checksum action note =
     env_sha256 E (json_text E (canonicalize E (JObj
       [(''proposal_id'', JStr proposal), (''evidence_checksum'', JStr checksum), (''action'', JStr action),
        (''note'', case note of None \<Rightarrow> JNull | Some n \<Rightarrow> JStr n)])))"


section \<open>Checks\<close>

text \<open>\<open>isRunUuid\<close> is the pattern of this module too; a checksum is lower case.\<close>

definition opt_date :: "js_env \<Rightarrow> json \<Rightarrow> bool" where
  "opt_date E v \<longleftrightarrow> (case v of JStr s \<Rightarrow> js_date_parse E s \<noteq> None | _ \<Rightarrow> False)"

definition nonNegativeNumber :: "json \<Rightarrow> bool" where
  "nonNegativeNumber v \<longleftrightarrow> isNumber v \<and> jnum v \<ge> 0"

definition extra_keys :: "json \<Rightarrow> string list \<Rightarrow> string \<Rightarrow> unit issue list" where
  "extra_keys v allowed f = map (\<lambda>k. issue_of () (f @ ''.'' @ k)) (filter (\<lambda>k. k \<notin> set allowed) (jkeys v))"

definition requireUuids :: "json \<Rightarrow> string list \<Rightarrow> string \<Rightarrow> unit issue list" where
  "requireUuids v fs f = ensure_each isRunUuid v fs () (f @ ''.'')"

definition requireEnum :: "json \<Rightarrow> string list \<Rightarrow> string \<Rightarrow> unit issue list" where
  "requireEnum v allowed f = ensure (js_includes allowed v) () f"

definition requireBoundedString :: "json \<Rightarrow> string \<Rightarrow> nat \<Rightarrow> unit issue list" where
  "requireBoundedString v f n =
     (if \<not> isNonEmptyString v then [issue_of () f] else ensure (length (jstr v) \<le> n) () f)"

definition requireOptionalBoundedString :: "json \<Rightarrow> string \<Rightarrow> nat \<Rightarrow> unit issue list" where
  "requireOptionalBoundedString v f n =
     (case v of JNull \<Rightarrow> [] | JUndef \<Rightarrow> [] | JStr s \<Rightarrow> ensure (length s \<le> n) () f | _ \<Rightarrow> [issue_of () f])"

definition requireAll :: "(nat \<Rightarrow> json \<Rightarrow> unit issue list) \<Rightarrow> json \<Rightarrow> unit issue list" where
  "requireAll check v = concat (map (\<lambda>(i, x). check i x) (enumerate 0 (jelems v)))"

definition validateMetricValue :: "json \<Rightarrow> string \<Rightarrow> unit issue list" where
  "validateMetricValue v f =
     (if \<not> isRecord v then [issue_of () f]
      else extra_keys v [''status'', ''value'', ''reason''] f @
        (if jget v ''status'' = JStr ''available'' then
           ensure (nonNegativeNumber (jget v ''value'')) () (f @ ''.value'') @
           ensure (''reason'' \<notin> set (jkeys v)) () (f @ ''.reason'')
         else if jget v ''status'' = JStr ''unavailable'' then
           requireEnum (jget v ''reason'') PERFORMANCE_UNAVAILABLE_REASONS (f @ ''.reason'') @
           ensure (''value'' \<notin> set (jkeys v)) () (f @ ''.value'')
         else [issue_of () (f @ ''.status'')]))"

definition validateMetrics :: "json \<Rightarrow> string \<Rightarrow> unit issue list" where
  "validateMetrics v f =
     (if \<not> isRecord v then [issue_of () f]
      else extra_keys v OPTIMIZATION_REQUIRED_METRICS f @
        concat (map (\<lambda>m. if m \<notin> set (jkeys v) then [issue_of () (f @ ''.'' @ m)]
                         else validateMetricValue (jget v m) (f @ ''.'' @ m)) OPTIMIZATION_REQUIRED_METRICS))"

definition validateIdentity :: "json \<Rightarrow> string \<Rightarrow> unit issue list" where
  "validateIdentity v f =
     requireUuids v [''business_id'', ''strategy_id''] f @
     ensure (isInteger (jget v ''strategy_version'') \<and> jnum (jget v ''strategy_version'') \<ge> 1) () (f @ ''.strategy_version'') @
     requireUuids v [''content_cycle_id''] f"

definition validateComparison :: "json \<Rightarrow> string \<Rightarrow> unit issue list" where
  "validateComparison v f =
     (if \<not> isRecord v then [issue_of () f]
      else extra_keys v [''metric'', ''baseline_median'', ''values'', ''best_snapshot_id'', ''best_value'',
          ''delta_from_median'', ''delta_percent'', ''direction''] f @
        requireEnum (jget v ''metric'') OPTIMIZATION_REQUIRED_METRICS (f @ ''.metric'') @
        ensure (nonNegativeNumber (jget v ''baseline_median'')) () (f @ ''.baseline_median'') @
        ensure (isArray (jget v ''values'') \<and> jelems (jget v ''values'') \<noteq> []
            \<and> list_all nonNegativeNumber (jelems (jget v ''values''))) () (f @ ''.values'') @
        requireUuids v [''best_snapshot_id''] f @
        ensure (nonNegativeNumber (jget v ''best_value'')) () (f @ ''.best_value'') @
        ensure (isNumber (jget v ''delta_from_median'')) () (f @ ''.delta_from_median'') @
        ensure (jget v ''delta_percent'' = JNull \<or> isNumber (jget v ''delta_percent'')) () (f @ ''.delta_percent'') @
        requireEnum (jget v ''direction'') [''higher_is_better''] (f @ ''.direction''))"

text \<open>The stored and the generation form of a piece of evidence.\<close>

definition evidence_fields :: "bool \<Rightarrow> string list" where
  "evidence_fields generation =
     (if generation
      then [''snapshot_id'', ''candidate_id'', ''content_format'', ''published_at'', ''metrics'', ''untrusted_caption'',
        ''untrusted_cta'']
      else [''snapshot_id'', ''business_id'', ''publishing_result_id'', ''candidate_id'', ''candidate_checksum'',
        ''strategy_id'', ''strategy_version'', ''content_cycle_id'', ''content_format'', ''provider'', ''window'',
        ''published_at'', ''observed_at'', ''metrics'', ''caption'', ''cta''])"

definition required_cta :: "json \<Rightarrow> string \<Rightarrow> string \<Rightarrow> unit issue list" where
  "required_cta v k f =
     (if k \<notin> set (jkeys v) then [issue_of () (f @ ''.'' @ k)]
      else requireOptionalBoundedString (jget v k) (f @ ''.'' @ k) OPTIMIZATION_MAX_UNTRUSTED_TEXT_LENGTH)"

definition validateEvidence :: "js_env \<Rightarrow> json \<Rightarrow> string \<Rightarrow> bool \<Rightarrow> unit issue list" where
  "validateEvidence E v f generation =
     (if \<not> isRecord v then [issue_of () f]
      else extra_keys v (evidence_fields generation) f @
        requireUuids v [''snapshot_id'', ''candidate_id''] f @
        requireEnum (jget v ''content_format'') OPTIMIZATION_FORMATS (f @ ''.content_format'') @
        ensure (opt_date E (jget v ''published_at'')) () (f @ ''.published_at'') @
        validateMetrics (jget v ''metrics'') (f @ ''.metrics'') @
        (if generation
         then requireBoundedString (jget v ''untrusted_caption'') (f @ ''.untrusted_caption'') OPTIMIZATION_MAX_UNTRUSTED_TEXT_LENGTH @
           required_cta v ''untrusted_cta'' f
         else validateIdentity v f @
           requireUuids v [''publishing_result_id''] f @
           ensure (isNonEmptyString (jget v ''candidate_checksum'')) () (f @ ''.candidate_checksum'') @
           ensure (jget v ''provider'' = JStr ''facebook'') () (f @ ''.provider'') @
           requireEnum (jget v ''window'') [''7d''] (f @ ''.window'') @
           ensure (opt_date E (jget v ''observed_at'')) () (f @ ''.observed_at'') @
           requireBoundedString (jget v ''caption'') (f @ ''.caption'') OPTIMIZATION_MAX_UNTRUSTED_TEXT_LENGTH @
           required_cta v ''cta'' f))"

definition check_record :: "string \<Rightarrow> (json \<Rightarrow> unit issue list) \<Rightarrow> json \<Rightarrow> unit validation" where
  "check_record f check v = (if \<not> isRecord v then firstIssue () f else result_of (check v))"

text \<open>\<open>join(",")\<close> of an array of strings; any other element gives a text the vocabulary does not have.\<close>

definition same_strings :: "json \<Rightarrow> string list \<Rightarrow> bool" where
  "same_strings v xs \<longleftrightarrow> isArray v \<and> jelems v = map JStr xs"

definition validateOptimizationReadinessV1 :: "json \<Rightarrow> unit validation" where
  "validateOptimizationReadinessV1 =
     check_record ''readiness'' (\<lambda>v.
       extra_keys v [''contract_version'', ''status'', ''business_id'', ''format_cohort'', ''eligible_post_count'',
         ''required_post_count'', ''required_metrics'', ''available_formats'', ''reason''] ''readiness'' @
       ensure (jget v ''contract_version'' = JStr ''optimization-v1'') () ''readiness.contract_version'' @
       requireEnum (jget v ''status'') OPTIMIZATION_READINESS_STATUSES ''readiness.status'' @
       requireUuids v [''business_id''] ''readiness'' @
       (if jget v ''format_cohort'' \<in> {JNull, JUndef} then []
        else requireEnum (jget v ''format_cohort'') OPTIMIZATION_FORMATS ''readiness.format_cohort'') @
       ensure (isInteger (jget v ''eligible_post_count'') \<and> jnum (jget v ''eligible_post_count'') \<ge> 0) () ''readiness.eligible_post_count'' @
       ensure (jget v ''required_post_count'' = JNum (of_nat OPTIMIZATION_REQUIRED_SNAPSHOT_COUNT)) () ''readiness.required_post_count'' @
       ensure (same_strings (jget v ''required_metrics'') OPTIMIZATION_REQUIRED_METRICS) () ''readiness.required_metrics'' @
       ensure (isArray (jget v ''available_formats'')
         \<and> list_all (js_includes OPTIMIZATION_FORMATS) (jelems (jget v ''available_formats''))) () ''readiness.available_formats'' @
       (if jget v ''reason'' = JNull then []
        else requireEnum (jget v ''reason'') OPTIMIZATION_READINESS_REASONS ''readiness.reason''))"


section \<open>The generation request\<close>

definition closeEnough :: "rat \<Rightarrow> rat \<Rightarrow> bool" where
  "closeEnough l r \<longleftrightarrow> \<bar>double_of (l - r)\<bar> \<le> double_of (double_of (1 / 10 ^ 9) * max 1 (max \<bar>l\<bar> \<bar>r\<bar>))"

definition numericMedian :: "rat list \<Rightarrow> rat" where
  "numericMedian xs =
     (let s = sort xs; m = length s div 2 in
      if even (length s) then double_of (double_of (s ! (m - 1) + s ! m) / 2) else s ! m)"

text \<open>The value of a metric of a piece of evidence, if it may be compared.\<close>

definition observed_value :: "json \<Rightarrow> string \<Rightarrow> rat option" where
  "observed_value e m =
     (let v = jget (jget e ''metrics'') m in
      if isRecord v \<and> jget v ''status'' = JStr ''available'' \<and> nonNegativeNumber (jget v ''value'')
      then Some (jnum (jget v ''value'')) else None)"

definition evidence_values :: "json list \<Rightarrow> string \<Rightarrow> rat list" where
  "evidence_values es m =
     List.map_filter (\<lambda>e. if isRecord e \<and> isRecord (jget e ''metrics'') then observed_value e m else None) es"

fun repeated_ids :: "string list \<Rightarrow> nat \<Rightarrow> json list \<Rightarrow> (nat \<times> bool) list" where
  "repeated_ids seen i [] = []"
| "repeated_ids seen i (e # es) =
     (case jget e ''snapshot_id'' of
        JStr s \<Rightarrow> (i, s \<in> set seen) # repeated_ids (s # seen) (i + 1) es
      | _ \<Rightarrow> (i, False) # repeated_ids seen (i + 1) es)"

definition evidence_field :: "nat \<Rightarrow> string \<Rightarrow> string" where
  "evidence_field i k = index_field ''request.evidence'' i k"

definition item_consistency :: "json \<Rightarrow> nat \<Rightarrow> bool \<Rightarrow> json \<Rightarrow> unit issue list" where
  "item_consistency identity i again e =
     (if \<not> isRecord e then []
      else ensure (\<not> again) () (evidence_field i ''.snapshot_id'') @
        ensure (js_eq (jget e ''content_format'') (jget identity ''format_cohort'')) () (evidence_field i ''.content_format'') @
        (if \<not> isRecord (jget e ''metrics'') then []
         else concat (map (\<lambda>m. ensure (observed_value e m \<noteq> None) () (evidence_field i (''.metrics.'' @ m)))
           OPTIMIZATION_REQUIRED_METRICS)))"

definition evidence_consistency :: "json \<Rightarrow> json list \<Rightarrow> unit issue list" where
  "evidence_consistency identity es =
     concat (map (\<lambda>((i, again), e). item_consistency identity i again e) (zip (repeated_ids [] 0 es) es))"

text \<open>The identifiers of the evidence whose value is the best, in the order of \<open>sort()\<close>.\<close>

definition best_ids :: "json list \<Rightarrow> rat list \<Rightarrow> rat \<Rightarrow> string list" where
  "best_ids es xs best =
     sort (filter (\<lambda>s. s \<noteq> [])
       (map (\<lambda>(i, e). jstr (jget e ''snapshot_id''))
         (filter (\<lambda>(i, e). isRecord e \<and> i < length xs \<and> closeEnough (xs ! i) best) (enumerate 0 es))))"

definition comparison_consistency :: "json list \<Rightarrow> nat \<Rightarrow> json \<Rightarrow> unit issue list" where
  "comparison_consistency es i c =
     (let f = index_field ''request.deterministic_comparison'' i;
          xs = evidence_values es (jstr (jget c ''metric''));
          vs = jget c ''values'';
          med = numericMedian xs; best = Max (set xs); delta = double_of (best - med) in
      if \<not> (isArray vs \<and> list_all2 (\<lambda>v x. isNumber v \<and> closeEnough (jnum v) x) (jelems vs) xs) then [issue_of () (f ''.values'')]
      else if xs = [] then []
      else
        ensure (isNumber (jget c ''baseline_median'') \<and> closeEnough (jnum (jget c ''baseline_median'')) med) () (f ''.baseline_median'') @
        ensure (isNumber (jget c ''best_value'') \<and> closeEnough (jnum (jget c ''best_value'')) best) () (f ''.best_value'') @
        ensure (isNumber (jget c ''delta_from_median'') \<and> closeEnough (jnum (jget c ''delta_from_median'')) delta) ()
          (f ''.delta_from_median'') @
        ensure (if med > 0
            then isNumber (jget c ''delta_percent'')
              \<and> closeEnough (jnum (jget c ''delta_percent'')) (double_of (double_of (delta / med) * 100))
            else jget c ''delta_percent'' = JNull) () (f ''.delta_percent'') @
        ensure (case best_ids es xs best of [] \<Rightarrow> jget c ''best_snapshot_id'' = JUndef | b # _ \<Rightarrow> jget c ''best_snapshot_id'' = JStr b)
          () (f ''.best_snapshot_id''))"

definition validateGenerationConsistency :: "json \<Rightarrow> unit issue list" where
  "validateGenerationConsistency v =
     (if \<not> isRecord (jget v ''identity'') \<or> \<not> isArray (jget v ''evidence'') then []
      else
        (let es = jelems (jget v ''evidence''); cs = jget v ''deterministic_comparison'' in
         evidence_consistency (jget v ''identity'') es @
         (if \<not> isArray cs then []
          else if map (\<lambda>c. if isRecord c then jget c ''metric'' else JNull) (jelems cs) \<noteq> map JStr OPTIMIZATION_REQUIRED_METRICS
          then [issue_of () ''request.deterministic_comparison'']
          else requireAll (comparison_consistency es) cs)))"

definition validateOptimizationGenerationRequestV1 :: "js_env \<Rightarrow> json \<Rightarrow> unit validation" where
  "validateOptimizationGenerationRequestV1 E =
     check_record ''request'' (\<lambda>v.
       extra_keys v [''contract_version'', ''generation_fingerprint'', ''evidence_checksum'', ''identity'', ''evidence'',
         ''deterministic_comparison'', ''allowed_change_kinds'', ''prohibited_changes''] ''request'' @
       ensure (jget v ''contract_version'' = JStr ''optimization-v1'') () ''request.contract_version'' @
       ensure_each isSha256 v [''generation_fingerprint'', ''evidence_checksum''] () ''request.'' @
       (let identity = jget v ''identity'' in
        if \<not> isRecord identity then [issue_of () ''request.identity'']
        else extra_keys identity [''business_id'', ''strategy_id'', ''strategy_version'', ''content_cycle_id'', ''format_cohort''] ''request.identity'' @
          validateIdentity identity ''request.identity'' @
          requireEnum (jget identity ''format_cohort'') OPTIMIZATION_FORMATS ''request.identity.format_cohort'') @
       (let evidence = jget v ''evidence'' in
        if \<not> isArray evidence \<or> length (jelems evidence) < OPTIMIZATION_REQUIRED_SNAPSHOT_COUNT then [issue_of () ''request.evidence'']
        else requireAll (\<lambda>i e. validateEvidence E e (index_field ''request.evidence'' i '''') True) evidence) @
       (let cs = jget v ''deterministic_comparison'' in
        if \<not> isArray cs \<or> jelems cs = [] then [issue_of () ''request.deterministic_comparison'']
        else requireAll (\<lambda>i c. validateComparison c (index_field ''request.deterministic_comparison'' i '''')) cs) @
       (let ks = jget v ''allowed_change_kinds'' in
        if \<not> isArray ks \<or> jelems ks = [] then [issue_of () ''request.allowed_change_kinds'']
        else requireAll (\<lambda>i k. requireEnum k OPTIMIZATION_CHANGE_KINDS (index_field ''request.allowed_change_kinds'' i '''')) ks) @
       ensure (same_strings (jget v ''prohibited_changes'') OPTIMIZATION_PROHIBITED_CHANGES) () ''request.prohibited_changes'' @
       validateGenerationConsistency v)"


section \<open>Recommendations, proposals, decisions\<close>

definition generated_texts :: "json \<Rightarrow> string \<Rightarrow> string list \<Rightarrow> unit issue list" where
  "generated_texts v f ks =
     concat (map (\<lambda>k. requireBoundedString (jget v k) (f @ ''.'' @ k) OPTIMIZATION_MAX_GENERATED_TEXT_LENGTH @
       validateGeneratedPolicy (jget v k) (f @ ''.'' @ k)) ks)"

definition snapshot_ids :: "json \<Rightarrow> string \<Rightarrow> unit issue list" where
  "snapshot_ids v f =
     (if \<not> isArray v \<or> length (jelems v) < OPTIMIZATION_REQUIRED_SNAPSHOT_COUNT then [issue_of () f]
      else requireAll (\<lambda>i x. ensure (isRunUuid x) () (index_field f i '''')) v)"

definition result_keys :: "json \<Rightarrow> string list" where
  "result_keys v =
     [''contract_version'', ''outcome'', ''generation_fingerprint'', ''model_version'', ''prompt_version''] @
     (if jget v ''outcome'' = JStr ''recommendation''
      then [''evidence_snapshot_ids'', ''change_kind'', ''summary'', ''rationale'', ''uncertainty'', ''instruction'']
      else [''reason''])"

definition validateOptimizationAgentResultV1 :: "json \<Rightarrow> unit validation" where
  "validateOptimizationAgentResultV1 =
     check_record ''result'' (\<lambda>v.
       extra_keys v (result_keys v) ''result'' @
       ensure (jget v ''contract_version'' = JStr ''optimization-v1'') () ''result.contract_version'' @
       requireEnum (jget v ''outcome'') [''recommendation'', ''no_recommendation''] ''result.outcome'' @
       ensure_each isSha256 v [''generation_fingerprint''] () ''result.'' @
       ensure_each isNonEmptyString v [''model_version''] () ''result.'' @
       requireEnum (jget v ''prompt_version'') [''optimization-prompt-v1''] ''result.prompt_version'' @
       (if jget v ''outcome'' = JStr ''recommendation'' then
          snapshot_ids (jget v ''evidence_snapshot_ids'') ''result.evidence_snapshot_ids'' @
          requireEnum (jget v ''change_kind'') OPTIMIZATION_CHANGE_KINDS ''result.change_kind'' @
          generated_texts v ''result'' [''summary'', ''rationale'', ''uncertainty'', ''instruction'']
        else if jget v ''outcome'' = JStr ''no_recommendation'' then
          requireEnum (jget v ''reason'') OPTIMIZATION_NO_RECOMMENDATION_REASONS ''result.reason''
        else []))"

definition PROPOSAL_KEYS :: "string list" where
  "PROPOSAL_KEYS =
     [''contract_version'', ''proposal_id'', ''business_id'', ''strategy_id'', ''strategy_version'', ''content_cycle_id'',
      ''format_cohort'', ''basis_snapshot_ids'', ''evidence_checksum'', ''deterministic_comparison'', ''change_kind'',
      ''summary'', ''rationale'', ''uncertainty'', ''instruction'', ''model_version'', ''prompt_version'',
      ''generation_fingerprint'', ''status'', ''created_at'']"

definition validateOptimizationProposalV1 :: "js_env \<Rightarrow> json \<Rightarrow> unit validation" where
  "validateOptimizationProposalV1 E =
     check_record ''proposal'' (\<lambda>v.
       extra_keys v PROPOSAL_KEYS ''proposal'' @
       ensure (jget v ''contract_version'' = JStr ''optimization-v1'') () ''proposal.contract_version'' @
       requireUuids v [''proposal_id''] ''proposal'' @
       validateIdentity v ''proposal'' @
       requireEnum (jget v ''format_cohort'') OPTIMIZATION_FORMATS ''proposal.format_cohort'' @
       snapshot_ids (jget v ''basis_snapshot_ids'') ''proposal.basis_snapshot_ids'' @
       ensure_each isSha256 v [''evidence_checksum''] () ''proposal.'' @
       (let cs = jget v ''deterministic_comparison'' in
        if \<not> isArray cs \<or> jelems cs = [] then [issue_of () ''proposal.deterministic_comparison'']
        else requireAll (\<lambda>i c. validateComparison c (index_field ''proposal.deterministic_comparison'' i '''')) cs) @
       requireEnum (jget v ''change_kind'') OPTIMIZATION_CHANGE_KINDS ''proposal.change_kind'' @
       generated_texts v ''proposal'' [''summary'', ''rationale'', ''uncertainty'', ''instruction''] @
       ensure_each isNonEmptyString v [''model_version''] () ''proposal.'' @
       requireEnum (jget v ''prompt_version'') [''optimization-prompt-v1''] ''proposal.prompt_version'' @
       ensure_each isSha256 v [''generation_fingerprint''] () ''proposal.'' @
       ensure (jget v ''status'' = JStr ''PENDING_OWNER_DECISION'') () ''proposal.status'' @
       ensure (opt_date E (jget v ''created_at'')) () ''proposal.created_at'')"

definition DECISION_KEYS :: "string list" where
  "DECISION_KEYS =
     [''contract_version'', ''decision_id'', ''proposal_id'', ''business_id'', ''strategy_id'', ''strategy_version'',
      ''content_cycle_id'', ''format_cohort'', ''evidence_checksum'', ''action'', ''owner_user_id'',
      ''request_fingerprint'', ''note'', ''decided_at'']"

definition validateOptimizationDecisionV1 :: "js_env \<Rightarrow> json \<Rightarrow> unit validation" where
  "validateOptimizationDecisionV1 E =
     check_record ''decision'' (\<lambda>v.
       extra_keys v DECISION_KEYS ''decision'' @
       ensure (jget v ''contract_version'' = JStr ''optimization-decision-v1'') () ''decision.contract_version'' @
       requireUuids v [''decision_id'', ''proposal_id''] ''decision'' @
       validateIdentity v ''decision'' @
       requireEnum (jget v ''format_cohort'') OPTIMIZATION_FORMATS ''decision.format_cohort'' @
       ensure_each isSha256 v [''evidence_checksum''] () ''decision.'' @
       requireEnum (jget v ''action'') OPTIMIZATION_DECISION_ACTIONS ''decision.action'' @
       requireUuids v [''owner_user_id''] ''decision'' @
       ensure_each isSha256 v [''request_fingerprint''] () ''decision.'' @
       (if jget v ''note'' = JNull then [] else requireOptionalBoundedString (jget v ''note'') ''decision.note'' 1000) @
       ensure (opt_date E (jget v ''decided_at'')) () ''decision.decided_at'')"

definition INSTRUCTION_KEYS :: "string list" where
  "INSTRUCTION_KEYS =
     [''contract_version'', ''instruction_id'', ''proposal_id'', ''approved_decision_id'', ''business_id'', ''strategy_id'',
      ''strategy_version'', ''content_cycle_id'', ''format_cohort'', ''evidence_checksum'', ''change_kind'',
      ''instruction'', ''status'', ''consumed_content_pack_id'', ''consumed_week_plan_id'', ''approved_at'',
      ''consumed_at'', ''superseded_at'', ''created_at'', ''updated_at'']"

text \<open>What the columns of an instruction may hold in each status.\<close>

definition instruction_shape :: "json \<Rightarrow> unit issue list" where
  "instruction_shape v =
     (let pack = jget v ''consumed_content_pack_id''; plan = jget v ''consumed_week_plan_id'';
          consumed = jget v ''consumed_at''; superseded = jget v ''superseded_at''; st = jget v ''status'' in
      (if st = JStr ''PENDING_CONSUMPTION''
       then ensure (pack = JNull \<and> plan = JNull \<and> consumed = JNull \<and> superseded = JNull) () ''instruction'' else []) @
      (if st = JStr ''CONSUMED''
       then ensure (pack \<noteq> JNull \<and> plan \<noteq> JNull \<and> consumed \<noteq> JNull \<and> superseded = JNull) () ''instruction'' else []) @
      (if st = JStr ''SUPERSEDED'' \<or> st = JStr ''EXPIRED''
       then ensure (pack = JNull \<and> plan = JNull \<and> consumed = JNull \<and> superseded \<noteq> JNull) () ''instruction'' else []))"

definition validateApprovedOptimizationInstructionV1 :: "js_env \<Rightarrow> json \<Rightarrow> unit validation" where
  "validateApprovedOptimizationInstructionV1 E =
     check_record ''instruction'' (\<lambda>v.
       extra_keys v INSTRUCTION_KEYS ''instruction'' @
       ensure (jget v ''contract_version'' = JStr ''optimization-instruction-v1'') () ''instruction.contract_version'' @
       requireUuids v [''instruction_id'', ''proposal_id'', ''approved_decision_id''] ''instruction'' @
       validateIdentity v ''instruction'' @
       requireEnum (jget v ''format_cohort'') OPTIMIZATION_FORMATS ''instruction.format_cohort'' @
       ensure_each isSha256 v [''evidence_checksum''] () ''instruction.'' @
       requireEnum (jget v ''change_kind'') OPTIMIZATION_CHANGE_KINDS ''instruction.change_kind'' @
       generated_texts v ''instruction'' [''instruction''] @
       requireEnum (jget v ''status'') OPTIMIZATION_INSTRUCTION_STATUSES ''instruction.status'' @
       ensure_each (\<lambda>x. x = JNull \<or> isRunUuid x) v [''consumed_content_pack_id'', ''consumed_week_plan_id''] () ''instruction.'' @
       ensure_each (opt_date E) v [''approved_at'', ''created_at'', ''updated_at''] () ''instruction.'' @
       ensure_each (\<lambda>x. x = JNull \<or> opt_date E x) v [''consumed_at'', ''superseded_at''] () ''instruction.'' @
       instruction_shape v)"


section \<open>The workspace\<close>

definition same_fields :: "json \<Rightarrow> json \<Rightarrow> string list \<Rightarrow> bool" where
  "same_fields v w fs \<longleftrightarrow> list_all (\<lambda>f. js_eq (jget v f) (jget w f)) fs"

definition identity_fields :: "string list" where
  "identity_fields = [''proposal_id'', ''business_id'', ''strategy_id'', ''strategy_version'', ''content_cycle_id'',
     ''format_cohort'', ''evidence_checksum'']"

definition expected_state :: "json \<Rightarrow> json \<Rightarrow> string" where
  "expected_state decision instruction =
     (if \<not> isRecord decision then ''PENDING_OWNER_DECISION''
      else if jget decision ''action'' = JStr ''dismiss'' then ''DISMISSED''
      else if jget instruction ''status'' = JStr ''CONSUMED'' then ''CONSUMED''
      else if jget instruction ''status'' = JStr ''SUPERSEDED'' then ''SUPERSEDED''
      else if jget instruction ''status'' = JStr ''EXPIRED'' then ''EXPIRED''
      else ''APPROVED_PENDING_CONSUMPTION'')"

definition workspace_decision :: "js_env \<Rightarrow> json \<Rightarrow> json \<Rightarrow> unit issue list" where
  "workspace_decision E p d =
     (if d = JNull then []
      else issues (validateOptimizationDecisionV1 E d) @
        (if isRecord p \<and> isRecord d then ensure (same_fields d p identity_fields) () ''workspace.decision'' else []))"

definition workspace_instruction :: "js_env \<Rightarrow> json \<Rightarrow> json \<Rightarrow> json \<Rightarrow> unit issue list" where
  "workspace_instruction E p d i =
     (if i = JNull then []
      else issues (validateApprovedOptimizationInstructionV1 E i) @
        (if isRecord p \<and> isRecord i then
           ensure (same_fields i p (identity_fields @ [''change_kind'', ''instruction''])) () ''workspace.instruction'' @
           (if \<not> isRecord d \<or> jget d ''action'' \<noteq> JStr ''approve'' then [issue_of () ''workspace.instruction'']
            else ensure (js_eq (jget i ''approved_decision_id'') (jget d ''decision_id'')) ()
              ''workspace.instruction.approved_decision_id'')
         else []))"

definition validateOptimizationProposalWorkspaceV1 :: "js_env \<Rightarrow> json \<Rightarrow> unit validation" where
  "validateOptimizationProposalWorkspaceV1 E =
     check_record ''workspace'' (\<lambda>v.
       (let p = jget v ''proposal''; d = jget v ''decision''; i = jget v ''instruction'' in
        extra_keys v [''contract_version'', ''proposal'', ''state'', ''decision'', ''instruction''] ''workspace'' @
        ensure (jget v ''contract_version'' = JStr ''optimization-v1'') () ''workspace.contract_version'' @
        issues (validateOptimizationProposalV1 E p) @
        requireEnum (jget v ''state'') OPTIMIZATION_PROPOSAL_WORKSPACE_STATES ''workspace.state'' @
        workspace_decision E p d @
        workspace_instruction E p d i @
        (if isRecord d then
           ensure (\<not> (jget d ''action'' = JStr ''approve'' \<and> i = JNull)) () ''workspace.instruction'' @
           ensure (\<not> (jget d ''action'' = JStr ''dismiss'' \<and> i \<noteq> JNull)) () ''workspace.instruction''
         else []) @
        ensure (jget v ''state'' = JStr (expected_state d (if isRecord i then i else JNull))) () ''workspace.state''))"

definition validateOptimizationDecisionResponseV1 :: "js_env \<Rightarrow> json \<Rightarrow> unit validation" where
  "validateOptimizationDecisionResponseV1 E =
     check_record ''decision_response'' (\<lambda>v.
       extra_keys v [''contract_version'', ''workspace''] ''decision_response'' @
       ensure (jget v ''contract_version'' = JStr ''optimization-decision-v1'') () ''decision_response.contract_version'' @
       issues (validateOptimizationProposalWorkspaceV1 E (jget v ''workspace'')))"


section \<open>Reading the checks\<close>

lemma extra_keys_Nil [simp, check_simps]: "extra_keys v allowed f = [] \<longleftrightarrow> set (jkeys v) \<subseteq> set allowed"
  by (auto simp: extra_keys_def filter_empty_conv)

lemma requireUuids_Nil [simp, check_simps]: "requireUuids v fs f = [] \<longleftrightarrow> (\<forall>k \<in> set fs. isRunUuid (jget v k))"
  by (simp add: requireUuids_def)

lemma requireEnum_Nil [simp, check_simps]: "requireEnum v allowed f = [] \<longleftrightarrow> js_includes allowed v"
  by (simp add: requireEnum_def)

lemma requireBoundedString_Nil [check_simps]:
  "requireBoundedString v f n = [] \<longleftrightarrow> isNonEmptyString v \<and> length (jstr v) \<le> n"
  by (simp add: requireBoundedString_def)

lemma requireAll_Nil [check_simps]: "requireAll f v = [] \<longleftrightarrow> (\<forall>i < length (jelems v). f i (jelems v ! i) = [])"
  using concat_enumerate_Nil [of f 0 "jelems v"] by (simp only: requireAll_def add_0)

lemma check_record_valid [simp, check_simps]: "valid (check_record f check v) \<longleftrightarrow> isRecord v \<and> check v = []"
  by (simp add: check_record_def)

lemma issues_Nil [simp]: "issues (check_record f check v) = [] \<longleftrightarrow> valid (check_record f check v)"
  by (simp add: check_record_def)

text \<open>\<open>closeEnough\<close> is reflexive, and it tells apart different counts up to a hundred million.\<close>

lemma closeEnough_refl [simp]: "closeEnough x x"
proof -
  have "0 \<le> double_of (1 / 10 ^ 9 :: rat)" by (rule double_of_nonneg) simp
  then have "0 \<le> double_of (double_of (1 / 10 ^ 9) * max 1 (max \<bar>x\<bar> \<bar>x\<bar>))"
    by (intro double_of_nonneg mult_nonneg_nonneg) simp_all
  then show ?thesis by (simp add: closeEnough_def)
qed

lemma tolerance: "double_of (1 / 10 ^ 9) \<le> 2 / 10 ^ 9"
  by code_simp

lemma close_counts:
  assumes "closeEnough (of_int i) (of_int j)" "\<bar>i\<bar> \<le> 10 ^ 8" "\<bar>j\<bar> \<le> 10 ^ 8"
  shows "i = j"
proof (rule ccontr)
  assume "i \<noteq> j"
  have "is_double (of_int (i - j))" using assms(2,3) by (intro int_is_double) simp
  then have "\<bar>double_of (of_int i - of_int j)\<bar> = of_int \<bar>i - j\<bar>" by (simp add: is_double_def)
  also have "\<dots> \<ge> 1" using \<open>i \<noteq> j\<close> by linarith
  finally have big: "1 \<le> \<bar>double_of (of_int i - of_int j)\<bar>" .
  have m: "max 1 (max \<bar>rat_of_int i\<bar> \<bar>rat_of_int j\<bar>) \<le> 10 ^ 8"
    using assms(2,3) by (simp flip: of_int_abs of_int_le_iff)
  have "double_of (1 / 10 ^ 9) * max 1 (max \<bar>rat_of_int i\<bar> \<bar>rat_of_int j\<bar>) \<le> 2 / 10 ^ 9 * 10 ^ 8"
    by (rule mult_mono [OF tolerance m]) simp_all
  then have "double_of (double_of (1 / 10 ^ 9) * max 1 (max \<bar>rat_of_int i\<bar> \<bar>rat_of_int j\<bar>)) \<le> double_of (1 / 2)"
    by (intro double_of_mono) simp
  moreover have "double_of (1 / 2) = 1 / 2" by code_simp
  ultimately show False using assms(1) big by (simp add: closeEnough_def)
qed

end
