(* ===== verification/Opt_Analyzer.thy ===== *)
theory Opt_Analyzer
  imports Opt_Contract
begin

text \<open>
  The deterministic analysis of post metrics
  (apps/api/src/modules/performance/optimization/optimization-analyzer.ts): one cohort of posts of
  the same business, strategy version, cycle and format is selected and compared; no AI provider
  is consulted. A thrown exception is the left value.
\<close>


section \<open>Data\<close>

datatype metric_value = Available rat | Unavailable string

record snapshot =
  sn_id :: string
  sn_business :: string
  sn_result :: string
  sn_candidate :: string
  sn_checksum :: string
  sn_strategy :: string
  sn_strategy_version :: int
  sn_cycle :: string
  sn_format :: string
  sn_provider :: string
  sn_window :: string
  sn_published :: string
  sn_observed :: "string option"
  sn_views :: metric_value
  sn_clicks :: metric_value
  sn_caption :: string
  sn_cta :: "string option"

record comparison =
  cmp_metric :: string
  cmp_median :: rat
  cmp_values :: "rat list"
  cmp_best_id :: string
  cmp_best :: rat
  cmp_delta :: rat
  cmp_percent :: "rat option"

record readiness =
  rd_status :: string
  rd_business :: string
  rd_format :: "string option"
  rd_eligible :: nat
  rd_formats :: "string list"
  rd_reason :: "string option"

record cohort =
  co_business :: string
  co_strategy :: string
  co_strategy_version :: int
  co_cycle :: string
  co_format :: string

record analysis =
  an_readiness :: readiness
  an_format :: "string option"
  an_identity :: "cohort option"
  an_evidence :: "snapshot list"
  an_comparisons :: "comparison list"
  an_checksum :: "string option"

datatype analysis_error = NotObserved | NoEvidence | Undefined


section \<open>Steps\<close>

definition identityKey :: "js_env \<Rightarrow> snapshot \<Rightarrow> string" where
  "identityKey E s = join_with ''|''
     [sn_business s, sn_strategy s, env_num E (of_int (sn_strategy_version s)), sn_cycle s, sn_format s]"

fun isAvailable :: "metric_value \<Rightarrow> bool" where
  "isAvailable (Available _) = True"
| "isAvailable (Unavailable _) = False"

fun metric_number :: "metric_value \<Rightarrow> rat" where
  "metric_number (Available n) = n"
| "metric_number (Unavailable _) = 0"

definition complete :: "snapshot \<Rightarrow> bool" where
  "complete s \<longleftrightarrow> isAvailable (sn_views s) \<and> isAvailable (sn_clicks s)"

definition metric_of :: "string \<Rightarrow> snapshot \<Rightarrow> metric_value" where
  "metric_of m s = (if m = ''post_media_view'' then sn_views s else sn_clicks s)"

definition isOptimizationFormat :: "string \<Rightarrow> bool" where
  "isOptimizationFormat f \<longleftrightarrow> f \<in> set OPTIMIZATION_FORMATS"

definition median :: "rat list \<Rightarrow> rat" where
  "median values =
     (let sorted = sort values; middle = length sorted div 2 in
      if even (length sorted) then double_of (double_of (sorted ! (middle - 1) + sorted ! middle) / 2)
      else sorted ! middle)"

definition make_readiness :: "string \<Rightarrow> string option \<Rightarrow> nat \<Rightarrow> string list \<Rightarrow> string option \<Rightarrow> readiness" where
  "make_readiness business format eligible formats reason =
     (let insufficient = reason \<in> {Some ''weak_signal'', Some ''missing_required_metric'', Some ''snapshot_provenance_conflict''} in
      \<lparr>rd_status = (if insufficient then ''insufficient_evidence''
         else if eligible \<ge> OPTIMIZATION_REQUIRED_SNAPSHOT_COUNT then ''ready'' else ''collecting_baseline''),
       rd_business = business, rd_format = format, rd_eligible = eligible, rd_formats = formats,
       rd_reason = (if insufficient \<or> eligible < OPTIMIZATION_REQUIRED_SNAPSHOT_COUNT then reason else None)\<rparr>)"

definition asEvidence :: "snapshot \<Rightarrow> analysis_error + snapshot" where
  "asEvidence s = (case sn_observed s of
      None \<Rightarrow> Inl NotObserved
    | Some t \<Rightarrow> if t = [] then Inl NotObserved else Inr (s\<lparr>sn_provider := ''facebook'', sn_window := ''7d''\<rparr>))"

text \<open>The first of the sorted observations: the largest value, of equal ones the first identifier.\<close>

definition better :: "js_env \<Rightarrow> string \<Rightarrow> snapshot \<Rightarrow> snapshot \<Rightarrow> bool" where
  "better E m l r \<longleftrightarrow>
     (let a = metric_number (metric_of m l); b = metric_number (metric_of m r) in
      b < a \<or> b = a \<and> env_collate E (sn_id l) (sn_id r))"

definition comparisonFor :: "js_env \<Rightarrow> snapshot list \<Rightarrow> string \<Rightarrow> analysis_error + comparison" where
  "comparisonFor E evidence m =
     (let observations = filter (\<lambda>s. isAvailable (metric_of m s)) evidence;
          values = map (\<lambda>s. metric_number (metric_of m s)) observations;
          baseline = median values in
      case js_sort (better E m) observations of
        [] \<Rightarrow> Inl Undefined
      | best # _ \<Rightarrow>
          (let top = metric_number (metric_of m best) in
           Inr \<lparr>cmp_metric = m, cmp_median = baseline, cmp_values = values, cmp_best_id = sn_id best, cmp_best = top,
             cmp_delta = double_of (top - baseline),
             cmp_percent = (if baseline > 0
               then Some (double_of (double_of (double_of (top - baseline) / baseline) * 100)) else None)\<rparr>))"

text \<open>A \<open>Set\<close> and the keys of a \<open>Map\<close> keep the order of first insertion.\<close>

fun first_keys :: "'a list \<Rightarrow> 'a list" where
  "first_keys [] = []"
| "first_keys (x # xs) = x # filter (\<lambda>y. y \<noteq> x) (first_keys xs)"

definition of_facebook :: "string \<Rightarrow> snapshot \<Rightarrow> bool" where
  "of_facebook business s \<longleftrightarrow> sn_business s = business \<and> sn_provider s = ''facebook'' \<and> sn_window s = ''7d''
     \<and> isOptimizationFormat (sn_format s)"

definition available_formats :: "string \<Rightarrow> snapshot list \<Rightarrow> string list" where
  "available_formats business ss = sort (first_keys (map sn_format (filter (of_facebook business) ss)))"

definition candidates :: "string \<Rightarrow> string option \<Rightarrow> snapshot list \<Rightarrow> snapshot list" where
  "candidates business requested ss =
     filter (\<lambda>s. of_facebook business s \<and> sn_observed s \<noteq> None
       \<and> (requested = None \<or> requested = Some [] \<or> requested = Some (sn_format s))) ss"

definition groups :: "js_env \<Rightarrow> snapshot list \<Rightarrow> snapshot list list" where
  "groups E cs = map (\<lambda>k. filter (\<lambda>s. identityKey E s = k) cs) (first_keys (map (identityKey E) cs))"

definition group_key :: "js_env \<Rightarrow> snapshot list \<Rightarrow> string" where
  "group_key E g = (case g of [] \<Rightarrow> [] | s # _ \<Rightarrow> identityKey E s)"

text \<open>More complete posts first, then more posts, then the key.\<close>

definition group_le :: "js_env \<Rightarrow> snapshot list \<Rightarrow> snapshot list \<Rightarrow> bool" where
  "group_le E l r \<longleftrightarrow>
     (let a = length (filter complete l); b = length (filter complete r) in
      b < a \<or> b = a \<and> (length r < length l
        \<or> length r = length l \<and> env_collate E (group_key E l) (group_key E r)))"

definition chosen_group :: "js_env \<Rightarrow> snapshot list \<Rightarrow> snapshot list" where
  "chosen_group E cs = (case js_sort (group_le E) (groups E cs) of [] \<Rightarrow> [] | g # _ \<Rightarrow> g)"

definition cohort_of :: "snapshot \<Rightarrow> cohort" where
  "cohort_of s = \<lparr>co_business = sn_business s, co_strategy = sn_strategy s, co_strategy_version = sn_strategy_version s,
     co_cycle = sn_cycle s, co_format = sn_format s\<rparr>"

definition first_format :: "snapshot list \<Rightarrow> analysis_error + string" where
  "first_format es = (case es of [] \<Rightarrow> Inl NoEvidence | e # _ \<Rightarrow> Inr (sn_format e))"


section \<open>Documents\<close>

fun metric_json :: "metric_value \<Rightarrow> json" where
  "metric_json (Available n) = JObj [(''status'', JStr ''available''), (''value'', JNum n)]"
| "metric_json (Unavailable r) = JObj [(''status'', JStr ''unavailable''), (''reason'', JStr r)]"

definition metrics_json :: "snapshot \<Rightarrow> json" where
  "metrics_json s = JObj [(''post_media_view'', metric_json (sn_views s)), (''post_clicks'', metric_json (sn_clicks s))]"

definition cta_json :: "snapshot \<Rightarrow> json" where
  "cta_json s = (case sn_cta s of None \<Rightarrow> JNull | Some c \<Rightarrow> JStr c)"

definition evidence_json :: "snapshot \<Rightarrow> json" where
  "evidence_json s = JObj
     [(''snapshot_id'', JStr (sn_id s)), (''business_id'', JStr (sn_business s)),
      (''publishing_result_id'', JStr (sn_result s)), (''candidate_id'', JStr (sn_candidate s)),
      (''candidate_checksum'', JStr (sn_checksum s)), (''strategy_id'', JStr (sn_strategy s)),
      (''strategy_version'', JNum (of_int (sn_strategy_version s))), (''content_cycle_id'', JStr (sn_cycle s)),
      (''content_format'', JStr (sn_format s)), (''provider'', JStr (sn_provider s)), (''window'', JStr (sn_window s)),
      (''published_at'', JStr (sn_published s)),
      (''observed_at'', case sn_observed s of None \<Rightarrow> JNull | Some t \<Rightarrow> JStr t),
      (''metrics'', metrics_json s), (''caption'', JStr (sn_caption s)), (''cta'', cta_json s)]"

definition comparison_json :: "comparison \<Rightarrow> json" where
  "comparison_json c = JObj
     [(''metric'', JStr (cmp_metric c)), (''baseline_median'', JNum (cmp_median c)),
      (''values'', JArr (map JNum (cmp_values c))), (''best_snapshot_id'', JStr (cmp_best_id c)),
      (''best_value'', JNum (cmp_best c)), (''delta_from_median'', JNum (cmp_delta c)),
      (''delta_percent'', case cmp_percent c of None \<Rightarrow> JNull | Some p \<Rightarrow> JNum p),
      (''direction'', JStr ''higher_is_better'')]"


section \<open>The analysis\<close>

definition no_evidence :: "readiness \<Rightarrow> string option \<Rightarrow> cohort option \<Rightarrow> analysis" where
  "no_evidence r format identity =
     \<lparr>an_readiness = r, an_format = format, an_identity = identity, an_evidence = [], an_comparisons = [], an_checksum = None\<rparr>"

text \<open>The part after a complete cohort was found.\<close>

definition compare_cohort :: "js_env \<Rightarrow> string \<Rightarrow> string list \<Rightarrow> snapshot list \<Rightarrow> analysis_error + analysis" where
  "compare_cohort E business formats complete_posts =
     throws_bind (throws_map asEvidence (js_sort (\<lambda>l r. env_collate E (sn_id l) (sn_id r)) complete_posts)) (\<lambda>evidence.
     throws_bind (throws_map (comparisonFor E evidence) OPTIMIZATION_REQUIRED_METRICS) (\<lambda>comparisons.
     throws_bind (first_format evidence) (\<lambda>format.
       if \<not> list_ex (\<lambda>c. cmp_delta c > 0) comparisons
       then Inr (no_evidence (make_readiness business (Some format) (length evidence) formats (Some ''weak_signal''))
         (Some format) None)
       else Inr \<lparr>an_readiness = make_readiness business (Some format) (length evidence) formats None,
         an_format = Some format, an_identity = Some (cohort_of (hd evidence)), an_evidence = evidence,
         an_comparisons = comparisons,
         an_checksum = Some (computeOptimizationEvidenceChecksum E (map evidence_json evidence))\<rparr>)))"

definition analyzeOptimizationSnapshots ::
  "js_env \<Rightarrow> string \<Rightarrow> string option \<Rightarrow> snapshot list \<Rightarrow> analysis_error + analysis" where
  "analyzeOptimizationSnapshots E business requested ss =
     (let formats = available_formats business ss in
      if \<not> distinct (map sn_id ss)
      then Inr (no_evidence (make_readiness business requested 0 formats (Some ''snapshot_provenance_conflict'')) requested None)
      else
        (let chosen = chosen_group E (candidates business requested ss);
             selected = (case chosen of [] \<Rightarrow> requested | s # _ \<Rightarrow> Some (sn_format s));
             full = filter complete chosen in
         if length full < OPTIMIZATION_REQUIRED_SNAPSHOT_COUNT
         then Inr (no_evidence (make_readiness business selected (length full) formats
             (Some (if length chosen \<ge> OPTIMIZATION_REQUIRED_SNAPSHOT_COUNT then ''missing_required_metric''
                else if chosen = [] then ''no_eligible_posts'' else ''fewer_than_three_comparable_7d_snapshots'')))
           selected (case chosen of [] \<Rightarrow> None | s # _ \<Rightarrow> Some (cohort_of s)))
         else compare_cohort E business formats full))"

end
