(* ===== verification/Opt_Analysis.thy ===== *)
theory Opt_Analysis
  imports Opt_Analyzer Pub_Digest
begin

text \<open>
  What the analysis computes: it always returns, its evidence is one cohort of complete posts, and
  its numbers are the maximum, the median and their difference up to rounding. The collation of
  the runtime enters as a total and transitive order (\<open>collates\<close>).
\<close>


section \<open>Sorting with a comparator\<close>

definition orders :: "('a \<Rightarrow> 'a \<Rightarrow> bool) \<Rightarrow> bool" where
  "orders le \<longleftrightarrow> (\<forall>x y. le x y \<or> le y x) \<and> (\<forall>x y z. le x y \<longrightarrow> le y z \<longrightarrow> le x z)"

definition collates :: "js_env \<Rightarrow> bool" where
  "collates E \<longleftrightarrow> orders (env_collate E)"

lemma mset_insert_by [simp]: "mset (insert_by le x xs) = add_mset x (mset xs)"
  by (induction xs) auto

lemma mset_js_sort [simp]: "mset (js_sort le xs) = mset xs"
  by (induction xs) (simp_all add: js_sort_def)

lemma length_js_sort [simp]: "length (js_sort le xs) = length xs"
  using mset_js_sort [of le xs] by (metis size_mset)

lemma js_sort_Nil_iff [simp]: "js_sort le xs = [] \<longleftrightarrow> xs = []"
  using length_js_sort [of le xs] by (metis length_0_conv)

lemma distinct_js_sort [simp]: "distinct (js_sort le xs) \<longleftrightarrow> distinct xs"
  by (metis mset_js_sort mset_eq_imp_distinct_iff)

lemma sorted_insert_by:
  assumes "orders le" "sorted_wrt le xs"
  shows "sorted_wrt le (insert_by le x xs)"
  using assms(2)
proof (induction xs)
  case (Cons y ys)
  have "le y x" if "\<not> le x y" using assms(1) that by (auto simp: orders_def)
  moreover have "le x z" if "le x y" "z \<in> set ys" for z
    using assms(1) that Cons.prems unfolding orders_def by (metis list.set_intros(1) sorted_wrt.simps(2))
  ultimately show ?case using Cons by auto
qed simp

lemma sorted_js_sort: "orders le \<Longrightarrow> sorted_wrt le (js_sort le xs)"
  by (induction xs) (simp_all add: js_sort_def sorted_insert_by)

lemma js_sort_first:
  assumes "orders le" "js_sort le xs = y # ys" "x \<in> set xs"
  shows "le y x"
proof -
  have "x \<in> set (y # ys)" using assms(2,3) set_js_sort [of le xs] by simp
  moreover have "sorted_wrt le (y # ys)" using sorted_js_sort [OF assms(1), of xs] assms(2) by simp
  moreover have "le y y" using assms(1) by (auto simp: orders_def)
  ultimately show ?thesis by auto
qed

lemma better_total: "collates E \<Longrightarrow> better E m x y \<or> better E m y x"
proof -
  assume "collates E"
  then have "env_collate E (sn_id x) (sn_id y) \<or> env_collate E (sn_id y) (sn_id x)"
    unfolding collates_def orders_def by blast
  then show ?thesis unfolding better_def Let_def by linarith
qed

lemma better_trans:
  assumes "collates E" "better E m x y" "better E m y z"
  shows "better E m x z"
proof -
  let ?v = "\<lambda>s. metric_number (metric_of m s)"
  have xy: "?v y < ?v x \<or> ?v y = ?v x \<and> env_collate E (sn_id x) (sn_id y)"
    and yz: "?v z < ?v y \<or> ?v z = ?v y \<and> env_collate E (sn_id y) (sn_id z)"
    using assms(2,3) by (simp_all add: better_def Let_def)
  have "env_collate E (sn_id x) (sn_id z)" if "env_collate E (sn_id x) (sn_id y)" "env_collate E (sn_id y) (sn_id z)"
    using assms(1) that unfolding collates_def orders_def by blast
  with xy yz have "?v z < ?v x \<or> ?v z = ?v x \<and> env_collate E (sn_id x) (sn_id z)"
    by (elim disjE conjE) simp_all
  then show ?thesis by (simp add: better_def Let_def)
qed

lemma orders_better: "collates E \<Longrightarrow> orders (better E m)"
  unfolding orders_def using better_total better_trans by blast


section \<open>The steps return\<close>

definition observed :: "snapshot \<Rightarrow> bool" where
  "observed s \<longleftrightarrow> sn_observed s \<noteq> Some []"

lemma asEvidence_same:
  assumes "sn_observed s \<noteq> None" "observed s" "of_facebook b s"
  shows "asEvidence s = Inr s"
proof -
  obtain t where "sn_observed s = Some t" "t \<noteq> []" using assms(1,2) by (auto simp: observed_def)
  moreover have "s\<lparr>sn_provider := ''facebook'', sn_window := ''7d''\<rparr> = s"
    using assms(3) by (cases s) (simp add: of_facebook_def)
  ultimately show ?thesis by (simp add: asEvidence_def)
qed

lemma throws_map_id: "(\<And>x. x \<in> set xs \<Longrightarrow> f x = Inr x) \<Longrightarrow> throws_map f xs = Inr xs"
  using throws_map_Inr_map [of xs f "\<lambda>x. x"] by simp

lemma complete_available: "complete s \<Longrightarrow> isAvailable (metric_of m s)"
  by (simp add: complete_def metric_of_def)

lemma comparisonFor_complete:
  assumes "es \<noteq> []" "\<And>s. s \<in> set es \<Longrightarrow> complete s"
  obtains best rest where "js_sort (better E m) es = best # rest" "best \<in> set es"
    "comparisonFor E es m =
       (let values = map (\<lambda>s. metric_number (metric_of m s)) es; top = metric_number (metric_of m best) in
        Inr \<lparr>cmp_metric = m, cmp_median = median values, cmp_values = values, cmp_best_id = sn_id best, cmp_best = top,
          cmp_delta = double_of (top - median values),
          cmp_percent = (if median values > 0
            then Some (double_of (double_of (double_of (top - median values) / median values) * 100)) else None)\<rparr>)"
proof -
  have all: "filter (\<lambda>s. isAvailable (metric_of m s)) es = es"
    using assms(2) complete_available by (simp add: filter_id_conv)
  obtain best rest where b: "js_sort (better E m) es = best # rest"
    using assms(1) by (cases "js_sort (better E m) es") auto
  then have "best \<in> set es" using set_js_sort [of "better E m" es] by (metis list.set_intros(1))
  with b all that show thesis by (simp add: comparisonFor_def Let_def)
qed

lemma comparisonFor_returns: "es \<noteq> [] \<Longrightarrow> (\<And>s. s \<in> set es \<Longrightarrow> complete s) \<Longrightarrow> \<exists>c. comparisonFor E es m = Inr c"
  by (rule comparisonFor_complete [of es E m]) (simp_all add: Let_def)

text \<open>What is known of the chosen posts.\<close>

lemma set_first_keys [simp]: "set (first_keys xs) = set xs"
  by (induction xs) auto

lemma chosen_group_cases:
  "chosen_group E cs = [] \<and> cs = [] \<or> (\<exists>s \<in> set cs. chosen_group E cs = filter (\<lambda>t. identityKey E t = identityKey E s) cs)"
proof (cases "js_sort (group_le E) (groups E cs)")
  case Nil
  then have "groups E cs = []" by simp
  then have "first_keys (map (identityKey E) cs) = []" by (simp add: groups_def)
  then have "set (map (identityKey E) cs) = {}" using set_first_keys [of "map (identityKey E) cs"] by simp
  then have "cs = []" by simp
  then show ?thesis by (simp add: chosen_group_def groups_def js_sort_def)
next
  case (Cons g gs)
  then have "g \<in> set (groups E cs)" using set_js_sort [of "group_le E" "groups E cs"] by (metis list.set_intros(1))
  with Cons show ?thesis by (auto simp: chosen_group_def groups_def)
qed

lemma candidates_facts:
  assumes "s \<in> set (candidates b r ss)"
  shows "s \<in> set ss" "of_facebook b s" "sn_observed s \<noteq> None" "r = None \<or> r = Some [] \<or> r = Some (sn_format s)"
  using assms by (auto simp: candidates_def)

lemma chosen_facts:
  assumes "s \<in> set (chosen_group E (candidates b r ss))"
  shows "s \<in> set (candidates b r ss)"
    and "t \<in> set (chosen_group E (candidates b r ss)) \<Longrightarrow> identityKey E t = identityKey E s"
  using assms chosen_group_cases [of E "candidates b r ss"] by auto

lemma compare_cohort_returns:
  assumes "full \<noteq> []" "\<And>s. s \<in> set full \<Longrightarrow> complete s \<and> of_facebook b s \<and> sn_observed s \<noteq> None \<and> observed s"
  obtains c1 c2 where "comparisonFor E (js_sort (\<lambda>l r. env_collate E (sn_id l) (sn_id r)) full) ''post_media_view'' = Inr c1"
    "comparisonFor E (js_sort (\<lambda>l r. env_collate E (sn_id l) (sn_id r)) full) ''post_clicks'' = Inr c2"
    "compare_cohort E business formats full =
      (let es = js_sort (\<lambda>l r. env_collate E (sn_id l) (sn_id r)) full in
       if cmp_delta c1 > 0 \<or> cmp_delta c2 > 0
       then Inr \<lparr>an_readiness = make_readiness business (Some (sn_format (hd es))) (length es) formats None,
         an_format = Some (sn_format (hd es)), an_identity = Some (cohort_of (hd es)), an_evidence = es,
         an_comparisons = [c1, c2], an_checksum = Some (computeOptimizationEvidenceChecksum E (map evidence_json es))\<rparr>
       else Inr (no_evidence (make_readiness business (Some (sn_format (hd es))) (length es) formats (Some ''weak_signal''))
         (Some (sn_format (hd es))) None))"
proof -
  define es where "es = js_sort (\<lambda>l r. env_collate E (sn_id l) (sn_id r)) full"
  have es: "es \<noteq> []" "\<And>s. s \<in> set es \<Longrightarrow> complete s" "\<And>s. s \<in> set es \<Longrightarrow> asEvidence s = Inr s"
    using assms asEvidence_same by (auto simp: es_def)
  have "throws_map asEvidence es = Inr es" using es(3) by (rule throws_map_id)
  moreover obtain c1 where "comparisonFor E es ''post_media_view'' = Inr c1"
    using comparisonFor_returns [OF es(1,2)] by blast
  moreover obtain c2 where "comparisonFor E es ''post_clicks'' = Inr c2"
    using comparisonFor_returns [OF es(1,2)] by blast
  moreover obtain e es' where "es = e # es'" using es(1) by (cases es) auto
  ultimately show thesis
    by (intro that [of c1 c2])
      (simp_all add: compare_cohort_def OPTIMIZATION_REQUIRED_METRICS_def first_format_def flip: es_def)
qed

text \<open>The chosen posts that are complete are what \<open>compare_cohort\<close> needs.\<close>

definition full_cohort :: "js_env \<Rightarrow> string \<Rightarrow> string option \<Rightarrow> snapshot list \<Rightarrow> snapshot list" where
  "full_cohort E b r ss = filter complete (chosen_group E (candidates b r ss))"

lemma full_cohort_facts:
  assumes "s \<in> set (full_cohort E b r ss)"
  shows "s \<in> set ss" "complete s" "of_facebook b s" "sn_observed s \<noteq> None"
    "r = None \<or> r = Some [] \<or> r = Some (sn_format s)"
    and "t \<in> set (full_cohort E b r ss) \<Longrightarrow> identityKey E t = identityKey E s"
proof -
  have s: "s \<in> set (chosen_group E (candidates b r ss))" "complete s"
    using assms by (simp_all add: full_cohort_def)
  then show "complete s" by simp
  note c = candidates_facts [OF chosen_facts(1) [OF s(1)]]
  show "s \<in> set ss" "of_facebook b s" "sn_observed s \<noteq> None" "r = None \<or> r = Some [] \<or> r = Some (sn_format s)"
    by (fact c(1), fact c(2), fact c(3), fact c(4))
  show "identityKey E t = identityKey E s" if "t \<in> set (full_cohort E b r ss)"
    using that chosen_facts(2) [OF s(1)] by (simp add: full_cohort_def)
qed

lemma full_cohort_distinct: "distinct (map sn_id ss) \<Longrightarrow> distinct (map sn_id (full_cohort E b r ss))"
  using chosen_group_cases [of E "candidates b r ss"]
  by (auto simp: full_cohort_def candidates_def distinct_map_filter)

lemma analysis_eq:
  "analyzeOptimizationSnapshots E b r ss =
     (let formats = available_formats b ss; chosen = chosen_group E (candidates b r ss) in
      if \<not> distinct (map sn_id ss)
      then Inr (no_evidence (make_readiness b r 0 formats (Some ''snapshot_provenance_conflict'')) r None)
      else if length (full_cohort E b r ss) < OPTIMIZATION_REQUIRED_SNAPSHOT_COUNT
      then Inr (no_evidence (make_readiness b (case chosen of [] \<Rightarrow> r | s # _ \<Rightarrow> Some (sn_format s))
          (length (full_cohort E b r ss)) formats
          (Some (if length chosen \<ge> OPTIMIZATION_REQUIRED_SNAPSHOT_COUNT then ''missing_required_metric''
             else if chosen = [] then ''no_eligible_posts'' else ''fewer_than_three_comparable_7d_snapshots'')))
        (case chosen of [] \<Rightarrow> r | s # _ \<Rightarrow> Some (sn_format s))
        (case chosen of [] \<Rightarrow> None | s # _ \<Rightarrow> Some (cohort_of s)))
      else compare_cohort E b formats (full_cohort E b r ss))"
  by (simp add: analyzeOptimizationSnapshots_def full_cohort_def Let_def)

lemma not_ready [simp]:
  "n < OPTIMIZATION_REQUIRED_SNAPSHOT_COUNT \<Longrightarrow> rd_status (make_readiness b f n fs reason) \<noteq> ''ready''"
  "rd_status (make_readiness b f n fs (Some ''snapshot_provenance_conflict'')) \<noteq> ''ready''"
  "rd_status (make_readiness b f n fs (Some ''weak_signal'')) \<noteq> ''ready''"
  by (simp_all add: make_readiness_def Let_def)

lemma no_evidence_readiness [simp]: "an_readiness (no_evidence x f i) = x"
  by (simp add: no_evidence_def)

lemma full_compares:
  assumes "\<And>s. s \<in> set ss \<Longrightarrow> observed s" "\<not> length (full_cohort E b r ss) < OPTIMIZATION_REQUIRED_SNAPSHOT_COUNT"
  shows "full_cohort E b r ss \<noteq> []"
    "\<And>s. s \<in> set (full_cohort E b r ss) \<Longrightarrow> complete s \<and> of_facebook b s \<and> sn_observed s \<noteq> None \<and> observed s"
proof -
  show "full_cohort E b r ss \<noteq> []" using assms(2) by (auto simp: OPTIMIZATION_REQUIRED_SNAPSHOT_COUNT_def)
  show "complete s \<and> of_facebook b s \<and> sn_observed s \<noteq> None \<and> observed s" if "s \<in> set (full_cohort E b r ss)" for s
    using assms(1) full_cohort_facts(1-4) [OF that] by blast
qed

lemma analysis_ready:
  assumes "\<And>s. s \<in> set ss \<Longrightarrow> observed s" "analyzeOptimizationSnapshots E b r ss = Inr a"
    "rd_status (an_readiness a) = ''ready''"
  obtains es c1 c2 where "es = js_sort (\<lambda>l r. env_collate E (sn_id l) (sn_id r)) (full_cohort E b r ss)"
    "distinct (map sn_id ss)" "length es \<ge> OPTIMIZATION_REQUIRED_SNAPSHOT_COUNT"
    "comparisonFor E es ''post_media_view'' = Inr c1" "comparisonFor E es ''post_clicks'' = Inr c2"
    "cmp_delta c1 > 0 \<or> cmp_delta c2 > 0"
    "a = \<lparr>an_readiness = make_readiness b (Some (sn_format (hd es))) (length es) (available_formats b ss) None,
       an_format = Some (sn_format (hd es)), an_identity = Some (cohort_of (hd es)), an_evidence = es,
       an_comparisons = [c1, c2], an_checksum = Some (computeOptimizationEvidenceChecksum E (map evidence_json es))\<rparr>"
proof -
  let ?full = "full_cohort E b r ss"
  let ?es = "js_sort (\<lambda>l r. env_collate E (sn_id l) (sn_id r)) ?full"
  have d: "distinct (map sn_id ss)"
  proof (rule ccontr)
    assume "\<not> distinct (map sn_id ss)"
    then have "rd_status (an_readiness a) \<noteq> ''ready''" using assms(2) by (auto simp: analysis_eq Let_def)
    then show False using assms(3) by simp
  qed
  moreover have n: "\<not> length ?full < OPTIMIZATION_REQUIRED_SNAPSHOT_COUNT"
  proof
    assume "length ?full < OPTIMIZATION_REQUIRED_SNAPSHOT_COUNT"
    then have "rd_status (an_readiness a) \<noteq> ''ready''" using assms(2) d by (auto simp: analysis_eq Let_def)
    then show False using assms(3) by simp
  qed
  moreover obtain c1 c2 where c: "comparisonFor E ?es ''post_media_view'' = Inr c1"
    "comparisonFor E ?es ''post_clicks'' = Inr c2"
    and eq: "compare_cohort E b (available_formats b ss) ?full =
      (let es = ?es in
       if cmp_delta c1 > 0 \<or> cmp_delta c2 > 0
       then Inr \<lparr>an_readiness = make_readiness b (Some (sn_format (hd es))) (length es) (available_formats b ss) None,
         an_format = Some (sn_format (hd es)), an_identity = Some (cohort_of (hd es)), an_evidence = es,
         an_comparisons = [c1, c2], an_checksum = Some (computeOptimizationEvidenceChecksum E (map evidence_json es))\<rparr>
       else Inr (no_evidence (make_readiness b (Some (sn_format (hd es))) (length es) (available_formats b ss) (Some ''weak_signal''))
         (Some (sn_format (hd es))) None))"
    using compare_cohort_returns [OF full_compares [OF assms(1) n]] by metis
  have "compare_cohort E b (available_formats b ss) ?full = Inr a"
    using assms(2) d n by (simp add: analysis_eq Let_def)
  then have "cmp_delta c1 > 0 \<or> cmp_delta c2 > 0"
    using assms(3) unfolding eq Let_def by (auto simp: no_evidence_def split: if_splits)
  ultimately show thesis
    using c eq \<open>compare_cohort E b (available_formats b ss) ?full = Inr a\<close> by (intro that [of ?es c1 c2]) (simp_all add: Let_def)
qed


section \<open>The numbers\<close>

lemma median_bounds:
  assumes "xs \<noteq> []" "\<And>x. x \<in> set xs \<Longrightarrow> is_double x"
  shows "Min (set xs) \<le> median xs" "median xs \<le> Max (set xs)"
proof -
  let ?s = "sort xs" and ?m = "length xs div 2"
  have between: "Min (set xs) \<le> ?s ! i \<and> ?s ! i \<le> Max (set xs) \<and> is_double (?s ! i)" if "i < length xs" for i
  proof -
    have "?s ! i \<in> set xs" using that nth_mem [of i ?s] by simp
    then show ?thesis using assms(2) by simp
  qed
  have "Min (set xs) \<le> median xs \<and> median xs \<le> Max (set xs)"
  proof (cases "even (length xs)")
    case True
    have "0 < length xs" using assms(1) by simp
    then have "?m < length xs" by simp
    then have m: "?m - 1 < length xs" "?m < length xs" "?m - 1 \<le> ?m" by linarith+
    have "?s ! (?m - 1) \<le> ?s ! ?m" using m by (intro sorted_nth_mono) simp_all
    then have "?s ! (?m - 1) \<le> median xs" "median xs \<le> ?s ! ?m"
      using True computed_mean_bounds between [OF m(1)] between [OF m(2)] by (simp_all add: median_def Let_def)
    then show ?thesis using between [OF m(1)] between [OF m(2)] by linarith
  next
    case False
    then have "?m < length xs" by (cases xs) simp_all
    from between [OF this] False show ?thesis by (simp add: median_def Let_def)
  qed
  then show "Min (set xs) \<le> median xs" "median xs \<le> Max (set xs)" by simp_all
qed

lemma comparison_numbers:
  assumes "collates E" "es \<noteq> []" "\<And>s. s \<in> set es \<Longrightarrow> complete s" "comparisonFor E es m = Inr c"
    and "\<And>s. s \<in> set es \<Longrightarrow> is_double (metric_number (metric_of m s))"
  shows "cmp_metric c = m" "cmp_values c = map (\<lambda>s. metric_number (metric_of m s)) es"
    "cmp_best c = Max (set (cmp_values c))" "Min (set (cmp_values c)) \<le> cmp_median c" "cmp_median c \<le> cmp_best c"
    "0 \<le> cmp_delta c" "\<exists>s \<in> set es. cmp_best_id c = sn_id s \<and> metric_number (metric_of m s) = cmp_best c"
    "cmp_median c = median (cmp_values c)" "cmp_delta c = double_of (cmp_best c - cmp_median c)"
    "cmp_percent c = (if cmp_median c > 0 then Some (double_of (double_of (cmp_delta c / cmp_median c) * 100)) else None)"
proof -
  let ?v = "\<lambda>s. metric_number (metric_of m s)"
  obtain best rest where b: "js_sort (better E m) es = best # rest" "best \<in> set es"
    and eq: "comparisonFor E es m =
       (let values = map ?v es; top = ?v best in
        Inr \<lparr>cmp_metric = m, cmp_median = median values, cmp_values = values, cmp_best_id = sn_id best, cmp_best = top,
          cmp_delta = double_of (top - median values),
          cmp_percent = (if median values > 0
            then Some (double_of (double_of (double_of (top - median values) / median values) * 100)) else None)\<rparr>)"
    using comparisonFor_complete [OF assms(2,3)] by metis
  have c: "c = \<lparr>cmp_metric = m, cmp_median = median (map ?v es), cmp_values = map ?v es, cmp_best_id = sn_id best,
      cmp_best = ?v best, cmp_delta = double_of (?v best - median (map ?v es)),
      cmp_percent = (if median (map ?v es) > 0
        then Some (double_of (double_of (double_of (?v best - median (map ?v es)) / median (map ?v es)) * 100)) else None)\<rparr>"
    using assms(4) unfolding eq Let_def by simp
  have "?v s \<le> ?v best" if "s \<in> set es" for s
    using js_sort_first [OF orders_better [OF assms(1)] b(1) that] by (auto simp: better_def Let_def)
  then have top: "?v best = Max (set (map ?v es))"
    using b(2) by (intro Max_eqI [symmetric]) auto
  have med: "Min (set (map ?v es)) \<le> median (map ?v es)" "median (map ?v es) \<le> Max (set (map ?v es))"
    using median_bounds [of "map ?v es"] assms(2,5) by auto
  have "0 \<le> double_of (?v best - median (map ?v es))" using med(2) top by (intro double_of_nonneg) simp
  with c top med b(2) show "cmp_metric c = m" "cmp_values c = map (\<lambda>s. metric_number (metric_of m s)) es"
    "cmp_best c = Max (set (cmp_values c))" "Min (set (cmp_values c)) \<le> cmp_median c" "cmp_median c \<le> cmp_best c"
    "0 \<le> cmp_delta c" "\<exists>s \<in> set es. cmp_best_id c = sn_id s \<and> metric_number (metric_of m s) = cmp_best c"
    "cmp_median c = median (cmp_values c)" "cmp_delta c = double_of (cmp_best c - cmp_median c)"
    "cmp_percent c = (if cmp_median c > 0 then Some (double_of (double_of (cmp_delta c / cmp_median c) * 100)) else None)"
    by auto
qed


section \<open>One cohort\<close>

text \<open>
  The key of a cohort determines its parts when no part contains the separator (\<open>plain_parts\<close>);
  the printer of numbers is injective and never prints one (\<open>num_ok\<close>).
\<close>

definition plain_parts :: "snapshot \<Rightarrow> bool" where
  "plain_parts s \<longleftrightarrow> list_all (\<lambda>p. CHR ''|'' \<notin> set p) [sn_business s, sn_strategy s, sn_cycle s, sn_format s]"

lemma split_first:
  assumes "a @ x # b = c @ x # d" "x \<notin> set a" "x \<notin> set c"
  shows "a = c \<and> b = d"
proof -
  have "takeWhile (\<lambda>y. y \<noteq> x) (p @ x # q) = p" if "x \<notin> set p" for p q
    using that by (induction p) auto
  with assms have "a = c" by metis
  with assms(1) show ?thesis by simp
qed

lemma cohort_of_key:
  assumes "num_ok E" "plain_parts s" "plain_parts t" "identityKey E s = identityKey E t"
  shows "cohort_of s = cohort_of t"
proof -
  let ?n = "\<lambda>s. env_num E (of_int (sn_strategy_version s))"
  have printed: "CHR ''|'' \<notin> set (env_num E n)" for n
    using assms(1) unfolding num_ok_def num_chars_def by (auto dest!: spec [of _ n])
  have "sn_business s = sn_business t" and 1: "sn_strategy s @ ''|'' @ ?n s @ ''|'' @ sn_cycle s @ ''|'' @ sn_format s
      = sn_strategy t @ ''|'' @ ?n t @ ''|'' @ sn_cycle t @ ''|'' @ sn_format t"
    using assms split_first [of "sn_business s" "CHR ''|''" _ "sn_business t"]
    by (auto simp: identityKey_def plain_parts_def)
  moreover have "sn_strategy s = sn_strategy t" and 2: "?n s @ ''|'' @ sn_cycle s @ ''|'' @ sn_format s
      = ?n t @ ''|'' @ sn_cycle t @ ''|'' @ sn_format t"
    using assms 1 split_first [of "sn_strategy s" "CHR ''|''" _ "sn_strategy t"] by (auto simp: plain_parts_def)
  moreover have "?n s = ?n t" and 3: "sn_cycle s @ ''|'' @ sn_format s = sn_cycle t @ ''|'' @ sn_format t"
    using printed 2 split_first [of "?n s" "CHR ''|''" _ "?n t"] by auto
  moreover have "sn_cycle s = sn_cycle t" and "sn_format s = sn_format t"
    using assms 3 split_first [of "sn_cycle s" "CHR ''|''" _ "sn_cycle t"] by (auto simp: plain_parts_def)
  moreover have "sn_strategy_version s = sn_strategy_version t"
    using \<open>?n s = ?n t\<close> assms(1) unfolding num_ok_def by (metis of_int_eq_iff)
  ultimately show ?thesis by (simp add: cohort_of_def)
qed


section \<open>The chosen cohort has the most complete posts\<close>

lemma orders_group_le:
  assumes "collates E"
  shows "orders (group_le E)"
proof -
  let ?n = "\<lambda>g. length (filter complete g)" and ?k = "group_key E"
  have o: "env_collate E a b \<or> env_collate E b a" "env_collate E a b \<Longrightarrow> env_collate E b c \<Longrightarrow> env_collate E a c" for a b c
    using assms unfolding collates_def orders_def by blast+
  have "group_le E x y \<or> group_le E y x" for x y
    using o(1) [of "?k x" "?k y"] unfolding group_le_def Let_def by linarith
  moreover have "group_le E x z" if "group_le E x y" "group_le E y z" for x y z
    using that o(2) [of "?k x" "?k y" "?k z"] unfolding group_le_def Let_def by linarith
  ultimately show ?thesis unfolding orders_def by blast
qed

lemma chosen_is_largest:
  assumes "collates E" "s \<in> set cs"
  shows "length (filter complete (filter (\<lambda>t. identityKey E t = identityKey E s) cs)) \<le> length (filter complete (chosen_group E cs))"
proof -
  let ?g = "filter (\<lambda>t. identityKey E t = identityKey E s) cs"
  have g: "?g \<in> set (groups E cs)" using assms(2) by (auto simp: groups_def)
  then obtain h hs where h: "js_sort (group_le E) (groups E cs) = h # hs"
    by (cases "js_sort (group_le E) (groups E cs)") auto
  have "group_le E h ?g" by (rule js_sort_first [OF orders_group_le [OF assms(1)] h g])
  then show ?thesis by (simp add: chosen_group_def h group_le_def Let_def) linarith
qed


section \<open>When the analysis is ready\<close>

definition some_gain :: "js_env \<Rightarrow> snapshot list \<Rightarrow> bool" where
  "some_gain E es \<longleftrightarrow>
     list_ex (\<lambda>m. case comparisonFor E es m of Inl _ \<Rightarrow> False | Inr c \<Rightarrow> cmp_delta c > 0) OPTIMIZATION_REQUIRED_METRICS"

lemma analysis_is_ready:
  assumes "\<And>s. s \<in> set ss \<Longrightarrow> observed s" "distinct (map sn_id ss)"
    "length (full_cohort E b r ss) \<ge> OPTIMIZATION_REQUIRED_SNAPSHOT_COUNT"
    "some_gain E (js_sort (\<lambda>l r. env_collate E (sn_id l) (sn_id r)) (full_cohort E b r ss))"
  obtains a where "analyzeOptimizationSnapshots E b r ss = Inr a" "rd_status (an_readiness a) = ''ready''"
proof -
  have n: "\<not> length (full_cohort E b r ss) < OPTIMIZATION_REQUIRED_SNAPSHOT_COUNT" using assms(3) by simp
  show thesis
    by (rule compare_cohort_returns [OF full_compares [OF assms(1) n], where E = E and business = b
          and formats = "available_formats b ss"])
      (use assms n that in \<open>auto simp: analysis_eq Let_def some_gain_def OPTIMIZATION_REQUIRED_METRICS_def make_readiness_def\<close>)
qed

lemma analysis_total:
  assumes "\<And>s. s \<in> set ss \<Longrightarrow> observed s"
  shows "\<exists>a. analyzeOptimizationSnapshots E b r ss = Inr a"
proof (cases "length (full_cohort E b r ss) < OPTIMIZATION_REQUIRED_SNAPSHOT_COUNT")
  case False
  show ?thesis
    by (rule compare_cohort_returns [OF full_compares [OF assms False], where E = E and business = b
          and formats = "available_formats b ss"])
      (use False in \<open>simp_all add: analysis_eq Let_def\<close>)
qed (simp add: analysis_eq Let_def)


lemma status_known [simp]: "rd_status (make_readiness b f n fs q) \<in> set OPTIMIZATION_READINESS_STATUSES"
  by (simp add: make_readiness_def Let_def OPTIMIZATION_READINESS_STATUSES_def)

lemma no_evidence_checksum [simp]: "an_checksum (no_evidence x f i) = None"
  by (simp add: no_evidence_def)

lemma analysis_shape:
  assumes "\<And>s. s \<in> set ss \<Longrightarrow> observed s" "analyzeOptimizationSnapshots E b r ss = Inr a"
  shows "rd_status (an_readiness a) \<in> set OPTIMIZATION_READINESS_STATUSES
    \<and> (rd_status (an_readiness a) = ''ready'' \<longleftrightarrow> an_checksum a \<noteq> None)"
proof (cases "rd_status (an_readiness a) = ''ready''")
  case True
  show ?thesis
    by (rule analysis_ready [OF assms True]) (use True in \<open>simp_all add: OPTIMIZATION_READINESS_STATUSES_def\<close>)
next
  case not_ready: False
  show ?thesis
  proof (cases "distinct (map sn_id ss) \<and> \<not> length (full_cohort E b r ss) < OPTIMIZATION_REQUIRED_SNAPSHOT_COUNT")
    case True
    then have n: "\<not> length (full_cohort E b r ss) < OPTIMIZATION_REQUIRED_SNAPSHOT_COUNT" by simp
    let ?es = "js_sort (\<lambda>l r. env_collate E (sn_id l) (sn_id r)) (full_cohort E b r ss)"
    obtain c1 c2 where "comparisonFor E ?es ''post_media_view'' = Inr c1" "comparisonFor E ?es ''post_clicks'' = Inr c2"
      and eq: "compare_cohort E b (available_formats b ss) (full_cohort E b r ss) =
      (let es = js_sort (\<lambda>l r. env_collate E (sn_id l) (sn_id r)) (full_cohort E b r ss) in
       if cmp_delta c1 > 0 \<or> cmp_delta c2 > 0
       then Inr \<lparr>an_readiness = make_readiness b (Some (sn_format (hd es))) (length es) (available_formats b ss) None,
         an_format = Some (sn_format (hd es)), an_identity = Some (cohort_of (hd es)), an_evidence = es,
         an_comparisons = [c1, c2], an_checksum = Some (computeOptimizationEvidenceChecksum E (map evidence_json es))\<rparr>
       else Inr (no_evidence (make_readiness b (Some (sn_format (hd es))) (length es) (available_formats b ss) (Some ''weak_signal''))
         (Some (sn_format (hd es))) None))"
      using compare_cohort_returns [OF full_compares [OF assms(1) n]] by metis
    have "rd_status (make_readiness b f (length (full_cohort E b r ss)) fs None) = ''ready''" for f fs
      using n by (simp add: make_readiness_def Let_def)
    with True assms(2) not_ready show ?thesis
      by (auto simp: analysis_eq eq Let_def split: if_splits)
  next
    case False
    with assms(2) not_ready show ?thesis by (auto simp: analysis_eq Let_def split: if_splits)
  qed
qed

lemma key_iff_cohort:
  assumes "num_ok E" "plain_parts s" "plain_parts t"
  shows "identityKey E s = identityKey E t \<longleftrightarrow> cohort_of s = cohort_of t"
  using cohort_of_key [OF assms] by (auto simp: identityKey_def cohort_of_def)

end
