(* ===== verification/Opt_Request.thy ===== *)
theory Opt_Request
  imports Opt_Analysis Candidate_Intake
begin

text \<open>
  The generation request that the service builds from an analysis
  (apps/api/src/modules/performance/optimization/optimization.service.ts, \<open>generate\<close>) and what the
  validator of the contract makes of it: the numbers the analyzer computed are the ones that the
  validator recomputes from the documents.
\<close>


section \<open>The request\<close>

definition generation_evidence :: "snapshot \<Rightarrow> json" where
  "generation_evidence s = JObj
     [(''snapshot_id'', JStr (sn_id s)), (''candidate_id'', JStr (sn_candidate s)),
      (''content_format'', JStr (sn_format s)), (''published_at'', JStr (sn_published s)),
      (''metrics'', metrics_json s), (''untrusted_caption'', JStr (sn_caption s)), (''untrusted_cta'', cta_json s)]"

definition cohort_json :: "cohort \<Rightarrow> json" where
  "cohort_json c = JObj
     [(''business_id'', JStr (co_business c)), (''strategy_id'', JStr (co_strategy c)),
      (''strategy_version'', JNum (of_int (co_strategy_version c))), (''content_cycle_id'', JStr (co_cycle c)),
      (''format_cohort'', JStr (co_format c))]"

definition request_fields :: "cohort \<Rightarrow> string \<Rightarrow> snapshot list \<Rightarrow> comparison list \<Rightarrow> (string \<times> json) list" where
  "request_fields identity checksum evidence comparisons =
     [(''contract_version'', JStr ''optimization-v1''), (''identity'', cohort_json identity),
      (''evidence_checksum'', JStr checksum), (''evidence'', JArr (map generation_evidence evidence)),
      (''deterministic_comparison'', JArr (map comparison_json comparisons)),
      (''allowed_change_kinds'', JArr (map JStr OPTIMIZATION_CHANGE_KINDS)),
      (''prohibited_changes'', JArr (map JStr OPTIMIZATION_PROHIBITED_CHANGES))]"

definition request_fingerprint :: "js_env \<Rightarrow> cohort \<Rightarrow> string \<Rightarrow> snapshot list \<Rightarrow> comparison list \<Rightarrow> string" where
  "request_fingerprint E identity checksum evidence comparisons =
     computeOptimizationGenerationFingerprint E (JObj (request_fields identity checksum evidence comparisons))"

definition generation_request :: "js_env \<Rightarrow> cohort \<Rightarrow> string \<Rightarrow> snapshot list \<Rightarrow> comparison list \<Rightarrow> json" where
  "generation_request E identity checksum evidence comparisons =
     JObj (request_fields identity checksum evidence comparisons @
       [(''generation_fingerprint'', JStr (request_fingerprint E identity checksum evidence comparisons))])"


section \<open>What a stored snapshot is known to be\<close>

text \<open>Counts of a metric are whole numbers, as the provider reports them, up to a hundred million.\<close>

fun count_value :: "metric_value \<Rightarrow> bool" where
  "count_value (Available n) \<longleftrightarrow> n \<in> \<int> \<and> 0 \<le> n \<and> n \<le> 10 ^ 8"
| "count_value (Unavailable r) \<longleftrightarrow> r \<in> set PERFORMANCE_UNAVAILABLE_REASONS"

definition sound_snapshot :: "js_env \<Rightarrow> snapshot \<Rightarrow> bool" where
  "sound_snapshot E s \<longleftrightarrow>
     list_all (\<lambda>i. isRunUuid (JStr i)) [sn_id s, sn_business s, sn_candidate s, sn_strategy s, sn_cycle s]
     \<and> sn_strategy_version s \<ge> 1 \<and> opt_date E (JStr (sn_published s))
     \<and> count_value (sn_views s) \<and> count_value (sn_clicks s)
     \<and> isNonEmptyString (JStr (sn_caption s)) \<and> length (sn_caption s) \<le> OPTIMIZATION_MAX_UNTRUSTED_TEXT_LENGTH
     \<and> (case sn_cta s of None \<Rightarrow> True | Some c \<Rightarrow> length c \<le> OPTIMIZATION_MAX_UNTRUSTED_TEXT_LENGTH)
     \<and> observed s"

text \<open>The collation agrees with the order of code units on the identifiers at hand.\<close>

definition collates_ids :: "js_env \<Rightarrow> snapshot list \<Rightarrow> bool" where
  "collates_ids E ss \<longleftrightarrow> (\<forall>s \<in> set ss. \<forall>t \<in> set ss. env_collate E (sn_id s) (sn_id t) \<longleftrightarrow> sn_id s \<le> sn_id t)"

lemma count_int:
  assumes "count_value (Available n)"
  obtains i where "n = of_int i" "\<bar>i\<bar> \<le> 10 ^ 8"
proof -
  obtain i where i: "n = of_int i" using assms by (auto elim: Ints_cases)
  with assms have "0 \<le> rat_of_int i" "rat_of_int i \<le> 10 ^ 8" by simp_all
  then have "0 \<le> i" "i \<le> 10 ^ 8" by simp_all
  then show thesis using that [of i] i by simp
qed

lemma count_is_double: "count_value v \<Longrightarrow> is_double (metric_number v)"
proof (cases v)
  case (Available n)
  assume "count_value v"
  with Available obtain i where "n = of_int i" "\<bar>i\<bar> \<le> 10 ^ 8" using count_int by blast
  then show ?thesis using int_is_double [of i] Available by simp
qed (simp add: is_double_def)

lemma count_close:
  assumes "count_value v" "count_value w" "isAvailable v" "isAvailable w"
  shows "closeEnough (metric_number v) (metric_number w) \<longleftrightarrow> metric_number v = metric_number w"
proof
  assume c: "closeEnough (metric_number v) (metric_number w)"
  obtain m n where vw: "v = Available m" "w = Available n" using assms(3,4) by (cases v; cases w) auto
  obtain i j where ij: "m = of_int i" "\<bar>i\<bar> \<le> 10 ^ 8" "n = of_int j" "\<bar>j\<bar> \<le> 10 ^ 8"
    using assms(1,2) vw count_int by metis
  then show "metric_number v = metric_number w" using close_counts [of i j] c vw by simp
qed simp

lemma sound_metric: "sound_snapshot E s \<Longrightarrow> count_value (metric_of m s)"
  by (simp add: sound_snapshot_def metric_of_def)

lemma count_available: "count_value v \<Longrightarrow> isAvailable v \<Longrightarrow> \<exists>n. v = Available n \<and> 0 \<le> n"
  by (cases v) auto


section \<open>The documents\<close>

lemma generation_evidence_get:
  "isRecord (generation_evidence s)" "jget (generation_evidence s) ''snapshot_id'' = JStr (sn_id s)"
  "jget (generation_evidence s) ''candidate_id'' = JStr (sn_candidate s)"
  "jget (generation_evidence s) ''content_format'' = JStr (sn_format s)"
  "jget (generation_evidence s) ''published_at'' = JStr (sn_published s)"
  "jget (generation_evidence s) ''metrics'' = metrics_json s"
  "jget (generation_evidence s) ''untrusted_caption'' = JStr (sn_caption s)"
  "jget (generation_evidence s) ''untrusted_cta'' = cta_json s"
  "set (jkeys (generation_evidence s)) = set (evidence_fields True)"
  by (simp_all add: generation_evidence_def evidence_fields_def)

lemma metrics_json_get:
  "isRecord (metrics_json s)" "set (jkeys (metrics_json s)) = set OPTIMIZATION_REQUIRED_METRICS"
  "m \<in> set OPTIMIZATION_REQUIRED_METRICS \<Longrightarrow> jget (metrics_json s) m = metric_json (metric_of m s)"
  by (auto simp: metrics_json_def metric_of_def OPTIMIZATION_REQUIRED_METRICS_def)

lemma metric_json_valid:
  assumes "count_value v"
  shows "validateMetricValue (metric_json v) f = []"
  using assms by (cases v) (auto simp: validateMetricValue_def nonNegativeNumber_def js_includes_def list_ex_iff)

lemma metrics_valid: "sound_snapshot E s \<Longrightarrow> validateMetrics (metrics_json s) f = []"
  using metric_json_valid sound_metric
  by (simp add: validateMetrics_def metrics_json_get cong: map_cong)

lemma observed_metric:
  assumes "sound_snapshot E s" "complete s" "m \<in> set OPTIMIZATION_REQUIRED_METRICS"
  shows "observed_value (generation_evidence s) m = Some (metric_number (metric_of m s))"
proof -
  obtain n where "metric_of m s = Available n" "0 \<le> n"
    using count_available [OF sound_metric [OF assms(1)] complete_available [OF assms(2)]] by blast
  then show ?thesis
    by (simp add: observed_value_def Let_def generation_evidence_get metrics_json_get(3) [OF assms(3)] nonNegativeNumber_def)
qed

lemma evidence_valid:
  assumes "sound_snapshot E s" "isOptimizationFormat (sn_format s)"
  shows "validateEvidence E (generation_evidence s) f True = []"
proof -
  have "required_cta (generation_evidence s) ''untrusted_cta'' f = []"
    using assms(1) by (auto simp: required_cta_def generation_evidence_get evidence_fields_def cta_json_def
        requireOptionalBoundedString_def sound_snapshot_def split: option.splits)
  moreover have "requireBoundedString (JStr (sn_caption s)) g OPTIMIZATION_MAX_UNTRUSTED_TEXT_LENGTH = []" for g
    using assms(1) by (simp add: requireBoundedString_Nil sound_snapshot_def)
  moreover have "js_includes OPTIMIZATION_FORMATS (JStr (sn_format s))"
    using assms(2) by (simp add: isOptimizationFormat_def js_includes_def list_ex_iff)
  ultimately show ?thesis
    using assms(1) metrics_valid [OF assms(1)]
    by (simp add: validateEvidence_def generation_evidence_get sound_snapshot_def del: isRunUuid.simps)
qed

lemma evidence_values_eq:
  assumes "\<And>s. s \<in> set es \<Longrightarrow> sound_snapshot E s \<and> complete s" "m \<in> set OPTIMIZATION_REQUIRED_METRICS"
  shows "evidence_values (map generation_evidence es) m = map (\<lambda>s. metric_number (metric_of m s)) es"
  using assms(1)
proof (induction es)
  case (Cons s es)
  have "observed_value (generation_evidence s) m = Some (metric_number (metric_of m s))"
    using Cons.prems [of s] by (intro observed_metric [of E] assms(2)) simp_all
  moreover have "evidence_values (map generation_evidence es) m = map (\<lambda>s. metric_number (metric_of m s)) es"
    using Cons.prems by (intro Cons.IH) simp
  ultimately show ?case
    by (simp add: evidence_values_def map_filter_simps generation_evidence_get metrics_json_get)
qed (simp add: evidence_values_def map_filter_simps)


section \<open>The comparisons\<close>

lemma best_is_first:
  assumes "collates E" "es \<noteq> []" "\<And>s. s \<in> set es \<Longrightarrow> complete s" "comparisonFor E es m = Inr c"
    "s \<in> set es" "metric_number (metric_of m s) = cmp_best c"
  shows "env_collate E (cmp_best_id c) (sn_id s)"
proof -
  obtain best rest where b: "js_sort (better E m) es = best # rest"
    and eq: "comparisonFor E es m =
       (let values = map (\<lambda>s. metric_number (metric_of m s)) es; top = metric_number (metric_of m best) in
        Inr \<lparr>cmp_metric = m, cmp_median = median values, cmp_values = values, cmp_best_id = sn_id best, cmp_best = top,
          cmp_delta = double_of (top - median values),
          cmp_percent = (if median values > 0
            then Some (double_of (double_of (double_of (top - median values) / median values) * 100)) else None)\<rparr>)"
    using comparisonFor_complete [OF assms(2,3)] by metis
  have "cmp_best_id c = sn_id best" "cmp_best c = metric_number (metric_of m best)"
    using assms(4) by (auto simp: eq Let_def)
  then show ?thesis
    using js_sort_first [OF orders_better [OF assms(1)] b assms(5)] assms(6) by (simp add: better_def Let_def)
qed

lemma indexed_filter:
  assumes "k = length pre"
  shows "map (\<lambda>(i, e). h e) (filter (\<lambda>(i, e). P e \<and> i < length (pre @ map v ss) \<and> Q ((pre @ map v ss) ! i))
      (enumerate k (map g ss)))
    = map (\<lambda>s. h (g s)) (filter (\<lambda>s. P (g s) \<and> Q (v s)) ss)"
  using assms
proof (induction ss arbitrary: k pre)
  case (Cons s ss)
  have "pre @ map v (s # ss) = (pre @ [v s]) @ map v ss" by simp
  with Cons.IH [of "Suc k" "pre @ [v s]"] Cons.prems show ?case by (simp add: nth_append)
qed simp

lemma sort_first:
  fixes b :: "'a :: linorder"
  assumes "b \<in> set xs" "\<And>x. x \<in> set xs \<Longrightarrow> b \<le> x"
  shows "\<exists>r. sort xs = b # r"
proof (cases "sort xs")
  case Nil
  with assms(1) show ?thesis by (metis empty_iff list.set(1) set_sort)
next
  case (Cons y ys)
  then have "y \<in> set xs" by (metis list.set_intros(1) set_sort)
  moreover have "y \<le> b"
  proof -
    have "sorted (sort xs)" by simp
    moreover have "b \<in> set (sort xs)" using assms(1) by simp
    ultimately show ?thesis unfolding Cons by auto
  qed
  ultimately show ?thesis using assms(2) Cons by (metis antisym)
qed

lemma best_ids_first:
  assumes "collates E" "collates_ids E es" "es \<noteq> []" "\<And>s. s \<in> set es \<Longrightarrow> sound_snapshot E s \<and> complete s"
    "comparisonFor E es m = Inr c"
  shows "\<exists>r. best_ids (map generation_evidence es) (map (\<lambda>s. metric_number (metric_of m s)) es) (cmp_best c) = cmp_best_id c # r"
proof -
  let ?v = "\<lambda>s. metric_number (metric_of m s)"
  have full: "\<And>s. s \<in> set es \<Longrightarrow> complete s" "\<And>s. s \<in> set es \<Longrightarrow> is_double (?v s)"
    using assms(4) count_is_double sound_metric by blast+
  note n = comparison_numbers [OF assms(1,3) full(1) assms(5) full(2)]
  from n(7) obtain b where b: "b \<in> set es" "cmp_best_id c = sn_id b" "?v b = cmp_best c" by blast
  have close: "closeEnough (?v s) (cmp_best c) \<longleftrightarrow> ?v s = cmp_best c" if "s \<in> set es" for s
    using assms(4) [OF that] assms(4) [OF b(1)] b(3) count_close sound_metric complete_available by metis
  have "map (\<lambda>(i, e). jstr (jget e ''snapshot_id''))
      (filter (\<lambda>(i, e). isRecord e \<and> i < length (map ?v es) \<and> closeEnough (map ?v es ! i) (cmp_best c))
        (enumerate 0 (map generation_evidence es)))
    = map sn_id (filter (\<lambda>s. ?v s = cmp_best c) es)"
    using indexed_filter [of 0 "[]" "\<lambda>e. jstr (jget e ''snapshot_id'')" isRecord ?v es
        "\<lambda>x. closeEnough x (cmp_best c)" generation_evidence] close
    by (simp add: generation_evidence_get cong: filter_cong)
  then have ids: "best_ids (map generation_evidence es) (map ?v es) (cmp_best c)
      = sort (filter (\<lambda>i. i \<noteq> []) (map sn_id (filter (\<lambda>s. ?v s = cmp_best c) es)))"
    by (simp only: best_ids_def)
  have "sn_id b \<le> sn_id s" if "s \<in> set es" "?v s = cmp_best c" for s
    using best_is_first [OF assms(1,3) full(1) assms(5) that] assms(2) b that(1) by (simp add: collates_ids_def)
  moreover have "sn_id b \<noteq> []"
    using assms(4) [OF b(1)] isRunUuid_D [of "JStr (sn_id b)"] by (auto simp: sound_snapshot_def)
  ultimately show ?thesis unfolding ids b(2) by (intro sort_first) (use b in auto)
qed

lemma comparison_json_get:
  "isRecord (comparison_json c)" "jget (comparison_json c) ''metric'' = JStr (cmp_metric c)"
  "jget (comparison_json c) ''baseline_median'' = JNum (cmp_median c)"
  "jget (comparison_json c) ''values'' = JArr (map JNum (cmp_values c))"
  "jget (comparison_json c) ''best_snapshot_id'' = JStr (cmp_best_id c)"
  "jget (comparison_json c) ''best_value'' = JNum (cmp_best c)"
  "jget (comparison_json c) ''delta_from_median'' = JNum (cmp_delta c)"
  "jget (comparison_json c) ''delta_percent'' = (case cmp_percent c of None \<Rightarrow> JNull | Some p \<Rightarrow> JNum p)"
  "jget (comparison_json c) ''direction'' = JStr ''higher_is_better''"
  "set (jkeys (comparison_json c)) \<subseteq> set [''metric'', ''baseline_median'', ''values'', ''best_snapshot_id'', ''best_value'',
     ''delta_from_median'', ''delta_percent'', ''direction'']"
  by (simp_all add: comparison_json_def)

lemma comparison_json_valid:
  assumes "collates E" "es \<noteq> []" "\<And>s. s \<in> set es \<Longrightarrow> sound_snapshot E s \<and> complete s"
    "comparisonFor E es m = Inr c" "m \<in> set OPTIMIZATION_REQUIRED_METRICS"
  shows "validateComparison (comparison_json c) f = []"
proof -
  let ?v = "\<lambda>s. metric_number (metric_of m s)"
  have full: "\<And>s. s \<in> set es \<Longrightarrow> complete s" "\<And>s. s \<in> set es \<Longrightarrow> is_double (?v s)"
    using assms(3) count_is_double sound_metric by blast+
  note n = comparison_numbers [OF assms(1,2) full(1) assms(4) full(2)]
  have pos: "0 \<le> ?v s" if "s \<in> set es" for s
    using count_available [OF sound_metric complete_available] assms(3) [OF that] by (metis metric_number.simps(1))
  then have vals: "list_all (\<lambda>x. 0 \<le> x) (cmp_values c)" by (simp add: n(2) list_all_iff)
  have "cmp_values c \<noteq> []" using n(2) assms(2) by simp
  then have "0 \<le> Min (set (cmp_values c))" using vals by (simp add: list_all_iff)
  then have "0 \<le> cmp_median c" "0 \<le> cmp_best c" using n(4,5) by linarith+
  moreover obtain b where "b \<in> set es" "cmp_best_id c = sn_id b" using n(7) by blast
  then have "isRunUuid (JStr (cmp_best_id c))" using assms(3) by (simp add: sound_snapshot_def)
  moreover have "js_includes OPTIMIZATION_REQUIRED_METRICS (JStr (cmp_metric c))"
    using assms(5) n(1) by (simp add: js_includes_def list_ex_iff)
  moreover have "cmp_percent c = None \<or> (\<exists>p. cmp_percent c = Some p)" by auto
  ultimately show ?thesis
    using vals \<open>cmp_values c \<noteq> []\<close> comparison_json_get(10) [of c]
    by (auto simp: validateComparison_def comparison_json_get(1-9) nonNegativeNumber_def list_all_iff simp del: isRunUuid.simps)
qed

lemma comparison_json_consistent:
  assumes "collates E" "collates_ids E es" "es \<noteq> []" "\<And>s. s \<in> set es \<Longrightarrow> sound_snapshot E s \<and> complete s"
    "comparisonFor E es m = Inr c" "m \<in> set OPTIMIZATION_REQUIRED_METRICS"
  shows "comparison_consistency (map generation_evidence es) i (comparison_json c) = []"
proof -
  let ?v = "\<lambda>s. metric_number (metric_of m s)"
  have full: "\<And>s. s \<in> set es \<Longrightarrow> complete s" "\<And>s. s \<in> set es \<Longrightarrow> is_double (?v s)"
    using assms(4) count_is_double sound_metric by blast+
  note n = comparison_numbers [OF assms(1,3) full(1) assms(5) full(2)]
  have xs: "evidence_values (map generation_evidence es) (jstr (jget (comparison_json c) ''metric'')) = cmp_values c"
    using evidence_values_eq [of es E m] assms(4,6) n(1,2) by (simp add: comparison_json_get)
  obtain r where "best_ids (map generation_evidence es) (cmp_values c) (cmp_best c) = cmp_best_id c # r"
    using best_ids_first [OF assms(1-5)] n(2) by auto
  moreover have "numericMedian (cmp_values c) = cmp_median c"
    using n(8) by (simp add: numericMedian_def median_def Let_def)
  moreover have "list_all2 (\<lambda>v x. isNumber v \<and> closeEnough (jnum v) x) (map JNum (cmp_values c)) (cmp_values c)"
    by (simp add: list_all2_map1 list.rel_refl)
  ultimately show ?thesis
    unfolding comparison_consistency_def Let_def xs
    using n(3) [symmetric] n(9) [symmetric] n(10) by (simp add: comparison_json_get)
qed


section \<open>The request as a whole\<close>

lemma uuid_char: "isRunUuid (JStr s) \<Longrightarrow> CHR ''|'' \<notin> set s"
proof
  assume "isRunUuid (JStr s)" "CHR ''|'' \<in> set s"
  then obtain i where i: "i < length s" "s ! i = CHR ''|''" and all: "list_all2 (\<lambda>p c. p c) RFC_UUID_PATTERN s"
    by (auto simp: shape_matches_def in_set_conv_nth)
  define p where "p = RFC_UUID_PATTERN ! i"
  have p: "p \<in> set RFC_UUID_PATTERN" "p (CHR ''|'')"
    using i all list_all2_lengthD [OF all] list_all2_nthD2 [OF all i(1)] by (simp_all add: p_def)
  have "set RFC_UUID_PATTERN = {is_hex, \<lambda>c. c = CHR ''-'', char_between 49 53, \<lambda>c. c \<in> set ''89abAB''}"
    by (auto simp: RFC_UUID_PATTERN_def)
  with p show False by (auto simp: is_hex_def is_digit_def char_between_def)
qed

lemma sound_plain:
  assumes "sound_snapshot E s" "isOptimizationFormat (sn_format s)"
  shows "plain_parts s"
  using assms uuid_char
  by (auto simp: plain_parts_def sound_snapshot_def isOptimizationFormat_def OPTIMIZATION_FORMATS_def simp del: isRunUuid.simps)

lemma repeated_none:
  assumes "distinct (map sn_id ss)" "set (map sn_id ss) \<inter> set seen = {}"
    and "x \<in> set (zip (repeated_ids seen i (map generation_evidence ss)) (map generation_evidence ss))"
  shows "\<not> snd (fst x) \<and> (\<exists>s \<in> set ss. snd x = generation_evidence s)"
  using assms
proof (induction ss arbitrary: i seen)
  case (Cons s ss)
  have "distinct (map sn_id ss)" "set (map sn_id ss) \<inter> set (sn_id s # seen) = {}"
    using Cons.prems(1,2) by auto
  note step = Cons.IH [OF this]
  have "repeated_ids seen i (map generation_evidence (s # ss))
      = (i, sn_id s \<in> set seen) # repeated_ids (sn_id s # seen) (i + 1) (map generation_evidence ss)"
    by (simp add: generation_evidence_get)
  moreover have "sn_id s \<notin> set seen" using Cons.prems(2) by auto
  ultimately consider "x = ((i, False), generation_evidence s)"
    | "x \<in> set (zip (repeated_ids (sn_id s # seen) (i + 1) (map generation_evidence ss)) (map generation_evidence ss))"
    using Cons.prems(3) by auto
  then show ?case using step by cases auto
qed simp

lemma item_consistent:
  assumes "sound_snapshot E s" "complete s" "jget identity ''format_cohort'' = JStr (sn_format s)"
  shows "item_consistency identity i False (generation_evidence s) = []"
proof -
  have "observed_value (generation_evidence s) m \<noteq> None" if "m \<in> set OPTIMIZATION_REQUIRED_METRICS" for m
    using observed_metric [OF assms(1,2) that] by simp
  then have "concat (map (\<lambda>m. ensure (observed_value (generation_evidence s) m \<noteq> None) ()
      (evidence_field i (''.metrics.'' @ m))) OPTIMIZATION_REQUIRED_METRICS) = []"
    by (simp only: concat_eq_Nil_conv set_map ball_simps ensure_Nil_iff) blast
  then show ?thesis
    by (simp only: item_consistency_def generation_evidence_get assms(3) js_eq_lit ensure_True simp_thms if_False
        if_cancel append_Nil not_False_eq_True)
qed

lemma evidence_consistent:
  assumes "distinct (map sn_id es)" "\<And>s. s \<in> set es \<Longrightarrow> sound_snapshot E s \<and> complete s \<and> sn_format s = f"
    "jget identity ''format_cohort'' = JStr f"
  shows "evidence_consistency identity (map generation_evidence es) = []"
  unfolding evidence_consistency_def concat_eq_Nil_conv set_map
proof (intro ballI, elim imageE)
  fix x y assume x: "x = (case y of (k, e) \<Rightarrow> (case k of (i, again) \<Rightarrow> item_consistency identity i again) e)"
    "y \<in> set (zip (repeated_ids [] 0 (map generation_evidence es)) (map generation_evidence es))"
  obtain i again e where y: "y = ((i, again), e)" by (metis prod.collapse)
  with x(2) obtain s where s: "\<not> again" "s \<in> set es" "e = generation_evidence s"
    using repeated_none [OF assms(1), of "[]" y 0] by auto
  from s(2) have "item_consistency identity i False (generation_evidence s) = []"
    using assms(2,3) item_consistent [of E s identity i] by auto
  with x(1) y s(1,3) show "x = []" by simp
qed

lemma full_is_one_cohort:
  assumes "num_ok E" "\<And>s. s \<in> set ss \<Longrightarrow> sound_snapshot E s" "s \<in> set (full_cohort E b r ss)" "t \<in> set (full_cohort E b r ss)"
  shows "cohort_of t = cohort_of s"
proof -
  have "plain_parts u" if "u \<in> set (full_cohort E b r ss)" for u
    using full_cohort_facts(1,3) [OF that] assms(2) sound_plain [of E u] by (simp add: of_facebook_def)
  then show ?thesis
    using cohort_of_key [OF assms(1)] full_cohort_facts(6) [OF assms(3,4)] assms(3,4) by metis
qed

lemma generation_request_get:
  fixes E i k es cs
  defines "q \<equiv> generation_request E i k es cs"
  shows "isRecord q" "jget q ''contract_version'' = JStr ''optimization-v1''" "jget q ''identity'' = cohort_json i"
    "jget q ''evidence_checksum'' = JStr k" "jget q ''evidence'' = JArr (map generation_evidence es)"
    "jget q ''deterministic_comparison'' = JArr (map comparison_json cs)"
    "jget q ''allowed_change_kinds'' = JArr (map JStr OPTIMIZATION_CHANGE_KINDS)"
    "jget q ''prohibited_changes'' = JArr (map JStr OPTIMIZATION_PROHIBITED_CHANGES)"
    "jget q ''generation_fingerprint'' = JStr (request_fingerprint E i k es cs)"
    "set (jkeys q) \<subseteq> set [''contract_version'', ''generation_fingerprint'', ''evidence_checksum'', ''identity'', ''evidence'',
         ''deterministic_comparison'', ''allowed_change_kinds'', ''prohibited_changes'']"
  by (simp_all add: q_def generation_request_def request_fields_def)

lemma cohort_json_get:
  "isRecord (cohort_json c)" "jget (cohort_json c) ''business_id'' = JStr (co_business c)"
  "jget (cohort_json c) ''strategy_id'' = JStr (co_strategy c)"
  "jget (cohort_json c) ''strategy_version'' = JNum (of_int (co_strategy_version c))"
  "jget (cohort_json c) ''content_cycle_id'' = JStr (co_cycle c)"
  "jget (cohort_json c) ''format_cohort'' = JStr (co_format c)"
  "set (jkeys (cohort_json c)) = set [''business_id'', ''strategy_id'', ''strategy_version'', ''content_cycle_id'', ''format_cohort'']"
  by (simp_all add: cohort_json_def)

lemma cohort_json_valid:
  assumes "sound_snapshot E s"
  shows "validateIdentity (cohort_json (cohort_of s)) f = []"
  using assms by (simp add: validateIdentity_def cohort_json_get cohort_of_def sound_snapshot_def isInteger.simps
      del: isRunUuid.simps)

lemma comparisonFor_metric: "comparisonFor E es m = Inr c \<Longrightarrow> cmp_metric c = m"
  by (auto simp: comparisonFor_def Let_def split: list.splits)

lemma generation_request_valid:
  assumes "sha_ok E" "collates E" "collates_ids E es" "length es \<ge> OPTIMIZATION_REQUIRED_SNAPSHOT_COUNT"
    "distinct (map sn_id es)" "\<And>s. s \<in> set es \<Longrightarrow> sound_snapshot E s \<and> complete s \<and> cohort_of s = i"
    "isOptimizationFormat (co_format i)"
    "comparisonFor E es ''post_media_view'' = Inr c1" "comparisonFor E es ''post_clicks'' = Inr c2" "SHA256_PATTERN k"
  shows "valid (validateOptimizationGenerationRequestV1 E (generation_request E i k es [c1, c2]))"
proof -
  let ?q = "generation_request E i k es [c1, c2]"
  have es: "es \<noteq> []" "\<And>s. s \<in> set es \<Longrightarrow> sound_snapshot E s \<and> complete s"
    using assms(4,6) by (auto simp: OPTIMIZATION_REQUIRED_SNAPSHOT_COUNT_def)
  then obtain s where s: "s \<in> set es" "sound_snapshot E s" "cohort_of s = i" using assms(6) by (cases es) auto
  have fmt: "sn_format t = co_format i" if "t \<in> set es" for t using assms(6) [OF that] by (auto simp: cohort_of_def)
  have m: "''post_media_view'' \<in> set OPTIMIZATION_REQUIRED_METRICS" "''post_clicks'' \<in> set OPTIMIZATION_REQUIRED_METRICS"
    by (simp_all add: OPTIMIZATION_REQUIRED_METRICS_def)
  have names: "cmp_metric c1 = ''post_media_view''" "cmp_metric c2 = ''post_clicks''"
    using comparisonFor_metric assms(8,9) by blast+
  have identity: "validateIdentity (cohort_json i) ''request.identity'' = []" using cohort_json_valid [OF s(2)] s(3) by simp
  have evidence: "requireAll (\<lambda>i e. validateEvidence E e (index_field ''request.evidence'' i '''') True)
      (JArr (map generation_evidence es)) = []"
    using es(2) fmt assms(7) evidence_valid by (simp add: requireAll_Nil)
  have comparisons: "requireAll (\<lambda>i c. validateComparison c (index_field ''request.deterministic_comparison'' i ''''))
      (JArr (map comparison_json [c1, c2])) = []"
    using comparison_json_valid [OF assms(2) es assms(8) m(1)] comparison_json_valid [OF assms(2) es assms(9) m(2)]
    by (simp add: requireAll_Nil less_Suc_eq)
  have kinds: "requireAll (\<lambda>i k. requireEnum k OPTIMIZATION_CHANGE_KINDS (index_field ''request.allowed_change_kinds'' i ''''))
      (JArr (map JStr OPTIMIZATION_CHANGE_KINDS)) = []"
    by (simp add: requireAll_Nil OPTIMIZATION_CHANGE_KINDS_def less_Suc_eq)
  have "evidence_consistency (cohort_json i) (map generation_evidence es) = []"
    by (rule evidence_consistent [OF assms(5), where f = "co_format i" and E = E]) (use es(2) fmt in \<open>simp_all add: cohort_json_get\<close>)
  moreover have "requireAll (comparison_consistency (map generation_evidence es)) (JArr (map comparison_json [c1, c2])) = []"
    using comparison_json_consistent [OF assms(2,3) es assms(8) m(1)]
      comparison_json_consistent [OF assms(2,3) es assms(9) m(2)]
    by (simp add: requireAll_Nil less_Suc_eq)
  ultimately have consistency: "validateGenerationConsistency ?q = []"
    by (simp add: validateGenerationConsistency_def generation_request_get cohort_json_get(1) comparison_json_get names
        OPTIMIZATION_REQUIRED_METRICS_def Let_def)
  have shas: "isSha256 (JStr k)" "isSha256 (JStr (request_fingerprint E i k es [c1, c2]))"
    using assms(1,10) by (simp_all add: sha_ok_def request_fingerprint_def computeOptimizationGenerationFingerprint_def)
  show ?thesis
    unfolding validateOptimizationGenerationRequestV1_def check_record_valid
    using identity evidence comparisons kinds consistency shas assms(4,7) generation_request_get(10) [of E i k es "[c1, c2]"]
      cohort_json_get(7) [of i]
    by (simp add: generation_request_get(1-9) cohort_json_get(1-6) same_strings_def Let_def isOptimizationFormat_def
        js_includes_def list_ex_iff OPTIMIZATION_CHANGE_KINDS_def del: isSha256.simps)
qed

end
