(* ===== verification/Opt_Claims.thy ===== *)
theory Opt_Claims
  imports Opt_Request Sample_Ids
begin

text \<open>
  What the optimization analysis promises: it answers every stored collection of snapshots, a
  ready answer rests on one cohort of at least three complete posts, its numbers are the maximum
  and the median of the values, and the request built from it satisfies the contract.
\<close>


section \<open>Samples\<close>

definition opt_snapshot :: "char \<Rightarrow> rat \<Rightarrow> rat \<Rightarrow> snapshot" where
  "opt_snapshot c views clicks =
     \<lparr>sn_id = orch_uuid c, sn_business = orch_uuid (CHR ''b''), sn_result = ''r'', sn_candidate = orch_uuid c,
      sn_checksum = ''k'', sn_strategy = orch_uuid (CHR ''5''), sn_strategy_version = 1,
      sn_cycle = orch_uuid (CHR ''6''), sn_format = ''text_post'', sn_provider = ''facebook'', sn_window = ''7d'',
      sn_published = ''2026-08-01T10:00:00.000Z'', sn_observed = Some ''2026-08-08T10:00:00.000Z'',
      sn_views = Available views, sn_clicks = Available clicks, sn_caption = ''x'', sn_cta = None\<rparr>"

definition opt_posts :: "snapshot list" where
  "opt_posts = [opt_snapshot (CHR ''1'') 10 1, opt_snapshot (CHR ''2'') 20 2, opt_snapshot (CHR ''3'') 40 5]"

abbreviation opt_business :: string where
  "opt_business \<equiv> orch_uuid (CHR ''b'')"

lemma opt_posts_simps:
  "\<And>s. s \<in> set opt_posts \<Longrightarrow> observed s" "\<And>s. s \<in> set opt_posts \<Longrightarrow> plain_parts s"
  "\<And>s. s \<in> set opt_posts \<Longrightarrow> isInteger (JNum (metric_number (sn_views s))) \<and> isInteger (JNum (metric_number (sn_clicks s)))"
  by (auto simp: opt_posts_def opt_snapshot_def observed_def plain_parts_def orch_uuid_def isInteger.simps js_isInteger_def)

lemma opt_posts_cohort: "length (full_cohort sample_env opt_business None opt_posts) = 3 \<and> distinct (map sn_id opt_posts)"
  by code_simp

lemma opt_posts_gain:
  "some_gain sample_env (js_sort (\<lambda>l r. env_collate sample_env (sn_id l) (sn_id r))
     (full_cohort sample_env opt_business None opt_posts))"
  by code_simp

lemma opt_posts_ready:
  obtains a where "analyzeOptimizationSnapshots sample_env opt_business None opt_posts = Inr a"
    "rd_status (an_readiness a) = ''ready''"
  using analysis_is_ready [OF opt_posts_simps(1)] opt_posts_cohort opt_posts_gain
  by (metis OPTIMIZATION_REQUIRED_SNAPSHOT_COUNT_def order_refl)

lemma sample_collates: "collates sample_env" "collates_ids sample_env ss"
  by (auto simp: collates_def orders_def collates_ids_def sample_env_def)


section \<open>The analysis\<close>

text \<open>
  The analysis answers every collection of stored snapshots, whatever the metrics, formats and
  identities in it: no branch of the analyzer throws, the status is one of the contract, and a
  digest of the evidence is given exactly with the status ready.
\<close>

theorem analysis_always_answers:
  assumes "\<And>s. s \<in> set ss \<Longrightarrow> observed s"
  shows "\<exists>a. analyzeOptimizationSnapshots E b r ss = Inr a
    \<and> rd_status (an_readiness a) \<in> set OPTIMIZATION_READINESS_STATUSES
    \<and> (rd_status (an_readiness a) = ''ready'' \<longleftrightarrow> an_checksum a \<noteq> None)"
  using analysis_total [OF assms, of ss E b r] analysis_shape [OF assms, of ss E b r] by blast

theorem analysis_always_answers_witness:
  "\<exists>a. analyzeOptimizationSnapshots sample_env opt_business None opt_posts = Inr a"
  using analysis_always_answers [OF opt_posts_simps(1), where E = sample_env and b = opt_business and r = None] by blast

text \<open>
  C15. A ready analysis rests on one cohort: at least three complete, distinct posts of the business
  and of the requested format, all of the same strategy version and cycle; no other cohort of the
  candidates has more complete posts, and some metric has a post above the median.
\<close>

theorem ready_is_one_cohort:
  assumes "num_ok E" "collates E" "\<And>s. s \<in> set ss \<Longrightarrow> observed s" "\<And>s. s \<in> set ss \<Longrightarrow> plain_parts s"
    and "analyzeOptimizationSnapshots E b r ss = Inr a" "rd_status (an_readiness a) = ''ready''"
  shows "\<exists>i. an_identity a = Some i \<and> co_business i = b \<and> (r = None \<or> r = Some [] \<or> r = Some (co_format i))
    \<and> set (an_evidence a) \<subseteq> set ss \<and> distinct (map sn_id (an_evidence a)) \<and> 3 \<le> length (an_evidence a)
    \<and> (\<forall>s \<in> set (an_evidence a). complete s \<and> cohort_of s = i)
    \<and> (\<forall>s \<in> set (candidates b r ss).
        length (filter complete (filter (\<lambda>t. cohort_of t = cohort_of s) (candidates b r ss))) \<le> length (an_evidence a))
    \<and> (\<exists>c \<in> set (an_comparisons a). cmp_delta c > 0)"
proof (rule analysis_ready [OF assms(3,5,6)])
  fix es c1 c2
  assume es: "es = js_sort (\<lambda>l r. env_collate E (sn_id l) (sn_id r)) (full_cohort E b r ss)"
    and d: "distinct (map sn_id ss)" and n: "OPTIMIZATION_REQUIRED_SNAPSHOT_COUNT \<le> length es"
    and gain: "cmp_delta c1 > 0 \<or> cmp_delta c2 > 0"
    and a: "a = \<lparr>an_readiness = make_readiness b (Some (sn_format (hd es))) (length es) (available_formats b ss) None,
       an_format = Some (sn_format (hd es)), an_identity = Some (cohort_of (hd es)), an_evidence = es,
       an_comparisons = [c1, c2], an_checksum = Some (computeOptimizationEvidenceChecksum E (map evidence_json es))\<rparr>"
  have full: "set es = set (full_cohort E b r ss)" by (simp add: es)
  have "es \<noteq> []" using n by (auto simp: OPTIMIZATION_REQUIRED_SNAPSHOT_COUNT_def)
  then have h: "hd es \<in> set (full_cohort E b r ss)" using full hd_in_set by blast
  have plain: "plain_parts s" if "s \<in> set (candidates b r ss)" for s
    using assms(4) candidates_facts(1) [OF that] by blast
  have "cohort_of s = cohort_of (hd es)" if "s \<in> set es" for s
  proof -
    have s: "s \<in> set (full_cohort E b r ss)" using that full by simp
    show ?thesis
      using key_iff_cohort [OF assms(1) assms(4) assms(4)] full_cohort_facts(1,6) [OF h] full_cohort_facts(1) [OF s] s by blast
  qed
  moreover have "length (filter complete (filter (\<lambda>t. cohort_of t = cohort_of s) (candidates b r ss))) \<le> length es"
    if s: "s \<in> set (candidates b r ss)" for s
  proof -
    have "filter (\<lambda>t. cohort_of t = cohort_of s) (candidates b r ss)
        = filter (\<lambda>t. identityKey E t = identityKey E s) (candidates b r ss)"
      using key_iff_cohort [OF assms(1) plain plain [OF s]] by (auto intro: filter_cong)
    then show ?thesis using chosen_is_largest [OF assms(2) s] by (simp add: es full_cohort_def)
  qed
  moreover have "co_business (cohort_of (hd es)) = b" "r = None \<or> r = Some [] \<or> r = Some (co_format (cohort_of (hd es)))"
    using full_cohort_facts(3,5) [OF h] by (simp_all add: cohort_of_def of_facebook_def)
  moreover have "set es \<subseteq> set ss" "\<And>s. s \<in> set es \<Longrightarrow> complete s"
    using full_cohort_facts(1,2) full by blast+
  moreover have "distinct (map sn_id es)"
    using full_cohort_distinct [OF d] distinct_map distinct_js_sort full es by metis
  ultimately show ?thesis
    using gain n by (simp add: a OPTIMIZATION_REQUIRED_SNAPSHOT_COUNT_def)
qed

theorem ready_is_one_cohort_witness:
  "\<exists>a i. analyzeOptimizationSnapshots sample_env opt_business None opt_posts = Inr a
     \<and> an_identity a = Some i \<and> co_business i = opt_business \<and> 3 \<le> length (an_evidence a)"
proof (rule opt_posts_ready)
  fix a assume a: "analyzeOptimizationSnapshots sample_env opt_business None opt_posts = Inr a"
    "rd_status (an_readiness a) = ''ready''"
  from ready_is_one_cohort [OF sample_env_num_ok sample_collates(1) opt_posts_simps(1,2) a] a(1)
  show ?thesis by blast
qed

text \<open>
  C16. The numbers of a ready analysis: the values of a metric are those of the evidence in its
  order, the best is their maximum and belongs to a post of the evidence, the median lies between
  the least and the best, and the difference is never negative, in double arithmetic with its
  rounding.
\<close>

theorem comparison_is_bounded:
  assumes "collates E" "\<And>s. s \<in> set ss \<Longrightarrow> observed s"
    and "\<And>s m. s \<in> set ss \<Longrightarrow> is_double (metric_number (metric_of m s))"
    and "analyzeOptimizationSnapshots E b r ss = Inr a" "rd_status (an_readiness a) = ''ready''" "c \<in> set (an_comparisons a)"
  shows "cmp_values c = map (\<lambda>s. metric_number (metric_of (cmp_metric c) s)) (an_evidence a)
    \<and> cmp_best c = Max (set (cmp_values c)) \<and> Min (set (cmp_values c)) \<le> cmp_median c \<and> cmp_median c \<le> cmp_best c
    \<and> 0 \<le> cmp_delta c
    \<and> (\<exists>s \<in> set (an_evidence a). cmp_best_id c = sn_id s \<and> metric_number (metric_of (cmp_metric c) s) = cmp_best c)"
proof (rule analysis_ready [OF assms(2,4,5)])
  fix es c1 c2
  assume es: "es = js_sort (\<lambda>l r. env_collate E (sn_id l) (sn_id r)) (full_cohort E b r ss)"
    and n: "OPTIMIZATION_REQUIRED_SNAPSHOT_COUNT \<le> length es"
    and cs: "comparisonFor E es ''post_media_view'' = Inr c1" "comparisonFor E es ''post_clicks'' = Inr c2"
    and a: "a = \<lparr>an_readiness = make_readiness b (Some (sn_format (hd es))) (length es) (available_formats b ss) None,
       an_format = Some (sn_format (hd es)), an_identity = Some (cohort_of (hd es)), an_evidence = es,
       an_comparisons = [c1, c2], an_checksum = Some (computeOptimizationEvidenceChecksum E (map evidence_json es))\<rparr>"
  have "es \<noteq> []" using n by (auto simp: OPTIMIZATION_REQUIRED_SNAPSHOT_COUNT_def)
  moreover have "complete s" "is_double (metric_number (metric_of m s))" if "s \<in> set es" for s m
    using full_cohort_facts(1,2) [of s E b r ss] assms(3) that es by simp_all
  moreover obtain m where "comparisonFor E es m = Inr c" using cs assms(6) by (auto simp: a)
  ultimately show ?thesis
    using comparison_numbers [OF assms(1), of es m c] by (simp add: a)
qed

theorem comparison_is_bounded_witness:
  "\<exists>a. analyzeOptimizationSnapshots sample_env opt_business None opt_posts = Inr a
     \<and> (\<forall>c \<in> set (an_comparisons a). cmp_median c \<le> cmp_best c)"
proof (rule opt_posts_ready)
  fix a assume a: "analyzeOptimizationSnapshots sample_env opt_business None opt_posts = Inr a"
    "rd_status (an_readiness a) = ''ready''"
  have "is_double (metric_number (metric_of m s))" if "s \<in> set opt_posts" for s m
    using that int_is_double [of 10] int_is_double [of 1] int_is_double [of 20] int_is_double [of 2]
      int_is_double [of 40] int_is_double [of 5]
    by (auto simp: opt_posts_def opt_snapshot_def metric_of_def)
  from comparison_is_bounded [OF sample_collates(1) opt_posts_simps(1) this a] a(1)
  show ?thesis by blast
qed

text \<open>
  C14. What the service sends, the contract accepts: the request built from a ready analysis of
  stored snapshots passes the validator, which recomputes every number, ranking and identity of the
  request from its documents.
\<close>

theorem request_meets_contract:
  assumes "num_ok E" "sha_ok E" "collates E" "collates_ids E ss" "\<And>s. s \<in> set ss \<Longrightarrow> sound_snapshot E s"
    and "analyzeOptimizationSnapshots E b r ss = Inr a" "rd_status (an_readiness a) = ''ready''"
  shows "\<exists>i k. an_identity a = Some i \<and> an_checksum a = Some k
    \<and> valid (validateOptimizationGenerationRequestV1 E (generation_request E i k (an_evidence a) (an_comparisons a)))"
proof -
  have o: "\<And>s. s \<in> set ss \<Longrightarrow> observed s" using assms(5) by (simp add: sound_snapshot_def)
  show ?thesis
  proof (rule analysis_ready [OF o assms(6,7)])
    fix es c1 c2
    assume es: "es = js_sort (\<lambda>l r. env_collate E (sn_id l) (sn_id r)) (full_cohort E b r ss)"
      and d: "distinct (map sn_id ss)" and n: "OPTIMIZATION_REQUIRED_SNAPSHOT_COUNT \<le> length es"
      and cs: "comparisonFor E es ''post_media_view'' = Inr c1" "comparisonFor E es ''post_clicks'' = Inr c2"
      and a: "a = \<lparr>an_readiness = make_readiness b (Some (sn_format (hd es))) (length es) (available_formats b ss) None,
         an_format = Some (sn_format (hd es)), an_identity = Some (cohort_of (hd es)), an_evidence = es,
         an_comparisons = [c1, c2], an_checksum = Some (computeOptimizationEvidenceChecksum E (map evidence_json es))\<rparr>"
    have full: "set es = set (full_cohort E b r ss)" by (simp add: es)
    have "es \<noteq> []" using n by (auto simp: OPTIMIZATION_REQUIRED_SNAPSHOT_COUNT_def)
    then have h: "hd es \<in> set (full_cohort E b r ss)" using full hd_in_set by blast
    have "collates_ids E es" using assms(4) full_cohort_facts(1) [of _ E b r ss] by (auto simp: collates_ids_def full)
    moreover have "distinct (map sn_id es)"
      using full_cohort_distinct [OF d] distinct_map distinct_js_sort full es by metis
    moreover have "sound_snapshot E s \<and> complete s \<and> cohort_of s = cohort_of (hd es)" if "s \<in> set es" for s
      using that full full_is_one_cohort [OF assms(1,5) h] full_cohort_facts(1,2) assms(5) by blast
    moreover have "isOptimizationFormat (co_format (cohort_of (hd es)))"
      using full_cohort_facts(3) [OF h] by (simp add: of_facebook_def cohort_of_def)
    moreover have "SHA256_PATTERN (computeOptimizationEvidenceChecksum E (map evidence_json es))"
      using assms(2) by (simp add: sha_ok_def computeOptimizationEvidenceChecksum_def)
    ultimately show ?thesis
      using generation_request_valid [OF assms(2,3) _ n _ _ _ cs] by (simp add: a)
  qed
qed

lemma opt_posts_sound: "s \<in> set opt_posts \<Longrightarrow> sound_snapshot sample_env s"
proof -
  assume "s \<in> set opt_posts"
  moreover have "opt_date sample_env (JStr ''2026-08-01T10:00:00.000Z'')" by code_simp
  ultimately show ?thesis
    by (auto simp: opt_posts_def opt_snapshot_def sound_snapshot_def observed_def OPTIMIZATION_MAX_UNTRUSTED_TEXT_LENGTH_def
        is_hex_def is_digit_def char_between_def js_trim_def js_space_def)
qed

theorem request_meets_contract_witness:
  "\<exists>a i k. analyzeOptimizationSnapshots sample_env opt_business None opt_posts = Inr a \<and> an_identity a = Some i
     \<and> valid (validateOptimizationGenerationRequestV1 sample_env
         (generation_request sample_env i k (an_evidence a) (an_comparisons a)))"
proof (rule opt_posts_ready)
  fix a assume a: "analyzeOptimizationSnapshots sample_env opt_business None opt_posts = Inr a"
    "rd_status (an_readiness a) = ''ready''"
  have "sha_ok sample_env" by (simp add: sha_ok_def)
  from request_meets_contract [OF sample_env_num_ok this sample_collates opt_posts_sound a] a(1)
  show ?thesis by blast
qed

end
