(* ===== verification/Opt_Store.thy ===== *)
theory Opt_Store
  imports Db_Action Opt_Contract Pub_Canonical
begin

text \<open>
  Proposals, owner decisions and approved instructions in the database
  (apps/api/src/modules/performance/optimization/optimization.repository.ts and the migrations
  20260818150000_add_optimization_proposals and 20260818170000_add_optimization_decisions).

  A row carries the columns the code reads or writes. The six identity columns that a decision and
  an instruction copy from their proposal are one record, \<open>scope\<close>. A JSONB column gives back what
  was stored as the parameter \<open>jb\<close> says: Postgres keeps the values and may change the order of the
  members of an object.
\<close>


section \<open>Tables\<close>

record scope =
  sc_business :: string
  sc_strategy :: string
  sc_version :: int
  sc_cycle :: string
  sc_format :: string
  sc_checksum :: string

record proposal_row =
  op_id :: string
  op_contract :: string
  op_scope :: scope
  op_basis :: json
  op_comparison :: json
  op_kind :: string
  op_summary :: string
  op_rationale :: string
  op_uncertainty :: string
  op_instruction :: string
  op_model :: string
  op_prompt :: string
  op_fingerprint :: string
  op_status :: string
  op_created :: int

record decision_row =
  de_id :: string
  de_contract :: string
  de_proposal :: string
  de_scope :: scope
  de_action :: string
  de_owner :: string
  de_key :: string
  de_fingerprint :: string
  de_note :: "string option"
  de_decided :: int

record instruction_row =
  in_id :: string
  in_contract :: string
  in_proposal :: string
  in_decision :: string
  in_scope :: scope
  in_kind :: string
  in_text :: string
  in_status :: string
  in_pack :: "string option"
  in_plan :: "string option"
  in_approved :: int
  in_consumed :: "int option"
  in_superseded :: "int option"
  in_created :: int
  in_updated :: int

record opt_db =
  proposals :: "proposal_row list"
  decisions :: "decision_row list"
  instructions :: "instruction_row list"

datatype opt_code =
  OPTIMIZATION_SNAPSHOT_CONFLICT | OPTIMIZATION_PROPOSAL_CONFLICT | OPTIMIZATION_DECISION_CONFLICT
  | OPTIMIZATION_EVIDENCE_CONFLICT | OPTIMIZATION_INSTRUCTION_CONFLICT | OPTIMIZATION_INSTRUCTION_NOT_ELIGIBLE

datatype opt_failure = Repository opt_code | Invalid_document | Unique_violation | Refused_by_check

text \<open>The unique indexes; a null does not clash.\<close>

definition proposal_clash :: "proposal_row \<Rightarrow> proposal_row \<Rightarrow> bool" where
  "proposal_clash p q \<longleftrightarrow> op_id p = op_id q
     \<or> sc_business (op_scope p) = sc_business (op_scope q) \<and> op_fingerprint p = op_fingerprint q"

definition decision_clash :: "decision_row \<Rightarrow> decision_row \<Rightarrow> bool" where
  "decision_clash d e \<longleftrightarrow> de_id d = de_id e \<or> de_proposal d = de_proposal e
     \<or> de_owner d = de_owner e \<and> (de_key d = de_key e \<or> de_fingerprint d = de_fingerprint e)"

definition instruction_clash :: "instruction_row \<Rightarrow> instruction_row \<Rightarrow> bool" where
  "instruction_clash i j \<longleftrightarrow> in_id i = in_id j \<or> in_proposal i = in_proposal j \<or> in_decision i = in_decision j
     \<or> in_pack i \<noteq> None \<and> in_pack i = in_pack j \<or> in_plan i \<noteq> None \<and> in_plan i = in_plan j"

text \<open>The check constraints of a proposal that the contract does not already imply.\<close>

definition proposal_checks :: "proposal_row \<Rightarrow> bool" where
  "proposal_checks p \<longleftrightarrow> isArray (op_basis p) \<and> length (jelems (op_basis p)) \<ge> 3
     \<and> isArray (op_comparison p) \<and> length (jelems (op_comparison p)) = 2"

definition decision_checks :: "decision_row \<Rightarrow> bool" where
  "decision_checks d \<longleftrightarrow> sc_version (de_scope d) > 0 \<and> sc_format (de_scope d) \<in> set OPTIMIZATION_FORMATS
     \<and> de_action d \<in> set OPTIMIZATION_DECISION_ACTIONS \<and> SHA256_PATTERN (sc_checksum (de_scope d))
     \<and> SHA256_PATTERN (de_fingerprint d) \<and> 1 \<le> length (de_key d) \<and> length (de_key d) \<le> 256
     \<and> (case de_note d of None \<Rightarrow> True | Some n \<Rightarrow> length n \<le> 1000)"

definition instruction_checks :: "instruction_row \<Rightarrow> bool" where
  "instruction_checks i \<longleftrightarrow> 1 \<le> length (in_text i) \<and> length (in_text i) \<le> 2000
     \<and> in_status i \<in> set OPTIMIZATION_INSTRUCTION_STATUSES
     \<and> (in_status i = ''PENDING_CONSUMPTION''
        \<longrightarrow> in_pack i = None \<and> in_plan i = None \<and> in_consumed i = None \<and> in_superseded i = None)
     \<and> (in_status i = ''CONSUMED''
        \<longrightarrow> in_pack i \<noteq> None \<and> in_plan i \<noteq> None \<and> in_consumed i \<noteq> None \<and> in_superseded i = None)
     \<and> (in_status i \<in> {''SUPERSEDED'', ''EXPIRED''}
        \<longrightarrow> in_superseded i \<noteq> None \<and> in_pack i = None \<and> in_plan i = None \<and> in_consumed i = None)"

definition put_proposals :: "proposal_row list \<Rightarrow> opt_db \<Rightarrow> opt_db" where
  "put_proposals t s = s\<lparr>proposals := t\<rparr>"

definition put_decisions :: "decision_row list \<Rightarrow> opt_db \<Rightarrow> opt_db" where
  "put_decisions t s = s\<lparr>decisions := t\<rparr>"

definition put_instructions :: "instruction_row list \<Rightarrow> opt_db \<Rightarrow> opt_db" where
  "put_instructions t s = s\<lparr>instructions := t\<rparr>"

type_synonym 'a opt = "(opt_db, opt_failure, 'a) action"


section \<open>Documents\<close>

definition opt_holds :: "('a \<Rightarrow> bool) \<Rightarrow> 'a option \<Rightarrow> bool" where
  "opt_holds P v = (case v of None \<Rightarrow> False | Some a \<Rightarrow> P a)"

lemma opt_holds_simps [simp]: "\<not> opt_holds P None" "opt_holds P (Some a) \<longleftrightarrow> P a"
  by (simp_all add: opt_holds_def)

lemma opt_holds_iff: "opt_holds P v \<longleftrightarrow> (\<exists>a. v = Some a \<and> P a)"
  by (cases v) simp_all

definition opt_null :: "('a \<Rightarrow> json) \<Rightarrow> 'a option \<Rightarrow> json" where
  "opt_null f v = (case v of None \<Rightarrow> JNull | Some a \<Rightarrow> f a)"

definition iso :: "int \<Rightarrow> json" where
  "iso t = JStr (toISOString t)"

definition proposal_json :: "proposal_row \<Rightarrow> json" where
  "proposal_json p = (let c = op_scope p in JObj
     [(''contract_version'', JStr (op_contract p)), (''proposal_id'', JStr (op_id p)),
      (''business_id'', JStr (sc_business c)), (''strategy_id'', JStr (sc_strategy c)),
      (''strategy_version'', JNum (of_int (sc_version c))), (''content_cycle_id'', JStr (sc_cycle c)),
      (''format_cohort'', JStr (sc_format c)), (''basis_snapshot_ids'', op_basis p),
      (''evidence_checksum'', JStr (sc_checksum c)), (''deterministic_comparison'', op_comparison p),
      (''change_kind'', JStr (op_kind p)), (''summary'', JStr (op_summary p)), (''rationale'', JStr (op_rationale p)),
      (''uncertainty'', JStr (op_uncertainty p)), (''instruction'', JStr (op_instruction p)),
      (''model_version'', JStr (op_model p)), (''prompt_version'', JStr (op_prompt p)),
      (''generation_fingerprint'', JStr (op_fingerprint p)), (''status'', JStr (op_status p)),
      (''created_at'', iso (op_created p))])"

definition decision_json :: "decision_row \<Rightarrow> json" where
  "decision_json d = (let c = de_scope d in JObj
     [(''contract_version'', JStr (de_contract d)), (''decision_id'', JStr (de_id d)),
      (''proposal_id'', JStr (de_proposal d)), (''business_id'', JStr (sc_business c)),
      (''strategy_id'', JStr (sc_strategy c)), (''strategy_version'', JNum (of_int (sc_version c))),
      (''content_cycle_id'', JStr (sc_cycle c)), (''format_cohort'', JStr (sc_format c)),
      (''evidence_checksum'', JStr (sc_checksum c)), (''action'', JStr (de_action d)),
      (''owner_user_id'', JStr (de_owner d)), (''request_fingerprint'', JStr (de_fingerprint d)),
      (''note'', opt_null JStr (de_note d)), (''decided_at'', iso (de_decided d))])"

definition instruction_json :: "instruction_row \<Rightarrow> json" where
  "instruction_json i = (let c = in_scope i in JObj
     [(''contract_version'', JStr (in_contract i)), (''instruction_id'', JStr (in_id i)),
      (''proposal_id'', JStr (in_proposal i)), (''approved_decision_id'', JStr (in_decision i)),
      (''business_id'', JStr (sc_business c)), (''strategy_id'', JStr (sc_strategy c)),
      (''strategy_version'', JNum (of_int (sc_version c))), (''content_cycle_id'', JStr (sc_cycle c)),
      (''format_cohort'', JStr (sc_format c)), (''evidence_checksum'', JStr (sc_checksum c)),
      (''change_kind'', JStr (in_kind i)), (''instruction'', JStr (in_text i)), (''status'', JStr (in_status i)),
      (''consumed_content_pack_id'', opt_null JStr (in_pack i)), (''consumed_week_plan_id'', opt_null JStr (in_plan i)),
      (''approved_at'', iso (in_approved i)), (''consumed_at'', opt_null iso (in_consumed i)),
      (''superseded_at'', opt_null iso (in_superseded i)), (''created_at'', iso (in_created i)),
      (''updated_at'', iso (in_updated i))])"

definition checked :: "unit validation \<Rightarrow> json \<Rightarrow> opt_failure + json" where
  "checked r v = (if valid r then Inr v else Inl Invalid_document)"

definition toProposalContract :: "js_env \<Rightarrow> proposal_row \<Rightarrow> opt_failure + json" where
  "toProposalContract E p = checked (validateOptimizationProposalV1 E (proposal_json p)) (proposal_json p)"

definition toDecisionContract :: "js_env \<Rightarrow> decision_row \<Rightarrow> opt_failure + json" where
  "toDecisionContract E d = checked (validateOptimizationDecisionV1 E (decision_json d)) (decision_json d)"

definition toInstructionContract :: "js_env \<Rightarrow> instruction_row \<Rightarrow> opt_failure + json" where
  "toInstructionContract E i = checked (validateApprovedOptimizationInstructionV1 E (instruction_json i)) (instruction_json i)"

definition workspace_state :: "decision_row option \<Rightarrow> instruction_row option \<Rightarrow> string" where
  "workspace_state d i =
     (if map_option de_action d = Some ''dismiss'' then ''DISMISSED''
      else if map_option in_status i = Some ''PENDING_CONSUMPTION'' then ''APPROVED_PENDING_CONSUMPTION''
      else if map_option in_status i = Some ''CONSUMED'' then ''CONSUMED''
      else if map_option in_status i = Some ''SUPERSEDED'' then ''SUPERSEDED''
      else if map_option in_status i = Some ''EXPIRED'' then ''EXPIRED'' else ''PENDING_OWNER_DECISION'')"

definition workspace_json :: "proposal_row \<Rightarrow> decision_row option \<Rightarrow> instruction_row option \<Rightarrow> json" where
  "workspace_json p d i = JObj
     [(''contract_version'', JStr ''optimization-v1''), (''proposal'', proposal_json p),
      (''state'', JStr (workspace_state d i)), (''decision'', opt_null decision_json d),
      (''instruction'', opt_null instruction_json i)]"

text \<open>The rows that go with a proposal: the unique indexes allow one decision and one instruction.\<close>

definition decision_of :: "string \<Rightarrow> opt_db \<Rightarrow> decision_row option" where
  "decision_of i s = tbl_find de_proposal i (decisions s)"

definition instruction_of :: "string \<Rightarrow> opt_db \<Rightarrow> instruction_row option" where
  "instruction_of i s = tbl_find in_proposal i (instructions s)"

definition opt_check :: "('a \<Rightarrow> opt_failure + json) \<Rightarrow> 'a option \<Rightarrow> opt_failure + unit" where
  "opt_check f v = (case v of None \<Rightarrow> Inr () | Some a \<Rightarrow> throws_bind (f a) (\<lambda>_. Inr ()))"

definition toWorkspaceContract :: "js_env \<Rightarrow> opt_db \<Rightarrow> proposal_row \<Rightarrow> opt_failure + json" where
  "toWorkspaceContract E s p =
     (let d = decision_of (op_id p) s; i = instruction_of (op_id p) s; w = workspace_json p d i in
      throws_bind (toProposalContract E p) (\<lambda>_.
      throws_bind (opt_check (toDecisionContract E) d) (\<lambda>_.
      throws_bind (opt_check (toInstructionContract E) i) (\<lambda>_.
        checked (validateOptimizationProposalWorkspaceV1 E w) w))))"


section \<open>Reading\<close>

definition find_proposal :: "string \<Rightarrow> string \<Rightarrow> opt_db \<Rightarrow> proposal_row option" where
  "find_proposal business i s = List.find (\<lambda>p. op_id p = i \<and> sc_business (op_scope p) = business) (proposals s)"

definition findByFingerprint :: "js_env \<Rightarrow> string \<Rightarrow> string \<Rightarrow> opt_db \<Rightarrow> opt_failure + json option" where
  "findByFingerprint E business fp s =
     (case tbl_find (\<lambda>p. (sc_business (op_scope p), op_fingerprint p)) (business, fp) (proposals s) of
        None \<Rightarrow> Inr None
      | Some p \<Rightarrow> throws_bind (toProposalContract E p) (\<lambda>v. Inr (Some v)))"

definition findById :: "js_env \<Rightarrow> string \<Rightarrow> string \<Rightarrow> opt_db \<Rightarrow> opt_failure + json option" where
  "findById E business i s =
     (case find_proposal business i s of
        None \<Rightarrow> Inr None
      | Some p \<Rightarrow> throws_bind (toProposalContract E p) (\<lambda>v. Inr (Some v)))"

definition findProposalWorkspace :: "js_env \<Rightarrow> string \<Rightarrow> string \<Rightarrow> opt_db \<Rightarrow> opt_failure + json option" where
  "findProposalWorkspace E business i s =
     (case find_proposal business i s of
        None \<Rightarrow> Inr None
      | Some p \<Rightarrow> throws_bind (toWorkspaceContract E s p) (\<lambda>v. Inr (Some v)))"

definition newest_first :: "string \<Rightarrow> opt_db \<Rightarrow> proposal_row list" where
  "newest_first business s =
     sort_key (\<lambda>p. - op_created p) (filter (\<lambda>p. sc_business (op_scope p) = business) (proposals s))"

definition listProposals :: "js_env \<Rightarrow> string \<Rightarrow> opt_db \<Rightarrow> opt_failure + json list" where
  "listProposals E business s = throws_map (toProposalContract E) (newest_first business s)"

definition listProposalWorkspaces :: "js_env \<Rightarrow> string \<Rightarrow> opt_db \<Rightarrow> opt_failure + json list" where
  "listProposalWorkspaces E business s = throws_map (toWorkspaceContract E s) (newest_first business s)"

definition loadWorkspaceWithin :: "js_env \<Rightarrow> string \<Rightarrow> string \<Rightarrow> json opt" where
  "loadWorkspaceWithin E business i s =
     (case find_proposal business i s of
        None \<Rightarrow> (Inl (Repository OPTIMIZATION_DECISION_CONFLICT), s)
      | Some p \<Rightarrow> (toWorkspaceContract E s p, s))"

text \<open>The oldest approval first, of equal ones the smaller identifier.\<close>

definition findPendingInstruction ::
  "js_env \<Rightarrow> string \<Rightarrow> string \<Rightarrow> string \<Rightarrow> int \<Rightarrow> string list \<Rightarrow> opt_db \<Rightarrow> opt_failure + json option" where
  "findPendingInstruction E business cycle strategy version formats s =
     (case sort_key in_approved (sort_key in_id
         (filter (\<lambda>i. sc_business (in_scope i) = business \<and> sc_cycle (in_scope i) = cycle
            \<and> sc_strategy (in_scope i) = strategy \<and> sc_version (in_scope i) = version
            \<and> in_status i = ''PENDING_CONSUMPTION'' \<and> sc_format (in_scope i) \<in> set formats) (instructions s))) of
        [] \<Rightarrow> Inr None
      | i # _ \<Rightarrow> throws_bind (toInstructionContract E i) (\<lambda>v. Inr (Some v)))"



section \<open>Recording a proposal\<close>

text \<open>\<open>stored jb p\<close> is what a later query reads of a row that was inserted.\<close>

definition stored :: "(json \<Rightarrow> json) \<Rightarrow> proposal_row \<Rightarrow> proposal_row" where
  "stored jb p = p\<lparr>op_basis := jb (op_basis p), op_comparison := jb (op_comparison p)\<rparr>"

definition insert_proposal :: "(json \<Rightarrow> json) \<Rightarrow> proposal_row \<Rightarrow> unit opt" where
  "insert_proposal jb p s =
     (if \<not> proposal_checks p then (Inl Refused_by_check, s)
      else act_insert proposal_clash proposals put_proposals (stored jb p) Unique_violation s)"

definition without_fields :: "string list \<Rightarrow> json \<Rightarrow> json" where
  "without_fields ks v = foldr without_field ks v"

definition sameProposalGeneration :: "js_env \<Rightarrow> json \<Rightarrow> json \<Rightarrow> bool" where
  "sameProposalGeneration E l r \<longleftrightarrow>
     json_text E (without_fields [''proposal_id'', ''created_at''] l) = json_text E (without_fields [''proposal_id'', ''created_at''] r)"

definition createProposal :: "js_env \<Rightarrow> (json \<Rightarrow> json) \<Rightarrow> proposal_row \<Rightarrow> call \<Rightarrow> json opt" where
  "createProposal E jb input c =
     (let p = input\<lparr>op_id := call_id c 0, op_created := call_now c\<rparr>; v = proposal_json p in
      act_bind (act_lift (checked (validateOptimizationProposalV1 E v) v)) (\<lambda>_.
        act_catch
          (act_seq (insert_proposal jb p) (act_lift (toProposalContract E (stored jb p))))
          (\<lambda>e. if e \<noteq> Unique_violation then act_throw e
               else act_bind (act_bind (act_read (findByFingerprint E (sc_business (op_scope p)) (op_fingerprint p))) act_lift) (\<lambda>found.
                 case found of
                   None \<Rightarrow> act_throw (Repository OPTIMIZATION_PROPOSAL_CONFLICT)
                 | Some x \<Rightarrow> if sameProposalGeneration E x v then act_return x
                            else act_throw (Repository OPTIMIZATION_PROPOSAL_CONFLICT)))))"


section \<open>Deciding a proposal\<close>

record decision_input =
  di_owner :: string
  di_business :: string
  di_proposal :: string
  di_checksum :: string
  di_action :: string
  di_key :: string
  di_fingerprint :: string
  di_note :: "string option"

definition conflict :: "'a opt" where
  "conflict = act_throw (Repository OPTIMIZATION_DECISION_CONFLICT)"

text \<open>The two look-ups before the lock: a replay is answered, anything else goes on.\<close>

definition decision_by_key :: "decision_input \<Rightarrow> opt_db \<Rightarrow> decision_row option" where
  "decision_by_key i s = tbl_find (\<lambda>d. (de_owner d, de_key d)) (di_owner i, di_key i) (decisions s)"

definition decision_by_fingerprint :: "decision_input \<Rightarrow> opt_db \<Rightarrow> decision_row option" where
  "decision_by_fingerprint i s = tbl_find (\<lambda>d. (de_owner d, de_fingerprint d)) (di_owner i, di_fingerprint i) (decisions s)"

definition answer_decision :: "js_env \<Rightarrow> decision_input \<Rightarrow> json option opt" where
  "answer_decision E i = act_bind (loadWorkspaceWithin E (di_business i) (di_proposal i)) (\<lambda>w. act_return (Some w))"

definition decision_lookup :: "js_env \<Rightarrow> decision_input \<Rightarrow> json option opt" where
  "decision_lookup E i =
     act_bind (act_read (decision_by_key i)) (\<lambda>by_key.
       case by_key of
         Some d \<Rightarrow> if de_fingerprint d \<noteq> di_fingerprint i \<or> de_proposal d \<noteq> di_proposal i then conflict
                   else answer_decision E i
       | None \<Rightarrow>
           act_bind (act_read (decision_by_fingerprint i)) (\<lambda>by_fingerprint.
             case by_fingerprint of
               Some d \<Rightarrow> if de_proposal d \<noteq> di_proposal i then conflict else answer_decision E i
             | None \<Rightarrow> act_return None))"

definition new_decision :: "decision_input \<Rightarrow> proposal_row \<Rightarrow> call \<Rightarrow> decision_row" where
  "new_decision i p c =
     \<lparr>de_id = call_id c 0, de_contract = ''optimization-decision-v1'', de_proposal = op_id p, de_scope = op_scope p,
      de_action = di_action i, de_owner = di_owner i, de_key = di_key i, de_fingerprint = di_fingerprint i,
      de_note = di_note i, de_decided = call_now c\<rparr>"

definition new_instruction :: "proposal_row \<Rightarrow> call \<Rightarrow> instruction_row" where
  "new_instruction p c =
     \<lparr>in_id = call_id c 1, in_contract = ''optimization-instruction-v1'', in_proposal = op_id p, in_decision = call_id c 0,
      in_scope = op_scope p, in_kind = op_kind p, in_text = op_instruction p, in_status = ''PENDING_CONSUMPTION'',
      in_pack = None, in_plan = None, in_approved = call_now c, in_consumed = None, in_superseded = None,
      in_created = call_now c, in_updated = call_now c\<rparr>"

definition insert_decision :: "decision_row \<Rightarrow> unit opt" where
  "insert_decision d s =
     (if \<not> decision_checks d then (Inl Refused_by_check, s)
      else act_insert decision_clash decisions put_decisions d Unique_violation s)"

definition insert_instruction :: "instruction_row \<Rightarrow> unit opt" where
  "insert_instruction i s =
     (if \<not> instruction_checks i then (Inl Refused_by_check, s)
      else act_insert instruction_clash instructions put_instructions i Unique_violation s)"

text \<open>From the lock on the proposal to the end of the transaction.\<close>

definition decision_commit :: "js_env \<Rightarrow> decision_input \<Rightarrow> call \<Rightarrow> json opt" where
  "decision_commit E i c =
     act_bind (act_read (find_proposal (di_business i) (di_proposal i))) (\<lambda>found.
       case found of
         None \<Rightarrow> conflict
       | Some p \<Rightarrow>
           if sc_checksum (op_scope p) \<noteq> di_checksum i then act_throw (Repository OPTIMIZATION_EVIDENCE_CONFLICT)
           else act_bind (act_read (decision_of (di_proposal i))) (\<lambda>existing.
             case existing of
               Some d \<Rightarrow> if de_owner d = di_owner i \<and> de_fingerprint d = di_fingerprint i
                         then loadWorkspaceWithin E (di_business i) (di_proposal i) else conflict
             | None \<Rightarrow>
                 act_seq (insert_decision (new_decision i p c))
                   (act_seq (if di_action i = ''approve'' then insert_instruction (new_instruction p c) else act_return ())
                     (loadWorkspaceWithin E (di_business i) (di_proposal i)))))"

definition unique_is_conflict :: "'a opt \<Rightarrow> 'a opt" where
  "unique_is_conflict m = act_catch m (\<lambda>e. if e = Unique_violation then conflict else act_throw e)"

definition createDecision :: "js_env \<Rightarrow> decision_input \<Rightarrow> call \<Rightarrow> json opt" where
  "createDecision E i c =
     unique_is_conflict (transaction
       (act_bind (decision_lookup E i) (\<lambda>x. case x of Some w \<Rightarrow> act_return w | None \<Rightarrow> decision_commit E i c)))"

end
