(* ===== verification/Opt_Service.thy ===== *)
theory Opt_Service
  imports Opt_Store Opt_Request
begin

text \<open>
  The optimization service (apps/api/src/modules/performance/optimization/optimization.service.ts),
  its client of the AI service (optimization-ai.client.ts) and the loading of stored metrics
  (\<open>listEligibleSnapshots\<close> of optimization.repository.ts). The AI service is a parameter: a function from
  the request to a reply. The business of an owner is a parameter too.
\<close>


section \<open>Stored metrics\<close>

record metric_candidate =
  mc_id :: string
  mc_business :: string
  mc_checksum :: string
  mc_channel :: string
  mc_format :: string
  mc_payload :: json

record metric_row =
  mr_id :: string
  mr_business :: string
  mr_provider :: string
  mr_window :: string
  mr_published :: int
  mr_observed :: "int option"
  mr_result :: string
  mr_attempt :: string
  mr_intent :: string
  mr_candidate_id :: string
  mr_checksum :: string
  mr_metrics :: json
  mr_candidate :: metric_candidate
  mr_result_id :: string
  mr_outcome :: string
  mr_result_provider :: string
  mr_remote :: "string option"
  mr_attempt_id :: string
  mr_intent_id :: string
  mr_mode :: string
  mr_published_candidate :: "metric_candidate option"

definition normalizeMetricValue :: "json \<Rightarrow> metric_value option" where
  "normalizeMetricValue v =
     (if jget v ''status'' = JStr ''available'' \<and> nonNegativeNumber (jget v ''value'') then Some (Available (jnum (jget v ''value'')))
      else if jget v ''status'' = JStr ''unavailable'' \<and> js_includes PERFORMANCE_UNAVAILABLE_REASONS (jget v ''reason'')
      then Some (Unavailable (jstr (jget v ''reason''))) else None)"

definition same_provenance :: "metric_row \<Rightarrow> metric_candidate \<Rightarrow> bool" where
  "same_provenance r p \<longleftrightarrow>
     (let v = mc_payload (mr_candidate r) in
      mr_result_id r = mr_result r \<and> mr_attempt_id r = mr_attempt r \<and> mr_intent_id r = mr_intent r
      \<and> mc_id p = mr_candidate_id r \<and> mc_business p = mr_business r \<and> mc_checksum p = mr_checksum r
      \<and> mc_channel p = ''facebook'' \<and> mc_format p = mc_format (mr_candidate r)
      \<and> jget v ''candidate_id'' = JStr (mr_candidate_id r) \<and> jget v ''candidate_checksum'' = JStr (mr_checksum r)
      \<and> jget v ''business_id'' = JStr (mr_business r) \<and> jget v ''content_format'' = JStr (mc_format (mr_candidate r))
      \<and> jget v ''target_channel'' = JStr ''facebook'')"

definition payload_ok :: "json \<Rightarrow> bool" where
  "payload_ok v \<longleftrightarrow> js_is_string (jget v ''strategy_id'')
     \<and> isInteger (jget v ''strategy_version'') \<and> jnum (jget v ''strategy_version'') \<ge> 1
     \<and> js_is_string (jget v ''content_cycle_id'') \<and> isNonEmptyString (jget v ''caption'')
     \<and> (jget v ''cta'' \<in> {JNull, JUndef} \<or> js_is_string (jget v ''cta''))"

definition normalizeSnapshotRow :: "metric_row \<Rightarrow> snapshot option" where
  "normalizeSnapshotRow r =
     (let v = mc_payload (mr_candidate r); m = mr_metrics r in
      case mr_published_candidate r of None \<Rightarrow> None | Some p \<Rightarrow>
        if \<not> isRecord v \<or> \<not> same_provenance r p \<or> \<not> payload_ok v \<or> \<not> isRecord m
          \<or> \<not> isRecord (jget m ''post_media_view'') \<or> \<not> isRecord (jget m ''post_clicks'') then None
        else case (normalizeMetricValue (jget m ''post_media_view''), normalizeMetricValue (jget m ''post_clicks'')) of
          (Some views, Some clicks) \<Rightarrow> Some
            \<lparr>sn_id = mr_id r, sn_business = mr_business r, sn_result = mr_result r, sn_candidate = mr_candidate_id r,
             sn_checksum = mr_checksum r, sn_strategy = jstr (jget v ''strategy_id''),
             sn_strategy_version = \<lfloor>jnum (jget v ''strategy_version'')\<rfloor>, sn_cycle = jstr (jget v ''content_cycle_id''),
             sn_format = mc_format (mr_candidate r), sn_provider = ''facebook'', sn_window = ''7d'',
             sn_published = toISOString (mr_published r), sn_observed = map_option toISOString (mr_observed r),
             sn_views = views, sn_clicks = clicks, sn_caption = jstr (jget v ''caption''),
             sn_cta = (case jget v ''cta'' of JStr c \<Rightarrow> Some c | _ \<Rightarrow> None)\<rparr>
        | _ \<Rightarrow> None)"

definition eligible_row :: "string \<Rightarrow> metric_row \<Rightarrow> bool" where
  "eligible_row business r \<longleftrightarrow> mr_business r = business \<and> mr_provider r = ''facebook'' \<and> mr_window r = ''7d''
     \<and> mr_observed r \<noteq> None \<and> mc_business (mr_candidate r) = business \<and> mc_channel (mr_candidate r) = ''facebook''
     \<and> mc_format (mr_candidate r) \<in> set OPTIMIZATION_FORMATS \<and> mr_outcome r = ''PUBLISHED'' \<and> mr_result_provider r = ''meta''
     \<and> mr_remote r \<noteq> None \<and> mr_mode r = ''REAL''
     \<and> opt_holds (\<lambda>p. mc_business p = business \<and> mc_channel p = ''facebook'') (mr_published_candidate r)"

text \<open>The last published first, of equal ones the larger identifier; the flag tells that a row was refused.\<close>

definition listEligibleSnapshots :: "string \<Rightarrow> metric_row list \<Rightarrow> snapshot list \<times> bool" where
  "listEligibleSnapshots business rows =
     (let found = sort_key (\<lambda>r. - mr_published r) (rev (sort_key mr_id (filter (eligible_row business) rows))) in
      (List.map_filter normalizeSnapshotRow found, list_ex (\<lambda>r. normalizeSnapshotRow r = None) found))"


section \<open>The AI service\<close>

datatype ai_reply = Ai_answer json | Ai_failed "int option" json

definition provider_failure :: string where
  "provider_failure = ''OPTIMIZATION_PROVIDER_FAILURE''"

text \<open>The code of a provider error, and whether the request may be repeated.\<close>

definition toOptimizationProviderError :: "int option \<Rightarrow> json \<Rightarrow> string \<times> bool" where
  "toOptimizationProviderError status detail =
     (case status of
        None \<Rightarrow> (provider_failure, True)
      | Some st \<Rightarrow>
          (case jget detail ''error_type'' of
             JStr t \<Rightarrow> if take 13 t = ''OPTIMIZATION_'' then t else provider_failure
           | _ \<Rightarrow> provider_failure,
           case jget detail ''retryable'' of JBool b \<Rightarrow> b | _ \<Rightarrow> st \<ge> 500 \<or> st = 429))"

definition ai_generate :: "js_env \<Rightarrow> (json \<Rightarrow> ai_reply) \<Rightarrow> json \<Rightarrow> (string \<times> bool) + json" where
  "ai_generate E ai request =
     (if \<not> valid (validateOptimizationGenerationRequestV1 E request) then Inl (''OPTIMIZATION_SCHEMA_FAILURE'', False)
      else case ai request of
        Ai_failed status detail \<Rightarrow> Inl (toOptimizationProviderError status detail)
      | Ai_answer v \<Rightarrow>
          if \<not> valid (validateOptimizationAgentResultV1 v) then Inl (''OPTIMIZATION_SCHEMA_FAILURE'', False)
          else if jget v ''generation_fingerprint'' \<noteq> jget request ''generation_fingerprint''
          then Inl (''OPTIMIZATION_IDENTITY_CONFLICT'', False)
          else Inr v)"


section \<open>The service\<close>

datatype http_error =
  Http_conflict string | Http_not_found string | Http_forbidden string | Http_bad_request string
  | Http_unavailable string | Http_internal string | Raw opt_failure

fun code_text :: "opt_code \<Rightarrow> string" where
  "code_text OPTIMIZATION_SNAPSHOT_CONFLICT = ''OPTIMIZATION_SNAPSHOT_CONFLICT''"
| "code_text OPTIMIZATION_PROPOSAL_CONFLICT = ''OPTIMIZATION_PROPOSAL_CONFLICT''"
| "code_text OPTIMIZATION_DECISION_CONFLICT = ''OPTIMIZATION_DECISION_CONFLICT''"
| "code_text OPTIMIZATION_EVIDENCE_CONFLICT = ''OPTIMIZATION_EVIDENCE_CONFLICT''"
| "code_text OPTIMIZATION_INSTRUCTION_CONFLICT = ''OPTIMIZATION_INSTRUCTION_CONFLICT''"
| "code_text OPTIMIZATION_INSTRUCTION_NOT_ELIGIBLE = ''OPTIMIZATION_INSTRUCTION_NOT_ELIGIBLE''"

type_synonym 'a http = "(opt_db, http_error, 'a) action"

text \<open>An exception of an action of the repository, seen by the service.\<close>

definition act_map_error :: "('e \<Rightarrow> 'f) \<Rightarrow> ('s, 'e, 'a) action \<Rightarrow> ('s, 'f, 'a) action" where
  "act_map_error f m s = (case m s of (Inl e, t) \<Rightarrow> (Inl (f e), t) | (Inr a, t) \<Rightarrow> (Inr a, t))"

fun throwRepositoryError :: "opt_failure \<Rightarrow> http_error" where
  "throwRepositoryError (Repository c) = Http_conflict (code_text c)"
| "throwRepositoryError _ = Http_internal ''OPTIMIZATION_PROVIDER_FAILURE''"

definition throwProviderError :: "string \<times> bool \<Rightarrow> http_error" where
  "throwProviderError e = (if snd e then Http_unavailable (fst e) else Http_bad_request (fst e))"

definition businessIdForOwner :: "(string \<Rightarrow> string option) \<Rightarrow> string \<Rightarrow> string http" where
  "businessIdForOwner owned owner =
     (case owned owner of None \<Rightarrow> act_throw (Http_forbidden ''PUBLISHING_FORBIDDEN_NO_BUSINESS'') | Some b \<Rightarrow> act_return b)"

definition conflictReadiness :: "string \<Rightarrow> string option \<Rightarrow> readiness" where
  "conflictReadiness business format =
     \<lparr>rd_status = ''insufficient_evidence'', rd_business = business, rd_format = format, rd_eligible = 0,
      rd_formats = [], rd_reason = Some ''snapshot_provenance_conflict''\<rparr>"

datatype generation =
  Not_ready readiness | No_recommendation readiness string json | Proposal readiness json

definition analyze :: "js_env \<Rightarrow> string \<Rightarrow> string option \<Rightarrow> metric_row list \<Rightarrow> http_error + readiness + analysis" where
  "analyze E business format rows =
     (let (snapshots, refused) = listEligibleSnapshots business rows in
      if refused then Inr (Inl (conflictReadiness business format))
      else case analyzeOptimizationSnapshots E business format snapshots of
        Inl _ \<Rightarrow> Inl (Http_internal [])
      | Inr a \<Rightarrow> Inr (Inr a))"

definition service_readiness ::
  "js_env \<Rightarrow> (string \<Rightarrow> string option) \<Rightarrow> metric_row list \<Rightarrow> string \<Rightarrow> string option \<Rightarrow> readiness http" where
  "service_readiness E owned rows owner format =
     act_bind (businessIdForOwner owned owner) (\<lambda>business.
     act_bind (act_lift (analyze E business format rows)) (\<lambda>x.
       case x of Inl r \<Rightarrow> act_return r | Inr a \<Rightarrow> act_return (an_readiness a)))"

text \<open>The row that a recommendation becomes: everything but the wording comes from the analysis.\<close>

definition recommended :: "string \<Rightarrow> cohort \<Rightarrow> string \<Rightarrow> analysis \<Rightarrow> string \<Rightarrow> json \<Rightarrow> proposal_row" where
  "recommended business i k a fp v =
     \<lparr>op_id = [], op_contract = ''optimization-v1'',
      op_scope = \<lparr>sc_business = business, sc_strategy = co_strategy i, sc_version = co_strategy_version i,
        sc_cycle = co_cycle i, sc_format = co_format i, sc_checksum = k\<rparr>,
      op_basis = JArr (map (\<lambda>s. JStr (sn_id s)) (an_evidence a)),
      op_comparison = JArr (map comparison_json (an_comparisons a)), op_kind = jstr (jget v ''change_kind''),
      op_summary = jstr (jget v ''summary''), op_rationale = jstr (jget v ''rationale''),
      op_uncertainty = jstr (jget v ''uncertainty''), op_instruction = jstr (jget v ''instruction''),
      op_model = jstr (jget v ''model_version''), op_prompt = jstr (jget v ''prompt_version''),
      op_fingerprint = fp, op_status = ''PENDING_OWNER_DECISION'', op_created = 0\<rparr>"

definition same_evidence :: "analysis \<Rightarrow> json \<Rightarrow> bool" where
  "same_evidence a v \<longleftrightarrow> sort (map sn_id (an_evidence a)) = sort (map jstr (jelems (jget v ''evidence_snapshot_ids'')))"

text \<open>What becomes of the reply of the AI service.\<close>

definition record_reply ::
  "js_env \<Rightarrow> (json \<Rightarrow> json) \<Rightarrow> call \<Rightarrow> string \<Rightarrow> cohort \<Rightarrow> string \<Rightarrow> analysis \<Rightarrow> string \<Rightarrow> json \<Rightarrow> generation http" where
  "record_reply E jb c business i k a fp v =
     (if jget v ''generation_fingerprint'' \<noteq> JStr fp then act_throw (Http_conflict ''OPTIMIZATION_IDENTITY_CONFLICT'')
      else if jget v ''outcome'' = JStr ''no_recommendation''
      then act_return (No_recommendation (an_readiness a) fp (jget v ''reason''))
      else if \<not> same_evidence a v \<or> \<not> js_includes OPTIMIZATION_CHANGE_KINDS (jget v ''change_kind'')
      then act_throw (Http_conflict ''OPTIMIZATION_PROPOSAL_CONFLICT'')
      else act_bind (act_map_error throwRepositoryError (createProposal E jb (recommended business i k a fp v) c))
        (\<lambda>p. act_return (Proposal (an_readiness a) p)))"

definition service_generate ::
  "js_env \<Rightarrow> (json \<Rightarrow> json) \<Rightarrow> (string \<Rightarrow> string option) \<Rightarrow> (json \<Rightarrow> ai_reply) \<Rightarrow> metric_row list \<Rightarrow> string \<Rightarrow> string option \<Rightarrow> call
    \<Rightarrow> generation http" where
  "service_generate E jb owned ai rows owner format c =
     act_bind (businessIdForOwner owned owner) (\<lambda>business.
     act_bind (act_lift (analyze E business format rows)) (\<lambda>x.
       case x of Inl r \<Rightarrow> act_return (Not_ready r)
       | Inr a \<Rightarrow>
           (case (an_identity a, an_checksum a) of
              (Some i, Some k) \<Rightarrow>
                if rd_status (an_readiness a) \<noteq> ''ready'' \<or> k = [] then act_return (Not_ready (an_readiness a))
                else (let fp = request_fingerprint E i k (an_evidence a) (an_comparisons a) in
                  act_bind (act_map_error Raw (act_bind (act_read (findByFingerprint E business fp)) act_lift)) (\<lambda>existing.
                    case existing of
                      Some p \<Rightarrow> act_return (Proposal (an_readiness a) p)
                    | None \<Rightarrow>
                        act_bind (act_map_error throwProviderError (act_lift
                          (ai_generate E ai (generation_request E i k (an_evidence a) (an_comparisons a)))))
                          (record_reply E jb c business i k a fp)))
            | _ \<Rightarrow> act_return (Not_ready (an_readiness a)))))"

definition service_get ::
  "js_env \<Rightarrow> (string \<Rightarrow> string option) \<Rightarrow> string \<Rightarrow> string \<Rightarrow> json http" where
  "service_get E owned owner i =
     act_bind (businessIdForOwner owned owner) (\<lambda>business.
     act_bind (act_map_error Raw (act_bind (act_read (findProposalWorkspace E business i)) act_lift)) (\<lambda>found.
       case found of None \<Rightarrow> act_throw (Http_not_found ''OPTIMIZATION_PROPOSAL_NOT_FOUND'') | Some w \<Rightarrow> act_return w))"

definition service_list :: "js_env \<Rightarrow> (string \<Rightarrow> string option) \<Rightarrow> string \<Rightarrow> json list http" where
  "service_list E owned owner =
     act_bind (businessIdForOwner owned owner) (\<lambda>business.
       act_map_error Raw (act_bind (act_read (listProposalWorkspaces E business)) act_lift))"

fun decide_error :: "opt_failure \<Rightarrow> http_error" where
  "decide_error (Repository c) = Http_conflict (code_text c)"
| "decide_error e = Raw e"

text \<open>\<open>dto.note?.trim() || null\<close>.\<close>

definition trimmed_note :: "string option \<Rightarrow> string option" where
  "trimmed_note note = (case note of None \<Rightarrow> None | Some n \<Rightarrow> if js_trim n = [] then None else Some (js_trim n))"

definition decide_input :: "js_env \<Rightarrow> string \<Rightarrow> string \<Rightarrow> string \<Rightarrow> string \<Rightarrow> string \<Rightarrow> string \<Rightarrow> string option \<Rightarrow> decision_input" where
  "decide_input E owner business proposal checksum action key note =
     \<lparr>di_owner = owner, di_business = business, di_proposal = proposal, di_checksum = checksum, di_action = action,
      di_key = js_trim key,
      di_fingerprint = computeOptimizationDecisionFingerprint E proposal checksum action (trimmed_note note),
      di_note = trimmed_note note\<rparr>"

definition service_decide ::
  "js_env \<Rightarrow> (string \<Rightarrow> string option) \<Rightarrow> string \<Rightarrow> string \<Rightarrow> string \<Rightarrow> string \<Rightarrow> string \<Rightarrow> string option \<Rightarrow> call \<Rightarrow> json http" where
  "service_decide E owned owner proposal action checksum key note c =
     act_bind (businessIdForOwner owned owner) (\<lambda>business.
     act_bind (act_map_error Raw (act_bind (act_read (findById E business proposal)) act_lift)) (\<lambda>found.
       case found of
         None \<Rightarrow> act_throw (Http_not_found ''OPTIMIZATION_PROPOSAL_NOT_FOUND'')
       | Some p \<Rightarrow>
           if jget p ''evidence_checksum'' \<noteq> JStr checksum then act_throw (Http_conflict ''OPTIMIZATION_EVIDENCE_CONFLICT'')
           else act_bind (act_map_error decide_error
               (createDecision E (decide_input E owner business (jstr (jget p ''proposal_id'')) checksum action key note) c))
             (\<lambda>w. act_return (JObj [(''contract_version'', JStr ''optimization-decision-v1''), (''workspace'', w)]))))"

end
