(* ===== verification/Db_Tables.thy ===== *)
theory Db_Tables
  imports Db_Action
begin

text \<open>
  Tables under several unique indexes, and what an action on the database leaves of a table. \<open>clash x y\<close>
  says that two rows agree on one of the indexes; \<open>keyed clash t\<close> that no two rows of \<open>t\<close> do.
\<close>

definition keyed :: "('r \<Rightarrow> 'r \<Rightarrow> bool) \<Rightarrow> 'r list \<Rightarrow> bool" where
  "keyed clash t \<longleftrightarrow> distinct t \<and> (\<forall>x \<in> set t. \<forall>y \<in> set t. clash x y \<longrightarrow> x = y)"

lemma keyed_Nil [simp]: "keyed clash []"
  by (simp add: keyed_def)

lemma keyedD: "keyed clash t \<Longrightarrow> x \<in> set t \<Longrightarrow> y \<in> set t \<Longrightarrow> clash x y \<Longrightarrow> x = y"
  by (simp add: keyed_def)

lemma keyed_insert:
  assumes "keyed clash t" "\<not> (\<exists>x \<in> set t. clash r x)" "\<And>x y. clash x y \<longleftrightarrow> clash y x" "clash r r"
  shows "keyed clash (t @ [r])"
  using assms unfolding keyed_def by auto

lemma keyed_update:
  assumes "keyed clash t" "\<And>x. clash x x"
    "\<And>x y. x \<in> set t \<Longrightarrow> y \<in> set t \<Longrightarrow> clash (if P x then f x else x) (if P y then f y else y) \<Longrightarrow> clash x y"
  shows "keyed clash (tbl_update P f t)"
proof -
  let ?g = "\<lambda>x. if P x then f x else x"
  have i: "x = y" if "x \<in> set t" "y \<in> set t" "clash (?g x) (?g y)" for x y
    using keyedD [OF assms(1) that(1,2) assms(3) [OF that]] .
  then have "inj_on ?g (set t)" by (metis (no_types, lifting) assms(2) inj_onI)
  then have "distinct (map ?g t)" using assms(1) by (simp add: keyed_def distinct_map)
  moreover have "\<forall>x \<in> ?g ` set t. \<forall>y \<in> ?g ` set t. clash x y \<longrightarrow> x = y" using i by blast
  ultimately show ?thesis by (simp add: keyed_def tbl_update_def)
qed

lemma keyed_keep:
  assumes "keyed clash t" "\<And>x. clash x x" "\<And>x y. clash (f x) y \<longleftrightarrow> clash x y" "\<And>x y. clash x (f y) \<longleftrightarrow> clash x y"
  shows "keyed clash (tbl_update P f t)"
  by (rule keyed_update [OF assms(1,2)]) (auto simp: assms(3,4) split: if_splits)

lemma act_insert_cases:
  assumes "act_insert clash get put r e s = (x, u)"
  obtains (clashes) "x = Inl e" "u = s" "\<exists>q \<in> set (get s). clash r q"
  | (inserted) "x = Inr ()" "u = put (get s @ [r]) s" "\<not> (\<exists>q \<in> set (get s). clash r q)"
  using assms by (auto simp: act_insert_def split: if_splits)

lemma act_bind_InrE:
  assumes "act_bind m f s = (Inr b, u)"
  obtains a t where "m s = (Inr a, t)" "f a t = (Inr b, u)"
  using assms by (auto elim: act_bind_cases)

lemma act_seq_InrE:
  assumes "act_seq m n s = (Inr b, u)"
  obtains a t where "m s = (Inr a, t)" "n t = (Inr b, u)"
  using assms unfolding act_seq_def by (auto elim: act_bind_InrE)

text \<open>A table that only grows, and one whose rows may be rewritten as \<open>le\<close> allows.\<close>

definition rows_le :: "('r \<Rightarrow> 'r \<Rightarrow> bool) \<Rightarrow> 'r list \<Rightarrow> 'r list \<Rightarrow> bool" where
  "rows_le le t u \<longleftrightarrow> length t \<le> length u \<and> (\<forall>i < length t. le (t ! i) (u ! i))"

lemma rows_le_refl: "(\<And>r. le r r) \<Longrightarrow> rows_le le t t"
  by (simp add: rows_le_def)

lemma rows_le_trans:
  "(\<And>x y z. le x y \<Longrightarrow> le y z \<Longrightarrow> le x z) \<Longrightarrow> rows_le le t u \<Longrightarrow> rows_le le u v \<Longrightarrow> rows_le le t v"
  unfolding rows_le_def by (meson dual_order.strict_trans1 order_trans)

lemma rows_le_append: "(\<And>r. le r r) \<Longrightarrow> rows_le le t (t @ u)"
  by (simp add: rows_le_def nth_append)

lemma rows_le_update: "(\<And>r. le r r) \<Longrightarrow> (\<And>r. r \<in> set t \<Longrightarrow> P r \<Longrightarrow> le r (f r)) \<Longrightarrow> rows_le le t (tbl_update P f t)"
  by (simp add: rows_le_def tbl_update_def)

lemma rows_leD:
  assumes "rows_le le t u" "r \<in> set t"
  obtains q where "q \<in> set u" "le r q"
proof -
  obtain i where "i < length t" "t ! i = r" using assms(2) by (auto simp: in_set_conv_nth)
  with assms(1) have "u ! i \<in> set u" "le r (u ! i)" by (auto simp: rows_le_def)
  then show thesis by (rule that)
qed

lemma keeps_insert_row [keeps_intros]:
  "(\<And>s. I s \<Longrightarrow> \<not> (\<exists>x \<in> set (get s). clash r x) \<Longrightarrow> I (put (get s @ [r]) s)) \<Longrightarrow> keeps I (act_insert clash get put r e)"
  by (simp add: keeps_def act_insert_def)



section \<open>What an action ensures when it returns\<close>

text \<open>
  \<open>hoare P m Q\<close>: from a state with \<open>P\<close>, whatever \<open>m\<close> returns and the state it leaves satisfy \<open>Q\<close>. An exception
  promises nothing: a transaction undoes what its body had done.
\<close>

definition hoare :: "('s \<Rightarrow> bool) \<Rightarrow> ('s, 'e, 'a) action \<Rightarrow> ('a \<Rightarrow> 's \<Rightarrow> bool) \<Rightarrow> bool" where
  "hoare P m Q \<longleftrightarrow> (\<forall>s a t. P s \<longrightarrow> m s = (Inr a, t) \<longrightarrow> Q a t)"

named_theorems hoare_intros \<open>rules for what actions ensure\<close>

lemma hoareI: "(\<And>s a t. P s \<Longrightarrow> m s = (Inr a, t) \<Longrightarrow> Q a t) \<Longrightarrow> hoare P m Q"
  by (simp add: hoare_def)

lemma hoareD: "hoare P m Q \<Longrightarrow> P s \<Longrightarrow> m s = (Inr a, t) \<Longrightarrow> Q a t"
  by (simp add: hoare_def)

lemma hoare_pre: "hoare R m Q \<Longrightarrow> (\<And>s. P s \<Longrightarrow> R s) \<Longrightarrow> hoare P m Q"
  unfolding hoare_def by blast

lemma hoare_post: "hoare P m R \<Longrightarrow> (\<And>a s. R a s \<Longrightarrow> Q a s) \<Longrightarrow> hoare P m Q"
  by (simp add: hoare_def)

lemma hoare_bind [hoare_intros]: "hoare P m R \<Longrightarrow> (\<And>a. hoare (R a) (f a) Q) \<Longrightarrow> hoare P (act_bind m f) Q"
  unfolding hoare_def by (blast elim: act_bind_InrE)

lemma hoare_seq [hoare_intros]: "hoare P m (\<lambda>_. R) \<Longrightarrow> hoare R n Q \<Longrightarrow> hoare P (act_seq m n) Q"
  unfolding act_seq_def by (rule hoare_bind)

lemma hoare_return: "(\<And>s. P s \<Longrightarrow> Q a s) \<Longrightarrow> hoare P (act_return a) Q"
  by (simp add: hoare_def act_return_def)

lemma hoare_throw [hoare_intros]: "hoare P (act_throw e) Q"
  by (simp add: hoare_def act_throw_def)

lemma hoare_read: "(\<And>s. P s \<Longrightarrow> Q (f s) s) \<Longrightarrow> hoare P (act_read f) Q"
  by (simp add: hoare_def act_read_def)

lemma hoare_lift: "(\<And>s a. P s \<Longrightarrow> r = Inr a \<Longrightarrow> Q a s) \<Longrightarrow> hoare P (act_lift r) Q"
  by (simp add: hoare_def act_lift_def)

lemma hoare_insert:
  "(\<And>s. P s \<Longrightarrow> \<not> (\<exists>x \<in> set (get s). clash r x) \<Longrightarrow> Q () (put (get s @ [r]) s)) \<Longrightarrow> hoare P (act_insert clash get put r e) Q"
  by (auto simp: hoare_def act_insert_def)

lemma hoare_if: "(b \<Longrightarrow> hoare P m Q) \<Longrightarrow> (\<not> b \<Longrightarrow> hoare P n Q) \<Longrightarrow> hoare P (if b then m else n) Q"
  by simp

lemma hoare_option:
  "(x = None \<Longrightarrow> hoare P m Q) \<Longrightarrow> (\<And>a. x = Some a \<Longrightarrow> hoare P (f a) Q) \<Longrightarrow> hoare P (case x of None \<Rightarrow> m | Some a \<Rightarrow> f a) Q"
  by (cases x) simp_all

lemma keeps_hoare: "hoare I m (\<lambda>_. I) \<Longrightarrow> keeps I (transaction m)"
  by (rule keeps_transaction) (rule hoareD)

lemma hoare_keeps: "keeps I m \<Longrightarrow> hoare I m (\<lambda>_. I)"
  by (metis hoareI keepsD snd_conv)

end
