(* ===== verification/Opt_World.thy ===== *)
theory Opt_World
  imports Opt_Store Db_Tables
begin

text \<open>
  What the optimization tables keep: identifiers are unique, decisions and instructions are bound to
  their proposal, an approval has one instruction, every stored document is valid, and rows are never
  changed but for the one step of an instruction from pending to consumed.
\<close>


section \<open>What a JSONB column preserves\<close>

definition jsonb :: "(json \<Rightarrow> json) \<Rightarrow> bool" where
  "jsonb jb \<longleftrightarrow> (\<forall>v. js_prim v \<longrightarrow> jb v = v) \<and> (\<forall>xs. jb (JArr xs) = JArr (map jb xs))
     \<and> (\<forall>kvs. isRecord (jb (JObj kvs)) \<and> set (jkeys (jb (JObj kvs))) \<subseteq> set (jkeys (JObj kvs))
          \<and> (\<forall>k. jget (jb (JObj kvs)) k = jb (jget (JObj kvs) k)))"

lemma jsonb_id: "jsonb (\<lambda>v. v)"
  by (simp add: jsonb_def)

lemma jsonb_test:
  assumes "jsonb jb" "\<And>kvs. \<not> P (JObj kvs)" "\<And>xs. \<not> P (JArr xs)"
  shows "P (jb v) \<longleftrightarrow> P v"
proof (cases v)
  case (JObj kvs)
  have "isRecord (jb (JObj kvs))" using assms(1) unfolding jsonb_def by blast
  then obtain kvs' where "jb v = JObj kvs'" using JObj by (auto simp: isRecord_iff)
  with JObj assms(2) show ?thesis by simp
qed (use assms in \<open>auto simp: jsonb_def\<close>)

lemma jsonb_tests:
  assumes "jsonb jb"
  shows "isRunUuid (jb v) \<longleftrightarrow> isRunUuid v" "js_includes ks (jb v) \<longleftrightarrow> js_includes ks v"
    "nonNegativeNumber (jb v) \<longleftrightarrow> nonNegativeNumber v" "isNumber (jb v) \<longleftrightarrow> isNumber v"
    "jb v = JNull \<longleftrightarrow> v = JNull"
  by (rule jsonb_test [OF assms]; simp add: js_includes_def nonNegativeNumber_def list_ex_iff)+

lemma jsonb_array: "jsonb jb \<Longrightarrow> isArray v \<Longrightarrow> isArray (jb v) \<and> jelems (jb v) = map jb (jelems v)"
  by (cases v) (auto simp: jsonb_def)

lemma jsonb_get: "jsonb jb \<Longrightarrow> isRecord v \<Longrightarrow> jget (jb v) k = jb (jget v k)"
  by (cases v) (auto simp: jsonb_def)

lemma jsonb_record: "jsonb jb \<Longrightarrow> isRecord v \<Longrightarrow> isRecord (jb v) \<and> set (jkeys (jb v)) \<subseteq> set (jkeys v)"
  unfolding isRecord_iff jsonb_def by blast

lemma comparison_valid_iff:
  "validateComparison v f = [] \<longleftrightarrow> isRecord v \<and> set (jkeys v) \<subseteq> {''metric'', ''baseline_median'', ''values'',
     ''best_snapshot_id'', ''best_value'', ''delta_from_median'', ''delta_percent'', ''direction''}
   \<and> js_includes OPTIMIZATION_REQUIRED_METRICS (jget v ''metric'') \<and> nonNegativeNumber (jget v ''baseline_median'')
   \<and> (isArray (jget v ''values'') \<and> jelems (jget v ''values'') \<noteq> [] \<and> list_all nonNegativeNumber (jelems (jget v ''values'')))
   \<and> isRunUuid (jget v ''best_snapshot_id'') \<and> nonNegativeNumber (jget v ''best_value'')
   \<and> isNumber (jget v ''delta_from_median'') \<and> (jget v ''delta_percent'' = JNull \<or> isNumber (jget v ''delta_percent''))
   \<and> js_includes [''higher_is_better''] (jget v ''direction'')"
  apply (cases "isRecord v")
   apply (simp_all only: validateComparison_def if_True if_False not_True_eq_False not_False_eq_True)
   apply (simp_all only: append_is_Nil_conv extra_keys_Nil requireEnum_Nil requireUuids_Nil ensure_Nil_iff list.set)
   apply simp_all
  done

lemma jsonb_numbers: "jsonb jb \<Longrightarrow> isArray v \<Longrightarrow> list_all nonNegativeNumber (jelems (jb v)) \<longleftrightarrow> list_all nonNegativeNumber (jelems v)"
  by (simp add: jsonb_array list_all_iff jsonb_tests(3))

lemma jsonb_comparison:
  assumes "jsonb jb" "validateComparison v f = []"
  shows "validateComparison (jb v) f = []"
proof -
  note c = assms(2) [unfolded comparison_valid_iff]
  have r: "isRecord v" and a: "isArray (jget v ''values'')" and ne: "jelems (jget v ''values'') \<noteq> []"
    using c by - (elim conjE, assumption)+
  have k: "set (jkeys (jb v)) \<subseteq> set (jkeys v)" "isRecord (jb v)" using jsonb_record [OF assms(1) r] by blast+
  have e: "isArray (jb (jget v ''values''))" "jelems (jb (jget v ''values'')) \<noteq> []" using jsonb_array [OF assms(1) a] ne by simp_all
  show ?thesis
    unfolding comparison_valid_iff jsonb_get [OF assms(1) r] jsonb_tests [OF assms(1)] jsonb_numbers [OF assms(1) a]
    using c k e by - (elim conjE, intro conjI; (assumption | erule (1) order.trans))
qed

lemma jsonb_ids: "jsonb jb \<Longrightarrow> snapshot_ids v f = [] \<Longrightarrow> snapshot_ids (jb v) f = []"
  using jsonb_array [of jb v] jsonb_tests(1) [of jb]
  by (auto simp: snapshot_ids_def requireAll_Nil split: if_splits)


section \<open>When a stored row is a valid document\<close>

definition comparisons_valid :: "json \<Rightarrow> bool" where
  "comparisons_valid v \<longleftrightarrow> isArray v \<and> jelems v \<noteq> []
     \<and> requireAll (\<lambda>i c. validateComparison c (index_field ''proposal.deterministic_comparison'' i '''')) v = []"

definition scope_valid :: "scope \<Rightarrow> bool" where
  "scope_valid c \<longleftrightarrow> isRunUuid (JStr (sc_business c)) \<and> isRunUuid (JStr (sc_strategy c)) \<and> sc_version c \<ge> 1
     \<and> isRunUuid (JStr (sc_cycle c)) \<and> js_includes OPTIMIZATION_FORMATS (JStr (sc_format c)) \<and> isSha256 (JStr (sc_checksum c))"

lemma jsonb_comparisons: "jsonb jb \<Longrightarrow> comparisons_valid v \<Longrightarrow> comparisons_valid (jb v)"
  using jsonb_array [of jb v] jsonb_comparison [of jb] by (auto simp: comparisons_valid_def requireAll_Nil)

lemma proposal_json_get:
  "isRecord (proposal_json p)" "jkeys (proposal_json p) = PROPOSAL_KEYS"
  "jget (proposal_json p) ''contract_version'' = JStr (op_contract p)" "jget (proposal_json p) ''proposal_id'' = JStr (op_id p)"
  "jget (proposal_json p) ''business_id'' = JStr (sc_business (op_scope p))"
  "jget (proposal_json p) ''strategy_id'' = JStr (sc_strategy (op_scope p))"
  "jget (proposal_json p) ''strategy_version'' = JNum (of_int (sc_version (op_scope p)))"
  "jget (proposal_json p) ''content_cycle_id'' = JStr (sc_cycle (op_scope p))"
  "jget (proposal_json p) ''format_cohort'' = JStr (sc_format (op_scope p))"
  "jget (proposal_json p) ''basis_snapshot_ids'' = op_basis p"
  "jget (proposal_json p) ''evidence_checksum'' = JStr (sc_checksum (op_scope p))"
  "jget (proposal_json p) ''deterministic_comparison'' = op_comparison p"
  "jget (proposal_json p) ''change_kind'' = JStr (op_kind p)" "jget (proposal_json p) ''summary'' = JStr (op_summary p)"
  "jget (proposal_json p) ''rationale'' = JStr (op_rationale p)" "jget (proposal_json p) ''uncertainty'' = JStr (op_uncertainty p)"
  "jget (proposal_json p) ''instruction'' = JStr (op_instruction p)" "jget (proposal_json p) ''model_version'' = JStr (op_model p)"
  "jget (proposal_json p) ''prompt_version'' = JStr (op_prompt p)"
  "jget (proposal_json p) ''generation_fingerprint'' = JStr (op_fingerprint p)"
  "jget (proposal_json p) ''status'' = JStr (op_status p)" "jget (proposal_json p) ''created_at'' = iso (op_created p)"
  by (simp_all add: proposal_json_def PROPOSAL_KEYS_def Let_def)

definition text_ok :: "json \<Rightarrow> string \<Rightarrow> string \<Rightarrow> bool" where
  "text_ok v f k \<longleftrightarrow> generated_texts v f [k] = []"

lemma generated_texts_Nil: "generated_texts v f ks = [] \<longleftrightarrow> (\<forall>k \<in> set ks. text_ok v f k)"
  by (auto simp: generated_texts_def text_ok_def)

lemma text_ok_cong: "jget v k = jget w k \<Longrightarrow> text_ok v f k \<longleftrightarrow> text_ok w f k"
  by (simp add: text_ok_def generated_texts_def)

lemma proposal_valid_iff:
  "valid (validateOptimizationProposalV1 E (proposal_json p)) \<longleftrightarrow>
     op_contract p = ''optimization-v1'' \<and> isRunUuid (JStr (op_id p)) \<and> scope_valid (op_scope p)
     \<and> snapshot_ids (op_basis p) ''proposal.basis_snapshot_ids'' = [] \<and> comparisons_valid (op_comparison p)
     \<and> js_includes OPTIMIZATION_CHANGE_KINDS (JStr (op_kind p))
     \<and> (\<forall>k \<in> {''summary'', ''rationale'', ''uncertainty'', ''instruction''}. text_ok (proposal_json p) ''proposal'' k)
     \<and> isNonEmptyString (JStr (op_model p)) \<and> op_prompt p = ''optimization-prompt-v1'' \<and> isSha256 (JStr (op_fingerprint p))
     \<and> op_status p = ''PENDING_OWNER_DECISION'' \<and> opt_date E (iso (op_created p))"
  unfolding validateOptimizationProposalV1_def check_record_valid append_is_Nil_conv extra_keys_Nil requireUuids_Nil
    requireEnum_Nil ensure_Nil_iff ensure_each_Nil_iff proposal_json_get validateIdentity_def generated_texts_Nil
    comparisons_valid_def scope_valid_def Let_def
  by (auto simp: isInteger.simps js_includes_def proposal_json_get simp del: isRunUuid.simps isSha256.simps isNonEmptyString.simps)

lemma stored_get:
  "op_id (stored jb p) = op_id p" "op_scope (stored jb p) = op_scope p" "op_kind (stored jb p) = op_kind p"
  "op_instruction (stored jb p) = op_instruction p" "op_fingerprint (stored jb p) = op_fingerprint p"
  by (simp_all add: stored_def)

lemma stored_valid:
  assumes "jsonb jb" "valid (validateOptimizationProposalV1 E (proposal_json p))"
  shows "valid (validateOptimizationProposalV1 E (proposal_json (stored jb p)))"
proof -
  have t: "text_ok (proposal_json (stored jb p)) ''proposal'' k \<longleftrightarrow> text_ok (proposal_json p) ''proposal'' k"
    if "k \<in> {''summary'', ''rationale'', ''uncertainty'', ''instruction''}" for k
    by (rule text_ok_cong) (use that in \<open>auto simp: proposal_json_get stored_def\<close>)
  note v = assms(2) [unfolded proposal_valid_iff]
  have "snapshot_ids (jb (op_basis p)) ''proposal.basis_snapshot_ids'' = []" "comparisons_valid (jb (op_comparison p))"
    using v jsonb_ids [OF assms(1)] jsonb_comparisons [OF assms(1)] by blast+
  with v t show ?thesis unfolding proposal_valid_iff by (simp add: stored_def)
qed

lemma decision_json_get:
  "isRecord (decision_json d)" "jget (decision_json d) ''decision_id'' = JStr (de_id d)"
  "jget (decision_json d) ''proposal_id'' = JStr (de_proposal d)" "jget (decision_json d) ''business_id'' = JStr (sc_business (de_scope d))"
  "jget (decision_json d) ''strategy_id'' = JStr (sc_strategy (de_scope d))"
  "jget (decision_json d) ''strategy_version'' = JNum (of_int (sc_version (de_scope d)))"
  "jget (decision_json d) ''content_cycle_id'' = JStr (sc_cycle (de_scope d))"
  "jget (decision_json d) ''format_cohort'' = JStr (sc_format (de_scope d))"
  "jget (decision_json d) ''evidence_checksum'' = JStr (sc_checksum (de_scope d))" "jget (decision_json d) ''action'' = JStr (de_action d)"
  "decision_json d \<noteq> JNull"
  by (simp_all add: decision_json_def Let_def)

lemma decision_action: "valid (validateOptimizationDecisionV1 E (decision_json d)) \<Longrightarrow> de_action d \<in> {''approve'', ''dismiss''}"
  unfolding validateOptimizationDecisionV1_def check_record_valid append_is_Nil_conv requireEnum_Nil
  by (simp add: decision_json_get OPTIMIZATION_DECISION_ACTIONS_def js_includes_def)

lemma instruction_json_get:
  "isRecord (instruction_json i)" "jkeys (instruction_json i) = INSTRUCTION_KEYS"
  "jget (instruction_json i) ''contract_version'' = JStr (in_contract i)" "jget (instruction_json i) ''instruction_id'' = JStr (in_id i)"
  "jget (instruction_json i) ''proposal_id'' = JStr (in_proposal i)"
  "jget (instruction_json i) ''approved_decision_id'' = JStr (in_decision i)"
  "jget (instruction_json i) ''business_id'' = JStr (sc_business (in_scope i))"
  "jget (instruction_json i) ''strategy_id'' = JStr (sc_strategy (in_scope i))"
  "jget (instruction_json i) ''strategy_version'' = JNum (of_int (sc_version (in_scope i)))"
  "jget (instruction_json i) ''content_cycle_id'' = JStr (sc_cycle (in_scope i))"
  "jget (instruction_json i) ''format_cohort'' = JStr (sc_format (in_scope i))"
  "jget (instruction_json i) ''evidence_checksum'' = JStr (sc_checksum (in_scope i))"
  "jget (instruction_json i) ''change_kind'' = JStr (in_kind i)" "jget (instruction_json i) ''instruction'' = JStr (in_text i)"
  "jget (instruction_json i) ''status'' = JStr (in_status i)"
  "jget (instruction_json i) ''consumed_content_pack_id'' = opt_null JStr (in_pack i)"
  "jget (instruction_json i) ''consumed_week_plan_id'' = opt_null JStr (in_plan i)"
  "jget (instruction_json i) ''approved_at'' = iso (in_approved i)" "jget (instruction_json i) ''consumed_at'' = opt_null iso (in_consumed i)"
  "jget (instruction_json i) ''superseded_at'' = opt_null iso (in_superseded i)"
  "jget (instruction_json i) ''created_at'' = iso (in_created i)" "jget (instruction_json i) ''updated_at'' = iso (in_updated i)"
  "instruction_json i \<noteq> JNull"
  by (simp_all add: instruction_json_def INSTRUCTION_KEYS_def Let_def)

lemma opt_null_JNull: "opt_null JStr v = JNull \<longleftrightarrow> v = None" "opt_null iso t = JNull \<longleftrightarrow> t = None"
  by (simp_all add: opt_null_def iso_def split: option.split)

text \<open>The parts of an instruction that never change, and those that its consumption writes.\<close>

definition instruction_core :: "js_env \<Rightarrow> instruction_row \<Rightarrow> bool" where
  "instruction_core E i \<longleftrightarrow> in_contract i = ''optimization-instruction-v1'' \<and> isRunUuid (JStr (in_id i))
     \<and> isRunUuid (JStr (in_proposal i)) \<and> isRunUuid (JStr (in_decision i)) \<and> scope_valid (in_scope i)
     \<and> js_includes OPTIMIZATION_CHANGE_KINDS (JStr (in_kind i)) \<and> text_ok (JObj [(''instruction'', JStr (in_text i))]) ''instruction'' ''instruction''
     \<and> opt_date E (iso (in_approved i)) \<and> opt_date E (iso (in_created i))"

definition instruction_life :: "js_env \<Rightarrow> instruction_row \<Rightarrow> bool" where
  "instruction_life E i \<longleftrightarrow> js_includes OPTIMIZATION_INSTRUCTION_STATUSES (JStr (in_status i))
     \<and> (\<forall>x \<in> {opt_null JStr (in_pack i), opt_null JStr (in_plan i)}. x = JNull \<or> isRunUuid x)
     \<and> opt_date E (iso (in_updated i))
     \<and> (\<forall>x \<in> {opt_null iso (in_consumed i), opt_null iso (in_superseded i)}. x = JNull \<or> opt_date E x)
     \<and> instruction_shape (instruction_json i) = []"

lemma instruction_valid_iff:
  "valid (validateApprovedOptimizationInstructionV1 E (instruction_json i)) \<longleftrightarrow> instruction_core E i \<and> instruction_life E i"
proof -
  have t: "text_ok (instruction_json i) ''instruction'' ''instruction'' \<longleftrightarrow>
      text_ok (JObj [(''instruction'', JStr (in_text i))]) ''instruction'' ''instruction''"
    by (rule text_ok_cong) (simp add: instruction_json_get)
  show ?thesis
    unfolding validateApprovedOptimizationInstructionV1_def check_record_valid append_is_Nil_conv extra_keys_Nil requireUuids_Nil
      requireEnum_Nil ensure_Nil_iff ensure_each_Nil_iff validateIdentity_def generated_texts_Nil
      instruction_core_def instruction_life_def scope_valid_def
    by (auto simp: isInteger.simps js_includes_def instruction_json_get t
        simp del: isRunUuid.simps isSha256.simps isNonEmptyString.simps)
qed


section \<open>Workspaces\<close>

definition decides :: "decision_row \<Rightarrow> proposal_row \<Rightarrow> bool" where
  "decides d p \<longleftrightarrow> de_proposal d = op_id p \<and> de_scope d = op_scope p"

definition carries :: "instruction_row \<Rightarrow> decision_row \<Rightarrow> proposal_row \<Rightarrow> bool" where
  "carries i d p \<longleftrightarrow> in_proposal i = op_id p \<and> in_scope i = op_scope p \<and> in_kind i = op_kind p \<and> in_text i = op_instruction p
     \<and> in_decision i = de_id d \<and> de_action d = ''approve'' \<and> decides d p"

definition bound :: "proposal_row \<Rightarrow> decision_row option \<Rightarrow> instruction_row option \<Rightarrow> bool" where
  "bound p D I \<longleftrightarrow> (\<forall>d. D = Some d \<longrightarrow> decides d p \<and> (de_action d = ''approve'' \<longrightarrow> I \<noteq> None))
     \<and> (\<forall>i. I = Some i \<longrightarrow> (\<exists>d. D = Some d \<and> carries i d p))"

lemma instruction_status:
  "valid (validateApprovedOptimizationInstructionV1 E (instruction_json i)) \<Longrightarrow>
    in_status i \<in> {''PENDING_CONSUMPTION'', ''CONSUMED'', ''SUPERSEDED'', ''EXPIRED''}"
  unfolding instruction_valid_iff instruction_life_def
  by (simp add: js_includes_def OPTIMIZATION_INSTRUCTION_STATUSES_def)

lemma workspace_json_get:
  "isRecord (workspace_json p D I)" "jkeys (workspace_json p D I) = [''contract_version'', ''proposal'', ''state'', ''decision'', ''instruction'']"
  "jget (workspace_json p D I) ''contract_version'' = JStr ''optimization-v1''" "jget (workspace_json p D I) ''proposal'' = proposal_json p"
  "jget (workspace_json p D I) ''state'' = JStr (workspace_state D I)" "jget (workspace_json p D I) ''decision'' = opt_null decision_json D"
  "jget (workspace_json p D I) ''instruction'' = opt_null instruction_json I"
  by (simp_all add: workspace_json_def)

lemma state_known: "js_includes OPTIMIZATION_PROPOSAL_WORKSPACE_STATES (JStr (workspace_state D I))"
  by (auto simp: workspace_state_def OPTIMIZATION_PROPOSAL_WORKSPACE_STATES_def js_includes_def)

lemma workspace_decision_ok:
  assumes "valid (validateOptimizationDecisionV1 E (decision_json d))" "decides d p"
  shows "workspace_decision E (proposal_json p) (decision_json d) = []"
  using assms
  by (simp add: workspace_decision_def validateOptimizationDecisionV1_def decision_json_get proposal_json_get same_fields_def identity_fields_def decides_def)

lemma workspace_instruction_ok:
  assumes "valid (validateApprovedOptimizationInstructionV1 E (instruction_json i))" "carries i d p"
  shows "workspace_instruction E (proposal_json p) (decision_json d) (instruction_json i) = []"
  using assms
  by (simp add: workspace_instruction_def validateApprovedOptimizationInstructionV1_def decision_json_get proposal_json_get
      instruction_json_get same_fields_def identity_fields_def carries_def)

lemma workspace_state_expected:
  assumes "bound p D I"
    "\<And>d. D = Some d \<Longrightarrow> de_action d \<in> {''approve'', ''dismiss''}"
    "\<And>i. I = Some i \<Longrightarrow> in_status i \<in> {''PENDING_CONSUMPTION'', ''CONSUMED'', ''SUPERSEDED'', ''EXPIRED''}"
  shows "workspace_state D I = expected_state (opt_null decision_json D)
      (if isRecord (opt_null instruction_json I) then opt_null instruction_json I else JNull)"
proof (cases D)
  case None
  then have "I = None" using assms(1) by (auto simp: bound_def)
  with None show ?thesis by (simp add: workspace_state_def expected_state_def opt_null_def)
next
  case (Some d)
  note D = Some
  show ?thesis
  proof (cases I)
    case None
    then have "de_action d = ''dismiss''" using assms(1) assms(2) [OF D] D by (auto simp: bound_def)
    with D None show ?thesis by (simp add: workspace_state_def expected_state_def opt_null_def decision_json_get)
  next
    case (Some i)
    then have "de_action d = ''approve''" using assms(1) D by (auto simp: bound_def carries_def)
    with D Some assms(3) [OF Some] show ?thesis
      by (auto simp: workspace_state_def expected_state_def opt_null_def decision_json_get instruction_json_get)
  qed
qed

lemma workspace_valid:
  assumes "bound p D I" "valid (validateOptimizationProposalV1 E (proposal_json p))"
    "\<And>d. D = Some d \<Longrightarrow> valid (validateOptimizationDecisionV1 E (decision_json d))"
    "\<And>i. I = Some i \<Longrightarrow> valid (validateApprovedOptimizationInstructionV1 E (instruction_json i))"
  shows "valid (validateOptimizationProposalWorkspaceV1 E (workspace_json p D I))"
proof -
  have p: "issues (validateOptimizationProposalV1 E (proposal_json p)) = []"
    using assms(2) by (simp add: validateOptimizationProposalV1_def)
  have d: "workspace_decision E (proposal_json p) (opt_null decision_json D) = []"
  proof (cases D)
    case (Some e)
    then have "decides e p" using assms(1) by (simp add: bound_def)
    with Some show ?thesis using workspace_decision_ok [OF assms(3) [OF Some]] by (simp add: opt_null_def)
  qed (simp add: opt_null_def workspace_decision_def)
  have i: "workspace_instruction E (proposal_json p) (opt_null decision_json D) (opt_null instruction_json I) = []"
  proof (cases I)
    case (Some j)
    then obtain e where "D = Some e" "carries j e p" using assms(1) by (auto simp: bound_def)
    with Some show ?thesis using workspace_instruction_ok [OF assms(4) [OF Some]] by (simp add: opt_null_def)
  qed (simp add: opt_null_def workspace_instruction_def)
  have a: "\<not> (de_action e = ''approve'' \<and> I = None)" "\<not> (de_action e = ''dismiss'' \<and> I \<noteq> None)" if "D = Some e" for e
    using assms(1) that by (auto simp: bound_def carries_def)
  have n: "opt_null instruction_json I = JNull \<longleftrightarrow> I = None" by (simp add: opt_null_def instruction_json_get split: option.split)
  have c: "isRecord (opt_null decision_json D) \<Longrightarrow> \<exists>e. D = Some e \<and> opt_null decision_json D = decision_json e"
    by (cases D) (auto simp: opt_null_def)
  have e: "workspace_state D I = expected_state (opt_null decision_json D)
      (if isRecord (opt_null instruction_json I) then opt_null instruction_json I else JNull)"
    by (rule workspace_state_expected [OF assms(1)]) (use assms(3,4) decision_action instruction_status in blast)+
  show ?thesis
    unfolding validateOptimizationProposalWorkspaceV1_def check_record_valid workspace_json_get Let_def append_is_Nil_conv
      extra_keys_Nil ensure_Nil_iff requireEnum_Nil p d i n e [symmetric]
    using c a by (auto simp: state_known decision_json_get workspace_json_get)
qed


section \<open>The tables\<close>

lemma clash_laws:
  "proposal_clash p p" "proposal_clash p q \<longleftrightarrow> proposal_clash q p" "decision_clash d d" "decision_clash d e \<longleftrightarrow> decision_clash e d"
  "instruction_clash i i" "instruction_clash i j \<longleftrightarrow> instruction_clash j i"
  unfolding proposal_clash_def decision_clash_def instruction_clash_def by (simp | metis)+

definition valid_proposal :: "js_env \<Rightarrow> proposal_row \<Rightarrow> bool" where
  "valid_proposal E p \<longleftrightarrow> valid (validateOptimizationProposalV1 E (proposal_json p))"

definition valid_decision :: "js_env \<Rightarrow> decision_row \<Rightarrow> bool" where
  "valid_decision E d \<longleftrightarrow> valid (validateOptimizationDecisionV1 E (decision_json d))"

definition valid_instruction :: "js_env \<Rightarrow> instruction_row \<Rightarrow> bool" where
  "valid_instruction E i \<longleftrightarrow> valid (validateApprovedOptimizationInstructionV1 E (instruction_json i))"

definition opt_keyed :: "opt_db \<Rightarrow> bool" where
  "opt_keyed s \<longleftrightarrow> keyed proposal_clash (proposals s) \<and> keyed decision_clash (decisions s)
     \<and> keyed instruction_clash (instructions s)"

definition opt_bound :: "opt_db \<Rightarrow> bool" where
  "opt_bound s \<longleftrightarrow>
     (\<forall>d \<in> set (decisions s). \<exists>p \<in> set (proposals s). decides d p)
   \<and> (\<forall>d \<in> set (decisions s). de_action d = ''approve'' \<longrightarrow>
        (\<exists>i \<in> set (instructions s). in_decision i = de_id d \<and> in_proposal i = de_proposal d))
   \<and> (\<forall>i \<in> set (instructions s). \<exists>p \<in> set (proposals s). \<exists>d \<in> set (decisions s). carries i d p)"

definition opt_valid :: "js_env \<Rightarrow> opt_db \<Rightarrow> bool" where
  "opt_valid E s \<longleftrightarrow> (\<forall>p \<in> set (proposals s). valid_proposal E p) \<and> (\<forall>d \<in> set (decisions s). valid_decision E d)
     \<and> (\<forall>i \<in> set (instructions s). valid_instruction E i)"

definition opt_ok :: "js_env \<Rightarrow> opt_db \<Rightarrow> bool" where
  "opt_ok E s \<longleftrightarrow> opt_keyed s \<and> opt_bound s \<and> opt_valid E s"

definition opt_empty :: opt_db where
  "opt_empty = \<lparr>proposals = [], decisions = [], instructions = []\<rparr>"

lemma opt_ok_empty: "opt_ok E opt_empty"
  by (simp add: opt_ok_def opt_empty_def opt_keyed_def opt_bound_def opt_valid_def)

lemma decision_of_D: "decision_of k s = Some d \<Longrightarrow> d \<in> set (decisions s) \<and> de_proposal d = k"
  unfolding decision_of_def by (rule tbl_find_SomeD)

lemma instruction_of_D: "instruction_of k s = Some i \<Longrightarrow> i \<in> set (instructions s) \<and> in_proposal i = k"
  unfolding instruction_of_def by (rule tbl_find_SomeD)

text \<open>The rows of a proposal are bound to it.\<close>

lemma opt_ok_bound:
  assumes "opt_keyed s" "opt_bound s" "p \<in> set (proposals s)"
  shows "bound p (decision_of (op_id p) s) (instruction_of (op_id p) s)"
proof -
  have only: "q = p" if "q \<in> set (proposals s)" "op_id q = op_id p" for q
    using keyedD [of proposal_clash "proposals s" q p] assms(1,3) that by (auto simp: opt_keyed_def proposal_clash_def)
  have dec: "decides d p" if "decision_of (op_id p) s = Some d" for d
  proof -
    have d: "d \<in> set (decisions s)" "de_proposal d = op_id p" using decision_of_D [OF that] by simp_all
    then obtain q where q: "q \<in> set (proposals s)" "decides d q" using assms(2) by (auto simp: opt_bound_def)
    then have "q = p" using only d(2) by (simp add: decides_def)
    with q show ?thesis by simp
  qed
  have one: "decision_of (op_id p) s = Some d" if d: "d \<in> set (decisions s)" "de_proposal d = op_id p" for d
  proof -
    obtain e where e: "decision_of (op_id p) s = Some e"
      using d by (cases "decision_of (op_id p) s") (auto simp: decision_of_def tbl_find_None_iff)
    have "e \<in> set (decisions s)" "de_proposal e = op_id p" using decision_of_D [OF e] by simp_all
    then have "e = d"
      using keyedD [of decision_clash "decisions s" e d] assms(1) d by (auto simp: opt_keyed_def decision_clash_def)
    with e show ?thesis by simp
  qed
  have ins: "\<exists>d. decision_of (op_id p) s = Some d \<and> carries i d p" if "instruction_of (op_id p) s = Some i" for i
  proof -
    have "i \<in> set (instructions s)" "in_proposal i = op_id p" using instruction_of_D [OF that] by simp_all
    then obtain q d where q: "q \<in> set (proposals s)" "d \<in> set (decisions s)" "carries i d q" "op_id q = op_id p"
      using assms(2) by (auto simp: opt_bound_def carries_def)
    have "q = p" using only q(1,4) .
    with q one [of d] show ?thesis by (auto simp: carries_def decides_def)
  qed
  have app: "instruction_of (op_id p) s \<noteq> None" if "decision_of (op_id p) s = Some d" "de_action d = ''approve''" for d
  proof -
    have "d \<in> set (decisions s)" "de_proposal d = op_id p" using decision_of_D [OF that(1)] by simp_all
    with assms(2) that(2) obtain i where "i \<in> set (instructions s)" "in_proposal i = op_id p" by (auto simp: opt_bound_def)
    then show ?thesis by (auto simp: instruction_of_def tbl_find_None_iff)
  qed
  show ?thesis using dec ins app by (auto simp: bound_def)
qed

text \<open>Every proposal loads as a valid workspace.\<close>

lemma workspace_loads:
  assumes "opt_ok E s" "p \<in> set (proposals s)"
  shows "toWorkspaceContract E s p = Inr (workspace_json p (decision_of (op_id p) s) (instruction_of (op_id p) s))"
proof -
  let ?D = "decision_of (op_id p) s" and ?I = "instruction_of (op_id p) s"
  have s: "opt_keyed s" "opt_bound s" "opt_valid E s" using assms(1) by (simp_all add: opt_ok_def)
  have p: "valid (validateOptimizationProposalV1 E (proposal_json p))" using s(3) assms(2) by (simp add: opt_valid_def valid_proposal_def)
  have d: "valid (validateOptimizationDecisionV1 E (decision_json d))" if "?D = Some d" for d
    using decision_of_D [OF that] s(3) by (simp add: opt_valid_def valid_decision_def)
  have i: "valid (validateApprovedOptimizationInstructionV1 E (instruction_json i))" if "?I = Some i" for i
    using instruction_of_D [OF that] s(3) by (simp add: opt_valid_def valid_instruction_def)
  have w: "valid (validateOptimizationProposalWorkspaceV1 E (workspace_json p ?D ?I))"
    by (rule workspace_valid [OF opt_ok_bound [OF s(1,2) assms(2)] p d i])
  have "opt_check (toDecisionContract E) ?D = Inr ()" using d by (cases ?D) (simp_all add: opt_check_def toDecisionContract_def checked_def)
  moreover have "opt_check (toInstructionContract E) ?I = Inr ()"
    using i by (cases ?I) (simp_all add: opt_check_def toInstructionContract_def checked_def)
  ultimately show ?thesis using p w by (simp add: toWorkspaceContract_def toProposalContract_def checked_def Let_def)
qed



section \<open>Every operation keeps the tables in order\<close>

lemma put_simps [simp]:
  "proposals (put_proposals ps s) = ps" "decisions (put_proposals ps s) = decisions s" "instructions (put_proposals ps s) = instructions s"
  "proposals (put_decisions ds s) = proposals s" "decisions (put_decisions ds s) = ds" "instructions (put_decisions ds s) = instructions s"
  "proposals (put_instructions is s) = proposals s" "decisions (put_instructions is s) = decisions s" "instructions (put_instructions is s) = is"
  by (simp_all add: put_proposals_def put_decisions_def put_instructions_def)

lemma proposal_added:
  assumes "opt_ok E s" "valid_proposal E p" "\<not> (\<exists>q \<in> set (proposals s). proposal_clash p q)"
  shows "opt_ok E (put_proposals (proposals s @ [p]) s)"
  using assms keyed_insert [of proposal_clash "proposals s" p]
  by (auto simp: opt_ok_def opt_keyed_def opt_bound_def opt_valid_def clash_laws)

lemma bind_lift: "act_bind (act_lift (Inr a)) f = f a"
  by (simp add: act_bind_def fun_eq_iff)

lemma catch_ok: "I (snd (m s)) \<Longrightarrow> (\<And>e. keeps I (h e)) \<Longrightarrow> I (snd (act_catch m h s))"
  by (fastforce simp: act_catch_def keeps_def split: prod.split sum.split)

lemma seq_lift_ok: "I (snd (m s)) \<Longrightarrow> I (snd (act_seq m (act_lift r) s))"
  by (auto simp: act_seq_def act_bind_def act_lift_def split: prod.split sum.split)

lemma createProposal_keeps: "jsonb jb \<Longrightarrow> keeps (opt_ok E) (createProposal E jb p c)"
proof (rule keepsI)
  fix s assume jb: "jsonb jb" and s: "opt_ok E s"
  let ?p = "p\<lparr>op_id := call_id c 0, op_created := call_now c\<rparr>"
  let ?i = "insert_proposal jb ?p" and ?l = "act_lift (toProposalContract E (stored jb ?p))"
  show "opt_ok E (snd (createProposal E jb p c s))"
  proof (cases "valid (validateOptimizationProposalV1 E (proposal_json ?p))")
    case False
    then show ?thesis using s by (simp add: createProposal_def checked_def act_bind_def Let_def)
  next
    case True
    have i: "opt_ok E (snd (?i s))"
    proof (cases "proposal_checks ?p \<and> \<not> (\<exists>q \<in> set (proposals s). proposal_clash (stored jb ?p) q)")
      case t: True
      then have "snd (?i s) = put_proposals (proposals s @ [stored jb ?p]) s" by (auto simp: insert_proposal_def act_insert_def)
      with proposal_added [OF s _ conjunct2 [OF t]] stored_valid [OF jb True] show ?thesis by (simp add: valid_proposal_def)
    qed (use s in \<open>auto simp: insert_proposal_def act_insert_def\<close>)
    have r: "opt_ok E (snd (act_seq ?i ?l s))" by (rule seq_lift_ok [where I = "opt_ok E" and m = ?i and s = s]) (rule i)
    show ?thesis
      unfolding createProposal_def Let_def checked_def if_P [OF True] bind_lift
      by (rule catch_ok [where I = "opt_ok E"], rule r, intro keeps_intros)
  qed
qed

lemma toWorkspace_Inr:
  assumes "toWorkspaceContract E s p = Inr w"
  shows "\<And>d. decision_of (op_id p) s = Some d \<Longrightarrow> valid_decision E d"
    and "\<And>i. instruction_of (op_id p) s = Some i \<Longrightarrow> valid_instruction E i"
  using assms
  by (auto simp: toWorkspaceContract_def Let_def throws_bind_Inr_iff opt_check_def toDecisionContract_def toInstructionContract_def
      checked_def valid_decision_def valid_instruction_def split: if_splits option.splits)

lemma decision_lookup_reads: "snd (decision_lookup E i s) = s"
  by (auto simp: decision_lookup_def answer_decision_def loadWorkspaceWithin_def conflict_def action_defs split: option.splits sum.splits)

definition decided :: "decision_input \<Rightarrow> proposal_row \<Rightarrow> call \<Rightarrow> opt_db \<Rightarrow> opt_db" where
  "decided i p c s =
     (let t = put_decisions (decisions s @ [new_decision i p c]) s in
      if di_action i = ''approve'' then put_instructions (instructions s @ [new_instruction p c]) t else t)"

text \<open>What a decision that was committed did.\<close>

lemma decision_commit_cases:
  assumes "decision_commit E i c s = (Inr w, t)"
  obtains (replay) "t = s"
  | (fresh) p where "find_proposal (di_business i) (di_proposal i) s = Some p" "sc_checksum (op_scope p) = di_checksum i"
      "decision_of (di_proposal i) s = None" "\<not> (\<exists>e \<in> set (decisions s). decision_clash (new_decision i p c) e)"
      "di_action i = ''approve'' \<Longrightarrow> \<not> (\<exists>j \<in> set (instructions s). instruction_clash (new_instruction p c) j)"
      "t = decided i p c s" "toWorkspaceContract E t p = Inr w"
proof -
  obtain p where p: "find_proposal (di_business i) (di_proposal i) s = Some p" "sc_checksum (op_scope p) = di_checksum i"
    using assms by (auto simp: decision_commit_def conflict_def action_defs split: option.splits if_splits)
  show thesis
  proof (cases "decision_of (di_proposal i) s")
    case (Some d)
    then show thesis using assms p replay
      by (auto simp: decision_commit_def conflict_def loadWorkspaceWithin_def act_bind_def act_read_def act_throw_def split: if_splits)
  next
    case None
    let ?d = "new_decision i p c" and ?j = "new_instruction p c"
    have run: "act_seq (insert_decision ?d) (act_seq (if di_action i = ''approve'' then insert_instruction ?j else act_return ())
        (loadWorkspaceWithin E (di_business i) (di_proposal i))) s = (Inr w, t)"
      using assms p None by (simp add: decision_commit_def act_bind_def act_read_def)
    obtain u where u: "insert_decision ?d s = (Inr (), u)"
      "act_seq (if di_action i = ''approve'' then insert_instruction ?j else act_return ())
        (loadWorkspaceWithin E (di_business i) (di_proposal i)) u = (Inr w, t)"
      using run by (auto elim: act_seq_InrE)
    have d: "u = put_decisions (decisions s @ [?d]) s" "\<not> (\<exists>e \<in> set (decisions s). decision_clash ?d e)"
      using u(1) by (auto simp: insert_decision_def act_insert_def split: if_splits)
    obtain v where v: "(if di_action i = ''approve'' then insert_instruction ?j else act_return ()) u = (Inr (), v)"
      "loadWorkspaceWithin E (di_business i) (di_proposal i) v = (Inr w, t)"
      using u(2) by (auto elim: act_seq_InrE)
    have j: "v = decided i p c s" "di_action i = ''approve'' \<Longrightarrow> \<not> (\<exists>k \<in> set (instructions s). instruction_clash ?j k)"
      using v(1) d(1) by (auto simp: insert_instruction_def act_insert_def act_return_def decided_def Let_def split: if_splits)
    have "find_proposal (di_business i) (di_proposal i) v = Some p"
      using p(1) by (simp add: j(1) find_proposal_def decided_def Let_def)
    then have "v = t \<and> toWorkspaceContract E v p = Inr w" using v(2) by (auto simp: loadWorkspaceWithin_def)
    then have "t = decided i p c s" "toWorkspaceContract E t p = Inr w" using j(1) by blast+
    then show thesis using j(2) by (intro fresh [OF p None d(2)]) simp_all
  qed
qed


lemma find_proposal_D: "find_proposal b k s = Some p \<Longrightarrow> p \<in> set (proposals s) \<and> op_id p = k \<and> sc_business (op_scope p) = b"
  unfolding find_proposal_def by (metis (mono_tags, lifting) find_Some_iff nth_mem)

lemma decision_of_added:
  "decision_of k s = None \<Longrightarrow> de_proposal d = k \<Longrightarrow> decision_of k (put_decisions (decisions s @ [d]) s) = Some d"
  by (simp add: decision_of_def tbl_find_append)

lemma carried: "opt_bound s \<Longrightarrow> i \<in> set (instructions s) \<Longrightarrow> \<exists>p \<in> set (proposals s). \<exists>d \<in> set (decisions s). carries i d p"
  by (simp add: opt_bound_def)

lemma decided_ok:
  assumes s: "opt_ok E s" and p: "p \<in> set (proposals s)" "op_id p = di_proposal i"
    and d: "decision_of (di_proposal i) s = None" "\<not> (\<exists>e \<in> set (decisions s). decision_clash (new_decision i p c) e)"
    and j: "di_action i = ''approve'' \<Longrightarrow> \<not> (\<exists>k \<in> set (instructions s). instruction_clash (new_instruction p c) k)"
    and w: "toWorkspaceContract E (decided i p c s) p = Inr w"
  shows "opt_ok E (decided i p c s)"
proof -
  let ?d = "new_decision i p c" and ?j = "new_instruction p c" and ?t = "decided i p c s"
  have tabs: "proposals ?t = proposals s" "decisions ?t = decisions s @ [?d]"
    "instructions ?t = (if di_action i = ''approve'' then instructions s @ [?j] else instructions s)"
    by (simp_all add: decided_def Let_def)
  have free: "in_proposal k \<noteq> di_proposal i" if k: "k \<in> set (instructions s)" for k
  proof
    assume "in_proposal k = di_proposal i"
    moreover obtain q e where "e \<in> set (decisions s)" "carries k e q" using carried [of s k] s k by (auto simp: opt_ok_def)
    ultimately have "e \<in> set (decisions s)" "de_proposal e = di_proposal i" by (auto simp: carries_def decides_def)
    with d(1) show False by (auto simp: decision_of_def tbl_find_None_iff)
  qed
  have vd: "valid_decision E ?d"
  proof -
    have "decision_of (op_id p) ?t = Some ?d"
      using d(1) p(2) by (simp add: decision_of_def tabs(2) tbl_find_append) (simp add: new_decision_def)
    then show ?thesis by (rule toWorkspace_Inr(1) [OF w])
  qed
  have vj: "valid_instruction E ?j" if a: "di_action i = ''approve''"
  proof -
    have "tbl_find in_proposal (op_id p) (instructions s) = None" using free p(2) by (auto simp: tbl_find_None_iff)
    then have "instruction_of (op_id p) ?t = Some ?j"
      by (simp add: instruction_of_def tabs(3) a tbl_find_append) (simp add: new_instruction_def)
    then show ?thesis by (rule toWorkspace_Inr(2) [OF w])
  qed
  have b: "decides ?d p" "de_action ?d = di_action i" "di_action i = ''approve'' \<Longrightarrow> carries ?j ?d p"
    by (simp_all add: decides_def carries_def new_decision_def new_instruction_def)
  have ids: "in_decision ?j = de_id ?d" "in_proposal ?j = de_proposal ?d"
    by (simp_all add: new_decision_def new_instruction_def)
  have k: "opt_keyed ?t"
    using s d(2) j keyed_insert [of decision_clash "decisions s" ?d] keyed_insert [of instruction_clash "instructions s" ?j]
    by (auto simp: opt_ok_def opt_keyed_def tabs clash_laws)
  have "opt_bound ?t"
    unfolding opt_bound_def tabs
  proof (intro conjI ballI impI)
    fix e assume "e \<in> set (decisions s @ [?d])"
    then show "\<exists>p \<in> set (proposals s). decides e p" using s p(1) b(1) by (auto simp: opt_ok_def opt_bound_def)
  next
    fix e assume e: "e \<in> set (decisions s @ [?d])" "de_action e = ''approve''"
    show "\<exists>k \<in> set (if di_action i = ''approve'' then instructions s @ [?j] else instructions s).
        in_decision k = de_id e \<and> in_proposal k = de_proposal e"
    proof (cases "e = ?d")
      case True
      with e(2) b(2) ids show ?thesis by auto
    next
      case False
      with e s show ?thesis by (auto simp: opt_ok_def opt_bound_def)
    qed
  next
    fix k assume "k \<in> set (if di_action i = ''approve'' then instructions s @ [?j] else instructions s)"
    then show "\<exists>q \<in> set (proposals s). \<exists>e \<in> set (decisions s @ [?d]). carries k e q"
      using s p(1) b(3) by (fastforce simp: opt_ok_def opt_bound_def split: if_splits)
  qed
  moreover have "opt_valid E ?t" using s vd vj by (auto simp: opt_ok_def opt_valid_def tabs)
  ultimately show ?thesis using k by (simp add: opt_ok_def)
qed

text \<open>What a decision does to the tables: nothing, or one new decision with its instruction.\<close>

lemma createDecision_cases:
  obtains (same) "snd (createDecision E i c s) = s"
  | (fresh) p w where "p \<in> set (proposals s)" "op_id p = di_proposal i" "sc_business (op_scope p) = di_business i"
      "sc_checksum (op_scope p) = di_checksum i" "decision_of (di_proposal i) s = None"
      "\<not> (\<exists>e \<in> set (decisions s). decision_clash (new_decision i p c) e)"
      "di_action i = ''approve'' \<Longrightarrow> \<not> (\<exists>j \<in> set (instructions s). instruction_clash (new_instruction p c) j)"
      "toWorkspaceContract E (decided i p c s) p = Inr w" "createDecision E i c s = (Inr w, decided i p c s)"
proof -
  let ?m = "act_bind (decision_lookup E i) (\<lambda>x. case x of Some w \<Rightarrow> act_return w | None \<Rightarrow> decision_commit E i c)"
  show thesis
  proof (cases "?m s")
    case (Pair r t)
    show thesis
    proof (cases r)
      case (Inl e)
      then have "snd (createDecision E i c s) = s"
        using Pair by (simp add: createDecision_def unique_is_conflict_def conflict_def act_catch_def transaction_def act_throw_def)
      then show thesis by (rule same)
    next
      case (Inr w)
      have run: "createDecision E i c s = (Inr w, t)"
        using Pair Inr by (simp add: createDecision_def unique_is_conflict_def act_catch_def transaction_def)
      obtain x u where l: "decision_lookup E i s = (Inr x, u)" "(case x of Some w \<Rightarrow> act_return w | None \<Rightarrow> decision_commit E i c) u = (Inr w, t)"
        using Pair Inr by (auto elim: act_bind_InrE)
      have u: "u = s" using decision_lookup_reads [of E i s] l(1) by simp
      show thesis
      proof (cases x)
        case (Some v)
        then show thesis using same run l(2) u by (simp add: act_return_def)
      next
        case None
        then have "decision_commit E i c s = (Inr w, t)" using l(2) u by simp
        then show thesis
        proof (cases rule: decision_commit_cases)
          case replay
          then show thesis using same run by simp
        next
          case (fresh p)
          then show thesis
            using find_proposal_D [OF fresh(1)] run by (intro that(2) [of p w]) simp_all
        qed
      qed
    qed
  qed
qed

lemma createDecision_keeps: "keeps (opt_ok E) (createDecision E i c)"
proof (rule keepsI)
  fix s assume s: "opt_ok E s"
  show "opt_ok E (snd (createDecision E i c s))"
  proof (cases rule: createDecision_cases [of E i c s])
    case same
    with s show ?thesis by simp
  next
    case (fresh p w)
    have "opt_ok E (decided i p c s)" using fresh(7) by (intro decided_ok [OF s fresh(1,2,5,6) _ fresh(8)]) simp
    with fresh(9) show ?thesis by simp
  qed
qed


section \<open>What stays\<close>

text \<open>An instruction that is no longer pending never changes; a pending one keeps all but its life.\<close>

definition instruction_le :: "instruction_row \<Rightarrow> instruction_row \<Rightarrow> bool" where
  "instruction_le i j \<longleftrightarrow> in_id j = in_id i \<and> in_contract j = in_contract i \<and> in_proposal j = in_proposal i
     \<and> in_decision j = in_decision i \<and> in_scope j = in_scope i \<and> in_kind j = in_kind i \<and> in_text j = in_text i
     \<and> in_approved j = in_approved i \<and> in_created j = in_created i
     \<and> (in_status i \<noteq> ''PENDING_CONSUMPTION'' \<longrightarrow> j = i)"

definition opt_le :: "opt_db \<Rightarrow> opt_db \<Rightarrow> bool" where
  "opt_le s t \<longleftrightarrow> rows_le (=) (proposals s) (proposals t) \<and> rows_le (=) (decisions s) (decisions t)
     \<and> rows_le instruction_le (instructions s) (instructions t)"

lemma instruction_le_refl: "instruction_le i i"
  by (simp add: instruction_le_def)

lemma instruction_le_trans: "instruction_le i j \<Longrightarrow> instruction_le j k \<Longrightarrow> instruction_le i k"
  by (auto simp: instruction_le_def)

lemma opt_le_refl: "opt_le s s"
  by (simp add: opt_le_def rows_le_refl instruction_le_refl)

lemma opt_le_trans: "opt_le s t \<Longrightarrow> opt_le t u \<Longrightarrow> opt_le s u"
  unfolding opt_le_def
  by (elim conjE, intro conjI) (erule (1) rows_le_trans [rotated], blast intro: instruction_le_trans)+

lemma createProposal_le: "opt_le s (snd (createProposal E jb p c s))"
proof -
  have i: "opt_le s (snd (insert_proposal jb q s))" for q
    by (auto simp: insert_proposal_def act_insert_def opt_le_def rows_le_refl rows_le_append instruction_le_refl)
  have h: "snd (act_seq (insert_proposal jb q) (act_lift r) s) = snd (insert_proposal jb q s)" for q r
    by (simp add: act_seq_def act_bind_def act_lift_def split: prod.split sum.split)
  have c: "opt_le s (snd (act_catch m g s))" if "opt_le s (snd (m s))" "\<And>e t. snd (g e t) = t" for m :: "json opt" and g
    using that by (auto simp: act_catch_def split: prod.split sum.split)
  show ?thesis
    unfolding createProposal_def Let_def checked_def
    by (auto simp: bind_lift opt_le_refl act_bind_def [of "act_lift (Inl _)"] intro!: c simp: h i)
      (auto simp: action_defs split: option.splits sum.splits prod.splits)
qed

lemma createDecision_le: "opt_le s (snd (createDecision E i c s))"
proof (cases rule: createDecision_cases [of E i c s])
  case (fresh p w)
  then show ?thesis
    by (auto simp: opt_le_def decided_def Let_def rows_le_refl rows_le_append instruction_le_refl)
qed (simp add: opt_le_refl)

text \<open>The consumption of instructions: \<open>f\<close> writes no more than their life.\<close>

lemma instructions_rewritten:
  assumes "opt_ok E s" "keyed instruction_clash (tbl_update P f (instructions s))"
    "\<And>i. i \<in> set (instructions s) \<Longrightarrow> P i \<Longrightarrow> instruction_le i (f i) \<and> valid_instruction E (f i)"
  shows "opt_ok E (put_instructions (tbl_update P f (instructions s)) s)"
    and "opt_le s (put_instructions (tbl_update P f (instructions s)) s)"
proof -
  let ?g = "\<lambda>i. if P i then f i else i"
  have v: "valid_instruction E (f i)" if "i \<in> set (instructions s)" "P i" for i using assms(3) [OF that] by simp
  have g: "in_decision (?g i) = in_decision i \<and> in_proposal (?g i) = in_proposal i
      \<and> (carries (?g i) d p \<longleftrightarrow> carries i d p) \<and> valid_instruction E (?g i)" if "i \<in> set (instructions s)" for i d p
    using assms(1) assms(3) [OF that] that by (auto simp: carries_def instruction_le_def opt_ok_def opt_valid_def)
  have s: "opt_keyed s" "opt_bound s" "opt_valid E s" using assms(1) by (simp_all add: opt_ok_def)
  let ?t = "put_instructions (tbl_update P f (instructions s)) s"
  have set: "set (instructions ?t) = ?g ` set (instructions s)" by (simp add: set_tbl_update)
  have "opt_bound ?t"
    unfolding opt_bound_def set
  proof (intro conjI ballI impI)
    fix d assume "d \<in> set (decisions ?t)"
    then show "\<exists>p \<in> set (proposals ?t). decides d p" using s(2) by (simp add: opt_bound_def)
  next
    fix d assume "d \<in> set (decisions ?t)" "de_action d = ''approve''"
    then obtain i where "i \<in> set (instructions s)" "in_decision i = de_id d" "in_proposal i = de_proposal d"
      using s(2) by (auto simp: opt_bound_def)
    then show "\<exists>i \<in> ?g ` set (instructions s). in_decision i = de_id d \<and> in_proposal i = de_proposal d"
      using g by (intro bexI [of _ "?g i"]) auto
  next
    fix j assume "j \<in> ?g ` set (instructions s)"
    then obtain i where i: "i \<in> set (instructions s)" "j = ?g i" by blast
    then show "\<exists>p \<in> set (proposals ?t). \<exists>d \<in> set (decisions ?t). carries j d p"
      using carried [OF s(2) i(1)] g by auto
  qed
  moreover have "opt_valid E ?t"
    unfolding opt_valid_def set using s(3) v by (auto simp: opt_valid_def)
  moreover have "opt_keyed ?t" using s(1) assms(2) by (simp add: opt_keyed_def)
  ultimately show "opt_ok E ?t" by (simp add: opt_ok_def)
  show "opt_le s (put_instructions (tbl_update P f (instructions s)) s)"
    using assms(3) by (simp add: opt_le_def rows_le_refl rows_le_update instruction_le_refl)
qed

end
