(* ===== verification/Opt_Samples.thy ===== *)
theory Opt_Samples
  imports Opt_World Sample_Ids
begin

text \<open>
  Identifiers, a valid proposal and its approval for the examples.
\<close>

definition hex_at :: "nat \<Rightarrow> char" where
  "hex_at n = ''0123456789abcdef'' ! (n mod 16)"

definition uuid_at :: "nat \<Rightarrow> string" where
  "uuid_at n = orch_uuid (hex_at n)"

definition sample_call :: "nat \<Rightarrow> call" where
  "sample_call m = \<lparr>call_now = 1767225600000, call_id = \<lambda>n. uuid_at (m + n)\<rparr>"

lemma hex_at_ok: "is_hex (hex_at n)"
proof -
  have "\<forall>k < 16. is_hex (''0123456789abcdef'' ! k)" by code_simp
  then show ?thesis by (simp add: hex_at_def)
qed

lemma uuid_at_ok [simp]: "isRunUuid (JStr (uuid_at n))"
  by (simp add: uuid_at_def hex_at_ok)

lemma orch_uuid_inject: "orch_uuid c = orch_uuid d \<longleftrightarrow> c = d"
  by (auto simp: orch_uuid_def numeral_eq_Suc)

lemma uuid_at_inject: "uuid_at m = uuid_at n \<longleftrightarrow> m mod 16 = n mod 16"
proof -
  have "\<forall>i < 16. \<forall>j < 16. (''0123456789abcdef'' ! i = ''0123456789abcdef'' ! j) = (i = j)" by code_simp
  then show ?thesis by (simp add: uuid_at_def orch_uuid_inject hex_at_def)
qed

section \<open>A proposal for the examples\<close>

definition sample_scope :: scope where
  "sample_scope = \<lparr>sc_business = uuid_at 12, sc_strategy = uuid_at 13, sc_version = 1, sc_cycle = uuid_at 0,
     sc_format = ''text_post'', sc_checksum = replicate 64 CHR ''a''\<rparr>"

definition sample_comparison :: "string \<Rightarrow> json" where
  "sample_comparison metric = JObj
     [(''metric'', JStr metric), (''baseline_median'', JNum 5), (''values'', JArr [JNum 4, JNum 5, JNum 6]),
      (''best_snapshot_id'', JStr (uuid_at 3)), (''best_value'', JNum 6), (''delta_from_median'', JNum 1),
      (''delta_percent'', JNum 20), (''direction'', JStr ''higher_is_better'')]"

definition sample_proposal :: proposal_row where
  "sample_proposal = \<lparr>op_id = uuid_at 2, op_contract = ''optimization-v1'', op_scope = sample_scope,
     op_basis = JArr [JStr (uuid_at 1), JStr (uuid_at 2), JStr (uuid_at 3)],
     op_comparison = JArr (map sample_comparison OPTIMIZATION_REQUIRED_METRICS), op_kind = ''hook_style'',
     op_summary = ''.'', op_rationale = ''.'', op_uncertainty = ''.'',
     op_instruction = ''.'', op_model = ''m'', op_prompt = ''optimization-prompt-v1'',
     op_fingerprint = replicate 64 CHR ''b'', op_status = ''PENDING_OWNER_DECISION'', op_created = 1767225600000\<rparr>"

definition sample_decision :: decision_input where
  "sample_decision = \<lparr>di_owner = uuid_at 11, di_business = uuid_at 12, di_proposal = uuid_at 2,
     di_checksum = replicate 64 CHR ''a'', di_action = ''approve'', di_key = ''k'', di_fingerprint = replicate 64 CHR ''c'',
     di_note = None\<rparr>"

definition proposed :: opt_db where
  "proposed = \<lparr>proposals = [sample_proposal], decisions = [], instructions = []\<rparr>"

lemma sample_now: "opt_date E (iso 1767225600000)"
  using js_date_parse_toISOString [of 1767225600000 E] by (simp add: opt_date_def iso_def)

text \<open>Every pattern of the policy starts at the edge of a word, and the text of the examples has no word.\<close>

lemma no_edge: "ends (rx_cats (WordBound # rs)) (None, ''.'') = []" "ends (rx_cats (WordBound # rs)) (Some CHR ''.'', []) = []"
  by (simp_all add: rx_cats_def word_char_def char_between_def)

lemma no_match: "rx_test (rx_cats (WordBound # rs)) None ''.'' = False" "rx_remove (rx_cats (WordBound # rs)) None ''.'' = ''.''"
  by (simp_all add: rx_test.simps [of _ _ "_ # _"] rx_test.simps [of _ _ "[]"] rx_remove.simps [of _ _ "_ # _"] rx_remove.simps [of _ _ "[]"] no_edge)

lemma sample_trims: "js_trim ''.'' = ''.''" "js_trim ''m'' = ''m''"
  by code_simp+

lemma sample_sums: "SHA256_PATTERN (replicate 64 CHR ''a'')" "SHA256_PATTERN (replicate 64 CHR ''b'')"
    "SHA256_PATTERN (replicate 64 CHR ''c'')"
  by code_simp+

lemma plain_texts: "jget v k = JStr ''.'' \<Longrightarrow> text_ok v f k"
  by (simp add: text_ok_def generated_texts_def validateGeneratedPolicy_def requireBoundedString_def makes_unsupported_claim_def
    directs_scope_change_def safe_significance_def safe_claims_def safe_scope_def UNSUPPORTED_CLAIM_PATTERNS_def
    PROHIBITED_SCOPE_DIRECTIVE_def no_match OPTIMIZATION_MAX_GENERATED_TEXT_LENGTH_def sample_trims)

lemma sample_scope_valid: "scope_valid sample_scope"
  using sample_sums(1) by (simp add: scope_valid_def sample_scope_def js_includes_def OPTIMIZATION_FORMATS_def del: isRunUuid.simps)

lemma sample_proposal_valid: "valid (validateOptimizationProposalV1 sample_env (proposal_json sample_proposal))"
proof -
  have a: "snapshot_ids (op_basis sample_proposal) ''proposal.basis_snapshot_ids'' = []"
    by (auto simp: snapshot_ids_def sample_proposal_def requireAll_Nil OPTIMIZATION_REQUIRED_SNAPSHOT_COUNT_def less_Suc_eq
      simp del: isRunUuid.simps)
  have b: "comparisons_valid (op_comparison sample_proposal)"
    by (simp add: comparisons_valid_def sample_proposal_def requireAll_Nil comparison_valid_iff sample_comparison_def
      OPTIMIZATION_REQUIRED_METRICS_def js_includes_def nonNegativeNumber_def less_Suc_eq del: isRunUuid.simps)
  show ?thesis
    unfolding proposal_valid_iff
    using a b sample_scope_valid sample_now sample_sums
    by (auto simp: sample_proposal_def js_includes_def OPTIMIZATION_CHANGE_KINDS_def proposal_json_get plain_texts sample_trims simp del: isRunUuid.simps)
qed

text \<open>What approving the proposal leaves.\<close>

definition approved_opt :: opt_db where
  "approved_opt = \<lparr>proposals = [sample_proposal], decisions = [new_decision sample_decision sample_proposal (sample_call 4)],
     instructions = [new_instruction sample_proposal (sample_call 4)]\<rparr>"

lemma proposed_ok: "opt_ok sample_env proposed"
  using sample_proposal_valid
  by (simp add: opt_ok_def proposed_def opt_keyed_def opt_bound_def opt_valid_def valid_proposal_def keyed_def)

lemma sample_decision_valid: "valid_decision sample_env (new_decision sample_decision sample_proposal (sample_call 4))"
  using sample_scope_valid sample_now sample_sums
  by (auto simp: valid_decision_def validateOptimizationDecisionV1_def decision_json_def new_decision_def sample_decision_def
      sample_proposal_def scope_valid_def DECISION_KEYS_def check_simps validateIdentity_def js_includes_def opt_null_def
      OPTIMIZATION_DECISION_ACTIONS_def sample_call_def isInteger.simps Let_def simp del: isRunUuid.simps)

lemma sample_instruction_valid: "valid_instruction sample_env (new_instruction sample_proposal (sample_call 4))"
  using sample_scope_valid sample_now plain_texts
  by (auto simp: valid_instruction_def instruction_valid_iff instruction_core_def instruction_life_def new_instruction_def
      sample_proposal_def js_includes_def OPTIMIZATION_CHANGE_KINDS_def OPTIMIZATION_INSTRUCTION_STATUSES_def opt_null_def
      instruction_shape_def instruction_json_get sample_call_def simp del: isRunUuid.simps)

lemma approved_ok: "opt_ok sample_env approved_opt"
  using sample_proposal_valid sample_decision_valid sample_instruction_valid
  by (simp add: opt_ok_def approved_opt_def opt_keyed_def opt_bound_def opt_valid_def valid_proposal_def keyed_def decides_def
      carries_def) (simp add: new_decision_def new_instruction_def sample_decision_def)

definition sample_workspace :: json where
  "sample_workspace = workspace_json sample_proposal (decision_of (op_id sample_proposal) approved_opt)
     (instruction_of (op_id sample_proposal) approved_opt)"

lemma sample_approved: "createDecision sample_env sample_decision (sample_call 4) proposed = (Inr sample_workspace, approved_opt)"
proof -
  have "decision_checks (new_decision sample_decision sample_proposal (sample_call 4))"
    using sample_sums by (simp add: decision_checks_def new_decision_def sample_decision_def sample_proposal_def sample_scope_def
      OPTIMIZATION_FORMATS_def OPTIMIZATION_DECISION_ACTIONS_def)
  moreover have "instruction_checks (new_instruction sample_proposal (sample_call 4))"
    by (simp add: instruction_checks_def new_instruction_def sample_proposal_def OPTIMIZATION_INSTRUCTION_STATUSES_def)
  moreover have "toWorkspaceContract sample_env approved_opt sample_proposal = Inr sample_workspace"
    unfolding sample_workspace_def by (rule workspace_loads [OF approved_ok]) (simp add: approved_opt_def)
  moreover have "proposals approved_opt = [sample_proposal]" by (simp add: approved_opt_def)
  moreover have "di_action sample_decision = ''approve''" "op_id sample_proposal = di_proposal sample_decision"
    "sc_business (op_scope sample_proposal) = di_business sample_decision"
    "sc_checksum (op_scope sample_proposal) = di_checksum sample_decision"
    by (simp_all add: sample_decision_def sample_proposal_def sample_scope_def)
  ultimately show ?thesis
    by (simp add: createDecision_def unique_is_conflict_def decision_lookup_def decision_by_key_def decision_by_fingerprint_def
        decision_commit_def find_proposal_def decision_of_def insert_decision_def insert_instruction_def loadWorkspaceWithin_def
        put_decisions_def put_instructions_def proposed_def action_defs flip: approved_opt_def)
qed

end
