(* ===== verification/Opt_Decisions.thy ===== *)
theory Opt_Decisions
  imports Opt_Service Opt_Claims Opt_Samples
begin

text \<open>
  The properties of the optimization service: readiness, generation and the decisions of owners.
\<close>


section \<open>Deciding once\<close>

text \<open>An answered request has its decision in the table, and its key is not that of another one.\<close>

definition answered :: "js_env \<Rightarrow> decision_input \<Rightarrow> json \<Rightarrow> opt_db \<Rightarrow> bool" where
  "answered E i w s \<longleftrightarrow> loadWorkspaceWithin E (di_business i) (di_proposal i) s = (Inr w, s)
     \<and> (\<exists>d \<in> set (decisions s). de_proposal d = di_proposal i \<and> de_owner d = di_owner i \<and> de_fingerprint d = di_fingerprint i)
     \<and> (\<forall>e. decision_by_key i s = Some e \<longrightarrow> de_fingerprint e = di_fingerprint i \<and> de_proposal e = di_proposal i)"

lemma by_key_D: "decision_by_key i s = Some d \<Longrightarrow> d \<in> set (decisions s) \<and> de_owner d = di_owner i \<and> de_key d = di_key i"
  unfolding decision_by_key_def using tbl_find_SomeD by fastforce

lemma by_fingerprint_D:
  "decision_by_fingerprint i s = Some d \<Longrightarrow> d \<in> set (decisions s) \<and> de_owner d = di_owner i \<and> de_fingerprint d = di_fingerprint i"
  unfolding decision_by_fingerprint_def using tbl_find_SomeD by fastforce

lemma load_reads: "snd (loadWorkspaceWithin E b p s) = s"
  by (simp add: loadWorkspaceWithin_def split: option.split)

lemma lookup_answered: "decision_lookup E i s = (Inr (Some w), t) \<Longrightarrow> t = s \<and> answered E i w s"
  using load_reads [of E "di_business i" "di_proposal i" s]
  by (auto simp: decision_lookup_def answer_decision_def conflict_def answered_def act_bind_def act_read_def act_throw_def act_return_def
      dest: by_key_D by_fingerprint_D split: option.splits if_splits prod.splits sum.splits)

lemma lookup_none: "decision_lookup E i s = (Inr None, t) \<Longrightarrow> decision_by_key i s = None \<and> decision_by_fingerprint i s = None"
  by (auto simp: decision_lookup_def answer_decision_def conflict_def act_bind_def act_read_def act_throw_def act_return_def
      split: option.splits if_splits prod.splits sum.splits)

lemma commit_answered:
  assumes "decision_commit E i c s = (Inr w, t)" "decision_by_key i s = None" "decision_by_fingerprint i s = None"
  shows "answered E i w t"
proof (cases "decision_of (di_proposal i) s")
  case (Some d)
  then have "de_owner d = di_owner i \<and> de_fingerprint d = di_fingerprint i" "d \<in> set (decisions s)"
    using assms(1) decision_of_D [OF Some]
    by (auto simp: decision_commit_def conflict_def act_bind_def act_read_def act_throw_def split: option.splits if_splits)
  then show ?thesis using assms(3) by (auto simp: decision_by_fingerprint_def tbl_find_None_iff)
next
  case None
  with assms(1) show ?thesis
  proof (cases rule: decision_commit_cases)
    case replay
    with assms(1) None have False
      by (auto simp: decision_commit_def conflict_def insert_decision_def act_bind_def act_seq_def act_read_def act_throw_def
          act_insert_def loadWorkspaceWithin_def put_decisions_def insert_instruction_def put_instructions_def act_return_def
          split: option.splits if_splits dest!: arg_cong [where f = "length \<circ> decisions"])
    then show ?thesis ..
  next
    case (fresh p)
    let ?d = "new_decision i p c"
    have p: "op_id p = di_proposal i" "p \<in> set (proposals s)" using find_proposal_D [OF fresh(1)] by simp_all
    have t: "decisions t = decisions s @ [?d]" "proposals t = proposals s" using fresh(6) by (simp_all add: decided_def Let_def)
    have "loadWorkspaceWithin E (di_business i) (di_proposal i) t = (Inr w, t)"
      using fresh(1,7) by (simp add: loadWorkspaceWithin_def find_proposal_def t(2))
    moreover have "decision_by_key i t = Some ?d"
      using assms(2) by (simp add: decision_by_key_def t(1) tbl_find_append) (simp add: new_decision_def)
    ultimately show ?thesis by (simp add: answered_def t(1) new_decision_def p)
  qed
qed

lemma createDecision_answered:
  assumes "createDecision E i c s = (Inr w, t)"
  shows "answered E i w t"
proof -
  let ?m = "act_bind (decision_lookup E i) (\<lambda>x. case x of Some w \<Rightarrow> act_return w | None \<Rightarrow> decision_commit E i c)"
  have "?m s = (Inr w, t)"
    using assms by (auto simp: createDecision_def unique_is_conflict_def conflict_def act_catch_def transaction_def act_throw_def
      split: prod.splits sum.splits if_splits)
  then obtain x u where l: "decision_lookup E i s = (Inr x, u)" "(case x of Some w \<Rightarrow> act_return w | None \<Rightarrow> decision_commit E i c) u = (Inr w, t)"
    by (auto elim: act_bind_InrE)
  show ?thesis
  proof (cases x)
    case None
    then show ?thesis using l decision_lookup_reads [of E i s] commit_answered lookup_none by fastforce
  next
    case (Some v)
    then show ?thesis using l lookup_answered [of E i s v u] by (auto simp: act_return_def)
  qed
qed

text \<open>With unique indexes, that row is the decision of the proposal and of the fingerprint.\<close>

lemma answered_row:
  assumes "answered E i w s" "keyed decision_clash (decisions s)"
  obtains d where "decision_of (di_proposal i) s = Some d" "decision_by_fingerprint i s = Some d" "de_proposal d = di_proposal i"
    "de_owner d = di_owner i" "de_fingerprint d = di_fingerprint i"
proof -
  obtain d where d: "d \<in> set (decisions s)" "de_proposal d = di_proposal i" "de_owner d = di_owner i" "de_fingerprint d = di_fingerprint i"
    using assms(1) by (auto simp: answered_def)
  have only: "e = d" if "e \<in> set (decisions s)" "decision_clash e d" for e
    using keyedD [OF assms(2) that(1) d(1) that(2)] .
  obtain e g where e: "decision_of (di_proposal i) s = Some e" and g: "decision_by_fingerprint i s = Some g"
    using d by (cases "decision_of (di_proposal i) s"; cases "decision_by_fingerprint i s")
      (auto simp: decision_of_def decision_by_fingerprint_def tbl_find_None_iff)
  have "e = d" using only [of e] decision_of_D [OF e] d by (simp add: decision_clash_def)
  moreover have "g = d" using only [of g] by_fingerprint_D [OF g] d by (simp add: decision_clash_def)
  ultimately show thesis using that [of d] e g d by simp
qed

lemma answered_again:
  assumes "answered E i w s" "keyed decision_clash (decisions s)"
  shows "createDecision E i c s = (Inr w, s)"
proof -
  obtain d where d: "decision_by_fingerprint i s = Some d" "de_proposal d = di_proposal i" using answered_row [OF assms] .
  have l: "loadWorkspaceWithin E (di_business i) (di_proposal i) s = (Inr w, s)" using assms(1) by (simp add: answered_def)
  have "decision_lookup E i s = (Inr (Some w), s)"
  proof (cases "decision_by_key i s")
    case None
    with d l show ?thesis by (simp add: decision_lookup_def answer_decision_def act_bind_def act_read_def act_return_def)
  next
    case (Some e)
    with assms(1) l show ?thesis
      by (simp add: decision_lookup_def answer_decision_def act_bind_def act_read_def act_return_def answered_def)
  qed
  then show ?thesis
    by (simp add: createDecision_def unique_is_conflict_def act_catch_def transaction_def act_bind_def act_return_def)
qed

lemma other_refused:
  assumes "answered E i w s" "keyed decision_clash (decisions s)" "di_proposal j = di_proposal i"
    "di_owner j \<noteq> di_owner i \<or> di_fingerprint j \<noteq> di_fingerprint i"
  shows "createDecision E j c s \<in> {Inl (Repository OPTIMIZATION_DECISION_CONFLICT), Inl (Repository OPTIMIZATION_EVIDENCE_CONFLICT)} \<times> {s}"
proof -
  obtain d where d: "decision_of (di_proposal i) s = Some d" "de_owner d = di_owner i" "de_fingerprint d = di_fingerprint i"
    using answered_row [OF assms(1,2)] .
  have row: "e = d" if "e \<in> set (decisions s)" "de_proposal e = di_proposal i" for e
    using keyedD [OF assms(2) that(1)] decision_of_D [OF d(1)] that(2) by (simp add: decision_clash_def)
  have key: "de_fingerprint e \<noteq> di_fingerprint j \<or> de_proposal e \<noteq> di_proposal j" if "decision_by_key j s = Some e" for e
    using by_key_D [OF that] row [of e] d assms(3,4) by auto
  have fp: "de_proposal e \<noteq> di_proposal j" if "decision_by_fingerprint j s = Some e" for e
    using by_fingerprint_D [OF that] row [of e] d assms(3,4) by auto
  show ?thesis
    using key fp d assms(3,4)
    by (auto simp: createDecision_def unique_is_conflict_def conflict_def decision_lookup_def decision_commit_def act_catch_def
        transaction_def act_bind_def act_read_def act_throw_def act_return_def split: option.split)
qed

text \<open>C19. A decision that was answered is answered the same way again, with the same document and without a change, whatever
  the time and the UUIDs of the repetition; any other request for the same proposal, of another owner or with another
  fingerprint, is refused with a conflict and changes nothing.\<close>

theorem decision_is_final:
  assumes "opt_ok E s" "createDecision E i c s = (Inr w, t)"
  shows "createDecision E i c' t = (Inr w, t)
    \<and> (di_proposal j = di_proposal i \<and> (di_owner j \<noteq> di_owner i \<or> di_fingerprint j \<noteq> di_fingerprint i)
       \<longrightarrow> createDecision E j c' t
             \<in> {Inl (Repository OPTIMIZATION_DECISION_CONFLICT), Inl (Repository OPTIMIZATION_EVIDENCE_CONFLICT)} \<times> {t})"
proof -
  have "opt_ok E t" using keepsD [OF createDecision_keeps assms(1), of i c] assms(2) by simp
  then have k: "keyed decision_clash (decisions t)" by (simp add: opt_ok_def opt_keyed_def)
  note a = createDecision_answered [OF assms(2)]
  show ?thesis using answered_again [OF a k] other_refused [OF a k] by blast
qed

theorem decision_is_final_witness:
  "createDecision sample_env sample_decision (sample_call 7) approved_opt = (Inr sample_workspace, approved_opt)
   \<and> createDecision sample_env (sample_decision\<lparr>di_fingerprint := []\<rparr>) (sample_call 7) approved_opt
      \<in> {Inl (Repository OPTIMIZATION_DECISION_CONFLICT), Inl (Repository OPTIMIZATION_EVIDENCE_CONFLICT)} \<times> {approved_opt}"
  using decision_is_final [OF proposed_ok sample_approved, of "sample_call 7" "sample_decision\<lparr>di_fingerprint := []\<rparr>"]
  by (simp add: sample_decision_def)


section \<open>Readiness\<close>

lemma printed: "toISOString t \<noteq> []"
  using toISOString_nonempty [of t] by (auto simp: js_trim_Nil_iff)

lemma normalized_observed: "eligible_row b r \<Longrightarrow> normalizeSnapshotRow r = Some x \<Longrightarrow> observed x"
  using printed by (auto simp: normalizeSnapshotRow_def observed_def Let_def split: option.splits if_splits)

lemma listed: "x \<in> set (fst (listEligibleSnapshots b rows)) \<Longrightarrow> \<exists>r \<in> set rows. eligible_row b r \<and> normalizeSnapshotRow r = Some x"
  by (auto simp: listEligibleSnapshots_def Let_def List.map_filter_def)

lemma refused: "snd (listEligibleSnapshots b rows) \<longleftrightarrow> (\<exists>r \<in> set rows. eligible_row b r \<and> normalizeSnapshotRow r = None)"
  by (auto simp: listEligibleSnapshots_def Let_def list_ex_iff)

text \<open>C22. Readiness is always answered to an owner with a business, and reading it changes nothing. When one stored
  post of the business that is eligible does not agree with its provenance, the answer is that of a conflict, without
  evidence; otherwise it is that of the analysis of all eligible posts.\<close>

theorem readiness_fails_closed:
  assumes "owned owner = Some b"
  shows "\<exists>r. service_readiness E owned rows owner format s = (Inr r, s)
    \<and> (if \<exists>m \<in> set rows. eligible_row b m \<and> normalizeSnapshotRow m = None then r = conflictReadiness b format
       else \<exists>a. analyzeOptimizationSnapshots E b format (fst (listEligibleSnapshots b rows)) = Inr a \<and> r = an_readiness a)"
proof (cases "snd (listEligibleSnapshots b rows)")
  case True
  then show ?thesis
    unfolding if_P [OF True [unfolded refused]]
    using assms
    by (simp add: service_readiness_def businessIdForOwner_def analyze_def act_bind_def act_lift_def act_return_def split_beta)
next
  case False
  obtain a where a: "analyzeOptimizationSnapshots E b format (fst (listEligibleSnapshots b rows)) = Inr a"
    using analysis_total [of "fst (listEligibleSnapshots b rows)" E b format] listed normalized_observed by blast
  then show ?thesis
    unfolding if_not_P [OF False [unfolded refused]]
    using assms False
    by (simp add: service_readiness_def businessIdForOwner_def analyze_def act_bind_def act_lift_def act_return_def split_beta)
qed

theorem readiness_fails_closed_witness:
  "\<exists>r. service_readiness sample_env (\<lambda>_. Some ''b'') [] ''o'' None proposed = (Inr r, proposed)"
  using readiness_fails_closed [of "\<lambda>_. Some ''b''" "''o''" "''b''" sample_env "[]" None proposed] by auto


section \<open>Generation\<close>

lemma find_fingerprint:
  assumes "findByFingerprint E b fp s = Inr (Some v)"
  shows "\<exists>q \<in> set (proposals s). v = proposal_json q \<and> sc_business (op_scope q) = b \<and> op_fingerprint q = fp"
proof -
  obtain q where q: "tbl_find (\<lambda>p. (sc_business (op_scope p), op_fingerprint p)) (b, fp) (proposals s) = Some q"
      "toProposalContract E q = Inr v"
    using assms by (auto simp: findByFingerprint_def throws_bind_Inr_iff split: option.splits)
  then have "v = proposal_json q" by (simp add: toProposalContract_def checked_def split: if_splits)
  with tbl_find_SomeD [OF q(1)] show ?thesis by auto
qed

lemma createProposal_Inr:
  assumes "createProposal E jb p c s = (Inr v, t)"
  shows "(let q = stored jb (p\<lparr>op_id := call_id c 0, op_created := call_now c\<rparr>) in
        t = put_proposals (proposals s @ [q]) s \<and> v = proposal_json q)
    \<or> t = s \<and> (\<exists>q \<in> set (proposals s). v = proposal_json q \<and> sc_business (op_scope q) = sc_business (op_scope p)
        \<and> op_fingerprint q = op_fingerprint p)"
  using assms
  by (auto simp: createProposal_def Let_def checked_def insert_proposal_def toProposalContract_def act_bind_def act_lift_def
      act_catch_def act_seq_def act_insert_def act_throw_def act_return_def act_read_def
      split: if_splits option.splits sum.splits prod.splits dest!: find_fingerprint)


lemma opt_times: "toISOString 1785578400000 = ''2026-08-01T10:00:00.000Z''" "toISOString 1786183200000 = ''2026-08-08T10:00:00.000Z''"
  by code_simp+

text \<open>The stored rows of the posts of the example, the last identifier first.\<close>

definition opt_payload :: "snapshot \<Rightarrow> json" where
  "opt_payload x = JObj [(''candidate_id'', JStr (sn_candidate x)), (''candidate_checksum'', JStr (sn_checksum x)),
     (''business_id'', JStr (sn_business x)), (''content_format'', JStr (sn_format x)), (''target_channel'', JStr ''facebook''),
     (''strategy_id'', JStr (sn_strategy x)), (''strategy_version'', JNum 1), (''content_cycle_id'', JStr (sn_cycle x)),
     (''caption'', JStr (sn_caption x)), (''cta'', JNull)]"

definition opt_candidate :: "snapshot \<Rightarrow> metric_candidate" where
  "opt_candidate x = \<lparr>mc_id = sn_candidate x, mc_business = sn_business x, mc_checksum = sn_checksum x, mc_channel = ''facebook'',
     mc_format = sn_format x, mc_payload = opt_payload x\<rparr>"

definition opt_metrics :: "snapshot \<Rightarrow> json" where
  "opt_metrics x = JObj
     [(''post_media_view'', JObj [(''status'', JStr ''available''), (''value'', JNum (metric_number (sn_views x)))]),
      (''post_clicks'', JObj [(''status'', JStr ''available''), (''value'', JNum (metric_number (sn_clicks x)))])]"

definition opt_row :: "snapshot \<Rightarrow> metric_row" where
  "opt_row x = \<lparr>mr_id = sn_id x, mr_business = sn_business x, mr_provider = ''facebook'', mr_window = ''7d'',
     mr_published = 1785578400000, mr_observed = Some 1786183200000, mr_result = sn_result x, mr_attempt = ''a'', mr_intent = ''i'',
     mr_candidate_id = sn_candidate x, mr_checksum = sn_checksum x, mr_metrics = opt_metrics x, mr_candidate = opt_candidate x,
     mr_result_id = sn_result x, mr_outcome = ''PUBLISHED'', mr_result_provider = ''meta'', mr_remote = Some ''m'', mr_attempt_id = ''a'',
     mr_intent_id = ''i'', mr_mode = ''REAL'', mr_published_candidate = Some (opt_candidate x)\<rparr>"

lemma opt_row_listed:
  assumes "x \<in> set opt_posts"
  shows "eligible_row opt_business (opt_row x)" "normalizeSnapshotRow (opt_row x) = Some x"
proof -
  have t: "js_trim ''x'' = ''x''" by code_simp
  show "eligible_row opt_business (opt_row x)"
    using assms by (auto simp: eligible_row_def opt_row_def opt_candidate_def opt_posts_def opt_snapshot_def OPTIMIZATION_FORMATS_def)
  show "normalizeSnapshotRow (opt_row x) = Some x"
    using assms t
    by (auto simp: normalizeSnapshotRow_def opt_row_def opt_candidate_def opt_posts_def opt_snapshot_def opt_payload_def opt_metrics_def
        same_provenance_def payload_ok_def normalizeMetricValue_def nonNegativeNumber_def isInteger.simps js_isInteger_def opt_times Let_def)
qed

lemma opt_listed: "listEligibleSnapshots opt_business (map opt_row opt_posts) = (rev opt_posts, False)"
proof -
  have f: "filter (eligible_row opt_business) (map opt_row opt_posts) = map opt_row opt_posts"
    using opt_row_listed(1) by (auto simp: filter_id_conv)
  have s: "sort_key (\<lambda>r. - mr_published r) (rev (sort_key mr_id (map opt_row opt_posts))) = rev (map opt_row opt_posts)"
    by (simp add: opt_posts_def opt_snapshot_def opt_row_def orch_uuid_def numeral_eq_Suc)
  show ?thesis
    using opt_row_listed(2)
    by (simp add: listEligibleSnapshots_def Let_def f s) (auto simp: List.map_filter_def opt_posts_def)
qed

lemma opt_listed_ready:
  obtains a where "analyze sample_env opt_business None (map opt_row opt_posts) = Inr (Inr a)" "rd_status (an_readiness a) = ''ready''"
proof -
  have "length (full_cohort sample_env opt_business None (rev opt_posts)) = 3 \<and> distinct (map sn_id (rev opt_posts))" by code_simp
  moreover have "some_gain sample_env (js_sort (\<lambda>l r. env_collate sample_env (sn_id l) (sn_id r))
     (full_cohort sample_env opt_business None (rev opt_posts)))" by code_simp
  ultimately obtain a where "analyzeOptimizationSnapshots sample_env opt_business None (rev opt_posts) = Inr a"
      "rd_status (an_readiness a) = ''ready''"
    using analysis_is_ready [of "rev opt_posts" sample_env opt_business None] opt_posts_simps(1)
    by (metis OPTIMIZATION_REQUIRED_SNAPSHOT_COUNT_def order_refl set_rev)
  then show thesis using that [of a] by (simp add: analyze_def opt_listed)
qed

definition opt_generated :: "string \<Rightarrow> proposal_row" where
  "opt_generated fp = sample_proposal\<lparr>op_scope := sample_scope\<lparr>sc_business := opt_business\<rparr>, op_fingerprint := fp\<rparr>"

lemma opt_posts_sound_business: "isRunUuid (JStr opt_business)"
  using orch_uuid_ok [of "CHR ''b''"] by (simp add: is_hex_def char_between_def)

lemma opt_generated_valid: "SHA256_PATTERN fp \<Longrightarrow> valid (validateOptimizationProposalV1 sample_env (proposal_json (opt_generated fp)))"
proof -
  assume fp: "SHA256_PATTERN fp"
  note v = sample_proposal_valid [unfolded proposal_valid_iff]
  have "text_ok (proposal_json (opt_generated fp)) ''proposal'' k \<longleftrightarrow> text_ok (proposal_json sample_proposal) ''proposal'' k"
    if "k \<in> {''summary'', ''rationale'', ''uncertainty'', ''instruction''}" for k
    by (rule text_ok_cong) (use that in \<open>auto simp: proposal_json_get opt_generated_def\<close>)
  moreover have "scope_valid (op_scope (opt_generated fp))"
    using sample_scope_valid opt_posts_sound_business by (simp add: scope_valid_def opt_generated_def del: isRunUuid.simps)
  ultimately show ?thesis
    unfolding proposal_valid_iff using v fp by (simp add: opt_generated_def del: isRunUuid.simps isNonEmptyString.simps)
qed


end
