(* ===== verification/Week_Schedule.thy ===== *)
theory Week_Schedule
  imports Cairo_Time
begin

text \<open>
  The weeks of a content cycle (apps/api/src/modules/content/content-schedule.ts): twelve weeks of seven
  Cairo calendar days, each with a generation cutoff at the Cairo start of the next one. The offsets
  of the zone Africa/Cairo are the parameter \<open>off\<close>, as in Cairo_Time. \<open>Range_error\<close> is a \<open>RangeError\<close>.
\<close>


section \<open>Dates\<close>

definition CONTENT_WEEK_COUNT :: int where
  "CONTENT_WEEK_COUNT = 12"

text \<open>\<open>string | Date\<close>; a date is given by its milliseconds.\<close>

datatype cal_date = Cal_text string | Cal_date int

datatype schedule_error = Range_error

definition ISO_DATE_PATTERN :: "(char \<Rightarrow> bool) list" where
  "ISO_DATE_PATTERN =
     replicate 4 is_digit @ (\<lambda>c. c = CHR ''-'') # replicate 2 is_digit @ (\<lambda>c. c = CHR ''-'') # replicate 2 is_digit"

definition assertWeekNumber :: "int \<Rightarrow> schedule_error + unit" where
  "assertWeekNumber n = (if n < 1 \<or> n > CONTENT_WEEK_COUNT then Inl Range_error else Inr ())"

definition toIsoDate :: "cal_date \<Rightarrow> schedule_error + string" where
  "toIsoDate v =
     (let iso = (case v of Cal_date t \<Rightarrow> take 10 (toISOString t) | Cal_text s \<Rightarrow> s) in
      if shape_matches ISO_DATE_PATTERN iso then Inr iso else Inl Range_error)"

text \<open>\<open>setUTCDate\<close> on a valid date, and \<open>toISOString\<close>, which throws on an invalid one.\<close>

definition setUTCDate :: "int \<Rightarrow> int \<Rightarrow> int option" where
  "setUTCDate t d = (let c = civil_of t in time_clip (make_day (c_year c) (c_month c) d * msPerDay + t mod msPerDay))"

definition addCairoCalendarDays :: "js_env \<Rightarrow> cal_date \<Rightarrow> int \<Rightarrow> schedule_error + string" where
  "addCairoCalendarDays E v n =
     throws_bind (toIsoDate v) (\<lambda>iso.
       case js_date_parse E (iso @ ''T00:00:00.000Z'') of
         None \<Rightarrow> Inl Range_error
       | Some t \<Rightarrow> (case setUTCDate t (c_day (civil_of t) + n) of
           None \<Rightarrow> Inl Range_error
         | Some u \<Rightarrow> Inr (take 10 (toISOString u))))"

definition weekStartDate :: "js_env \<Rightarrow> cal_date \<Rightarrow> int \<Rightarrow> schedule_error + string" where
  "weekStartDate E v n = throws_bind (assertWeekNumber n) (\<lambda>_. addCairoCalendarDays E v (7 * (n - 1)))"

text \<open>The Cairo date of an instant as \<open>formatToParts\<close> gives it; years before 1 are counted backwards.\<close>

definition cairoCalendarDate :: "(int \<Rightarrow> int) \<Rightarrow> int \<Rightarrow> string" where
  "cairoCalendarDate off t =
     (let c = civil_of (t + off t) in
      dec_int (if c_year c > 0 then c_year c else 1 - c_year c) @ CHR ''-'' # pad 2 (c_month c) @ CHR ''-'' # pad 2 (c_day c))"

definition date_numbers :: "string \<Rightarrow> int \<times> int \<times> int" where
  "date_numbers s = (case (read_digits 4 s, read_digits 2 (drop 5 s), read_digits 2 (drop 8 s)) of
     (Some (y, _), Some (m, _), Some (d, _)) \<Rightarrow> (y, m, d) | _ \<Rightarrow> (0, 0, 0))"

definition cairoMidnight :: "(int \<Rightarrow> int) \<Rightarrow> string \<Rightarrow> schedule_error + int" where
  "cairoMidnight off day =
     throws_bind (toIsoDate (Cal_text day)) (\<lambda>target.
       let (y, m, d) = date_numbers target; candidate = date_utc y m (d - 1) 20 0 0 in
       case List.find (\<lambda>t. cairoCalendarDate off t = target) (map (\<lambda>h. candidate + h * 3600000) [0..7]) of
         None \<Rightarrow> Inl Range_error
       | Some t \<Rightarrow> Inr t)"

definition weekCutoffDate :: "js_env \<Rightarrow> (int \<Rightarrow> int) \<Rightarrow> cal_date \<Rightarrow> int \<Rightarrow> schedule_error + int" where
  "weekCutoffDate E off v n =
     throws_bind (assertWeekNumber n) (\<lambda>_.
     throws_bind (if n = CONTENT_WEEK_COUNT
         then throws_bind (weekStartDate E v n) (\<lambda>s. addCairoCalendarDays E (Cal_text s) 7)
         else weekStartDate E v (n + 1)) (cairoMidnight off))"


section \<open>Calendar days\<close>

text \<open>The text of a day, counted from the epoch; the years of four digits, but for the first and the last.\<close>

definition day_text :: "int \<Rightarrow> string" where
  "day_text z = take 10 (toISOString (z * msPerDay))"

definition plain_day :: "int \<Rightarrow> bool" where
  "plain_day z \<longleftrightarrow> DayFromYear 1000 \<le> z \<and> z < DayFromYear 10000"

lemma plain_day_year: "plain_day z \<Longrightarrow> 1000 \<le> year_of_day z \<and> year_of_day z < 10000"
proof -
  assume z: "plain_day z"
  have "\<not> year_of_day z < 1000" using DayFromYear_less [of "year_of_day z" 1000] year_of_day_bounds [of z] z
    by (auto simp: plain_day_def)
  moreover have "\<not> 10000 \<le> year_of_day z"
    using DayFromYear_mono_nat [of 10000 "nat (year_of_day z - 10000)"] year_of_day_bounds [of z] z
    by (auto simp: plain_day_def)
  ultimately show ?thesis by linarith
qed

lemma make_day_add: "make_day y m (d + n) = make_day y m d + n"
  by (simp add: make_day_def)

lemma day_fields:
  assumes "civil_of_day z = (y, m, d)"
  shows "y = year_of_day z" "make_day y m d = z" "1 \<le> m" "m \<le> 12" "1 \<le> d" "d \<le> 31"
  using assms civil_of_day_valid [OF assms] days_in_month_le [of m "leap_year y"]
  by (auto simp: civil_of_day_def Let_def valid_date_def)

text \<open>The instants of a day have its calendar fields.\<close>

lemma civil_of_instant:
  assumes "civil_of_day (t div msPerDay) = (y, m, d)"
  shows "c_year (civil_of t) = y" "c_month (civil_of t) = m" "c_day (civil_of t) = d"
  using assms by (simp_all add: civil_of_def Let_def)

lemma toISOString_day:
  assumes "plain_day z" "civil_of_day z = (y, m, d)"
  shows "toISOString (z * msPerDay) = pad 4 y @ CHR ''-'' # pad 2 m @ CHR ''-'' # pad 2 d @ ''T00:00:00.000Z''"
proof -
  have "1000 \<le> y" "y < 10000" using plain_day_year [OF assms(1)] day_fields(1) [OF assms(2)] by simp_all
  moreover have "pad 2 0 = ''00''" "pad 3 0 = ''000''" by code_simp+
  ultimately show ?thesis
    using assms(2) by (simp add: toISOString_def civil_of_def msPerDay_def iso_year_def iso_clock_def)
qed

lemma day_text_eq:
  assumes "plain_day z" "civil_of_day z = (y, m, d)"
  shows "day_text z = pad 4 y @ CHR ''-'' # pad 2 m @ CHR ''-'' # pad 2 d"
  by (simp add: day_text_def toISOString_day [OF assms])

lemma day_text_full: "plain_day z \<Longrightarrow> toISOString (z * msPerDay) = day_text z @ ''T00:00:00.000Z''"
  by (cases "civil_of_day z") (simp add: toISOString_day day_text_eq)

lemma day_in_range: "plain_day z \<Longrightarrow> \<bar>z * msPerDay\<bar> \<le> 8640000000000000"
  by (auto simp: plain_day_def DayFromYear_def msPerDay_def abs_le_iff)

lemma day_text_parse: "plain_day z \<Longrightarrow> js_date_parse E (day_text z @ ''T00:00:00.000Z'') = Some (z * msPerDay)"
  using js_date_parse_toISOString [OF day_in_range] day_text_full by metis

lemma day_text_inject: "plain_day z \<Longrightarrow> plain_day x \<Longrightarrow> day_text z = day_text x \<longleftrightarrow> z = x"
proof (rule iffI)
  assume "plain_day z" "plain_day x" "day_text z = day_text x"
  then have "z * msPerDay = x * msPerDay" using day_text_parse by (metis option.inject)
  then show "z = x" by (simp add: msPerDay_def)
qed simp

lemma all2_digits: "list_all is_digit s \<Longrightarrow> length s = n \<Longrightarrow> list_all2 (\<lambda>p c. p c) (replicate n is_digit) s"
  by (auto simp: list_all2_conv_all_nth list_all_length)

lemma day_text_shape: "plain_day z \<Longrightarrow> shape_matches ISO_DATE_PATTERN (day_text z)"
proof -
  assume z: "plain_day z"
  obtain y m d where c: "civil_of_day z = (y, m, d)" by (metis prod_cases3)
  have "list_all is_digit (pad 4 y)" "list_all is_digit (pad 2 m)" "list_all is_digit (pad 2 d)"
    using plain_day_year [OF z] day_fields [OF c] by (auto intro!: pad_digits)
  then show ?thesis
    unfolding day_text_eq [OF z c] shape_matches_def ISO_DATE_PATTERN_def
    by (intro list_all2_appendI list_all2_Cons [THEN iffD2] conjI all2_digits) simp_all
qed

lemma toIsoDate_day [simp]:
  "plain_day z \<Longrightarrow> toIsoDate (Cal_text (day_text z)) = Inr (day_text z)"
  "plain_day z \<Longrightarrow> toIsoDate (Cal_date (z * msPerDay)) = Inr (day_text z)"
  using day_text_shape [of z] by (simp_all add: toIsoDate_def day_text_def [symmetric])

lemma setUTCDate_day: "setUTCDate (z * msPerDay) (c_day (civil_of (z * msPerDay)) + n) = time_clip ((z + n) * msPerDay)"
proof -
  have q: "z * msPerDay div msPerDay = z" by (simp add: msPerDay_def)
  obtain y m d where c: "civil_of_day z = (y, m, d)" by (metis prod_cases3)
  note f = civil_of_instant [of "z * msPerDay", unfolded q, OF c]
  show ?thesis by (simp add: setUTCDate_def Let_def f make_day_add day_fields(2) [OF c])
qed

lemma addCairoCalendarDays_day:
  assumes "plain_day z" "plain_day (z + n)" "v \<in> {Cal_text (day_text z), Cal_date (z * msPerDay)}"
  shows "addCairoCalendarDays E v n = Inr (day_text (z + n))"
proof -
  have "toIsoDate v = Inr (day_text z)" using assms(1,3) by auto
  then show ?thesis
    using assms(1) day_in_range [OF assms(2)]
    by (simp add: addCairoCalendarDays_def day_text_parse setUTCDate_day time_clip_def day_text_def [of "z + n"])
qed


section \<open>Cutoffs\<close>

text \<open>Africa/Cairo is two or three hours ahead of UTC and changes at whole hours.\<close>

definition cairo_offsets :: "(int \<Rightarrow> int) \<Rightarrow> bool" where
  "cairo_offsets off \<longleftrightarrow> (\<forall>t. off t \<in> {7200000, 10800000} \<and> off t = off (t - t mod 3600000))"

lemma cairoCalendarDate_day:
  assumes "plain_day ((t + off t) div msPerDay)"
  shows "cairoCalendarDate off t = day_text ((t + off t) div msPerDay)"
proof -
  let ?z = "(t + off t) div msPerDay"
  obtain y m d where c: "civil_of_day ?z = (y, m, d)" by (metis prod_cases3)
  have "1000 \<le> y" "y < 10000" using plain_day_year [OF assms] day_fields(1) [OF c] by simp_all
  then show ?thesis
    by (simp add: cairoCalendarDate_def Let_def civil_of_instant [OF c] day_text_eq [OF assms c] dec_int_4)
qed

lemma on_day: "z * msPerDay \<le> t \<Longrightarrow> t < (z + 1) * msPerDay \<Longrightarrow> t div msPerDay = z"
  by (rule int_div_pos_eq [of _ _ _ "t - z * msPerDay"]) (simp_all add: msPerDay_def)

text \<open>The Cairo start of a day: 21:00 UTC of the day before in summer, 22:00 in winter.\<close>

definition cairo_start :: "(int \<Rightarrow> int) \<Rightarrow> int \<Rightarrow> int" where
  "cairo_start off z =
     (let summer = (z - 1) * msPerDay + 75600000 in if off summer = 10800000 then summer else summer + 3600000)"

lemma date_numbers_day:
  assumes "plain_day z" "civil_of_day z = (y, m, d)"
  shows "date_numbers (day_text z) = (y, m, d)"
  using plain_day_year [OF assms(1)] day_fields [OF assms(2)] read_digits_pad [of d 2 "[]"]
  by (simp add: date_numbers_def day_text_eq [OF assms])

lemma cairoMidnight_day:
  assumes "cairo_offsets off" "plain_day (z - 1)" "plain_day z"
  shows "cairoMidnight off (day_text z) = Inr (cairo_start off z)"
proof -
  obtain y m d where c: "civil_of_day z = (y, m, d)" by (metis prod_cases3)
  have yr: "1000 \<le> y" using plain_day_year [OF assms(3)] day_fields(1) [OF c] by simp
  have "make_day y m (d - 1) = z - 1" using make_day_add [of y m d "-1"] day_fields(2) [OF c] by simp
  moreover have "(m - 1) div 12 = 0" "(m - 1) mod 12 + 1 = m" using day_fields(3,4) [OF c] by simp_all
  ultimately have u: "date_utc y m (d - 1) 20 0 0 = (z - 1) * msPerDay + 72000000"
    using yr by (simp add: date_utc_def)
  have o: "off t = 7200000 \<or> off t = 10800000" for t using assms(1) by (simp add: cairo_offsets_def)
  let ?c = "(z - 1) * msPerDay + 72000000"
  have D: "(t + off t) div msPerDay = x \<Longrightarrow> x \<in> {z - 1, z} \<Longrightarrow> cairoCalendarDate off t = day_text z \<longleftrightarrow> x = z" for t x
    using cairoCalendarDate_day [of t off] assms(2,3) day_text_inject [of x z] by auto
  have 0: "cairoCalendarDate off ?c = day_text z \<longleftrightarrow> z - 1 = z"
    by (rule D [OF on_day]) (use o [of ?c] in \<open>auto simp: msPerDay_def\<close>)
  have 1: "cairoCalendarDate off (?c + 3600000) = day_text z \<longleftrightarrow> off (?c + 3600000) = 10800000"
  proof (cases "off (?c + 3600000) = 10800000")
    case True
    have "cairoCalendarDate off (?c + 3600000) = day_text z \<longleftrightarrow> z = z"
      by (rule D [OF on_day]) (use True in \<open>auto simp: msPerDay_def\<close>)
    with True show ?thesis by simp
  next
    case False
    have "cairoCalendarDate off (?c + 3600000) = day_text z \<longleftrightarrow> z - 1 = z"
      by (rule D [OF on_day]) (use o [of "?c + 3600000"] False in \<open>auto simp: msPerDay_def\<close>)
    with False show ?thesis by simp
  qed
  have 2: "cairoCalendarDate off (?c + 7200000) = day_text z \<longleftrightarrow> z = z"
    by (rule D [OF on_day]) (use o [of "?c + 7200000"] in \<open>auto simp: msPerDay_def\<close>)
  have hours: "[0..7] = [0, 1, 2, 3, 4, 5, 6, 7::int]" by (simp add: upto.simps)
  show ?thesis
    using 0 1 2 assms(3)
    by (simp add: cairoMidnight_def Let_def date_numbers_day [OF assms(3) c] u hours cairo_start_def add.assoc)
qed

lemma cairo_start_first:
  assumes "cairo_offsets off" "plain_day (z - 1)" "plain_day z"
  shows "cairoCalendarDate off (cairo_start off z) = day_text z"
    and "cairoCalendarDate off (cairo_start off z - 1) = day_text (z - 1)"
proof -
  let ?s = "(z - 1) * msPerDay + 75600000" and ?t = "cairo_start off z"
  have o: "off t = 7200000 \<or> off t = 10800000" for t using assms(1) by (simp add: cairo_offsets_def)
  have "(?t + off ?t) div msPerDay = z"
    by (rule on_day) (use o [of ?t] in \<open>auto simp: cairo_start_def Let_def msPerDay_def split: if_splits\<close>)
  then show "cairoCalendarDate off ?t = day_text z" using assms(3) cairoCalendarDate_day [of ?t off] by simp
  have h: "(?t - 1) - (?t - 1) mod 3600000 = ?t - 3600000"
  proof -
    have "?t mod 3600000 = 0" by (simp add: cairo_start_def Let_def msPerDay_def mod_add_eq [symmetric] mod_mult_eq [symmetric])
    then obtain k where k: "?t = 3600000 * k" by (auto simp: mod_eq_0_iff_dvd elim: dvdE)
    have "(?t - 1) mod 3600000 = 3599999"
      by (rule int_mod_pos_eq [of _ _ "k - 1"]) (simp_all add: k)
    then show ?thesis by simp
  qed
  have "off (?t - 1) = off (?t - 3600000)" using assms(1) h unfolding cairo_offsets_def by metis
  then have "?t - 1 + off (?t - 1) < z * msPerDay"
    using o [of "?t - 3600000"] by (auto simp: cairo_start_def Let_def msPerDay_def split: if_splits)
  moreover have "(z - 1) * msPerDay \<le> ?t - 1 + off (?t - 1)"
    using o [of "?t - 1"] by (auto simp: cairo_start_def Let_def msPerDay_def split: if_splits)
  ultimately have "(?t - 1 + off (?t - 1)) div msPerDay = z - 1" by (intro on_day) simp_all
  then show "cairoCalendarDate off (?t - 1) = day_text (z - 1)" using assms(2) cairoCalendarDate_day [of "?t - 1" off] by simp
qed

text \<open>A week 1 whose twelve weeks lie in plain years.\<close>

definition plain_weeks :: "int \<Rightarrow> bool" where
  "plain_weeks w \<longleftrightarrow> DayFromYear 1000 < w \<and> w + 84 < DayFromYear 10000"

lemma plain_weeksD: "plain_weeks w \<Longrightarrow> 0 \<le> k \<Longrightarrow> k \<le> 84 \<Longrightarrow> plain_day (w + k) \<and> plain_day (w + k - 1)"
  by (auto simp: plain_weeks_def plain_day_def)

lemma weekStartDate_day:
  assumes "plain_weeks w" "1 \<le> n" "n \<le> 12"
  shows "weekStartDate E (Cal_date (w * msPerDay)) n = Inr (day_text (w + 7 * (n - 1)))"
  using assms plain_weeksD [of w 0] plain_weeksD [of w "7 * (n - 1)"]
  by (simp add: weekStartDate_def assertWeekNumber_def CONTENT_WEEK_COUNT_def addCairoCalendarDays_day)

lemma weekCutoffDate_day:
  assumes "cairo_offsets off" "plain_weeks w" "1 \<le> n" "n \<le> 12"
  shows "weekCutoffDate E off (Cal_date (w * msPerDay)) n = Inr (cairo_start off (w + 7 * n))"
proof -
  note p = plain_weeksD [OF assms(2), of "7 * n"] plain_weeksD [OF assms(2), of 77]
  have m: "cairoMidnight off (day_text (w + 7 * n)) = Inr (cairo_start off (w + 7 * n))"
    using cairoMidnight_day [OF assms(1)] p assms(3,4) by simp
  show ?thesis
  proof (cases "n = 12")
    case True
    then show ?thesis
      using m p weekStartDate_day [OF assms(2), of 12 E] addCairoCalendarDays_day [of "w + 77" 7 "Cal_text (day_text (w + 77))" E]
      by (simp add: weekCutoffDate_def assertWeekNumber_def CONTENT_WEEK_COUNT_def add.commute)
  next
    case False
    then show ?thesis
      using m weekStartDate_day [OF assms(2), of "n + 1" E] assms(3,4)
      by (simp add: weekCutoffDate_def assertWeekNumber_def CONTENT_WEEK_COUNT_def)
  qed
qed

end
