(* ===== verification/Week_Store.thy ===== *)
theory Week_Store
  imports Db_Action Opt_Store Week_Schedule
begin

text \<open>
  The tables of the content cycles (apps/api/prisma/schema.prisma), with the columns that the code
  reads or writes, their unique indexes, and the table operations of the repositories under
  apps/api/src/modules/content/repositories. A content cycle is twelve weeks; a week has a context, a
  plan of posts, and one pack of content items.
\<close>


section \<open>Rows\<close>

record cycle_row =
  cy_id :: string
  cy_contract :: string
  cy_business :: string
  cy_strategy :: string
  cy_version :: int
  cy_decision :: string
  cy_profile :: string
  cy_status :: string
  cy_week :: int
  cy_start :: int
  cy_next :: "int option"
  cy_pause :: "string option"
  cy_completed :: "int option"
  cy_owner :: string
  cy_key :: "string option"
  cy_fingerprint :: "string option"

record context_row =
  cx_id :: string
  cx_cycle :: string
  cx_week :: int
  cx_start :: int
  cx_mode :: string
  cx_promotion :: json
  cx_include :: json
  cx_avoid :: json
  cx_assets :: json
  cx_cta :: json
  cx_cutoff :: int
  cx_claim :: string
  cx_source :: string
  cx_confirmed_by :: "string option"
  cx_confirmed :: "int option"
  cx_defaulted :: "int option"
  cx_frozen :: "int option"

record plan_row =
  wp_id :: string
  wp_cycle :: string
  wp_week :: int
  wp_status :: string
  wp_frozen :: "json option"

record post_row =
  po_id :: string
  po_plan :: string
  po_position :: int
  po_purpose :: string
  po_audience :: "string option"
  po_channel :: string
  po_format :: string
  po_cta :: "string option"
  po_owner :: "string option"
  po_visual :: "string option"
  po_media :: json
  po_state :: string
  po_source :: string
  po_item :: "string option"

record pack_row =
  pk_id :: string
  pk_contract :: string
  pk_cycle :: string
  pk_claim :: string
  pk_week :: int
  pk_business :: string
  pk_strategy :: string
  pk_version :: int
  pk_decision :: string
  pk_profile :: string
  pk_context :: string
  pk_status :: string
  pk_retry :: bool
  pk_items :: "string list"
  pk_plan :: "string option"

record item_row =
  it_id :: string
  it_pack :: string
  it_current :: "string option"
  it_status :: string

record progress_row =
  pr_pack :: string
  pr_seq :: int
  pr_stage :: string
  pr_status :: string
  pr_key :: string
  pr_text :: string
  pr_payload :: json

record job_row =
  jo_id :: string
  jo_job :: string
  jo_queue :: string
  jo_name :: string
  jo_payload :: json
  jo_state :: string
  jo_attempts :: int
  jo_lease :: "string option"
  jo_expires :: "int option"
  jo_next :: "int option"
  jo_error :: "string option"
  jo_dispatched :: "int option"

record week_db =
  cycles :: "cycle_row list"
  contexts :: "context_row list"
  plans :: "plan_row list"
  posts :: "post_row list"
  packs :: "pack_row list"
  items :: "item_row list"
  progress :: "progress_row list"
  jobs :: "job_row list"
  optimization :: opt_db


section \<open>Failures\<close>

text \<open>
  The exceptions of the repositories: a bad request or a conflict with a code, a bad request that has only
  a message, a missing row, a \<open>RangeError\<close> of the calendar, a unique violation.
\<close>

datatype bad_reason =
  No_cutoff | Week_out_of_range | Cycle_not_active | Not_next_week | Previous_not_complete | Wrong_context
  | Context_unavailable | Cannot_pause | Cannot_resume | Too_early | Already_completed | Bad_transition

datatype week_failure =
  Bad_request string | Bad_message bad_reason | Conflict string | Not_found | Record_missing | Out_of_range
  | Duplicate | Check_failed

type_synonym 'a week = "(week_db, week_failure, 'a) action"


section \<open>Unique indexes\<close>

definition cycle_clash :: "cycle_row \<Rightarrow> cycle_row \<Rightarrow> bool" where
  "cycle_clash a b \<longleftrightarrow> cy_id a = cy_id b \<or> cy_owner a = cy_owner b \<and> cy_key a \<noteq> None \<and> cy_key a = cy_key b"

definition context_clash :: "context_row \<Rightarrow> context_row \<Rightarrow> bool" where
  "context_clash a b \<longleftrightarrow> cx_id a = cx_id b \<or> cx_cycle a = cx_cycle b \<and> cx_week a = cx_week b"

definition plan_clash :: "plan_row \<Rightarrow> plan_row \<Rightarrow> bool" where
  "plan_clash a b \<longleftrightarrow> wp_id a = wp_id b \<or> wp_cycle a = wp_cycle b \<and> wp_week a = wp_week b"

definition post_clash :: "post_row \<Rightarrow> post_row \<Rightarrow> bool" where
  "post_clash a b \<longleftrightarrow> po_id a = po_id b \<or> po_plan a = po_plan b \<and> po_position a = po_position b"

definition pack_clash :: "pack_row \<Rightarrow> pack_row \<Rightarrow> bool" where
  "pack_clash a b \<longleftrightarrow> pk_id a = pk_id b \<or> pk_cycle a = pk_cycle b \<and> pk_week a = pk_week b"

definition progress_clash :: "progress_row \<Rightarrow> progress_row \<Rightarrow> bool" where
  "progress_clash a b \<longleftrightarrow> pr_pack a = pr_pack b \<and> pr_seq a = pr_seq b"

definition job_clash :: "job_row \<Rightarrow> job_row \<Rightarrow> bool" where
  "job_clash a b \<longleftrightarrow> jo_id a = jo_id b \<or> jo_job a = jo_job b"


section \<open>Table operations\<close>

definition put_cycles :: "cycle_row list \<Rightarrow> week_db \<Rightarrow> week_db" where "put_cycles t s = s\<lparr>cycles := t\<rparr>"
definition put_contexts :: "context_row list \<Rightarrow> week_db \<Rightarrow> week_db" where "put_contexts t s = s\<lparr>contexts := t\<rparr>"
definition put_plans :: "plan_row list \<Rightarrow> week_db \<Rightarrow> week_db" where "put_plans t s = s\<lparr>plans := t\<rparr>"
definition put_posts :: "post_row list \<Rightarrow> week_db \<Rightarrow> week_db" where "put_posts t s = s\<lparr>posts := t\<rparr>"
definition put_packs :: "pack_row list \<Rightarrow> week_db \<Rightarrow> week_db" where "put_packs t s = s\<lparr>packs := t\<rparr>"
definition put_progress :: "progress_row list \<Rightarrow> week_db \<Rightarrow> week_db" where "put_progress t s = s\<lparr>progress := t\<rparr>"
definition put_jobs :: "job_row list \<Rightarrow> week_db \<Rightarrow> week_db" where "put_jobs t s = s\<lparr>jobs := t\<rparr>"
definition put_optimization :: "opt_db \<Rightarrow> week_db \<Rightarrow> week_db" where "put_optimization t s = s\<lparr>optimization := t\<rparr>"

text \<open>\<open>updateMany\<close>: the number of rows it changed.\<close>

definition act_update ::
  "('s \<Rightarrow> 'r list) \<Rightarrow> ('r list \<Rightarrow> 's \<Rightarrow> 's) \<Rightarrow> ('r \<Rightarrow> bool) \<Rightarrow> ('r \<Rightarrow> 'r) \<Rightarrow> ('s, 'e, nat) action" where
  "act_update get put P f s = (Inr (tbl_count P (get s)), put (tbl_update P f (get s)) s)"

text \<open>\<open>findUniqueOrThrow\<close>, and \<open>findUnique\<close> with an exception of the code's own.\<close>

definition act_found :: "('s \<Rightarrow> 'a option) \<Rightarrow> 'e \<Rightarrow> ('s, 'e, 'a) action" where
  "act_found look e = act_bind (act_read look) (\<lambda>x. case x of None \<Rightarrow> act_throw e | Some a \<Rightarrow> act_return a)"

definition act_when :: "bool \<Rightarrow> ('s, 'e, unit) action \<Rightarrow> ('s, 'e, unit) action" where
  "act_when b m = (if b then m else act_return ())"

definition act_reject :: "bool \<Rightarrow> 'e \<Rightarrow> ('s, 'e, unit) action" where
  "act_reject b e = (if b then act_throw e else act_return ())"

definition from_schedule :: "schedule_error + 'a \<Rightarrow> week_failure + 'a" where
  "from_schedule r = (case r of Inl _ \<Rightarrow> Inl Out_of_range | Inr a \<Rightarrow> Inr a)"

definition cycle_by_id :: "string \<Rightarrow> week_db \<Rightarrow> cycle_row option" where
  "cycle_by_id i s = tbl_find cy_id i (cycles s)"

definition context_by_id :: "string \<Rightarrow> week_db \<Rightarrow> context_row option" where
  "context_by_id i s = tbl_find cx_id i (contexts s)"

definition context_of_week :: "string \<Rightarrow> int \<Rightarrow> week_db \<Rightarrow> context_row option" where
  "context_of_week c n s = tbl_find (\<lambda>r. (cx_cycle r, cx_week r)) (c, n) (contexts s)"

definition plan_of_week :: "string \<Rightarrow> int \<Rightarrow> week_db \<Rightarrow> plan_row option" where
  "plan_of_week c n s = tbl_find (\<lambda>r. (wp_cycle r, wp_week r)) (c, n) (plans s)"

definition pack_by_id :: "string \<Rightarrow> week_db \<Rightarrow> pack_row option" where
  "pack_by_id i s = tbl_find pk_id i (packs s)"

definition pack_of_week :: "string \<Rightarrow> int \<Rightarrow> week_db \<Rightarrow> pack_row option" where
  "pack_of_week c n s = tbl_find (\<lambda>r. (pk_cycle r, pk_week r)) (c, n) (packs s)"

definition add_cycle :: "cycle_row \<Rightarrow> unit week" where
  "add_cycle r = act_insert cycle_clash cycles put_cycles r Duplicate"

definition add_context :: "context_row \<Rightarrow> unit week" where
  "add_context r = act_insert context_clash contexts put_contexts r Duplicate"

definition add_plan :: "plan_row \<Rightarrow> unit week" where
  "add_plan r = act_insert plan_clash plans put_plans r Duplicate"

definition add_post :: "post_row \<Rightarrow> unit week" where
  "add_post r = act_insert post_clash posts put_posts r Duplicate"

definition add_pack :: "pack_row \<Rightarrow> unit week" where
  "add_pack r = act_insert pack_clash packs put_packs r Duplicate"

definition add_progress :: "progress_row \<Rightarrow> unit week" where
  "add_progress r = act_insert progress_clash progress put_progress r Duplicate"

definition add_job :: "job_row \<Rightarrow> unit week" where
  "add_job r = act_insert job_clash jobs put_jobs r Duplicate"

text \<open>The frozen context of a week and the start of a cycle cannot change: triggers of the database.\<close>

definition isCompletedPackStatus :: "string \<Rightarrow> bool" where
  "isCompletedPackStatus st \<longleftrightarrow> st \<in> {''draft'', ''partially_approved'', ''approved''}"

text \<open>The job that a claim of a week leaves in the outbox.\<close>

definition pack_job :: "string \<Rightarrow> string \<Rightarrow> string \<Rightarrow> int \<Rightarrow> string \<Rightarrow> job_row" where
  "pack_job i name cycle n pack =
     \<lparr>jo_id = i, jo_job = name @ CHR ''-'' # pack, jo_queue = ''content-generation'', jo_name = name,
      jo_payload = JObj [(''contentCycleId'', JStr cycle), (''weekNumber'', JNum (of_int n)),
        (''contentPackId'', JStr pack), (''idempotencyKey'', JStr (''pack:'' @ pack)),
        (''correlationId'', JStr (''pack:'' @ pack))],
      jo_state = ''pending'', jo_attempts = 0, jo_lease = None, jo_expires = None, jo_next = None,
      jo_error = None, jo_dispatched = None\<rparr>"

end
