(* ===== verification/Week_Cycles.thy ===== *)
theory Week_Cycles
  imports Week_Store
begin

text \<open>
  The content cycles (content-cycle.repository.ts) and the scheduler that moves them from week to week
  (content-scheduler.service.ts). \<open>E\<close> is the JavaScript engine, \<open>off\<close> the zone of Cairo.
\<close>


section \<open>Creating a cycle\<close>

record cycle_input =
  ci_business :: string
  ci_strategy :: string
  ci_version :: int
  ci_decision :: string
  ci_profile :: string
  ci_start :: int
  ci_key :: "string option"
  ci_fingerprint :: "string option"
  ci_next :: "int option"

record context_input =
  xi_week :: int
  xi_mode :: string
  xi_promotion :: json
  xi_include :: json
  xi_avoid :: json
  xi_assets :: json
  xi_cta :: json

definition new_cycle :: "cycle_input \<Rightarrow> string \<Rightarrow> string \<Rightarrow> cycle_row" where
  "new_cycle i owner k =
     \<lparr>cy_id = k, cy_contract = ''content-v2'', cy_business = ci_business i, cy_strategy = ci_strategy i,
      cy_version = ci_version i, cy_decision = ci_decision i, cy_profile = ci_profile i, cy_status = ''active'',
      cy_week = 1, cy_start = ci_start i, cy_next = ci_next i, cy_pause = None, cy_completed = None,
      cy_owner = owner, cy_key = ci_key i, cy_fingerprint = ci_fingerprint i\<rparr>"

text \<open>A unique violation is a replay when the request has a key and the key is known.\<close>

definition cycle_by_key :: "string \<Rightarrow> string option \<Rightarrow> week_db \<Rightarrow> cycle_row option" where
  "cycle_by_key owner k s = List.find (\<lambda>c. cy_owner c = owner \<and> cy_key c = k) (cycles s)"

text \<open>\<open>null !== undefined\<close>: a cycle without a fingerprint is never the same request.\<close>

definition same_fingerprint :: "string option \<Rightarrow> string option \<Rightarrow> bool" where
  "same_fingerprint kept given \<longleftrightarrow> kept \<noteq> None \<and> kept = given"

definition cycle_replay :: "cycle_input \<Rightarrow> string \<Rightarrow> (cycle_row \<Rightarrow> 'a week) \<Rightarrow> week_failure \<Rightarrow> 'a week" where
  "cycle_replay i owner answer e =
     (if e \<noteq> Duplicate \<or> ci_key i \<in> {None, Some []} then act_throw e
      else act_bind (act_read (cycle_by_key owner (ci_key i))) (\<lambda>found.
        case found of
          None \<Rightarrow> act_throw e
        | Some c \<Rightarrow> if same_fingerprint (cy_fingerprint c) (ci_fingerprint i) then answer c
                   else act_throw (Conflict ''CONTENT_VERSION_CONFLICT'')))"

definition createCycle :: "cycle_input \<Rightarrow> string \<Rightarrow> call \<Rightarrow> cycle_row week" where
  "createCycle i owner k =
     (let c = new_cycle i owner (call_id k 0) in
      act_catch (act_seq (add_cycle c) (act_return c)) (cycle_replay i owner act_return))"

definition first_context :: "cycle_input \<Rightarrow> context_input \<Rightarrow> int \<Rightarrow> string \<Rightarrow> call \<Rightarrow> context_row" where
  "first_context i x cutoff owner k =
     \<lparr>cx_id = call_id k 1, cx_cycle = call_id k 0, cx_week = 1, cx_start = ci_start i, cx_mode = xi_mode x,
      cx_promotion = xi_promotion x, cx_include = xi_include x, cx_avoid = xi_avoid x, cx_assets = xi_assets x,
      cx_cta = xi_cta x, cx_cutoff = cutoff, cx_claim = call_id k 2, cx_source = ''owner_confirmed'',
      cx_confirmed_by = Some owner, cx_confirmed = Some (call_now k), cx_defaulted = None, cx_frozen = None\<rparr>"

definition freeze_context :: "int \<Rightarrow> context_row \<Rightarrow> context_row" where
  "freeze_context now r = r\<lparr>cx_frozen := Some now\<rparr>"

definition new_pack :: "string \<Rightarrow> string \<Rightarrow> cycle_row \<Rightarrow> context_row \<Rightarrow> int \<Rightarrow> string option \<Rightarrow> pack_row" where
  "new_pack k contract c x n plan =
     \<lparr>pk_id = k, pk_contract = contract, pk_cycle = cy_id c, pk_claim = cx_claim x, pk_week = n,
      pk_business = cy_business c, pk_strategy = cy_strategy c, pk_version = cy_version c,
      pk_decision = cy_decision c, pk_profile = cy_profile c, pk_context = cx_id x, pk_status = ''queued'',
      pk_retry = True, pk_items = [], pk_plan = plan\<rparr>"

type_synonym created_cycle = "cycle_row \<times> context_row \<times> pack_row option \<times> bool"

definition cycle_answer :: "cycle_row \<Rightarrow> created_cycle week" where
  "cycle_answer c =
     act_bind (act_found (context_of_week (cy_id c) 1) Record_missing) (\<lambda>x.
       if cy_contract c = ''content-v2'' then act_return (c, x, None, False)
       else act_bind (act_found (pack_of_week (cy_id c) 1) Record_missing) (\<lambda>p. act_return (c, x, Some p, False)))"

text \<open>
  The answer of a creation has the context as frozen, also where the claim of week 1 is skipped and the
  stored context is not.
\<close>

definition createCycleWithWeekOne :: "cycle_input \<Rightarrow> context_input \<Rightarrow> bool \<Rightarrow> bool \<Rightarrow> string \<Rightarrow> call \<Rightarrow> created_cycle week" where
  "createCycleWithWeekOne i x skip job owner k =
     (case ci_next i of
        None \<Rightarrow> act_throw (Bad_message No_cutoff)
      | Some cutoff \<Rightarrow>
          (let c = new_cycle i owner (call_id k 0); w = first_context i x cutoff owner k;
               p = new_pack (call_id k 3) ''content-v2'' c w 1 None in
           act_catch
             (transaction
               (act_seq (add_cycle c)
               (act_seq (add_context w)
               (act_seq (act_when (\<not> skip) (act_seq
                   (act_bind (act_update contexts put_contexts (\<lambda>r. cx_id r = cx_id w \<and> cx_frozen r = None)
                       (freeze_context (call_now k))) (\<lambda>_. act_return ()))
                   (act_seq (add_pack p)
                     (act_when job (add_job (pack_job (call_id k 4) ''generate-content'' (cy_id c) 1 (pk_id p)))))))
                 (act_return (c, freeze_context (call_now k) w, if skip then None else Some p, True))))))
             (cycle_replay i owner cycle_answer)))"


section \<open>Reading and pausing\<close>

definition getCycleByIdAndOwner :: "string \<Rightarrow> string \<Rightarrow> week_db \<Rightarrow> cycle_row option" where
  "getCycleByIdAndOwner i owner s =
     (case cycle_by_id i s of None \<Rightarrow> None | Some c \<Rightarrow> if cy_owner c \<noteq> owner then None else Some c)"

definition set_status :: "string \<Rightarrow> string option \<Rightarrow> cycle_row \<Rightarrow> cycle_row" where
  "set_status st reason c = c\<lparr>cy_status := st, cy_pause := reason\<rparr>"

definition set_completed :: "int \<Rightarrow> cycle_row \<Rightarrow> cycle_row" where
  "set_completed now c = c\<lparr>cy_status := ''completed'', cy_completed := Some now\<rparr>"

definition owned :: "string \<Rightarrow> string \<Rightarrow> week_db \<Rightarrow> cycle_row option" where
  "owned i owner s = List.find (\<lambda>c. cy_id c = i \<and> cy_owner c = owner) (cycles s)"

definition move_cycle :: "string \<Rightarrow> string \<Rightarrow> string \<Rightarrow> (cycle_row \<Rightarrow> cycle_row) \<Rightarrow> bad_reason \<Rightarrow> cycle_row week" where
  "move_cycle i owner from_status f e =
     transaction (act_bind (act_found (owned i owner) Not_found) (\<lambda>_.
       act_bind (act_update cycles put_cycles (\<lambda>c. cy_id c = i \<and> cy_owner c = owner \<and> cy_status c = from_status) f) (\<lambda>n.
         if n = 0 then act_throw (Bad_message e) else act_found (cycle_by_id i) Record_missing)))"

definition pauseCycle :: "string \<Rightarrow> string \<Rightarrow> string \<Rightarrow> cycle_row week" where
  "pauseCycle i owner reason = move_cycle i owner ''active'' (set_status ''paused'' (Some reason)) Cannot_pause"

definition resumeCycle :: "string \<Rightarrow> string \<Rightarrow> cycle_row week" where
  "resumeCycle i owner = move_cycle i owner ''paused'' (set_status ''active'' None) Cannot_resume"

definition completeCycle :: "string \<Rightarrow> call \<Rightarrow> cycle_row week" where
  "completeCycle i k =
     transaction (act_bind (act_found (cycle_by_id i) Record_missing) (\<lambda>c.
       if cy_week c < 12 then act_throw (Bad_message Too_early)
       else act_bind (act_update cycles put_cycles (\<lambda>r. cy_id r = i \<and> cy_status r \<in> {''active'', ''paused''})
           (set_completed (call_now k))) (\<lambda>n.
         if n = 0 then act_throw (Bad_message Already_completed) else act_found (cycle_by_id i) Record_missing)))"

definition markCycleCompleted :: "string \<Rightarrow> call \<Rightarrow> unit week" where
  "markCycleCompleted i k =
     act_bind (act_update cycles put_cycles (\<lambda>r. cy_id r = i \<and> cy_status r = ''active'') (set_completed (call_now k)))
       (\<lambda>_. act_return ())"


section \<open>From week to week\<close>

definition listActiveReadyForNextWeek :: "int \<Rightarrow> week_db \<Rightarrow> cycle_row list" where
  "listActiveReadyForNextWeek now s =
     filter (\<lambda>c. cy_contract c = ''content-v2''
         \<and> (\<exists>p \<in> set (packs s). pk_cycle p = cy_id c \<and> pk_week p = cy_week c \<and> isCompletedPackStatus (pk_status p)))
       (filter (\<lambda>c. cy_status c = ''active'' \<and> cy_contract c = ''content-v2''
         \<and> opt_holds (\<lambda>t. t \<le> now) (cy_next c) \<and> cy_week c < 12) (cycles s))"

definition set_week :: "int \<Rightarrow> int \<Rightarrow> cycle_row \<Rightarrow> cycle_row" where
  "set_week n cutoff c = c\<lparr>cy_week := n, cy_next := Some cutoff\<rparr>"

definition midnight_of :: "js_env \<Rightarrow> string \<Rightarrow> week_failure + int" where
  "midnight_of E day = (case js_date_parse E (day @ ''T00:00:00.000Z'') of None \<Rightarrow> Inl Out_of_range | Some t \<Rightarrow> Inr t)"

definition cutoff_of :: "js_env \<Rightarrow> (int \<Rightarrow> int) \<Rightarrow> cycle_row \<Rightarrow> int \<Rightarrow> int week" where
  "cutoff_of E off c n = act_lift (from_schedule (weekCutoffDate E off (Cal_date (cy_start c)) n))"

definition start_of :: "js_env \<Rightarrow> cycle_row \<Rightarrow> int \<Rightarrow> int week" where
  "start_of E c n = act_lift (throws_bind (from_schedule (weekStartDate E (Cal_date (cy_start c)) n)) (midnight_of E))"

definition defaulted_context :: "string \<Rightarrow> int \<Rightarrow> int \<Rightarrow> int \<Rightarrow> json \<Rightarrow> json \<Rightarrow> call \<Rightarrow> context_row" where
  "defaulted_context cycle n start cutoff assets cta k =
     \<lparr>cx_id = call_id k 0, cx_cycle = cycle, cx_week = n, cx_start = start, cx_mode = ''none'', cx_promotion = JNull,
      cx_include = JArr [], cx_avoid = JArr [], cx_assets = assets, cx_cta = cta, cx_cutoff = cutoff,
      cx_claim = call_id k 1, cx_source = ''system_defaulted'', cx_confirmed_by = None, cx_confirmed = None,
      cx_defaulted = Some (call_now k), cx_frozen = None\<rparr>"

definition no_cta :: json where
  "no_cta = JObj [(''type'', JStr ''none''), (''value'', JNull)]"

datatype rollover = Unchanged | Completed | Advanced int

definition advanceToNextWeek :: "js_env \<Rightarrow> (int \<Rightarrow> int) \<Rightarrow> string \<Rightarrow> int \<Rightarrow> call \<Rightarrow> rollover week" where
  "advanceToNextWeek E off i expected k =
     transaction (act_bind (act_found (cycle_by_id i) Record_missing) (\<lambda>c.
       if cy_status c \<noteq> ''active'' \<or> cy_contract c \<noteq> ''content-v2'' then act_return Unchanged
       else if cy_week c \<noteq> expected then act_return Unchanged
       else if cy_week c \<ge> 12 then
         act_bind (act_update cycles put_cycles (\<lambda>r. cy_id r = i \<and> cy_status r = ''active'') (set_completed (call_now k)))
           (\<lambda>_. act_return Completed)
       else
         act_bind (cutoff_of E off c (cy_week c + 1)) (\<lambda>cutoff.
         act_bind (act_update cycles put_cycles
             (\<lambda>r. cy_id r = i \<and> cy_week r = cy_week c \<and> cy_status r = ''active'') (set_week (cy_week c + 1) cutoff)) (\<lambda>m.
           if m = 0 then act_return Unchanged
           else act_bind (act_read (context_of_week i (cy_week c + 1))) (\<lambda>existing.
             act_seq (if existing \<noteq> None then act_return ()
                 else act_bind (start_of E c (cy_week c + 1)) (\<lambda>start.
                   add_context (defaulted_context i (cy_week c + 1) start cutoff (JArr []) no_cta k)))
               (act_return (Advanced (cy_week c + 1))))))))"

text \<open>The cron job: a failure of one cycle is logged and the others go on. Every cycle draws its own UUIDs.\<close>

definition draw :: "call \<Rightarrow> nat \<Rightarrow> call" where
  "draw k n = k\<lparr>call_id := \<lambda>j. call_id k (2 * n + j)\<rparr>"

fun roll_over :: "js_env \<Rightarrow> (int \<Rightarrow> int) \<Rightarrow> call \<Rightarrow> nat \<Rightarrow> cycle_row list \<Rightarrow> unit week" where
  "roll_over E off k n [] = act_return ()"
| "roll_over E off k n (c # cs) =
     act_seq (act_catch (act_bind (advanceToNextWeek E off (cy_id c) (cy_week c) (draw k n)) (\<lambda>_. act_return ()))
         (\<lambda>_. act_return ()))
       (roll_over E off k (Suc n) cs)"

definition progressWeeks :: "js_env \<Rightarrow> (int \<Rightarrow> int) \<Rightarrow> call \<Rightarrow> unit week" where
  "progressWeeks E off k = act_bind (act_read (listActiveReadyForNextWeek (call_now k))) (roll_over E off k 0)"

end
