(* ===== verification/Week_Plans.thy ===== *)
theory Week_Plans
  imports Week_Cycles
begin

text \<open>
  The contexts of the weeks (content-week-context.repository.ts) and their plans of posts
  (v2/content-week-plan.repository.ts). The assets of approved packs that a defaulted context may reuse
  and the confirmed profile of the business are parameters: no model table holds them.
\<close>


section \<open>Contexts\<close>

definition contextFrozen :: week_failure where
  "contextFrozen = Conflict ''CONTENT_WEEK_ALREADY_CLAIMED''"

definition owner_context :: "string \<Rightarrow> context_input \<Rightarrow> int \<Rightarrow> int \<Rightarrow> string \<Rightarrow> call \<Rightarrow> context_row" where
  "owner_context cycle x start cutoff owner k =
     \<lparr>cx_id = call_id k 0, cx_cycle = cycle, cx_week = xi_week x, cx_start = start, cx_mode = xi_mode x,
      cx_promotion = xi_promotion x, cx_include = xi_include x, cx_avoid = xi_avoid x, cx_assets = xi_assets x,
      cx_cta = xi_cta x, cx_cutoff = cutoff, cx_claim = call_id k 1, cx_source = ''owner_confirmed'',
      cx_confirmed_by = Some owner, cx_confirmed = Some (call_now k), cx_defaulted = None, cx_frozen = None\<rparr>"

definition rewrite_context :: "context_input \<Rightarrow> string \<Rightarrow> int \<Rightarrow> context_row \<Rightarrow> context_row" where
  "rewrite_context x owner now r = r\<lparr>cx_mode := xi_mode x, cx_promotion := xi_promotion x, cx_include := xi_include x,
     cx_avoid := xi_avoid x, cx_assets := xi_assets x, cx_cta := xi_cta x, cx_confirmed_by := Some owner,
     cx_confirmed := Some now\<rparr>"

definition locked_context :: "context_row \<Rightarrow> bool" where
  "locked_context r \<longleftrightarrow> cx_source r = ''system_defaulted'' \<or> cx_frozen r \<noteq> None"

definition create_owner_context :: "context_row \<Rightarrow> context_row week" where
  "create_owner_context r =
     act_catch (act_seq (add_context r) (act_return r))
       (\<lambda>e. if e \<noteq> Duplicate then act_throw e
            else act_bind (act_found (context_of_week (cx_cycle r) (cx_week r)) Record_missing) (\<lambda>claimed.
              if locked_context claimed then act_throw contextFrozen else act_return claimed))"

definition upsertOwnerContext :: "js_env \<Rightarrow> (int \<Rightarrow> int) \<Rightarrow> string \<Rightarrow> context_input \<Rightarrow> string \<Rightarrow> call \<Rightarrow> context_row week" where
  "upsertOwnerContext E off cycle x owner k =
     transaction (act_bind (act_found (cycle_by_id cycle) Not_found) (\<lambda>c.
       act_bind (start_of E c (xi_week x)) (\<lambda>start.
       act_bind (cutoff_of E off c (xi_week x)) (\<lambda>cutoff.
       act_bind (act_read (context_of_week cycle (xi_week x))) (\<lambda>existing.
         case existing of
           None \<Rightarrow> create_owner_context (owner_context cycle x start cutoff owner k)
         | Some r \<Rightarrow>
             if locked_context r then act_throw contextFrozen
             else act_bind (act_update contexts put_contexts (\<lambda>q. cx_id q = cx_id r \<and> cx_frozen q = None)
                 (rewrite_context x owner (call_now k))) (\<lambda>n.
               if n = 0 then act_throw contextFrozen else act_found (context_by_id (cx_id r)) Record_missing))))))"

text \<open>The destination of the call to action: the confirmed address or none.\<close>

definition deriveSafeDefaultCta :: "json \<Rightarrow> json" where
  "deriveSafeDefaultCta profile =
     (case (if isRecord profile then jget profile ''address_text'' else JUndef) of
        JStr a \<Rightarrow> if js_trim a \<noteq> [] then JObj [(''type'', JStr ''address''), (''value'', JStr a)] else no_cta
      | _ \<Rightarrow> no_cta)"

definition claimWeek :: "context_row \<Rightarrow> context_row week" where
  "claimWeek r =
     act_catch (act_seq (add_context r) (act_return r))
       (\<lambda>e. if e \<noteq> Duplicate then act_throw e
            else act_bind (act_read (context_of_week (cx_cycle r) (cx_week r))) (\<lambda>found.
              case found of None \<Rightarrow> act_throw e | Some x \<Rightarrow> act_return x))"

definition createSafeDefaultContext ::
  "js_env \<Rightarrow> (int \<Rightarrow> int) \<Rightarrow> (cycle_row \<Rightarrow> json) \<Rightarrow> (string \<Rightarrow> string list) \<Rightarrow> string \<Rightarrow> int \<Rightarrow> call \<Rightarrow> context_row week" where
  "createSafeDefaultContext E off profile approved cycle n k =
     act_bind (act_found (cycle_by_id cycle) Not_found) (\<lambda>c.
     act_bind (start_of E c n) (\<lambda>start.
     act_bind (cutoff_of E off c n) (\<lambda>cutoff.
       claimWeek (defaulted_context cycle n start cutoff (JArr (map JStr (approved cycle)))
         (deriveSafeDefaultCta (profile c)) k))))"

definition listWeeks :: "string \<Rightarrow> week_db \<Rightarrow> context_row list" where
  "listWeeks c s = sort_key cx_week (filter (\<lambda>r. cx_cycle r = c) (contexts s))"


section \<open>Plans\<close>

record post_input =
  pi_position :: int
  pi_purpose :: string
  pi_audience :: "string option"
  pi_channel :: string
  pi_format :: string
  pi_cta :: "string option"
  pi_owner :: "string option"
  pi_visual :: "string option"
  pi_media :: "string list"
  pi_source :: string

definition assertCycleOwned :: "string \<Rightarrow> string \<Rightarrow> unit week" where
  "assertCycleOwned cycle owner = act_bind (act_found (owned cycle owner) Not_found) (\<lambda>_. act_return ())"

definition new_post :: "string \<Rightarrow> string \<Rightarrow> post_input \<Rightarrow> post_row" where
  "new_post k plan i =
     \<lparr>po_id = k, po_plan = plan, po_position = pi_position i, po_purpose = pi_purpose i, po_audience = pi_audience i,
      po_channel = pi_channel i, po_format = pi_format i, po_cta = pi_cta i, po_owner = pi_owner i,
      po_visual = pi_visual i, po_media = JArr (map JStr (pi_media i)), po_state = ''planned'',
      po_source = pi_source i, po_item = None\<rparr>"

fun add_posts :: "string \<Rightarrow> call \<Rightarrow> nat \<Rightarrow> post_input list \<Rightarrow> unit week" where
  "add_posts plan k n [] = act_return ()"
| "add_posts plan k n (i # is) = act_seq (add_post (new_post (call_id k n) plan i)) (add_posts plan k (Suc n) is)"

definition plan_posts :: "string \<Rightarrow> week_db \<Rightarrow> post_row list" where
  "plan_posts plan s = filter (\<lambda>p. po_plan p = plan) (posts s)"

definition plan_answer :: "string \<Rightarrow> (plan_row \<times> post_row list) week" where
  "plan_answer i =
     act_bind (act_found (\<lambda>s. tbl_find wp_id i (plans s)) Record_missing) (\<lambda>p.
     act_bind (act_read (plan_posts i)) (\<lambda>ps. act_return (p, ps)))"

definition delete_posts :: "string \<Rightarrow> week_db \<Rightarrow> week_db" where
  "delete_posts plan s = put_posts (filter (\<lambda>p. po_plan p \<noteq> plan) (posts s)) s"

definition set_draft :: "plan_row \<Rightarrow> plan_row" where
  "set_draft p = p\<lparr>wp_status := ''draft''\<rparr>"

text \<open>The positions have to be \<open>1, ..., n\<close> for \<open>n\<close> from three to five.\<close>

definition createOrReplaceWeekPlan ::
  "string \<Rightarrow> int \<Rightarrow> post_input list \<Rightarrow> string \<Rightarrow> call \<Rightarrow> (plan_row \<times> post_row list) week" where
  "createOrReplaceWeekPlan cycle n is owner k =
     (if length is < 3 \<or> length is > 5 \<or> map pi_position is \<noteq> take (length is) [1, 2, 3, 4, 5]
      then act_throw (Bad_request ''CONTENT_SCHEMA_FAILURE'')
      else transaction (act_seq (assertCycleOwned cycle owner)
        (act_bind (act_read (plan_of_week cycle n)) (\<lambda>existing.
          case existing of
            Some p \<Rightarrow>
              if wp_status p = ''frozen'' then act_throw (Bad_request ''CONTENT_WEEK_ALREADY_CLAIMED'')
              else act_seq (act_modify (delete_posts (wp_id p)))
                (act_bind (act_update plans put_plans (\<lambda>q. wp_id q = wp_id p) set_draft) (\<lambda>_.
                  act_seq (add_posts (wp_id p) k 0 is) (plan_answer (wp_id p))))
          | None \<Rightarrow>
              act_seq (add_plan \<lparr>wp_id = call_id k (length is), wp_cycle = cycle, wp_week = n, wp_status = ''draft'', wp_frozen = None\<rparr>)
                (act_seq (add_posts (call_id k (length is)) k 0 is) (plan_answer (call_id k (length is))))))))"

definition getWeekPlan :: "string \<Rightarrow> int \<Rightarrow> string \<Rightarrow> (plan_row \<times> post_row list) option week" where
  "getWeekPlan cycle n owner =
     transaction (act_seq (assertCycleOwned cycle owner)
       (act_read (\<lambda>s. map_option (\<lambda>p. (p, plan_posts (wp_id p) s)) (plan_of_week cycle n s))))"

definition listWeekPlans :: "string \<Rightarrow> string \<Rightarrow> (plan_row \<times> post_row list) list week" where
  "listWeekPlans cycle owner =
     transaction (act_seq (assertCycleOwned cycle owner)
       (act_read (\<lambda>s. map (\<lambda>p. (p, plan_posts (wp_id p) s)) (sort_key wp_week (filter (\<lambda>p. wp_cycle p = cycle) (plans s))))))"

definition freeze_plan :: "json \<Rightarrow> plan_row \<Rightarrow> plan_row" where
  "freeze_plan v p = p\<lparr>wp_status := ''frozen'', wp_frozen := Some v\<rparr>"

definition freezeWeekPlan :: "string \<Rightarrow> int \<Rightarrow> json \<Rightarrow> bool week" where
  "freezeWeekPlan cycle n v =
     act_bind (act_update plans put_plans (\<lambda>p. wp_cycle p = cycle \<and> wp_week p = n \<and> wp_status p = ''draft'') (freeze_plan v))
       (\<lambda>m. act_return (m = 1))"

definition set_post_state :: "string \<Rightarrow> post_row \<Rightarrow> post_row" where
  "set_post_state st p = p\<lparr>po_state := st\<rparr>"

definition attach_item :: "string \<Rightarrow> post_row \<Rightarrow> post_row" where
  "attach_item i p = p\<lparr>po_item := Some i, po_state := ''ready''\<rparr>"

definition update_posts :: "(post_row \<Rightarrow> bool) \<Rightarrow> (post_row \<Rightarrow> post_row) \<Rightarrow> unit week" where
  "update_posts P f = act_bind (act_update posts put_posts P f) (\<lambda>_. act_return ())"

definition attachGeneratedItem :: "string \<Rightarrow> int \<Rightarrow> string \<Rightarrow> unit week" where
  "attachGeneratedItem plan n i = update_posts (\<lambda>p. po_plan p = plan \<and> po_position p = n) (attach_item i)"

definition markPlansGenerating :: "string \<Rightarrow> unit week" where
  "markPlansGenerating plan =
     update_posts (\<lambda>p. po_plan p = plan \<and> po_state p \<in> {''planned'', ''generating'', ''failed''}) (set_post_state ''generating'')"

definition markPlansFailed :: "string \<Rightarrow> unit week" where
  "markPlansFailed plan =
     update_posts (\<lambda>p. po_plan p = plan \<and> po_state p \<in> {''planned'', ''generating''}) (set_post_state ''failed'')"

definition assertWeekPlanFrozenFor :: "string \<Rightarrow> week_db \<Rightarrow> bool" where
  "assertWeekPlanFrozenFor i s = (map_option wp_status (tbl_find wp_id i (plans s)) = Some ''frozen'')"

end
