(* ===== verification/Week_Packs.thy ===== *)
theory Week_Packs
  imports Week_Plans
begin

text \<open>
  The packs of content: the claims of a week, the statuses of a pack and its progress events
  (content-pack.repository.ts, with the transitions of packages/contracts/src/content/content-cycle.ts).
  The claim of a version 2 week may consume an approved optimization instruction.
\<close>


section \<open>Claiming a week, version 1\<close>

definition set_next :: "int \<Rightarrow> cycle_row \<Rightarrow> cycle_row" where
  "set_next cutoff c = c\<lparr>cy_next := Some cutoff\<rparr>"

text \<open>A unique violation is a lost race: the pack of the week is the answer.\<close>

definition claim_race :: "string \<Rightarrow> int \<Rightarrow> week_failure \<Rightarrow> (pack_row \<times> bool) week" where
  "claim_race cycle n e =
     (if e \<noteq> Duplicate then act_throw e
      else act_bind (act_read (pack_of_week cycle n)) (\<lambda>found.
        case found of None \<Rightarrow> act_throw e | Some p \<Rightarrow> act_return (p, False)))"

definition next_week_check :: "cycle_row \<Rightarrow> int \<Rightarrow> unit week" where
  "next_week_check c n =
     act_seq (act_reject (cy_status c \<noteq> ''active'') (Bad_message Cycle_not_active))
     (act_seq (act_reject (\<not> (n = 1 \<and> cy_week c = 1 \<or> n = cy_week c + 1)) (Bad_message Not_next_week))
       (if n \<le> 1 then act_return ()
        else act_bind (act_read (pack_of_week (cy_id c) (n - 1))) (\<lambda>previous.
          act_reject (\<not> opt_holds (\<lambda>p. isCompletedPackStatus (pk_status p)) previous) (Bad_message Previous_not_complete))))"

definition freeze_free :: "string \<Rightarrow> int \<Rightarrow> context_row \<Rightarrow> week_failure \<Rightarrow> call \<Rightarrow> unit week" where
  "freeze_free cycle n x e k =
     act_bind (act_update contexts put_contexts
         (\<lambda>r. cx_id r = cx_id x \<and> cx_cycle r = cycle \<and> cx_week r = n \<and> cx_frozen r = None) (freeze_context (call_now k)))
       (\<lambda>m. act_reject (m = 0 \<or> cx_frozen x \<noteq> None) e)"

definition claim_body ::
  "js_env \<Rightarrow> (int \<Rightarrow> int) \<Rightarrow> string \<Rightarrow> int \<Rightarrow> string \<Rightarrow> bool \<Rightarrow> call \<Rightarrow> cycle_row \<Rightarrow> (pack_row \<times> bool) week" where
  "claim_body E off cycle n context job k c =
     act_seq (next_week_check c n)
     (act_bind (act_found (context_by_id context) Record_missing) (\<lambda>x.
      act_seq (act_reject (cx_cycle x \<noteq> cycle \<or> cx_week x \<noteq> n) (Bad_message Wrong_context))
     (act_seq (freeze_free cycle n x (Bad_message Context_unavailable) k)
       (let p = new_pack (call_id k 0) ''content-v1'' c x n None in
        act_seq (add_pack p)
       (act_seq (act_when job (add_job (pack_job (call_id k 1) ''generate-content'' cycle n (pk_id p))))
         (act_bind (cutoff_of E off c n) (\<lambda>cutoff.
          act_bind (act_update cycles put_cycles (\<lambda>r. cy_id r = cycle) (set_week n cutoff)) (\<lambda>_.
            act_return (p, True)))))))))"

definition claimQueuedPack :: "js_env \<Rightarrow> (int \<Rightarrow> int) \<Rightarrow> string \<Rightarrow> int \<Rightarrow> string \<Rightarrow> bool \<Rightarrow> call \<Rightarrow> (pack_row \<times> bool) week" where
  "claimQueuedPack E off cycle n context job k =
     (if n < 1 \<or> n > 12 then act_throw (Bad_message Week_out_of_range)
      else act_catch (transaction (act_bind (act_read (pack_of_week cycle n)) (\<lambda>existing.
          case existing of
            Some p \<Rightarrow> act_return (p, False)
          | None \<Rightarrow> act_bind (act_found (cycle_by_id cycle) Record_missing) (claim_body E off cycle n context job k))))
        (claim_race cycle n))"


section \<open>Consuming an approved instruction\<close>

record guidance =
  gu_instruction_id :: string
  gu_proposal :: string
  gu_decision :: string
  gu_checksum :: string
  gu_format :: string
  gu_kind :: string
  gu_text :: string

definition readFrozenOptimizationGuidance :: "json \<Rightarrow> guidance option" where
  "readFrozenOptimizationGuidance v =
     (if \<not> isRecord v \<or> \<not> isRecord (jget v ''optimization_guidance'') then None
      else (let g = jget v ''optimization_guidance'' in
        if list_all (\<lambda>f. js_is_string (jget g f))
            [''instruction_id'', ''proposal_id'', ''approved_decision_id'', ''evidence_checksum'', ''instruction'']
          \<and> js_includes [''text_post'', ''static_image_post''] (jget g ''format_cohort'')
          \<and> js_includes [''hook_style'', ''cta_wording_style''] (jget g ''change_kind'')
          \<and> js_trim (jstr (jget g ''instruction'')) \<noteq> []
        then Some \<lparr>gu_instruction_id = jstr (jget g ''instruction_id''), gu_proposal = jstr (jget g ''proposal_id''),
          gu_decision = jstr (jget g ''approved_decision_id''), gu_checksum = jstr (jget g ''evidence_checksum''),
          gu_format = jstr (jget g ''format_cohort''), gu_kind = jstr (jget g ''change_kind''),
          gu_text = jstr (jget g ''instruction'')\<rparr>
        else None))"

text \<open>The source and the format of the plans that have both.\<close>

definition readFrozenPostPlans :: "json \<Rightarrow> (string \<times> string) list" where
  "readFrozenPostPlans v =
     (if \<not> isRecord v \<or> \<not> isArray (jget v ''post_plans'') then []
      else map (\<lambda>p. (jstr (jget p ''source''), jstr (jget p ''format'')))
        (filter (\<lambda>p. isRecord p \<and> js_is_string (jget p ''source'') \<and> js_is_string (jget p ''format''))
          (jelems (jget v ''post_plans''))))"

definition instruction_matches :: "cycle_row \<Rightarrow> guidance \<Rightarrow> instruction_row \<Rightarrow> bool" where
  "instruction_matches c g i \<longleftrightarrow> in_status i = ''PENDING_CONSUMPTION'' \<and> sc_business (in_scope i) = cy_business c
     \<and> sc_strategy (in_scope i) = cy_strategy c \<and> sc_version (in_scope i) = cy_version c
     \<and> sc_cycle (in_scope i) = cy_id c \<and> sc_format (in_scope i) = gu_format g \<and> sc_checksum (in_scope i) = gu_checksum g
     \<and> in_proposal i = gu_proposal g \<and> in_decision i = gu_decision g \<and> in_kind i = gu_kind g \<and> in_text i = gu_text g"

definition consume_row :: "string \<Rightarrow> string \<Rightarrow> int \<Rightarrow> instruction_row \<Rightarrow> instruction_row" where
  "consume_row pack plan now i = i\<lparr>in_status := ''CONSUMED'', in_pack := Some pack, in_plan := Some plan,
     in_consumed := Some now, in_updated := now\<rparr>"

definition consumable :: "string \<Rightarrow> cycle_row \<Rightarrow> guidance \<Rightarrow> instruction_row \<Rightarrow> bool" where
  "consumable k c g i \<longleftrightarrow> in_id i = k \<and> in_status i = ''PENDING_CONSUMPTION'' \<and> sc_business (in_scope i) = cy_business c
     \<and> sc_strategy (in_scope i) = cy_strategy c \<and> sc_version (in_scope i) = cy_version c
     \<and> sc_cycle (in_scope i) = cy_id c \<and> sc_format (in_scope i) = gu_format g \<and> sc_checksum (in_scope i) = gu_checksum g"

definition instructions_of :: "week_db \<Rightarrow> instruction_row list" where
  "instructions_of s = instructions (optimization s)"

definition put_instructions_of :: "instruction_row list \<Rightarrow> week_db \<Rightarrow> week_db" where
  "put_instructions_of t s = put_optimization (put_instructions t (optimization s)) s"

text \<open>The unique indexes of an instruction also cover the pack and the plan that consumed it.\<close>

definition mark_consumed :: "string \<Rightarrow> cycle_row \<Rightarrow> guidance \<Rightarrow> string \<Rightarrow> string \<Rightarrow> int \<Rightarrow> nat week" where
  "mark_consumed k c g pack plan now s =
     (if (\<exists>i \<in> set (instructions_of s). consumable k c g i)
         \<and> (\<exists>j \<in> set (instructions_of s). in_id j \<noteq> k \<and> (in_pack j = Some pack \<or> in_plan j = Some plan))
      then (Inl Duplicate, s)
      else act_update instructions_of put_instructions_of (consumable k c g) (consume_row pack plan now) s)"

definition consume_instruction :: "json \<Rightarrow> cycle_row \<Rightarrow> string \<Rightarrow> string \<Rightarrow> string \<Rightarrow> int \<Rightarrow> unit week" where
  "consume_instruction frozen c k pack plan now =
     (case readFrozenOptimizationGuidance frozen of
        None \<Rightarrow> act_throw (Conflict ''OPTIMIZATION_INSTRUCTION_CONFLICT'')
      | Some g \<Rightarrow>
          act_seq (act_reject (gu_instruction_id g \<noteq> k) (Conflict ''OPTIMIZATION_INSTRUCTION_CONFLICT''))
         (act_seq (act_reject (''owner'' \<notin> fst ` set (readFrozenPostPlans frozen)
                \<or> gu_format g \<notin> snd ` set (readFrozenPostPlans frozen)) (Conflict ''OPTIMIZATION_INSTRUCTION_NOT_ELIGIBLE''))
         (act_bind (act_read (\<lambda>s. tbl_find in_id k (instructions_of s))) (\<lambda>found.
           act_seq (act_reject (\<not> opt_holds (instruction_matches c g) found) (Conflict ''OPTIMIZATION_INSTRUCTION_CONFLICT''))
             (act_bind (mark_consumed k c g pack plan now) (\<lambda>n.
               act_reject (n \<noteq> 1) (Conflict ''OPTIMIZATION_INSTRUCTION_CONFLICT'')))))))"


section \<open>Claiming a week, version 2\<close>

record claim_input =
  cl_cycle :: string
  cl_week :: int
  cl_context :: string
  cl_plan :: string
  cl_frozen :: json
  cl_instruction :: "string option"
  cl_job :: bool

definition actionable_check :: "cycle_row \<Rightarrow> int \<Rightarrow> unit week" where
  "actionable_check c n =
     act_seq (act_reject (cy_status c \<noteq> ''active'') (Bad_request
         (if cy_status c = ''paused'' then ''CONTENT_CYCLE_PAUSED''
          else if cy_status c = ''completed'' then ''CONTENT_CYCLE_COMPLETED'' else ''CONTENT_SCHEMA_FAILURE'')))
       (act_reject (n \<noteq> cy_week c) (Bad_request ''CONTENT_WEEK_ALREADY_CLAIMED''))"

definition freeze_draft :: "claim_input \<Rightarrow> unit week" where
  "freeze_draft i =
     act_bind (act_update plans put_plans
         (\<lambda>p. wp_id p = cl_plan i \<and> wp_cycle p = cl_cycle i \<and> wp_week p = cl_week i \<and> wp_status p = ''draft'')
         (freeze_plan (cl_frozen i)))
       (\<lambda>m. act_reject (m = 0) (Bad_request ''CONTENT_WEEK_ALREADY_CLAIMED''))"

definition claim_body_v2 :: "js_env \<Rightarrow> (int \<Rightarrow> int) \<Rightarrow> claim_input \<Rightarrow> call \<Rightarrow> cycle_row \<Rightarrow> (pack_row \<times> bool) week" where
  "claim_body_v2 E off i k c =
     act_seq (actionable_check c (cl_week i))
     (act_bind (act_found (context_by_id (cl_context i)) Record_missing) (\<lambda>x.
      act_seq (act_reject (cx_cycle x \<noteq> cl_cycle i \<or> cx_week x \<noteq> cl_week i) (Bad_request ''CONTENT_SCHEMA_FAILURE''))
     (act_seq (freeze_draft i)
     (act_seq (freeze_free (cl_cycle i) (cl_week i) x (Bad_request ''CONTENT_WEEK_ALREADY_CLAIMED'') k)
       (let p = new_pack (call_id k 0) ''content-v2'' c x (cl_week i) (Some (cl_plan i)) in
        act_seq (add_pack p)
       (act_seq (case cl_instruction i of
            None \<Rightarrow> act_return ()
          | Some j \<Rightarrow> if j = [] then act_return ()
                     else consume_instruction (cl_frozen i) c j (pk_id p) (cl_plan i) (call_now k))
       (act_seq (act_when (cl_job i)
           (add_job (pack_job (call_id k 1) ''generate-content-v2'' (cl_cycle i) (cl_week i) (pk_id p))))
         (act_bind (cutoff_of E off c (cl_week i)) (\<lambda>cutoff.
          act_bind (act_update cycles put_cycles (\<lambda>r. cy_id r = cl_cycle i) (set_next cutoff)) (\<lambda>_.
            act_return (p, True)))))))))))"

definition claimQueuedPackV2 :: "js_env \<Rightarrow> (int \<Rightarrow> int) \<Rightarrow> claim_input \<Rightarrow> call \<Rightarrow> (pack_row \<times> bool) week" where
  "claimQueuedPackV2 E off i k =
     (if cl_week i < 1 \<or> cl_week i > 12 then act_throw (Bad_message Week_out_of_range)
      else act_catch (transaction (act_bind (act_read (pack_of_week (cl_cycle i) (cl_week i))) (\<lambda>existing.
          case existing of
            Some p \<Rightarrow> act_return (p, False)
          | None \<Rightarrow> act_bind (act_found (cycle_by_id (cl_cycle i)) Record_missing) (claim_body_v2 E off i k))))
        (claim_race (cl_cycle i) (cl_week i)))"


section \<open>The status of a pack\<close>

definition CONTENT_PACK_STATUSES :: "string list" where
  "CONTENT_PACK_STATUSES =
     [''queued'', ''generating'', ''validating'', ''draft'', ''partially_approved'', ''approved'', ''failed'']"

definition CONTENT_PACK_ALLOWED_TRANSITIONS :: "(string \<times> string list) list" where
  "CONTENT_PACK_ALLOWED_TRANSITIONS =
     [(''queued'', [''generating'', ''failed'']), (''generating'', [''validating'', ''failed'']),
      (''validating'', [''draft'', ''failed'']), (''draft'', [''partially_approved'', ''approved'']),
      (''partially_approved'', [''approved'']), (''approved'', []), (''failed'', [''queued''])]"

definition canTransitionContentPack :: "string \<Rightarrow> string \<Rightarrow> bool" where
  "canTransitionContentPack a b \<longleftrightarrow>
     (case map_of CONTENT_PACK_ALLOWED_TRANSITIONS a of None \<Rightarrow> False | Some bs \<Rightarrow> b \<in> set bs)"

definition set_pack_status :: "string \<Rightarrow> pack_row \<Rightarrow> pack_row" where
  "set_pack_status st p = p\<lparr>pk_status := st\<rparr>"

definition markPackStatus :: "string \<Rightarrow> string \<Rightarrow> string \<Rightarrow> bool week" where
  "markPackStatus i a b =
     (if \<not> canTransitionContentPack a b then act_throw (Bad_message Bad_transition)
      else act_bind (act_update packs put_packs (\<lambda>p. pk_id p = i \<and> pk_status p = a) (set_pack_status b))
        (\<lambda>n. act_return (n = 1)))"

definition claimPackForGeneration :: "string \<Rightarrow> bool week" where
  "claimPackForGeneration i =
     act_bind (act_update packs put_packs
         (\<lambda>p. pk_id p = i \<and> (pk_status p = ''queued'' \<or> pk_status p = ''failed'' \<and> pk_retry p)) (set_pack_status ''generating''))
       (\<lambda>n. act_return (n = 1))"

definition derived_status :: "item_row list \<Rightarrow> string" where
  "derived_status is =
     (if list_all (\<lambda>i. it_status i = ''approved'') is then ''approved''
      else if list_ex (\<lambda>i. it_status i = ''approved'') is then ''partially_approved'' else ''draft'')"

definition derivePackStatusFromItems :: "string \<Rightarrow> unit week" where
  "derivePackStatusFromItems i =
     act_bind (act_read (\<lambda>s. filter (\<lambda>r. it_pack r = i) (items s))) (\<lambda>is.
       if is = [] then act_return ()
       else act_bind (act_read (pack_by_id i)) (\<lambda>found.
         case found of
           None \<Rightarrow> act_return ()
         | Some p \<Rightarrow>
             if pk_status p = ''failed'' \<or> pk_status p = derived_status is
               \<or> \<not> canTransitionContentPack (pk_status p) (derived_status is) then act_return ()
             else act_bind (act_update packs put_packs (\<lambda>q. pk_id q = i \<and> pk_status q = pk_status p)
                 (set_pack_status (derived_status is))) (\<lambda>_. act_return ())))"

definition fail_pack :: "bool \<Rightarrow> pack_row \<Rightarrow> pack_row" where
  "fail_pack retry p = p\<lparr>pk_status := ''failed'', pk_retry := retry\<rparr>"

text \<open>An update by the primary key throws when there is no such row.\<close>

definition safeFail :: "string \<Rightarrow> string \<Rightarrow> string \<Rightarrow> json \<Rightarrow> unit week" where
  "safeFail i key text payload =
     transaction (act_bind (act_update packs put_packs (\<lambda>p. pk_id p = i)
         (fail_pack (isRecord payload \<and> jget payload ''retryable'' = JBool True))) (\<lambda>n.
       act_seq (act_reject (n = 0) Record_missing)
         (act_bind (act_read (\<lambda>s. tbl_count (\<lambda>r. pr_pack r = i) (progress s))) (\<lambda>m.
           add_progress \<lparr>pr_pack = i, pr_seq = int m + 1, pr_stage = ''failed'', pr_status = ''failed'', pr_key = key,
             pr_text = text, pr_payload = (if payload = JUndef then JObj [] else payload)\<rparr>))))"

text \<open>A collision of the sequence number is tried again, three times in all.\<close>

definition append_once :: "string \<Rightarrow> string \<Rightarrow> string \<Rightarrow> string \<Rightarrow> string \<Rightarrow> json \<Rightarrow> progress_row week" where
  "append_once i stage st key text payload =
     transaction (act_bind (act_read (\<lambda>s. tbl_count (\<lambda>r. pr_pack r = i) (progress s))) (\<lambda>m.
       let r = \<lparr>pr_pack = i, pr_seq = int m + 1, pr_stage = stage, pr_status = st, pr_key = key, pr_text = text,
             pr_payload = (if payload = JUndef then JObj [] else payload)\<rparr> in
       act_seq (add_progress r) (act_return r)))"

fun try_again :: "nat \<Rightarrow> 'a week \<Rightarrow> 'a week" where
  "try_again 0 m = m"
| "try_again (Suc n) m = act_catch m (\<lambda>e. if e \<noteq> Duplicate then act_throw e else try_again n m)"

definition appendProgressEvent :: "string \<Rightarrow> string \<Rightarrow> string \<Rightarrow> string \<Rightarrow> string \<Rightarrow> json \<Rightarrow> progress_row week" where
  "appendProgressEvent i stage st key text payload = try_again 2 (append_once i stage st key text payload)"

definition hasPackForWeek :: "string \<Rightarrow> int \<Rightarrow> week_db \<Rightarrow> bool" where
  "hasPackForWeek c n s = (tbl_count (\<lambda>p. pk_cycle p = c \<and> pk_week p = n) (packs s) > 0)"

definition getPackByIdAndOwner :: "string \<Rightarrow> string \<Rightarrow> week_db \<Rightarrow> pack_row option" where
  "getPackByIdAndOwner i owner s =
     List.find (\<lambda>p. pk_id p = i \<and> (\<exists>c \<in> set (cycles s). cy_id c = pk_cycle p \<and> cy_owner c = owner)) (packs s)"

definition listPacks :: "string \<Rightarrow> week_db \<Rightarrow> pack_row list" where
  "listPacks c s = sort_key pk_week (filter (\<lambda>p. pk_cycle p = c) (packs s))"

definition getProgressEvents :: "string \<Rightarrow> week_db \<Rightarrow> progress_row list" where
  "getProgressEvents i s = sort_key pr_seq (filter (\<lambda>r. pr_pack r = i) (progress s))"

end
