(* ===== verification/Week_World.thy ===== *)
theory Week_World
  imports Week_Packs Opt_World
begin

text \<open>
  The content cycles over any history of requests, cron jobs and worker steps: the rules of the
  tables, and what is never taken back.
\<close>


section \<open>What stays\<close>

text \<open>A cycle keeps its identity, its cursor only grows, and a completed cycle never changes.\<close>

definition cycle_le :: "cycle_row \<Rightarrow> cycle_row \<Rightarrow> bool" where
  "cycle_le c d \<longleftrightarrow> cy_id d = cy_id c \<and> cy_contract d = cy_contract c \<and> cy_business d = cy_business c
     \<and> cy_strategy d = cy_strategy c \<and> cy_version d = cy_version c \<and> cy_decision d = cy_decision c
     \<and> cy_profile d = cy_profile c \<and> cy_start d = cy_start c \<and> cy_owner d = cy_owner c \<and> cy_key d = cy_key c
     \<and> cy_fingerprint d = cy_fingerprint c \<and> cy_week c \<le> cy_week d \<and> (cy_status c = ''completed'' \<longrightarrow> d = c)"

text \<open>A context keeps its week and its schedule; once frozen it never changes. A frozen plan likewise.\<close>

definition context_le :: "context_row \<Rightarrow> context_row \<Rightarrow> bool" where
  "context_le x y \<longleftrightarrow> cx_id y = cx_id x \<and> cx_cycle y = cx_cycle x \<and> cx_week y = cx_week x \<and> cx_start y = cx_start x
     \<and> cx_cutoff y = cx_cutoff x \<and> cx_claim y = cx_claim x \<and> cx_source y = cx_source x \<and> (cx_frozen x \<noteq> None \<longrightarrow> y = x)"

definition plan_le :: "plan_row \<Rightarrow> plan_row \<Rightarrow> bool" where
  "plan_le p q \<longleftrightarrow> wp_id q = wp_id p \<and> wp_cycle q = wp_cycle p \<and> wp_week q = wp_week p \<and> (wp_status p = ''frozen'' \<longrightarrow> q = p)"

text \<open>A pack keeps all but its status, its right to a retry and its items.\<close>

definition pack_le :: "pack_row \<Rightarrow> pack_row \<Rightarrow> bool" where
  "pack_le p q \<longleftrightarrow> pk_id q = pk_id p \<and> pk_contract q = pk_contract p \<and> pk_cycle q = pk_cycle p \<and> pk_week q = pk_week p
     \<and> pk_claim q = pk_claim p \<and> pk_business q = pk_business p \<and> pk_strategy q = pk_strategy p \<and> pk_version q = pk_version p
     \<and> pk_decision q = pk_decision p \<and> pk_profile q = pk_profile p \<and> pk_context q = pk_context p \<and> pk_plan q = pk_plan p"

definition job_le :: "job_row \<Rightarrow> job_row \<Rightarrow> bool" where
  "job_le i j \<longleftrightarrow> jo_id j = jo_id i \<and> jo_job j = jo_job i \<and> jo_queue j = jo_queue i \<and> jo_name j = jo_name i
     \<and> jo_payload j = jo_payload i"

definition week_le :: "week_db \<Rightarrow> week_db \<Rightarrow> bool" where
  "week_le s t \<longleftrightarrow> rows_le cycle_le (cycles s) (cycles t) \<and> rows_le context_le (contexts s) (contexts t)
     \<and> rows_le plan_le (plans s) (plans t) \<and> rows_le pack_le (packs s) (packs t) \<and> rows_le (=) (progress s) (progress t)
     \<and> rows_le job_le (jobs s) (jobs t) \<and> opt_le (optimization s) (optimization t)"

lemma le_refls: "cycle_le c c" "context_le x x" "plan_le p p" "pack_le k k" "job_le j j"
  by (simp_all add: cycle_le_def context_le_def plan_le_def pack_le_def job_le_def)

lemma le_trans:
  "cycle_le c d \<Longrightarrow> cycle_le d e \<Longrightarrow> cycle_le c e" "context_le x y \<Longrightarrow> context_le y z \<Longrightarrow> context_le x z"
  "plan_le p q \<Longrightarrow> plan_le q r \<Longrightarrow> plan_le p r" "pack_le k l \<Longrightarrow> pack_le l m \<Longrightarrow> pack_le k m" "job_le i j \<Longrightarrow> job_le j h \<Longrightarrow> job_le i h"
  by (auto simp: cycle_le_def context_le_def plan_le_def pack_le_def job_le_def)

lemma week_le_refl: "week_le s s"
  by (simp add: week_le_def rows_le_refl le_refls opt_le_refl)

lemma week_le_trans: "week_le s t \<Longrightarrow> week_le t u \<Longrightarrow> week_le s u"
  unfolding week_le_def
  by (elim conjE, intro conjI) ((erule (1) opt_le_trans) | (erule (1) rows_le_trans [rotated], blast intro: le_trans))+


section \<open>The rules of the tables\<close>

definition week_keyed :: "week_db \<Rightarrow> bool" where
  "week_keyed s \<longleftrightarrow> keyed cycle_clash (cycles s) \<and> keyed context_clash (contexts s) \<and> keyed plan_clash (plans s)
     \<and> keyed pack_clash (packs s) \<and> keyed progress_clash (progress s) \<and> keyed job_clash (jobs s)"

definition cycle_ok :: "cycle_row \<Rightarrow> bool" where
  "cycle_ok c \<longleftrightarrow> 1 \<le> cy_week c \<and> cy_week c \<le> 12 \<and> cy_status c \<in> {''active'', ''paused'', ''completed''}"

text \<open>A pack stands for a week of a cycle whose context, and whose plan if it has one, are frozen.\<close>

definition pack_backed :: "week_db \<Rightarrow> pack_row \<Rightarrow> bool" where
  "pack_backed s p \<longleftrightarrow> 1 \<le> pk_week p \<and> pk_week p \<le> 12
   \<and> (\<exists>c \<in> set (cycles s). cy_id c = pk_cycle p \<and> cy_business c = pk_business p \<and> cy_strategy c = pk_strategy p
        \<and> cy_version c = pk_version p \<and> cy_decision c = pk_decision p \<and> cy_profile c = pk_profile p)
   \<and> (\<exists>x \<in> set (contexts s). cx_id x = pk_context p \<and> cx_cycle x = pk_cycle p \<and> cx_week x = pk_week p
        \<and> cx_claim x = pk_claim p \<and> cx_frozen x \<noteq> None)
   \<and> (\<forall>w. pk_plan p = Some w \<longrightarrow> (\<exists>q \<in> set (plans s). wp_id q = w \<and> wp_cycle q = pk_cycle p \<and> wp_week q = pk_week p
        \<and> wp_status q = ''frozen''))"

text \<open>An instruction was consumed by the pack and the plan of one claim, in the cycle it was approved for.\<close>

definition instruction_backed :: "week_db \<Rightarrow> instruction_row \<Rightarrow> bool" where
  "instruction_backed s i \<longleftrightarrow> (\<forall>k. in_pack i = Some k \<longrightarrow>
     (\<exists>p \<in> set (packs s). pk_id p = k \<and> pk_plan p = in_plan i \<and> pk_cycle p = sc_cycle (in_scope i)))"

definition week_ok :: "js_env \<Rightarrow> week_db \<Rightarrow> bool" where
  "week_ok E s \<longleftrightarrow> week_keyed s \<and> (\<forall>c \<in> set (cycles s). cycle_ok c) \<and> (\<forall>q \<in> set (plans s). isRunUuid (JStr (wp_id q)))
     \<and> (\<forall>p \<in> set (packs s). pack_backed s p) \<and> opt_ok E (optimization s)
     \<and> (\<forall>i \<in> set (instructions_of s). instruction_backed s i)"

text \<open>What backs a pack or an instruction is never taken back.\<close>

lemma pack_backed_le:
  assumes "week_le s t" "pack_backed s p" "pack_le p q"
  shows "pack_backed t q"
proof -
  note core = assms(3) [unfolded pack_le_def]
  obtain c x where c: "c \<in> set (cycles s)" "cy_id c = pk_cycle p" "cy_business c = pk_business p" "cy_strategy c = pk_strategy p"
      "cy_version c = pk_version p" "cy_decision c = pk_decision p" "cy_profile c = pk_profile p"
    and x: "x \<in> set (contexts s)" "cx_id x = pk_context p" "cx_cycle x = pk_cycle p" "cx_week x = pk_week p"
      "cx_claim x = pk_claim p" "cx_frozen x \<noteq> None"
    using assms(2) unfolding pack_backed_def by blast
  obtain d where d: "d \<in> set (cycles t)" "cycle_le c d" using assms(1) c(1) by (auto simp: week_le_def elim: rows_leD)
  obtain y where y: "y \<in> set (contexts t)" "context_le x y" using assms(1) x(1) by (auto simp: week_le_def elim: rows_leD)
  have w: "\<exists>r \<in> set (plans t). wp_id r = w \<and> wp_cycle r = pk_cycle p \<and> wp_week r = pk_week p \<and> wp_status r = ''frozen''"
    if pl: "pk_plan p = Some w" for w
  proof -
    obtain r where r: "r \<in> set (plans s)" "wp_id r = w" "wp_cycle r = pk_cycle p" "wp_week r = pk_week p" "wp_status r = ''frozen''"
      using assms(2) pl unfolding pack_backed_def by blast
    obtain v where "v \<in> set (plans t)" "plan_le r v" using assms(1) r(1) by (auto simp: week_le_def elim: rows_leD)
    then show ?thesis using r by (auto simp: plan_le_def)
  qed
  have "\<exists>c \<in> set (cycles t). cy_id c = pk_cycle q \<and> cy_business c = pk_business q \<and> cy_strategy c = pk_strategy q
      \<and> cy_version c = pk_version q \<and> cy_decision c = pk_decision q \<and> cy_profile c = pk_profile q"
    using d c core by (intro bexI [of _ d]) (simp_all add: cycle_le_def)
  moreover have "\<exists>x \<in> set (contexts t). cx_id x = pk_context q \<and> cx_cycle x = pk_cycle q \<and> cx_week x = pk_week q
      \<and> cx_claim x = pk_claim q \<and> cx_frozen x \<noteq> None"
    using y x core by (intro bexI [of _ y]) (simp_all add: context_le_def)
  moreover have "1 \<le> pk_week q \<and> pk_week q \<le> 12" using assms(2) core by (simp add: pack_backed_def)
  ultimately show ?thesis using w core by (simp add: pack_backed_def)
qed

lemma instruction_backed_le:
  assumes "week_le s t" "instruction_backed s i"
  shows "instruction_backed t i"
  unfolding instruction_backed_def
proof (intro allI impI)
  fix k assume "in_pack i = Some k"
  then obtain p where p: "p \<in> set (packs s)" "pk_id p = k" "pk_plan p = in_plan i" "pk_cycle p = sc_cycle (in_scope i)"
    using assms(2) by (auto simp: instruction_backed_def)
  obtain q where "q \<in> set (packs t)" "pack_le p q" using assms(1) p(1) by (auto simp: week_le_def elim: rows_leD)
  with p show "\<exists>p \<in> set (packs t). pk_id p = k \<and> pk_plan p = in_plan i \<and> pk_cycle p = sc_cycle (in_scope i)"
    by (intro bexI [of _ q]) (simp_all add: pack_le_def)
qed

text \<open>So most changes need only be compared with the state before.\<close>

lemma week_ok_le:
  assumes "week_ok E s" "week_le s t" "week_keyed t" "\<And>c. c \<in> set (cycles t) \<Longrightarrow> cycle_ok c"
    "\<And>q. q \<in> set (plans t) \<Longrightarrow> isRunUuid (JStr (wp_id q))"
    "\<And>q. q \<in> set (packs t) \<Longrightarrow> (\<exists>p \<in> set (packs s). pack_le p q) \<or> pack_backed t q"
    "opt_ok E (optimization t)"
    "\<And>i. i \<in> set (instructions_of t) \<Longrightarrow> i \<in> set (instructions_of s) \<or> instruction_backed t i"
  shows "week_ok E t"
  unfolding week_ok_def
proof (intro conjI ballI)
  fix q assume "q \<in> set (packs t)"
  with assms(6) consider (old) p where "p \<in> set (packs s)" "pack_le p q" | (new) "pack_backed t q" by blast
  then show "pack_backed t q"
    using assms(1) pack_backed_le [OF assms(2)] by cases (auto simp: week_ok_def)
next
  fix i assume "i \<in> set (instructions_of t)"
  with assms(8) consider "i \<in> set (instructions_of s)" | "instruction_backed t i" by blast
  then show "instruction_backed t i"
    using assms(1) instruction_backed_le [OF assms(2)] by cases (simp_all add: week_ok_def)
qed (use assms(3-5,7) in auto)



section \<open>One change of one table\<close>

lemmas put_defs = put_cycles_def put_contexts_def put_plans_def put_posts_def put_packs_def put_progress_def put_jobs_def
  put_optimization_def instructions_of_def

lemma week_clash_laws:
  "cycle_clash c c" "cycle_clash c d \<longleftrightarrow> cycle_clash d c" "context_clash x x" "context_clash x y \<longleftrightarrow> context_clash y x"
  "plan_clash p p" "plan_clash p q \<longleftrightarrow> plan_clash q p" "pack_clash k k" "pack_clash k l \<longleftrightarrow> pack_clash l k"
  "progress_clash a b \<longleftrightarrow> progress_clash b a" "progress_clash a a" "job_clash i i" "job_clash i j \<longleftrightarrow> job_clash j i"
  unfolding cycle_clash_def context_clash_def plan_clash_def pack_clash_def progress_clash_def job_clash_def by (simp | metis)+

definition kept :: "js_env \<Rightarrow> week_db \<Rightarrow> week_db \<Rightarrow> bool" where
  "kept E s t \<longleftrightarrow> week_ok E t \<and> week_le s t"

lemma kept_refl: "week_ok E s \<Longrightarrow> kept E s s"
  by (simp add: kept_def week_le_refl)

lemma keptI:
  assumes "kept E r s" "week_le s t" "week_keyed t" "\<And>c. c \<in> set (cycles t) \<Longrightarrow> cycle_ok c"
    "\<And>q. q \<in> set (plans t) \<Longrightarrow> isRunUuid (JStr (wp_id q))"
    "\<And>q. q \<in> set (packs t) \<Longrightarrow> (\<exists>p \<in> set (packs s). pack_le p q) \<or> pack_backed t q"
    "opt_ok E (optimization t)" "\<And>i. i \<in> set (instructions_of t) \<Longrightarrow> i \<in> set (instructions_of s) \<or> instruction_backed t i"
  shows "kept E r t"
  unfolding kept_def
proof
  have s: "week_ok E s" "week_le r s" using assms(1) by (simp_all add: kept_def)
  show "week_ok E t" by (rule week_ok_le [OF s(1) assms(2-8)])
  show "week_le r t" by (rule week_le_trans [OF s(2) assms(2)])
qed

text \<open>The parts of an unchanged table.\<close>

lemma kept_parts:
  assumes "kept E r s"
  shows "week_keyed s" "\<And>c. c \<in> set (cycles s) \<Longrightarrow> cycle_ok c" "\<And>q. q \<in> set (plans s) \<Longrightarrow> isRunUuid (JStr (wp_id q))"
    "opt_ok E (optimization s)" "\<And>q. q \<in> set (packs s) \<Longrightarrow> pack_backed s q"
    "\<And>i. i \<in> set (instructions_of s) \<Longrightarrow> instruction_backed s i"
  using assms by (simp_all add: kept_def week_ok_def)

lemma rows_same: "rows_le cycle_le (cycles s) (cycles s)" "rows_le context_le (contexts s) (contexts s)"
  "rows_le plan_le (plans s) (plans s)" "rows_le pack_le (packs s) (packs s)" "rows_le (=) (progress s) (progress s)"
  "rows_le job_le (jobs s) (jobs s)" "opt_le (optimization s) (optimization s)"
  by (simp_all add: rows_le_refl le_refls opt_le_refl)

lemma old_packs: "q \<in> set (packs s) \<Longrightarrow> \<exists>p \<in> set (packs s). pack_le p q"
  using le_refls(4) by blast

lemma in_update: "x \<in> set (tbl_update P f t) \<Longrightarrow> \<exists>y \<in> set t. x = (if P y then f y else y)"
  by (auto simp: set_tbl_update)

lemma cycles_updated:
  assumes "kept E r s" "\<And>c. c \<in> set (cycles s) \<Longrightarrow> P c \<Longrightarrow> cycle_le c (f c) \<and> cycle_ok (f c)"
  shows "kept E r (put_cycles (tbl_update P f (cycles s)) s)"
proof (rule keptI [OF assms(1)])
  note k = kept_parts [OF assms(1)]
  let ?t = "put_cycles (tbl_update P f (cycles s)) s"
  show "week_le s ?t" using assms(2) by (auto simp: week_le_def put_defs rows_same le_refls intro!: rows_le_update)
  have "cycle_clash (if P c then f c else c) (if P d then f d else d) \<longleftrightarrow> cycle_clash c d"
    if "c \<in> set (cycles s)" "d \<in> set (cycles s)" for c d
    using assms(2) [OF that(1)] assms(2) [OF that(2)] by (auto simp: cycle_clash_def cycle_le_def)
  then have "keyed cycle_clash (tbl_update P f (cycles s))"
    using k(1) by (intro keyed_update) (auto simp: week_keyed_def week_clash_laws)
  then show "week_keyed ?t" using k(1) by (simp add: week_keyed_def put_defs)
  show "cycle_ok c" if "c \<in> set (cycles ?t)" for c
    using that k(2) assms(2) by (auto simp: put_defs set_tbl_update)
qed (use kept_parts [OF assms(1)] old_packs in \<open>auto simp: put_defs\<close>)

lemma contexts_updated:
  assumes "kept E r s" "\<And>x. x \<in> set (contexts s) \<Longrightarrow> P x \<Longrightarrow> context_le x (f x)"
  shows "kept E r (put_contexts (tbl_update P f (contexts s)) s)"
proof (rule keptI [OF assms(1)])
  note k = kept_parts [OF assms(1)]
  let ?t = "put_contexts (tbl_update P f (contexts s)) s"
  show "week_le s ?t" using assms(2) by (auto simp: week_le_def put_defs rows_same le_refls intro!: rows_le_update)
  have "context_clash (if P x then f x else x) (if P y then f y else y) \<longleftrightarrow> context_clash x y"
    if "x \<in> set (contexts s)" "y \<in> set (contexts s)" for x y
    using assms(2) [OF that(1)] assms(2) [OF that(2)] by (auto simp: context_clash_def context_le_def)
  then have "keyed context_clash (tbl_update P f (contexts s))"
    using k(1) by (intro keyed_update) (auto simp: week_keyed_def week_clash_laws)
  then show "week_keyed ?t" using k(1) by (simp add: week_keyed_def put_defs)
qed (use kept_parts [OF assms(1)] old_packs in \<open>auto simp: put_defs\<close>)

lemma plans_updated:
  assumes "kept E r s" "\<And>p. p \<in> set (plans s) \<Longrightarrow> P p \<Longrightarrow> plan_le p (f p)"
  shows "kept E r (put_plans (tbl_update P f (plans s)) s)"
proof (rule keptI [OF assms(1)])
  note k = kept_parts [OF assms(1)]
  let ?t = "put_plans (tbl_update P f (plans s)) s"
  show "week_le s ?t" using assms(2) by (auto simp: week_le_def put_defs rows_same le_refls intro!: rows_le_update)
  have "plan_clash (if P x then f x else x) (if P y then f y else y) \<longleftrightarrow> plan_clash x y"
    if "x \<in> set (plans s)" "y \<in> set (plans s)" for x y
    using assms(2) [OF that(1)] assms(2) [OF that(2)] by (auto simp: plan_clash_def plan_le_def)
  then have "keyed plan_clash (tbl_update P f (plans s))"
    using k(1) by (intro keyed_update) (auto simp: week_keyed_def week_clash_laws)
  then show "week_keyed ?t" using k(1) by (simp add: week_keyed_def put_defs)
  show "isRunUuid (JStr (wp_id q))" if "q \<in> set (plans ?t)" for q
    using that k(3) assms(2) by (auto simp: put_defs set_tbl_update plan_le_def)
qed (use kept_parts [OF assms(1)] old_packs in \<open>auto simp: put_defs\<close>)

lemma packs_updated:
  assumes "kept E r s" "\<And>p. p \<in> set (packs s) \<Longrightarrow> P p \<Longrightarrow> pack_le p (f p)"
  shows "kept E r (put_packs (tbl_update P f (packs s)) s)"
proof (rule keptI [OF assms(1)])
  note k = kept_parts [OF assms(1)]
  let ?t = "put_packs (tbl_update P f (packs s)) s"
  show "week_le s ?t" using assms(2) by (auto simp: week_le_def put_defs rows_same le_refls intro!: rows_le_update)
  have "pack_clash (if P x then f x else x) (if P y then f y else y) \<longleftrightarrow> pack_clash x y"
    if "x \<in> set (packs s)" "y \<in> set (packs s)" for x y
    using assms(2) [OF that(1)] assms(2) [OF that(2)] by (auto simp: pack_clash_def pack_le_def)
  then have "keyed pack_clash (tbl_update P f (packs s))"
    using k(1) by (intro keyed_update) (auto simp: week_keyed_def week_clash_laws)
  then show "week_keyed ?t" using k(1) by (simp add: week_keyed_def put_defs)
  show "(\<exists>p \<in> set (packs s). pack_le p q) \<or> pack_backed ?t q" if "q \<in> set (packs ?t)" for q
    using that assms(2) le_refls(4) by (auto simp: put_defs set_tbl_update)
qed (use kept_parts [OF assms(1)] in \<open>auto simp: put_defs\<close>)

lemma rows_added:
  assumes k: "kept E r s"
  shows cycle_added: "cycle_ok c \<Longrightarrow> \<not> (\<exists>x \<in> set (cycles s). cycle_clash c x) \<Longrightarrow> kept E r (put_cycles (cycles s @ [c]) s)"
    and context_added: "\<not> (\<exists>y \<in> set (contexts s). context_clash x y) \<Longrightarrow> kept E r (put_contexts (contexts s @ [x]) s)"
    and plan_added: "isRunUuid (JStr (wp_id p)) \<Longrightarrow> \<not> (\<exists>q \<in> set (plans s). plan_clash p q) \<Longrightarrow> kept E r (put_plans (plans s @ [p]) s)"
    and pack_added: "pack_backed s b \<Longrightarrow> \<not> (\<exists>q \<in> set (packs s). pack_clash b q) \<Longrightarrow> kept E r (put_packs (packs s @ [b]) s)"
    and progress_added: "\<not> (\<exists>q \<in> set (progress s). progress_clash e q) \<Longrightarrow> kept E r (put_progress (progress s @ [e]) s)"
    and job_added: "\<not> (\<exists>q \<in> set (jobs s). job_clash j q) \<Longrightarrow> kept E r (put_jobs (jobs s @ [j]) s)"
    and posts_put: "kept E r (put_posts ps s)"
  using kept_parts [OF k] old_packs [of _ s]
    keyed_insert [of cycle_clash "cycles s" c] keyed_insert [of context_clash "contexts s" x]
    keyed_insert [of plan_clash "plans s" p] keyed_insert [of pack_clash "packs s" b]
    keyed_insert [of progress_clash "progress s" e] keyed_insert [of job_clash "jobs s" j]
  by - ((rule keptI [OF k]; auto simp: week_le_def week_keyed_def put_defs rows_same rows_le_append le_refls week_clash_laws
      pack_backed_def instruction_backed_def))+

lemma optimization_put:
  assumes "kept E r s" "opt_ok E o'" "opt_le (optimization s) o'"
    "\<And>i. i \<in> set (instructions o') \<Longrightarrow> i \<in> set (instructions_of s) \<or> instruction_backed s i"
  shows "kept E r (put_optimization o' s)"
  using kept_parts [OF assms(1)] old_packs [of _ s] assms(2-4)
  by - (rule keptI [OF assms(1)]; auto simp: week_le_def week_keyed_def put_defs rows_same instruction_backed_def)



section \<open>The requests and the cron job\<close>

lemma keeps_updates [keeps_intros]:
  "(\<And>c. P c \<Longrightarrow> cycle_ok c \<Longrightarrow> cycle_le c (f c) \<and> cycle_ok (f c)) \<Longrightarrow> keeps (kept E r) (act_update cycles put_cycles P f)"
  "(\<And>x. Q x \<Longrightarrow> context_le x (g x)) \<Longrightarrow> keeps (kept E r) (act_update contexts put_contexts Q g)"
  "(\<And>p. R p \<Longrightarrow> plan_le p (h p)) \<Longrightarrow> keeps (kept E r) (act_update plans put_plans R h)"
  "(\<And>p. S p \<Longrightarrow> pack_le p (b p)) \<Longrightarrow> keeps (kept E r) (act_update packs put_packs S b)"
  "keeps (kept E r) (act_update posts put_posts T u)" "keeps (kept E r) (act_modify (delete_posts w))"
  using kept_parts(2)
  by (auto simp: keeps_def act_update_def act_modify_def delete_posts_def
      intro: cycles_updated contexts_updated plans_updated packs_updated posts_put)

lemma keeps_adds [keeps_intros]:
  "cycle_ok c \<Longrightarrow> keeps (kept E r) (add_cycle c)" "keeps (kept E r) (add_context x)"
  "isRunUuid (JStr (wp_id p)) \<Longrightarrow> keeps (kept E r) (add_plan p)" "keeps (kept E r) (add_post o')"
  "keeps (kept E r) (add_progress e)" "keeps (kept E r) (add_job j)"
  unfolding add_cycle_def add_context_def add_plan_def add_post_def add_progress_def add_job_def
  by (intro keeps_insert_row; (erule (1) cycle_added | erule context_added | erule plan_added | erule posts_put
      | erule progress_added | erule job_added); assumption)+

lemma keeps_found [keeps_intros]: "keeps I (act_found look e)" "keeps I (act_reject b e)"
  unfolding act_found_def act_reject_def by (intro keeps_intros)+

lemma keeps_when [keeps_intros]: "(b \<Longrightarrow> keeps I m) \<Longrightarrow> keeps I (act_when b m)"
  unfolding act_when_def by (intro keeps_intros) auto

lemma keeps_lifted [keeps_intros]: "keeps I (cutoff_of E off c n)" "keeps I (start_of E c n)"
  unfolding cutoff_of_def start_of_def by (intro keeps_intros)+

lemma new_cycle_ok: "cycle_ok (new_cycle i owner k)"
  by (simp add: cycle_ok_def new_cycle_def)

lemma status_moves:
  "cy_status c \<noteq> ''completed'' \<Longrightarrow> cycle_le c (set_completed t c)" "cycle_ok c \<Longrightarrow> cycle_ok (set_completed t c)"
  "cy_status c \<noteq> ''completed'' \<Longrightarrow> cycle_le c (set_status st w c)"
  "cycle_ok c \<Longrightarrow> st \<in> {''active'', ''paused''} \<Longrightarrow> cycle_ok (set_status st w c)"
  by (auto simp: cycle_le_def cycle_ok_def set_completed_def set_status_def)

lemma cycle_replay_keeps [keeps_intros]: "(\<And>c. keeps I (answer c)) \<Longrightarrow> keeps I (cycle_replay i owner answer e)"
  unfolding cycle_replay_def by (intro keeps_intros)

lemma createCycle_keeps: "keeps (kept E r) (createCycle i owner k)"
  unfolding createCycle_def Let_def by (intro keeps_intros new_cycle_ok)

lemma move_cycle_keeps:
  "st \<in> {''active'', ''paused''} \<Longrightarrow> from_st \<in> {''active'', ''paused''} \<Longrightarrow>
    keeps (kept E r) (move_cycle i owner from_st (set_status st w) e)"
  unfolding move_cycle_def by (intro keeps_intros conjI) (auto intro: status_moves)

lemma pauses_keep: "keeps (kept E r) (pauseCycle i owner w)" "keeps (kept E r) (resumeCycle i owner)"
  unfolding pauseCycle_def resumeCycle_def by (intro move_cycle_keeps; simp)+

lemma completions_keep: "keeps (kept E r) (completeCycle i k)" "keeps (kept E r) (markCycleCompleted i k)"
  unfolding completeCycle_def markCycleCompleted_def by (intro keeps_intros conjI; auto intro: status_moves)+

lemma advanceToNextWeek_keeps: "keeps (kept E r) (advanceToNextWeek E' off i expected k)"
  unfolding advanceToNextWeek_def
  by (intro keeps_intros conjI) (auto simp: cycle_le_def cycle_ok_def set_week_def set_completed_def)

lemma roll_over_keeps: "(\<And>i n k. keeps I (advanceToNextWeek E off i n k)) \<Longrightarrow> keeps I (roll_over E off k m cs)"
  by (induction cs arbitrary: m) (auto intro!: keeps_intros)

lemma progressWeeks_keeps: "keeps (kept E r) (progressWeeks E' off k)"
  unfolding progressWeeks_def by (intro keeps_intros roll_over_keeps advanceToNextWeek_keeps)

lemma owner_contexts_keep:
  "keeps (kept E r) (upsertOwnerContext E' off cycle x owner k)"
  "keeps (kept E r) (createSafeDefaultContext E' off profile approved cycle n k)"
  unfolding upsertOwnerContext_def create_owner_context_def createSafeDefaultContext_def claimWeek_def
  by (intro keeps_intros; auto simp: context_le_def rewrite_context_def)+

lemma posts_keep:
  "keeps (kept E r) (attachGeneratedItem w n i)" "keeps (kept E r) (markPlansGenerating w)" "keeps (kept E r) (markPlansFailed w)"
  unfolding attachGeneratedItem_def markPlansGenerating_def markPlansFailed_def update_posts_def by (intro keeps_intros)+

lemma freezeWeekPlan_keeps: "keeps (kept E r) (freezeWeekPlan cycle n v)"
  unfolding freezeWeekPlan_def by (intro keeps_intros) (auto simp: plan_le_def freeze_plan_def)

lemma add_posts_keep [keeps_intros]: "keeps (kept E r) (add_posts w k n is)"
  by (induction "is" arbitrary: n) (auto intro!: keeps_intros)

lemma pack_moves: "pack_le p (set_pack_status st p)" "pack_le p (fail_pack b p)"
  by (simp_all add: pack_le_def set_pack_status_def fail_pack_def)

lemma pack_statuses_keep:
  "keeps (kept E r) (markPackStatus i a b)" "keeps (kept E r) (claimPackForGeneration i)"
  "keeps (kept E r) (derivePackStatusFromItems i)" "keeps (kept E r) (safeFail i key text payload)"
  unfolding markPackStatus_def claimPackForGeneration_def derivePackStatusFromItems_def safeFail_def
  by (intro keeps_intros pack_moves)+

lemma appendProgressEvent_keeps: "keeps (kept E r) (appendProgressEvent i stage st key text payload)"
proof -
  have o: "keeps (kept E r) (append_once i stage st key text payload)"
    unfolding append_once_def Let_def by (intro keeps_intros)
  have "keeps (kept E r) (try_again n (append_once i stage st key text payload))" for n
    by (induction n) (auto intro!: keeps_intros o)
  then show ?thesis by (simp add: appendProgressEvent_def)
qed



section \<open>The claims of a week\<close>

lemma hoare_found_row: "(\<And>s a. P s \<Longrightarrow> look s = Some a \<Longrightarrow> Q a s) \<Longrightarrow> hoare P (act_found look e) Q"
  by (auto simp: hoare_def act_found_def action_defs split: option.splits)

lemma hoare_reject: "(\<And>s. P s \<Longrightarrow> \<not> b \<Longrightarrow> Q () s) \<Longrightarrow> hoare P (act_reject b e) Q"
  by (auto simp: hoare_def act_reject_def action_defs split: if_splits)

lemma hoare_update:
  "(\<And>s. P s \<Longrightarrow> Q (tbl_count R (get s)) (put (tbl_update R f (get s)) s)) \<Longrightarrow> hoare P (act_update get put R f) Q"
  by (auto simp: hoare_def act_update_def)

lemma hoare_when: "(b \<Longrightarrow> hoare P m Q) \<Longrightarrow> (\<And>s. \<not> b \<Longrightarrow> P s \<Longrightarrow> Q () s) \<Longrightarrow> hoare P (act_when b m) Q"
  by (auto simp: act_when_def intro: hoare_return)

lemma cycle_by_id_D: "cycle_by_id i s = Some c \<Longrightarrow> c \<in> set (cycles s) \<and> cy_id c = i"
  unfolding cycle_by_id_def by (rule tbl_find_SomeD)

lemma context_by_id_D: "context_by_id i s = Some x \<Longrightarrow> x \<in> set (contexts s) \<and> cx_id x = i"
  unfolding context_by_id_def by (rule tbl_find_SomeD)

lemma kept_keyed:
  assumes "kept E r s"
  shows "c \<in> set (cycles s) \<Longrightarrow> d \<in> set (cycles s) \<Longrightarrow> cy_id c = cy_id d \<Longrightarrow> c = d"
    and "p \<in> set (plans s) \<Longrightarrow> q \<in> set (plans s) \<Longrightarrow> wp_id p = wp_id q \<Longrightarrow> p = q"
  using kept_parts(1) [OF assms] keyedD [of cycle_clash "cycles s" c d] keyedD [of plan_clash "plans s" p q]
  by (simp_all add: week_keyed_def cycle_clash_def plan_clash_def)

lemma hoare_checks:
  "hoare P (next_week_check c n) (\<lambda>_ s. P s \<and> cy_status c = ''active'' \<and> (n = 1 \<and> cy_week c = 1 \<or> n = cy_week c + 1))"
  "hoare P (actionable_check c n) (\<lambda>_ s. P s \<and> cy_status c = ''active'' \<and> n = cy_week c)"
  by (auto simp: hoare_def next_week_check_def actionable_check_def act_reject_def act_seq_def action_defs
      split: if_splits option.splits)

lemma hoare_freeze_free:
  assumes "\<And>s. P s \<Longrightarrow> kept E r s \<and> x \<in> set (contexts s) \<and> cx_cycle x = cycle \<and> cx_week x = n"
    and "\<And>s cxs. P s \<Longrightarrow> kept E r (put_contexts cxs s) \<Longrightarrow> Q (put_contexts cxs s)"
  shows "hoare P (freeze_free cycle n x e k) (\<lambda>_ s. Q s \<and> freeze_context (call_now k) x \<in> set (contexts s))"
  unfolding freeze_free_def
proof (rule hoare_bind [where R = "\<lambda>_ s. Q s \<and> (cx_frozen x = None \<longrightarrow> freeze_context (call_now k) x \<in> set (contexts s))"])
  show "hoare P (act_update contexts put_contexts (\<lambda>q. cx_id q = cx_id x \<and> cx_cycle q = cycle \<and> cx_week q = n \<and> cx_frozen q = None)
      (freeze_context (call_now k))) (\<lambda>_ s. Q s \<and> (cx_frozen x = None \<longrightarrow> freeze_context (call_now k) x \<in> set (contexts s)))"
  proof (rule hoare_update)
    fix s assume P: "P s"
    let ?R = "\<lambda>q. cx_id q = cx_id x \<and> cx_cycle q = cycle \<and> cx_week q = n \<and> cx_frozen q = None"
    let ?u = "tbl_update ?R (freeze_context (call_now k)) (contexts s)"
    have s: "kept E r s" "x \<in> set (contexts s)" "cx_cycle x = cycle" "cx_week x = n" using assms(1) [OF P] by simp_all
    have "kept E r (put_contexts ?u s)"
      by (rule contexts_updated [OF s(1)]) (simp add: context_le_def freeze_context_def)
    moreover have "freeze_context (call_now k) x \<in> set ?u" if "cx_frozen x = None"
      using s that by (auto simp: set_tbl_update intro!: image_eqI [of _ _ x])
    ultimately show "Q (put_contexts ?u s) \<and> (cx_frozen x = None \<longrightarrow> freeze_context (call_now k) x \<in> set (contexts (put_contexts ?u s)))"
      using assms(2) [OF P] by (simp add: put_contexts_def)
  qed
qed (auto intro: hoare_reject)

text \<open>The state inside a claim: the cycle \<open>c\<close> is there, and the pack if it was added.\<close>

definition claiming :: "js_env \<Rightarrow> week_db \<Rightarrow> cycle_row \<Rightarrow> week_db \<Rightarrow> bool" where
  "claiming E r c s \<longleftrightarrow> kept E r s \<and> c \<in> set (cycles s)"

lemma pack_is_backed:
  assumes "c \<in> set (cycles s)" "freeze_context t x \<in> set (contexts s)" "cx_cycle x = cy_id c" "cx_week x = n" "1 \<le> n" "n \<le> 12"
    "\<And>w. plan = Some w \<Longrightarrow> \<exists>q \<in> set (plans s). wp_id q = w \<and> wp_cycle q = cy_id c \<and> wp_week q = n \<and> wp_status q = ''frozen''"
  shows "pack_backed s (new_pack k contract c x n plan)"
proof -
  have "\<exists>d \<in> set (cycles s). cy_id d = cy_id c \<and> cy_business d = cy_business c \<and> cy_strategy d = cy_strategy c
      \<and> cy_version d = cy_version c \<and> cy_decision d = cy_decision c \<and> cy_profile d = cy_profile c" using assms(1) by blast
  moreover have "\<exists>y \<in> set (contexts s). cx_id y = cx_id x \<and> cx_cycle y = cy_id c \<and> cx_week y = n \<and> cx_claim y = cx_claim x
      \<and> cx_frozen y \<noteq> None"
    using assms(2-4) by (intro bexI [of _ "freeze_context t x"]) (simp_all add: freeze_context_def)
  ultimately show ?thesis using assms(5-7) by (simp add: pack_backed_def new_pack_def)
qed

lemma hoare_add_pack:
  assumes "\<And>s. P s \<Longrightarrow> claiming E r c s \<and> pack_backed s p"
  shows "hoare P (add_pack p) (\<lambda>_ s. claiming E r c s \<and> p \<in> set (packs s))"
  unfolding add_pack_def
proof (rule hoare_insert)
  fix s assume P: "P s" and n: "\<not> (\<exists>x \<in> set (packs s). pack_clash p x)"
  have "kept E r (put_packs (packs s @ [p]) s)" by (rule pack_added) (use assms [OF P] n in \<open>simp_all add: claiming_def\<close>)
  then show "claiming E r c (put_packs (packs s @ [p]) s) \<and> p \<in> set (packs (put_packs (packs s @ [p]) s))"
    using assms [OF P] by (simp add: claiming_def put_packs_def)
qed

lemma hoare_add_job: "hoare (claiming E r c) (act_when b (add_job j)) (\<lambda>_. claiming E r c)"
  unfolding add_job_def
  by (intro hoare_when hoare_insert) (auto simp: claiming_def put_jobs_def [symmetric] intro: job_added, simp add: put_jobs_def)

lemma hoare_cursor:
  assumes "cycle_le c (f c)" "cycle_ok c \<Longrightarrow> cycle_ok (f c)" "\<And>s. Q s \<Longrightarrow> claiming E r c s"
  shows "hoare Q (act_update cycles put_cycles (\<lambda>d. cy_id d = cy_id c) f) (\<lambda>_. kept E r)"
proof (rule hoare_update)
  fix s assume "Q s"
  then have s: "kept E r s" "c \<in> set (cycles s)" using assms(3) by (simp_all add: claiming_def)
  show "kept E r (put_cycles (tbl_update (\<lambda>d. cy_id d = cy_id c) f (cycles s)) s)"
  proof (rule cycles_updated [OF s(1)])
    fix d assume "d \<in> set (cycles s)" "cy_id d = cy_id c"
    then have "d = c" by (rule kept_keyed(1) [OF s(1) _ s(2)])
    with assms(1,2) kept_parts(2) [OF s] show "cycle_le d (f d) \<and> cycle_ok (f d)" by simp
  qed
qed

lemma claim_body_keeps:
  assumes "1 \<le> n" "n \<le> 12"
  shows "hoare (claiming E r c) (claim_body E' off (cy_id c) n x job k c) (\<lambda>_. kept E r)"
  unfolding claim_body_def Let_def
proof (rule hoare_seq [OF hoare_checks(1)], rule hoare_bind, rule hoare_found_row)
  let ?next = "cy_status c = ''active'' \<and> (n = 1 \<and> cy_week c = 1 \<or> n = cy_week c + 1)"
  let ?R = "\<lambda>y s. claiming E r c s \<and> ?next \<and> y \<in> set (contexts s)"
  show "?R y s" if "claiming E r c s \<and> ?next" "context_by_id x s = Some y" for y s
    using that context_by_id_D by simp
  show "hoare (?R y) (act_seq (act_reject (cx_cycle y \<noteq> cy_id c \<or> cx_week y \<noteq> n) (Bad_message Wrong_context))
      (act_seq (freeze_free (cy_id c) n y (Bad_message Context_unavailable) k)
        (act_seq (add_pack (new_pack (call_id k 0) ''content-v1'' c y n None))
          (act_seq (act_when job (add_job (pack_job (call_id k 1) ''generate-content'' (cy_id c) n
              (pk_id (new_pack (call_id k 0) ''content-v1'' c y n None)))))
            (act_bind (cutoff_of E' off c n) (\<lambda>cutoff.
              act_bind (act_update cycles put_cycles (\<lambda>d. cy_id d = cy_id c) (set_week n cutoff))
                (\<lambda>_. act_return (new_pack (call_id k 0) ''content-v1'' c y n None, True)))))))) (\<lambda>_. kept E r)" for y
  proof (cases "?next \<and> cx_cycle y = cy_id c \<and> cx_week y = n")
    case True
    let ?f = "\<lambda>s. claiming E r c s \<and> freeze_context (call_now k) y \<in> set (contexts s)"
    have 1: "hoare (?R y) (act_reject (cx_cycle y \<noteq> cy_id c \<or> cx_week y \<noteq> n) e) (\<lambda>_. ?R y)" for e
      by (rule hoare_reject)
    have 2: "hoare (?R y) (freeze_free (cy_id c) n y e k) (\<lambda>_. ?f)" for e
      by (rule hoare_freeze_free) (use True in \<open>auto simp: claiming_def put_contexts_def\<close>)
    have 3: "hoare ?f (add_pack (new_pack (call_id k 0) ''content-v1'' c y n None)) (\<lambda>_. claiming E r c)"
      by (rule hoare_post [OF hoare_add_pack]) (use True assms in \<open>auto simp: claiming_def intro!: pack_is_backed\<close>)
    have 4: "hoare (claiming E r c) (cutoff_of E' off c n) (\<lambda>_. claiming E r c)"
      unfolding cutoff_of_def by (rule hoare_lift)
    have 5: "hoare (claiming E r c) (act_update cycles put_cycles (\<lambda>d. cy_id d = cy_id c) (set_week n t)) (\<lambda>_. kept E r)" for t
      by (rule hoare_cursor) (use True assms in \<open>auto simp: cycle_le_def cycle_ok_def set_week_def\<close>)
    show ?thesis
      by (rule hoare_seq [OF 1], rule hoare_seq [OF 2], rule hoare_seq [OF 3], rule hoare_seq [OF hoare_add_job],
          rule hoare_bind [OF 4], rule hoare_bind [OF 5], rule hoare_return)
  next
    case False
    then show ?thesis
      by (auto simp: hoare_def act_seq_def act_bind_def act_reject_def act_throw_def split: if_splits)
  qed
qed

lemma claim_race_keeps [keeps_intros]: "keeps I (claim_race cycle n e)"
  unfolding claim_race_def by (intro keeps_intros)

lemma claimQueuedPack_keeps: "keeps (kept E r) (claimQueuedPack E' off cycle n x job k)"
proof -
  have body: "hoare (kept E r) (act_bind (act_read (pack_of_week cycle n)) (\<lambda>existing.
      case existing of Some p \<Rightarrow> act_return (p, False)
      | None \<Rightarrow> act_bind (act_found (cycle_by_id cycle) Record_missing) (claim_body E' off cycle n x job k))) (\<lambda>_. kept E r)"
    if "1 \<le> n" "n \<le> 12"
  proof (rule hoare_bind [where R = "\<lambda>_. kept E r"], rule hoare_read, assumption, rule hoare_option)
    show "hoare (kept E r) (act_bind (act_found (cycle_by_id cycle) Record_missing) (claim_body E' off cycle n x job k)) (\<lambda>_. kept E r)"
    proof (rule hoare_bind, rule hoare_found_row)
      show "(\<lambda>c s. claiming E r c s \<and> cy_id c = cycle) c s" if "kept E r s" "cycle_by_id cycle s = Some c" for c s
        using that cycle_by_id_D by (simp add: claiming_def)
      show "hoare (\<lambda>s. claiming E r c s \<and> cy_id c = cycle) (claim_body E' off cycle n x job k c) (\<lambda>_. kept E r)" for c
        using claim_body_keeps [OF \<open>1 \<le> n\<close> \<open>n \<le> 12\<close>, of E r c] by (cases "cy_id c = cycle") (auto simp: hoare_def)
    qed
  qed (rule hoare_return)
  then show ?thesis unfolding claimQueuedPack_def by (intro keeps_intros keeps_hoare) simp_all
qed



section \<open>The consumption of an instruction\<close>

text \<open>A request draws UUIDs and happens at an instant that a \<open>Date\<close> can hold.\<close>

definition sound_call :: "call \<Rightarrow> bool" where
  "sound_call k \<longleftrightarrow> (\<forall>n. isRunUuid (JStr (call_id k n))) \<and> \<bar>call_now k\<bar> \<le> 8640000000000000"

lemma consume_valid:
  assumes "valid_instruction E i" "in_status i = ''PENDING_CONSUMPTION''" "isRunUuid (JStr pack)" "isRunUuid (JStr plan)"
    "\<bar>now\<bar> \<le> 8640000000000000"
  shows "valid_instruction E (consume_row pack plan now i)"
proof -
  have i: "instruction_core E i" "instruction_life E i" using assms(1) by (simp_all add: valid_instruction_def instruction_valid_iff)
  have d: "opt_date E (iso now)" using js_date_parse_toISOString [OF assms(5)] by (simp add: opt_date_def iso_def)
  have "instruction_shape (instruction_json i) = []" using i(2) by (simp add: instruction_life_def)
  then have n: "in_superseded i = None" using assms(2) by (simp add: instruction_shape_def instruction_json_get opt_null_JNull)
  have "instruction_life E (consume_row pack plan now i)"
    using assms(3,4) d n
    by (simp add: instruction_life_def consume_row_def js_includes_def OPTIMIZATION_INSTRUCTION_STATUSES_def opt_null_def
        instruction_shape_def instruction_json_get iso_def del: isRunUuid.simps)
  moreover have "instruction_core E (consume_row pack plan now i)"
    using i(1) by (simp add: instruction_core_def consume_row_def del: isRunUuid.simps)
  ultimately show ?thesis by (simp add: valid_instruction_def instruction_valid_iff)
qed

lemma consume_le: "in_status i = ''PENDING_CONSUMPTION'' \<Longrightarrow> instruction_le i (consume_row pack plan now i)"
  by (simp add: instruction_le_def consume_row_def)

lemma mark_consumed_keeps:
  assumes "kept E r s" "c \<in> set (cycles s)" "p \<in> set (packs s)" "pk_cycle p = cy_id c" "pk_plan p = Some plan"
    "isRunUuid (JStr (pk_id p))" "isRunUuid (JStr plan)" "\<bar>now\<bar> \<le> 8640000000000000"
    "mark_consumed k c g (pk_id p) plan now s = (Inr n, t)"
  shows "kept E r t \<and> cycles t = cycles s"
proof -
  let ?P = "consumable k c g" and ?f = "consume_row (pk_id p) plan now"
  let ?u = "tbl_update ?P ?f (instructions_of s)"
  have t: "t = put_instructions_of ?u s" and free: "\<not> ((\<exists>i \<in> set (instructions_of s). ?P i)
      \<and> (\<exists>j \<in> set (instructions_of s). in_id j \<noteq> k \<and> (in_pack j = Some (pk_id p) \<or> in_plan j = Some plan)))"
    using assms(9) by (auto simp: mark_consumed_def act_update_def split: if_splits)
  have ok: "opt_ok E (optimization s)" using kept_parts(4) [OF assms(1)] .
  have pend: "in_status i = ''PENDING_CONSUMPTION''" "in_id i = k" "sc_cycle (in_scope i) = cy_id c" if "?P i" for i
    using that by (simp_all add: consumable_def)
  have "instruction_clash i j" if "i \<in> set (instructions_of s)" "j \<in> set (instructions_of s)"
      "instruction_clash (if ?P i then ?f i else i) (if ?P j then ?f j else j)" for i j
  proof (cases "?P i"; cases "?P j")
    assume "?P i" "?P j" then show ?thesis using pend(2) by (simp add: instruction_clash_def)
  next
    assume a: "?P i" "\<not> ?P j"
    show ?thesis
    proof (cases "in_id j = k")
      case True then show ?thesis using pend(2) [OF a(1)] by (simp add: instruction_clash_def)
    next
      case False
      then have "in_pack j \<noteq> Some (pk_id p)" "in_plan j \<noteq> Some plan" using free a(1) that(1,2) by blast+
      then show ?thesis using that(3) a by (auto simp: instruction_clash_def consume_row_def)
    qed
  next
    assume a: "\<not> ?P i" "?P j"
    show ?thesis
    proof (cases "in_id i = k")
      case True then show ?thesis using pend(2) [OF a(2)] by (simp add: instruction_clash_def)
    next
      case False
      then have "in_pack i \<noteq> Some (pk_id p)" "in_plan i \<noteq> Some plan" using free a(2) that(1,2) by blast+
      then show ?thesis using that(3) a by (auto simp: instruction_clash_def consume_row_def)
    qed
  qed (use that(3) in simp)
  then have key: "keyed instruction_clash ?u"
    using ok by (intro keyed_update) (auto simp: opt_ok_def opt_keyed_def instructions_of_def clash_laws)
  have val: "valid_instruction E i" if "i \<in> set (instructions_of s)" for i
    using ok that by (simp add: opt_ok_def opt_valid_def instructions_of_def)
  note rw = instructions_rewritten [OF ok key [unfolded instructions_of_def]]
  have new: "instruction_le i (?f i) \<and> valid_instruction E (?f i)" if "i \<in> set (instructions (optimization s))" "?P i" for i
    using consume_le pend(1) [OF that(2)] consume_valid [OF val _ assms(6-8)] that by (simp add: instructions_of_def)
  have "kept E r (put_optimization (put_instructions ?u (optimization s)) s)"
  proof (rule optimization_put [OF assms(1)])
    show "opt_ok E (put_instructions ?u (optimization s))" using rw(1) new by (simp add: instructions_of_def)
    show "opt_le (optimization s) (put_instructions ?u (optimization s))" using rw(2) new by (simp add: instructions_of_def)
    fix j assume "j \<in> set (instructions (put_instructions ?u (optimization s)))"
    then obtain i where i: "i \<in> set (instructions_of s)" "j = (if ?P i then ?f i else i)" by (auto simp: set_tbl_update)
    show "j \<in> set (instructions_of s) \<or> instruction_backed s j"
    proof (cases "?P i")
      case True
      with i(2) have "in_pack j = Some (pk_id p)" "in_plan j = Some plan" "sc_cycle (in_scope j) = cy_id c"
        using pend(3) by (simp_all add: consume_row_def)
      then show ?thesis using assms(3-5) by (auto simp: instruction_backed_def intro!: bexI [of _ p])
    qed (use i in simp)
  qed
  then show ?thesis by (simp add: t put_instructions_of_def put_optimization_def)
qed

lemma consume_instruction_keeps:
  assumes "\<And>s. P s \<Longrightarrow> claiming E r c s \<and> p \<in> set (packs s)" "pk_cycle p = cy_id c" "pk_plan p = Some plan"
    "isRunUuid (JStr (pk_id p))" "isRunUuid (JStr plan)" "\<bar>now\<bar> \<le> 8640000000000000"
  shows "hoare P (consume_instruction v c j (pk_id p) plan now) (\<lambda>_. claiming E r c)"
  unfolding consume_instruction_def
proof (rule hoare_option, rule hoare_throw)
  fix g
  have m: "hoare P (mark_consumed j c g (pk_id p) plan now) (\<lambda>_. claiming E r c)"
  proof (rule hoareI)
    fix s n t assume s: "P s" "mark_consumed j c g (pk_id p) plan now s = (Inr n, t)"
    have "kept E r t \<and> cycles t = cycles s"
      by (rule mark_consumed_keeps [OF _ _ _ assms(2-6) s(2)]) (use assms(1) [OF s(1)] in \<open>simp_all add: claiming_def\<close>)
    then show "claiming E r c t" using assms(1) [OF s(1)] by (simp add: claiming_def)
  qed
  show "hoare P (act_seq (act_reject (gu_instruction_id g \<noteq> j) (Conflict ''OPTIMIZATION_INSTRUCTION_CONFLICT''))
      (act_seq (act_reject (''owner'' \<notin> fst ` set (readFrozenPostPlans v) \<or> gu_format g \<notin> snd ` set (readFrozenPostPlans v))
          (Conflict ''OPTIMIZATION_INSTRUCTION_NOT_ELIGIBLE''))
        (act_bind (act_read (\<lambda>s. tbl_find in_id j (instructions_of s)))
          (\<lambda>found. act_seq (act_reject (\<not> opt_holds (instruction_matches c g) found) (Conflict ''OPTIMIZATION_INSTRUCTION_CONFLICT''))
            (act_bind (mark_consumed j c g (pk_id p) plan now)
              (\<lambda>n. act_reject (n \<noteq> 1) (Conflict ''OPTIMIZATION_INSTRUCTION_CONFLICT''))))))) (\<lambda>_. claiming E r c)"
    by (rule hoare_seq [OF hoare_reject], assumption, rule hoare_seq [OF hoare_reject], assumption,
        rule hoare_bind [where R = "\<lambda>_. P"], rule hoare_read, assumption, rule hoare_seq [OF hoare_reject], assumption,
        rule hoare_bind [OF m], rule hoare_reject)
qed


section \<open>The claims of version 2, plans and new cycles\<close>

lemma freeze_plan_le: "wp_status p = ''draft'' \<Longrightarrow> plan_le p (freeze_plan v p)"
  by (simp add: plan_le_def freeze_plan_def)

definition frozen_plan :: "claim_input \<Rightarrow> week_db \<Rightarrow> bool" where
  "frozen_plan i s \<longleftrightarrow> (\<exists>q \<in> set (plans s). wp_id q = cl_plan i \<and> wp_cycle q = cl_cycle i \<and> wp_week q = cl_week i \<and> wp_status q = ''frozen'')"

lemma hoare_freeze_draft:
  "hoare (\<lambda>s. claiming E r c s \<and> x \<in> set (contexts s)) (freeze_draft i)
     (\<lambda>_ s. claiming E r c s \<and> x \<in> set (contexts s) \<and> frozen_plan i s)"
  unfolding freeze_draft_def
proof (rule hoare_bind [where R = "\<lambda>m s. claiming E r c s \<and> x \<in> set (contexts s) \<and> (m \<noteq> 0 \<longrightarrow> frozen_plan i s)"])
  let ?R = "\<lambda>p. wp_id p = cl_plan i \<and> wp_cycle p = cl_cycle i \<and> wp_week p = cl_week i \<and> wp_status p = ''draft''"
  show "hoare (\<lambda>s. claiming E r c s \<and> x \<in> set (contexts s)) (act_update plans put_plans ?R (freeze_plan (cl_frozen i)))
      (\<lambda>m s. claiming E r c s \<and> x \<in> set (contexts s) \<and> (m \<noteq> 0 \<longrightarrow> frozen_plan i s))"
  proof (rule hoare_update)
    fix s assume s: "claiming E r c s \<and> x \<in> set (contexts s)"
    let ?u = "tbl_update ?R (freeze_plan (cl_frozen i)) (plans s)"
    have "kept E r (put_plans ?u s)" by (rule plans_updated) (use s in \<open>auto simp: claiming_def freeze_plan_le\<close>)
    moreover have "frozen_plan i (put_plans ?u s)" if n: "tbl_count ?R (plans s) \<noteq> 0"
    proof -
      obtain q where "q \<in> set (plans s)" "?R q" using n by (auto simp: tbl_count_0_iff)
      then have "freeze_plan (cl_frozen i) q \<in> set ?u" by (auto simp: set_tbl_update intro!: image_eqI [of _ _ q])
      with \<open>?R q\<close> show ?thesis
        unfolding frozen_plan_def put_plans_def by (intro bexI [of _ "freeze_plan (cl_frozen i) q"]) (simp_all add: freeze_plan_def)
    qed
    ultimately show "claiming E r c (put_plans ?u s) \<and> x \<in> set (contexts (put_plans ?u s))
        \<and> (tbl_count ?R (plans s) \<noteq> 0 \<longrightarrow> frozen_plan i (put_plans ?u s))"
      using s by (simp add: claiming_def put_plans_def)
  qed
qed (auto intro: hoare_reject)

lemma claim_body_v2_keeps:
  assumes "1 \<le> cl_week i" "cl_week i \<le> 12" "sound_call k" "cl_cycle i = cy_id c"
  shows "hoare (claiming E r c) (claim_body_v2 E' off i k c) (\<lambda>_. kept E r)"
  unfolding claim_body_v2_def Let_def
proof (rule hoare_seq [OF hoare_checks(2)], rule hoare_bind, rule hoare_found_row)
  let ?now = "cy_status c = ''active'' \<and> cl_week i = cy_week c"
  let ?R = "\<lambda>y s. claiming E r c s \<and> ?now \<and> y \<in> set (contexts s)"
  let ?p = "\<lambda>y. new_pack (call_id k 0) ''content-v2'' c y (cl_week i) (Some (cl_plan i))"
  let ?use = "\<lambda>y. case cl_instruction i of None \<Rightarrow> act_return ()
      | Some j \<Rightarrow> if j = [] then act_return () else consume_instruction (cl_frozen i) c j (pk_id (?p y)) (cl_plan i) (call_now k)"
  show "?R y s" if "claiming E r c s \<and> ?now" "context_by_id (cl_context i) s = Some y" for y s
    using that context_by_id_D by simp
  show "hoare (?R y) (act_seq (act_reject (cx_cycle y \<noteq> cl_cycle i \<or> cx_week y \<noteq> cl_week i) (Bad_request ''CONTENT_SCHEMA_FAILURE''))
      (act_seq (freeze_draft i)
        (act_seq (freeze_free (cl_cycle i) (cl_week i) y (Bad_request ''CONTENT_WEEK_ALREADY_CLAIMED'') k)
          (act_seq (add_pack (?p y)) (act_seq (?use y)
            (act_seq (act_when (cl_job i) (add_job (pack_job (call_id k 1) ''generate-content-v2'' (cl_cycle i) (cl_week i) (pk_id (?p y)))))
              (act_bind (cutoff_of E' off c (cl_week i)) (\<lambda>cutoff.
                act_bind (act_update cycles put_cycles (\<lambda>d. cy_id d = cl_cycle i) (set_next cutoff))
                  (\<lambda>_. act_return (?p y, True)))))))))) (\<lambda>_. kept E r)" for y
  proof (cases "?now \<and> cx_cycle y = cl_cycle i \<and> cx_week y = cl_week i")
    case True
    let ?g = "\<lambda>s. claiming E r c s \<and> y \<in> set (contexts s)"
    let ?h = "\<lambda>s. ?g s \<and> frozen_plan i s"
    let ?f = "\<lambda>s. (claiming E r c s \<and> frozen_plan i s) \<and> freeze_context (call_now k) y \<in> set (contexts s)"
    have 1: "hoare (?R y) (act_reject (cx_cycle y \<noteq> cl_cycle i \<or> cx_week y \<noteq> cl_week i) e) (\<lambda>_. ?g)" for e
      by (rule hoare_reject) simp
    have 2: "hoare ?h (freeze_free (cl_cycle i) (cl_week i) y e k) (\<lambda>_. ?f)" for e
      by (rule hoare_freeze_free) (use True in \<open>auto simp: claiming_def put_contexts_def frozen_plan_def\<close>)
    have 3: "hoare ?f (add_pack (?p y)) (\<lambda>_ s. claiming E r c s \<and> ?p y \<in> set (packs s) \<and> isRunUuid (JStr (cl_plan i)))"
    proof (rule hoare_post [OF _ _])
      show "hoare ?f (add_pack (?p y)) (\<lambda>_ s. (claiming E r c s \<and> ?p y \<in> set (packs s)))"
        by (rule hoare_add_pack) (use True assms(1,2,4) in \<open>auto simp: claiming_def frozen_plan_def intro!: pack_is_backed\<close>)
      fix s assume s: "claiming E r c s \<and> ?p y \<in> set (packs s)"
      then have "pack_backed s (?p y)" using kept_parts(5) [of E r s "?p y"] by (simp add: claiming_def)
      then obtain q where "q \<in> set (plans s)" "wp_id q = cl_plan i" by (auto simp: pack_backed_def new_pack_def)
      then have "isRunUuid (JStr (cl_plan i))" using kept_parts(3) s by (metis claiming_def)
      with s show "claiming E r c s \<and> ?p y \<in> set (packs s) \<and> isRunUuid (JStr (cl_plan i))" by simp
    qed
    have 4: "hoare (\<lambda>s. claiming E r c s \<and> ?p y \<in> set (packs s) \<and> isRunUuid (JStr (cl_plan i))) (?use y) (\<lambda>_. claiming E r c)"
    proof (cases "isRunUuid (JStr (cl_plan i))")
      case plan: True
      have "isRunUuid (JStr (pk_id (?p y)))" "\<bar>call_now k\<bar> \<le> 8640000000000000"
        using assms(3) by (simp_all add: sound_call_def new_pack_def del: isRunUuid.simps)
      then show ?thesis
        by (intro hoare_option hoare_if hoare_return consume_instruction_keeps plan) (simp_all add: new_pack_def assms(4))
    qed (simp add: hoare_def)
    have 5: "hoare (claiming E r c) (cutoff_of E' off c (cl_week i)) (\<lambda>_. claiming E r c)"
      unfolding cutoff_of_def by (rule hoare_lift)
    have 6: "hoare (claiming E r c) (act_update cycles put_cycles (\<lambda>d. cy_id d = cl_cycle i) (set_next t)) (\<lambda>_. kept E r)" for t
      unfolding assms(4) by (rule hoare_cursor) (use True in \<open>auto simp: cycle_le_def cycle_ok_def set_next_def\<close>)
    show ?thesis
      by (rule hoare_seq [OF 1], rule hoare_seq [OF hoare_freeze_draft], rule hoare_seq [OF hoare_pre [OF 2]], simp,
          rule hoare_seq [OF 3], rule hoare_seq [OF 4], rule hoare_seq [OF hoare_add_job],
          rule hoare_bind [OF 5], rule hoare_bind [OF 6], rule hoare_return)
  next
    case False
    then show ?thesis
      by (auto simp: hoare_def act_seq_def act_bind_def act_reject_def act_throw_def split: if_splits)
  qed
qed

lemma claimQueuedPackV2_keeps:
  assumes "sound_call k"
  shows "keeps (kept E r) (claimQueuedPackV2 E' off i k)"
proof -
  have body: "hoare (kept E r) (act_bind (act_read (pack_of_week (cl_cycle i) (cl_week i))) (\<lambda>existing.
      case existing of Some p \<Rightarrow> act_return (p, False)
      | None \<Rightarrow> act_bind (act_found (cycle_by_id (cl_cycle i)) Record_missing) (claim_body_v2 E' off i k))) (\<lambda>_. kept E r)"
    if "1 \<le> cl_week i" "cl_week i \<le> 12"
  proof (rule hoare_bind [where R = "\<lambda>_. kept E r"], rule hoare_read, assumption, rule hoare_option)
    show "hoare (kept E r) (act_bind (act_found (cycle_by_id (cl_cycle i)) Record_missing) (claim_body_v2 E' off i k)) (\<lambda>_. kept E r)"
    proof (rule hoare_bind, rule hoare_found_row)
      show "(\<lambda>c s. claiming E r c s \<and> cl_cycle i = cy_id c) c s" if "kept E r s" "cycle_by_id (cl_cycle i) s = Some c" for c s
        using that cycle_by_id_D by (simp add: claiming_def)
      show "hoare (\<lambda>s. claiming E r c s \<and> cl_cycle i = cy_id c) (claim_body_v2 E' off i k c) (\<lambda>_. kept E r)" for c
        using claim_body_v2_keeps [OF \<open>1 \<le> cl_week i\<close> \<open>cl_week i \<le> 12\<close> assms, of c E r]
        by (cases "cl_cycle i = cy_id c") (auto simp: hoare_def)
    qed
  qed (rule hoare_return)
  then show ?thesis unfolding claimQueuedPackV2_def by (intro keeps_intros keeps_hoare) simp_all
qed


lemma plan_of_week_D: "plan_of_week c n s = Some p \<Longrightarrow> p \<in> set (plans s) \<and> wp_cycle p = c \<and> wp_week p = n"
  unfolding plan_of_week_def using tbl_find_SomeD by fastforce

lemma createOrReplaceWeekPlan_keeps:
  assumes "sound_call k"
  shows "keeps (kept E r) (createOrReplaceWeekPlan cycle n is owner k)"
proof -
  have ans: "keeps (kept E r) (plan_answer w)" for w unfolding plan_answer_def by (intro keeps_intros)
  have owned: "keeps (kept E r) (assertCycleOwned cycle owner)" unfolding assertCycleOwned_def by (intro keeps_intros)
  have old: "hoare (\<lambda>s. kept E r s \<and> p \<in> set (plans s) \<and> wp_status p \<noteq> ''frozen'')
      (act_seq (act_modify (delete_posts (wp_id p)))
        (act_bind (act_update plans put_plans (\<lambda>q. wp_id q = wp_id p) set_draft)
          (\<lambda>_. act_seq (add_posts (wp_id p) k 0 is) (plan_answer (wp_id p))))) (\<lambda>_. kept E r)" for p
  proof (rule hoare_seq, rule hoareI)
    let ?Q = "\<lambda>s. kept E r s \<and> p \<in> set (plans s) \<and> wp_status p \<noteq> ''frozen''"
    show "?Q t" if "?Q s" "act_modify (delete_posts (wp_id p)) s = (Inr a, t)" for s a t
      using that by (auto simp: act_modify_def delete_posts_def put_posts_def [symmetric] intro: posts_put) (simp add: put_posts_def)
    have u: "hoare ?Q (act_update plans put_plans (\<lambda>q. wp_id q = wp_id p) set_draft) (\<lambda>_. kept E r)"
    proof (rule hoare_update)
      fix s assume s: "?Q s"
      show "kept E r (put_plans (tbl_update (\<lambda>q. wp_id q = wp_id p) set_draft (plans s)) s)"
      proof (rule plans_updated)
        fix q assume "q \<in> set (plans s)" "wp_id q = wp_id p"
        then have "q = p" using s kept_keyed(2) [of E r s q p] by simp
        then show "plan_le q (set_draft q)" using s by (simp add: plan_le_def set_draft_def)
      qed (use s in simp)
    qed
    show "hoare ?Q (act_bind (act_update plans put_plans (\<lambda>q. wp_id q = wp_id p) set_draft)
          (\<lambda>_. act_seq (add_posts (wp_id p) k 0 is) (plan_answer (wp_id p)))) (\<lambda>_. kept E r)"
      by (rule hoare_bind [OF u], rule hoare_keeps) (intro keeps_intros ans)
  qed
  have new: "keeps (kept E r) (act_seq (add_plan \<lparr>wp_id = call_id k m, wp_cycle = cycle, wp_week = n, wp_status = ''draft'', wp_frozen = None\<rparr>)
      (act_seq (add_posts w k 0 is) (plan_answer w)))" for m w
    using assms by (intro keeps_intros ans) (simp add: sound_call_def)
  have body: "hoare (kept E r) (act_seq (assertCycleOwned cycle owner)
      (act_bind (act_read (plan_of_week cycle n)) (\<lambda>existing. case existing of
          Some p \<Rightarrow> if wp_status p = ''frozen'' then act_throw e
            else act_seq (act_modify (delete_posts (wp_id p)))
              (act_bind (act_update plans put_plans (\<lambda>q. wp_id q = wp_id p) set_draft)
                (\<lambda>_. act_seq (add_posts (wp_id p) k 0 is) (plan_answer (wp_id p))))
        | None \<Rightarrow> act_seq (add_plan \<lparr>wp_id = call_id k (length is), wp_cycle = cycle, wp_week = n, wp_status = ''draft'', wp_frozen = None\<rparr>)
            (act_seq (add_posts (call_id k (length is)) k 0 is) (plan_answer (call_id k (length is))))))) (\<lambda>_. kept E r)" for e
  proof (rule hoare_seq [OF hoare_keeps [OF owned]], rule hoare_bind, rule hoare_read)
    show "(\<lambda>x s. kept E r s \<and> (\<forall>p. x = Some p \<longrightarrow> p \<in> set (plans s))) (plan_of_week cycle n s) s" if "kept E r s" for s
      using that plan_of_week_D by blast
  qed (auto intro!: hoare_option hoare_if hoare_throw hoare_pre [OF old] hoare_pre [OF hoare_keeps [OF new]] split: option.splits if_splits)
  then show ?thesis
    unfolding createOrReplaceWeekPlan_def by (intro keeps_intros keeps_hoare) simp
qed

lemma reads_keep: "keeps (kept E r) (getWeekPlan c n owner)" "keeps (kept E r) (listWeekPlans c owner)"
  unfolding getWeekPlan_def listWeekPlans_def assertCycleOwned_def by (intro keeps_intros)+

lemma createCycleWithWeekOne_keeps: "keeps (kept E r) (createCycleWithWeekOne i x skip job owner k)"
proof (cases "ci_next i")
  case None
  then show ?thesis by (simp add: createCycleWithWeekOne_def keeps_steps)
next
  case (Some cutoff)
  let ?c = "new_cycle i owner (call_id k 0)" and ?w = "first_context i x cutoff owner k"
  let ?p = "new_pack (call_id k 3) ''content-v2'' ?c ?w 1 None"
  let ?use = "act_when (\<not> skip) (act_seq
      (act_bind (act_update contexts put_contexts (\<lambda>r. cx_id r = cx_id ?w \<and> cx_frozen r = None) (freeze_context (call_now k)))
        (\<lambda>_. act_return ()))
      (act_seq (add_pack ?p) (act_when job (add_job (pack_job (call_id k 4) ''generate-content'' (cy_id ?c) 1 (pk_id ?p))))))"
  let ?in = "\<lambda>s. claiming E r ?c s \<and> ?w \<in> set (contexts s)"
  have 1: "hoare (kept E r) (add_cycle ?c) (\<lambda>_. claiming E r ?c)"
    unfolding add_cycle_def
    by (rule hoare_insert) (auto simp: claiming_def put_cycles_def [symmetric] intro: cycle_added new_cycle_ok, simp add: put_cycles_def)
  have 2: "hoare (claiming E r ?c) (add_context ?w) (\<lambda>_. ?in)"
    unfolding add_context_def
    by (rule hoare_insert) (auto simp: claiming_def put_contexts_def [symmetric] intro: context_added, simp_all add: put_contexts_def)
  have 3: "hoare ?in (act_update contexts put_contexts (\<lambda>r. cx_id r = cx_id ?w \<and> cx_frozen r = None) (freeze_context (call_now k)))
      (\<lambda>_ s. claiming E r ?c s \<and> freeze_context (call_now k) ?w \<in> set (contexts s))"
  proof (rule hoare_update)
    fix s assume s: "?in s"
    let ?u = "tbl_update (\<lambda>r. cx_id r = cx_id ?w \<and> cx_frozen r = None) (freeze_context (call_now k)) (contexts s)"
    have "kept E r (put_contexts ?u s)"
      by (rule contexts_updated) (use s in \<open>auto simp: claiming_def context_le_def freeze_context_def\<close>)
    moreover have "freeze_context (call_now k) ?w \<in> set ?u"
      using s by (auto simp: set_tbl_update first_context_def intro!: image_eqI [of _ _ ?w])
    ultimately show "claiming E r ?c (put_contexts ?u s) \<and> freeze_context (call_now k) ?w \<in> set (contexts (put_contexts ?u s))"
      using s by (simp add: claiming_def put_contexts_def)
  qed
  have 4: "hoare (\<lambda>s. claiming E r ?c s \<and> freeze_context (call_now k) ?w \<in> set (contexts s)) (add_pack ?p) (\<lambda>_. claiming E r ?c)"
    by (rule hoare_post [OF hoare_add_pack])
      (auto simp: claiming_def first_context_def new_cycle_def intro!: pack_is_backed)
  have 5: "hoare ?in ?use (\<lambda>_. claiming E r ?c)"
    by (rule hoare_when, rule hoare_seq [OF hoare_bind [OF 3]], rule hoare_return, assumption,
        rule hoare_seq [OF 4 hoare_add_job]) simp
  have body: "hoare (kept E r) (act_seq (add_cycle ?c) (act_seq (add_context ?w) (act_seq ?use (act_return z)))) (\<lambda>_. kept E r)" for z
    by (rule hoare_seq [OF 1], rule hoare_seq [OF 2], rule hoare_seq [OF 5], rule hoare_return) (simp add: claiming_def)
  have answer: "keeps (kept E r) (cycle_answer c)" for c unfolding cycle_answer_def by (intro keeps_intros)
  show ?thesis
    unfolding createCycleWithWeekOne_def Some option.case Let_def
    by (intro keeps_catch keeps_hoare body cycle_replay_keeps answer)
qed

end
