(* ===== verification/Week_Run.thy ===== *)
theory Week_Run
  imports Week_World
begin

text \<open>
  The operations on content cycles and on optimization as one step function, whose parameters are the
  JavaScript engine, the column of type JSONB, the zone of Cairo, the confirmed profile of a cycle and the
  reusable assets of a cycle. A history is any sequence of the operations, in any order and with any
  arguments, each drawing UUIDs and the time of its own; an operation that throws leaves what it leaves.
\<close>

record outside =
  ou_engine :: js_env
  ou_jsonb :: "json \<Rightarrow> json"
  ou_cairo :: "int \<Rightarrow> int"
  ou_profile :: "cycle_row \<Rightarrow> json"
  ou_assets :: "string \<Rightarrow> string list"

datatype week_event =
  Create cycle_input string
| Create_first cycle_input context_input bool bool string
| Pause string string string
| Resume string string
| Finish string
| Mark_finished string
| Advance string int
| Cron
| Confirm_context string context_input string
| Default_context string int
| Plan string int "post_input list" string
| Freeze_plan string int json
| Attach string int string
| Posts_generating string
| Posts_failed string
| Claim string int string bool
| Claim_v2 claim_input
| Pack_moves string string string
| Pack_claimed string
| Pack_derived string
| Pack_failed string string string json
| Progressed string string string string string json
| Proposed proposal_row
| Decided decision_input

definition on_optimization :: "'a opt \<Rightarrow> week_db \<Rightarrow> week_db" where
  "on_optimization m s = put_optimization (snd (m (optimization s))) s"

fun week_step :: "outside \<Rightarrow> week_db \<Rightarrow> week_event \<times> call \<Rightarrow> week_db" where
  "week_step w s (Create i owner, k) = snd (createCycle i owner k s)"
| "week_step w s (Create_first i x skip job owner, k) = snd (createCycleWithWeekOne i x skip job owner k s)"
| "week_step w s (Pause i owner reason, k) = snd (pauseCycle i owner reason s)"
| "week_step w s (Resume i owner, k) = snd (resumeCycle i owner s)"
| "week_step w s (Finish i, k) = snd (completeCycle i k s)"
| "week_step w s (Mark_finished i, k) = snd (markCycleCompleted i k s)"
| "week_step w s (Advance i n, k) = snd (advanceToNextWeek (ou_engine w) (ou_cairo w) i n k s)"
| "week_step w s (Cron, k) = snd (progressWeeks (ou_engine w) (ou_cairo w) k s)"
| "week_step w s (Confirm_context c x owner, k) = snd (upsertOwnerContext (ou_engine w) (ou_cairo w) c x owner k s)"
| "week_step w s (Default_context c n, k) =
     snd (createSafeDefaultContext (ou_engine w) (ou_cairo w) (ou_profile w) (ou_assets w) c n k s)"
| "week_step w s (Plan c n is owner, k) = snd (createOrReplaceWeekPlan c n is owner k s)"
| "week_step w s (Freeze_plan c n v, k) = snd (freezeWeekPlan c n v s)"
| "week_step w s (Attach p n i, k) = snd (attachGeneratedItem p n i s)"
| "week_step w s (Posts_generating p, k) = snd (markPlansGenerating p s)"
| "week_step w s (Posts_failed p, k) = snd (markPlansFailed p s)"
| "week_step w s (Claim c n x job, k) = snd (claimQueuedPack (ou_engine w) (ou_cairo w) c n x job k s)"
| "week_step w s (Claim_v2 i, k) = snd (claimQueuedPackV2 (ou_engine w) (ou_cairo w) i k s)"
| "week_step w s (Pack_moves i a b, k) = snd (markPackStatus i a b s)"
| "week_step w s (Pack_claimed i, k) = snd (claimPackForGeneration i s)"
| "week_step w s (Pack_derived i, k) = snd (derivePackStatusFromItems i s)"
| "week_step w s (Pack_failed i key text v, k) = snd (safeFail i key text v s)"
| "week_step w s (Progressed i stage st key text v, k) = snd (appendProgressEvent i stage st key text v s)"
| "week_step w s (Proposed p, k) = on_optimization (createProposal (ou_engine w) (ou_jsonb w) p k) s"
| "week_step w s (Decided i, k) = on_optimization (createDecision (ou_engine w) i k) s"

definition sound_event :: "week_event \<times> call \<Rightarrow> bool" where
  "sound_event e \<longleftrightarrow> sound_call (snd e)"

lemma createProposal_instructions: "instructions (snd (createProposal E jb p k s)) = instructions s"
proof -
  have i: "instructions (snd (insert_proposal jb q t)) = instructions t" for q t
    by (auto simp: insert_proposal_def act_insert_def)
  then have "keeps (\<lambda>t. instructions t = v) (insert_proposal jb q)" for q v by (simp add: keeps_def)
  then have "keeps (\<lambda>t. instructions t = instructions s) (createProposal E jb p k)"
    unfolding createProposal_def Let_def by (intro keeps_intros)
  then show ?thesis by (simp add: keeps_def)
qed

lemma createDecision_instructions:
  "i \<in> set (instructions (snd (createDecision E d k s))) \<Longrightarrow> i \<in> set (instructions s) \<or> in_pack i = None"
  by (cases rule: createDecision_cases [of E d k s]) (auto simp: decided_def new_instruction_def Let_def split: if_splits)

lemma optimization_steps:
  assumes "kept E r s" "jsonb jb"
  shows "kept E r (on_optimization (createProposal E jb p k) s)" "kept E r (on_optimization (createDecision E d k) s)"
  unfolding on_optimization_def
  using kept_parts(4) [OF assms(1)] keepsD [OF createProposal_keeps [OF assms(2)]] keepsD [OF createDecision_keeps]
    createDecision_instructions
  by (auto intro!: optimization_put [OF assms(1)] createProposal_le createDecision_le
      simp: createProposal_instructions instructions_of_def instruction_backed_def dest!: createDecision_instructions)

lemma week_step_kept:
  assumes "week_ok (ou_engine w) s" "jsonb (ou_jsonb w)" "sound_event e"
  shows "kept (ou_engine w) s (week_step w s e)"
proof -
  obtain l k where e: "e = (l, k)" and k: "sound_call k" using assms(3) by (cases e) (auto simp: sound_event_def)
  note s = kept_refl [OF assms(1)]
  show ?thesis
    unfolding e
    using keepsD [OF createCycle_keeps s] keepsD [OF createCycleWithWeekOne_keeps s] keepsD [OF pauses_keep(1) s]
      keepsD [OF pauses_keep(2) s] keepsD [OF completions_keep(1) s] keepsD [OF completions_keep(2) s]
      keepsD [OF advanceToNextWeek_keeps s] keepsD [OF progressWeeks_keeps s] keepsD [OF owner_contexts_keep(1) s]
      keepsD [OF owner_contexts_keep(2) s] keepsD [OF createOrReplaceWeekPlan_keeps [OF k] s] keepsD [OF freezeWeekPlan_keeps s]
      keepsD [OF posts_keep(1) s] keepsD [OF posts_keep(2) s] keepsD [OF posts_keep(3) s] keepsD [OF claimQueuedPack_keeps s]
      keepsD [OF claimQueuedPackV2_keeps [OF k] s] keepsD [OF pack_statuses_keep(1) s] keepsD [OF pack_statuses_keep(2) s]
      keepsD [OF pack_statuses_keep(3) s] keepsD [OF pack_statuses_keep(4) s] keepsD [OF appendProgressEvent_keeps s]
      optimization_steps [OF s assms(2)]
    by (cases l) (simp_all only: week_step.simps)
qed

interpretation week_life: step_order "week_step w" "\<lambda>s. week_ok (ou_engine w) s \<and> jsonb (ou_jsonb w)" sound_event week_le for w
  by unfold_locales (auto simp: week_le_refl kept_def dest: week_step_kept intro: week_le_trans)

definition week_empty :: week_db where
  "week_empty = \<lparr>cycles = [], contexts = [], plans = [], posts = [], packs = [], items = [], progress = [], jobs = [],
     optimization = opt_empty\<rparr>"

lemma week_ok_empty: "week_ok E week_empty"
  by (simp add: week_ok_def week_empty_def week_keyed_def instructions_of_def opt_ok_empty) (simp add: opt_empty_def)

end
