(* ===== verification/Week_Samples.thy ===== *)
theory Week_Samples
  imports Week_Run Opt_Samples
begin

text \<open>
  A history for the examples: a cycle, a plan of three posts for its first week, the claim of that week.
\<close>

definition sample_outside :: outside where
  "sample_outside = \<lparr>ou_engine = sample_env, ou_jsonb = \<lambda>v. v, ou_cairo = \<lambda>_. 7200000, ou_profile = \<lambda>_. JNull,
     ou_assets = \<lambda>_. []\<rparr>"

definition first_day :: int where
  "first_day = 20454"

definition sample_cycle_input :: cycle_input where
  "sample_cycle_input = \<lparr>ci_business = uuid_at 12, ci_strategy = uuid_at 13, ci_version = 1, ci_decision = uuid_at 14,
     ci_profile = uuid_at 15, ci_start = first_day * msPerDay, ci_key = Some ''k'', ci_fingerprint = Some ''f'',
     ci_next = Some 1767823200000\<rparr>"

definition sample_context_input :: context_input where
  "sample_context_input = \<lparr>xi_week = 1, xi_mode = ''none'', xi_promotion = JNull, xi_include = JArr [], xi_avoid = JArr [],
     xi_assets = JArr [], xi_cta = no_cta\<rparr>"

definition sample_post :: "int \<Rightarrow> post_input" where
  "sample_post n = \<lparr>pi_position = n, pi_purpose = ''offer'', pi_audience = None, pi_channel = ''facebook'',
     pi_format = ''text_post'', pi_cta = None, pi_owner = None, pi_visual = None, pi_media = [], pi_source = ''owner''\<rparr>"

definition sample_claim :: claim_input where
  "sample_claim = \<lparr>cl_cycle = uuid_at 0, cl_week = 1, cl_context = uuid_at 1, cl_plan = uuid_at 8,
     cl_frozen = JObj [], cl_instruction = None, cl_job = True\<rparr>"

definition sample_events :: "(week_event \<times> call) list" where
  "sample_events =
     [(Create_first sample_cycle_input sample_context_input True False ''owner'', sample_call 0),
      (Plan (uuid_at 0) 1 [sample_post 1, sample_post 2, sample_post 3] ''owner'', sample_call 5)]"

lemma sample_sound [simp]: "sound_call (sample_call m)"
  by (simp add: sound_call_def sample_call_def del: isRunUuid.simps)

lemma sample_cairo [simp]: "cairo_offsets (\<lambda>_. 7200000)"
  by (simp add: cairo_offsets_def)

lemma sample_weeks: "plain_weeks first_day"
  by (simp add: plain_weeks_def first_day_def DayFromYear_def)

lemma sample_cutoff: "weekCutoffDate E (\<lambda>_. 7200000) (Cal_date (first_day * msPerDay)) 1 = Inr 1767823200000"
  using weekCutoffDate_day [OF sample_cairo sample_weeks, of 1 E] by (simp add: cairo_start_def first_day_def msPerDay_def)

text \<open>The tables after the history.\<close>

definition sample_cycle :: cycle_row where
  "sample_cycle = new_cycle sample_cycle_input ''owner'' (uuid_at 0)"

definition sample_context :: context_row where
  "sample_context = first_context sample_cycle_input sample_context_input 1767823200000 ''owner'' (sample_call 0)"

definition sample_plan :: plan_row where
  "sample_plan = \<lparr>wp_id = uuid_at 8, wp_cycle = uuid_at 0, wp_week = 1, wp_status = ''draft'', wp_frozen = None\<rparr>"

definition sample_db :: week_db where
  "sample_db = \<lparr>cycles = [sample_cycle], contexts = [sample_context], plans = [sample_plan],
     posts = [new_post (uuid_at 5) (uuid_at 8) (sample_post 1), new_post (uuid_at 6) (uuid_at 8) (sample_post 2),
       new_post (uuid_at 7) (uuid_at 8) (sample_post 3)],
     packs = [], items = [], progress = [], jobs = [], optimization = opt_empty\<rparr>"

lemma sample_draws: "call_id (sample_call m) n = uuid_at (m + n)" "call_now (sample_call m) = 1767225600000"
    "ci_next sample_cycle_input = Some 1767823200000"
  by (simp_all add: sample_call_def sample_cycle_input_def)

lemmas run_defs = uuid_at_inject action_defs act_found_def act_update_def act_when_def act_reject_def
  tbl_update_def tbl_count_def cycle_by_id_def context_by_id_def pack_of_week_def plan_of_week_def put_defs
  add_cycle_def add_context_def add_plan_def add_post_def add_pack_def add_job_def

lemma sample_fields:
  "cy_id sample_cycle = uuid_at 0" "cy_owner sample_cycle = ''owner''" "cy_status sample_cycle = ''active''" "cy_week sample_cycle = 1"
  "cy_start sample_cycle = first_day * msPerDay" "cx_id sample_context = uuid_at 1" "cx_cycle sample_context = uuid_at 0"
  "cx_week sample_context = 1" "cx_frozen sample_context = None" "wp_id sample_plan = uuid_at 8" "wp_cycle sample_plan = uuid_at 0"
  "wp_week sample_plan = 1" "wp_status sample_plan = ''draft''" "cy_key sample_cycle = Some ''k''"
  "cy_fingerprint sample_cycle = Some ''f''" "cy_contract sample_cycle = ''content-v2''"
  by (simp_all add: sample_cycle_def sample_context_def sample_plan_def new_cycle_def first_context_def sample_cycle_input_def
      sample_context_input_def sample_call_def)

lemma sample_created:
  "createCycleWithWeekOne sample_cycle_input sample_context_input True False ''owner'' (sample_call 0) week_empty =
     (Inr (sample_cycle, freeze_context 1767225600000 sample_context, None, True),
      week_empty\<lparr>cycles := [sample_cycle], contexts := [sample_context]\<rparr>)"
  by (simp add: createCycleWithWeekOne_def Let_def week_empty_def run_defs sample_draws sample_cycle_def sample_context_def)

lemma sample_planned:
  "snd (createOrReplaceWeekPlan (uuid_at 0) 1 [sample_post 1, sample_post 2, sample_post 3] ''owner'' (sample_call 5)
      (week_empty\<lparr>cycles := [sample_cycle], contexts := [sample_context]\<rparr>)) = sample_db"
  by (simp add: createOrReplaceWeekPlan_def week_empty_def run_defs assertCycleOwned_def owned_def sample_fields
      plan_answer_def sample_draws post_clash_def new_post_def sample_post_def sample_db_def sample_plan_def)

lemma sample_run: "foldl (week_step sample_outside) week_empty sample_events = sample_db"
  by (simp add: sample_events_def sample_created sample_planned)


definition sample_pack :: pack_row where
  "sample_pack = new_pack (uuid_at 9) ''content-v2'' sample_cycle sample_context 1 (Some (uuid_at 8))"

definition claimed_db :: week_db where
  "claimed_db = sample_db\<lparr>cycles := [set_next 1767823200000 sample_cycle],
     contexts := [freeze_context 1767225600000 sample_context], plans := [freeze_plan (JObj []) sample_plan],
     packs := [sample_pack], jobs := [pack_job (uuid_at 10) ''generate-content-v2'' (uuid_at 0) 1 (uuid_at 9)]\<rparr>"

lemma sample_claim_fields:
  "cl_cycle sample_claim = uuid_at 0" "cl_week sample_claim = 1" "cl_context sample_claim = uuid_at 1" "cl_plan sample_claim = uuid_at 8"
  "cl_frozen sample_claim = JObj []" "cl_instruction sample_claim = None" "cl_job sample_claim"
  by (simp_all add: sample_claim_def)

lemma sample_db_fields:
  "cycles sample_db = [sample_cycle]" "contexts sample_db = [sample_context]" "plans sample_db = [sample_plan]"
  "packs sample_db = []" "jobs sample_db = []" "progress sample_db = []" "optimization sample_db = opt_empty"
  by (simp_all add: sample_db_def)

lemma sample_claimed:
  "claimQueuedPackV2 E (\<lambda>_. 7200000) sample_claim (sample_call 9) sample_db = (Inr (sample_pack, True), claimed_db)"
  by (simp add: claimQueuedPackV2_def claim_body_v2_def actionable_check_def freeze_draft_def freeze_free_def Let_def run_defs
      sample_claim_fields sample_fields sample_db_fields sample_draws cutoff_of_def sample_cutoff from_schedule_def
      sample_pack_def claimed_db_def) (simp add: new_pack_def)

end
