(* ===== verification/Week_Moves.thy ===== *)
theory Week_Moves
  imports Week_World
begin

text \<open>
  What a claim of a week answers, now and later, and what a tick of the cron job does to the tables.
\<close>


section \<open>A claim that was answered\<close>

lemma hoare_top: "hoare P m (\<lambda>_ _. True)"
  by (simp add: hoare_def)

definition of_week :: "string \<Rightarrow> int \<Rightarrow> pack_row \<times> bool \<Rightarrow> week_db \<Rightarrow> bool" where
  "of_week c n a s \<longleftrightarrow> fst a \<in> set (packs s) \<and> pk_cycle (fst a) = c \<and> pk_week (fst a) = n"

lemma pack_of_week_D: "pack_of_week c n s = Some p \<Longrightarrow> p \<in> set (packs s) \<and> pk_cycle p = c \<and> pk_week p = n"
  unfolding pack_of_week_def using tbl_find_SomeD by fastforce

lemma packs_stay:
  "keeps (\<lambda>s. p \<in> set (packs s)) (add_job j)"
  "keeps (\<lambda>s. p \<in> set (packs s)) (act_update cycles put_cycles P f)"
  "keeps (\<lambda>s. p \<in> set (packs s)) (mark_consumed k c g a b now)"
  by (auto simp: keeps_def add_job_def act_insert_def act_update_def mark_consumed_def put_defs put_instructions_of_def)

lemma consume_packs_stay: "keeps (\<lambda>s. p \<in> set (packs s)) (consume_instruction v c k a b now)"
  unfolding consume_instruction_def by (intro keeps_intros packs_stay)

lemma hoare_new_pack: "hoare P (add_pack p) (\<lambda>_ s. p \<in> set (packs s))"
  unfolding add_pack_def by (rule hoare_insert) (simp add: put_defs)

lemma claim_ends:
  assumes "pk_cycle p = c" "pk_week p = n" "keeps (\<lambda>s. p \<in> set (packs s)) m"
  shows "hoare (\<lambda>s. p \<in> set (packs s)) (act_seq m (act_seq (act_when b (add_job j))
      (act_bind (cutoff_of E off d n') (\<lambda>t. act_bind (act_update cycles put_cycles (P t) (f t)) (\<lambda>_. act_return (p, True))))))
    (of_week c n)"
  by (rule hoare_seq [OF hoare_keeps [OF assms(3)]], rule hoare_seq [OF hoare_keeps], rule keeps_when, rule packs_stay,
      rule hoare_bind [OF hoare_keeps], rule keeps_lifted, rule hoare_bind [OF hoare_keeps], rule packs_stay, rule hoare_return)
    (simp add: of_week_def assms)

lemma claim_body_v2_answers:
  assumes "cy_id c = cl_cycle i"
  shows "hoare P (claim_body_v2 E off i k c) (of_week (cl_cycle i) (cl_week i))"
  unfolding claim_body_v2_def Let_def
  by (rule hoare_seq [OF hoare_top], rule hoare_bind [OF hoare_top], rule hoare_seq [OF hoare_top], rule hoare_seq [OF hoare_top],
      rule hoare_seq [OF hoare_top], rule hoare_seq [OF hoare_new_pack], rule claim_ends)
    (auto simp: new_pack_def assms intro!: keeps_intros consume_packs_stay split: option.split)

lemma claimQueuedPackV2_answers:
  assumes "claimQueuedPackV2 E off i k s = (Inr a, t)"
  shows "of_week (cl_cycle i) (cl_week i) a t \<and> 1 \<le> cl_week i \<and> cl_week i \<le> 12"
proof -
  let ?w = "of_week (cl_cycle i) (cl_week i)"
  let ?m = "act_bind (act_read (pack_of_week (cl_cycle i) (cl_week i))) (\<lambda>existing. case existing of Some p \<Rightarrow> act_return (p, False)
      | None \<Rightarrow> act_bind (act_found (cycle_by_id (cl_cycle i)) Record_missing) (claim_body_v2 E off i k))"
  have n: "1 \<le> cl_week i" "cl_week i \<le> 12" using assms by (auto simp: claimQueuedPackV2_def act_throw_def split: if_splits)
  have found: "hoare (\<lambda>_. True) (act_bind (act_found (cycle_by_id (cl_cycle i)) Record_missing) (claim_body_v2 E off i k)) ?w"
  proof (rule hoare_bind [OF hoare_found_row [where Q = "\<lambda>c _. cy_id c = cl_cycle i"]])
    show "hoare (\<lambda>_. cy_id c = cl_cycle i) (claim_body_v2 E off i k c) ?w" for c
      using claim_body_v2_answers [of c i "\<lambda>_. True" E off k] by (auto simp: hoare_def)
  qed (simp add: cycle_by_id_D)
  have m: "hoare (\<lambda>_. True) ?m ?w"
  proof (rule hoare_bind [where R = "\<lambda>x s. \<forall>p. x = Some p \<longrightarrow> ?w (p, False) s"])
    show "hoare (\<lambda>_. True) (act_read (pack_of_week (cl_cycle i) (cl_week i))) (\<lambda>x s. \<forall>p. x = Some p \<longrightarrow> ?w (p, False) s)"
      by (rule hoare_read) (auto simp: of_week_def dest: pack_of_week_D)
    show "hoare (\<lambda>s. \<forall>p. x = Some p \<longrightarrow> ?w (p, False) s) (case x of Some p \<Rightarrow> act_return (p, False)
        | None \<Rightarrow> act_bind (act_found (cycle_by_id (cl_cycle i)) Record_missing) (claim_body_v2 E off i k)) ?w" for x
      by (cases x) (auto intro: hoare_return hoare_pre [OF found])
  qed
  have race: "?w b v" if "claim_race (cl_cycle i) (cl_week i) e u = (Inr b, v)" for e b u v
    using that by (auto simp: claim_race_def of_week_def act_bind_def act_read_def act_throw_def act_return_def
        dest: pack_of_week_D split: if_splits option.splits)
  have "act_catch (transaction ?m) (claim_race (cl_cycle i) (cl_week i)) s = (Inr a, t)"
    using assms n by (simp add: claimQueuedPackV2_def)
  then have "?w a t"
    by (auto simp: act_catch_def split: prod.splits sum.splits dest: race elim!: transaction_cases intro: hoareD [OF m])
  then show ?thesis using n by simp
qed

lemma pack_of_week_keyed:
  assumes "keyed pack_clash (packs s)" "p \<in> set (packs s)"
  shows "pack_of_week (pk_cycle p) (pk_week p) s = Some p"
proof (cases "pack_of_week (pk_cycle p) (pk_week p) s")
  case None
  with assms(2) show ?thesis by (auto simp: pack_of_week_def tbl_find_None_iff)
next
  case (Some q)
  then show ?thesis using keyedD [OF assms(1) _ assms(2), of q] pack_of_week_D [OF Some] by (simp add: pack_clash_def)
qed

lemma claims_answer:
  assumes "1 \<le> n" "n \<le> 12" "pack_of_week c n u = Some q"
  shows "claimQueuedPack E off c n x job k u = (Inr (q, False), u)"
    and "cl_cycle j = c \<Longrightarrow> cl_week j = n \<Longrightarrow> claimQueuedPackV2 E off j k u = (Inr (q, False), u)"
  using assms by (auto simp: claimQueuedPack_def claimQueuedPackV2_def act_catch_def transaction_def act_bind_def act_read_def act_return_def)


section \<open>The cron job\<close>

text \<open>What one tick does to a database: some of the rows \<open>cs\<close> advance by one week, and their new weeks get contexts.\<close>

definition next_week :: "js_env \<Rightarrow> (int \<Rightarrow> int) \<Rightarrow> cycle_row \<Rightarrow> cycle_row \<Rightarrow> bool" where
  "next_week E off c d \<longleftrightarrow> (\<exists>cutoff. weekCutoffDate E off (Cal_date (cy_start c)) (cy_week c + 1) = Inr cutoff
     \<and> d = set_week (cy_week c + 1) cutoff c)"

definition ticked :: "js_env \<Rightarrow> (int \<Rightarrow> int) \<Rightarrow> cycle_row set \<Rightarrow> week_db \<Rightarrow> week_db \<Rightarrow> bool" where
  "ticked E off cs s t \<longleftrightarrow> (\<exists>f xs. t = s\<lparr>cycles := map f (cycles s), contexts := contexts s @ xs\<rparr>
     \<and> (\<forall>c \<in> set (cycles s). f c = c \<or> c \<in> cs \<and> next_week E off c (f c))
     \<and> (\<forall>x \<in> set xs. cx_source x = ''system_defaulted'' \<and> cx_frozen x = None))"

lemma ticked_refl: "ticked E off cs s s"
  unfolding ticked_def by (intro exI [of _ "\<lambda>c. c"] exI [of _ "[]"]) simp

lemma cycle_by_id_keyed:
  assumes "keyed cycle_clash (cycles s)" "c \<in> set (cycles s)"
  shows "cycle_by_id (cy_id c) s = Some c"
proof (cases "cycle_by_id (cy_id c) s")
  case None
  with assms(2) show ?thesis by (auto simp: cycle_by_id_def tbl_find_None_iff)
next
  case (Some d)
  then show ?thesis using keyedD [OF assms(1) _ assms(2), of d] cycle_by_id_D [OF Some] by (simp add: cycle_clash_def)
qed

lemma default_context:
  "cx_source (defaulted_context i n a b v c k) = ''system_defaulted''" "cx_frozen (defaulted_context i n a b v c k) = None"
  by (simp_all add: defaulted_context_def)

lemma cutoff_of_Inr: "cutoff_of E off c n s = (Inr t, u) \<Longrightarrow> weekCutoffDate E off (Cal_date (cy_start c)) n = Inr t \<and> u = s"
  by (auto simp: cutoff_of_def from_schedule_def act_lift_def split: sum.splits)

lemma start_of_Inr: "start_of E c n s = (Inr t, u) \<Longrightarrow> u = s"
  by (simp add: start_of_def act_lift_def)

lemma advance_ticks:
  assumes k: "keyed cycle_clash (cycles s)" and c: "c \<in> set (cycles s)" "cy_week c < 12"
  shows "ticked E off {c} s (snd (advanceToNextWeek E off (cy_id c) n k' s))"
proof (cases "advanceToNextWeek E off (cy_id c) n k' s" rule: prod.exhaust)
  case (Pair r t)
  let ?P = "\<lambda>d. cy_id d = cy_id c \<and> cy_week d = cy_week c \<and> cy_status d = ''active''"
  let ?i = "cy_id c" and ?n = "cy_week c + 1"
  have only: "d = c" if "d \<in> set (cycles s)" "?P d" for d
    using keyedD [OF k that(1) c(1)] that(2) by (simp add: cycle_clash_def)
  show ?thesis
  proof (cases r)
    case (Inl e)
    then have "t = s" using Pair by (auto simp: advanceToNextWeek_def elim!: transaction_cases)
    then show ?thesis using Pair by (simp add: ticked_refl)
  next
    case (Inr a)
    let ?go = "\<lambda>cutoff. act_bind (act_update cycles put_cycles ?P (set_week ?n cutoff)) (\<lambda>m.
           if m = 0 then act_return Unchanged
           else act_bind (act_read (context_of_week ?i ?n)) (\<lambda>existing.
             act_seq (if existing \<noteq> None then act_return ()
                 else act_bind (start_of E c ?n) (\<lambda>start. add_context (defaulted_context ?i ?n start cutoff (JArr []) no_cta k')))
               (act_return (Advanced ?n))))"
    have "t = s \<or> act_bind (cutoff_of E off c ?n) ?go s = (Inr a, t)"
      using Pair Inr c(2) cycle_by_id_keyed [OF k c(1)]
      by (auto simp: advanceToNextWeek_def act_found_def act_bind_def [of "act_bind _ _"] act_bind_def [of "act_read _"] act_read_def
          act_return_def elim!: transaction_cases split: if_splits)
    then show ?thesis
    proof
      assume "t = s" then show ?thesis using Pair by (simp add: ticked_refl)
    next
      assume "act_bind (cutoff_of E off c ?n) ?go s = (Inr a, t)"
      then obtain cutoff where cutoff: "weekCutoffDate E off (Cal_date (cy_start c)) ?n = Inr cutoff" and go: "?go cutoff s = (Inr a, t)"
        using cutoff_of_Inr by (metis (no_types, lifting) act_bind_InrE)
      let ?f = "\<lambda>d. if ?P d then set_week ?n cutoff d else d"
      let ?u = "put_cycles (tbl_update ?P (set_week ?n cutoff) (cycles s)) s"
      have u: "?u = s\<lparr>cycles := map ?f (cycles s)\<rparr>" by (simp add: put_cycles_def tbl_update_def)
      obtain xs where xs: "t = ?u\<lparr>contexts := contexts s @ xs\<rparr>" "\<forall>x \<in> set xs. cx_source x = ''system_defaulted'' \<and> cx_frozen x = None"
      proof (cases "t = ?u")
        case True
        then show thesis using that [of "[]"] by (simp add: put_cycles_def)
      next
        case False
        then obtain start where "add_context (defaulted_context ?i ?n start cutoff (JArr []) no_cta k') ?u = (Inr (), t)"
          using go by (auto simp: act_update_def act_bind_def [of "act_update _ _ _ _"] act_read_def act_return_def
              act_bind_def [of "act_read _"] act_seq_def split: if_splits elim!: act_bind_InrE dest!: start_of_Inr)
        then show thesis
          using that [of "[defaulted_context ?i ?n start cutoff (JArr []) no_cta k']"]
          by (auto simp: add_context_def act_insert_def put_contexts_def put_cycles_def default_context split: if_splits)
      qed
      have "?f d = d \<or> d \<in> {c} \<and> next_week E off d (?f d)" if "d \<in> set (cycles s)" for d
        using only [OF that] cutoff by (auto simp: next_week_def)
      with xs show ?thesis unfolding ticked_def u Pair snd_conv by (intro exI [of _ ?f] exI [of _ xs]) simp
    qed
  qed
qed


lemma next_week_fields:
  "next_week E off c d \<Longrightarrow> cy_id d = cy_id c \<and> cy_week d = cy_week c + 1 \<and> cy_owner d = cy_owner c \<and> cy_key d = cy_key c"
  by (auto simp: next_week_def set_week_def)

lemma ticked_keyed:
  assumes "ticked E off cs s t" "keyed cycle_clash (cycles s)"
  shows "keyed cycle_clash (cycles t)"
proof -
  obtain f xs where t: "t = s\<lparr>cycles := map f (cycles s), contexts := contexts s @ xs\<rparr>"
    and f: "\<forall>c \<in> set (cycles s). f c = c \<or> c \<in> cs \<and> next_week E off c (f c)"
    using assms(1) by (auto simp: ticked_def)
  have "cycle_clash (f c) (f d) \<Longrightarrow> cycle_clash c d" if "c \<in> set (cycles s)" "d \<in> set (cycles s)" for c d
    using f that next_week_fields by (metis (no_types, lifting) cycle_clash_def)
  then have "keyed cycle_clash (tbl_update (\<lambda>_. True) f (cycles s))"
    by (intro keyed_update [OF assms(2)]) (auto simp: cycle_clash_def)
  then show ?thesis by (simp add: t tbl_update_def)
qed

text \<open>One cycle after the other: a row that is not moved is still there, and a row that was moved has its identifier.\<close>

lemma ticked_trans:
  assumes a: "ticked E off {c} s t" and b: "ticked E off cs t u" and k: "keyed cycle_clash (cycles s)"
    and cs: "c \<in> set (cycles s)" "cs \<subseteq> set (cycles s)" "c \<notin> cs"
  shows "ticked E off (insert c cs) s u"
proof -
  obtain f xs where t: "t = s\<lparr>cycles := map f (cycles s), contexts := contexts s @ xs\<rparr>"
    and f: "\<forall>d \<in> set (cycles s). f d = d \<or> d \<in> {c} \<and> next_week E off d (f d)"
    and xs: "\<forall>x \<in> set xs. cx_source x = ''system_defaulted'' \<and> cx_frozen x = None"
    using a by (auto simp: ticked_def)
  obtain g ys where u: "u = t\<lparr>cycles := map g (cycles t), contexts := contexts t @ ys\<rparr>"
    and g: "\<forall>d \<in> set (cycles t). g d = d \<or> d \<in> cs \<and> next_week E off d (g d)"
    and ys: "\<forall>x \<in> set ys. cx_source x = ''system_defaulted'' \<and> cx_frozen x = None"
    using b by (auto simp: ticked_def)
  have old: "f c \<notin> cs"
  proof
    assume m: "f c \<in> cs"
    then have "f c \<noteq> c" using cs(3) by auto
    then have n: "next_week E off c (f c)" using f cs(1) by auto
    then have "f c = c" using keyedD [OF k _ cs(1), of "f c"] m cs(2) next_week_fields [OF n] by (auto simp: cycle_clash_def)
    with \<open>f c \<noteq> c\<close> show False ..
  qed
  have "g (f d) = d \<or> d \<in> insert c cs \<and> next_week E off d (g (f d))" if "d \<in> set (cycles s)" for d
  proof (cases "d = c")
    case True
    have "f d \<in> set (cycles t)" using that by (simp add: t)
    then have "g (f d) = f d" using g old True by auto
    then show ?thesis using f that True by auto
  next
    case False
    then have "f d = d" using f that by auto
    moreover have "f d \<in> set (cycles t)" using that by (simp add: t)
    ultimately show ?thesis using g by auto
  qed
  then show ?thesis
    unfolding ticked_def using xs ys by (intro exI [of _ "g \<circ> f"] exI [of _ "xs @ ys"]) (auto simp: u t)
qed

lemma ticked_rest:
  assumes "ticked E off {c} s t" "d \<in> set (cycles s)" "d \<noteq> c"
  shows "d \<in> set (cycles t)"
  using assms by (force simp: ticked_def)

lemma roll_over_ticks:
  assumes "keyed cycle_clash (cycles s)" "set cs \<subseteq> set (cycles s)" "distinct cs" "\<forall>c \<in> set cs. cy_week c < 12"
  shows "fst (roll_over E off k n cs s) = Inr () \<and> ticked E off (set cs) s (snd (roll_over E off k n cs s))"
  using assms
proof (induction cs arbitrary: n s)
  case Nil
  then show ?case by (simp add: act_return_def ticked_refl)
next
  case (Cons c cs)
  let ?t = "snd (advanceToNextWeek E off (cy_id c) (cy_week c) (draw k n) s)"
  have run: "roll_over E off k n (c # cs) s = roll_over E off k (Suc n) cs ?t"
    by (auto simp: act_seq_def act_bind_def act_catch_def act_return_def split: prod.split sum.split)
  have t: "ticked E off {c} s ?t" using Cons.prems by (intro advance_ticks) simp_all
  have sub: "set cs \<subseteq> set (cycles ?t)"
  proof
    fix d assume "d \<in> set cs"
    then show "d \<in> set (cycles ?t)" using Cons.prems by (intro ticked_rest [OF t]) auto
  qed
  have r: "fst (roll_over E off k (Suc n) cs ?t) = Inr () \<and> ticked E off (set cs) ?t (snd (roll_over E off k (Suc n) cs ?t))"
    using Cons.prems sub by (intro Cons.IH ticked_keyed [OF t]) simp_all
  then have "ticked E off (insert c (set cs)) s (snd (roll_over E off k (Suc n) cs ?t))"
    using Cons.prems by (intro ticked_trans [OF t]) simp_all
  with r show ?case unfolding run by simp
qed

end
