(* ===== verification/Week_Claims.thy ===== *)
theory Week_Claims
  imports Week_Samples Week_Moves
begin

text \<open>
  The properties of the content cycles: their schedule, their history, the claims of weeks and the cron job.
\<close>


section \<open>The schedule\<close>

text \<open>C25. The generation cutoff of week n of a cycle, where Cairo is two or three hours ahead of UTC and changes
  its clocks at whole hours, is the first instant of the Cairo calendar day that lies 7 * n days after
  the first day of week 1: the instant has that date in Cairo and the millisecond before it has the date of
  the day before, whether or not the clocks change in between and also where the midnight itself is skipped.\<close>

theorem cutoff_is_the_start_of_the_next_week:
  assumes "cairo_offsets off" "plain_weeks w" "1 \<le> n" "n \<le> 12"
  shows "\<exists>t. weekCutoffDate E off (Cal_date (w * msPerDay)) n = Inr t
    \<and> cairoCalendarDate off t = day_text (w + 7 * n) \<and> cairoCalendarDate off (t - 1) = day_text (w + 7 * n - 1)"
proof -
  have p: "plain_day (w + 7 * n)" "plain_day (w + 7 * n - 1)" using plain_weeksD [OF assms(2), of "7 * n"] assms(3,4) by simp_all
  show ?thesis
    using weekCutoffDate_day [OF assms] cairo_start_first [OF assms(1) p(2,1)] by blast
qed

theorem cutoff_is_the_start_of_the_next_week_witness:
  "\<exists>t. weekCutoffDate sample_env (\<lambda>_. 7200000) (Cal_date (first_day * msPerDay)) 12 = Inr t
    \<and> cairoCalendarDate (\<lambda>_. 7200000) t = day_text (first_day + 7 * 12)
    \<and> cairoCalendarDate (\<lambda>_. 7200000) (t - 1) = day_text (first_day + 7 * 12 - 1)"
  by (rule cutoff_is_the_start_of_the_next_week [OF sample_cairo sample_weeks]) simp_all


section \<open>The history of the cycles\<close>

lemma sample_events_sound: "e \<in> set sample_events \<Longrightarrow> sound_event e"
  by (auto simp: sample_events_def sound_event_def)

lemma sample_jsonb: "jsonb (ou_jsonb sample_outside)"
  by (simp add: sample_outside_def jsonb_id)

lemma weeks_ok:
  assumes "jsonb (ou_jsonb w)" "\<And>e. e \<in> set es \<Longrightarrow> sound_event e"
  shows "week_ok (ou_engine w) (foldl (week_step w) week_empty es)"
  using week_life.run_inv [of w week_empty es] assms week_ok_empty by blast


definition claimed_events :: "(week_event \<times> call) list" where
  "claimed_events = sample_events @ [(Claim_v2 sample_claim, sample_call 9)]"

lemma claimed_run: "foldl (week_step sample_outside) week_empty claimed_events = claimed_db"
  by (simp add: claimed_events_def sample_run sample_claimed) (simp add: sample_outside_def sample_claimed)

lemma claimed_events_sound: "e \<in> set claimed_events \<Longrightarrow> sound_event e"
  by (auto simp: claimed_events_def sample_events_def sound_event_def)




text \<open>C23. A claim of a version 2 week that was answered is settled: whatever happens to the tables afterwards, every later
  claim of that week, of either version and with any plan, context or instruction, is answered with the same pack and
  changes nothing, so no second pack, job or consumption comes of it.\<close>

theorem answered_claim_is_final:
  assumes "week_ok (ou_engine w) s" "jsonb (ou_jsonb w)" "sound_call k" "\<And>e. e \<in> set es \<Longrightarrow> sound_event e"
    "claimQueuedPackV2 (ou_engine w) (ou_cairo w) i k s = (Inr (p, b), t)"
  shows "let u = foldl (week_step w) t es in
    \<exists>q \<in> set (packs u). pk_id q = pk_id p \<and> pk_context q = pk_context p \<and> pk_plan q = pk_plan p
      \<and> (\<forall>j m. cl_cycle j = cl_cycle i \<and> cl_week j = cl_week i
           \<longrightarrow> claimQueuedPackV2 (ou_engine w) (ou_cairo w) j m u = (Inr (q, False), u))
      \<and> (\<forall>x job m. claimQueuedPack (ou_engine w) (ou_cairo w) (cl_cycle i) (cl_week i) x job m u = (Inr (q, False), u))"
proof -
  let ?u = "foldl (week_step w) t es"
  have a: "p \<in> set (packs t)" "pk_cycle p = cl_cycle i" "pk_week p = cl_week i" "1 \<le> cl_week i" "cl_week i \<le> 12"
    using claimQueuedPackV2_answers [OF assms(5)] by (simp_all add: of_week_def)
  have "week_ok (ou_engine w) t"
    using keepsD [OF claimQueuedPackV2_keeps [OF assms(3)] kept_refl [OF assms(1)], of "ou_engine w" "ou_cairo w" i] assms(5)
    by (simp add: kept_def)
  then have u: "week_ok (ou_engine w) ?u" "week_le t ?u"
    using week_life.run_inv [of w t es] week_life.run_le [of w t es] assms(2,4) by blast+
  obtain q where q: "q \<in> set (packs ?u)" "pack_le p q" using rows_leD [OF _ a(1)] u(2) by (auto simp: week_le_def)
  have "pack_of_week (cl_cycle i) (cl_week i) ?u = Some q"
    using pack_of_week_keyed [of ?u q] q u(1) a(2,3) by (simp add: week_ok_def week_keyed_def pack_le_def)
  with q show ?thesis
    unfolding Let_def by (intro bexI [of _ q]) (auto simp: pack_le_def intro: claims_answer [OF a(4,5)])
qed

theorem answered_claim_is_final_witness:
  "\<exists>q. claimQueuedPackV2 sample_env (\<lambda>_. 7200000) sample_claim (sample_call 3)
      (foldl (week_step sample_outside) claimed_db [(Cron, sample_call 3)])
    = (Inr (q, False), foldl (week_step sample_outside) claimed_db [(Cron, sample_call 3)])"
proof -
  have o: "week_ok (ou_engine sample_outside) sample_db"
    using weeks_ok [OF sample_jsonb, of sample_events] sample_events_sound by (simp add: sample_run)
  have c: "claimQueuedPackV2 (ou_engine sample_outside) (ou_cairo sample_outside) sample_claim (sample_call 9) sample_db
      = (Inr (sample_pack, True), claimed_db)" by (simp add: sample_outside_def sample_claimed)
  show ?thesis
    using answered_claim_is_final [OF o sample_jsonb sample_sound _ c, of "[(Cron, sample_call 3)]"]
    unfolding Let_def by (auto simp: sound_event_def sample_outside_def)
qed


section \<open>The cron job\<close>

text \<open>C24. A tick of the cron job always ends and changes nothing but this: some of the cycles that it lists as ready, which are
  active, past their cutoff and have finished their current week, move to the next week, by one week and with the
  cutoff of that week, and new weeks get a defaulted, unfrozen context. It generates nothing, completes nothing and
  touches no pack, plan, post, progress event, job or instruction.\<close>

theorem tick_moves_ready_cycles_by_one_week:
  assumes "week_keyed s"
  shows "let t = snd (progressWeeks E off k s) in
     fst (progressWeeks E off k s) = Inr ()
   \<and> length (cycles t) = length (cycles s)
   \<and> (\<forall>j < length (cycles s). cycles t ! j = cycles s ! j
        \<or> cycles s ! j \<in> set (listActiveReadyForNextWeek (call_now k) s)
          \<and> (\<exists>cutoff. weekCutoffDate E off (Cal_date (cy_start (cycles s ! j))) (cy_week (cycles s ! j) + 1) = Inr cutoff
              \<and> cycles t ! j = (cycles s ! j)\<lparr>cy_week := cy_week (cycles s ! j) + 1, cy_next := Some cutoff\<rparr>))
   \<and> (\<exists>new. contexts t = contexts s @ new \<and> (\<forall>x \<in> set new. cx_source x = ''system_defaulted'' \<and> cx_frozen x = None))
   \<and> t\<lparr>cycles := cycles s, contexts := contexts s\<rparr> = s"
proof -
  let ?cs = "listActiveReadyForNextWeek (call_now k) s"
  have k: "keyed cycle_clash (cycles s)" using assms by (simp add: week_keyed_def)
  have run: "progressWeeks E off k s = roll_over E off k 0 ?cs s"
    by (simp add: progressWeeks_def act_bind_def act_read_def)
  have "set ?cs \<subseteq> set (cycles s)" "distinct ?cs" "\<forall>c \<in> set ?cs. cy_week c < 12"
    using k by (auto simp: listActiveReadyForNextWeek_def keyed_def)
  then have r: "fst (progressWeeks E off k s) = Inr ()" "ticked E off (set ?cs) s (snd (progressWeeks E off k s))"
    using roll_over_ticks [OF k] unfolding run by blast+
  then obtain f xs where t: "snd (progressWeeks E off k s) = s\<lparr>cycles := map f (cycles s), contexts := contexts s @ xs\<rparr>"
    and f: "\<forall>c \<in> set (cycles s). f c = c \<or> c \<in> set ?cs \<and> next_week E off c (f c)"
    and xs: "\<forall>x \<in> set xs. cx_source x = ''system_defaulted'' \<and> cx_frozen x = None"
    by (auto simp: ticked_def)
  show ?thesis
    unfolding Let_def t using r(1) f xs by (auto simp: next_week_def set_week_def)
qed

theorem tick_moves_ready_cycles_by_one_week_witness:
  "fst (progressWeeks sample_env (\<lambda>_. 7200000) (sample_call 3) claimed_db) = Inr ()
   \<and> packs (snd (progressWeeks sample_env (\<lambda>_. 7200000) (sample_call 3) claimed_db)) = [sample_pack]"
proof -
  have k: "week_keyed claimed_db"
    using weeks_ok [OF sample_jsonb, of claimed_events] claimed_events_sound by (simp add: claimed_run week_ok_def)
  let ?t = "snd (progressWeeks sample_env (\<lambda>_. 7200000) (sample_call 3) claimed_db)"
  have r: "fst (progressWeeks sample_env (\<lambda>_. 7200000) (sample_call 3) claimed_db) = Inr ()"
    "?t\<lparr>cycles := cycles claimed_db, contexts := contexts claimed_db\<rparr> = claimed_db"
    using tick_moves_ready_cycles_by_one_week [OF k, of sample_env "\<lambda>_. 7200000" "sample_call 3"] unfolding Let_def by blast+
  have "packs ?t = packs (?t\<lparr>cycles := cycles claimed_db, contexts := contexts claimed_db\<rparr>)" by simp
  also have "\<dots> = [sample_pack]" unfolding r(2) by (simp add: claimed_db_def)
  finally show ?thesis using r(1) by blast
qed


section \<open>Decisions in the history of the weeks\<close>

lemma proposal_rows:
  assumes "opt_ok E o'" "p \<in> set (proposals o')"
  shows "d \<in> set (decisions o') \<Longrightarrow> de_proposal d = op_id p \<Longrightarrow> de_scope d = op_scope p
      \<and> (\<forall>e \<in> set (decisions o'). de_proposal e = op_id p \<longrightarrow> e = d)
      \<and> (de_action d = ''approve'' \<longleftrightarrow> (\<exists>i \<in> set (instructions o'). in_proposal i = op_id p))"
    and "i \<in> set (instructions o') \<Longrightarrow> in_proposal i = op_id p \<Longrightarrow> in_scope i = op_scope p \<and> in_kind i = op_kind p
      \<and> in_text i = op_instruction p \<and> (\<forall>j \<in> set (instructions o'). in_proposal j = op_id p \<longrightarrow> j = i)"
proof -
  have k: "keyed proposal_clash (proposals o')" "keyed decision_clash (decisions o')" "keyed instruction_clash (instructions o')"
    and b: "opt_bound o'" using assms(1) by (simp_all add: opt_ok_def opt_keyed_def)
  have p: "q = p" if "q \<in> set (proposals o')" "op_id q = op_id p" for q
    using keyedD [OF k(1) that(1) assms(2)] that(2) by (simp add: proposal_clash_def)
  have c: "\<exists>e \<in> set (decisions o'). carries j e p" if "j \<in> set (instructions o')" "in_proposal j = op_id p" for j
    using carried [OF b that(1)] p that(2) by (auto simp: carries_def)
  {
    assume d: "d \<in> set (decisions o')" "de_proposal d = op_id p"
    obtain q where "q \<in> set (proposals o')" "decides d q" using b d(1) by (auto simp: opt_bound_def)
    then have "de_scope d = op_scope p" using p d(2) unfolding decides_def by metis
    moreover have one: "e = d" if "e \<in> set (decisions o')" "de_proposal e = op_id p" for e
      using keyedD [OF k(2) that(1) d(1)] that(2) d(2) by (simp add: decision_clash_def)
    moreover have "de_action d = ''approve''" if "j \<in> set (instructions o')" "in_proposal j = op_id p" for j
      using c [OF that] one by (auto simp: carries_def decides_def)
    moreover have "\<exists>j \<in> set (instructions o'). in_proposal j = op_id p" if y: "de_action d = ''approve''"
    proof -
      obtain j where "j \<in> set (instructions o')" "in_proposal j = de_proposal d" using b d(1) y by (auto simp: opt_bound_def)
      then show ?thesis unfolding d(2) by blast
    qed
    ultimately show "de_scope d = op_scope p \<and> (\<forall>e \<in> set (decisions o'). de_proposal e = op_id p \<longrightarrow> e = d)
        \<and> (de_action d = ''approve'' \<longleftrightarrow> (\<exists>i \<in> set (instructions o'). in_proposal i = op_id p))" by blast
  next
    assume i: "i \<in> set (instructions o')" "in_proposal i = op_id p"
    have "j = i" if "j \<in> set (instructions o')" "in_proposal j = op_id p" for j
      using keyedD [OF k(3) that(1) i(1)] that(2) i(2) by (simp add: instruction_clash_def)
    then show "in_scope i = op_scope p \<and> in_kind i = op_kind p \<and> in_text i = op_instruction p
        \<and> (\<forall>j \<in> set (instructions o'). in_proposal j = op_id p \<longrightarrow> j = i)"
      using c [OF i] by (auto simp: carries_def)
  }
qed

text \<open>C20. After any history, also of claims that consume instructions: the workspace of every stored proposal loads as a
  valid document; a proposal has at most one decision, with the identity of the proposal; it has an instruction exactly
  when it was approved, and then one with the identity and the wording that the owner saw; and an instruction that was
  consumed names the pack and the plan of one claim of the cycle it was approved for.\<close>

theorem proposals_stay_bound:
  assumes "jsonb (ou_jsonb w)" "\<And>e. e \<in> set es \<Longrightarrow> sound_event e"
    "p \<in> set (proposals (optimization (foldl (week_step w) week_empty es)))"
  shows "let s = foldl (week_step w) week_empty es; o' = optimization s in
     (\<exists>v. toWorkspaceContract (ou_engine w) o' p = Inr v)
   \<and> (\<forall>d \<in> set (decisions o'). de_proposal d = op_id p \<longrightarrow> de_scope d = op_scope p
        \<and> (\<forall>e \<in> set (decisions o'). de_proposal e = op_id p \<longrightarrow> e = d)
        \<and> (de_action d = ''approve'' \<longleftrightarrow> (\<exists>i \<in> set (instructions o'). in_proposal i = op_id p)))
   \<and> (\<forall>i \<in> set (instructions o'). in_proposal i = op_id p \<longrightarrow> in_scope i = op_scope p \<and> in_kind i = op_kind p
        \<and> in_text i = op_instruction p \<and> (\<forall>j \<in> set (instructions o'). in_proposal j = op_id p \<longrightarrow> j = i)
        \<and> (\<forall>k. in_pack i = Some k
             \<longrightarrow> (\<exists>q \<in> set (packs s). pk_id q = k \<and> pk_plan q = in_plan i \<and> pk_cycle q = sc_cycle (op_scope p))))"
proof -
  let ?s = "foldl (week_step w) week_empty es"
  have s: "week_ok (ou_engine w) ?s" using week_life.run_inv [of w week_empty es] assms(1,2) week_ok_empty by blast
  then have o: "opt_ok (ou_engine w) (optimization ?s)" by (simp add: week_ok_def)
  note r = proposal_rows [OF o assms(3)]
  have k: "\<exists>q \<in> set (packs ?s). pk_id q = k \<and> pk_plan q = in_plan i \<and> pk_cycle q = sc_cycle (op_scope p)"
    if "i \<in> set (instructions (optimization ?s))" "in_proposal i = op_id p" "in_pack i = Some k" for i k
  proof -
    have "instruction_backed ?s i" using s that(1) by (simp add: week_ok_def instructions_of_def)
    moreover have "in_scope i = op_scope p" using r(2) [OF that(1,2)] by blast
    ultimately show ?thesis using that(3) unfolding instruction_backed_def by metis
  qed
  have w: "\<exists>v. toWorkspaceContract (ou_engine w) (optimization ?s) p = Inr v" using workspace_loads [OF o assms(3)] ..
  have d: "\<forall>d \<in> set (decisions (optimization ?s)). de_proposal d = op_id p \<longrightarrow> de_scope d = op_scope p
      \<and> (\<forall>e \<in> set (decisions (optimization ?s)). de_proposal e = op_id p \<longrightarrow> e = d)
      \<and> (de_action d = ''approve'' \<longleftrightarrow> (\<exists>i \<in> set (instructions (optimization ?s)). in_proposal i = op_id p))"
    by (intro ballI impI r(1))
  have i: "\<forall>i \<in> set (instructions (optimization ?s)). in_proposal i = op_id p \<longrightarrow> in_scope i = op_scope p
      \<and> in_kind i = op_kind p \<and> in_text i = op_instruction p
      \<and> (\<forall>j \<in> set (instructions (optimization ?s)). in_proposal j = op_id p \<longrightarrow> j = i)
      \<and> (\<forall>k. in_pack i = Some k
           \<longrightarrow> (\<exists>q \<in> set (packs ?s). pk_id q = k \<and> pk_plan q = in_plan i \<and> pk_cycle q = sc_cycle (op_scope p)))"
  proof (intro ballI impI)
    fix i assume a: "i \<in> set (instructions (optimization ?s))" "in_proposal i = op_id p"
    show "in_scope i = op_scope p \<and> in_kind i = op_kind p \<and> in_text i = op_instruction p
      \<and> (\<forall>j \<in> set (instructions (optimization ?s)). in_proposal j = op_id p \<longrightarrow> j = i)
      \<and> (\<forall>k. in_pack i = Some k
           \<longrightarrow> (\<exists>q \<in> set (packs ?s). pk_id q = k \<and> pk_plan q = in_plan i \<and> pk_cycle q = sc_cycle (op_scope p)))"
      by (intro conjI allI impI k [OF a]) (use r(2) [OF a] in blast)+
  qed
  show ?thesis unfolding Let_def by (intro conjI w d i)
qed


text \<open>A history: a proposal is recorded and approved.\<close>

definition approved_events :: "(week_event \<times> call) list" where
  "approved_events = [(Proposed sample_proposal, (sample_call 2)), (Decided sample_decision, sample_call 4)]"

lemma sample_stored: "stored (\<lambda>v. v) p = p"
  by (simp add: stored_def)

lemma sample_recorded:
  "createProposal sample_env (\<lambda>v. v) sample_proposal (sample_call 2) opt_empty = (Inr (proposal_json sample_proposal), proposed)"
proof -
  have d: "sample_proposal\<lparr>op_id := call_id (sample_call 2) 0, op_created := call_now (sample_call 2)\<rparr> = sample_proposal"
    by (simp add: sample_call_def sample_proposal_def numeral_2_eq_2)
  have c: "proposal_checks sample_proposal"
    by (simp add: proposal_checks_def sample_proposal_def OPTIMIZATION_REQUIRED_METRICS_def)
  show ?thesis
    unfolding createProposal_def Let_def d
    using sample_proposal_valid c
    by (simp add: checked_def insert_proposal_def sample_stored toProposalContract_def opt_empty_def proposed_def put_proposals_def action_defs)
qed

lemma approved_run: "optimization (foldl (week_step sample_outside) week_empty approved_events) = approved_opt"
  using sample_recorded sample_approved
  by (simp add: approved_events_def on_optimization_def sample_outside_def week_empty_def put_optimization_def)

theorem proposals_stay_bound_witness:
  "\<exists>v. toWorkspaceContract sample_env approved_opt sample_proposal = Inr v"
proof -
  have "jsonb (ou_jsonb sample_outside)" by (rule sample_jsonb)
  moreover have "\<And>e. e \<in> set approved_events \<Longrightarrow> sound_event e" by (auto simp: approved_events_def sound_event_def)
  ultimately show ?thesis
    using proposals_stay_bound [of sample_outside approved_events sample_proposal]
    unfolding Let_def approved_run by (simp add: approved_opt_def sample_outside_def)
qed

end
