(* ===== verification/Spec2Isabelle.thy ===== *)
theory Spec2Isabelle
  imports Digest_Claims Candidate_History Pub_Claims Pub_Messages Cairo_Time Billing_Theorems Billing_Entitlements Payment_Claims Outbox_Claims
    Publish_Claims Publish_Approval Publish_Served Publish_Process Orch_Claims Opt_Claims Opt_Decisions Week_Claims
begin

text \<open>
  MarketMind AI is a marketing assistant: it interviews the owner of a small business, proposes a
  strategy, generates weekly content, publishes the approved content to Facebook through an n8n
  workflow, bills the work in prepaid points, and learns from the published posts. The program is
  a NestJS service (\<open>apps/api\<close>), shared contract code (\<open>packages/contracts\<close>), an AI service in
  Python and a web client. This development models the TypeScript code in which a mistake costs
  money, publishes something nobody approved, or accepts a forged document: the publishing
  boundary, the billing module, the campaign orchestration, the optimization of posts and the weeks
  of the content cycles.

  How the parts interact. Content hands an immutable, digested \<^emph>\<open>candidate\<close> to Publishing, which keeps
  it in an authoritative record. The owner turns it into an \<^emph>\<open>intent\<close> and approves one exact version
  of it; a queue job revalidates everything, creates an \<^emph>\<open>attempt\<close> and posts a signed message to the
  runner; the runner answers by a signed callback, which records the \<^emph>\<open>result\<close>; sweeps mop up what
  crashed. The metrics of published posts feed the optimization, whose proposals the owner decides.
  A content cycle runs for twelve weeks; the claim of a week freezes its context and its plan, creates
  the pack that is generated, and may consume the instruction of an approved proposal.
  Expensive work passes the entitlement gate and is charged to a wallet that payment webhooks fill;
  receipts are mailed through a transactional outbox. A campaign run of the orchestration moves
  through a frozen lifecycle under idempotency keys.

  \<^bold>\<open>Common ground\<close>
  \<^item> MM_Prelude: the exception monad (\<open>'e + 'a\<close>), tables as lists of rows (\<open>tbl_find\<close>, \<open>tbl_create\<close>,
    \<open>tbl_update\<close>), and the locales \<open>unique_index\<close> (what a look-up returns after an insert under a
    unique key), \<open>step_invariant\<close> (an invariant of every step is one of every history) and its
    extension \<open>step_order\<close> (a preorder that every step respects relates all states of a history).
  \<^item> Db_Action: a service method is an action on the database that returns or throws;
    \<open>transaction\<close> rolls back on a throw. Db_Tables: tables under several unique indexes (\<open>keyed\<close>), tables
    whose rows are rewritten in place (\<open>rows_le\<close>), and triples \<open>hoare P m Q\<close> for what an action ensures
    when it returns.
  \<^item> Json, Json_Checks, Js_Time, Js_Date, Js_Number, Js_Regex: JavaScript values, \<open>Date.parse\<close> and
    \<open>toISOString\<close>, rounding to doubles, the regular expressions of the content rules. The record
    \<open>js_env\<close> collects what is not under src: SHA-256 and HMAC, the collation of \<open>localeCompare\<close>, the
    printer of numbers, the legacy date parser, the URL parser, the offset of a time zone.
  \<^item> Sample_Data, Sample_Ids: concrete environments and documents for the witnesses.

  \<^bold>\<open>Publishing contract\<close> (packages/contracts/src/publishing, content/publication-candidate.ts)
  \<^item> Pub_Canonical, Pub_Digest: publishing-canonical.ts. The canonical text determines the document,
    so equal digests mean equal documents or a collision at two concrete texts.
  \<^item> Pub_Candidate, Candidate_Intake, Candidate_History: the candidate validators, the reducer of
    candidate events (publication-candidate-state.ts) and what any sequence of events keeps.
  \<^item> Pub_Policy, Pub_Envelope, Pub_Binding: every validator of publishing-policy.ts; Pub_Claims,
    Pub_Messages and Digest_Claims state what an accepted document binds.
  \<^item> Cairo_Time: cairo-time.util.ts over an arbitrary time zone database, with the round trip of
    accepted local times.

  \<^bold>\<open>Publishing service\<close> (apps/api/src/modules/publishing)
  \<^item> Publish_Store: rows, unique indexes and errors; Publish_Intents, Publish_Local: intents.service.ts;
    Publish_Serializers, Publish_Dispatch: serializers.ts, dispatch-envelope.builder.ts and the
    database steps of dispatch.processor.ts; Publish_Callbacks: callbacks.controller.ts,
    admin.controller.ts, reconciliation.service.ts.
  \<^item> Publish_World: one transition system of all of it. A step is one request, one transaction or
    network call of a worker, a sweep or the runner; jobs are delivered any number of times and
    workers crash anywhere. Publish_Lasting states what kinds of write preserve (locales \<open>frame_law\<close>,
    \<open>settling_law\<close>, \<open>lasting\<close>); Publish_Safety and Publish_Flight interpret them on concrete facts.
  \<^item> Publish_Claims, Publish_Approval, Publish_Replies, Publish_Served, Publish_Process: an attempt is
    posted at most once, what is posted was approved, a version has one open delivery, a settled
    result is final, callbacks are idempotent, documents are served in contract form, and the
    sequential job of the code is a run of the transition system.

  \<^bold>\<open>Billing\<close> (apps/api/src/modules/billing)
  \<^item> Billing_Catalog, Billing_Store, Billing_Wallet, Billing_Checkout: billing-types.ts and
    billing.service.ts, with 32-bit integer columns. Billing_Claims, Billing_Samples and
    Billing_Theorems: solvency and the correspondence of payments and points over any history, and
    the refinement of an abstract wallet that knows only claims.
  \<^item> Payment_Providers, Payment_Claims: the two payment adapters as interpretations of the locale
    \<open>payment_port\<close>. Billing_Outbox, Outbox_Claims: leases, retries, at most five attempts.
    Billing_Entitlements: the gate and the provider-cost circuit breaker.

  \<^bold>\<open>Orchestration\<close> (apps/api/src/modules/orchestration, contracts/src/orchestration)
  \<^item> Orch_Contract, Orch_Service: lifecycle table, contract checks, repository and service, each
    method that reads and then writes split in two. Orch_World, Orch_Claims: the interleaved
    system; one run per idempotency key, lifecycle, numbering of events, who may resume.

  \<^bold>\<open>Optimization\<close> (contracts/src/performance/optimization-*.ts, apps/api/src/modules/performance/optimization)
  \<^item> Opt_Policy, Opt_Contract: vocabularies, digests and every validator. Opt_Analyzer,
    Opt_Analysis: the deterministic comparison in double arithmetic. Opt_Request, Opt_Claims: the
    request the service sends, and the equivalence of the analyzer's numbers with those the validator
    recomputes.
  \<^item> Opt_Store: optimization.repository.ts, proposals, decisions and approved instructions with the
    constraints of their migrations. Opt_Service: optimization.service.ts and optimization-ai.client.ts,
    the reply of the AI service a parameter. Opt_World: the rules of the three tables and that every
    operation keeps them; a stored proposal always loads as a valid workspace. Opt_Samples,
    Opt_Decisions: a decision is final and its request idempotent, readiness fails closed, and what is
    generated carries the identity of the analysis.

  \<^bold>\<open>Content weeks\<close> (apps/api/src/modules/content)
  \<^item> Week_Schedule: content-schedule.ts over an arbitrary zone of Cairo; its lemmas hold for offsets that are
    two or three hours. Week_Store: the tables; Week_Cycles: content-cycle.repository.ts and
    content-scheduler.service.ts; Week_Plans: content-week-context.repository.ts and
    v2/content-week-plan.repository.ts; Week_Packs: the claims, statuses and progress events of
    content-pack.repository.ts.
  \<^item> Week_World: the rules of the tables (unique indexes, what backs a pack and a consumed instruction)
    and the order in which rows may change; every operation keeps both. Week_Run: histories of all
    operations, decisions on proposals included. Week_Moves: what a claim answers and what a tick of the
    cron job moves. Week_Samples, Week_Claims: an example history and the properties.

  \<^bold>\<open>Interfaces.\<close> Every locale is interpreted on the model's own definitions: \<open>unique_index\<close> on the
  tables of Billing_Store, Billing_Checkout and Billing_Entitlements; \<open>step_invariant\<close> and \<open>step_order\<close>
  on \<open>billing_step\<close>, \<open>outbox_step\<close>, \<open>intake_step\<close>, \<open>orch_step\<close> and \<open>week_step\<close>; \<open>frame_law\<close>, \<open>settling_law\<close> and
  \<open>lasting\<close> on facts of the publishing database; \<open>payment_port\<close> on both adapters.

  \<^bold>\<open>Termination and bounds.\<close> No definition uses fuel: recursion is structural or has a measure (the
  nesting of JSON, the rest of a text in a regular expression). Histories are finite lists of labels
  of any length. An outbox event is counted at most five times; sums of points are bounded by the
  32-bit columns; numbers of the optimization are rationals rounded to doubles
  (\<open>double_of\<close>), and the equivalence with the validator is stated for whole counts up to 10^8,
  where its relative tolerance of 10^-9 tells different counts apart.

  \<^bold>\<open>Limits.\<close> Strings are lists of code units below 256, so patterns that only match Arabic text
  match nothing; identifiers are compared as texts in lower case; JSON numbers are finite; rounding to
  doubles has no overflow to infinity. A database transaction is atomic and serializable where the
  code takes a row lock or an advisory lock, and otherwise is split at its reads. Hypotheses on
  \<open>js_env\<close> are named (\<open>num_ok\<close>, \<open>sha_ok\<close>, \<open>collates\<close>, \<open>collates_ids\<close>) and hold of the sample environment.

  \<^bold>\<open>Not modelled.\<close> HTTP clients, OAuth and the credential vault of the Meta connection (I/O); audit
  records, paged list queries and log sanitizing (no effect on the modelled state); the AI-driven
  interview, strategy and content generation, whose results come from a model that is not under src,
  and with them the items, versions and assets of a pack (a pack only reads the status of its items);
  the confirmed profile and the reusable assets of a cycle are parameters;
  sessions and mail delivery; the web client.
\<close>

end
